(* ===== verification/Prelude.thy ===== *)
theory Prelude
  imports Main "HOL-Library.Sublist"
begin

section \<open>Prelude: shared hints and generic lemmas\<close>

text \<open>
  The collections of facts that the component theories fill, and the generic facts about
  lists, options and sums they share. Nothing here models the program.

  Conventions of the development. A Rust \<open>Result<T, E>\<close> is the sum type \<open>E + T\<close>
  (\<open>Inl\<close> the error); an \<open>Option<T>\<close> is \<open>T option\<close>; a struct is a record; an enum is a
  datatype; a \<open>String\<close> is an Isabelle \<open>string\<close>, whose characters are the bytes of the
  UTF-8 encoding; a panic is an explicit value of the result type; \<open>u32\<close> and \<open>i32\<close> values
  are \<open>32 word\<close>.
\<close>

named_theorems wire_simps "unfolding the wire-level helpers of the stream buffers"
named_theorems buffer_inv "preservation facts of the stream-buffer invariants"
named_theorems api_simps "unfolding the finite API tables"

subsection \<open>Results\<close>

definition is_ok :: "'e + 'a \<Rightarrow> bool" where
  "is_ok r = (case r of Inl _ \<Rightarrow> False | Inr _ \<Rightarrow> True)"

lemma is_ok_simps [simp]: "\<not> is_ok (Inl e)" "is_ok (Inr x)"
  by (simp_all add: is_ok_def)

lemma is_ok_iff: "is_ok r \<longleftrightarrow> (\<exists>x. r = Inr x)"
  by (cases r) simp_all

subsection \<open>Lists\<close>

lemma hd_dropWhile_not: "dropWhile P xs \<noteq> [] \<Longrightarrow> \<not> P (hd (dropWhile P xs))"
  by (rule hd_dropWhile)

lemma map_filter_Cons:
  "List.map_filter f (x # xs) =
    (case f x of None \<Rightarrow> List.map_filter f xs | Some y \<Rightarrow> y # List.map_filter f xs)"
  by (simp add: List.map_filter_def split: option.splits)

lemma map_filter_append [simp]:
  "List.map_filter f (xs @ ys) = List.map_filter f xs @ List.map_filter f ys"
  by (simp add: List.map_filter_def)

lemma set_map_filter: "set (List.map_filter f xs) = {y. \<exists>x \<in> set xs. f x = Some y}"
  by (induction xs) (auto simp: map_filter_Cons split: option.splits)

lemma foldl_invariant:
  assumes "P s" and "\<And>s x. P s \<Longrightarrow> x \<in> set xs \<Longrightarrow> P (f s x)"
  shows "P (foldl f s xs)"
  using assms by (induction xs arbitrary: s) auto

end
