(* ===== verification/Rust_Str.thy ===== *)
theory Rust_Str
  imports Prelude "HOL-Library.Word"
begin

section \<open>The string operations of the Rust standard library\<close>

text \<open>
  A Rust \<open>str\<close> is a sequence of UTF-8 bytes, and an Isabelle \<open>char\<close> is a byte, so a
  \<open>string\<close> is exactly the contents of a \<open>str\<close>; \<open>length\<close> is \<open>str::len\<close>.
  Nothing here has an entry in the map of the development: these are the standard
  library's operations, as the components use them.
\<close>

type_synonym u32 = "32 word"
type_synonym i32 = "32 word"

subsection \<open>Prefixes, suffixes, splitting\<close>

definition starts_with :: "string \<Rightarrow> string \<Rightarrow> bool" where
  "starts_with s p = (take (length p) s = p)"

definition ends_with :: "string \<Rightarrow> string \<Rightarrow> bool" where
  "ends_with s p = (length p \<le> length s \<and> drop (length s - length p) s = p)"

definition strip_prefix :: "string \<Rightarrow> string \<Rightarrow> string option" where
  "strip_prefix s p = (if starts_with s p then Some (drop (length p) s) else None)"

lemma starts_with_append [simp]: "starts_with (p @ s) p"
  by (simp add: starts_with_def)

lemma starts_with_iff: "starts_with s p \<longleftrightarrow> (\<exists>t. s = p @ t)"
  by (metis append_take_drop_id starts_with_append starts_with_def)

lemma ends_with_append [simp]: "ends_with (s @ p) p"
  by (simp add: ends_with_def)

lemma ends_with_iff: "ends_with s p \<longleftrightarrow> (\<exists>t. s = t @ p)"
  by (metis append_take_drop_id ends_with_append ends_with_def)

text \<open>\<open>str::split_once(c)\<close>: the parts before and after the first \<open>c\<close>.\<close>

fun split_once :: "char \<Rightarrow> string \<Rightarrow> (string \<times> string) option" where
  "split_once c [] = None"
| "split_once c (x # xs) =
     (if x = c then Some ([], xs)
      else map_option (\<lambda>(a, b). (x # a, b)) (split_once c xs))"

lemma split_once_None [simp]: "split_once c s = None \<longleftrightarrow> c \<notin> set s"
  by (induction s) auto

lemma split_once_Some: "split_once c s = Some (a, b) \<longleftrightarrow> s = a @ c # b \<and> c \<notin> set a"
proof (induction s arbitrary: a)
  case Nil
  then show ?case by simp
next
  case (Cons x xs)
  then show ?case by (cases a) auto
qed

text \<open>\<open>str::split(c)\<close> for a single character: \<open>n\<close> occurrences give \<open>n + 1\<close> parts.\<close>

fun split_char :: "char \<Rightarrow> string \<Rightarrow> string list" where
  "split_char c [] = [[]]"
| "split_char c (x # xs) =
     (if x = c then [] # split_char c xs
      else (case split_char c xs of [] \<Rightarrow> [[x]] | p # ps \<Rightarrow> (x # p) # ps))"

lemma split_char_not_Nil [simp]: "split_char c s \<noteq> []"
  by (cases s) (auto split: list.splits)

lemma split_char_no_sep: "\<forall>p \<in> set (split_char c s). c \<notin> set p"
proof (induction s)
  case Nil
  then show ?case by simp
next
  case (Cons x xs)
  then show ?case by (cases "split_char c xs") simp_all
qed

definition contains_char :: "string \<Rightarrow> char \<Rightarrow> bool" where
  "contains_char s c = (c \<in> set s)"

fun contains_str :: "string \<Rightarrow> string \<Rightarrow> bool" where
  "contains_str [] p = (p = [])"
| "contains_str (x # xs) p = (starts_with (x # xs) p \<or> contains_str xs p)"

subsection \<open>Trimming\<close>

definition trim_start_matches :: "char \<Rightarrow> string \<Rightarrow> string" where
  "trim_start_matches c s = dropWhile (\<lambda>x. x = c) s"

definition trim_end_matches :: "char \<Rightarrow> string \<Rightarrow> string" where
  "trim_end_matches c s = rev (dropWhile (\<lambda>x. x = c) (rev s))"

definition trim_matches :: "char \<Rightarrow> string \<Rightarrow> string" where
  "trim_matches c s = trim_end_matches c (trim_start_matches c s)"

lemma trim_start_matches_hd: "trim_start_matches c s = x # xs \<Longrightarrow> x \<noteq> c"
  by (induction s) (auto simp: trim_start_matches_def split: if_splits)

lemma trim_start_matches_id: "hd s \<noteq> c \<Longrightarrow> trim_start_matches c s = s"
  by (cases s) (auto simp: trim_start_matches_def)

lemma dropWhile_eq_replicate: "\<exists>n. s = replicate n c @ dropWhile (\<lambda>x. x = c) s"
proof (induction s)
  case Nil
  then show ?case by simp
next
  case (Cons a s)
  then obtain n where n: "s = replicate n c @ dropWhile (\<lambda>x. x = c) s" by (rule exE)
  show ?case
  proof (cases "a = c")
    case True
    then have "a # s = replicate (Suc n) c @ dropWhile (\<lambda>x. x = c) (a # s)"
      using n by simp
    then show ?thesis by blast
  next
    case False
    then have "a # s = replicate 0 c @ dropWhile (\<lambda>x. x = c) (a # s)" by simp
    then show ?thesis by blast
  qed
qed

lemma trim_end_matches_prefix: "\<exists>n. s = trim_end_matches c s @ replicate n c"
proof -
  obtain n where "rev s = replicate n c @ dropWhile (\<lambda>x. x = c) (rev s)"
    using dropWhile_eq_replicate [of "rev s" c] by (rule exE)
  then have "rev (rev s) = rev (replicate n c @ dropWhile (\<lambda>x. x = c) (rev s))"
    by (rule arg_cong)
  then have "s = trim_end_matches c s @ replicate n c"
    by (simp add: trim_end_matches_def)
  then show ?thesis by blast
qed

lemma trim_matches_hd:
  assumes "trim_matches c s = x # xs"
  shows "x \<noteq> c"
proof -
  obtain n where "trim_start_matches c s = trim_matches c s @ replicate n c"
    unfolding trim_matches_def
    using trim_end_matches_prefix [of "trim_start_matches c s" c] by (rule exE)
  with assms have "trim_start_matches c s = x # (xs @ replicate n c)" by simp
  then show ?thesis by (rule trim_start_matches_hd)
qed

text \<open>
  \<open>str::trim_end_matches(p)\<close> for a string pattern removes the suffix as often as it occurs.
\<close>

function trim_end_str :: "string \<Rightarrow> string \<Rightarrow> string" where
  "trim_end_str p s =
     (if p \<noteq> [] \<and> ends_with s p then trim_end_str p (take (length s - length p) s) else s)"
  by pat_completeness auto
termination
  by (relation "measure (\<lambda>(p, s). length s)") (auto simp: ends_with_def intro!: diff_less)

declare trim_end_str.simps [simp del]

text \<open>
  \<open>str::trim\<close> removes characters with the Unicode property White\_Space. \<open>ws_prefix s\<close> is
  the number of bytes of a white-space character at the start of \<open>s\<close> (0 if there is none):
  one byte for U+0009 to U+000D and U+0020, two for U+0085 and U+00A0, three for U+1680,
  U+2000 to U+200A, U+2028, U+2029, U+202F, U+205F and U+3000.
\<close>

definition ws1 :: "nat \<Rightarrow> bool" where
  "ws1 a = ((9 \<le> a \<and> a \<le> 13) \<or> a = 32)"

definition ws2 :: "nat \<Rightarrow> nat \<Rightarrow> bool" where
  "ws2 a b = (a = 194 \<and> (b = 133 \<or> b = 160))"

definition ws3 :: "nat \<Rightarrow> nat \<Rightarrow> nat \<Rightarrow> bool" where
  "ws3 a b c =
     ((a = 225 \<and> b = 154 \<and> c = 128) \<or>
      (a = 226 \<and> b = 128 \<and> ((128 \<le> c \<and> c \<le> 138) \<or> c = 168 \<or> c = 169 \<or> c = 175)) \<or>
      (a = 226 \<and> b = 129 \<and> c = 159) \<or>
      (a = 227 \<and> b = 128 \<and> c = 128))"

abbreviation byte :: "char \<Rightarrow> nat" where
  "byte c \<equiv> of_char c"

fun trim_start_ws :: "string \<Rightarrow> string" where
  "trim_start_ws (a # b # c # s) =
     (if ws1 (byte a) then trim_start_ws (b # c # s)
      else if ws2 (byte a) (byte b) then trim_start_ws (c # s)
      else if ws3 (byte a) (byte b) (byte c) then trim_start_ws s
      else a # b # c # s)"
| "trim_start_ws [a, b] =
     (if ws1 (byte a) then trim_start_ws [b]
      else if ws2 (byte a) (byte b) then [] else [a, b])"
| "trim_start_ws [a] = (if ws1 (byte a) then [] else [a])"
| "trim_start_ws [] = []"

fun trim_rev_ws :: "string \<Rightarrow> string" where
  "trim_rev_ws (c # b # a # s) =
     (if ws1 (byte c) then trim_rev_ws (b # a # s)
      else if ws2 (byte b) (byte c) then trim_rev_ws (a # s)
      else if ws3 (byte a) (byte b) (byte c) then trim_rev_ws s
      else c # b # a # s)"
| "trim_rev_ws [c, b] =
     (if ws1 (byte c) then trim_rev_ws [b]
      else if ws2 (byte b) (byte c) then [] else [c, b])"
| "trim_rev_ws [c] = (if ws1 (byte c) then [] else [c])"
| "trim_rev_ws [] = []"

definition trim :: "string \<Rightarrow> string" where
  "trim s = rev (trim_rev_ws (rev (trim_start_ws s)))"

subsection \<open>Case\<close>

text \<open>
  \<open>str::to_lowercase\<close>. The source only compares its result with ASCII literals. ASCII
  letters are mapped; the one non-ASCII character whose lower-case form is ASCII, the Kelvin
  sign U+212A (bytes E2 84 AA), becomes \<open>k\<close>; the lower-case form of every other non-ASCII
  character contains a non-ASCII character, so its bytes can stay as they are here without
  changing any such comparison.
\<close>

definition ascii_lower :: "char \<Rightarrow> char" where
  "ascii_lower c = (if 65 \<le> byte c \<and> byte c \<le> (90::nat) then char_of (byte c + 32 :: nat) else c)"

fun to_lowercase :: "string \<Rightarrow> string" where
  "to_lowercase (a # b # c # s) =
     (if byte a = 226 \<and> byte b = 132 \<and> byte c = 170 then CHR ''k'' # to_lowercase s
      else ascii_lower a # to_lowercase (b # c # s))"
| "to_lowercase (a # s) = ascii_lower a # to_lowercase s"
| "to_lowercase [] = []"

subsection \<open>UTF-8 character boundaries\<close>

text \<open>
  \<open>str::is_char_boundary(i)\<close>: the start, the end, or a byte that is not a continuation
  byte (10xxxxxx). An index past the end is no boundary.
\<close>

definition is_cont_byte :: "char \<Rightarrow> bool" where
  "is_cont_byte c = (128 \<le> byte c \<and> byte c < (192::nat))"

definition is_char_boundary :: "string \<Rightarrow> nat \<Rightarrow> bool" where
  "is_char_boundary s i =
     (i = 0 \<or> i = length s \<or> (i < length s \<and> \<not> is_cont_byte (s ! i)))"

lemma is_char_boundary_0 [simp]: "is_char_boundary s 0"
  by (simp add: is_char_boundary_def)

lemma is_char_boundary_length [simp]: "is_char_boundary s (length s)"
  by (simp add: is_char_boundary_def)

lemma is_char_boundary_le: "is_char_boundary s i \<Longrightarrow> i \<le> length s"
  by (auto simp: is_char_boundary_def)

subsection \<open>Joining and decimal numbers\<close>

fun join :: "string \<Rightarrow> string list \<Rightarrow> string" where
  "join sep [] = []"
| "join sep [s] = s"
| "join sep (s # t # ts) = s @ sep @ join sep (t # ts)"

text \<open>The \<open>Display\<close> form of an unsigned integer.\<close>

fun digits :: "nat \<Rightarrow> string" where
  "digits n = (if n < 10 then [char_of (48 + n)] else digits (n div 10) @ [char_of (48 + n mod 10)])"

declare digits.simps [simp del]

subsection \<open>Lines\<close>

text \<open>
  \<open>str::lines\<close>: a line ends at a line feed, which is removed with a carriage return right
  before it; a last line without line feed is kept as it is, an empty one is not a line.
\<close>

definition nl :: char where "nl = CHR 0x0A"
definition cr :: char where "cr = CHR 0x0D"

definition strip_cr :: "string \<Rightarrow> string" where
  "strip_cr l = (if l \<noteq> [] \<and> last l = cr then butlast l else l)"

definition str_lines :: "string \<Rightarrow> string list" where
  "str_lines s =
     (let ps = split_char nl s
      in map strip_cr (butlast ps) @ (if last ps = [] then [] else [last ps]))"

lemma split_char_append:
  "split_char c (a @ c # b) = split_char c a @ split_char c b"
proof (induction a)
  case Nil
  then show ?case by simp
next
  case (Cons x xs)
  then show ?case by (cases "split_char c xs") auto
qed

lemma split_char_single: "c \<notin> set s \<Longrightarrow> split_char c s = [s]"
  by (induction s) auto

lemma str_lines_Nil [simp]: "str_lines [] = []"
  by (simp add: str_lines_def)

lemma str_lines_append_nl:
  "str_lines (a @ nl # b) = str_lines (a @ [nl]) @ str_lines b"
  by (simp add: str_lines_def split_char_append Let_def butlast_append)

lemma str_lines_append:
  assumes "a = [] \<or> last a = nl"
  shows "str_lines (a @ b) = str_lines a @ str_lines b"
proof (cases "a = []")
  case False
  with assms have "a = butlast a @ [nl]" by (metis append_butlast_last_id)
  then show ?thesis using str_lines_append_nl [of "butlast a" b] by (metis append.assoc append_Cons append_Nil)
qed simp

lemma str_lines_single:
  "nl \<notin> set l \<Longrightarrow> l \<noteq> [] \<Longrightarrow> str_lines l = [l]"
  by (simp add: str_lines_def split_char_single)

lemma str_lines_terminated:
  "nl \<notin> set l \<Longrightarrow> str_lines (l @ nl # b) = strip_cr l # str_lines b"
  by (simp add: str_lines_def split_char_append split_char_single butlast_append Let_def)

subsection \<open>UTF-8 validation\<close>

text \<open>
  \<open>std::str::from_utf8\<close>. \<open>utf8_step\<close> is the width of the first
  character or the error there; \<open>utf8_scan i s\<close> is \<open>None\<close> when the bytes \<open>s\<close> are valid, otherwise
  the offset (from \<open>i\<close>) of the first invalid sequence and its length, \<open>None\<close> when the input
  ends inside a sequence that could still become valid (\<open>Utf8Error::valid_up_to\<close> and
  \<open>error_len\<close>).
\<close>

definition in_range :: "nat \<Rightarrow> nat \<Rightarrow> char \<Rightarrow> bool" where
  "in_range lo hi c = (lo \<le> byte c \<and> byte c \<le> hi)"

definition utf8_second :: "char \<Rightarrow> char \<Rightarrow> bool" where
  "utf8_second a b =
     (if byte a = (224::nat) then in_range 160 191 b
      else if byte a = (237::nat) then in_range 128 159 b
      else if byte a = (240::nat) then in_range 144 191 b
      else if byte a = (244::nat) then in_range 128 143 b
      else is_cont_byte b)"

fun utf8_step :: "string \<Rightarrow> nat option + nat" where
  "utf8_step [] = Inr 0"
| "utf8_step (a # s) =
     (if byte a < (128::nat) then Inr 1
      else if in_range 194 223 a then
        (case s of
           [] \<Rightarrow> Inl None
         | b # _ \<Rightarrow> if is_cont_byte b then Inr 2 else Inl (Some 1))
      else if in_range 224 239 a then
        (case s of
           [] \<Rightarrow> Inl None
         | [b] \<Rightarrow> if utf8_second a b then Inl None else Inl (Some 1)
         | b # c # _ \<Rightarrow>
             if \<not> utf8_second a b then Inl (Some 1)
             else if is_cont_byte c then Inr 3 else Inl (Some 2))
      else if in_range 240 244 a then
        (case s of
           [] \<Rightarrow> Inl None
         | [b] \<Rightarrow> if utf8_second a b then Inl None else Inl (Some 1)
         | [b, c] \<Rightarrow>
             if \<not> utf8_second a b then Inl (Some 1)
             else if is_cont_byte c then Inl None else Inl (Some 2)
         | b # c # d # _ \<Rightarrow>
             if \<not> utf8_second a b then Inl (Some 1)
             else if \<not> is_cont_byte c then Inl (Some 2)
             else if is_cont_byte d then Inr 4 else Inl (Some 3))
      else Inl (Some 1))"

lemma utf8_step_Inr:
  assumes "utf8_step (a # s) = Inr n"
  shows "0 < n" "n \<le> length (a # s)"
  using assms by (auto split: if_splits list.splits)

lemma utf8_step_append:
  "utf8_step (a # s) = Inr n \<Longrightarrow> utf8_step (a # s @ b) = Inr n"
  by (auto split: if_splits list.splits)

declare utf8_step.simps [simp del]

function utf8_scan :: "nat \<Rightarrow> string \<Rightarrow> (nat \<times> nat option) option" where
  "utf8_scan i [] = None"
| "utf8_scan i (a # s) =
     (case utf8_step (a # s) of
        Inl l \<Rightarrow> Some (i, l)
      | Inr n \<Rightarrow> utf8_scan (i + n) (drop n (a # s)))"
  by pat_completeness auto
termination
  by (relation "measure (\<lambda>(i, s). length s)") (auto dest: utf8_step_Inr)

declare utf8_scan.simps(2) [simp del]

definition utf8_error_display :: "nat \<times> nat option \<Rightarrow> string" where
  "utf8_error_display e =
     (case snd e of
        Some n \<Rightarrow> ''invalid utf-8 sequence of '' @ digits n @ '' bytes from index '' @ digits (fst e)
      | None \<Rightarrow> ''incomplete utf-8 byte sequence from index '' @ digits (fst e))"

definition valid_utf8 :: "string \<Rightarrow> bool" where
  "valid_utf8 s = (utf8_scan 0 s = None)"

lemma utf8_scan_append:
  "utf8_scan i a = None \<Longrightarrow> utf8_scan i (a @ b) = utf8_scan (i + length a) b"
proof (induction i a rule: utf8_scan.induct)
  case (1 i)
  then show ?case by simp
next
  case (2 i x s)
  then obtain n where n: "utf8_step (x # s) = Inr n"
    by (cases "utf8_step (x # s)") (simp_all add: utf8_scan.simps)
  note le = utf8_step_Inr [OF n]
  have "utf8_scan (i + n) (drop n (x # s)) = None"
    using "2.prems" n by (simp add: utf8_scan.simps)
  then have "utf8_scan (i + n) (drop n (x # s) @ b) =
      utf8_scan (i + n + length (drop n (x # s))) b"
    by (rule "2.IH" [OF n])
  moreover have "i + n + length (drop n (x # s)) = i + length (x # s)" using le by simp
  moreover have "drop n (x # s @ b) = drop n (x # s) @ b"
    using le drop_append [of n "x # s" b] by simp
  ultimately show ?case
    using utf8_step_append [OF n, of b] by (simp add: utf8_scan.simps)
qed

lemma utf8_scan_None_offset: "utf8_scan i s = None \<Longrightarrow> utf8_scan j s = None"
proof (induction i s arbitrary: j rule: utf8_scan.induct)
  case (1 i)
  then show ?case by simp
next
  case (2 i x s)
  then show ?case by (cases "utf8_step (x # s)") (simp_all add: utf8_scan.simps)
qed

lemma valid_utf8_append: "valid_utf8 a \<Longrightarrow> valid_utf8 b \<Longrightarrow> valid_utf8 (a @ b)"
  by (simp add: valid_utf8_def utf8_scan_append utf8_scan_None_offset)

lemma valid_utf8_Nil [simp]: "valid_utf8 []"
  by (simp add: valid_utf8_def)

lemma utf8_scan_ascii: "\<forall>c \<in> set s. byte c < (128::nat) \<Longrightarrow> utf8_scan i s = None"
  by (induction s arbitrary: i) (auto simp: utf8_scan.simps utf8_step.simps)

lemma valid_utf8_ascii: "\<forall>c \<in> set s. byte c < (128::nat) \<Longrightarrow> valid_utf8 s"
  by (simp add: valid_utf8_def utf8_scan_ascii)

text \<open>Validity is kept by cutting at an ASCII character: the parts and lines of valid bytes are valid.\<close>

lemma utf8_step_ascii_split:
  "byte c < (128::nat) \<Longrightarrow> utf8_step (x # xs @ c # b) = Inr n \<Longrightarrow> utf8_step (x # xs) = Inr n"
  by (cases xs; cases "tl xs"; cases "tl (tl xs)")
    (auto simp: utf8_step.simps utf8_second_def in_range_def is_cont_byte_def split: if_splits list.splits)

lemma utf8_scan_ascii_split:
  "byte c < (128::nat) \<Longrightarrow> utf8_scan i (a @ c # b) = None \<Longrightarrow> utf8_scan i a = None"
proof (induction i a rule: utf8_scan.induct)
  case (2 i x s)
  then obtain n where n: "utf8_step (x # s @ c # b) = Inr n"
    "utf8_scan (i + n) (drop n (x # s @ c # b)) = None"
    by (auto simp: utf8_scan.simps(2) split: sum.splits)
  have s: "utf8_step (x # s) = Inr n" using utf8_step_ascii_split [OF "2.prems"(1) n(1)] .
  have "drop n (x # s @ c # b) = drop n (x # s) @ c # b"
    using utf8_step_Inr [OF s] drop_append [of n "x # s" "c # b"] by simp
  then have "utf8_scan (i + n) (drop n (x # s)) = None"
    using "2.IH" [OF s] "2.prems"(1) n(2) by simp
  then show ?case using s by (simp add: utf8_scan.simps(2))
qed simp

lemma valid_utf8_before: "byte c < (128::nat) \<Longrightarrow> valid_utf8 (a @ c # b) \<Longrightarrow> valid_utf8 a"
  unfolding valid_utf8_def by (rule utf8_scan_ascii_split)

lemma valid_utf8_after:
  assumes "byte c < (128::nat)" "valid_utf8 (a @ c # b)"
  shows "valid_utf8 b"
proof -
  have "utf8_scan 0 a = None" using valid_utf8_before [OF assms] by (simp add: valid_utf8_def)
  then have "utf8_scan (length a) (c # b) = None"
    using assms(2) utf8_scan_append [of 0 a "c # b"] by (simp add: valid_utf8_def)
  then show ?thesis
    using assms(1) utf8_scan_None_offset by (auto simp: utf8_scan.simps(2) utf8_step.simps valid_utf8_def)
qed

lemma split_char_valid:
  "byte c < (128::nat) \<Longrightarrow> valid_utf8 s \<Longrightarrow> l \<in> set (split_char c s) \<Longrightarrow> valid_utf8 l"
proof (induction "length s" arbitrary: s rule: less_induct)
  case less
  show ?case
  proof (cases "c \<in> set s")
    case True
    then obtain a b where s: "s = a @ c # b" "c \<notin> set a" by (meson split_list_first)
    have v: "valid_utf8 a" "valid_utf8 b"
      using less.prems(1,2) s(1) valid_utf8_before valid_utf8_after by blast+
    show ?thesis
      using less.prems(3) less.hyps [OF _ less.prems(1) v(2)] v(1) s
      by (auto simp: split_char_append split_char_single)
  next
    case False
    then show ?thesis using less.prems(2,3) by (simp add: split_char_single)
  qed
qed

lemma strip_cr_valid: "valid_utf8 l \<Longrightarrow> valid_utf8 (strip_cr l)"
proof (cases "l \<noteq> [] \<and> last l = cr")
  case True
  assume "valid_utf8 l"
  moreover have "l = butlast l @ [cr]" using True append_butlast_last_id [of l] by simp
  moreover have "byte cr < (128::nat)" by (simp add: cr_def)
  ultimately have "valid_utf8 (butlast l)" using valid_utf8_before [of cr "butlast l" "[]"] by simp
  then show ?thesis using True by (simp add: strip_cr_def)
qed (auto simp: strip_cr_def)

lemma str_lines_valid: "valid_utf8 s \<Longrightarrow> l \<in> set (str_lines s) \<Longrightarrow> valid_utf8 l"
proof -
  assume v: "valid_utf8 s" and l: "l \<in> set (str_lines s)"
  have n: "byte nl < (128::nat)" by (simp add: nl_def)
  have "split_char nl s \<noteq> []" by (cases s) (auto split: list.splits)
  then have ps: "\<forall>p \<in> set (split_char nl s). valid_utf8 p" "last (split_char nl s) \<in> set (split_char nl s)"
    using split_char_valid [OF n v] by auto
  show ?thesis
    using l ps strip_cr_valid in_set_butlastD [of _ "split_char nl s"]
    by (auto simp: str_lines_def Let_def split: if_splits)
qed

end
