(* ===== verification/Stream_Types.thy ===== *)
theory Stream_Types
  imports Rust_Str
begin

section \<open>The streaming data types of the provider APIs\<close>

text \<open>
  The wire types of the three streaming protocols the gateway translates between:
  Chat Completions chunks (\<open>crates/hermesllm/src/apis/openai.rs\<close>), Anthropic Messages events
  (\<open>apis/anthropic.rs\<close>), Amazon Bedrock ConverseStream events (\<open>apis/amazon_bedrock.rs\<close>) and
  Responses-API events (\<open>apis/openai_responses.rs\<close>). The datatype \<open>json\<close> mirrors the
  documented variants of \<open>serde_json::Value\<close>; a number is its decimal text. \<open>f32\<close> fields are
  only copied, and are kept as their IEEE bit patterns; the metadata map of a response is only
  copied too, and is the list of its entries.
\<close>

datatype json =
    JNull | JBool bool | JNumber string | JString string
  | JArray "json list" | JObject "(string \<times> json) list"

type_synonym f32 = "32 word"
type_synonym u64 = "64 word"
type_synonym i64 = "64 word"

subsection \<open>Chat Completions chunks\<close>

datatype role = R_System | R_User | R_Assistant | R_Tool | R_Developer

datatype finish_reason = FR_Stop | FR_Length | FR_ToolCalls | FR_ContentFilter | FR_FunctionCall

record prompt_tokens_details =
  ptd_cached_tokens :: "u32 option"
  ptd_audio_tokens :: "u32 option"

record completion_tokens_details =
  ctd_reasoning_tokens :: "u32 option"
  ctd_audio_tokens :: "u32 option"
  ctd_accepted_prediction_tokens :: "u32 option"
  ctd_rejected_prediction_tokens :: "u32 option"

record usage =
  prompt_tokens :: u32
  completion_tokens :: u32
  total_tokens :: u32
  u_prompt_tokens_details :: "prompt_tokens_details option"
  u_completion_tokens_details :: "completion_tokens_details option"

record function_call =
  fc_name :: string
  fc_arguments :: string

record function_call_delta =
  fcd_name :: "string option"
  fcd_arguments :: "string option"

record tool_call_delta =
  tcd_index :: u32
  tcd_id :: "string option"
  tcd_call_type :: "string option"
  tcd_function :: "function_call_delta option"

record message_delta =
  md_role :: "role option"
  md_content :: "string option"
  md_refusal :: "string option"
  md_function_call :: "function_call option"
  md_tool_calls :: "tool_call_delta list option"

record stream_choice =
  sc_index :: u32
  sc_delta :: message_delta
  sc_finish_reason :: "finish_reason option"
  sc_logprobs :: "json option"

record chat_chunk =
  cc_id :: string
  cc_object :: "string option"
  cc_created :: u64
  cc_model :: string
  cc_choices :: "stream_choice list"
  cc_usage :: "usage option"
  cc_system_fingerprint :: "string option"
  cc_service_tier :: "string option"

subsection \<open>Anthropic Messages events\<close>

datatype messages_role = MR_User | MR_Assistant | MR_System

datatype cache_control = Ephemeral

datatype image_source = IS_Base64 string string | IS_Url string

datatype document_source =
    DS_Base64 string string
  | DS_Url string
  | DS_File string

text \<open>The block type is a parameter of the content of a tool result, which holds blocks in turn.\<close>

datatype 'b tool_result_content =
    TRC_Text string
  | TRC_Blocks "'b list"

datatype content_block =
    CB_Text string "cache_control option"
  | CB_Thinking string "string option" "cache_control option"
  | CB_Image image_source
  | CB_Document document_source
  | CB_ToolUse string string json "cache_control option"
  | CB_ToolResult string "bool option" "content_block tool_result_content" "cache_control option"
  | CB_ServerToolUse string string json
  | CB_WebSearchToolResult string "bool option" "content_block list"
  | CB_CodeExecutionToolResult string "bool option" "content_block list"
  | CB_McpToolUse string string json
  | CB_McpToolResult string "bool option" "content_block list"
  | CB_ContainerUpload string string string string

datatype messages_stop_reason =
    SR_EndTurn | SR_MaxTokens | SR_StopSequence | SR_ToolUse | SR_PauseTurn | SR_Refusal

record messages_usage =
  input_tokens :: u32
  output_tokens :: u32
  cache_creation_input_tokens :: "u32 option"
  cache_read_input_tokens :: "u32 option"

record stream_message =
  sm_id :: string
  sm_obj_type :: string
  sm_role :: messages_role
  sm_content :: "json list"
  sm_model :: string
  sm_stop_reason :: "messages_stop_reason option"
  sm_stop_sequence :: "string option"
  sm_usage :: messages_usage

datatype content_delta =
    TextDelta string | InputJsonDelta string | ThinkingDelta string | SignatureDelta string

record messages_message_delta =
  mmd_stop_reason :: messages_stop_reason
  mmd_stop_sequence :: "string option"

datatype messages_event =
    MessageStart stream_message
  | ContentBlockStart u32 content_block
  | ContentBlockDelta u32 content_delta
  | ContentBlockStop u32
  | MessageDelta messages_message_delta messages_usage
  | MessageStop
  | Ping

subsection \<open>Bedrock ConverseStream events\<close>

datatype conversation_role = CR_User | CR_Assistant

datatype bedrock_stop_reason =
    B_EndTurn | B_ToolUse | B_MaxTokens | B_StopSequence | B_GuardrailIntervened | B_ContentFiltered

record bedrock_token_usage =
  bu_input_tokens :: u32
  bu_output_tokens :: u32
  bu_total_tokens :: u32
  bu_server_tool_usage :: "json option"
  bu_cache_read_input_tokens :: "u32 option"
  bu_cache_write_input_tokens :: "u32 option"

text \<open>\<open>ContentBlockStart::ToolUse\<close> is that enum's only variant: its tool-use id and name.\<close>

datatype bedrock_block_start = B_StartToolUse string string
datatype bedrock_block_delta = B_DeltaText string | B_DeltaToolUse string

record bedrock_exception =
  be_message :: "string option"
  be_original_status_code :: "16 word option"
  be_resource_name :: "string option"
  be_original_message :: "string option"

text \<open>
  The metadata event's metrics, trace and performance configuration are never read; only its
  token usage is modelled.
\<close>

datatype converse_event =
    B_MessageStart conversation_role
  | B_ContentBlockStart i32 bedrock_block_start
  | B_ContentBlockDelta i32 bedrock_block_delta
  | B_ContentBlockStop i32
  | B_MessageStop bedrock_stop_reason "json option"
  | B_Metadata bedrock_token_usage
  | B_InternalServerException bedrock_exception
  | B_ModelStreamErrorException bedrock_exception
  | B_ServiceUnavailableException bedrock_exception
  | B_ThrottlingException bedrock_exception
  | B_ValidationException bedrock_exception

subsection \<open>Responses-API objects and events\<close>

datatype response_status =
    RS_Completed | RS_Failed | RS_InProgress | RS_Cancelled | RS_Queued | RS_Incomplete

datatype response_error_code =
    ServerError | RateLimitExceeded | InvalidPrompt | VectorStoreTimeout | InvalidImage
  | InvalidImageFormat | InvalidBase64Image | InvalidImageUrl | ImageTooLarge | ImageTooSmall
  | ImageParseError | ImageContentPolicyViolation | InvalidImageMode | ImageFileTooLarge
  | UnsupportedImageMediaType | EmptyImageFile | FailedToDownloadImage | ImageFileNotFound

datatype incomplete_reason = IR_MaxOutputTokens | IR_ContentFilter

datatype item_status = OIS_InProgress | OIS_Completed | OIS_Incomplete

datatype annotation =
    FileCitation i32 string string "string option"
  | UrlCitation i32 i32 string string

record log_prob =
  lp_token :: string
  lp_logprob :: f32
  lp_bytes :: "8 word list"

datatype output_content =
    OC_OutputText string "annotation list" "log_prob list option"
  | OC_OutputAudio "string option" "string option"
  | OC_Refusal string

record file_search_result =
  fsr_file_id :: string
  fsr_filename :: string
  fsr_score :: "f32 option"
  fsr_content :: "string option"

datatype code_interpreter_output = CIO_Text string | CIO_Image string

datatype output_item =
    OI_Message string item_status string "output_content list"
  | OI_FunctionCall string item_status string "string option" "string option"
  | OI_FunctionCallOutput string string string "item_status option"
  | OI_FileSearchCall string item_status "string list option" "file_search_result list option"
  | OI_WebSearchCall string item_status
  | OI_CodeInterpreterCall string item_status "string option" "code_interpreter_output list option"
  | OI_ComputerCall string item_status "json option"
  | OI_ComputerCallOutput string string "json option" "item_status option"
  | OI_CustomToolCall string item_status string "string option"
  | OI_CustomToolCallOutput string string string "item_status option"
  | OI_Reasoning string "json list"

record response_usage =
  ru_input_tokens :: i32
  ru_output_tokens :: i32
  ru_total_tokens :: i32
  ru_cached_tokens :: "i32 option"
  ru_reasoning_tokens :: "i32 option"

record user_location =
  ul_location_type :: string
  ul_city :: "string option"
  ul_country :: "string option"
  ul_region :: "string option"
  ul_timezone :: "string option"

datatype resp_tool =
    RT_Function string "string option" "json option" "bool option"
  | RT_FileSearch "string list option" "i32 option" "(string \<times> f32 option) option" "json option"
  | RT_WebSearchPreview "string list option" "string option" "user_location option"
  | RT_CodeInterpreter
  | RT_Computer "i32 option" "i32 option" "i32 option"
  | RT_Custom "string option" "string option" "json option"

datatype text_format = TF_Text | TF_JsonObject | TF_JsonSchema json
datatype reasoning_effort = Low | Medium | High
datatype modality = MO_Text | MO_Audio

record reasoning =
  re_effort :: "reasoning_effort option"
  re_summary :: "string option"

record responses_response =
  rr_id :: string
  rr_object :: string
  rr_created_at :: i64
  rr_status :: response_status
  rr_error :: "(response_error_code \<times> string) option"
  rr_incomplete_details :: "incomplete_reason option"
  rr_instructions :: "string option"
  rr_model :: string
  rr_output :: "output_item list"
  rr_usage :: "response_usage option"
  rr_parallel_tool_calls :: bool
  rr_conversation :: "(string \<times> string) option"
  rr_previous_response_id :: "string option"
  rr_tools :: "resp_tool list"
  rr_tool_choice :: string
  rr_temperature :: f32
  rr_top_p :: f32
  rr_metadata :: "(string \<times> json) list"
  rr_truncation :: "string option"
  rr_max_output_tokens :: "i32 option"
  rr_reasoning :: "reasoning option"
  rr_store :: "bool option"
  rr_text :: "text_format option option"
  rr_audio :: "(string \<times> string option) option"
  rr_modalities :: "modality list option"
  rr_service_tier :: "string option"
  rr_background :: "bool option"
  rr_top_logprobs :: "i32 option"
  rr_max_tool_calls :: "i32 option"

text \<open>
  The last argument of every constructor but \<open>RE_FunctionCallArgumentsDelta\<close> (whose call id and
  name follow it) is the sequence number.
\<close>

datatype responses_event =
    RE_Created responses_response i32
  | RE_InProgress responses_response i32
  | RE_Completed responses_response i32
  | RE_OutputItemAdded i32 output_item i32
  | RE_OutputItemDone i32 output_item i32
  | RE_ContentPartAdded string i32 i32 output_content i32
  | RE_ContentPartDone string i32 i32 output_content i32
  | RE_OutputTextDelta string i32 i32 string "json list" "string option" i32
  | RE_OutputTextDone string i32 i32 string "json list" i32
  | RE_AudioDelta "string option" "i32 option" "i32 option" string i32
  | RE_AudioDone "string option" "i32 option" "i32 option" i32
  | RE_AudioTranscriptDelta "string option" "i32 option" "i32 option" string i32
  | RE_AudioTranscriptDone "string option" "i32 option" "i32 option" "string option" i32
  | RE_FunctionCallArgumentsDelta i32 string string i32 "string option" "string option"
  | RE_FunctionCallArgumentsDone i32 string string i32
  | RE_CodeInterpreterCallCodeDelta i32 string string i32
  | RE_CodeInterpreterCallCodeDone i32 string string i32
  | RE_CodeInterpreterCallInProgress i32 string i32
  | RE_CodeInterpreterCallInterpreting i32 string i32
  | RE_CodeInterpreterCallCompleted i32 string i32
  | RE_CustomToolCallInputDelta i32 string string i32
  | RE_CustomToolCallInputDone i32 string string i32
  | RE_Error string string i32
  | RE_Done i32

subsection \<open>Event names\<close>

fun messages_event_type :: "messages_event \<Rightarrow> string" where
  "messages_event_type (MessageStart _) = ''message_start''"
| "messages_event_type (ContentBlockStart _ _) = ''content_block_start''"
| "messages_event_type (ContentBlockDelta _ _) = ''content_block_delta''"
| "messages_event_type (ContentBlockStop _) = ''content_block_stop''"
| "messages_event_type (MessageDelta _ _) = ''message_delta''"
| "messages_event_type MessageStop = ''message_stop''"
| "messages_event_type Ping = ''ping''"

fun converse_event_type :: "converse_event \<Rightarrow> string" where
  "converse_event_type (B_MessageStart _) = ''message_start''"
| "converse_event_type (B_ContentBlockStart _ _) = ''content_block_start''"
| "converse_event_type (B_ContentBlockDelta _ _) = ''content_block_delta''"
| "converse_event_type (B_ContentBlockStop _) = ''content_block_stop''"
| "converse_event_type (B_MessageStop _ _) = ''message_stop''"
| "converse_event_type (B_Metadata _) = ''metadata''"
| "converse_event_type (B_InternalServerException _) = ''internal_server_exception''"
| "converse_event_type (B_ModelStreamErrorException _) = ''model_stream_error_exception''"
| "converse_event_type (B_ServiceUnavailableException _) = ''service_unavailable_exception''"
| "converse_event_type (B_ThrottlingException _) = ''throttling_exception''"
| "converse_event_type (B_ValidationException _) = ''validation_exception''"

fun responses_event_type :: "responses_event \<Rightarrow> string" where
  "responses_event_type (RE_Created _ _) = ''response.created''"
| "responses_event_type (RE_InProgress _ _) = ''response.in_progress''"
| "responses_event_type (RE_Completed _ _) = ''response.completed''"
| "responses_event_type (RE_OutputItemAdded _ _ _) = ''response.output_item.added''"
| "responses_event_type (RE_OutputItemDone _ _ _) = ''response.output_item.done''"
| "responses_event_type (RE_ContentPartAdded _ _ _ _ _) = ''response.content_part.added''"
| "responses_event_type (RE_ContentPartDone _ _ _ _ _) = ''response.content_part.done''"
| "responses_event_type (RE_OutputTextDelta _ _ _ _ _ _ _) = ''response.output_text.delta''"
| "responses_event_type (RE_OutputTextDone _ _ _ _ _ _) = ''response.output_text.done''"
| "responses_event_type (RE_AudioDelta _ _ _ _ _) = ''response.audio.delta''"
| "responses_event_type (RE_AudioDone _ _ _ _) = ''response.audio.done''"
| "responses_event_type (RE_AudioTranscriptDelta _ _ _ _ _) = ''response.audio_transcript.delta''"
| "responses_event_type (RE_AudioTranscriptDone _ _ _ _ _) = ''response.audio_transcript.done''"
| "responses_event_type (RE_FunctionCallArgumentsDelta _ _ _ _ _ _) =
     ''response.function_call_arguments.delta''"
| "responses_event_type (RE_FunctionCallArgumentsDone _ _ _ _) =
     ''response.function_call_arguments.done''"
| "responses_event_type (RE_CodeInterpreterCallCodeDelta _ _ _ _) =
     ''response.code_interpreter_call.code.delta''"
| "responses_event_type (RE_CodeInterpreterCallCodeDone _ _ _ _) =
     ''response.code_interpreter_call.code.done''"
| "responses_event_type (RE_CodeInterpreterCallInProgress _ _ _) =
     ''response.code_interpreter_call.in_progress''"
| "responses_event_type (RE_CodeInterpreterCallInterpreting _ _ _) =
     ''response.code_interpreter_call.interpreting''"
| "responses_event_type (RE_CodeInterpreterCallCompleted _ _ _) =
     ''response.code_interpreter_call.completed''"
| "responses_event_type (RE_CustomToolCallInputDelta _ _ _ _) =
     ''response.custom_tool_call.input.delta''"
| "responses_event_type (RE_CustomToolCallInputDone _ _ _ _) =
     ''response.custom_tool_call.input.done''"
| "responses_event_type (RE_Error _ _ _) = ''error''"
| "responses_event_type (RE_Done _) = ''done''"

text \<open>
  The \<open>From<...> for String\<close> conversions put an event line in front of the JSON; the serialiser
  is a parameter (\<open>serde_json::to_string\<close>, with the empty string for its errors).
\<close>

definition NL :: string where "NL = [CHR 0x0A]"

definition sse_lines :: "string \<Rightarrow> string \<Rightarrow> string" where
  "sse_lines event_type js = ''event: '' @ event_type @ NL @ ''data: '' @ js @ NL @ NL"

definition messages_event_string :: "(messages_event \<Rightarrow> string) \<Rightarrow> messages_event \<Rightarrow> string" where
  "messages_event_string ser e = sse_lines (messages_event_type e) (ser e)"

definition converse_event_string :: "(converse_event \<Rightarrow> string) \<Rightarrow> converse_event \<Rightarrow> string" where
  "converse_event_string ser e = sse_lines (converse_event_type e) (ser e)"

definition responses_event_string :: "(responses_event \<Rightarrow> string) \<Rightarrow> responses_event \<Rightarrow> string" where
  "responses_event_string ser e = sse_lines (responses_event_type e) (ser e)"

end
