(* ===== verification/Stream_Transforms.thy ===== *)
theory Stream_Transforms
  imports Stream_Types
begin

section \<open>Event-by-event translation between the streaming protocols\<close>

text \<open>
  \<open>crates/hermesllm/src/transforms/response_streaming/{to_anthropic_streaming,
  to_openai_streaming}.rs\<close>, with the stop-reason and usage conversions they use
  (\<open>transforms/request/from_anthropic.rs\<close>, \<open>transforms/response/to_openai.rs\<close>) and the error type
  of \<open>clients/lib.rs\<close>. The translations keep no state. The clock is a parameter: \<open>now\<close> in
  seconds, \<open>nanos\<close> in nanoseconds.
\<close>

datatype transform_error =
    TE_JsonError string
  | TE_UnsupportedContent string
  | TE_InvalidToolInput
  | TE_MissingField string
  | TE_UnsupportedConversion string

fun transform_error_display :: "transform_error \<Rightarrow> string" where
  "transform_error_display (TE_JsonError e) = ''JSON serialization error: '' @ e"
| "transform_error_display (TE_UnsupportedContent e) = ''Unsupported content type: '' @ e"
| "transform_error_display TE_InvalidToolInput = ''Invalid tool input format''"
| "transform_error_display (TE_MissingField e) = ''Missing required field: '' @ e"
| "transform_error_display (TE_UnsupportedConversion e) = ''Unsupported conversion: '' @ e"

subsection \<open>Stop reasons and usage\<close>

fun stop_reason_of_finish :: "finish_reason \<Rightarrow> messages_stop_reason" where
  "stop_reason_of_finish FR_Stop = SR_EndTurn"
| "stop_reason_of_finish FR_Length = SR_MaxTokens"
| "stop_reason_of_finish FR_ToolCalls = SR_ToolUse"
| "stop_reason_of_finish FR_ContentFilter = SR_Refusal"
| "stop_reason_of_finish FR_FunctionCall = SR_ToolUse"

fun finish_of_stop_reason :: "messages_stop_reason \<Rightarrow> finish_reason" where
  "finish_of_stop_reason SR_EndTurn = FR_Stop"
| "finish_of_stop_reason SR_MaxTokens = FR_Length"
| "finish_of_stop_reason SR_StopSequence = FR_Stop"
| "finish_of_stop_reason SR_ToolUse = FR_ToolCalls"
| "finish_of_stop_reason SR_PauseTurn = FR_Stop"
| "finish_of_stop_reason SR_Refusal = FR_ContentFilter"

definition messages_usage_of_usage :: "usage \<Rightarrow> messages_usage" where
  "messages_usage_of_usage u =
     \<lparr>input_tokens = prompt_tokens u, output_tokens = completion_tokens u,
      cache_creation_input_tokens = None, cache_read_input_tokens = None\<rparr>"

definition usage_of_messages_usage :: "messages_usage \<Rightarrow> usage" where
  "usage_of_messages_usage u =
     \<lparr>prompt_tokens = input_tokens u, completion_tokens = output_tokens u,
      total_tokens = input_tokens u + output_tokens u,
      u_prompt_tokens_details = None, u_completion_tokens_details = None\<rparr>"

definition zero_usage :: messages_usage where
  "zero_usage = \<lparr>input_tokens = 0, output_tokens = 0,
     cache_creation_input_tokens = None, cache_read_input_tokens = None\<rparr>"

definition end_delta :: "messages_stop_reason \<Rightarrow> messages_message_delta" where
  "end_delta r = \<lparr>mmd_stop_reason = r, mmd_stop_sequence = None\<rparr>"

subsection \<open>Chat Completions to Anthropic\<close>

text \<open>The loop of \<open>convert_tool_call_deltas\<close> returns at the first call it can translate.\<close>

fun convert_tool_call_deltas :: "tool_call_delta list \<Rightarrow> transform_error + messages_event" where
  "convert_tool_call_deltas [] = Inr Ping"
| "convert_tool_call_deltas (tc # tcs) =
     (case tcd_id tc of
        Some i \<Rightarrow>
          (case tcd_function tc of
             Some f \<Rightarrow>
               (case fcd_name f of
                  Some n \<Rightarrow> Inr (ContentBlockStart (tcd_index tc) (CB_ToolUse i n (JObject []) None))
                | None \<Rightarrow> convert_tool_call_deltas tcs)
           | None \<Rightarrow> convert_tool_call_deltas tcs)
      | None \<Rightarrow>
          (case tcd_function tc of
             Some f \<Rightarrow>
               (case fcd_arguments f of
                  Some a \<Rightarrow> Inr (ContentBlockDelta (tcd_index tc) (InputJsonDelta a))
                | None \<Rightarrow> convert_tool_call_deltas tcs)
           | None \<Rightarrow> convert_tool_call_deltas tcs))"

definition chat_to_messages :: "chat_chunk \<Rightarrow> transform_error + messages_event" where
  "chat_to_messages resp =
     (case cc_choices resp of
        [] \<Rightarrow> Inr Ping
      | choice # _ \<Rightarrow>
          (let d = sc_delta choice;
               rest = (case md_tool_calls d of
                         Some tcs \<Rightarrow> convert_tool_call_deltas tcs
                       | None \<Rightarrow>
                           (case sc_finish_reason choice of
                              Some fr \<Rightarrow>
                                (if cc_usage resp = None
                                 then Inr (MessageDelta (end_delta (stop_reason_of_finish fr)) zero_usage)
                                 else Inr Ping)
                            | None \<Rightarrow> Inr Ping))
           in case (cc_usage resp, sc_finish_reason choice) of
                (Some u, Some fr) \<Rightarrow>
                  Inr (MessageDelta (end_delta (stop_reason_of_finish fr)) (messages_usage_of_usage u))
              | _ \<Rightarrow>
                  (case md_content d of
                     Some t \<Rightarrow>
                       (if t \<noteq> [] then Inr (ContentBlockDelta 0 (TextDelta t)) else rest)
                   | None \<Rightarrow> rest)))"

subsection \<open>Bedrock to Anthropic\<close>

fun messages_role_of_conversation :: "conversation_role \<Rightarrow> messages_role" where
  "messages_role_of_conversation CR_User = MR_User"
| "messages_role_of_conversation CR_Assistant = MR_Assistant"

fun stop_reason_of_bedrock :: "bedrock_stop_reason \<Rightarrow> messages_stop_reason" where
  "stop_reason_of_bedrock B_EndTurn = SR_EndTurn"
| "stop_reason_of_bedrock B_ToolUse = SR_ToolUse"
| "stop_reason_of_bedrock B_MaxTokens = SR_MaxTokens"
| "stop_reason_of_bedrock B_StopSequence = SR_EndTurn"
| "stop_reason_of_bedrock B_GuardrailIntervened = SR_Refusal"
| "stop_reason_of_bedrock B_ContentFiltered = SR_Refusal"

fun bedrock_to_messages :: "nat \<Rightarrow> converse_event \<Rightarrow> transform_error + messages_event" where
  "bedrock_to_messages nanos (B_MessageStart r) =
     Inr (MessageStart
       \<lparr>sm_id = ''bedrock-stream-'' @ digits nanos, sm_obj_type = ''message'',
        sm_role = messages_role_of_conversation r, sm_content = [], sm_model = ''bedrock-model'',
        sm_stop_reason = None, sm_stop_sequence = None, sm_usage = zero_usage\<rparr>)"
| "bedrock_to_messages nanos (B_ContentBlockStart i (B_StartToolUse tid n)) =
     Inr (ContentBlockStart i (CB_ToolUse tid n (JObject []) None))"
| "bedrock_to_messages nanos (B_ContentBlockDelta i (B_DeltaText t)) =
     Inr (ContentBlockDelta i (TextDelta t))"
| "bedrock_to_messages nanos (B_ContentBlockDelta i (B_DeltaToolUse inp)) =
     Inr (ContentBlockDelta i (InputJsonDelta inp))"
| "bedrock_to_messages nanos (B_ContentBlockStop i) = Inr (ContentBlockStop i)"
| "bedrock_to_messages nanos (B_MessageStop r _) =
     Inr (MessageDelta (end_delta (stop_reason_of_bedrock r)) zero_usage)"
| "bedrock_to_messages nanos (B_Metadata u) =
     Inr (MessageDelta (end_delta SR_EndTurn)
       \<lparr>input_tokens = bu_input_tokens u, output_tokens = bu_output_tokens u,
        cache_creation_input_tokens = bu_cache_write_input_tokens u,
        cache_read_input_tokens = bu_cache_read_input_tokens u\<rparr>)"
| "bedrock_to_messages nanos (B_InternalServerException _) = Inr Ping"
| "bedrock_to_messages nanos (B_ModelStreamErrorException _) = Inr Ping"
| "bedrock_to_messages nanos (B_ServiceUnavailableException _) = Inr Ping"
| "bedrock_to_messages nanos (B_ThrottlingException _) = Inr Ping"
| "bedrock_to_messages nanos (B_ValidationException _) = Inr Ping"

subsection \<open>Anthropic and Bedrock to Chat Completions\<close>

definition empty_delta :: message_delta where
  "empty_delta = \<lparr>md_role = None, md_content = None, md_refusal = None,
     md_function_call = None, md_tool_calls = None\<rparr>"

definition create_openai_chunk ::
    "u64 \<Rightarrow> string \<Rightarrow> string \<Rightarrow> message_delta \<Rightarrow> finish_reason option \<Rightarrow> usage option \<Rightarrow> chat_chunk" where
  "create_openai_chunk now i m d fr u =
     \<lparr>cc_id = i, cc_object = Some ''chat.completion.chunk'', cc_created = now, cc_model = m,
      cc_choices = [\<lparr>sc_index = 0, sc_delta = d, sc_finish_reason = fr, sc_logprobs = None\<rparr>],
      cc_usage = u, cc_system_fingerprint = None, cc_service_tier = None\<rparr>"

definition create_empty_openai_chunk :: "u64 \<Rightarrow> chat_chunk" where
  "create_empty_openai_chunk now =
     create_openai_chunk now ''stream'' ''unknown'' empty_delta None None"

definition tool_start_chunk :: "u64 \<Rightarrow> u32 \<Rightarrow> string \<Rightarrow> string \<Rightarrow> chat_chunk" where
  "tool_start_chunk now i tid n =
     create_openai_chunk now ''stream'' ''unknown''
       (empty_delta\<lparr>md_tool_calls := Some
          [\<lparr>tcd_index = i, tcd_id = Some tid, tcd_call_type = Some ''function'',
            tcd_function = Some \<lparr>fcd_name = Some n, fcd_arguments = Some ''''\<rparr>\<rparr>]\<rparr>) None None"

definition tool_args_chunk :: "u64 \<Rightarrow> u32 \<Rightarrow> string \<Rightarrow> chat_chunk" where
  "tool_args_chunk now i a =
     create_openai_chunk now ''stream'' ''unknown''
       (empty_delta\<lparr>md_tool_calls := Some
          [\<lparr>tcd_index = i, tcd_id = None, tcd_call_type = None,
            tcd_function = Some \<lparr>fcd_name = None, fcd_arguments = Some a\<rparr>\<rparr>]\<rparr>) None None"

definition text_chunk :: "u64 \<Rightarrow> string \<Rightarrow> chat_chunk" where
  "text_chunk now t =
     create_openai_chunk now ''stream'' ''unknown'' (empty_delta\<lparr>md_content := Some t\<rparr>) None None"

fun convert_content_block_start :: "u64 \<Rightarrow> content_block \<Rightarrow> u32 \<Rightarrow> transform_error + chat_chunk" where
  "convert_content_block_start now (CB_Text _ _) i = Inr (create_empty_openai_chunk now)"
| "convert_content_block_start now (CB_ToolUse tid n _ _) i = Inr (tool_start_chunk now i tid n)"
| "convert_content_block_start now (CB_ServerToolUse tid n _) i = Inr (tool_start_chunk now i tid n)"
| "convert_content_block_start now (CB_McpToolUse tid n _) i = Inr (tool_start_chunk now i tid n)"
| "convert_content_block_start now _ i =
     Inl (TE_UnsupportedContent ''Unsupported content block type in stream start'')"

fun convert_content_delta :: "u64 \<Rightarrow> content_delta \<Rightarrow> u32 \<Rightarrow> transform_error + chat_chunk" where
  "convert_content_delta now (TextDelta t) i = Inr (text_chunk now t)"
| "convert_content_delta now (ThinkingDelta t) i = Inr (text_chunk now (''thinking: '' @ t))"
| "convert_content_delta now (InputJsonDelta p) i = Inr (tool_args_chunk now i p)"
| "convert_content_delta now (SignatureDelta _) i = Inr (create_empty_openai_chunk now)"

fun messages_to_chat :: "u64 \<Rightarrow> messages_event \<Rightarrow> transform_error + chat_chunk" where
  "messages_to_chat now (MessageStart m) =
     Inr (create_openai_chunk now (sm_id m) (sm_model m)
       (empty_delta\<lparr>md_role := Some R_Assistant\<rparr>) None None)"
| "messages_to_chat now (ContentBlockStart i b) = convert_content_block_start now b i"
| "messages_to_chat now (ContentBlockDelta i d) = convert_content_delta now d i"
| "messages_to_chat now (ContentBlockStop _) = Inr (create_empty_openai_chunk now)"
| "messages_to_chat now (MessageDelta d u) =
     Inr (create_openai_chunk now ''stream'' ''unknown'' empty_delta
       (Some (finish_of_stop_reason (mmd_stop_reason d))) (Some (usage_of_messages_usage u)))"
| "messages_to_chat now MessageStop =
     Inr (create_openai_chunk now ''stream'' ''unknown'' empty_delta (Some FR_Stop) None)"
| "messages_to_chat now Ping =
     Inr \<lparr>cc_id = ''stream'', cc_object = Some ''chat.completion.chunk'', cc_created = now,
       cc_model = ''unknown'', cc_choices = [], cc_usage = None, cc_system_fingerprint = None,
       cc_service_tier = None\<rparr>"

fun role_of_conversation :: "conversation_role \<Rightarrow> role" where
  "role_of_conversation CR_User = R_User"
| "role_of_conversation CR_Assistant = R_Assistant"

fun finish_of_bedrock :: "bedrock_stop_reason \<Rightarrow> finish_reason" where
  "finish_of_bedrock B_EndTurn = FR_Stop"
| "finish_of_bedrock B_ToolUse = FR_ToolCalls"
| "finish_of_bedrock B_MaxTokens = FR_Length"
| "finish_of_bedrock B_StopSequence = FR_Stop"
| "finish_of_bedrock B_GuardrailIntervened = FR_ContentFilter"
| "finish_of_bedrock B_ContentFiltered = FR_ContentFilter"

fun bedrock_to_chat :: "u64 \<Rightarrow> converse_event \<Rightarrow> transform_error + chat_chunk" where
  "bedrock_to_chat now (B_MessageStart r) =
     Inr (create_openai_chunk now ''stream'' ''unknown''
       (empty_delta\<lparr>md_role := Some (role_of_conversation r)\<rparr>) None None)"
| "bedrock_to_chat now (B_ContentBlockStart i (B_StartToolUse tid n)) =
     Inr (tool_start_chunk now i tid n)"
| "bedrock_to_chat now (B_ContentBlockDelta i (B_DeltaText t)) = Inr (text_chunk now t)"
| "bedrock_to_chat now (B_ContentBlockDelta i (B_DeltaToolUse inp)) = Inr (tool_args_chunk now i inp)"
| "bedrock_to_chat now (B_ContentBlockStop _) = Inr (create_empty_openai_chunk now)"
| "bedrock_to_chat now (B_MessageStop r _) =
     Inr (create_openai_chunk now ''stream'' ''unknown'' empty_delta (Some (finish_of_bedrock r)) None)"
| "bedrock_to_chat now (B_Metadata u) =
     Inr (create_openai_chunk now ''stream'' ''unknown'' empty_delta None
       (Some \<lparr>prompt_tokens = bu_input_tokens u, completion_tokens = bu_output_tokens u,
          total_tokens = bu_total_tokens u, u_prompt_tokens_details = None,
          u_completion_tokens_details = None\<rparr>))"
| "bedrock_to_chat now (B_InternalServerException _) = Inr (create_empty_openai_chunk now)"
| "bedrock_to_chat now (B_ModelStreamErrorException _) = Inr (create_empty_openai_chunk now)"
| "bedrock_to_chat now (B_ServiceUnavailableException _) = Inr (create_empty_openai_chunk now)"
| "bedrock_to_chat now (B_ThrottlingException _) = Inr (create_empty_openai_chunk now)"
| "bedrock_to_chat now (B_ValidationException _) = Inr (create_empty_openai_chunk now)"

subsection \<open>Chat Completions to the Responses API\<close>

text \<open>The part after the tool calls: text, then the finish reason, then a bare role.\<close>

definition empty_chunk_error :: transform_error where
  "empty_chunk_error =
     TE_UnsupportedConversion ''Empty or keep-alive chunk with no convertible content''"

definition choice_rest_to_responses :: "stream_choice \<Rightarrow> transform_error + responses_event" where
  "choice_rest_to_responses choice =
     (let d = sc_delta choice;
          no_text = (if sc_finish_reason choice \<noteq> None then Inr (RE_Done 0)
                     else if md_role d \<noteq> None
                     then Inr (RE_OutputTextDelta '''' (sc_index choice) 0 '''' [] None 0)
                     else Inl empty_chunk_error)
      in case md_content d of
           Some t \<Rightarrow> (if t \<noteq> []
                     then Inr (RE_OutputTextDelta '''' (sc_index choice) 0 t [] None 0) else no_text)
         | None \<Rightarrow> no_text)"

definition chat_to_responses :: "chat_chunk \<Rightarrow> transform_error + responses_event" where
  "chat_to_responses chunk =
     (case cc_choices chunk of
        [] \<Rightarrow> Inl empty_chunk_error
      | choice # _ \<Rightarrow>
          (case md_tool_calls (sc_delta choice) of
             Some (tc # _) \<Rightarrow>
               (case tcd_function tc of
                  Some f \<Rightarrow>
                    (case fcd_arguments f of
                       Some a \<Rightarrow> Inr (RE_FunctionCallArgumentsDelta (sc_index choice) '''' a 0
                                   (tcd_id tc) (fcd_name f))
                     | None \<Rightarrow>
                         (if fcd_name f \<noteq> None
                          then Inr (RE_FunctionCallArgumentsDelta (sc_index choice) '''' '''' 0
                                 (tcd_id tc) (fcd_name f))
                          else choice_rest_to_responses choice))
                | None \<Rightarrow> choice_rest_to_responses choice)
           | _ \<Rightarrow> choice_rest_to_responses choice))"

end
