(* ===== verification/Endpoints.thy ===== *)
theory Endpoints
  imports Rust_Str
begin

section \<open>API identifiers, provider identifiers and upstream endpoints\<close>

text \<open>
  \<open>crates/hermesllm/src/apis/{openai,anthropic,amazon_bedrock}.rs\<close> (the API enums),
  \<open>crates/hermesllm/src/clients/endpoints.rs\<close> (the client-side and upstream API types and the
  choice of the upstream path), \<open>crates/hermesllm/src/providers/id.rs\<close> (provider names and the
  upstream API each provider speaks) and the provider type of
  \<open>crates/common/src/configuration.rs\<close>.
\<close>

subsection \<open>The API enums\<close>

datatype openai_api = ChatCompletions | Responses
datatype anthropic_api = Messages
datatype bedrock_api = Converse | ConverseStream

definition CHAT_COMPLETIONS_PATH :: string where
  "CHAT_COMPLETIONS_PATH = ''/v1/chat/completions''"

definition OPENAI_RESPONSES_API_PATH :: string where
  "OPENAI_RESPONSES_API_PATH = ''/v1/responses''"

definition MESSAGES_PATH :: string where
  "MESSAGES_PATH = ''/v1/messages''"

lemmas path_defs [api_simps] =
  CHAT_COMPLETIONS_PATH_def OPENAI_RESPONSES_API_PATH_def MESSAGES_PATH_def

fun openai_endpoint :: "openai_api \<Rightarrow> string" where
  "openai_endpoint ChatCompletions = CHAT_COMPLETIONS_PATH"
| "openai_endpoint Responses = OPENAI_RESPONSES_API_PATH"

definition openai_from_endpoint :: "string \<Rightarrow> openai_api option" where
  "openai_from_endpoint e =
     (if e = CHAT_COMPLETIONS_PATH then Some ChatCompletions
      else if e = OPENAI_RESPONSES_API_PATH then Some Responses
      else None)"

definition openai_all_variants :: "openai_api list" where
  "openai_all_variants = [ChatCompletions, Responses]"

fun anthropic_endpoint :: "anthropic_api \<Rightarrow> string" where
  "anthropic_endpoint Messages = MESSAGES_PATH"

definition anthropic_from_endpoint :: "string \<Rightarrow> anthropic_api option" where
  "anthropic_from_endpoint e = (if e = MESSAGES_PATH then Some Messages else None)"

definition anthropic_all_variants :: "anthropic_api list" where
  "anthropic_all_variants = [Messages]"

fun bedrock_endpoint :: "bedrock_api \<Rightarrow> string" where
  "bedrock_endpoint Converse = ''/model/{modelId}/converse''"
| "bedrock_endpoint ConverseStream = ''/model/{modelId}/converse-stream''"

definition bedrock_from_endpoint :: "string \<Rightarrow> bedrock_api option" where
  "bedrock_from_endpoint e =
     (if ends_with e ''/converse'' then Some Converse
      else if ends_with e ''/converse-stream'' then Some ConverseStream
      else None)"

fun bedrock_supports_streaming :: "bedrock_api \<Rightarrow> bool" where
  "bedrock_supports_streaming Converse = False"
| "bedrock_supports_streaming ConverseStream = True"

subsection \<open>Client and upstream APIs\<close>

datatype client_api =
    C_OpenAIChatCompletions openai_api
  | C_AnthropicMessagesAPI anthropic_api
  | C_OpenAIResponsesAPI openai_api

datatype upstream_api =
    U_OpenAIChatCompletions openai_api
  | U_AnthropicMessagesAPI anthropic_api
  | U_AmazonBedrockConverse bedrock_api
  | U_AmazonBedrockConverseStream bedrock_api
  | U_OpenAIResponsesAPI openai_api

definition client_from_endpoint :: "string \<Rightarrow> client_api option" where
  "client_from_endpoint e =
     (case openai_from_endpoint e of
        Some a \<Rightarrow> (if a = Responses then Some (C_OpenAIResponsesAPI a)
                   else Some (C_OpenAIChatCompletions a))
      | None \<Rightarrow>
          (case anthropic_from_endpoint e of
             Some a \<Rightarrow> Some (C_AnthropicMessagesAPI a)
           | None \<Rightarrow> None))"

fun client_endpoint :: "client_api \<Rightarrow> string" where
  "client_endpoint (C_OpenAIChatCompletions a) = openai_endpoint a"
| "client_endpoint (C_AnthropicMessagesAPI a) = anthropic_endpoint a"
| "client_endpoint (C_OpenAIResponsesAPI a) = openai_endpoint a"

definition upstream_from_endpoint :: "string \<Rightarrow> upstream_api option" where
  "upstream_from_endpoint e =
     (case openai_from_endpoint e of
        Some a \<Rightarrow> (if a = Responses then Some (U_OpenAIResponsesAPI a)
                   else Some (U_OpenAIChatCompletions a))
      | None \<Rightarrow>
          (case anthropic_from_endpoint e of
             Some a \<Rightarrow> Some (U_AnthropicMessagesAPI a)
           | None \<Rightarrow>
               (case bedrock_from_endpoint e of
                  Some Converse \<Rightarrow> Some (U_AmazonBedrockConverse Converse)
                | Some ConverseStream \<Rightarrow> Some (U_AmazonBedrockConverseStream ConverseStream)
                | None \<Rightarrow> None)))"

definition supported_endpoints :: "string list" where
  "supported_endpoints =
     map openai_endpoint openai_all_variants @ map anthropic_endpoint anthropic_all_variants"

definition identify_provider :: "string \<Rightarrow> string option" where
  "identify_provider e =
     (if openai_from_endpoint e \<noteq> None then Some ''openai''
      else if anthropic_from_endpoint e \<noteq> None then Some ''anthropic''
      else None)"

lemmas from_endpoint_defs [api_simps] =
  openai_from_endpoint_def anthropic_from_endpoint_def bedrock_from_endpoint_def
  client_from_endpoint_def upstream_from_endpoint_def

subsection \<open>Provider identifiers\<close>

datatype provider_id =
    P_OpenAI | P_Xiaomi | P_Mistral | P_Deepseek | P_Groq | P_Gemini | P_Anthropic | P_GitHub
  | P_Plano | P_AzureOpenAI | P_XAI | P_TogetherAI | P_Ollama | P_Moonshotai | P_Zhipu | P_Qwen
  | P_AmazonBedrock | P_ChatGPT | P_DigitalOcean | P_Vercel | P_OpenRouter | P_Astraflow
  | P_AstraflowCN

text \<open>The match arms of \<open>TryFrom<&str>\<close>, aliases included, in their order.\<close>

definition provider_names :: "(string \<times> provider_id) list" where
  "provider_names =
    [(''openai'', P_OpenAI), (''xiaomi'', P_Xiaomi), (''mistral'', P_Mistral),
     (''deepseek'', P_Deepseek), (''groq'', P_Groq), (''gemini'', P_Gemini),
     (''google'', P_Gemini), (''anthropic'', P_Anthropic), (''github'', P_GitHub),
     (''plano'', P_Plano), (''azure_openai'', P_AzureOpenAI), (''xai'', P_XAI),
     (''together_ai'', P_TogetherAI), (''together'', P_TogetherAI), (''ollama'', P_Ollama),
     (''moonshotai'', P_Moonshotai), (''zhipu'', P_Zhipu), (''qwen'', P_Qwen),
     (''amazon_bedrock'', P_AmazonBedrock), (''amazon'', P_AmazonBedrock),
     (''chatgpt'', P_ChatGPT), (''digitalocean'', P_DigitalOcean), (''do'', P_DigitalOcean),
     (''do_ai'', P_DigitalOcean), (''vercel'', P_Vercel), (''openrouter'', P_OpenRouter),
     (''astraflow'', P_Astraflow), (''astraflow_cn'', P_AstraflowCN)]"

definition provider_try_from :: "string \<Rightarrow> string + provider_id" where
  "provider_try_from v =
     (case map_of provider_names (to_lowercase v) of
        Some p \<Rightarrow> Inr p
      | None \<Rightarrow> Inl (''Unknown provider: '' @ v))"

fun provider_display :: "provider_id \<Rightarrow> string" where
  "provider_display P_OpenAI = ''OpenAI''"
| "provider_display P_Xiaomi = ''xiaomi''"
| "provider_display P_Mistral = ''Mistral''"
| "provider_display P_Deepseek = ''Deepseek''"
| "provider_display P_Groq = ''Groq''"
| "provider_display P_Gemini = ''Gemini''"
| "provider_display P_Anthropic = ''Anthropic''"
| "provider_display P_GitHub = ''GitHub''"
| "provider_display P_Plano = ''Plano''"
| "provider_display P_AzureOpenAI = ''azure_openai''"
| "provider_display P_XAI = ''xai''"
| "provider_display P_TogetherAI = ''together_ai''"
| "provider_display P_Ollama = ''ollama''"
| "provider_display P_Moonshotai = ''moonshotai''"
| "provider_display P_Zhipu = ''zhipu''"
| "provider_display P_Qwen = ''qwen''"
| "provider_display P_AmazonBedrock = ''amazon_bedrock''"
| "provider_display P_ChatGPT = ''chatgpt''"
| "provider_display P_DigitalOcean = ''digitalocean''"
| "provider_display P_Vercel = ''vercel''"
| "provider_display P_OpenRouter = ''openrouter''"
| "provider_display P_Astraflow = ''astraflow''"
| "provider_display P_AstraflowCN = ''astraflow_cn''"

text \<open>
  \<open>ProviderId::models\<close>: the key under which the embedded \<open>provider_models.yaml\<close> lists a
  provider's models. The parsed file is the parameter \<open>registry\<close>.
\<close>

fun provider_key :: "provider_id \<Rightarrow> string option" where
  "provider_key P_AmazonBedrock = Some ''amazon''"
| "provider_key P_AzureOpenAI = Some ''openai''"
| "provider_key P_TogetherAI = Some ''together''"
| "provider_key P_Gemini = Some ''google''"
| "provider_key P_OpenAI = Some ''openai''"
| "provider_key P_Xiaomi = Some ''xiaomi''"
| "provider_key P_Anthropic = Some ''anthropic''"
| "provider_key P_Mistral = Some ''mistralai''"
| "provider_key P_Deepseek = Some ''deepseek''"
| "provider_key P_Groq = Some ''groq''"
| "provider_key P_XAI = Some ''x-ai''"
| "provider_key P_Moonshotai = Some ''moonshotai''"
| "provider_key P_Zhipu = Some ''z-ai''"
| "provider_key P_Qwen = Some ''qwen''"
| "provider_key P_ChatGPT = Some ''chatgpt''"
| "provider_key P_DigitalOcean = Some ''digitalocean''"
| "provider_key _ = None"

definition provider_models :: "(string \<Rightarrow> string list option) \<Rightarrow> provider_id \<Rightarrow> string list" where
  "provider_models registry p =
     (case provider_key p of
        None \<Rightarrow> []
      | Some k \<Rightarrow>
          (case registry k of
             None \<Rightarrow> []
           | Some models \<Rightarrow> List.map_filter (\<lambda>m. map_option snd (split_once (CHR ''/'') m)) models))"

text \<open>\<open>ProviderId::compatible_api_for_client\<close>.\<close>

definition compatible_api_for_client :: "provider_id \<Rightarrow> client_api \<Rightarrow> bool \<Rightarrow> upstream_api" where
  "compatible_api_for_client p client is_streaming =
     (case (p, client) of
        (P_Anthropic, C_AnthropicMessagesAPI _) \<Rightarrow> U_AnthropicMessagesAPI Messages
      | (P_Anthropic, C_OpenAIChatCompletions _) \<Rightarrow> U_OpenAIChatCompletions ChatCompletions
      | (P_Anthropic, C_OpenAIResponsesAPI _) \<Rightarrow> U_OpenAIChatCompletions ChatCompletions
      | (P_Vercel, C_AnthropicMessagesAPI _) \<Rightarrow> U_AnthropicMessagesAPI Messages
      | (P_Vercel, C_OpenAIChatCompletions _) \<Rightarrow> U_OpenAIChatCompletions ChatCompletions
      | (P_Vercel, C_OpenAIResponsesAPI _) \<Rightarrow> U_OpenAIResponsesAPI Responses
      | (P_AmazonBedrock, _) \<Rightarrow>
          (if is_streaming then U_AmazonBedrockConverseStream ConverseStream
           else U_AmazonBedrockConverse Converse)
      | (_, C_AnthropicMessagesAPI _) \<Rightarrow> U_OpenAIChatCompletions ChatCompletions
      | (_, C_OpenAIChatCompletions _) \<Rightarrow> U_OpenAIChatCompletions ChatCompletions
      | (P_OpenAI, C_OpenAIResponsesAPI _) \<Rightarrow> U_OpenAIResponsesAPI Responses
      | (P_XAI, C_OpenAIResponsesAPI _) \<Rightarrow> U_OpenAIResponsesAPI Responses
      | (P_ChatGPT, C_OpenAIResponsesAPI _) \<Rightarrow> U_OpenAIResponsesAPI Responses
      | (_, C_OpenAIResponsesAPI _) \<Rightarrow> U_OpenAIChatCompletions ChatCompletions)"

subsection \<open>The upstream path\<close>

text \<open>The closure \<open>build_endpoint\<close> of \<open>target_endpoint_for_provider\<close>.\<close>

definition build_endpoint :: "string option \<Rightarrow> string \<Rightarrow> string \<Rightarrow> string" where
  "build_endpoint base_url_path_prefix provider_prefix endpoint_suffix =
     (let dflt = trim_matches (CHR ''/'') provider_prefix;
          pfx = (case base_url_path_prefix of
                   None \<Rightarrow> dflt
                 | Some p \<Rightarrow> (let q = trim_matches (CHR ''/'') p in if q \<noteq> [] then q else dflt));
          sfx = trim_start_matches (CHR ''/'') endpoint_suffix
      in if pfx = [] then ''/'' @ sfx else ''/'' @ pfx @ ''/'' @ sfx)"

text \<open>The closure \<open>route_by_provider\<close>, with its captured variables as arguments.\<close>

definition route_by_provider ::
    "provider_id \<Rightarrow> string \<Rightarrow> string \<Rightarrow> bool \<Rightarrow> string option \<Rightarrow> bool \<Rightarrow> string \<Rightarrow> string" where
  "route_by_provider p request_path model_id is_streaming base unversioned endpoint_suffix =
     (let be = build_endpoint base; v1 = starts_with request_path ''/v1/'' in
      case p of
        P_Groq \<Rightarrow> (if v1 then be ''/openai'' request_path else be ''/v1'' endpoint_suffix)
      | P_Zhipu \<Rightarrow> (if v1 then be ''/api/paas/v4'' endpoint_suffix else be ''/v1'' endpoint_suffix)
      | P_Qwen \<Rightarrow> (if v1 then be ''/compatible-mode/v1'' endpoint_suffix else be ''/v1'' endpoint_suffix)
      | P_AzureOpenAI \<Rightarrow>
          (if v1 then
             be ''/openai/deployments''
               (''/'' @ model_id @ ''/'' @ trim_start_matches (CHR ''/'') endpoint_suffix
                 @ ''?api-version=2025-01-01-preview'')
           else be ''/v1'' endpoint_suffix)
      | P_Gemini \<Rightarrow> (if v1 then be ''/v1beta/openai'' endpoint_suffix else be ''/v1'' endpoint_suffix)
      | P_AmazonBedrock \<Rightarrow>
          (if v1 then
             (if \<not> is_streaming then be '''' (''/model/'' @ model_id @ ''/converse'')
              else be '''' (''/model/'' @ model_id @ ''/converse-stream''))
           else be ''/v1'' endpoint_suffix)
      | _ \<Rightarrow> (if unversioned then be '''' endpoint_suffix else be ''/v1'' endpoint_suffix))"

definition target_endpoint_for_provider ::
    "client_api \<Rightarrow> provider_id \<Rightarrow> string \<Rightarrow> string \<Rightarrow> bool \<Rightarrow> string option \<Rightarrow> bool \<Rightarrow> string" where
  "target_endpoint_for_provider api p request_path model_id is_streaming base unversioned =
     (let be = build_endpoint base; v1 = starts_with request_path ''/v1/'';
          route = route_by_provider p request_path model_id is_streaming base unversioned in
      case api of
        C_AnthropicMessagesAPI Messages \<Rightarrow>
          (case p of
             P_Anthropic \<Rightarrow> be ''/v1'' ''/messages''
           | P_Vercel \<Rightarrow> be ''/v1'' ''/messages''
           | P_AmazonBedrock \<Rightarrow>
               (if v1 \<and> \<not> is_streaming then be '''' (''/model/'' @ model_id @ ''/converse'')
                else if v1 \<and> is_streaming then be '''' (''/model/'' @ model_id @ ''/converse-stream'')
                else be ''/v1'' ''/chat/completions'')
           | _ \<Rightarrow> be ''/v1'' ''/chat/completions'')
      | C_OpenAIResponsesAPI _ \<Rightarrow>
          (if p \<in> {P_OpenAI, P_XAI, P_ChatGPT, P_Vercel} then route ''/responses''
           else route ''/chat/completions'')
      | C_OpenAIChatCompletions _ \<Rightarrow> route ''/chat/completions'')"

subsection \<open>The provider type of the configuration\<close>

datatype llm_provider_type =
    L_Anthropic | L_Deepseek | L_Groq | L_Mistral | L_OpenAI | L_Xiaomi | L_Gemini | L_XAI
  | L_TogetherAI | L_AzureOpenAI | L_Ollama | L_Moonshotai | L_Zhipu | L_Qwen | L_AmazonBedrock
  | L_Plano | L_ChatGPT | L_DigitalOcean | L_Vercel | L_OpenRouter | L_Astraflow | L_AstraflowCN

fun llm_provider_type_display :: "llm_provider_type \<Rightarrow> string" where
  "llm_provider_type_display L_Anthropic = ''anthropic''"
| "llm_provider_type_display L_Deepseek = ''deepseek''"
| "llm_provider_type_display L_Groq = ''groq''"
| "llm_provider_type_display L_Gemini = ''gemini''"
| "llm_provider_type_display L_Mistral = ''mistral''"
| "llm_provider_type_display L_OpenAI = ''openai''"
| "llm_provider_type_display L_Xiaomi = ''xiaomi''"
| "llm_provider_type_display L_XAI = ''xai''"
| "llm_provider_type_display L_TogetherAI = ''together_ai''"
| "llm_provider_type_display L_AzureOpenAI = ''azure_openai''"
| "llm_provider_type_display L_Ollama = ''ollama''"
| "llm_provider_type_display L_Moonshotai = ''moonshotai''"
| "llm_provider_type_display L_Zhipu = ''zhipu''"
| "llm_provider_type_display L_Qwen = ''qwen''"
| "llm_provider_type_display L_AmazonBedrock = ''amazon_bedrock''"
| "llm_provider_type_display L_Plano = ''plano''"
| "llm_provider_type_display L_ChatGPT = ''chatgpt''"
| "llm_provider_type_display L_DigitalOcean = ''digitalocean''"
| "llm_provider_type_display L_Vercel = ''vercel''"
| "llm_provider_type_display L_OpenRouter = ''openrouter''"
| "llm_provider_type_display L_Astraflow = ''astraflow''"
| "llm_provider_type_display L_AstraflowCN = ''astraflow_cn''"

text \<open>\<open>LlmProviderType::to_provider_id\<close>; \<open>Inl\<close> is the panic of its \<open>expect\<close>.\<close>

definition to_provider_id :: "llm_provider_type \<Rightarrow> string + provider_id" where
  "to_provider_id t = provider_try_from (llm_provider_type_display t)"

subsection \<open>Lemmas on the upstream path\<close>

lemma build_endpoint_shape:
  "\<exists>rest. build_endpoint base pfx sfx = CHR ''/'' # rest \<and> (rest = [] \<or> hd rest \<noteq> CHR ''/'')"
proof -
  have trimmed: "trim_matches (CHR ''/'') q = [] \<or> hd (trim_matches (CHR ''/'') q) \<noteq> CHR ''/''" for q
    using trim_matches_hd [of "CHR ''/''" q] by (cases "trim_matches (CHR ''/'') q") auto
  have "trim_start_matches (CHR ''/'') sfx = [] \<or>
      hd (trim_start_matches (CHR ''/'') sfx) \<noteq> CHR ''/''"
    using trim_start_matches_hd [of "CHR ''/''" sfx]
    by (cases "trim_start_matches (CHR ''/'') sfx") auto
  then show ?thesis
    using trimmed by (auto simp: build_endpoint_def Let_def hd_append split: option.split)
qed

lemma build_endpoint_tail:
  "\<exists>q. build_endpoint base pfx sfx = q @ ''/'' @ trim_start_matches (CHR ''/'') sfx"
proof -
  define t where "t = trim_start_matches (CHR ''/'') sfx"
  have "\<exists>u. build_endpoint base pfx sfx = (if u = [] then ''/'' @ t else ''/'' @ u @ ''/'' @ t)"
    unfolding build_endpoint_def Let_def t_def by blast
  then obtain u where
    u: "build_endpoint base pfx sfx = (if u = [] then ''/'' @ t else ''/'' @ u @ ''/'' @ t)"
    by (rule exE)
  show ?thesis
  proof (cases "u = []")
    case True
    with u show ?thesis by (intro exI [of _ "[]"]) (simp add: t_def)
  next
    case False
    with u show ?thesis by (intro exI [of _ "''/'' @ u"]) (simp add: t_def)
  qed
qed

lemma build_endpoint_override:
  assumes "trim_matches (CHR ''/'') b \<noteq> []"
  shows "build_endpoint (Some b) pfx sfx =
    CHR ''/'' # trim_matches (CHR ''/'') b @ CHR ''/'' # trim_start_matches (CHR ''/'') sfx"
  using assms by (simp add: build_endpoint_def)

text \<open>
  Every path the gateway can choose is one call of \<open>build_endpoint\<close> with the configured
  base prefix.
\<close>

lemma route_by_provider_is_build:
  "\<exists>pfx s. route_by_provider p path m strm base unv sfx = build_endpoint base pfx s"
  unfolding route_by_provider_def Let_def by (cases p) (auto split: if_splits)

lemma target_endpoint_is_build:
  "\<exists>pfx s. target_endpoint_for_provider api p path m strm base unv = build_endpoint base pfx s"
proof (cases api)
  case (C_AnthropicMessagesAPI a)
  then show ?thesis
    unfolding target_endpoint_for_provider_def Let_def by (cases a; cases p) auto
next
  case (C_OpenAIChatCompletions a)
  then show ?thesis
    unfolding target_endpoint_for_provider_def Let_def by (simp add: route_by_provider_is_build)
next
  case (C_OpenAIResponsesAPI a)
  then show ?thesis
    unfolding target_endpoint_for_provider_def Let_def by (simp add: route_by_provider_is_build)
qed

text \<open>
  The resource an upstream API is served under, below the provider's base path: what the
  request body produced for that API has to be posted to.
\<close>

fun upstream_resource :: "upstream_api \<Rightarrow> string \<Rightarrow> string" where
  "upstream_resource (U_OpenAIChatCompletions _) m = ''/chat/completions''"
| "upstream_resource (U_OpenAIResponsesAPI _) m = ''/responses''"
| "upstream_resource (U_AnthropicMessagesAPI _) m = ''/messages''"
| "upstream_resource (U_AmazonBedrockConverse _) m = ''/model/'' @ m @ ''/converse''"
| "upstream_resource (U_AmazonBedrockConverseStream _) m = ''/model/'' @ m @ ''/converse-stream''"

definition serves :: "string \<Rightarrow> string \<Rightarrow> bool" where
  "serves path r = (\<exists>q query. path = q @ r @ query \<and> (query = [] \<or> hd query = CHR ''?''))"

text \<open>
  Slashes in front of the suffix are trimmed, but never the last one before the resource.
\<close>

lemma trim_start_before_resource:
  assumes "s \<noteq> []" and "hd s \<noteq> c"
  shows "(\<exists>x'. trim_start_matches c (x @ (c # s) @ q) = x' @ (c # s) @ q) \<or>
    trim_start_matches c (x @ (c # s) @ q) = s @ q"
proof (induction x)
  case Nil
  then show ?case using assms by (cases s) (simp_all add: trim_start_matches_def)
next
  case (Cons a x)
  show ?case
  proof (cases "a = c")
    case True
    then show ?thesis using Cons by (simp add: trim_start_matches_def)
  next
    case False
    then have "trim_start_matches c ((a # x) @ (c # s) @ q) = (a # x) @ (c # s) @ q"
      by (simp add: trim_start_matches_def)
    then show ?thesis by blast
  qed
qed

lemma serves_build:
  assumes "r = CHR ''/'' # s" and "s \<noteq> []" and "hd s \<noteq> CHR ''/''"
    and "query = [] \<or> hd query = CHR ''?''"
  shows "serves (build_endpoint base pfx (x @ r @ query)) r"
proof -
  obtain p where "build_endpoint base pfx (x @ r @ query) =
      p @ ''/'' @ trim_start_matches (CHR ''/'') (x @ r @ query)"
    using build_endpoint_tail by blast
  moreover have "(\<exists>x'. trim_start_matches (CHR ''/'') (x @ r @ query) = x' @ r @ query) \<or>
      trim_start_matches (CHR ''/'') (x @ r @ query) = s @ query"
    using trim_start_before_resource [OF assms(2,3), of x query] assms(1) by simp
  ultimately have "\<exists>p'. build_endpoint base pfx (x @ r @ query) = p' @ r @ query"
    using assms(1) by (metis append.assoc append_Cons append_Nil)
  then show ?thesis using assms(4) unfolding serves_def by blast
qed

subsection \<open>Properties\<close>

definition client_api_wf :: "client_api \<Rightarrow> bool" where
  "client_api_wf a \<longleftrightarrow>
     a \<in> {C_OpenAIChatCompletions ChatCompletions, C_AnthropicMessagesAPI Messages,
          C_OpenAIResponsesAPI Responses}"

lemma client_from_endpoint_Some:
  "client_from_endpoint e = Some a \<Longrightarrow> client_api_wf a \<and> client_endpoint a = e"
  by (auto simp: api_simps client_api_wf_def split: if_splits)

lemma client_from_endpoint_endpoint:
  "client_api_wf a \<Longrightarrow> client_from_endpoint (client_endpoint a) = Some a"
  by (auto simp: api_simps client_api_wf_def)

text \<open>
  Detecting the client API from a request path and printing the endpoint of an API are
  inverse to each other: a path is recognised exactly when it is the endpoint of one of the
  three client APIs, and then as that API.
\<close>

theorem client_endpoint_roundtrip:
  "client_from_endpoint e = Some a \<longleftrightarrow> client_api_wf a \<and> client_endpoint a = e"
  using client_from_endpoint_Some client_from_endpoint_endpoint by blast

text \<open>
  The list of supported endpoints, the detection of the client API and the name of the
  API family agree on which paths the gateway serves.
\<close>

theorem supported_endpoints_agree:
  "(client_from_endpoint e \<noteq> None) = (e \<in> set supported_endpoints) \<and>
   (identify_provider e \<noteq> None) = (e \<in> set supported_endpoints) \<and>
   distinct supported_endpoints"
  by (auto simp: api_simps supported_endpoints_def identify_provider_def
      openai_all_variants_def anthropic_all_variants_def)

lemma provider_try_from_display: "provider_try_from (provider_display p) = Inr p"
  by (cases p; hypsubst; code_simp)

text \<open>
  Every provider identifier survives printing and parsing, whatever the case of its printed
  name; so no two providers print alike.
\<close>

theorem provider_id_roundtrip:
  "provider_try_from (provider_display p) = Inr p \<and> inj provider_display"
  by (metis injI provider_try_from_display sum.inject(2))

text \<open>The provider each configured provider type stands for.\<close>

fun provider_of_type :: "llm_provider_type \<Rightarrow> provider_id" where
  "provider_of_type L_Anthropic = P_Anthropic"
| "provider_of_type L_Deepseek = P_Deepseek"
| "provider_of_type L_Groq = P_Groq"
| "provider_of_type L_Gemini = P_Gemini"
| "provider_of_type L_Mistral = P_Mistral"
| "provider_of_type L_OpenAI = P_OpenAI"
| "provider_of_type L_Xiaomi = P_Xiaomi"
| "provider_of_type L_XAI = P_XAI"
| "provider_of_type L_TogetherAI = P_TogetherAI"
| "provider_of_type L_AzureOpenAI = P_AzureOpenAI"
| "provider_of_type L_Ollama = P_Ollama"
| "provider_of_type L_Moonshotai = P_Moonshotai"
| "provider_of_type L_Zhipu = P_Zhipu"
| "provider_of_type L_Qwen = P_Qwen"
| "provider_of_type L_AmazonBedrock = P_AmazonBedrock"
| "provider_of_type L_Plano = P_Plano"
| "provider_of_type L_ChatGPT = P_ChatGPT"
| "provider_of_type L_DigitalOcean = P_DigitalOcean"
| "provider_of_type L_Vercel = P_Vercel"
| "provider_of_type L_OpenRouter = P_OpenRouter"
| "provider_of_type L_Astraflow = P_Astraflow"
| "provider_of_type L_AstraflowCN = P_AstraflowCN"

text \<open>
  The \<open>expect\<close> in \<open>LlmProviderType::to_provider_id\<close> never fires: every provider type of the
  configuration names a provider the translation layer knows, and different types name
  different providers.
\<close>

theorem to_provider_id_total:
  "(\<exists>p. to_provider_id t = Inr p) \<and> inj to_provider_id"
proof
  have eq: "to_provider_id t = Inr (provider_of_type t)" for t
    by (cases t; hypsubst; code_simp)
  show "\<exists>p. to_provider_id t = Inr p" using eq by blast
  have "inj provider_of_type"
  proof (rule injI)
    fix t u
    show "provider_of_type t = provider_of_type u \<Longrightarrow> t = u" by (cases t; cases u) simp_all
  qed
  then show "inj to_provider_id" unfolding inj_def eq by blast
qed

text \<open>
  Whatever the provider, the client API, the model name and the configuration, the upstream
  path is absolute and never starts with two slashes; and a configured base path that is not
  only slashes is the path's first component for every provider.
\<close>

theorem target_endpoint_absolute:
  "(\<exists>rest. target_endpoint_for_provider api p path m strm base unv = CHR ''/'' # rest \<and>
      (rest = [] \<or> hd rest \<noteq> CHR ''/'')) \<and>
   (trim_matches (CHR ''/'') b \<noteq> [] \<longrightarrow>
      (\<exists>sfx. target_endpoint_for_provider api p path m strm (Some b) unv =
         CHR ''/'' # trim_matches (CHR ''/'') b @ CHR ''/'' # sfx))"
  using target_endpoint_is_build [of api p path m strm base unv] build_endpoint_shape
    target_endpoint_is_build [of api p path m strm "Some b" unv] build_endpoint_override
  by metis

theorem target_endpoint_absolute_witness:
  "\<exists>sfx. target_endpoint_for_provider (C_OpenAIChatCompletions ChatCompletions) P_Zhipu
     ''/v1/chat/completions'' ''m'' False (Some ''/api/'') False = ''/api/'' @ sfx"
  using target_endpoint_absolute [of "C_OpenAIChatCompletions ChatCompletions" P_Zhipu
      "''/v1/chat/completions''" "''m''" False None False "''/api/''"]
  by (simp add: trim_matches_def trim_start_matches_def trim_end_matches_def)

text \<open>
  The path chosen for a provider is the one its API is served under: for every provider but
  Groq, a versioned request goes to the resource of exactly the API that
  \<open>compatible_api_for_client\<close> translates the body to, below some base path and at most followed
  by a query string.
\<close>

theorem target_endpoint_serves_compatible_api:
  assumes "starts_with path ''/v1/''" and "p \<noteq> P_Groq"
  shows "serves (target_endpoint_for_provider api p path m strm base unv)
    (upstream_resource (compatible_api_for_client p api strm) m)"
proof -
  note d = target_endpoint_for_provider_def compatible_api_for_client_def route_by_provider_def
  have s: "serves (build_endpoint base pfx ''/chat/completions'') ''/chat/completions''"
    "serves (build_endpoint base pfx ''/responses'') ''/responses''"
    "serves (build_endpoint base pfx ''/messages'') ''/messages''"
    "serves (build_endpoint base pfx (''/model/'' @ m @ ''/converse''))
       (''/model/'' @ m @ ''/converse'')"
    "serves (build_endpoint base pfx (''/model/'' @ m @ ''/converse-stream''))
       (''/model/'' @ m @ ''/converse-stream'')" for pfx
    using serves_build [of _ _ "[]" base pfx "[]"] by simp_all
  have azure: "serves (build_endpoint base ''/openai/deployments''
      (''/'' @ m @ ''/'' @ ''chat/completions'' @ ''?api-version=2025-01-01-preview''))
      ''/chat/completions''"
    using serves_build [of "''/chat/completions''" "''chat/completions''"
        "''?api-version=2025-01-01-preview''" base "''/openai/deployments''" "CHR ''/'' # m"]
    by simp
  show ?thesis
  proof (cases api)
    case (C_OpenAIChatCompletions a)
    then show ?thesis using assms s azure
      by (cases p) (simp_all add: d Let_def trim_start_matches_def)
  next
    case (C_AnthropicMessagesAPI a)
    then show ?thesis using assms s by (cases a; cases p) (simp_all add: d Let_def)
  next
    case (C_OpenAIResponsesAPI a)
    then show ?thesis using assms s azure
      by (cases p) (simp_all add: d Let_def trim_start_matches_def)
  qed
qed

theorem target_endpoint_serves_compatible_api_witness:
  "serves (target_endpoint_for_provider (C_OpenAIChatCompletions ChatCompletions) P_AzureOpenAI
      ''/v1/chat/completions'' ''gpt-4'' False None False) ''/chat/completions''"
  using target_endpoint_serves_compatible_api [of "''/v1/chat/completions''" P_AzureOpenAI
      "C_OpenAIChatCompletions ChatCompletions" "''gpt-4''" False None False]
  by (simp add: starts_with_def compatible_api_for_client_def)

text \<open>
  The exception: for Groq a Responses-API request is translated to a chat-completions body,
  but the path keeps the client's resource, so that body is posted to \<open>/openai/v1/responses\<close>.
\<close>

theorem groq_responses_path_mismatch:
  "target_endpoint_for_provider (C_OpenAIResponsesAPI a) P_Groq OPENAI_RESPONSES_API_PATH m strm
      None unv = ''/openai/v1/responses'' \<and>
   compatible_api_for_client P_Groq (C_OpenAIResponsesAPI a) strm =
      U_OpenAIChatCompletions ChatCompletions \<and>
   upstream_resource (U_OpenAIChatCompletions ChatCompletions) m = ''/chat/completions''"
  by (simp add: target_endpoint_for_provider_def route_by_provider_def build_endpoint_def Let_def
      compatible_api_for_client_def OPENAI_RESPONSES_API_PATH_def starts_with_def
      trim_matches_def trim_start_matches_def trim_end_matches_def)

end
