(* ===== verification/Sse.thy ===== *)
theory Sse
  imports Stream_Transforms Endpoints
begin

section \<open>Server-sent events: parsing, translation and chunk processing\<close>

text \<open>
  \<open>apis/streaming_shapes/sse.rs\<close> (the event container, its parser and the line iterator),
  \<open>providers/streaming_response.rs\<close> (the translation of one event for a pair of client and
  upstream API) and \<open>apis/streaming_shapes/sse_chunk_processor.rs\<close> (events cut by chunk
  boundaries).

  The JSON library is a parameter, the record \<open>codec\<close>: a serialiser per event type and a parser
  per event type, whose error is the text its \<open>Display\<close> prints. The clock is a parameter too,
  in nanoseconds since the epoch.
\<close>

subsection \<open>Events of the four protocols\<close>

datatype provider_stream_response =
    PSR_Chat chat_chunk
  | PSR_Messages messages_event
  | PSR_Converse converse_event
  | PSR_Responses responses_event

record codec =
  ser_chat :: "chat_chunk \<Rightarrow> string"
  ser_messages :: "messages_event \<Rightarrow> string"
  ser_converse :: "converse_event \<Rightarrow> string"
  ser_responses :: "responses_event \<Rightarrow> string"
  de_chat :: "string \<Rightarrow> string + chat_chunk"
  de_messages :: "string \<Rightarrow> string + messages_event"
  de_converse :: "string \<Rightarrow> string + converse_event"
  de_responses :: "string \<Rightarrow> string + responses_event"
  de_value :: "string \<Rightarrow> string + json"

fun psr_string :: "codec \<Rightarrow> provider_stream_response \<Rightarrow> string" where
  "psr_string c (PSR_Messages e) = messages_event_string (ser_messages c) e"
| "psr_string c (PSR_Converse e) = converse_event_string (ser_converse c) e"
| "psr_string c (PSR_Responses e) = responses_event_string (ser_responses c) e"
| "psr_string c (PSR_Chat e) = ''data: '' @ ser_chat c e @ NL @ NL"

fun role_str :: "role \<Rightarrow> string" where
  "role_str R_System = ''system''"
| "role_str R_User = ''user''"
| "role_str R_Assistant = ''assistant''"
| "role_str R_Tool = ''tool''"
| "role_str R_Developer = ''developer''"

definition first_choice :: "chat_chunk \<Rightarrow> stream_choice option" where
  "first_choice r = (case cc_choices r of [] \<Rightarrow> None | c # _ \<Rightarrow> Some c)"

definition chat_content_delta :: "chat_chunk \<Rightarrow> string option" where
  "chat_content_delta r = Option.bind (first_choice r) (\<lambda>c. md_content (sc_delta c))"

definition chat_is_final :: "chat_chunk \<Rightarrow> bool" where
  "chat_is_final r =
     (case first_choice r of Some c \<Rightarrow> sc_finish_reason c \<noteq> None | None \<Rightarrow> False)"

definition chat_role :: "chat_chunk \<Rightarrow> string option" where
  "chat_role r = Option.bind (first_choice r) (\<lambda>c. map_option role_str (md_role (sc_delta c)))"

fun messages_content_delta :: "messages_event \<Rightarrow> string option" where
  "messages_content_delta (ContentBlockDelta _ (TextDelta t)) = Some t"
| "messages_content_delta (ContentBlockDelta _ (ThinkingDelta t)) = Some t"
| "messages_content_delta _ = None"

fun messages_role_str :: "messages_role \<Rightarrow> string" where
  "messages_role_str MR_User = ''user''"
| "messages_role_str MR_Assistant = ''assistant''"
| "messages_role_str MR_System = ''system''"

fun messages_role_of :: "messages_event \<Rightarrow> string option" where
  "messages_role_of (MessageStart m) = Some (messages_role_str (sm_role m))"
| "messages_role_of _ = None"

fun converse_content_delta :: "converse_event \<Rightarrow> string option" where
  "converse_content_delta (B_ContentBlockDelta _ (B_DeltaText t)) = Some t"
| "converse_content_delta _ = None"

fun converse_is_final :: "converse_event \<Rightarrow> bool" where
  "converse_is_final (B_MessageStop _ _) = True"
| "converse_is_final _ = False"

fun responses_is_final :: "responses_event \<Rightarrow> bool" where
  "responses_is_final (RE_Completed _ _) = True"
| "responses_is_final (RE_Done _) = True"
| "responses_is_final _ = False"

text \<open>The dispatch of \<open>ProviderStreamResponse\<close>: Responses events report no content.\<close>

fun psr_content_delta :: "provider_stream_response \<Rightarrow> string option" where
  "psr_content_delta (PSR_Chat r) = chat_content_delta r"
| "psr_content_delta (PSR_Messages e) = messages_content_delta e"
| "psr_content_delta (PSR_Converse e) = converse_content_delta e"
| "psr_content_delta (PSR_Responses _) = None"

fun psr_is_final :: "provider_stream_response \<Rightarrow> bool" where
  "psr_is_final (PSR_Chat r) = chat_is_final r"
| "psr_is_final (PSR_Messages e) = (e = MessageStop)"
| "psr_is_final (PSR_Converse e) = converse_is_final e"
| "psr_is_final (PSR_Responses e) = responses_is_final e"

subsection \<open>The event container\<close>

record sse_event =
  ev_data :: "string option"
  ev_event :: "string option"
  raw_line :: string
  sse_transformed_lines :: string
  provider_response :: "provider_stream_response option"

definition from_provider_response :: "codec \<Rightarrow> provider_stream_response \<Rightarrow> sse_event" where
  "from_provider_response c r =
     \<lparr>ev_data = None, ev_event = None, raw_line = psr_string c r,
      sse_transformed_lines = psr_string c r, provider_response = Some r\<rparr>"

definition is_done :: "sse_event \<Rightarrow> bool" where
  "is_done e = (ev_data e = Some ''[DONE]'' \<or> ev_event e = Some ''message_stop'')"

definition ping_data :: string where
  "ping_data = ''{'' @ [CHR 0x22] @ ''type'' @ [CHR 0x22] @ '': '' @ [CHR 0x22] @ ''ping'' @
     [CHR 0x22] @ ''}''"

definition should_skip :: "sse_event \<Rightarrow> bool" where
  "should_skip e = (ev_data e = Some ping_data)"

definition is_event_only :: "sse_event \<Rightarrow> bool" where
  "is_event_only e = (ev_event e \<noteq> None \<and> ev_data e = None)"

definition event_bytes :: "sse_event \<Rightarrow> string" where
  "event_bytes e =
     (if ends_with (sse_transformed_lines e) (NL @ NL) then sse_transformed_lines e
      else sse_transformed_lines e @ NL @ NL)"

definition sse_from_str :: "string \<Rightarrow> string + sse_event" where
  "sse_from_str line =
     (let trimmed = trim line in
      if trimmed = [] then Inl ''Empty line (SSE event separator)''
      else case strip_prefix trimmed ''data: '' of
        Some d \<Rightarrow>
          (if trim d = [] then Inl (''Empty data field after '' @ [CHR 0x27] @ ''data: '' @
             [CHR 0x27] @ '' prefix'')
           else Inr \<lparr>ev_data = Some d, ev_event = None, raw_line = line,
                  sse_transformed_lines = line, provider_response = None\<rparr>)
      | None \<Rightarrow>
          (case strip_prefix trimmed ''event: '' of
             Some t \<Rightarrow>
               (if t = [] then Inl ''Empty event field is not a valid SSE event''
                else Inr \<lparr>ev_data = None, ev_event = Some t, raw_line = line,
                       sse_transformed_lines = line, provider_response = None\<rparr>)
           | None \<Rightarrow> Inl (''Line does not start with '' @ [CHR 0x27] @ ''data: '' @ [CHR 0x27] @
               '' or '' @ [CHR 0x27] @ ''event: '' @ [CHR 0x27] @ '': '' @ trimmed)))"

subsection \<open>The line iterator\<close>

record sse_stream_iter =
  iter_lines :: "string list"
  done_seen :: bool

definition sse_iter_new :: "string list \<Rightarrow> sse_stream_iter" where
  "sse_iter_new ls = \<lparr>iter_lines = ls, done_seen = False\<rparr>"

definition sse_iter_try_from :: "string \<Rightarrow> string + sse_stream_iter" where
  "sse_iter_try_from bytes =
     (case utf8_scan 0 bytes of
        Some e \<Rightarrow> Inl (utf8_error_display e)
      | None \<Rightarrow> Inr (sse_iter_new (str_lines bytes)))"

fun sse_scan :: "string list \<Rightarrow> sse_event option \<times> sse_stream_iter" where
  "sse_scan [] = (None, \<lparr>iter_lines = [], done_seen = False\<rparr>)"
| "sse_scan (l # ls) =
     (case sse_from_str l of
        Inl _ \<Rightarrow> sse_scan ls
      | Inr e \<Rightarrow>
          (if ev_data e \<noteq> None \<and> is_done e
           then (Some e, \<lparr>iter_lines = ls, done_seen = True\<rparr>)
           else if ev_data e \<noteq> None \<and> should_skip e then sse_scan ls
           else (Some e, \<lparr>iter_lines = ls, done_seen = False\<rparr>)))"

definition sse_iter_next :: "sse_stream_iter \<Rightarrow> sse_event option \<times> sse_stream_iter" where
  "sse_iter_next it = (if done_seen it then (None, it) else sse_scan (iter_lines it))"

subsection \<open>Translation of one event\<close>

fun needs_buffering :: "client_api \<Rightarrow> upstream_api \<Rightarrow> bool" where
  "needs_buffering (C_OpenAIChatCompletions _) (U_OpenAIChatCompletions _) = False"
| "needs_buffering (C_AnthropicMessagesAPI _) (U_AnthropicMessagesAPI _) = False"
| "needs_buffering (C_OpenAIResponsesAPI _) (U_OpenAIResponsesAPI _) = False"
| "needs_buffering _ _ = True"

fun bind_result :: "'e + 'a \<Rightarrow> ('a \<Rightarrow> 'e + 'b) \<Rightarrow> 'e + 'b" where
  "bind_result (Inl e) f = Inl e"
| "bind_result (Inr x) f = f x"

fun lift_error :: "transform_error + 'a \<Rightarrow> string + 'a" where
  "lift_error (Inl e) = Inl (transform_error_display e)"
| "lift_error (Inr x) = Inr x"

fun map_ok :: "('a \<Rightarrow> 'b) \<Rightarrow> 'e + 'a \<Rightarrow> 'e + 'b" where
  "map_ok f (Inl e) = Inl e"
| "map_ok f (Inr x) = Inr (f x)"

definition epoch_seconds :: "nat \<Rightarrow> u64" where
  "epoch_seconds nanos = of_nat (nanos div 1000000000)"

definition is_anthropic_client :: "client_api \<Rightarrow> bool" where
  "is_anthropic_client c = (case c of C_AnthropicMessagesAPI _ \<Rightarrow> True | _ \<Rightarrow> False)"

definition unsupported_combination :: string where
  "unsupported_combination = ''Unsupported API combination for response transformation''"

definition psr_try_from ::
    "codec \<Rightarrow> nat \<Rightarrow> string \<Rightarrow> client_api \<Rightarrow> upstream_api \<Rightarrow> string + provider_stream_response" where
  "psr_try_from c nanos bytes client upstream =
     (if bytes = ''[DONE]'' \<and> is_anthropic_client client then Inr (PSR_Messages MessageStop)
      else case (upstream, client) of
        (U_OpenAIChatCompletions _, C_OpenAIChatCompletions _) \<Rightarrow> map_ok PSR_Chat (de_chat c bytes)
      | (U_OpenAIChatCompletions _, C_AnthropicMessagesAPI _) \<Rightarrow>
          map_ok PSR_Messages (bind_result (de_chat c bytes) (\<lambda>r. lift_error (chat_to_messages r)))
      | (U_OpenAIChatCompletions _, C_OpenAIResponsesAPI _) \<Rightarrow>
          map_ok PSR_Responses (bind_result (de_chat c bytes) (\<lambda>r. lift_error (chat_to_responses r)))
      | (U_OpenAIResponsesAPI _, C_OpenAIResponsesAPI _) \<Rightarrow> map_ok PSR_Responses (de_responses c bytes)
      | (U_AnthropicMessagesAPI _, C_AnthropicMessagesAPI _) \<Rightarrow> map_ok PSR_Messages (de_messages c bytes)
      | (U_AnthropicMessagesAPI _, C_OpenAIChatCompletions _) \<Rightarrow>
          map_ok PSR_Chat (bind_result (de_messages c bytes)
            (\<lambda>e. lift_error (messages_to_chat (epoch_seconds nanos) e)))
      | (U_AmazonBedrockConverseStream _, C_AnthropicMessagesAPI _) \<Rightarrow>
          map_ok PSR_Messages (bind_result (de_converse c bytes)
            (\<lambda>e. lift_error (bedrock_to_messages nanos e)))
      | (U_AmazonBedrockConverseStream _, C_OpenAIResponsesAPI _) \<Rightarrow>
          map_ok PSR_Responses (bind_result (de_converse c bytes) (\<lambda>e.
            bind_result (lift_error (bedrock_to_chat (epoch_seconds nanos) e))
              (\<lambda>r. lift_error (chat_to_responses r))))
      | _ \<Rightarrow> Inl unsupported_combination)"

text \<open>The adjustments of the wire text of an event-only line.\<close>

definition adjust_event_only :: "client_api \<Rightarrow> upstream_api \<Rightarrow> sse_event \<Rightarrow> sse_event" where
  "adjust_event_only client upstream e =
     (if needs_buffering client upstream
      then (case (client, upstream) of
              (C_OpenAIChatCompletions _, U_AnthropicMessagesAPI _) \<Rightarrow>
                (if is_event_only e \<and> ev_event e \<noteq> None then e\<lparr>sse_transformed_lines := NL\<rparr> else e)
            | _ \<Rightarrow> e)
      else (case (client, upstream) of
              (C_AnthropicMessagesAPI _, U_AnthropicMessagesAPI _) \<Rightarrow>
                (if is_event_only e \<and> ev_event e \<noteq> None then e\<lparr>sse_transformed_lines := []\<rparr> else e)
            | (C_OpenAIResponsesAPI _, U_OpenAIResponsesAPI _) \<Rightarrow>
                (if is_event_only e \<and> ev_event e \<noteq> None then e\<lparr>sse_transformed_lines := []\<rparr> else e)
            | _ \<Rightarrow> e))"

definition sse_event_try_from ::
    "codec \<Rightarrow> nat \<Rightarrow> sse_event \<Rightarrow> client_api \<Rightarrow> upstream_api \<Rightarrow> string + sse_event" where
  "sse_event_try_from c nanos e client upstream =
     (if is_done e \<and> \<not> is_anthropic_client client
      then Inr (e\<lparr>sse_transformed_lines := ''data: [DONE]''\<rparr>)
      else
        (case ev_data e of
           None \<Rightarrow> Inr (adjust_event_only client upstream e)
         | Some d \<Rightarrow>
             map_ok (\<lambda>r. adjust_event_only client upstream
                           (e\<lparr>sse_transformed_lines := psr_string c r, provider_response := Some r\<rparr>))
               (psr_try_from c nanos d client upstream)))"

subsection \<open>Bedrock frames\<close>

text \<open>
  A decoded frame of the AWS event stream: its headers with the string value of those that have
  one, and its payload. The payload parser of the \<open>codec\<close> record is per event, so here a parser
  from an event name and a payload is passed.
\<close>

record frame_message =
  fm_headers :: "(string \<times> string option) list"
  fm_payload :: string

datatype decoded_frame = FrameComplete frame_message | FrameIncomplete

definition frame_header :: "string \<Rightarrow> frame_message \<Rightarrow> string option" where
  "frame_header n m = Option.bind (map_of (fm_headers m) n) id"

definition converse_event_names :: "string list" where
  "converse_event_names = [''messageStart'', ''contentBlockStart'', ''contentBlockDelta'',
     ''contentBlockStop'', ''messageStop'', ''metadata'']"

definition converse_exception_names :: "string list" where
  "converse_exception_names = [''internalServerException'', ''modelStreamErrorException'',
     ''serviceUnavailableException'', ''throttlingException'', ''validationException'']"

definition validation_error :: "string \<Rightarrow> string" where
  "validation_error m = ''Validation error: '' @ m"

definition converse_event_of_frame ::
    "(string \<Rightarrow> string \<Rightarrow> string + converse_event) \<Rightarrow> decoded_frame \<Rightarrow> string + converse_event" where
  "converse_event_of_frame de f =
     (case f of
        FrameIncomplete \<Rightarrow> Inl (validation_error ''Expected Complete frame, got Incomplete'')
      | FrameComplete m \<Rightarrow>
          (case frame_header '':event-type'' m of
             None \<Rightarrow> Inl (validation_error ''Missing :event-type header'')
           | Some et \<Rightarrow>
               (case frame_header '':message-type'' m of
                  None \<Rightarrow> Inl (validation_error ''Missing :message-type header'')
                | Some mt \<Rightarrow>
                    (let parse = (case de et (fm_payload m) of
                                    Inl e \<Rightarrow> Inl (''Serialization error: '' @ e) | Inr v \<Rightarrow> Inr v)
                     in if mt = ''event'' then
                          (if et \<in> set converse_event_names then parse
                           else Inl (validation_error (''Unknown event type: '' @ et)))
                        else if mt = ''exception'' then
                          (if et \<in> set converse_exception_names then parse
                           else Inl (validation_error (''Unknown exception type: '' @ et)))
                        else Inl (validation_error (''Unknown message type: '' @ mt))))))"

definition psr_of_frame ::
    "(string \<Rightarrow> string \<Rightarrow> string + converse_event) \<Rightarrow> nat \<Rightarrow> decoded_frame \<Rightarrow> client_api \<Rightarrow> upstream_api
      \<Rightarrow> string + provider_stream_response" where
  "psr_of_frame de nanos f client upstream =
     (case f of
        FrameIncomplete \<Rightarrow> Inl ''Cannot convert incomplete frame to provider response''
      | FrameComplete _ \<Rightarrow>
          (case (upstream, client) of
             (U_AmazonBedrockConverseStream _, C_AnthropicMessagesAPI _) \<Rightarrow>
               map_ok PSR_Messages (bind_result (converse_event_of_frame de f)
                 (\<lambda>e. lift_error (bedrock_to_messages nanos e)))
           | (U_AmazonBedrockConverseStream _, C_OpenAIChatCompletions _) \<Rightarrow>
               map_ok PSR_Chat (bind_result (converse_event_of_frame de f)
                 (\<lambda>e. lift_error (bedrock_to_chat (epoch_seconds nanos) e)))
           | (U_AmazonBedrockConverseStream _, C_OpenAIResponsesAPI _) \<Rightarrow>
               map_ok PSR_Responses (bind_result (converse_event_of_frame de f) (\<lambda>e.
                 bind_result (lift_error (bedrock_to_chat (epoch_seconds nanos) e))
                   (\<lambda>r. lift_error (chat_to_responses r))))
           | _ \<Rightarrow> Inl ''Unsupported API combination for event-stream decoding''))"

subsection \<open>Facts about results and adjusted events\<close>

lemma adjust_event_only_fields [simp]:
  "ev_data (adjust_event_only cl up e) = ev_data e"
  "ev_event (adjust_event_only cl up e) = ev_event e"
  "raw_line (adjust_event_only cl up e) = raw_line e"
  "provider_response (adjust_event_only cl up e) = provider_response e"
  by (simp_all add: adjust_event_only_def split: client_api.splits upstream_api.splits)

lemma map_ok_Inr: "map_ok f r = Inr y \<longleftrightarrow> (\<exists>x. r = Inr x \<and> y = f x)"
  by (cases r) auto

lemma map_ok_Inl [simp]: "map_ok f r = Inl e \<longleftrightarrow> r = Inl e"
  by (cases r) auto

lemma bind_result_Inl: "bind_result r f = Inl e \<longleftrightarrow> r = Inl e \<or> (\<exists>x. r = Inr x \<and> f x = Inl e)"
  by (cases r) auto

subsection \<open>A codec for concrete runs\<close>

text \<open>
  The only complete JSON text is a pair of braces; everything else is
  reported as cut off. Serialisers print a fixed text.
\<close>

definition brace_codec :: codec where
  "brace_codec =
     \<lparr>ser_chat = (\<lambda>_. ''{}''), ser_messages = (\<lambda>_. ''{}''), ser_converse = (\<lambda>_. ''{}''),
      ser_responses = (\<lambda>_. ''{}''),
      de_chat = (\<lambda>s. if s = ''{}'' then Inr (create_empty_openai_chunk 0)
                    else Inl ''EOF while parsing an object at line 1 column 1''),
      de_messages = (\<lambda>s. if s = ''{}'' then Inr Ping else Inl ''EOF while parsing''),
      de_converse = (\<lambda>s. Inl ''EOF while parsing''),
      de_responses = (\<lambda>s. Inl ''EOF while parsing''),
      de_value = (\<lambda>s. if s = ''{}'' then Inr (JObject []) else Inl ''EOF while parsing'')\<rparr>"

end
