(* ===== verification/Stream_Buffer.thy ===== *)
theory Stream_Buffer
  imports Sse
begin

section \<open>The stream buffer interface and the accumulating buffers\<close>

text \<open>
  \<open>SseStreamBufferTrait\<close> of \<open>apis/streaming_shapes/sse.rs\<close> as a locale, with the two buffers
  that only accumulate: \<open>passthrough_streaming_buffer.rs\<close> and
  \<open>chat_completions_streaming_buffer.rs\<close>. A client of a buffer adds events and asks for bytes,
  in any order; \<open>buffer_run\<close> is such a client, and the locale's lemmas speak about its output.
\<close>

definition wire :: "sse_event list \<Rightarrow> string" where
  "wire es = concat (map event_bytes es)"

lemma wire_simps [simp, wire_simps]:
  "wire [] = []" "wire (e # es) = event_bytes e @ wire es" "wire (es @ fs) = wire es @ wire fs"
  by (simp_all add: wire_def)

datatype buffer_op = Add sse_event | Flush

fun buffer_run ::
    "('b \<Rightarrow> sse_event \<Rightarrow> 'b) \<Rightarrow> ('b \<Rightarrow> string \<times> 'b) \<Rightarrow> 'b \<Rightarrow> buffer_op list \<Rightarrow> string \<times> 'b" where
  "buffer_run add to_bytes b [] = ([], b)"
| "buffer_run add to_bytes b (Add e # ops) = buffer_run add to_bytes (add b e) ops"
| "buffer_run add to_bytes b (Flush # ops) =
     (let (out, b') = to_bytes b; (out', b'') = buffer_run add to_bytes b' ops in (out @ out', b''))"

fun added_events :: "buffer_op list \<Rightarrow> sse_event list" where
  "added_events [] = []"
| "added_events (Add e # ops) = e # added_events ops"
| "added_events (Flush # ops) = added_events ops"

lemma added_events_append [simp]: "added_events (xs @ ys) = added_events xs @ added_events ys"
  by (induction xs rule: added_events.induct) simp_all

lemma buffer_run_append:
  "buffer_run add fl b (xs @ ys) =
    (let (o1, b1) = buffer_run add fl b xs; (o2, b2) = buffer_run add fl b1 ys in (o1 @ o2, b2))"
  by (induction xs arbitrary: b rule: added_events.induct) (simp_all add: Let_def case_prod_unfold)

subsection \<open>The interface\<close>

text \<open>
  \<open>pending\<close> is what the buffer holds, \<open>closing\<close> what a flush adds to it. The laws: a flush
  writes both and empties the buffer, after which there is nothing left to close; an event only
  adds to what is going to be written; a skipped event changes nothing.
\<close>

locale sse_stream_buffer =
  fixes add :: "'b \<Rightarrow> sse_event \<Rightarrow> 'b"
    and to_bytes :: "'b \<Rightarrow> string \<times> 'b"
    and pending :: "'b \<Rightarrow> sse_event list"
    and closing :: "'b \<Rightarrow> sse_event list"
  assumes flush_bytes: "fst (to_bytes b) = wire (pending b @ closing b)"
    and flush_pending: "pending (snd (to_bytes b)) = []"
    and flush_closing: "closing (snd (to_bytes b)) = []"
    and add_extends: "\<exists>es. wire (pending (add b e)) = wire (pending b) @ es"
    and add_skip: "should_skip e \<Longrightarrow> add b e = b"
begin

abbreviation run :: "'b \<Rightarrow> buffer_op list \<Rightarrow> string \<times> 'b" where
  "run \<equiv> buffer_run add to_bytes"

lemma flush_twice: "fst (to_bytes (snd (to_bytes b))) = []"
  by (simp add: flush_bytes flush_pending flush_closing)

lemma run_skips_pings:
  "run b ops = run b (filter (\<lambda>x. case x of Add e \<Rightarrow> \<not> should_skip e | Flush \<Rightarrow> True) ops)"
  by (induction ops arbitrary: b rule: added_events.induct)
     (simp_all add: add_skip Let_def case_prod_unfold)

text \<open>What is pending is written first by whatever comes next, once something flushes.\<close>

lemma pending_adds:
  "\<exists>rest. wire (pending (foldl add b es)) = wire (pending b) @ rest"
proof (induction es arbitrary: b)
  case Nil
  then show ?case by simp
next
  case (Cons e es)
  obtain r1 where "wire (pending (add b e)) = wire (pending b) @ r1"
    using add_extends by blast
  moreover obtain r2 where "wire (pending (foldl add (add b e) es)) = wire (pending (add b e)) @ r2"
    using Cons.IH by blast
  ultimately show ?case by simp
qed

lemma run_adds: "run b (map Add es) = ([], foldl add b es)"
  by (induction es arbitrary: b) simp_all

lemma pending_written_first:
  "\<exists>rest. fst (run b (map Add es @ Flush # ops)) = wire (pending b) @ rest"
proof -
  obtain r where "wire (pending (foldl add b es)) = wire (pending b) @ r"
    using pending_adds by blast
  then show ?thesis
    by (simp add: buffer_run_append run_adds flush_bytes Let_def case_prod_unfold)
qed

end

subsection \<open>Buffers whose flush adds nothing\<close>

text \<open>
  A buffer that is a transducer: what an event adds depends on a core state that flushes do not
  touch. Then the positions of the flushes do not matter.
\<close>

fun emitted :: "('s \<Rightarrow> sse_event \<Rightarrow> 's) \<Rightarrow> ('s \<Rightarrow> sse_event \<Rightarrow> sse_event list) \<Rightarrow> 's \<Rightarrow>
    sse_event list \<Rightarrow> sse_event list" where
  "emitted step emit s [] = []"
| "emitted step emit s (e # es) = emit s e @ emitted step emit (step s e) es"

locale transducer_buffer = sse_stream_buffer add to_bytes pending closing
  for add :: "'b \<Rightarrow> sse_event \<Rightarrow> 'b" and to_bytes :: "'b \<Rightarrow> string \<times> 'b"
    and pending :: "'b \<Rightarrow> sse_event list" and closing :: "'b \<Rightarrow> sse_event list" +
  fixes core :: "'b \<Rightarrow> 's" and step :: "'s \<Rightarrow> sse_event \<Rightarrow> 's"
    and emit :: "'s \<Rightarrow> sse_event \<Rightarrow> sse_event list"
  assumes no_closing: "closing b = []"
    and add_pending: "pending (add b e) = pending b @ emit (core b) e"
    and add_core: "core (add b e) = step (core b) e"
    and flush_core: "core (snd (to_bytes b)) = core b"
begin

lemma run_flush_independent:
  "fst (run b (ops @ [Flush])) = wire (pending b) @ wire (emitted step emit (core b) (added_events ops))"
proof (induction ops arbitrary: b rule: added_events.induct)
  case 1
  then show ?case by (simp add: Let_def case_prod_unfold flush_bytes no_closing)
next
  case (2 e ops)
  then show ?case by (simp add: add_pending add_core)
next
  case (3 ops)
  have "fst (run (snd (to_bytes b)) (ops @ [Flush])) =
      wire (emitted step emit (core b) (added_events ops))"
    using 3 by (simp add: flush_pending flush_core)
  then show ?case by (simp add: Let_def case_prod_unfold flush_bytes no_closing)
qed

end

text \<open>The simplest transducer keeps or drops each event by itself.\<close>

locale accumulating_buffer = sse_stream_buffer add to_bytes pending closing
  for add :: "'b \<Rightarrow> sse_event \<Rightarrow> 'b" and to_bytes :: "'b \<Rightarrow> string \<times> 'b"
    and pending :: "'b \<Rightarrow> sse_event list" and closing :: "'b \<Rightarrow> sse_event list" +
  fixes keep :: "sse_event \<Rightarrow> bool"
  assumes never_closing: "closing b = []"
    and add_keeps: "pending (add b e) = pending b @ (if keep e then [e] else [])"

sublocale accumulating_buffer \<subseteq> transducer_buffer add to_bytes pending closing
  "\<lambda>_. ()" "\<lambda>_ _. ()" "\<lambda>_ e. if keep e then [e] else []"
  by unfold_locales (simp_all add: never_closing add_keeps)

context accumulating_buffer begin

lemma emitted_keep: "emitted (\<lambda>_ _. ()) (\<lambda>_ e. if keep e then [e] else []) s es = filter keep es"
  by (induction es arbitrary: s) auto

lemma run_keeps:
  "fst (run b (ops @ [Flush])) = wire (pending b) @ wire (filter keep (added_events ops))"
  using run_flush_independent [of b ops] by (simp add: emitted_keep)

end

subsection \<open>Passthrough\<close>

record passthrough_buffer =
  pb_buffered_events :: "sse_event list"

definition passthrough_new :: passthrough_buffer where
  "passthrough_new = \<lparr>pb_buffered_events = []\<rparr>"

definition passthrough_add :: "passthrough_buffer \<Rightarrow> sse_event \<Rightarrow> passthrough_buffer" where
  "passthrough_add b e =
     (if should_skip e then b
      else if sse_transformed_lines e = [] then b
      else b\<lparr>pb_buffered_events := pb_buffered_events b @ [e]\<rparr>)"

definition passthrough_to_bytes :: "passthrough_buffer \<Rightarrow> string \<times> passthrough_buffer" where
  "passthrough_to_bytes b = (wire (pb_buffered_events b), b\<lparr>pb_buffered_events := []\<rparr>)"

definition passthrough_keep :: "sse_event \<Rightarrow> bool" where
  "passthrough_keep e = (\<not> should_skip e \<and> sse_transformed_lines e \<noteq> [])"

interpretation passthrough: accumulating_buffer
  passthrough_add passthrough_to_bytes pb_buffered_events "\<lambda>_. []" passthrough_keep
  by unfold_locales
     (auto simp: passthrough_add_def passthrough_to_bytes_def passthrough_keep_def)

subsection \<open>Chat Completions\<close>

record chat_buffer =
  cb_buffered_events :: "sse_event list"

definition chat_buffer_new :: chat_buffer where
  "chat_buffer_new = \<lparr>cb_buffered_events = []\<rparr>"

definition chat_buffer_add :: "chat_buffer \<Rightarrow> sse_event \<Rightarrow> chat_buffer" where
  "chat_buffer_add b e =
     (if should_skip e then b else b\<lparr>cb_buffered_events := cb_buffered_events b @ [e]\<rparr>)"

definition chat_buffer_to_bytes :: "chat_buffer \<Rightarrow> string \<times> chat_buffer" where
  "chat_buffer_to_bytes b = (wire (cb_buffered_events b), b\<lparr>cb_buffered_events := []\<rparr>)"

interpretation chat: accumulating_buffer
  chat_buffer_add chat_buffer_to_bytes cb_buffered_events "\<lambda>_. []" "\<lambda>e. \<not> should_skip e"
  by unfold_locales (auto simp: chat_buffer_add_def chat_buffer_to_bytes_def)

text \<open>
  The bytes a passthrough or a Chat Completions client receives are the wire texts of the
  events that are not pings (and, passed through, not suppressed), in their order, wherever the
  flushes fall.
\<close>

theorem accumulating_buffers_output:
  "fst (buffer_run passthrough_add passthrough_to_bytes passthrough_new (ops @ [Flush])) =
     wire (filter passthrough_keep (added_events ops)) \<and>
   fst (buffer_run chat_buffer_add chat_buffer_to_bytes chat_buffer_new (ops @ [Flush])) =
     wire (filter (\<lambda>e. \<not> should_skip e) (added_events ops))"
  using passthrough.run_keeps [of passthrough_new ops]
    chat.run_keeps [of chat_buffer_new ops]
  by (simp add: passthrough_new_def chat_buffer_new_def)

end
