(* ===== verification/Responses_Buffer.thy ===== *)
theory Responses_Buffer
  imports Stream_Buffer "HOL-Library.AList"
begin

section \<open>The Responses API stream buffer\<close>

text \<open>
  \<open>apis/streaming_shapes/responses_api_streaming_buffer.rs\<close>: the buffer that turns translated
  deltas into the life cycle of a Responses stream. The operations yield the events they add;
  \<open>event_to_sse\<close> is applied where they enter the buffer. The hash maps are association lists, and
  the order in which a hash map is iterated is a parameter, as are the UUIDs, in the order in
  which they are drawn, and the clock, which is read at most once. The counter \<open>uuids_drawn\<close> is no
  field of the code. Sequence numbers are \<open>i32\<close> and wrap as in a release build.
\<close>

record hash_env =
  he_uuid :: "nat \<Rightarrow> string"
  he_now :: i64
  he_text_order :: "(string \<times> string) list \<Rightarrow> (string \<times> string) list"
  he_args_order :: "(string \<times> string) list \<Rightarrow> (string \<times> string) list"
  he_item_order :: "(i32 \<times> string) list \<Rightarrow> (i32 \<times> string) list"

record responses_state =
  sequence_number :: i32
  item_ids :: "(i32 \<times> string) list"
  response_id :: "string option"
  rb_model :: "string option"
  created_at :: "i64 option"
  upstream_response_metadata :: "responses_response option"
  created_emitted :: bool
  in_progress_emitted :: bool
  finalized :: bool
  output_items_added :: "(i32 \<times> string) list"
  text_content :: "(string \<times> string) list"
  function_arguments :: "(string \<times> string) list"
  tool_call_metadata :: "(i32 \<times> string \<times> string) list"
  completed_response :: "responses_response option"
  uuids_drawn :: nat

definition responses_state_new :: responses_state where
  "responses_state_new =
     \<lparr>sequence_number = 0, item_ids = [], response_id = None, rb_model = None, created_at = None,
      upstream_response_metadata = None, created_emitted = False, in_progress_emitted = False,
      finalized = False, output_items_added = [], text_content = [], function_arguments = [],
      tool_call_metadata = [], completed_response = None,
      uuids_drawn = 0\<rparr>"

text \<open>The struct is split into this state and the events that wait to be written.\<close>

record responses_buffer =
  rb_state :: responses_state
  rb_buffered_events :: "sse_event list"

definition responses_new :: responses_buffer where
  "responses_new = \<lparr>rb_state = responses_state_new, rb_buffered_events = []\<rparr>"

fun event_to_sse_type :: "responses_event \<Rightarrow> string" where
  "event_to_sse_type (RE_Created _ _) = ''response.created''"
| "event_to_sse_type (RE_InProgress _ _) = ''response.in_progress''"
| "event_to_sse_type (RE_Completed _ _) = ''response.completed''"
| "event_to_sse_type (RE_OutputItemAdded _ _ _) = ''response.output_item.added''"
| "event_to_sse_type (RE_OutputItemDone _ _ _) = ''response.output_item.done''"
| "event_to_sse_type (RE_OutputTextDelta _ _ _ _ _ _ _) = ''response.output_text.delta''"
| "event_to_sse_type (RE_OutputTextDone _ _ _ _ _ _) = ''response.output_text.done''"
| "event_to_sse_type (RE_FunctionCallArgumentsDelta _ _ _ _ _ _) =
     ''response.function_call_arguments.delta''"
| "event_to_sse_type (RE_FunctionCallArgumentsDone _ _ _ _) =
     ''response.function_call_arguments.done''"
| "event_to_sse_type _ = ''unknown''"

definition event_to_sse :: "codec \<Rightarrow> responses_event \<Rightarrow> sse_event" where
  "event_to_sse c e =
     (let w = responses_event_string (ser_responses c) e
      in \<lparr>ev_data = Some (ser_responses c e), ev_event = Some (event_to_sse_type e), raw_line = w,
          sse_transformed_lines = w, provider_response = None\<rparr>)"

subsection \<open>Numbers and identifiers\<close>

definition next_sequence_number :: "responses_state \<Rightarrow> i32 \<times> responses_state" where
  "next_sequence_number b = (sequence_number b, b\<lparr>sequence_number := sequence_number b + 1\<rparr>)"

definition draw_uuid :: "hash_env \<Rightarrow> responses_state \<Rightarrow> string \<times> responses_state" where
  "draw_uuid env b = (he_uuid env (uuids_drawn b), b\<lparr>uuids_drawn := uuids_drawn b + 1\<rparr>)"

definition simple_uuid :: "string \<Rightarrow> string" where
  "simple_uuid u = filter (\<lambda>c. c \<noteq> CHR ''-'') u"

definition generate_item_id :: "hash_env \<Rightarrow> string \<Rightarrow> responses_state \<Rightarrow> string \<times> responses_state" where
  "generate_item_id env pfx b =
     (let (u, b') = draw_uuid env b in (pfx @ ''_'' @ simple_uuid u, b'))"

definition get_or_create_item_id ::
    "hash_env \<Rightarrow> i32 \<Rightarrow> string \<Rightarrow> responses_state \<Rightarrow> string \<times> responses_state" where
  "get_or_create_item_id env i pfx b =
     (case map_of (item_ids b) i of
        Some x \<Rightarrow> (x, b)
      | None \<Rightarrow>
          (let (x, b') = generate_item_id env pfx b
           in (x, b'\<lparr>item_ids := AList.update i x (item_ids b')\<rparr>)))"

text \<open>The call identifier and name known for an output index, or fresh defaults.\<close>

definition call_metadata :: "hash_env \<Rightarrow> i32 \<Rightarrow> responses_state \<Rightarrow> (string \<times> string) \<times> responses_state" where
  "call_metadata env i b =
     (case map_of (tool_call_metadata b) i of
        Some m \<Rightarrow> (m, b)
      | None \<Rightarrow> (let (u, b') = draw_uuid env b in ((''call_'' @ u, ''unknown''), b')))"

subsection \<open>Life-cycle events\<close>

definition one_f32 :: f32 where
  "one_f32 = 0x3F800000"

definition build_response :: "responses_state \<Rightarrow> response_status \<Rightarrow> responses_response" where
  "build_response b status =
     (case upstream_response_metadata b of
        Some r \<Rightarrow> r\<lparr>rr_status := status\<rparr>
      | None \<Rightarrow>
          \<lparr>rr_id = (case response_id b of Some x \<Rightarrow> x | None \<Rightarrow> []), rr_object = ''response'',
           rr_created_at = (case created_at b of Some x \<Rightarrow> x | None \<Rightarrow> 0), rr_status = status,
           rr_error = None, rr_incomplete_details = None, rr_instructions = None,
           rr_model = (case rb_model b of Some x \<Rightarrow> x | None \<Rightarrow> ''unknown''), rr_output = [],
           rr_usage = None, rr_parallel_tool_calls = True, rr_conversation = None,
           rr_previous_response_id = None, rr_tools = [], rr_tool_choice = ''auto'',
           rr_temperature = one_f32, rr_top_p = one_f32, rr_metadata = [],
           rr_truncation = Some ''disabled'', rr_max_output_tokens = None,
           rr_reasoning = Some \<lparr>re_effort = None, re_summary = None\<rparr>, rr_store = Some True,
           rr_text = Some (Some TF_Text), rr_audio = None, rr_modalities = None,
           rr_service_tier = Some ''auto'', rr_background = Some False, rr_top_logprobs = Some 0,
           rr_max_tool_calls = None\<rparr>)"

definition create_response_created_event ::
    "responses_state \<Rightarrow> responses_event \<times> responses_state" where
  "create_response_created_event b =
     (let r = build_response b RS_InProgress; (q, b') = next_sequence_number b
      in (RE_Created r q, b'))"

definition create_response_in_progress_event ::
    "responses_state \<Rightarrow> responses_event \<times> responses_state" where
  "create_response_in_progress_event b =
     (let r = build_response b RS_InProgress; (q, b') = next_sequence_number b
      in (RE_InProgress r q, b'))"

definition create_output_item_added_event ::
    "i32 \<Rightarrow> string \<Rightarrow> responses_state \<Rightarrow> responses_event \<times> responses_state" where
  "create_output_item_added_event i item b =
     (let (q, b') = next_sequence_number b
      in (RE_OutputItemAdded i (OI_Message item OIS_InProgress ''assistant'' []) q, b'))"

definition create_tool_call_added_event ::
    "i32 \<Rightarrow> string \<Rightarrow> string \<Rightarrow> string \<Rightarrow> responses_state \<Rightarrow> responses_event \<times> responses_state" where
  "create_tool_call_added_event i item cid n b =
     (let (q, b') = next_sequence_number b
      in (RE_OutputItemAdded i (OI_FunctionCall item OIS_InProgress cid (Some n) (Some [])) q, b'))"

text \<open>The prelude that both \<open>finalize\<close> and the deltas emit when it is still missing.\<close>

definition init_metadata :: "hash_env \<Rightarrow> responses_state \<Rightarrow> responses_state" where
  "init_metadata env b =
     (if response_id b = None
      then (let (u, b') = draw_uuid env b
            in b'\<lparr>response_id := Some (''resp_'' @ simple_uuid u), created_at := Some (he_now env),
                 rb_model := Some ''unknown''\<rparr>)
      else b)"

definition emit_prelude :: "hash_env \<Rightarrow> responses_state \<Rightarrow> responses_event list \<times> responses_state" where
  "emit_prelude env b =
     (let (ev1, b1) =
            (if created_emitted b then ([], b)
             else (let (e, b') = create_response_created_event (init_metadata env b)
                   in ([e], b'\<lparr>created_emitted := True\<rparr>)));
          (ev2, b2) =
            (if in_progress_emitted b1 then ([], b1)
             else (let (e, b') = create_response_in_progress_event b1
                   in ([e], b'\<lparr>in_progress_emitted := True\<rparr>)))
      in (ev1 @ ev2, b2))"

subsection \<open>Finalisation\<close>

definition index_of_item :: "hash_env \<Rightarrow> string \<Rightarrow> responses_state \<Rightarrow> i32" where
  "index_of_item env item b =
     (case find (\<lambda>(_, x). x = item) (he_item_order env (output_items_added b)) of
        Some (i, _) \<Rightarrow> i | None \<Rightarrow> 0)"

definition text_done ::
    "hash_env \<Rightarrow> string \<times> string \<Rightarrow> responses_state \<Rightarrow> responses_event list \<times> responses_state" where
  "text_done env entry b =
     (let (item, content) = entry; i = index_of_item env item b;
          (q1, b1) = next_sequence_number b; (q2, b2) = next_sequence_number b1
      in ([RE_OutputTextDone item i 0 content [] q1,
           RE_OutputItemDone i (OI_Message item OIS_Completed ''assistant'' []) q2], b2))"

definition args_done ::
    "hash_env \<Rightarrow> string \<times> string \<Rightarrow> responses_state \<Rightarrow> responses_event list \<times> responses_state" where
  "args_done env entry b =
     (let (item, args) = entry; i = index_of_item env item b;
          (q1, b1) = next_sequence_number b; ((cid, n), b2) = call_metadata env i b1;
          (q2, b3) = next_sequence_number b2
      in ([RE_FunctionCallArgumentsDone i item args q1,
           RE_OutputItemDone i (OI_FunctionCall item OIS_Completed cid (Some n) (Some args)) q2], b3))"

text \<open>A loop that collects the events of its steps.\<close>

fun collect ::
    "('a \<Rightarrow> responses_state \<Rightarrow> 'x list \<times> responses_state) \<Rightarrow> 'a list \<Rightarrow> responses_state
      \<Rightarrow> 'x list \<times> responses_state" where
  "collect f [] b = ([], b)"
| "collect f (x # xs) b =
     (let (e1, b1) = f x b; (e2, b2) = collect f xs b1 in (e1 @ e2, b2))"

definition max_output_index :: "responses_state \<Rightarrow> int" where
  "max_output_index b = fold (\<lambda>(i, _) m. max (sint i) m) (output_items_added b) (- 1)"

definition output_index_range :: "responses_state \<Rightarrow> i32 list" where
  "output_index_range b = map of_nat [0 ..< nat (max_output_index b + 1)]"

definition final_item ::
    "hash_env \<Rightarrow> i32 \<Rightarrow> responses_state \<Rightarrow> output_item list \<times> responses_state" where
  "final_item env i b =
     (case map_of (output_items_added b) i of
        None \<Rightarrow> ([], b)
      | Some item \<Rightarrow>
          (case map_of (function_arguments b) item of
             Some args \<Rightarrow>
               (let ((cid, n), b') = call_metadata env i b
                in ([OI_FunctionCall item OIS_Completed cid (Some n) (Some args)], b'))
           | None \<Rightarrow>
               (case map_of (text_content b) item of
                  Some t \<Rightarrow>
                    ([OI_Message item OIS_Completed ''assistant'' [OC_OutputText t [] None]], b)
                | None \<Rightarrow> ([], b))))"

definition finalize :: "hash_env \<Rightarrow> responses_state \<Rightarrow> responses_event list \<times> responses_state" where
  "finalize env b =
     (if finalized b then ([], b)
      else
        (let (ev1, b1) = emit_prelude env (b\<lparr>finalized := True\<rparr>);
             (ev2, b2) = collect (text_done env) (he_text_order env (text_content b1)) b1;
             (ev3, b3) = collect (args_done env) (he_args_order env (function_arguments b2)) b2;
             (items, b4) = collect (final_item env) (output_index_range b3) b3;
             final = (build_response b4 RS_Completed)\<lparr>rr_output := items\<rparr>;
             (q, b5) = next_sequence_number (b4\<lparr>completed_response := Some final\<rparr>)
         in (ev1 @ ev2 @ ev3 @ [RE_Completed final q], b5)))"

definition get_completed_response :: "responses_state \<Rightarrow> responses_response option" where
  "get_completed_response b = completed_response b"

subsection \<open>Deltas\<close>

definition append_to :: "string \<Rightarrow> string \<Rightarrow> (string \<times> string) list \<Rightarrow> (string \<times> string) list" where
  "append_to k v m =
     (case map_of m k of Some x \<Rightarrow> AList.update k (x @ v) m | None \<Rightarrow> AList.update k v m)"

definition text_delta_step ::
    "hash_env \<Rightarrow> i32 \<Rightarrow> i32 \<Rightarrow> string \<Rightarrow> json list \<Rightarrow> string option \<Rightarrow> responses_state
      \<Rightarrow> responses_event list \<times> responses_state" where
  "text_delta_step env i ci d lp obf b =
     (let (item, b1) = get_or_create_item_id env i ''msg'' b;
          (ev, b2) =
            (if map_of (output_items_added b1) i \<noteq> None then ([], b1)
             else (let (e, b') = create_output_item_added_event i item
                         (b1\<lparr>output_items_added := AList.update i item (output_items_added b1)\<rparr>)
                   in ([e], b')));
          b3 = b2\<lparr>text_content := append_to item d (text_content b2)\<rparr>;
          (q, b4) = next_sequence_number b3
      in (ev @ [RE_OutputTextDelta item i ci d lp obf q], b4))"

definition args_delta_step ::
    "hash_env \<Rightarrow> i32 \<Rightarrow> string \<Rightarrow> string option \<Rightarrow> string option \<Rightarrow> responses_state
      \<Rightarrow> responses_event list \<times> responses_state" where
  "args_delta_step env i d cid n b =
     (let (item, b1) = get_or_create_item_id env i ''fc'' b;
          b2 = (case (cid, n) of
                  (Some x, Some y) \<Rightarrow>
                    b1\<lparr>tool_call_metadata := AList.update i (x, y) (tool_call_metadata b1)\<rparr>
                | _ \<Rightarrow> b1);
          (ev, b3) =
            (if map_of (output_items_added b2) i \<noteq> None then ([], b2)
             else (let b2' = b2\<lparr>output_items_added := AList.update i item (output_items_added b2)\<rparr>;
                       ((x, y), b') = call_metadata env i b2';
                       (e, b'') = create_tool_call_added_event i item x y b'
                   in ([e], b'')));
          b4 = b3\<lparr>function_arguments := append_to item d (function_arguments b3)\<rparr>;
          (q, b5) = next_sequence_number b4
      in (ev @ [RE_FunctionCallArgumentsDelta i item d q cid n], b5))"

definition capture_metadata :: "responses_response \<Rightarrow> responses_state \<Rightarrow> responses_state" where
  "capture_metadata r b =
     (if upstream_response_metadata b = None
      then b\<lparr>upstream_response_metadata := Some r, response_id := Some (rr_id r),
             rb_model := Some (rr_model r), created_at := Some (rr_created_at r)\<rparr>
      else b)"

fun responses_handle ::
    "hash_env \<Rightarrow> responses_event \<Rightarrow> responses_state \<Rightarrow> responses_event list \<times> responses_state" where
  "responses_handle env (RE_Done _) b = finalize env b"
| "responses_handle env (RE_Created r _) b = ([], capture_metadata r b)"
| "responses_handle env (RE_InProgress r _) b = ([], capture_metadata r b)"
| "responses_handle env (RE_OutputTextDelta _ i ci d lp obf _) b =
     (let (ev1, b1) = emit_prelude env b; (ev2, b2) = text_delta_step env i ci d lp obf b1
      in (ev1 @ ev2, b2))"
| "responses_handle env (RE_FunctionCallArgumentsDelta i _ d _ cid n) b =
     (let (ev1, b1) = emit_prelude env b; (ev2, b2) = args_delta_step env i d cid n b1
      in (ev1 @ ev2, b2))"
| "responses_handle env e b = (let (ev1, b1) = emit_prelude env b in (ev1 @ [e], b1))"

definition responses_events ::
    "hash_env \<Rightarrow> sse_event \<Rightarrow> responses_state \<Rightarrow> responses_event list \<times> responses_state" where
  "responses_events env e b =
     (if should_skip e then ([], b)
      else if is_done e then finalize env b
      else (case provider_response e of
              Some (PSR_Responses ev) \<Rightarrow> responses_handle env ev b
            | _ \<Rightarrow> ([], b)))"

definition responses_add :: "codec \<Rightarrow> hash_env \<Rightarrow> responses_buffer \<Rightarrow> sse_event \<Rightarrow> responses_buffer" where
  "responses_add c env b e =
     (let (evs, s) = responses_events env e (rb_state b)
      in \<lparr>rb_state = s, rb_buffered_events = rb_buffered_events b @ map (event_to_sse c) evs\<rparr>)"

definition responses_to_bytes :: "responses_buffer \<Rightarrow> string \<times> responses_buffer" where
  "responses_to_bytes b = (wire (rb_buffered_events b), b\<lparr>rb_buffered_events := []\<rparr>)"

subsection \<open>The interface\<close>

interpretation responses: transducer_buffer
  "responses_add c env" responses_to_bytes rb_buffered_events "\<lambda>_. []"
  rb_state "\<lambda>s e. snd (responses_events env e s)"
  "\<lambda>s e. map (event_to_sse c) (fst (responses_events env e s))" for c env
  by unfold_locales
     (auto simp: responses_add_def responses_to_bytes_def responses_events_def Let_def
        case_prod_unfold)

subsection \<open>The events of a stream\<close>

text \<open>
  The events a sequence of inputs puts out, before serialisation. By the interface their texts
  are what a client receives, wherever it flushes.
\<close>

fun responses_log ::
    "hash_env \<Rightarrow> responses_state \<Rightarrow> sse_event list \<Rightarrow> responses_event list \<times> responses_state" where
  "responses_log env s [] = ([], s)"
| "responses_log env s (e # es) =
     (let (evs, s') = responses_events env e s; (evs', s'') = responses_log env s' es
      in (evs @ evs', s''))"

definition responses_text :: "codec \<Rightarrow> responses_event list \<Rightarrow> string" where
  "responses_text c evs = concat (map (responses_event_string (ser_responses c)) evs)"

lemma event_bytes_event_to_sse: "event_bytes (event_to_sse c e) = responses_event_string (ser_responses c) e"
proof -
  have "ends_with (sse_lines ty js) (NL @ NL)" for ty js
    unfolding sse_lines_def by (metis append.assoc ends_with_append)
  then show ?thesis
    by (simp add: event_bytes_def event_to_sse_def responses_event_string_def Let_def)
qed

lemma wire_event_to_sse: "wire (map (event_to_sse c) evs) = responses_text c evs"
  by (simp add: wire_def responses_text_def comp_def event_bytes_event_to_sse)

lemma responses_emitted:
  "wire (emitted (\<lambda>s e. snd (responses_events env e s))
      (\<lambda>s e. map (event_to_sse c) (fst (responses_events env e s))) s es) =
    responses_text c (fst (responses_log env s es))"
proof (induction es arbitrary: s)
  case Nil
  then show ?case by (simp add: responses_text_def)
next
  case (Cons e es)
  then show ?case
    by (simp add: wire_event_to_sse Let_def case_prod_unfold)
       (simp add: responses_text_def)
qed

lemma responses_run:
  "fst (buffer_run (responses_add c env) responses_to_bytes responses_new (ops @ [Flush])) =
    responses_text c (fst (responses_log env responses_state_new (added_events ops)))"
  using responses.run_flush_independent [of c env responses_new ops]
  by (simp add: responses_emitted responses_new_def)

end
