(* ===== verification/Responses_Protocol.thy ===== *)
theory Responses_Protocol
  imports Responses_Buffer "HOL-Library.Multiset"
begin

section \<open>Properties of the Responses stream\<close>

text \<open>
  What the events the Responses buffer puts out satisfy, for inputs as the translation from Chat
  Completions makes them: numbering, life cycle, and agreement of the final texts with the
  deltas. The last part shows streams whose output is not what the protocol asks for.
\<close>

subsection \<open>Inputs\<close>

text \<open>The events the translation of a Chat Completions chunk yields.\<close>

fun chat_made :: "responses_event \<Rightarrow> bool" where
  "chat_made (RE_OutputTextDelta _ _ _ _ _ _ _) = True"
| "chat_made (RE_FunctionCallArgumentsDelta _ _ _ _ _ _) = True"
| "chat_made (RE_Done _) = True"
| "chat_made _ = False"

lemma chat_to_responses_made: "chat_to_responses r = Inr e \<Longrightarrow> chat_made e"
  by (auto simp: chat_to_responses_def choice_rest_to_responses_def Let_def
      split: list.splits option.splits if_splits)

definition chat_input :: "sse_event \<Rightarrow> bool" where
  "chat_input e =
     (case provider_response e of Some (PSR_Responses ev) \<Rightarrow> chat_made ev | _ \<Rightarrow> True)"

lemma translated_chat_input:
  assumes "sse_event_try_from c t e (C_OpenAIResponsesAPI a) (U_OpenAIChatCompletions m) = Inr e'"
    and "provider_response e = None"
  shows "chat_input e'"
proof (cases "is_done e")
  case True
  then have "e' = e\<lparr>sse_transformed_lines := ''data: [DONE]''\<rparr>"
    using assms(1) by (simp add: sse_event_try_from_def is_anthropic_client_def)
  then show ?thesis using assms(2) by (simp add: chat_input_def)
next
  case False
  have made: "chat_made x" if h: "bind_result r (\<lambda>r. lift_error (chat_to_responses r)) = Inr x" for r x
  proof -
    obtain y where "lift_error (chat_to_responses y) = Inr x" using h by (cases r) auto
    then show ?thesis by (cases "chat_to_responses y") (auto dest: chat_to_responses_made)
  qed
  show ?thesis
  proof (cases "ev_data e")
    case None
    with False assms show ?thesis by (auto simp: sse_event_try_from_def chat_input_def)
  next
    case (Some d)
    with False assms(1) obtain x where
      x: "bind_result (de_chat c d) (\<lambda>r. lift_error (chat_to_responses r)) = Inr x"
        "provider_response e' = Some (PSR_Responses x)"
      by (auto simp: sse_event_try_from_def is_anthropic_client_def psr_try_from_def map_ok_Inr)
    from made [OF x(1)] x(2) show ?thesis by (simp add: chat_input_def)
  qed
qed

subsection \<open>Numbering\<close>

fun event_number :: "responses_event \<Rightarrow> i32" where
  "event_number (RE_Created _ q) = q"
| "event_number (RE_InProgress _ q) = q"
| "event_number (RE_Completed _ q) = q"
| "event_number (RE_OutputItemAdded _ _ q) = q"
| "event_number (RE_OutputItemDone _ _ q) = q"
| "event_number (RE_ContentPartAdded _ _ _ _ q) = q"
| "event_number (RE_ContentPartDone _ _ _ _ q) = q"
| "event_number (RE_OutputTextDelta _ _ _ _ _ _ q) = q"
| "event_number (RE_OutputTextDone _ _ _ _ _ q) = q"
| "event_number (RE_AudioDelta _ _ _ _ q) = q"
| "event_number (RE_AudioDone _ _ _ q) = q"
| "event_number (RE_AudioTranscriptDelta _ _ _ _ q) = q"
| "event_number (RE_AudioTranscriptDone _ _ _ _ q) = q"
| "event_number (RE_FunctionCallArgumentsDelta _ _ _ q _ _) = q"
| "event_number (RE_FunctionCallArgumentsDone _ _ _ q) = q"
| "event_number (RE_CodeInterpreterCallCodeDelta _ _ _ q) = q"
| "event_number (RE_CodeInterpreterCallCodeDone _ _ _ q) = q"
| "event_number (RE_CodeInterpreterCallInProgress _ _ q) = q"
| "event_number (RE_CodeInterpreterCallInterpreting _ _ q) = q"
| "event_number (RE_CodeInterpreterCallCompleted _ _ q) = q"
| "event_number (RE_CustomToolCallInputDelta _ _ _ q) = q"
| "event_number (RE_CustomToolCallInputDone _ _ _ q) = q"
| "event_number (RE_Error _ _ q) = q"
| "event_number (RE_Done q) = q"

fun numbers :: "i32 \<Rightarrow> nat \<Rightarrow> i32 list" where
  "numbers q 0 = []"
| "numbers q (Suc n) = q # numbers (q + 1) n"

lemma numbers_add: "numbers q (m + n) = numbers q m @ numbers (q + of_nat m) n"
  by (induction m arbitrary: q) (simp_all add: algebra_simps)

lemma numbers_upt: "numbers q n = map (\<lambda>k. q + of_nat k) [0 ..< n]"
proof (induction n)
  case 0
  then show ?case by simp
next
  case (Suc n)
  then show ?case using numbers_add [of q n 1] by simp
qed

text \<open>A step whose events carry the numbers it takes from the counter.\<close>

definition counts :: "(responses_state \<Rightarrow> responses_event list \<times> responses_state) \<Rightarrow> bool" where
  "counts f = (\<forall>s. map event_number (fst (f s)) = numbers (sequence_number s) (length (fst (f s))) \<and>
     sequence_number (snd (f s)) = sequence_number s + of_nat (length (fst (f s))))"

lemma counts_none: "(\<And>s. fst (f s) = [] \<and> sequence_number (snd (f s)) = sequence_number s) \<Longrightarrow> counts f"
  by (simp add: counts_def)

lemma counts_seq:
  assumes "counts f" "counts g"
  shows "counts (\<lambda>s. let (e1, s1) = f s; (e2, s2) = g s1 in (e1 @ e2, s2))"
  using assms by (simp add: counts_def Let_def case_prod_unfold numbers_add algebra_simps)

lemma counts_collect: "(\<And>x. counts (f x)) \<Longrightarrow> counts (collect f xs)"
proof (induction xs)
  case Nil
  then show ?case by (simp add: counts_def)
next
  case (Cons x xs)
  then show ?case using counts_seq [of "f x" "collect f xs"] by simp
qed

lemmas number_simps = next_sequence_number_def draw_uuid_def Let_def case_prod_unfold

lemma call_metadata_fields [simp]:
  "sequence_number (snd (call_metadata env i s)) = sequence_number s"
  "text_content (snd (call_metadata env i s)) = text_content s"
  "function_arguments (snd (call_metadata env i s)) = function_arguments s"
  "created_emitted (snd (call_metadata env i s)) = created_emitted s"
  "in_progress_emitted (snd (call_metadata env i s)) = in_progress_emitted s"
  "finalized (snd (call_metadata env i s)) = finalized s"
  by (simp_all add: call_metadata_def number_simps split: option.split)

lemma init_metadata_fields [simp]:
  "sequence_number (init_metadata env s) = sequence_number s"
  "text_content (init_metadata env s) = text_content s"
  "function_arguments (init_metadata env s) = function_arguments s"
  "created_emitted (init_metadata env s) = created_emitted s"
  "in_progress_emitted (init_metadata env s) = in_progress_emitted s"
  "finalized (init_metadata env s) = finalized s"
  by (simp_all add: init_metadata_def number_simps)

lemma get_or_create_fields [simp]:
  "sequence_number (snd (get_or_create_item_id env i p s)) = sequence_number s"
  "text_content (snd (get_or_create_item_id env i p s)) = text_content s"
  "function_arguments (snd (get_or_create_item_id env i p s)) = function_arguments s"
  "created_emitted (snd (get_or_create_item_id env i p s)) = created_emitted s"
  "in_progress_emitted (snd (get_or_create_item_id env i p s)) = in_progress_emitted s"
  "finalized (snd (get_or_create_item_id env i p s)) = finalized s"
  by (simp_all add: get_or_create_item_id_def generate_item_id_def number_simps split: option.split)

lemma final_item_fields [simp]:
  "sequence_number (snd (final_item env i s)) = sequence_number s"
  by (simp add: final_item_def Let_def case_prod_unfold split: option.split)

lemma collect_keeps:
  assumes "\<And>x s. P (snd (f x s)) = P s"
  shows "P (snd (collect f xs s)) = P s"
  by (induction xs arbitrary: s) (simp_all add: Let_def case_prod_unfold assms)

lemma counts_prelude: "counts (emit_prelude env)"
  by (simp add: counts_def emit_prelude_def create_response_created_event_def
      create_response_in_progress_event_def number_simps)

lemma counts_text_done: "counts (text_done env x)"
  by (simp add: counts_def text_done_def number_simps numeral_2_eq_2)

lemma counts_args_done: "counts (args_done env x)"
  by (simp add: counts_def args_done_def number_simps numeral_2_eq_2)

lemma counts_text_delta: "counts (text_delta_step env i ci d lp obf)"
  by (simp add: counts_def text_delta_step_def create_output_item_added_event_def number_simps
      numeral_2_eq_2)

lemma counts_args_delta: "counts (args_delta_step env i d cid n)"
  by (simp add: counts_def args_delta_step_def create_tool_call_added_event_def number_simps
      numeral_2_eq_2 split: option.split)

lemma counts_D:
  "counts f \<Longrightarrow> map event_number (fst (f s)) = numbers (sequence_number s) (length (fst (f s)))"
  "counts f \<Longrightarrow> sequence_number (snd (f s)) = sequence_number s + of_nat (length (fst (f s)))"
  by (simp_all add: counts_def)

lemma collect_final_number [simp]:
  "sequence_number (snd (collect (final_item env) xs s)) = sequence_number s"
  by (rule collect_keeps) simp

lemma counts_finalize: "counts (finalize env)"
proof -
  have "map event_number (fst (finalize env s)) =
      numbers (sequence_number s) (length (fst (finalize env s))) \<and>
    sequence_number (snd (finalize env s)) = sequence_number s + of_nat (length (fst (finalize env s)))"
    if nf: "\<not> finalized s" for s
  proof -
    let ?r1 = "emit_prelude env (s\<lparr>finalized := True\<rparr>)"
    let ?r2 = "collect (text_done env) (he_text_order env (text_content (snd ?r1))) (snd ?r1)"
    let ?r3 = "collect (args_done env) (he_args_order env (function_arguments (snd ?r2))) (snd ?r2)"
    note c1 = counts_D [OF counts_prelude [of env], of "s\<lparr>finalized := True\<rparr>"]
    note c2 = counts_D [OF counts_collect [where f = "text_done env" and
        xs = "he_text_order env (text_content (snd ?r1))", OF counts_text_done], of "snd ?r1"]
    note c3 = counts_D [OF counts_collect [where f = "args_done env" and
        xs = "he_args_order env (function_arguments (snd ?r2))", OF counts_args_done], of "snd ?r2"]
    have parts: "\<exists>r. fst (finalize env s) =
          fst ?r1 @ fst ?r2 @ fst ?r3 @ [RE_Completed r (sequence_number (snd ?r3))]"
      "sequence_number (snd (finalize env s)) = sequence_number (snd ?r3) + 1"
      using nf by (simp_all add: finalize_def Let_def case_prod_unfold next_sequence_number_def)
    have len: "length (fst (finalize env s)) =
        length (fst ?r1) + (length (fst ?r2) + (length (fst ?r3) + 1))"
      using parts(1) by auto
    have "map event_number (fst (finalize env s)) =
        numbers (sequence_number s) (length (fst ?r1) + (length (fst ?r2) + (length (fst ?r3) + 1)))"
      using parts(1) c1 c2 c3 unfolding numbers_add by (auto simp: add.assoc)
    moreover have "sequence_number (snd (finalize env s)) = sequence_number s +
        of_nat (length (fst ?r1) + (length (fst ?r2) + (length (fst ?r3) + 1)))"
      using parts(2) c1(2) c2(2) c3(2) by (simp add: add.assoc)
    ultimately show ?thesis unfolding len by blast
  qed
  then show ?thesis by (auto simp: counts_def finalize_def)
qed

lemma counts_handle: "chat_made e \<Longrightarrow> counts (responses_handle env e)"
proof (cases e)
  case (RE_OutputTextDelta a i ci d lp obf q)
  then show ?thesis
    using counts_seq [OF counts_prelude counts_text_delta, of env env i ci d lp obf]
    by (simp add: counts_def Let_def case_prod_unfold)
next
  case (RE_FunctionCallArgumentsDelta i a d q cid n)
  then show ?thesis
    using counts_seq [OF counts_prelude counts_args_delta, of env env i d cid n]
    by (simp add: counts_def Let_def case_prod_unfold)
next
  case (RE_Done q)
  then show ?thesis using counts_finalize [of env] by (simp add: counts_def)
qed simp_all

lemma counts_events: "chat_input e \<Longrightarrow> counts (responses_events env e)"
  using counts_finalize [of env] counts_handle [of _ env]
  by (auto simp: counts_def responses_events_def chat_input_def
      split: option.splits provider_stream_response.splits)

lemma counts_log: "\<forall>e \<in> set es. chat_input e \<Longrightarrow> counts (\<lambda>s. responses_log env s es)"
proof (induction es)
  case Nil
  then show ?case by (simp add: counts_def)
next
  case (Cons e es)
  then show ?case
    using counts_seq [OF counts_events [of e env], of "\<lambda>s. responses_log env s es"] by simp
qed

lemma state_new_fields [simp]:
  "sequence_number responses_state_new = 0" "\<not> created_emitted responses_state_new"
  "\<not> in_progress_emitted responses_state_new" "\<not> finalized responses_state_new"
  "text_content responses_state_new = []" "function_arguments responses_state_new = []"
  by (simp_all add: responses_state_new_def)

text \<open>
  (C16) Whatever a Chat Completions upstream sends and wherever the transport flushes, the events
  a Responses client receives are numbered 0, 1, 2, ... without gap or repetition.
\<close>

theorem responses_numbered:
  assumes "\<forall>e \<in> set (added_events ops). chat_input e"
  shows "\<exists>evs.
    fst (buffer_run (responses_add c env) responses_to_bytes responses_new (ops @ [Flush])) =
      responses_text c evs \<and>
    map event_number evs = map of_nat [0 ..< length evs]"
  using counts_D(1) [OF counts_log [OF assms, of env], of responses_state_new]
  by (intro exI [of _ "fst (responses_log env responses_state_new (added_events ops))"])
     (simp add: responses_run numbers_upt)

subsection \<open>Life cycle\<close>

fun is_prelude :: "responses_event \<Rightarrow> bool" where
  "is_prelude (RE_Created _ _) = True"
| "is_prelude (RE_InProgress _ _) = True"
| "is_prelude _ = False"

fun is_completed :: "responses_event \<Rightarrow> bool" where
  "is_completed (RE_Completed _ _) = True"
| "is_completed _ = False"

text \<open>A step that emits neither, and keeps the three flags.\<close>

definition plain :: "(responses_state \<Rightarrow> responses_event list \<times> responses_state) \<Rightarrow> bool" where
  "plain f = (\<forall>s. (\<forall>e \<in> set (fst (f s)). \<not> is_prelude e \<and> \<not> is_completed e) \<and>
     created_emitted (snd (f s)) = created_emitted s \<and>
     in_progress_emitted (snd (f s)) = in_progress_emitted s \<and>
     finalized (snd (f s)) = finalized s)"

lemma plain_collect: "(\<And>x. plain (f x)) \<Longrightarrow> plain (collect f xs)"
proof (induction xs)
  case Nil
  then show ?case by (simp add: plain_def)
next
  case (Cons x xs)
  then have "plain (f x)" "plain (collect f xs)" by simp_all
  then show ?case by (auto simp: plain_def Let_def case_prod_unfold)
qed

lemma plain_steps:
  "plain (text_done env x)" "plain (args_done env x)"
  "plain (text_delta_step env i ci d lp obf)" "plain (args_delta_step env i d cid n)"
  by (simp_all add: plain_def text_done_def args_done_def text_delta_step_def args_delta_step_def
      create_output_item_added_event_def create_tool_call_added_event_def number_simps
      split: option.split)

lemma collect_final_flags [simp]:
  "created_emitted (snd (collect (final_item env) xs s)) = created_emitted s"
  "in_progress_emitted (snd (collect (final_item env) xs s)) = in_progress_emitted s"
  "finalized (snd (collect (final_item env) xs s)) = finalized s"
  by (rule collect_keeps; simp add: final_item_def Let_def case_prod_unfold split: option.split)+

lemma prelude_done:
  "created_emitted s \<Longrightarrow> in_progress_emitted s \<Longrightarrow> emit_prelude env s = ([], s)"
  by (simp add: emit_prelude_def)

lemma prelude_fresh:
  assumes "\<not> created_emitted s" "\<not> in_progress_emitted s"
  shows "\<exists>r1 q1 r2 q2. fst (emit_prelude env s) = [RE_Created r1 q1, RE_InProgress r2 q2]"
  using assms
  by (simp add: emit_prelude_def create_response_created_event_def
      create_response_in_progress_event_def number_simps)

lemma prelude_flags [simp]:
  "created_emitted (snd (emit_prelude env s))" "in_progress_emitted (snd (emit_prelude env s))"
  "finalized (snd (emit_prelude env s)) = finalized s"
  by (simp_all add: emit_prelude_def create_response_created_event_def
      create_response_in_progress_event_def number_simps)

definition started :: "responses_state \<Rightarrow> bool" where
  "started s = (created_emitted s \<and> in_progress_emitted s)"

definition fresh :: "responses_state \<Rightarrow> bool" where
  "fresh s = (\<not> created_emitted s \<and> \<not> in_progress_emitted s \<and> \<not> finalized s)"

lemma finalize_completed:
  assumes "\<not> finalized s"
  shows "\<exists>rest r q. fst (finalize env s) = fst (emit_prelude env (s\<lparr>finalized := True\<rparr>)) @ rest @ [RE_Completed r q] \<and>
      (\<forall>e \<in> set rest. \<not> is_prelude e \<and> \<not> is_completed e) \<and>
    started (snd (finalize env s)) \<and> finalized (snd (finalize env s))"
proof -
  let ?r1 = "emit_prelude env (s\<lparr>finalized := True\<rparr>)"
  let ?r2 = "collect (text_done env) (he_text_order env (text_content (snd ?r1))) (snd ?r1)"
  let ?r3 = "collect (args_done env) (he_args_order env (function_arguments (snd ?r2))) (snd ?r2)"
  have p2: "plain (collect (text_done env) (he_text_order env (text_content (snd ?r1))))"
    and p3: "plain (collect (args_done env) (he_args_order env (function_arguments (snd ?r2))))"
    by (rule plain_collect, rule plain_steps)+
  have "\<exists>r q. fst (finalize env s) = fst ?r1 @ (fst ?r2 @ fst ?r3) @ [RE_Completed r q]"
    using assms by (simp add: finalize_def Let_def case_prod_unfold)
  moreover have "\<forall>e \<in> set (fst ?r2 @ fst ?r3). \<not> is_prelude e \<and> \<not> is_completed e"
    using p2 p3 by (auto simp: plain_def)
  moreover have "started (snd (finalize env s)) \<and> finalized (snd (finalize env s))"
    using assms p2 p3
    by (simp add: finalize_def Let_def case_prod_unfold next_sequence_number_def started_def plain_def)
  ultimately show ?thesis by blast
qed

text \<open>The inputs that end the stream.\<close>

definition ends_stream :: "sse_event \<Rightarrow> bool" where
  "ends_stream e = (\<not> should_skip e \<and>
     (is_done e \<or> (\<exists>q. provider_response e = Some (PSR_Responses (RE_Done q)))))"

definition completions :: "responses_event list \<Rightarrow> nat" where
  "completions evs = length (filter is_completed evs)"

lemma completions_append [simp]: "completions (xs @ ys) = completions xs + completions ys"
  by (simp add: completions_def)

lemma completions_none: "\<forall>e \<in> set xs. \<not> is_completed e \<Longrightarrow> completions xs = 0"
  by (simp add: completions_def)

lemma completions_simps [simp]:
  "completions [] = 0" "completions (e # es) = (if is_completed e then 1 else 0) + completions es"
  by (simp_all add: completions_def)

text \<open>The events of one input, once the prelude of the step is split off.\<close>

definition after_prelude ::
    "hash_env \<Rightarrow> sse_event \<Rightarrow> responses_state \<Rightarrow> responses_event list \<times> responses_state \<Rightarrow> bool" where
  "after_prelude env e s r =
     (\<exists>rest p. fst r = fst (emit_prelude env p) @ rest \<and>
        created_emitted p = created_emitted s \<and> in_progress_emitted p = in_progress_emitted s \<and>
        (\<forall>x \<in> set rest. \<not> is_prelude x) \<and>
        completions rest = (if ends_stream e then 1 else 0) \<and>
        started (snd r) \<and> finalized (snd r) = (finalized s \<or> ends_stream e))"

lemma finalize_after_prelude:
  assumes "\<not> finalized s" "ends_stream e"
  shows "after_prelude env e s (finalize env s)"
proof -
  obtain rest r q where "fst (finalize env s) =
      fst (emit_prelude env (s\<lparr>finalized := True\<rparr>)) @ rest @ [RE_Completed r q]"
    "\<forall>e \<in> set rest. \<not> is_prelude e \<and> \<not> is_completed e"
    "started (snd (finalize env s)) \<and> finalized (snd (finalize env s))"
    using finalize_completed [OF assms(1)] by blast
  then show ?thesis
    using assms(2) unfolding after_prelude_def
    by (intro exI [of _ "rest @ [RE_Completed r q]"] exI [of _ "s\<lparr>finalized := True\<rparr>"])
       (auto simp: completions_none)
qed

lemma plain_after_prelude:
  assumes "plain f" "\<not> ends_stream e"
  shows "after_prelude env e s
    (let (e1, s1) = emit_prelude env s; (e2, s2) = f s1 in (e1 @ e2, s2))"
proof -
  let ?p = "emit_prelude env s"
  have "\<forall>x \<in> set (fst (f (snd ?p))). \<not> is_prelude x \<and> \<not> is_completed x"
    "started (snd (f (snd ?p)))" "finalized (snd (f (snd ?p))) = finalized s"
    using assms(1) by (simp_all add: plain_def started_def)
  then show ?thesis
    using assms(2) unfolding after_prelude_def
    by (intro exI [of _ "fst (f (snd ?p))"] exI [of _ s])
       (auto simp: Let_def case_prod_unfold completions_none)
qed

lemma responses_step_cases:
  assumes "chat_input e"
  shows "(responses_events env e s = ([], s) \<and> (ends_stream e \<longrightarrow> finalized s)) \<or>
    after_prelude env e s (responses_events env e s)"
proof (cases "should_skip e \<or> (ends_stream e \<and> finalized s)")
  case True
  then show ?thesis
    by (auto simp: responses_events_def ends_stream_def finalize_def)
next
  case no_skip: False
  show ?thesis
  proof (cases "ends_stream e")
    case True
    with no_skip have "responses_events env e s = finalize env s"
      by (auto simp: responses_events_def ends_stream_def)
    with no_skip True show ?thesis using finalize_after_prelude [of s e env] by simp
  next
    case False
    with no_skip have nd: "\<not> should_skip e" "\<not> is_done e" by (auto simp: ends_stream_def)
    show ?thesis
    proof (cases "\<exists>ev. provider_response e = Some (PSR_Responses ev)")
      case False
      with nd have "responses_events env e s = ([], s)"
        by (auto simp: responses_events_def split: option.split provider_stream_response.split)
      with \<open>\<not> ends_stream e\<close> show ?thesis by simp
    next
      case True
      then obtain ev where ev: "provider_response e = Some (PSR_Responses ev)" by blast
      with assms have made: "chat_made ev" by (simp add: chat_input_def)
      have step: "responses_events env e s = responses_handle env ev s"
        using nd ev by (simp add: responses_events_def)
      from made False ev nd show ?thesis
      proof (cases ev)
        case (RE_OutputTextDelta a i ci d lp obf q)
        then show ?thesis
          using step plain_after_prelude [where f = "text_delta_step env i ci d lp obf" and env = env
              and s = s, OF plain_steps(3) False] by simp
      next
        case (RE_FunctionCallArgumentsDelta i a d q cid n)
        then show ?thesis
          using step plain_after_prelude [where f = "args_delta_step env i d cid n" and env = env
              and s = s, OF plain_steps(4) False] by simp
      qed (auto simp: ends_stream_def)
    qed
  qed
qed

lemma responses_log_started:
  assumes "started s" "\<forall>e \<in> set es. chat_input e"
  shows "(\<forall>x \<in> set (fst (responses_log env s es)). \<not> is_prelude x) \<and>
    completions (fst (responses_log env s es)) =
      (if \<not> finalized s \<and> (\<exists>e \<in> set es. ends_stream e) then 1 else 0)"
  using assms
proof (induction es arbitrary: s)
  case Nil
  then show ?case by simp
next
  case (Cons e es)
  let ?r = "responses_events env e s"
  consider "?r = ([], s)" "ends_stream e \<longrightarrow> finalized s" | "after_prelude env e s ?r" "\<not> (ends_stream e \<and> finalized s)"
    | "ends_stream e" "finalized s"
    using responses_step_cases [of e env s] Cons.prems(2) by auto
  then show ?case
  proof cases
    case 1
    then show ?thesis using Cons by (auto simp: Let_def case_prod_unfold)
  next
    case 2
    obtain rest p where r: "fst ?r = fst (emit_prelude env p) @ rest"
      "created_emitted p = created_emitted s" "in_progress_emitted p = in_progress_emitted s"
      "\<forall>x \<in> set rest. \<not> is_prelude x" "completions rest = (if ends_stream e then 1 else 0)"
      "started (snd ?r)" "finalized (snd ?r) = (finalized s \<or> ends_stream e)"
      using 2(1) unfolding after_prelude_def by blast
    have "fst ?r = rest"
      using r(1-3) Cons.prems(1) by (simp add: started_def prelude_done)
    with Cons.IH [OF r(6)] Cons.prems(2) r 2(2) show ?thesis
      by (auto simp: Let_def case_prod_unfold)
  next
    case 3
    then have "?r = ([], s)"
      by (auto simp: responses_events_def ends_stream_def finalize_def)
    then show ?thesis using Cons 3 by (auto simp: Let_def case_prod_unfold)
  qed
qed

lemma responses_log_fresh:
  assumes "fresh s" "\<forall>e \<in> set es. chat_input e"
  shows "(fst (responses_log env s es) = [] \<or>
      (\<exists>r1 q1 r2 q2 rest. fst (responses_log env s es) = RE_Created r1 q1 # RE_InProgress r2 q2 # rest \<and>
         (\<forall>x \<in> set rest. \<not> is_prelude x))) \<and>
    completions (fst (responses_log env s es)) = (if \<exists>e \<in> set es. ends_stream e then 1 else 0)"
  using assms
proof (induction es arbitrary: s)
  case Nil
  then show ?case by simp
next
  case (Cons e es)
  let ?r = "responses_events env e s"
  have nf: "\<not> finalized s" using Cons.prems(1) by (simp add: fresh_def)
  consider "?r = ([], s)" "\<not> ends_stream e" | "after_prelude env e s ?r"
    using responses_step_cases [of e env s] Cons.prems(2) nf by auto
  then show ?case
  proof cases
    case 1
    then show ?thesis using Cons by (auto simp: Let_def case_prod_unfold)
  next
    case 2
    obtain rest p where r: "fst ?r = fst (emit_prelude env p) @ rest"
      "created_emitted p = created_emitted s" "in_progress_emitted p = in_progress_emitted s"
      "\<forall>x \<in> set rest. \<not> is_prelude x" "completions rest = (if ends_stream e then 1 else 0)"
      "started (snd ?r)" "finalized (snd ?r) = (finalized s \<or> ends_stream e)"
      using 2(1) unfolding after_prelude_def by blast
    obtain r1 q1 r2 q2 where pre: "fst (emit_prelude env p) = [RE_Created r1 q1, RE_InProgress r2 q2]"
      using prelude_fresh [of p env] r(2,3) Cons.prems(1) by (auto simp: fresh_def)
    have "(\<forall>x \<in> set (fst (responses_log env (snd ?r) es)). \<not> is_prelude x) \<and>
        completions (fst (responses_log env (snd ?r) es)) =
          (if \<not> finalized (snd ?r) \<and> (\<exists>e \<in> set es. ends_stream e) then 1 else 0)"
      using responses_log_started [OF r(6), of es env] Cons.prems(2) by simp
    with r(1,4,5,7) pre nf show ?thesis
      by (auto simp: Let_def case_prod_unfold)
  qed
qed

text \<open>
  (C15) Life cycle: the events a Responses client receives are none, or begin with the created
  and the in-progress event, which occur nowhere else; the completed event occurs exactly once
  when the upstream marks the end of its stream in any way and however often, and never
  otherwise.
\<close>

theorem responses_life_cycle:
  assumes "\<forall>e \<in> set (added_events ops). chat_input e"
  shows "\<exists>evs.
    fst (buffer_run (responses_add c env) responses_to_bytes responses_new (ops @ [Flush])) =
      responses_text c evs \<and>
    (evs = [] \<or>
      (\<exists>r1 q1 r2 q2 rest. evs = RE_Created r1 q1 # RE_InProgress r2 q2 # rest \<and>
         (\<forall>x \<in> set rest. \<not> is_prelude x))) \<and>
    completions evs = (if \<exists>e \<in> set (added_events ops). ends_stream e then 1 else 0)"
proof -
  have "fresh responses_state_new" by (simp add: fresh_def)
  from responses_log_fresh [OF this assms, of env] show ?thesis
    by (intro exI [of _ "fst (responses_log env responses_state_new (added_events ops))"])
       (simp add: responses_run)
qed

subsection \<open>Agreement of the final texts with the deltas\<close>

fun text_of :: "string \<Rightarrow> responses_event \<Rightarrow> string" where
  "text_of item (RE_OutputTextDelta it _ _ d _ _ _) = (if it = item then d else [])"
| "text_of item _ = []"

fun args_of :: "string \<Rightarrow> responses_event \<Rightarrow> string" where
  "args_of item (RE_FunctionCallArgumentsDelta _ it d _ _ _) = (if it = item then d else [])"
| "args_of item _ = []"

definition texts :: "string \<Rightarrow> responses_event list \<Rightarrow> string" where
  "texts item evs = concat (map (text_of item) evs)"

definition arguments :: "string \<Rightarrow> responses_event list \<Rightarrow> string" where
  "arguments item evs = concat (map (args_of item) evs)"

lemma texts_simps [simp]:
  "texts i [] = []" "texts i (e # es) = text_of i e @ texts i es"
  "texts i (xs @ ys) = texts i xs @ texts i ys"
  "arguments i [] = []" "arguments i (e # es) = args_of i e @ arguments i es"
  "arguments i (xs @ ys) = arguments i xs @ arguments i ys"
  by (simp_all add: texts_def arguments_def)

text \<open>A done event after the events \<open>pre\<close> carries what was streamed for its item.\<close>

fun done_ok :: "responses_event list \<Rightarrow> responses_event \<Rightarrow> bool" where
  "done_ok pre (RE_OutputTextDone item _ _ t _ _) = (t = texts item pre)"
| "done_ok pre (RE_FunctionCallArgumentsDone _ item a _) = (a = arguments item pre)"
| "done_ok pre _ = True"

fun dones_ok :: "responses_event list \<Rightarrow> responses_event list \<Rightarrow> bool" where
  "dones_ok pre [] = True"
| "dones_ok pre (e # es) = (done_ok pre e \<and> dones_ok (pre @ [e]) es)"

lemma dones_ok_append: "dones_ok pre (xs @ ys) \<longleftrightarrow> dones_ok pre xs \<and> dones_ok (pre @ xs) ys"
  by (induction xs arbitrary: pre) auto

lemma dones_ok_split: "dones_ok pre (xs @ e # ys) \<Longrightarrow> done_ok (pre @ xs) e"
  by (simp add: dones_ok_append)

definition lookup :: "(string \<times> string) list \<Rightarrow> string \<Rightarrow> string" where
  "lookup m k = (case map_of m k of Some x \<Rightarrow> x | None \<Rightarrow> [])"

lemma lookup_append_to [simp]:
  "lookup (append_to k v m) j = (if j = k then lookup m k @ v else lookup m j)"
  by (auto simp: lookup_def append_to_def AList.update_conv' split: option.split)

lemma distinct_append_to: "distinct (map fst m) \<Longrightarrow> distinct (map fst (append_to k v m))"
  by (simp add: append_to_def AList.distinct_update split: option.split)

lemma lookup_entry: "distinct (map fst m) \<Longrightarrow> (k, v) \<in> set m \<Longrightarrow> lookup m k = v"
  by (simp add: lookup_def)

definition accumulated :: "responses_event list \<Rightarrow> responses_state \<Rightarrow> bool" where
  "accumulated pre s =
     (distinct (map fst (text_content s)) \<and> distinct (map fst (function_arguments s)) \<and>
      (\<forall>item. lookup (text_content s) item = texts item pre) \<and>
      (\<forall>item. lookup (function_arguments s) item = arguments item pre))"

text \<open>Events that are neither deltas nor done events.\<close>

fun silent :: "responses_event \<Rightarrow> bool" where
  "silent (RE_OutputTextDelta _ _ _ _ _ _ _) = False"
| "silent (RE_FunctionCallArgumentsDelta _ _ _ _ _ _) = False"
| "silent (RE_OutputTextDone _ _ _ _ _ _) = False"
| "silent (RE_FunctionCallArgumentsDone _ _ _ _) = False"
| "silent _ = True"

lemma silent_event: "silent e \<Longrightarrow> text_of i e = [] \<and> args_of i e = [] \<and> done_ok pre e"
  by (cases e) simp_all

lemma silent_events:
  assumes "\<forall>e \<in> set es. silent e"
  shows "texts i es = [] \<and> arguments i es = [] \<and> dones_ok pre es"
  using assms by (induction es arbitrary: pre) (simp_all add: silent_event)

lemma prelude_silent: "\<forall>e \<in> set (fst (emit_prelude env s)). silent e"
  by (simp add: emit_prelude_def create_response_created_event_def
      create_response_in_progress_event_def number_simps)

lemma prelude_contents [simp]:
  "text_content (snd (emit_prelude env s)) = text_content s"
  "function_arguments (snd (emit_prelude env s)) = function_arguments s"
  by (simp_all add: emit_prelude_def create_response_created_event_def
      create_response_in_progress_event_def number_simps)

lemma prelude_accumulated:
  "accumulated pre s \<Longrightarrow>
    dones_ok pre (fst (emit_prelude env s)) \<and>
    accumulated (pre @ fst (emit_prelude env s)) (snd (emit_prelude env s))"
  using silent_events [OF prelude_silent [of env s]] by (simp add: accumulated_def)

lemma text_delta_accumulated:
  "accumulated pre s \<Longrightarrow>
    dones_ok pre (fst (text_delta_step env i ci d lp obf s)) \<and>
    accumulated (pre @ fst (text_delta_step env i ci d lp obf s))
      (snd (text_delta_step env i ci d lp obf s))"
  by (auto simp: accumulated_def text_delta_step_def create_output_item_added_event_def
      number_simps distinct_append_to)

lemma args_delta_accumulated:
  "accumulated pre s \<Longrightarrow>
    dones_ok pre (fst (args_delta_step env i d cid n s)) \<and>
    accumulated (pre @ fst (args_delta_step env i d cid n s)) (snd (args_delta_step env i d cid n s))"
  by (auto simp: accumulated_def args_delta_step_def create_tool_call_added_event_def
      number_simps distinct_append_to split: option.split)

lemma collect_text_done:
  assumes "\<forall>(item, t) \<in> set xs. t = texts item pre"
  shows "dones_ok pre (fst (collect (text_done env) xs s)) \<and>
    (\<forall>i. texts i (fst (collect (text_done env) xs s)) = []) \<and>
    (\<forall>i. arguments i (fst (collect (text_done env) xs s)) = [])"
  using assms
proof (induction xs arbitrary: s pre)
  case Nil
  then show ?case by simp
next
  case (Cons x xs)
  obtain evs s' where x: "text_done env x s = (evs, s')" by fastforce
  have evs: "dones_ok pre evs" "\<And>i. texts i evs = []" "\<And>i. arguments i evs = []"
    using x Cons.prems by (auto simp: text_done_def number_simps split: prod.splits)
  have "\<forall>(item, t) \<in> set xs. t = texts item (pre @ evs)" using Cons.prems evs(2) by auto
  from Cons.IH [OF this, of s'] show ?case
    using x evs by (simp add: Let_def case_prod_unfold dones_ok_append)
qed

lemma collect_args_done:
  assumes "\<forall>(item, a) \<in> set xs. a = arguments item pre"
  shows "dones_ok pre (fst (collect (args_done env) xs s)) \<and>
    (\<forall>i. texts i (fst (collect (args_done env) xs s)) = []) \<and>
    (\<forall>i. arguments i (fst (collect (args_done env) xs s)) = [])"
  using assms
proof (induction xs arbitrary: s pre)
  case Nil
  then show ?case by simp
next
  case (Cons x xs)
  obtain evs s' where x: "args_done env x s = (evs, s')" by fastforce
  have evs: "dones_ok pre evs" "\<And>i. texts i evs = []" "\<And>i. arguments i evs = []"
    using x Cons.prems by (auto simp: args_done_def number_simps split: prod.splits)
  have "\<forall>(item, a) \<in> set xs. a = arguments item (pre @ evs)" using Cons.prems evs(3) by auto
  from Cons.IH [OF this, of s'] show ?case
    using x evs by (simp add: Let_def case_prod_unfold dones_ok_append)
qed

text \<open>What is assumed of hash-map iteration: it visits the entries, each once.\<close>

definition visits_entries :: "hash_env \<Rightarrow> bool" where
  "visits_entries env =
     ((\<forall>m. mset (he_text_order env m) = mset m) \<and> (\<forall>m. mset (he_args_order env m) = mset m) \<and>
      (\<forall>m. mset (he_item_order env m) = mset m))"

lemma visits_set:
  assumes "visits_entries env"
  shows "set (he_text_order env m) = set m" "set (he_args_order env m) = set m"
  using assms unfolding visits_entries_def by (metis set_mset_mset)+

lemma collect_contents [simp]:
  "text_content (snd (collect (text_done env) xs s)) = text_content s"
  "function_arguments (snd (collect (text_done env) xs s)) = function_arguments s"
  "text_content (snd (collect (args_done env) xs s)) = text_content s"
  "function_arguments (snd (collect (args_done env) xs s)) = function_arguments s"
  "text_content (snd (collect (final_item env) ys s)) = text_content s"
  "function_arguments (snd (collect (final_item env) ys s)) = function_arguments s"
  by (rule collect_keeps;
      simp add: text_done_def args_done_def final_item_def number_simps split: option.split)+

lemma accumulated_entry:
  "accumulated pre s \<Longrightarrow> (item, t) \<in> set (text_content s) \<Longrightarrow> t = texts item pre"
  "accumulated pre s \<Longrightarrow> (item, t) \<in> set (function_arguments s) \<Longrightarrow> t = arguments item pre"
  using lookup_entry [of "text_content s" item t] lookup_entry [of "function_arguments s" item t]
  by (simp_all add: accumulated_def)

lemma finalize_accumulated:
  assumes "visits_entries env" "accumulated pre s"
  shows "dones_ok pre (fst (finalize env s)) \<and> accumulated (pre @ fst (finalize env s)) (snd (finalize env s))"
proof (cases "finalized s")
  case True
  then show ?thesis using assms(2) by (simp add: finalize_def)
next
  case False
  let ?s0 = "s\<lparr>finalized := True\<rparr>"
  let ?r1 = "emit_prelude env ?s0"
  let ?r2 = "collect (text_done env) (he_text_order env (text_content (snd ?r1))) (snd ?r1)"
  let ?r3 = "collect (args_done env) (he_args_order env (function_arguments (snd ?r2))) (snd ?r2)"
  have a1: "dones_ok pre (fst ?r1)" "accumulated (pre @ fst ?r1) (snd ?r1)"
    using prelude_accumulated [of pre ?s0 env] assms(2) by (simp_all add: accumulated_def)
  have "\<forall>(item, t) \<in> set (he_text_order env (text_content (snd ?r1))). t = texts item (pre @ fst ?r1)"
    using accumulated_entry(1) [OF a1(2)] visits_set(1) [OF assms(1)] by auto
  note a2 = collect_text_done [OF this, of env "snd ?r1"]
  have "\<forall>(item, a) \<in> set (he_args_order env (function_arguments (snd ?r2))).
      a = arguments item (pre @ fst ?r1 @ fst ?r2)"
    using accumulated_entry(2) [OF a1(2)] visits_set(2) [OF assms(1)] a2 by auto
  note a3 = collect_args_done [OF this, of env "snd ?r2"]
  show ?thesis
    using False a1 a2 a3
    by (simp add: finalize_def Let_def case_prod_unfold next_sequence_number_def dones_ok_append
        accumulated_def)
qed

lemma handle_accumulated:
  assumes "visits_entries env" "chat_made e" "accumulated pre s"
  shows "dones_ok pre (fst (responses_handle env e s)) \<and>
    accumulated (pre @ fst (responses_handle env e s)) (snd (responses_handle env e s))"
proof -
  note p = prelude_accumulated [OF assms(3), of env]
  show ?thesis
    using assms(2) p finalize_accumulated [OF assms(1,3)]
      text_delta_accumulated [OF conjunct2 [OF p]] args_delta_accumulated [OF conjunct2 [OF p]]
    by (cases e) (simp_all add: Let_def case_prod_unfold dones_ok_append)
qed

lemma events_accumulated:
  assumes "visits_entries env" "chat_input e" "accumulated pre s"
  shows "dones_ok pre (fst (responses_events env e s)) \<and>
    accumulated (pre @ fst (responses_events env e s)) (snd (responses_events env e s))"
  using assms finalize_accumulated [OF assms(1,3)] handle_accumulated [OF assms(1) _ assms(3)]
  by (auto simp: responses_events_def chat_input_def
      split: option.splits provider_stream_response.splits)

lemma log_accumulated:
  assumes "visits_entries env" "\<forall>e \<in> set es. chat_input e" "accumulated pre s"
  shows "dones_ok pre (fst (responses_log env s es))"
  using assms(2,3)
proof (induction es arbitrary: pre s)
  case Nil
  then show ?case by simp
next
  case (Cons e es)
  then show ?case
    using events_accumulated [OF assms(1), of e pre s]
    by (simp add: Let_def case_prod_unfold dones_ok_append)
qed

text \<open>
  The text of every text-done event is the concatenation of the text deltas the client has
  received for that item, and the same holds of the arguments of every tool call, in whatever
  order the hash maps are iterated.
\<close>

theorem responses_done_agrees:
  assumes "visits_entries env" and "\<forall>e \<in> set (added_events ops). chat_input e"
  shows "\<exists>evs.
    fst (buffer_run (responses_add c env) responses_to_bytes responses_new (ops @ [Flush])) =
      responses_text c evs \<and>
    (\<forall>pre item i k t lp q post. evs = pre @ RE_OutputTextDone item i k t lp q # post \<longrightarrow>
       t = texts item pre) \<and>
    (\<forall>pre item i a q post. evs = pre @ RE_FunctionCallArgumentsDone i item a q # post \<longrightarrow>
       a = arguments item pre)"
proof -
  let ?evs = "fst (responses_log env responses_state_new (added_events ops))"
  have "accumulated [] responses_state_new" by (simp add: accumulated_def lookup_def)
  from log_accumulated [OF assms this] have ok: "dones_ok [] ?evs" .
  have "done_ok pre e" if "?evs = pre @ e # post" for pre e post
    using ok dones_ok_split [of "[]" pre e post] that by simp
  then show ?thesis by (intro exI [of _ ?evs]) (fastforce simp: responses_run)
qed

end
