(* ===== verification/Responses_Streams.thy ===== *)
theory Responses_Streams
  imports Responses_Protocol
begin

section \<open>Whole Responses streams\<close>

text \<open>
  The complete output of the Responses buffer for a text stream, and two streams on which it
  goes wrong, each for arbitrary texts.
\<close>

subsection \<open>The inputs that count\<close>

definition visible_input :: "sse_event \<Rightarrow> responses_event option" where
  "visible_input e =
     (if should_skip e then None
      else if is_done e then Some (RE_Done 0)
      else (case provider_response e of Some (PSR_Responses ev) \<Rightarrow> Some ev | _ \<Rightarrow> None))"

definition visible_inputs :: "sse_event list \<Rightarrow> responses_event list" where
  "visible_inputs es = List.map_filter visible_input es"

fun handle_log ::
    "hash_env \<Rightarrow> responses_state \<Rightarrow> responses_event list \<Rightarrow> responses_event list \<times> responses_state" where
  "handle_log env s [] = ([], s)"
| "handle_log env s (e # es) =
     (let (evs, s') = responses_handle env e s; (evs', s'') = handle_log env s' es
      in (evs @ evs', s''))"

lemma responses_events_visible:
  "responses_events env e s =
    (case visible_input e of None \<Rightarrow> ([], s) | Some ev \<Rightarrow> responses_handle env ev s)"
  by (simp add: responses_events_def visible_input_def
      split: option.split provider_stream_response.split)

lemma responses_log_visible: "responses_log env s es = handle_log env s (visible_inputs es)"
  by (induction es arbitrary: s)
     (simp_all add: visible_inputs_def map_filter_Cons responses_events_visible Let_def
        case_prod_unfold split: option.split)

lemma handle_log_append:
  "handle_log env s (xs @ ys) =
    (let (e1, s1) = handle_log env s xs; (e2, s2) = handle_log env s1 ys in (e1 @ e2, s2))"
  by (induction xs arbitrary: s) (simp_all add: Let_def case_prod_unfold)

lemma handle_log_done: "finalized s \<Longrightarrow> handle_log env s (map RE_Done qs) = ([], s)"
  by (induction qs) (simp_all add: finalize_def)

subsection \<open>A text stream\<close>

definition text_input :: "string \<Rightarrow> responses_event" where
  "text_input t = RE_OutputTextDelta [] 0 0 t [] None 0"

definition text_output :: "string \<Rightarrow> string \<Rightarrow> i32 \<Rightarrow> responses_event" where
  "text_output item t q = RE_OutputTextDelta item 0 0 t [] None q"

definition base_response :: "hash_env \<Rightarrow> response_status \<Rightarrow> responses_response" where
  "base_response env st =
     build_response
       (responses_state_new\<lparr>response_id := Some (''resp_'' @ simple_uuid (he_uuid env 0)),
          created_at := Some (he_now env), rb_model := Some ''unknown''\<rparr>) st"

definition item_id :: "hash_env \<Rightarrow> string" where
  "item_id env = ''msg_'' @ simple_uuid (he_uuid env 1)"

text \<open>The state after the prelude and text \<open>t\<close>, when \<open>n\<close> events have been numbered.\<close>

definition text_state :: "hash_env \<Rightarrow> string \<Rightarrow> nat \<Rightarrow> responses_state" where
  "text_state env t n =
     responses_state_new\<lparr>sequence_number := of_nat n, item_ids := [(0, item_id env)],
       response_id := Some (''resp_'' @ simple_uuid (he_uuid env 0)), rb_model := Some ''unknown'',
       created_at := Some (he_now env), created_emitted := True, in_progress_emitted := True,
       output_items_added := [(0, item_id env)], text_content := [(item_id env, t)],
       uuids_drawn := 2\<rparr>"

definition numbered_texts :: "hash_env \<Rightarrow> nat \<Rightarrow> string list \<Rightarrow> responses_event list" where
  "numbered_texts env n ts =
     map (\<lambda>(k, t). text_output (item_id env) t (of_nat k)) (enumerate n ts)"

lemma first_text:
  "responses_handle env (text_input t) responses_state_new =
    ([RE_Created (base_response env RS_InProgress) 0, RE_InProgress (base_response env RS_InProgress) 1,
      RE_OutputItemAdded 0 (OI_Message (item_id env) OIS_InProgress ''assistant'' []) 2,
      text_output (item_id env) t 3], text_state env t 4)"
  by (simp add: text_input_def text_output_def text_state_def base_response_def item_id_def
      responses_state_new_def emit_prelude_def init_metadata_def create_response_created_event_def
      create_response_in_progress_event_def text_delta_step_def get_or_create_item_id_def
      generate_item_id_def create_output_item_added_event_def append_to_def build_response_def
      number_simps)

lemma next_text:
  "responses_handle env (text_input t) (text_state env u n) =
    ([text_output (item_id env) t (of_nat n)], text_state env (u @ t) (Suc n))"
  by (simp add: text_input_def text_output_def text_state_def emit_prelude_def text_delta_step_def
      get_or_create_item_id_def append_to_def number_simps algebra_simps)

lemma next_texts:
  "handle_log env (text_state env u n) (map text_input ts) =
    (numbered_texts env n ts, text_state env (u @ concat ts) (n + length ts))"
  by (induction ts arbitrary: u n) (simp_all add: numbered_texts_def next_text)

lemma visits_single:
  assumes "visits_entries env"
  shows "he_text_order env [x] = [x]" "he_args_order env [] = []" "he_item_order env [y] = [y]"
proof -
  have "mset (he_text_order env [x]) = {#x#}" "mset (he_args_order env []) = {#}"
    "mset (he_item_order env [y]) = {#y#}"
    using assms by (simp_all add: visits_entries_def)
  then show "he_text_order env [x] = [x]" "he_args_order env [] = []" "he_item_order env [y] = [y]"
    by simp_all
qed

lemma finish_text:
  assumes "visits_entries env"
  shows "fst (finalize env (text_state env t n)) =
      [RE_OutputTextDone (item_id env) 0 0 t [] (of_nat n),
       RE_OutputItemDone 0 (OI_Message (item_id env) OIS_Completed ''assistant'' []) (of_nat (n + 1)),
       RE_Completed ((base_response env RS_Completed)\<lparr>rr_output :=
         [OI_Message (item_id env) OIS_Completed ''assistant'' [OC_OutputText t [] None]]\<rparr>)
         (of_nat (n + 2))] \<and>
    finalized (snd (finalize env (text_state env t n)))"
  using visits_single [OF assms]
  by (simp add: finalize_def text_state_def emit_prelude_def text_done_def index_of_item_def
      output_index_range_def max_output_index_def final_item_def responses_state_new_def
      base_response_def build_response_def number_simps algebra_simps)

text \<open>
  (C7) A text stream of a Chat Completions upstream, ended by any number of end markers, gives a
  Responses client exactly this: created, in progress, one item added, the deltas with the
  item's identifier and consecutive numbers, the text done with their concatenation, the item
  done, and one completed event whose output is the item with that text. Flushes and pings do
  not matter. The token usage is not reported (\<open>rr_usage\<close> of the base response is \<open>None\<close>).
\<close>

theorem responses_text_stream_exact:
  assumes "visits_entries env"
    and "visible_inputs (added_events ops) = map text_input (t # ts) @ map RE_Done (q # qs)"
  shows "fst (buffer_run (responses_add c env) responses_to_bytes responses_new (ops @ [Flush])) =
    responses_text c
      ([RE_Created (base_response env RS_InProgress) 0,
        RE_InProgress (base_response env RS_InProgress) 1,
        RE_OutputItemAdded 0 (OI_Message (item_id env) OIS_InProgress ''assistant'' []) 2] @
       numbered_texts env 3 (t # ts) @
       [RE_OutputTextDone (item_id env) 0 0 (concat (t # ts)) [] (of_nat (length ts + 4)),
        RE_OutputItemDone 0 (OI_Message (item_id env) OIS_Completed ''assistant'' [])
          (of_nat (length ts + 5)),
        RE_Completed ((base_response env RS_Completed)\<lparr>rr_output :=
          [OI_Message (item_id env) OIS_Completed ''assistant'' [OC_OutputText (concat (t # ts)) [] None]]\<rparr>)
          (of_nat (length ts + 6))])"
proof -
  let ?s = "text_state env (t @ concat ts) (4 + length ts)"
  have "fst (handle_log env ?s (map RE_Done (q # qs))) = fst (finalize env ?s)"
    using finish_text [OF assms(1), of "t @ concat ts" "4 + length ts"]
    by (simp add: Let_def case_prod_unfold handle_log_done)
  then show ?thesis
    using finish_text [OF assms(1), of "t @ concat ts" "4 + length ts"]
    by (simp add: responses_run responses_log_visible assms(2) first_text next_texts
        handle_log_append Let_def case_prod_unfold numbered_texts_def text_output_def algebra_simps)
qed

subsection \<open>Streams that go wrong\<close>

lemma visits_few:
  assumes "visits_entries env"
  shows "he_text_order env [] = []" "he_text_order env [x] = [x]" "he_args_order env [] = []"
    "he_args_order env [x] = [x]" "he_item_order env [y] = [y]"
  using assms visits_single [OF assms] unfolding visits_entries_def
  by (metis mset_zero_iff mset.simps(1), simp, simp, metis mset_single_iff mset.simps, simp)

lemmas run_simps = emit_prelude_def init_metadata_def create_response_created_event_def
  create_response_in_progress_event_def args_delta_step_def text_delta_step_def
  get_or_create_item_id_def generate_item_id_def call_metadata_def
  create_tool_call_added_event_def create_output_item_added_event_def append_to_def
  build_response_def finalize_def args_done_def text_done_def index_of_item_def
  output_index_range_def max_output_index_def final_item_def number_simps

definition tool_input :: "string \<Rightarrow> string \<Rightarrow> string \<Rightarrow> responses_event" where
  "tool_input cid n a = RE_FunctionCallArgumentsDelta 0 [] a 0 (Some cid) (Some n)"

text \<open>
  Two parallel tool calls of one choice: the translation gives both the output index of the
  choice, so the client is told of one tool call, the first, whose arguments are those of both
  glued together and whose final form has the identifier and name of the second.
\<close>

theorem parallel_tool_calls_merged:
  assumes "visits_entries env"
  shows "\<exists>r. fst (handle_log env responses_state_new
      [tool_input c1 n1 a1, tool_input c2 n2 a2, RE_Done 0]) =
    [RE_Created (base_response env RS_InProgress) 0, RE_InProgress (base_response env RS_InProgress) 1,
     RE_OutputItemAdded 0 (OI_FunctionCall (''fc_'' @ simple_uuid (he_uuid env 1)) OIS_InProgress c1
       (Some n1) (Some [])) 2,
     RE_FunctionCallArgumentsDelta 0 (''fc_'' @ simple_uuid (he_uuid env 1)) a1 3 (Some c1) (Some n1),
     RE_FunctionCallArgumentsDelta 0 (''fc_'' @ simple_uuid (he_uuid env 1)) a2 4 (Some c2) (Some n2),
     RE_FunctionCallArgumentsDone 0 (''fc_'' @ simple_uuid (he_uuid env 1)) (a1 @ a2) 5,
     RE_OutputItemDone 0 (OI_FunctionCall (''fc_'' @ simple_uuid (he_uuid env 1)) OIS_Completed c2
       (Some n2) (Some (a1 @ a2))) 6,
     RE_Completed r 7] \<and>
    rr_output r = [OI_FunctionCall (''fc_'' @ simple_uuid (he_uuid env 1)) OIS_Completed c2
       (Some n2) (Some (a1 @ a2))]"
proof -
  note o = visits_few [OF assms]
  show ?thesis
    by (simp add: o tool_input_def base_response_def responses_state_new_def run_simps)
qed

text \<open>
  Text followed by a tool call: both have the output index of the choice and share one
  item. The client is never told that a tool call was added, two items with the same identifier
  are reported done, and the final response contains only the tool call: the text is lost.
\<close>

theorem text_lost_before_tool_call:
  assumes "visits_entries env"
  shows "\<exists>r. fst (handle_log env responses_state_new
      [text_input t, tool_input cid n a, RE_Done 0]) =
    [RE_Created (base_response env RS_InProgress) 0, RE_InProgress (base_response env RS_InProgress) 1,
     RE_OutputItemAdded 0 (OI_Message (item_id env) OIS_InProgress ''assistant'' []) 2,
     text_output (item_id env) t 3,
     RE_FunctionCallArgumentsDelta 0 (item_id env) a 4 (Some cid) (Some n),
     RE_OutputTextDone (item_id env) 0 0 t [] 5,
     RE_OutputItemDone 0 (OI_Message (item_id env) OIS_Completed ''assistant'' []) 6,
     RE_FunctionCallArgumentsDone 0 (item_id env) a 7,
     RE_OutputItemDone 0 (OI_FunctionCall (item_id env) OIS_Completed cid (Some n) (Some a)) 8,
     RE_Completed r 9] \<and>
    rr_output r = [OI_FunctionCall (item_id env) OIS_Completed cid (Some n) (Some a)]"
proof -
  note o = visits_few [OF assms]
  show ?thesis
    by (simp add: o tool_input_def text_input_def text_output_def item_id_def base_response_def
        responses_state_new_def run_simps)
qed

lemma finish_text_state:
  assumes "visits_entries env"
  shows "\<exists>r. snd (finalize env (text_state env t n)) =
    (text_state env t (n + 3))\<lparr>finalized := True, completed_response := r\<rparr>"
  using visits_single [OF assms]
  by (intro exI) (simp add: finalize_def text_state_def emit_prelude_def text_done_def
      output_index_range_def max_output_index_def final_item_def responses_state_new_def
      number_simps algebra_simps)

lemma late_text:
  "fst (responses_handle env (text_input u)
      ((text_state env t n)\<lparr>finalized := True, completed_response := r\<rparr>)) =
    [text_output (item_id env) u (of_nat n)]"
  by (simp add: text_input_def text_output_def text_state_def emit_prelude_def text_delta_step_def
      get_or_create_item_id_def number_simps)

text \<open>
  A completed stream is not closed: a text delta after the end marker is still forwarded,
  so the client receives events after the completed event.
\<close>

theorem delta_after_completed:
  assumes "visits_entries env"
  shows "\<exists>r. fst (handle_log env responses_state_new [text_input t, RE_Done 0, text_input u]) =
    [RE_Created (base_response env RS_InProgress) 0, RE_InProgress (base_response env RS_InProgress) 1,
     RE_OutputItemAdded 0 (OI_Message (item_id env) OIS_InProgress ''assistant'' []) 2,
     text_output (item_id env) t 3, RE_OutputTextDone (item_id env) 0 0 t [] 4,
     RE_OutputItemDone 0 (OI_Message (item_id env) OIS_Completed ''assistant'' []) 5,
     RE_Completed r 6, text_output (item_id env) u 7]"
proof -
  obtain r where "snd (finalize env (text_state env t 4)) =
      (text_state env t 7)\<lparr>finalized := True, completed_response := r\<rparr>"
    using finish_text_state [OF assms, of t 4] by auto
  with finish_text [OF assms, of t 4] late_text [where env = env and u = u and t = t and n = 7 and r = r] show ?thesis
    by (simp add: first_text Let_def case_prod_unfold)
qed

subsection \<open>A concrete run\<close>

text \<open>Hash maps visited in list order and UUIDs of digits only.\<close>

definition list_env :: hash_env where
  "list_env =
     \<lparr>he_uuid = digits, he_now = 7, he_text_order = id, he_args_order = id, he_item_order = id\<rparr>"

lemma list_env_visits: "visits_entries list_env"
  by (simp add: visits_entries_def list_env_def)

definition sample_response_ops :: "buffer_op list" where
  "sample_response_ops =
     [Add (from_provider_response brace_codec (PSR_Responses (text_input ''Hi''))), Flush,
      Add (from_provider_response brace_codec (PSR_Responses (text_input '' there''))), Flush,
      Add (from_provider_response brace_codec (PSR_Responses (RE_Done 0)))]"

lemma sample_response_inputs:
  "\<forall>e \<in> set (added_events sample_response_ops). chat_input e"
  "visible_inputs (added_events sample_response_ops) =
    map text_input [''Hi'', '' there''] @ map RE_Done [0]"
  by (simp_all add: sample_response_ops_def chat_input_def from_provider_response_def text_input_def
      visible_inputs_def visible_input_def map_filter_Cons should_skip_def is_done_def)

abbreviation (input) sample_response_run :: string where
  "sample_response_run \<equiv> fst (buffer_run (responses_add brace_codec list_env) responses_to_bytes
     responses_new (sample_response_ops @ [Flush]))"

theorem responses_numbered_witness:
  "\<exists>evs. sample_response_run = responses_text brace_codec evs \<and>
    map event_number evs = map of_nat [0 ..< length evs]"
  by (rule responses_numbered [OF sample_response_inputs(1)])

theorem responses_life_cycle_witness:
  "\<exists>evs. sample_response_run = responses_text brace_codec evs \<and> completions evs = 1"
proof -
  have "\<exists>e \<in> set (added_events sample_response_ops). ends_stream e"
    by (simp add: sample_response_ops_def ends_stream_def from_provider_response_def should_skip_def)
  with responses_life_cycle [OF sample_response_inputs(1), of brace_codec list_env]
  show ?thesis by auto
qed

theorem responses_done_agrees_witness:
  "\<exists>evs. sample_response_run = responses_text brace_codec evs"
  using responses_done_agrees [OF list_env_visits sample_response_inputs(1), of brace_codec] by blast

theorem responses_text_stream_exact_witness:
  "\<exists>pre r. sample_response_run = responses_text brace_codec (pre @ [RE_Completed r 7]) \<and>
    rr_output r = [OI_Message (item_id list_env) OIS_Completed ''assistant''
      [OC_OutputText ''Hi there'' [] None]]"
  using responses_text_stream_exact [OF list_env_visits,
      of sample_response_ops "''Hi''" "['' there'']" 0 "[]" brace_codec]
  by (intro exI) (auto simp: sample_response_inputs(2) intro: arg_cong [where f = "responses_text brace_codec"])

theorem parallel_tool_calls_merged_witness:
  "rr_output (case last (fst (handle_log list_env responses_state_new
      [tool_input ''a'' ''f'' ''x'', tool_input ''b'' ''g'' ''y'', RE_Done 0])) of RE_Completed r _ \<Rightarrow> r) =
    [OI_FunctionCall (''fc_'' @ simple_uuid (he_uuid list_env 1)) OIS_Completed ''b'' (Some ''g'')
      (Some ''xy'')]"
  using parallel_tool_calls_merged [OF list_env_visits, of "''a''" "''f''" "''x''" "''b''" "''g''" "''y''"]
  by auto

theorem text_lost_before_tool_call_witness:
  "rr_output (case last (fst (handle_log list_env responses_state_new
      [text_input ''Hi'', tool_input ''a'' ''f'' ''x'', RE_Done 0])) of RE_Completed r _ \<Rightarrow> r) =
    [OI_FunctionCall (item_id list_env) OIS_Completed ''a'' (Some ''f'') (Some ''x'')]"
  using text_lost_before_tool_call [OF list_env_visits, of "''Hi''" "''a''" "''f''" "''x''"] by auto

theorem delta_after_completed_witness:
  "last (fst (handle_log list_env responses_state_new
      [text_input ''Hi'', RE_Done 0, text_input ''Ho''])) = text_output (item_id list_env) ''Ho'' 7"
  using delta_after_completed [OF list_env_visits, of "''Hi''" "''Ho''"] by auto

end
