(* ===== verification/Anthropic_Buffer.thy ===== *)
theory Anthropic_Buffer
  imports Stream_Buffer
begin

section \<open>The Anthropic Messages stream buffer\<close>

text \<open>
  \<open>apis/streaming_shapes/anthropic_streaming_buffer.rs\<close>: the buffer that completes a stream of
  translated events to a well-formed Anthropic stream. The identifier \<open>u\<close> is the hyphen-free
  UUID of the message the buffer opens itself, which it does at most once; \<open>u32\<close> block indices
  cast to \<open>i32\<close> keep their bits. The log output is left out.
\<close>

record anthropic_buffer =
  ab_buffered_events :: "sse_event list"
  message_started :: bool
  message_stopped :: bool
  content_block_start_indices :: "i32 set"
  needs_content_block_stop :: bool
  seen_message_delta :: bool
  ab_model :: "string option"

definition anthropic_new :: anthropic_buffer where
  "anthropic_new = \<lparr>ab_buffered_events = [], message_started = False, message_stopped = False,
     content_block_start_indices = {}, needs_content_block_stop = False,
     seen_message_delta = False, ab_model = None\<rparr>"

definition ab_push :: "sse_event \<Rightarrow> anthropic_buffer \<Rightarrow> anthropic_buffer" where
  "ab_push e b = b\<lparr>ab_buffered_events := ab_buffered_events b @ [e]\<rparr>"

definition generated_event :: "codec \<Rightarrow> messages_event \<Rightarrow> provider_stream_response option \<Rightarrow> sse_event" where
  "generated_event c e r =
     (let s = messages_event_string (ser_messages c) e
      in \<lparr>ev_data = None, ev_event = Some (messages_event_type e), raw_line = s,
          sse_transformed_lines = s, provider_response = r\<rparr>)"

definition synthetic_message :: "string \<Rightarrow> string \<Rightarrow> stream_message" where
  "synthetic_message u model =
     \<lparr>sm_id = ''msg_'' @ u, sm_obj_type = ''message'', sm_role = MR_Assistant, sm_content = [],
      sm_model = model, sm_stop_reason = None, sm_stop_sequence = None, sm_usage = zero_usage\<rparr>"

definition create_message_start_event :: "codec \<Rightarrow> string \<Rightarrow> string \<Rightarrow> sse_event" where
  "create_message_start_event c u model =
     generated_event c (MessageStart (synthetic_message u model)) None"

definition create_content_block_start_event :: "codec \<Rightarrow> sse_event" where
  "create_content_block_start_event c = generated_event c (ContentBlockStart 0 (CB_Text [] None)) None"

definition create_content_block_stop_event :: "codec \<Rightarrow> sse_event" where
  "create_content_block_stop_event c = generated_event c (ContentBlockStop 0) None"

definition model_or_unknown :: "string option \<Rightarrow> string" where
  "model_or_unknown m = (case m of Some x \<Rightarrow> x | None \<Rightarrow> ''unknown'')"

definition ensure_message_started :: "codec \<Rightarrow> string \<Rightarrow> anthropic_buffer \<Rightarrow> anthropic_buffer" where
  "ensure_message_started c u b =
     (if message_started b then b
      else (ab_push (create_message_start_event c u (model_or_unknown (ab_model b))) b)
             \<lparr>message_started := True\<rparr>)"

definition synthetic_delta :: messages_event where
  "synthetic_delta = MessageDelta (end_delta SR_EndTurn) zero_usage"

definition push_synthetic_message_delta :: "codec \<Rightarrow> anthropic_buffer \<Rightarrow> anthropic_buffer" where
  "push_synthetic_message_delta c b =
     (ab_push (generated_event c synthetic_delta (Some (PSR_Messages synthetic_delta))) b)
       \<lparr>seen_message_delta := True\<rparr>"

definition push_message_stop :: "codec \<Rightarrow> anthropic_buffer \<Rightarrow> anthropic_buffer" where
  "push_message_stop c b =
     (if message_stopped b then b
      else (ab_push (generated_event c MessageStop None) b)
             \<lparr>message_stopped := True, seen_message_delta := False\<rparr>)"

definition has_content_block_start_been_sent :: "i32 \<Rightarrow> anthropic_buffer \<Rightarrow> bool" where
  "has_content_block_start_been_sent i b = (i \<in> content_block_start_indices b)"

definition set_content_block_start_sent :: "i32 \<Rightarrow> anthropic_buffer \<Rightarrow> anthropic_buffer" where
  "set_content_block_start_sent i b =
     b\<lparr>content_block_start_indices := insert i (content_block_start_indices b)\<rparr>"

text \<open>The model named by the JSON of the upstream event, taken from the first that names one.\<close>

definition data_model :: "codec \<Rightarrow> sse_event \<Rightarrow> string option" where
  "data_model c e =
     (case ev_data e of
        Some d \<Rightarrow>
          (case de_value c d of
             Inr (JObject kvs) \<Rightarrow>
               (case map_of kvs ''model'' of Some (JString m) \<Rightarrow> Some m | _ \<Rightarrow> None)
           | _ \<Rightarrow> None)
      | None \<Rightarrow> None)"

definition extract_model :: "codec \<Rightarrow> sse_event \<Rightarrow> anthropic_buffer \<Rightarrow> anthropic_buffer" where
  "extract_model c e b =
     (if ab_model b = None
      then (case data_model c e of Some m \<Rightarrow> b\<lparr>ab_model := Some m\<rparr> | None \<Rightarrow> b)
      else b)"

definition inject_block_stop :: "codec \<Rightarrow> anthropic_buffer \<Rightarrow> anthropic_buffer" where
  "inject_block_stop c b =
     (if needs_content_block_stop b
      then (ab_push (create_content_block_stop_event c) b)\<lparr>needs_content_block_stop := False\<rparr>
      else b)"

text \<open>The usage of a second message delta replaces that of the one buffered last.\<close>

definition last_delta :: "sse_event list \<Rightarrow> (messages_message_delta \<times> messages_usage) option" where
  "last_delta es =
     (if es = [] then None
      else case provider_response (last es) of
             Some (PSR_Messages (MessageDelta d u)) \<Rightarrow> Some (d, u)
           | _ \<Rightarrow> None)"

definition merge_usage :: "messages_usage \<Rightarrow> anthropic_buffer \<Rightarrow> anthropic_buffer" where
  "merge_usage u b =
     (case last_delta (ab_buffered_events b) of
        Some (d, _) \<Rightarrow>
          (if input_tokens u > 0 \<or> output_tokens u > 0
           then b\<lparr>ab_buffered_events := butlast (ab_buffered_events b) @
                    [(last (ab_buffered_events b))\<lparr>provider_response :=
                       Some (PSR_Messages (MessageDelta d u))\<rparr>]\<rparr>
           else b)
      | None \<Rightarrow> b)"

fun ab_handle ::
    "codec \<Rightarrow> string \<Rightarrow> sse_event \<Rightarrow> messages_event \<Rightarrow> anthropic_buffer \<Rightarrow> anthropic_buffer" where
  "ab_handle c u e (MessageStart _) b = (ab_push e b)\<lparr>message_started := True\<rparr>"
| "ab_handle c u e (ContentBlockStart i _) b =
     (set_content_block_start_sent i (ab_push e (ensure_message_started c u b)))
       \<lparr>needs_content_block_stop := True\<rparr>"
| "ab_handle c u e (ContentBlockDelta i _) b =
     (let b1 = ensure_message_started c u b;
          b2 = (if has_content_block_start_been_sent i b1 then b1
                else (set_content_block_start_sent i
                       (ab_push (create_content_block_start_event c) b1))
                     \<lparr>needs_content_block_stop := True\<rparr>)
      in ab_push e b2)"
| "ab_handle c u e (MessageDelta _ usage) b =
     (let b1 = inject_block_stop c (ensure_message_started c u b)
      in if last_delta (ab_buffered_events b1) \<noteq> None
         then (merge_usage usage b1)\<lparr>seen_message_delta := True\<rparr>
         else (ab_push e b1)\<lparr>seen_message_delta := True\<rparr>)"
| "ab_handle c u e (ContentBlockStop _) b =
     ab_push e ((ensure_message_started c u b)\<lparr>needs_content_block_stop := False\<rparr>)"
| "ab_handle c u e MessageStop b =
     (let b1 = inject_block_stop c (ensure_message_started c u b);
          b2 = (if seen_message_delta b1 then b1
                else push_synthetic_message_delta c
                  (if content_block_start_indices b1 = {}
                   then ab_push (create_content_block_stop_event c)
                          (set_content_block_start_sent 0
                            (ab_push (create_content_block_start_event c) b1))
                   else b1))
      in (ab_push e b2)\<lparr>message_stopped := True, seen_message_delta := False\<rparr>)"
| "ab_handle c u e Ping b = ab_push e b"

definition anthropic_add :: "codec \<Rightarrow> string \<Rightarrow> anthropic_buffer \<Rightarrow> sse_event \<Rightarrow> anthropic_buffer" where
  "anthropic_add c u b e =
     (if should_skip e then b
      else
        (let b' = extract_model c e b in
         case provider_response e of
           Some (PSR_Messages evt) \<Rightarrow>
             (if message_stopped b' then b' else ab_handle c u e evt b')
         | _ \<Rightarrow> ab_push e b'))"

definition anthropic_to_bytes :: "codec \<Rightarrow> anthropic_buffer \<Rightarrow> string \<times> anthropic_buffer" where
  "anthropic_to_bytes c b =
     (let b' = (if seen_message_delta b \<and> \<not> message_stopped b then push_message_stop c b else b)
      in (wire (ab_buffered_events b'), b'\<lparr>ab_buffered_events := []\<rparr>))"

definition anthropic_closing :: "codec \<Rightarrow> anthropic_buffer \<Rightarrow> sse_event list" where
  "anthropic_closing c b =
     (if seen_message_delta b \<and> \<not> message_stopped b then [generated_event c MessageStop None] else [])"

lemmas ab_simps =
  ab_push_def ensure_message_started_def push_synthetic_message_delta_def
  push_message_stop_def has_content_block_start_been_sent_def set_content_block_start_sent_def
  extract_model_def inject_block_stop_def

subsection \<open>The interface\<close>

lemma event_bytes_merge:
  "event_bytes (e\<lparr>provider_response := r\<rparr>) = event_bytes e"
  by (simp add: event_bytes_def)

lemma last_delta_not_Nil: "last_delta es = Some x \<Longrightarrow> es \<noteq> []"
  by (auto simp: last_delta_def)

lemma merge_usage_wire: "wire (ab_buffered_events (merge_usage u b)) = wire (ab_buffered_events b)"
proof (cases "last_delta (ab_buffered_events b)")
  case (Some p)
  have "wire (butlast (ab_buffered_events b) @ [last (ab_buffered_events b)]) =
      wire (ab_buffered_events b)"
    using last_delta_not_Nil [OF Some] by simp
  then show ?thesis
    using Some by (simp add: merge_usage_def event_bytes_merge split: prod.split)
qed (simp add: merge_usage_def)

lemma ab_handle_extends:
  "\<exists>rest. wire (ab_buffered_events (ab_handle c u e evt b)) = wire (ab_buffered_events b) @ rest"
  by (cases evt) (auto simp: ab_simps Let_def merge_usage_wire)

interpretation anthropic: sse_stream_buffer
  "anthropic_add c u" "anthropic_to_bytes c" ab_buffered_events "anthropic_closing c" for c u
proof
  fix b :: anthropic_buffer and e :: sse_event
  show "fst (anthropic_to_bytes c b) = wire (ab_buffered_events b @ anthropic_closing c b)"
    by (simp add: anthropic_to_bytes_def anthropic_closing_def ab_simps)
  show "ab_buffered_events (snd (anthropic_to_bytes c b)) = []"
    by (simp add: anthropic_to_bytes_def Let_def)
  show "anthropic_closing c (snd (anthropic_to_bytes c b)) = []"
    by (simp add: anthropic_to_bytes_def anthropic_closing_def ab_simps Let_def)
  show "should_skip e \<Longrightarrow> anthropic_add c u b e = b"
    by (simp add: anthropic_add_def)
  have m: "ab_buffered_events (extract_model c e b) = ab_buffered_events b"
    by (simp add: extract_model_def split: option.split)
  obtain rest where "wire (ab_buffered_events (ab_handle c u e evt (extract_model c e b))) =
      wire (ab_buffered_events b) @ rest evt" for evt
    using ab_handle_extends [of c u e _ "extract_model c e b"] m by metis
  then show "\<exists>es. wire (ab_buffered_events (anthropic_add c u b e)) =
      wire (ab_buffered_events b) @ es"
    by (auto simp: anthropic_add_def Let_def m ab_push_def
        split: option.split provider_stream_response.split)
qed

end
