(* ===== verification/Anthropic_Protocol.thy ===== *)
theory Anthropic_Protocol
  imports Anthropic_Buffer
begin

section \<open>The protocol the Anthropic buffer speaks\<close>

text \<open>
  An abstract machine on Anthropic events, without serialised text, and the refinement: on
  translated events the bytes of the buffer are the serialisation of what the machine puts out.
  The guarantees the source states for the buffer are proved of the machine.
\<close>

datatype phase = Before | Opened | Ended | Closed

record spec_state =
  sp_phase :: phase
  sp_blocks :: "i32 set"
  sp_block_open :: bool
  sp_last_is_delta :: bool
  sp_model :: "string option"

subsection \<open>The abstract machine\<close>

text \<open>The events that open the message and close the block, when that is due.\<close>

definition open_events :: "string \<Rightarrow> spec_state \<Rightarrow> messages_event list" where
  "open_events u s =
     (if sp_phase s = Before then [MessageStart (synthetic_message u (model_or_unknown (sp_model s)))]
      else [])"

definition block_end :: "spec_state \<Rightarrow> messages_event list" where
  "block_end s = (if sp_block_open s then [ContentBlockStop 0] else [])"

definition opened :: "phase \<Rightarrow> phase" where
  "opened p = (if p = Before then Opened else p)"

fun spec_step :: "string \<Rightarrow> messages_event \<Rightarrow> spec_state \<Rightarrow> messages_event list \<times> spec_state" where
  "spec_step u (MessageStart m) s =
     ([MessageStart m], s\<lparr>sp_phase := opened (sp_phase s), sp_last_is_delta := False\<rparr>)"
| "spec_step u (ContentBlockStart i b) s =
     (open_events u s @ [ContentBlockStart i b],
      s\<lparr>sp_phase := opened (sp_phase s), sp_blocks := insert i (sp_blocks s),
        sp_block_open := True, sp_last_is_delta := False\<rparr>)"
| "spec_step u (ContentBlockDelta i d) s =
     (open_events u s @
      (if i \<in> sp_blocks s then [] else [ContentBlockStart 0 (CB_Text [] None)]) @
      [ContentBlockDelta i d],
      s\<lparr>sp_phase := opened (sp_phase s), sp_blocks := insert i (sp_blocks s),
        sp_block_open := (sp_block_open s \<or> i \<notin> sp_blocks s), sp_last_is_delta := False\<rparr>)"
| "spec_step u (MessageDelta d v) s =
     (open_events u s @ block_end s @
      (if sp_last_is_delta s \<and> sp_phase s \<noteq> Before \<and> \<not> sp_block_open s then [] else [MessageDelta d v]),
      s\<lparr>sp_phase := Ended, sp_block_open := False, sp_last_is_delta := True\<rparr>)"
| "spec_step u (ContentBlockStop i) s =
     (open_events u s @ [ContentBlockStop i],
      s\<lparr>sp_phase := opened (sp_phase s), sp_block_open := False, sp_last_is_delta := False\<rparr>)"
| "spec_step u MessageStop s =
     (open_events u s @ block_end s @
      (if sp_phase s = Ended then []
       else (if sp_blocks s = {} then [ContentBlockStart 0 (CB_Text [] None), ContentBlockStop 0]
             else []) @ [synthetic_delta]) @ [MessageStop],
      s\<lparr>sp_phase := Closed, sp_block_open := False, sp_last_is_delta := False,
        sp_blocks := (if sp_phase s \<noteq> Ended \<and> sp_blocks s = {} then {0} else sp_blocks s)\<rparr>)"
| "spec_step u Ping s = ([Ping], s\<lparr>sp_last_is_delta := False\<rparr>)"

definition spec_learn :: "string option \<Rightarrow> spec_state \<Rightarrow> spec_state" where
  "spec_learn m s = (if sp_model s = None then s\<lparr>sp_model := m\<rparr> else s)"

definition spec_add ::
    "string \<Rightarrow> spec_state \<Rightarrow> string option \<Rightarrow> messages_event \<Rightarrow> messages_event list \<times> spec_state" where
  "spec_add u s m e =
     (let s' = spec_learn m s
      in if sp_phase s' = Closed then ([], s') else spec_step u e s')"

definition spec_flush :: "spec_state \<Rightarrow> messages_event list \<times> spec_state" where
  "spec_flush s =
     (if sp_phase s = Ended then ([MessageStop], s\<lparr>sp_phase := Closed, sp_last_is_delta := False\<rparr>)
      else ([], s\<lparr>sp_last_is_delta := False\<rparr>))"

definition spec_new :: spec_state where
  "spec_new = \<lparr>sp_phase = Before, sp_blocks = {}, sp_block_open = False,
     sp_last_is_delta = False, sp_model = None\<rparr>"

text \<open>The machine on the operations of a client of the buffer; skipped events leave no trace.\<close>

definition messages_event_of :: "sse_event \<Rightarrow> messages_event" where
  "messages_event_of e = (case provider_response e of Some (PSR_Messages evt) \<Rightarrow> evt | _ \<Rightarrow> Ping)"

fun spec_run ::
    "codec \<Rightarrow> string \<Rightarrow> spec_state \<Rightarrow> buffer_op list \<Rightarrow> messages_event list \<times> spec_state" where
  "spec_run c u s [] = ([], s)"
| "spec_run c u s (Add e # ops) =
     (if should_skip e then spec_run c u s ops
      else (let (out, s') = spec_add u s (data_model c e) (messages_event_of e);
                (out', s'') = spec_run c u s' ops in (out @ out', s'')))"
| "spec_run c u s (Flush # ops) =
     (let (out, s') = spec_flush s; (out', s'') = spec_run c u s' ops in (out @ out', s''))"

subsection \<open>Refinement\<close>

text \<open>An event as the translation makes it: it carries the Anthropic event its text serialises.\<close>

definition translated :: "codec \<Rightarrow> sse_event \<Rightarrow> bool" where
  "translated c e =
     (case provider_response e of
        Some (PSR_Messages evt) \<Rightarrow>
          sse_transformed_lines e = messages_event_string (ser_messages c) evt
      | _ \<Rightarrow> False)"

definition events_text :: "codec \<Rightarrow> messages_event list \<Rightarrow> string" where
  "events_text c es = concat (map (messages_event_string (ser_messages c)) es)"

lemma events_text_simps [simp]:
  "events_text c [] = []"
  "events_text c (e # es) = messages_event_string (ser_messages c) e @ events_text c es"
  "events_text c (es @ fs) = events_text c es @ events_text c fs"
  by (simp_all add: events_text_def)

lemma ends_with_sse_lines: "ends_with (sse_lines ty js) (NL @ NL)"
  unfolding sse_lines_def by (metis append.assoc ends_with_append)

lemma event_bytes_message_text:
  "sse_transformed_lines e = messages_event_string (ser_messages c) evt \<Longrightarrow>
    event_bytes e = messages_event_string (ser_messages c) evt"
  by (simp add: event_bytes_def messages_event_string_def ends_with_sse_lines)

lemma event_bytes_generated [simp]:
  "event_bytes (generated_event c e r) = messages_event_string (ser_messages c) e"
  by (rule event_bytes_message_text) (simp add: generated_event_def Let_def)

definition spec_phase :: "anthropic_buffer \<Rightarrow> phase" where
  "spec_phase b =
     (if message_stopped b then Closed else if seen_message_delta b then Ended
      else if message_started b then Opened else Before)"

definition spec_of :: "anthropic_buffer \<Rightarrow> spec_state" where
  "spec_of b =
     \<lparr>sp_phase = spec_phase b, sp_blocks = content_block_start_indices b,
      sp_block_open = needs_content_block_stop b,
      sp_last_is_delta = (last_delta (ab_buffered_events b) \<noteq> None), sp_model = ab_model b\<rparr>"

definition anthropic_inv :: "anthropic_buffer \<Rightarrow> bool" where
  "anthropic_inv b = (seen_message_delta b \<longrightarrow> message_started b)"

lemma last_delta_push [simp]:
  "last_delta (es @ [e]) =
    (case provider_response e of Some (PSR_Messages (MessageDelta d u)) \<Rightarrow> Some (d, u) | _ \<Rightarrow> None)"
  by (simp add: last_delta_def)

lemma provider_response_generated [simp]: "provider_response (generated_event c e r) = r"
  by (simp add: generated_event_def Let_def)

lemma merge_usage_fields [simp]:
  "message_started (merge_usage u b) = message_started b"
  "message_stopped (merge_usage u b) = message_stopped b"
  "content_block_start_indices (merge_usage u b) = content_block_start_indices b"
  "needs_content_block_stop (merge_usage u b) = needs_content_block_stop b"
  "seen_message_delta (merge_usage u b) = seen_message_delta b"
  "ab_model (merge_usage u b) = ab_model b"
  by (simp_all add: merge_usage_def split: option.split prod.split)

lemma merge_usage_last_delta:
  "last_delta (ab_buffered_events b) = Some p \<Longrightarrow>
    \<exists>d v. last_delta (ab_buffered_events (merge_usage u b)) = Some (d, v)"
  by (cases p) (simp add: merge_usage_def)

lemmas creators = create_message_start_event_def create_content_block_start_event_def
  create_content_block_stop_event_def

text \<open>One event, in a buffer that is not closed.\<close>

lemma ab_handle_refines:
  assumes "anthropic_inv b" "\<not> message_stopped b"
    and "provider_response e = Some (PSR_Messages evt)"
    and "sse_transformed_lines e = messages_event_string (ser_messages c) evt"
  shows "spec_of (ab_handle c u e evt b) = snd (spec_step u evt (spec_of b)) \<and>
    wire (ab_buffered_events (ab_handle c u e evt b)) =
      wire (ab_buffered_events b) @ events_text c (fst (spec_step u evt (spec_of b))) \<and>
    anthropic_inv (ab_handle c u e evt b)"
proof -
  note ev = event_bytes_message_text [OF assms(4)]
  show ?thesis
    using assms(1-3) ev
    by (cases evt)
       (auto simp: ab_simps creators spec_of_def spec_phase_def open_events_def opened_def
          block_end_def anthropic_inv_def Let_def merge_usage_wire merge_usage_last_delta)
qed

lemma spec_of_extract_model:
  "spec_of (extract_model c e b) = spec_learn (data_model c e) (spec_of b)"
  by (simp add: extract_model_def spec_of_def spec_learn_def spec_phase_def split: option.split)

lemma extract_model_fields [simp]:
  "ab_buffered_events (extract_model c e b) = ab_buffered_events b"
  "message_stopped (extract_model c e b) = message_stopped b"
  "anthropic_inv (extract_model c e b) = anthropic_inv b"
  by (simp_all add: extract_model_def anthropic_inv_def split: option.split)

lemma spec_phase_Closed: "sp_phase (spec_of b) = Closed \<longleftrightarrow> message_stopped b"
  by (simp add: spec_of_def spec_phase_def)

lemma anthropic_add_refines:
  assumes "anthropic_inv b" "translated c e" "\<not> should_skip e"
  shows "spec_of (anthropic_add c u b e) =
      snd (spec_add u (spec_of b) (data_model c e) (messages_event_of e)) \<and>
    wire (ab_buffered_events (anthropic_add c u b e)) = wire (ab_buffered_events b) @
      events_text c (fst (spec_add u (spec_of b) (data_model c e) (messages_event_of e))) \<and>
    anthropic_inv (anthropic_add c u b e)"
proof -
  let ?b = "extract_model c e b"
  obtain evt where evt: "provider_response e = Some (PSR_Messages evt)"
      "sse_transformed_lines e = messages_event_string (ser_messages c) evt"
    using assms(2) by (auto simp: translated_def split: option.splits provider_stream_response.splits)
  have closed: "sp_phase (spec_learn (data_model c e) (spec_of b)) = Closed \<longleftrightarrow> message_stopped b"
    using spec_phase_Closed [of ?b] by (simp add: spec_of_extract_model)
  show ?thesis
  proof (cases "message_stopped b")
    case True
    then show ?thesis
      using assms evt closed
      by (simp add: anthropic_add_def Let_def spec_add_def spec_of_extract_model)
  next
    case False
    with ab_handle_refines [of ?b e evt c u] assms evt closed show ?thesis
      by (simp add: anthropic_add_def Let_def spec_add_def spec_of_extract_model messages_event_of_def)
  qed
qed

lemma last_delta_Nil [simp]: "last_delta [] = None"
  by (simp add: last_delta_def)

lemma anthropic_flush_refines:
  assumes "anthropic_inv b"
  shows "spec_of (snd (anthropic_to_bytes c b)) = snd (spec_flush (spec_of b)) \<and>
    fst (anthropic_to_bytes c b) =
      wire (ab_buffered_events b) @ events_text c (fst (spec_flush (spec_of b))) \<and>
    anthropic_inv (snd (anthropic_to_bytes c b))"
  using assms
  by (auto simp: anthropic_to_bytes_def ab_simps spec_flush_def spec_of_def spec_phase_def
      anthropic_inv_def Let_def)

lemma anthropic_run_refines:
  assumes "anthropic_inv b" "\<forall>e \<in> set (added_events ops). translated c e"
  shows "fst (buffer_run (anthropic_add c u) (anthropic_to_bytes c) b (ops @ [Flush])) =
    wire (ab_buffered_events b) @ events_text c (fst (spec_run c u (spec_of b) (ops @ [Flush])))"
  using assms
proof (induction ops arbitrary: b rule: added_events.induct)
  case 1
  then show ?case
    using anthropic_flush_refines [of b c] by (simp add: Let_def case_prod_unfold)
next
  case (2 e ops)
  show ?case
  proof (cases "should_skip e")
    case True
    then show ?thesis using 2 by (simp add: anthropic.add_skip)
  next
    case False
    then have r: "spec_of (anthropic_add c u b e) =
        snd (spec_add u (spec_of b) (data_model c e) (messages_event_of e))"
      "wire (ab_buffered_events (anthropic_add c u b e)) = wire (ab_buffered_events b) @
        events_text c (fst (spec_add u (spec_of b) (data_model c e) (messages_event_of e)))"
      "anthropic_inv (anthropic_add c u b e)"
      using anthropic_add_refines [of b c e u] 2 by simp_all
    show ?thesis using "2.IH" [OF r(3)] 2(3) False r(1,2) by (simp add: Let_def case_prod_unfold)
  qed
next
  case (3 ops)
  have r: "spec_of (snd (anthropic_to_bytes c b)) = snd (spec_flush (spec_of b))"
    "fst (anthropic_to_bytes c b) =
      wire (ab_buffered_events b) @ events_text c (fst (spec_flush (spec_of b)))"
    "anthropic_inv (snd (anthropic_to_bytes c b))"
    using anthropic_flush_refines [of b c] 3 by simp_all
  have "ab_buffered_events (snd (anthropic_to_bytes c b)) = []"
    by (rule anthropic.flush_pending)
  then show ?case using "3.IH" [OF r(3)] 3(3) r(1,2) by (simp add: Let_def case_prod_unfold)
qed

lemma spec_of_new: "spec_of anthropic_new = spec_new"
  by (simp add: spec_of_def anthropic_new_def spec_new_def spec_phase_def)

lemma anthropic_inv_new [simp]: "anthropic_inv anthropic_new"
  by (simp add: anthropic_inv_def anthropic_new_def)

lemma anthropic_new_run_refines:
  assumes "\<forall>e \<in> set (added_events ops). translated c e"
  shows "fst (buffer_run (anthropic_add c u) (anthropic_to_bytes c) anthropic_new (ops @ [Flush])) =
    events_text c (fst (spec_run c u spec_new (ops @ [Flush])))"
  using anthropic_run_refines [OF anthropic_inv_new assms]
  by (simp add: spec_of_new) (simp add: anthropic_new_def)

text \<open>
  (C33) Refinement: however a client of the buffer interleaves translated events and flushes,
  the bytes it gets are the serialisation of the events the abstract machine puts out.
\<close>

theorem anthropic_buffer_refines:
  assumes "\<forall>e \<in> set (added_events ops). translated c e"
  shows "fst (buffer_run (anthropic_add c u) (anthropic_to_bytes c) anthropic_new (ops @ [Flush])) =
    events_text c (fst (spec_run c u spec_new (ops @ [Flush])))"
  using assms by (rule anthropic_new_run_refines)

subsection \<open>The protocol\<close>

text \<open>
  The phases of a well-formed stream: one message start before anything but a ping, message
  deltas before the stop, nothing after the stop.
\<close>

fun phase_step :: "phase \<Rightarrow> messages_event \<Rightarrow> phase option" where
  "phase_step Closed _ = None"
| "phase_step p Ping = Some p"
| "phase_step Before (MessageStart _) = Some Opened"
| "phase_step Before _ = None"
| "phase_step p (MessageStart _) = Some p"
| "phase_step p (MessageDelta _ _) = Some Ended"
| "phase_step Ended MessageStop = Some Closed"
| "phase_step Opened MessageStop = None"
| "phase_step p (ContentBlockStart _ _) = Some p"
| "phase_step p (ContentBlockDelta _ _) = Some p"
| "phase_step p (ContentBlockStop _) = Some p"

fun phase_run :: "phase \<Rightarrow> messages_event list \<Rightarrow> phase option" where
  "phase_run p [] = Some p"
| "phase_run p (e # es) = Option.bind (phase_step p e) (\<lambda>q. phase_run q es)"

lemma phase_run_append: "phase_run p (es @ fs) = Option.bind (phase_run p es) (\<lambda>q. phase_run q fs)"
  by (induction p es rule: phase_run.induct) (auto split: Option.bind_split)

lemma spec_step_phases:
  assumes "sp_phase s \<noteq> Closed" and "sp_last_is_delta s \<longrightarrow> sp_phase s = Ended"
  shows "phase_run (sp_phase s) (fst (spec_step u e s)) = Some (sp_phase (snd (spec_step u e s))) \<and>
    (sp_last_is_delta (snd (spec_step u e s)) \<longrightarrow> sp_phase (snd (spec_step u e s)) = Ended)"
  using assms
  by (cases e; cases "sp_phase s") (auto simp: open_events_def opened_def block_end_def synthetic_delta_def)

lemma spec_add_phases:
  assumes "sp_last_is_delta s \<longrightarrow> sp_phase s = Ended"
  shows "phase_run (sp_phase s) (fst (spec_add u s m e)) = Some (sp_phase (snd (spec_add u s m e))) \<and>
    (sp_last_is_delta (snd (spec_add u s m e)) \<longrightarrow> sp_phase (snd (spec_add u s m e)) = Ended)"
  using assms spec_step_phases [of "spec_learn m s" u e]
  by (auto simp: spec_add_def spec_learn_def Let_def)

lemma spec_flush_phases:
  "phase_run (sp_phase s) (fst (spec_flush s)) = Some (sp_phase (snd (spec_flush s))) \<and>
    \<not> sp_last_is_delta (snd (spec_flush s))"
  by (simp add: spec_flush_def)

lemma spec_run_phases:
  assumes "sp_last_is_delta s \<longrightarrow> sp_phase s = Ended"
  shows "phase_run (sp_phase s) (fst (spec_run c u s ops)) = Some (sp_phase (snd (spec_run c u s ops)))"
  using assms
proof (induction ops arbitrary: s rule: added_events.induct)
  case 1
  then show ?case by simp
next
  case (2 e ops)
  then show ?case
    using spec_add_phases [of s u "data_model c e" "messages_event_of e"]
    by (auto simp: Let_def case_prod_unfold phase_run_append)
next
  case (3 ops)
  then show ?case
    using spec_flush_phases [of s] by (auto simp: Let_def case_prod_unfold phase_run_append)
qed

lemma phase_run_snoc_inv:
  "phase_run p (xs @ e # ys) = Some q \<Longrightarrow>
    \<exists>p1 p2. phase_run p xs = Some p1 \<and> phase_step p1 e = Some p2 \<and> phase_run p2 ys = Some q"
  by (auto simp: phase_run_append bind_eq_Some_conv)

lemma phase_run_Closed: "phase_run Closed ys = Some q \<Longrightarrow> ys = []"
  by (cases ys) auto

lemma phase_step_start: "phase_step Before e = Some q \<Longrightarrow> q \<noteq> Before \<Longrightarrow> \<exists>m. e = MessageStart m"
  by (cases e) auto

lemma phase_step_ended: "phase_step p e = Some Ended \<Longrightarrow> p \<noteq> Ended \<Longrightarrow> \<exists>d v. e = MessageDelta d v"
  by (cases p; cases e) auto

lemma phase_step_not_Before: "phase_step p e = Some Before \<Longrightarrow> p = Before"
  by (cases p; cases e) auto

lemma phase_run_started: "phase_run Before xs = Some q \<Longrightarrow> q \<noteq> Before \<Longrightarrow> \<exists>m. MessageStart m \<in> set xs"
proof (induction xs)
  case Nil
  then show ?case by simp
next
  case (Cons e xs)
  then obtain p where "phase_step Before e = Some p" "phase_run p xs = Some q"
    by (auto simp: bind_eq_Some_conv)
  with Cons show ?case by (cases "p = Before") (auto dest: phase_step_start)
qed

lemma phase_run_ended:
  "phase_run p xs = Some Ended \<Longrightarrow> p \<noteq> Ended \<Longrightarrow> \<exists>d v. MessageDelta d v \<in> set xs"
proof (induction xs arbitrary: p)
  case Nil
  then show ?case by simp
next
  case (Cons e xs)
  then obtain p' where "phase_step p e = Some p'" "phase_run p' xs = Some Ended"
    by (auto simp: bind_eq_Some_conv)
  with Cons.IH [of p'] phase_step_ended [of p e] Cons.prems(2)
  show ?case by (cases "p' = Ended") fastforce+
qed

lemma well_formed_stop:
  assumes "phase_run Before (xs @ MessageStop # ys) = Some q"
  shows "ys = [] \<and> (\<exists>m. MessageStart m \<in> set xs) \<and> (\<exists>d v. MessageDelta d v \<in> set xs)"
proof -
  obtain p1 p2 where "phase_run Before xs = Some p1" "phase_step p1 MessageStop = Some p2"
    "phase_run p2 ys = Some q"
    using phase_run_snoc_inv [OF assms] by blast
  moreover from this have "p1 = Ended" "p2 = Closed" by (cases p1; simp)+
  ultimately show ?thesis
    using phase_run_Closed phase_run_started [of xs] phase_run_ended [of Before xs] by simp
qed

lemma well_formed_start:
  assumes "phase_run Before (xs @ e # ys) = Some q" "e \<noteq> Ping"
  shows "\<exists>m. MessageStart m \<in> set (xs @ [e])"
proof -
  obtain p1 p2 where "phase_run Before xs = Some p1" "phase_step p1 e = Some p2"
    using phase_run_snoc_inv [OF assms(1)] by blast
  moreover from this assms(2) have "p2 \<noteq> Before" by (cases p1; cases e) auto
  ultimately show ?thesis
    by (intro phase_run_started [of _ p2]) (simp_all add: phase_run_append)
qed

lemma well_formed:
  assumes "phase_run Before evs = Some q"
  shows "(\<forall>xs ys. evs = xs @ MessageStop # ys \<longrightarrow>
       ys = [] \<and> (\<exists>m. MessageStart m \<in> set xs) \<and> (\<exists>d v. MessageDelta d v \<in> set xs)) \<and>
    (\<forall>xs e ys. evs = xs @ e # ys \<and> e \<noteq> Ping \<longrightarrow> (\<exists>m. MessageStart m \<in> set (xs @ [e])))"
proof (intro conjI allI impI; (elim conjE)?)
  fix xs ys assume evs: "evs = xs @ MessageStop # ys"
  note stop = well_formed_stop [OF assms [unfolded evs]]
  show "ys = []" and "\<exists>m. MessageStart m \<in> set xs" and "\<exists>d v. MessageDelta d v \<in> set xs"
    using stop by blast+
next
  fix xs e ys assume evs: "evs = xs @ e # ys" and e: "e \<noteq> Ping"
  show "\<exists>m. MessageStart m \<in> set (xs @ [e])"
    by (rule well_formed_start [OF assms [unfolded evs] e])
qed

text \<open>
  (C17) However a client interleaves translated events and flushes, the bytes it gets are a
  well-formed Anthropic stream: nothing but pings comes before the first message start, a
  message stop comes after a message start and a message delta, and nothing follows it, so
  there is at most one.
\<close>

theorem anthropic_stream_well_formed:
  assumes "\<forall>e \<in> set (added_events ops). translated c e"
  shows "\<exists>evs.
    fst (buffer_run (anthropic_add c u) (anthropic_to_bytes c) anthropic_new (ops @ [Flush])) =
      events_text c evs \<and>
    (\<forall>xs ys. evs = xs @ MessageStop # ys \<longrightarrow>
       ys = [] \<and> (\<exists>m. MessageStart m \<in> set xs) \<and> (\<exists>d v. MessageDelta d v \<in> set xs)) \<and>
    (\<forall>xs e ys. evs = xs @ e # ys \<and> e \<noteq> Ping \<longrightarrow> (\<exists>m. MessageStart m \<in> set (xs @ [e])))"
proof -
  let ?evs = "fst (spec_run c u spec_new (ops @ [Flush]))"
  have "fst (buffer_run (anthropic_add c u) (anthropic_to_bytes c) anthropic_new (ops @ [Flush])) =
      events_text c ?evs"
    using assms by (rule anthropic_new_run_refines)
  moreover have "phase_run Before ?evs = Some (sp_phase (snd (spec_run c u spec_new (ops @ [Flush]))))"
    using spec_run_phases [of spec_new c u "ops @ [Flush]"] by (simp add: spec_new_def)
  ultimately show ?thesis
    using well_formed by (intro exI [of _ ?evs] conjI [of "_ = events_text c ?evs"])
qed

subsection \<open>Text streams\<close>

definition op_events :: "buffer_op list \<Rightarrow> messages_event list" where
  "op_events ops = map messages_event_of (filter (\<lambda>e. \<not> should_skip e) (added_events ops))"

lemma op_events_simps [simp]:
  "op_events [] = []"
  "op_events (Add e # ops) =
    (if should_skip e then op_events ops else messages_event_of e # op_events ops)"
  "op_events (Flush # ops) = op_events ops"
  by (simp_all add: op_events_def)

lemma spec_learn_fields [simp]:
  "sp_phase (spec_learn m s) = sp_phase s" "sp_blocks (spec_learn m s) = sp_blocks s"
  "sp_block_open (spec_learn m s) = sp_block_open s"
  "sp_last_is_delta (spec_learn m s) = sp_last_is_delta s"
  by (simp_all add: spec_learn_def)

lemma closed_run: "sp_phase s = Closed \<Longrightarrow> fst (spec_run c u s ops) = []"
  by (induction ops arbitrary: s rule: added_events.induct)
     (simp_all add: spec_add_def spec_flush_def Let_def case_prod_unfold)

definition text_delta :: "string \<Rightarrow> messages_event" where
  "text_delta t = ContentBlockDelta 0 (TextDelta t)"

text \<open>After the message delta: pings go on until the message is stopped, by the end marker or a flush.\<close>

lemma ended_run:
  "sp_phase s = Ended \<Longrightarrow> \<not> sp_block_open s \<Longrightarrow> set (op_events ops) \<subseteq> {Ping, MessageStop} \<Longrightarrow>
    \<exists>j \<le> count_list (op_events ops) Ping.
      fst (spec_run c u s (ops @ [Flush])) = replicate j Ping @ [MessageStop]"
proof (induction ops arbitrary: s rule: added_events.induct)
  case 1
  then show ?case by (simp add: spec_flush_def)
next
  case (2 e ops)
  consider "should_skip e" | "\<not> should_skip e" "messages_event_of e = MessageStop"
    | "\<not> should_skip e" "messages_event_of e = Ping"
    using 2(4) by (cases "should_skip e") auto
  then show ?case
  proof cases
    case 1
    with 2 show ?thesis by simp
  next
    case 2
    with \<open>sp_phase s = Ended\<close> \<open>\<not> sp_block_open s\<close> show ?thesis
      by (simp add: spec_add_def Let_def case_prod_unfold open_events_def block_end_def closed_run)
  next
    case 3
    let ?s = "snd (spec_add u s (data_model c e) Ping)"
    have s: "sp_phase ?s = Ended" "\<not> sp_block_open ?s" "fst (spec_add u s (data_model c e) Ping) = [Ping]"
      using 2(2,3) by (simp_all add: spec_add_def Let_def)
    obtain j where "j \<le> count_list (op_events ops) Ping"
      "fst (spec_run c u ?s (ops @ [Flush])) = replicate j Ping @ [MessageStop]"
      using "2.IH" [OF s(1,2)] 2(4) 3 by auto
    with 3 s(3) show ?thesis by (intro exI [of _ "Suc j"]) (simp add: Let_def case_prod_unfold)
  qed
next
  case (3 ops)
  then show ?case by (simp add: spec_flush_def Let_def case_prod_unfold closed_run)
qed

lemma text_run:
  assumes "sp_phase s = Opened" "0 \<in> sp_blocks s" "sp_block_open s"
    and "op_events ops = xs @ MessageDelta d v # ys"
    and "set xs \<subseteq> insert Ping (range text_delta)" "set ys \<subseteq> {Ping, MessageStop}"
  shows "\<exists>j \<le> count_list ys Ping. fst (spec_run c u s (ops @ [Flush])) =
    xs @ [ContentBlockStop 0, MessageDelta d v] @ replicate j Ping @ [MessageStop]"
  using assms(1-5)
proof (induction ops arbitrary: s xs rule: added_events.induct)
  case 1
  then show ?case by simp
next
  case (2 e ops)
  show ?case
  proof (cases "should_skip e")
    case True
    with 2 show ?thesis by simp
  next
    case False
    show ?thesis
    proof (cases xs)
      case Nil
      with 2(5) False have e: "messages_event_of e = MessageDelta d v" "op_events ops = ys" by simp_all
      let ?s = "snd (spec_add u s (data_model c e) (MessageDelta d v))"
      have "sp_phase ?s = Ended" "\<not> sp_block_open ?s"
        "fst (spec_add u s (data_model c e) (MessageDelta d v)) = [ContentBlockStop 0, MessageDelta d v]"
        using 2(2-4) by (simp_all add: spec_add_def Let_def open_events_def block_end_def)
      with ended_run [of ?s ops c u] assms(6) e False Nil show ?thesis
        by (auto simp: Let_def case_prod_unfold)
    next
      case (Cons x us)
      with 2(5) False have e: "messages_event_of e = x" "op_events ops = us @ MessageDelta d v # ys"
        by simp_all
      let ?s = "snd (spec_add u s (data_model c e) x)"
      have "sp_phase ?s = Opened" "0 \<in> sp_blocks ?s" "sp_block_open ?s"
        "fst (spec_add u s (data_model c e) x) = [x]" "set us \<subseteq> insert Ping (range text_delta)"
        using Cons 2(2-4,6)
        by (auto simp: spec_add_def Let_def text_delta_def open_events_def opened_def)
      with "2.IH" [of ?s us] e False Cons show ?thesis
        by (auto simp: Let_def case_prod_unfold)
    qed
  qed
next
  case (3 ops)
  then show ?case by (simp add: spec_flush_def Let_def case_prod_unfold)
qed

text \<open>The model the message start names: the first that one of the first \<open>n\<close> events names.\<close>

definition learn_models :: "codec \<Rightarrow> string option \<Rightarrow> sse_event list \<Rightarrow> string option" where
  "learn_models c m es = foldl (\<lambda>m e. if m = None then data_model c e else m) m es"

definition first_model :: "codec \<Rightarrow> nat \<Rightarrow> buffer_op list \<Rightarrow> string" where
  "first_model c n ops =
     model_or_unknown (learn_models c None (take n (filter (\<lambda>e. \<not> should_skip e) (added_events ops))))"

lemma text_run_before:
  assumes "sp_phase s = Before" "sp_blocks s = {}"
    and "op_events ops = replicate i Ping @ text_delta t # xs @ MessageDelta d v # ys"
    and "set xs \<subseteq> insert Ping (range text_delta)" "set ys \<subseteq> {Ping, MessageStop}"
  shows "\<exists>j \<le> count_list ys Ping. fst (spec_run c u s (ops @ [Flush])) =
    replicate i Ping @
    [MessageStart (synthetic_message u (model_or_unknown (learn_models c (sp_model s)
        (take (Suc i) (filter (\<lambda>e. \<not> should_skip e) (added_events ops)))))),
     ContentBlockStart 0 (CB_Text [] None), text_delta t] @
    xs @ [ContentBlockStop 0, MessageDelta d v] @ replicate j Ping @ [MessageStop]"
  using assms(1-3)
proof (induction ops arbitrary: s i rule: added_events.induct)
  case 1
  then show ?case by simp
next
  case (2 e ops)
  show ?case
  proof (cases "should_skip e")
    case True
    with 2 show ?thesis by simp
  next
    case False
    show ?thesis
    proof (cases i)
      case 0
      with 2(4) False have e: "messages_event_of e = text_delta t"
        "op_events ops = xs @ MessageDelta d v # ys" by simp_all
      let ?s = "snd (spec_add u s (data_model c e) (text_delta t))"
      have s: "sp_phase ?s = Opened" "0 \<in> sp_blocks ?s" "sp_block_open ?s"
        "fst (spec_add u s (data_model c e) (text_delta t)) =
          [MessageStart (synthetic_message u (model_or_unknown (learn_models c (sp_model s) [e]))),
           ContentBlockStart 0 (CB_Text [] None), text_delta t]"
        using 2(2,3)
        by (simp_all add: spec_add_def spec_learn_def Let_def text_delta_def open_events_def opened_def
            learn_models_def)
      from text_run [OF s(1-3) e(2) assms(4,5), of c u] s(4) e(1) False 0 show ?thesis
        by (auto simp: Let_def case_prod_unfold)
    next
      case (Suc i')
      with 2(4) False have e: "messages_event_of e = Ping"
        "op_events ops = replicate i' Ping @ text_delta t # xs @ MessageDelta d v # ys" by simp_all
      let ?s = "snd (spec_add u s (data_model c e) Ping)"
      have s: "sp_phase ?s = Before" "sp_blocks ?s = {}" "fst (spec_add u s (data_model c e) Ping) = [Ping]"
        "sp_model ?s = (if sp_model s = None then data_model c e else sp_model s)"
        using 2(2,3) by (simp_all add: spec_add_def spec_learn_def Let_def)
      from "2.IH" [OF s(1,2) e(2)] s(3,4) e(1) False Suc show ?thesis
        by (auto simp: Let_def case_prod_unfold learn_models_def)
    qed
  qed
next
  case (3 ops)
  from 3(1) [of "s\<lparr>sp_last_is_delta := False\<rparr>" i] 3(2-4) show ?case
    by (simp add: spec_flush_def Let_def case_prod_unfold)
qed

text \<open>
  (C18) A stream of text deltas, a finish and any number of end markers, as a Chat Completions
  upstream sends it, with translated pings anywhere between them (its first chunk, which only
  names the role, and its usage chunk are translated to pings), reaches the client as exactly one
  complete Anthropic message around the same deltas. The pings go through at their place, except
  those that come after the end of the message: of the pings after the finish only some initial ones
  are left, and only their number depends on the places where the transport flushes. Raw ping lines
  make no difference at all.
\<close>

theorem text_stream_exact:
  assumes "\<forall>e \<in> set (added_events ops). translated c e"
    and "op_events ops = replicate i Ping @ text_delta t # xs @ MessageDelta d v # ys"
    and "set xs \<subseteq> insert Ping (range text_delta)" "set ys \<subseteq> {Ping, MessageStop}"
  shows "\<exists>j \<le> count_list ys Ping.
    fst (buffer_run (anthropic_add c u) (anthropic_to_bytes c) anthropic_new (ops @ [Flush])) =
    events_text c
      (replicate i Ping @
       [MessageStart (synthetic_message u (first_model c (Suc i) ops)),
        ContentBlockStart 0 (CB_Text [] None), text_delta t] @
       xs @ [ContentBlockStop 0, MessageDelta d v] @ replicate j Ping @ [MessageStop])"
proof -
  have "sp_phase spec_new = Before" "sp_blocks spec_new = {}" "sp_model spec_new = None"
    by (simp_all add: spec_new_def)
  with text_run_before [OF _ _ assms(2-4), of spec_new c u] show ?thesis
    unfolding anthropic_new_run_refines [OF assms(1)] first_model_def by auto
qed

subsection \<open>Content and message starts\<close>

fun is_content_delta :: "messages_event \<Rightarrow> bool" where
  "is_content_delta (ContentBlockDelta _ _) = True"
| "is_content_delta _ = False"

fun is_message_start :: "messages_event \<Rightarrow> bool" where
  "is_message_start (MessageStart _) = True"
| "is_message_start _ = False"

lemma spec_step_content:
  "filter is_content_delta (fst (spec_step u e s)) = filter is_content_delta [e]"
  by (cases e) (auto simp: open_events_def block_end_def synthetic_delta_def)

lemma spec_flush_content [simp]: "filter is_content_delta (fst (spec_flush s)) = []"
  by (simp add: spec_flush_def)

lemma closed_phase: "sp_phase s = Closed \<Longrightarrow> sp_phase (snd (spec_run c u s ops)) = Closed"
  by (induction ops arbitrary: s rule: added_events.induct)
     (simp_all add: spec_add_def spec_flush_def Let_def case_prod_unfold)

lemma spec_run_content:
  "\<exists>rest. filter is_content_delta (op_events ops) =
      filter is_content_delta (fst (spec_run c u s ops)) @ rest \<and>
    (sp_phase (snd (spec_run c u s ops)) \<noteq> Closed \<longrightarrow> rest = [])"
proof (induction ops arbitrary: s rule: added_events.induct)
  case 1
  then show ?case by simp
next
  case (2 e ops)
  show ?case
  proof (cases "should_skip e")
    case True
    with 2 show ?thesis by simp
  next
    case False
    let ?r = "spec_add u s (data_model c e) (messages_event_of e)"
    show ?thesis
    proof (cases "sp_phase s = Closed")
      case True
      then have "sp_phase (snd (spec_run c u s (Add e # ops))) = Closed"
        "fst (spec_run c u s (Add e # ops)) = []"
        by (rule closed_phase, rule closed_run)
      then show ?thesis by (metis append_Nil filter.simps(1))
    next
      case False': False
      have "filter is_content_delta (fst ?r) = filter is_content_delta [messages_event_of e]"
        using False' by (simp add: spec_add_def Let_def spec_step_content)
      with "2.IH" [of "snd ?r"] False show ?thesis
        by (auto simp: Let_def case_prod_unfold)
    qed
  qed
next
  case (3 ops)
  then show ?case by (auto simp: Let_def case_prod_unfold)
qed

lemma phase_run_closes: "phase_run p xs = Some Closed \<Longrightarrow> p \<noteq> Closed \<Longrightarrow> MessageStop \<in> set xs"
proof (induction xs arbitrary: p)
  case Nil
  then show ?case by simp
next
  case (Cons e xs)
  then obtain q where q: "phase_step p e = Some q" "phase_run q xs = Some Closed"
    by (auto simp: bind_eq_Some_conv)
  show ?case
  proof (cases "q = Closed")
    case True
    with q(1) Cons.prems(2) have "e = MessageStop" by (cases p; cases e) auto
    then show ?thesis by simp
  next
    case False
    with Cons.IH q(2) show ?thesis by simp
  qed
qed

text \<open>
  Content is neither invented, reordered nor skipped: the content deltas on the wire are
  an initial part of those of the upstream, and all of them unless the message was stopped.
\<close>

theorem anthropic_content_preserved:
  assumes "\<forall>e \<in> set (added_events ops). translated c e"
  shows "\<exists>evs rest.
    fst (buffer_run (anthropic_add c u) (anthropic_to_bytes c) anthropic_new (ops @ [Flush])) =
      events_text c evs \<and>
    filter is_content_delta (op_events ops) = filter is_content_delta evs @ rest \<and>
    (MessageStop \<in> set evs \<or> rest = [])"
proof -
  let ?r = "spec_run c u spec_new (ops @ [Flush])"
  have bytes: "fst (buffer_run (anthropic_add c u) (anthropic_to_bytes c) anthropic_new (ops @ [Flush])) =
      events_text c (fst ?r)"
    using assms by (rule anthropic_new_run_refines)
  have ops: "op_events (ops @ [Flush]) = op_events ops" by (simp add: op_events_def)
  obtain rest where rest: "filter is_content_delta (op_events ops) =
      filter is_content_delta (fst ?r) @ rest" "sp_phase (snd ?r) \<noteq> Closed \<longrightarrow> rest = []"
    using spec_run_content [of "ops @ [Flush]" c u spec_new] ops by auto
  have "phase_run Before (fst ?r) = Some (sp_phase (snd ?r))"
    using spec_run_phases [of spec_new c u "ops @ [Flush]"] by (simp add: spec_new_def)
  then have "MessageStop \<in> set (fst ?r) \<or> rest = []"
    using rest(2) phase_run_closes [of Before "fst ?r"] by fastforce
  with bytes rest(1) show ?thesis by blast
qed

lemma spec_step_starts:
  "\<not> is_message_start e \<Longrightarrow> sp_phase s \<noteq> Closed \<Longrightarrow>
    length (filter is_message_start (fst (spec_step u e s))) +
      (if sp_phase (snd (spec_step u e s)) = Before then 1 else 0) =
    (if sp_phase s = Before then 1 else (0 :: nat))"
  by (cases e) (auto simp: open_events_def opened_def block_end_def synthetic_delta_def)

lemma spec_run_starts:
  "\<forall>e \<in> set (op_events ops). \<not> is_message_start e \<Longrightarrow>
    length (filter is_message_start (fst (spec_run c u s ops))) \<le> (if sp_phase s = Before then 1 else 0)"
proof (induction ops arbitrary: s rule: added_events.induct)
  case 1
  then show ?case by simp
next
  case (2 e ops)
  show ?case
  proof (cases "should_skip e \<or> sp_phase s = Closed")
    case True
    then show ?thesis
    proof
      assume "should_skip e"
      with 2 show ?thesis by simp
    next
      assume "sp_phase s = Closed"
      then have "fst (spec_run c u s (Add e # ops)) = []" by (rule closed_run)
      then show ?thesis by (simp only: filter.simps list.size)
    qed
  next
    case False
    let ?r = "spec_add u s (data_model c e) (messages_event_of e)"
    have "length (filter is_message_start (fst ?r)) + (if sp_phase (snd ?r) = Before then 1 else 0) =
        (if sp_phase s = Before then 1 else (0 :: nat))"
      using False 2(2) spec_step_starts [of "messages_event_of e" "spec_learn (data_model c e) s" u]
      by (simp add: spec_add_def Let_def)
    with "2.IH" [of "snd ?r"] False 2(2) show ?thesis
      by (auto simp: Let_def case_prod_unfold split: if_splits)
  qed
next
  case (3 ops)
  have "length (filter is_message_start (fst (spec_run c u (snd (spec_flush s)) ops)))
      \<le> (if sp_phase (snd (spec_flush s)) = Before then 1 else 0)"
    using 3 by simp
  moreover have "filter is_message_start (fst (spec_flush s)) = []"
    "sp_phase (snd (spec_flush s)) = Before \<longleftrightarrow> sp_phase s = Before"
    by (simp_all add: spec_flush_def)
  ultimately show ?case by (simp add: Let_def case_prod_unfold)
qed

text \<open>
  When the upstream sends no message start, as no Chat Completions upstream does, the
  client receives at most one.
\<close>

theorem anthropic_single_start:
  assumes "\<forall>e \<in> set (added_events ops). translated c e"
    and "\<forall>e \<in> set (op_events ops). \<not> is_message_start e"
  shows "\<exists>evs.
    fst (buffer_run (anthropic_add c u) (anthropic_to_bytes c) anthropic_new (ops @ [Flush])) =
      events_text c evs \<and>
    length (filter is_message_start evs) \<le> 1"
proof -
  have "op_events (ops @ [Flush]) = op_events ops" by (simp add: op_events_def)
  then have "length (filter is_message_start (fst (spec_run c u spec_new (ops @ [Flush])))) \<le> 1"
    using spec_run_starts [of "ops @ [Flush]" c u spec_new] assms(2) by (simp add: spec_new_def)
  moreover have "fst (buffer_run (anthropic_add c u) (anthropic_to_bytes c) anthropic_new
      (ops @ [Flush])) = events_text c (fst (spec_run c u spec_new (ops @ [Flush])))"
    using assms(1) by (rule anthropic_new_run_refines)
  ultimately show ?thesis by blast
qed

subsection \<open>Where the stream is not what it should be\<close>

definition bedrock_sse :: "codec \<Rightarrow> converse_event \<Rightarrow> sse_event" where
  "bedrock_sse c e =
     from_provider_response c (case bedrock_to_messages 0 e of Inr m \<Rightarrow> PSR_Messages m
       | Inl _ \<Rightarrow> PSR_Converse e)"

lemma from_provider_response_simps [simp]:
  "ev_data (from_provider_response c r) = None"
  "provider_response (from_provider_response c r) = Some r"
  "should_skip (from_provider_response c r) = False"
  "sse_transformed_lines (from_provider_response c r) = psr_string c r"
  by (simp_all add: from_provider_response_def should_skip_def)

lemma from_provider_response_translated [simp]:
  "translated c (from_provider_response c (PSR_Messages e))"
  by (simp add: translated_def)

lemma data_model_None [simp]: "ev_data e = None \<Longrightarrow> data_model c e = None"
  by (simp add: data_model_def)

text \<open>
  The token usage a Bedrock upstream reports never reaches an Anthropic client: it comes
  in a second message delta, which is merged into the buffered event but not into its text (or
  dropped, when a flush has closed the message), so the client reads the zeros of the first.
\<close>

theorem bedrock_usage_lost:
  "fst (buffer_run (anthropic_add c u) (anthropic_to_bytes c) anthropic_new
      ([Add (bedrock_sse c (B_MessageStop r x)), Add (bedrock_sse c (B_Metadata v))] @ [Flush])) =
    events_text c
      [MessageStart (synthetic_message u ''unknown''),
       MessageDelta (end_delta (stop_reason_of_bedrock r)) zero_usage, MessageStop] \<and>
   fst (buffer_run (anthropic_add c u) (anthropic_to_bytes c) anthropic_new
      ([Add (bedrock_sse c (B_MessageStop r x)), Flush, Add (bedrock_sse c (B_Metadata v))] @ [Flush])) =
    events_text c
      [MessageStart (synthetic_message u ''unknown''),
       MessageDelta (end_delta (stop_reason_of_bedrock r)) zero_usage, MessageStop]"
  by (intro conjI; subst anthropic_new_run_refines)
     (simp_all add: bedrock_sse_def Let_def case_prod_unfold spec_add_def spec_learn_def
        spec_new_def spec_flush_def open_events_def block_end_def messages_event_of_def
        model_or_unknown_def)

text \<open>
  A tool call after text, in the tool-call numbering of Chat Completions: the text block is
  not closed before the tool block starts, and only block 0 is ever stopped. With tool call 0
  the client sees block 0 started twice, with any other index a block that is never stopped.
\<close>

theorem tool_after_text_unbalanced:
  "fst (buffer_run (anthropic_add c u) (anthropic_to_bytes c) anthropic_new
      ([Add (from_provider_response c (PSR_Messages (text_delta t))),
        Add (from_provider_response c (PSR_Messages (ContentBlockStart k b))),
        Add (from_provider_response c (PSR_Messages (MessageDelta d v)))] @ [Flush])) =
    events_text c
      [MessageStart (synthetic_message u ''unknown''), ContentBlockStart 0 (CB_Text [] None),
       text_delta t, ContentBlockStart k b, ContentBlockStop 0, MessageDelta d v, MessageStop]"
  by (subst anthropic_new_run_refines)
     (simp_all add: Let_def case_prod_unfold spec_add_def spec_learn_def spec_new_def
        spec_flush_def open_events_def opened_def block_end_def messages_event_of_def
        model_or_unknown_def text_delta_def)

subsection \<open>A concrete run\<close>

text \<open>
  A text delta, a ping, a finish and an end marker in a codec that prints every event as a pair
  of braces, with a flush between any two of them.
\<close>

definition sample_event :: "messages_event \<Rightarrow> sse_event" where
  "sample_event e = from_provider_response brace_codec (PSR_Messages e)"

definition sample_ping :: sse_event where
  "sample_ping = (sample_event Ping)\<lparr>ev_data := Some ping_data\<rparr>"

definition sample_ops :: "buffer_op list" where
  "sample_ops =
     [Add (sample_event (text_delta ''Hi'')), Flush, Add sample_ping, Flush,
      Add (sample_event (MessageDelta (end_delta SR_EndTurn) zero_usage)), Flush,
      Add (sample_event MessageStop)]"

lemma sample_translated: "\<forall>e \<in> set (added_events sample_ops). translated brace_codec e"
  by (simp add: sample_ops_def sample_event_def sample_ping_def translated_def)

lemma sample_events:
  "op_events sample_ops =
    map text_delta [''Hi''] @ MessageDelta (end_delta SR_EndTurn) zero_usage # replicate 1 MessageStop"
  by (simp add: sample_ops_def sample_event_def sample_ping_def messages_event_of_def should_skip_def
      from_provider_response_def)

abbreviation (input) sample_run :: "string" where
  "sample_run \<equiv> fst (buffer_run (anthropic_add brace_codec ''0'') (anthropic_to_bytes brace_codec)
     anthropic_new (sample_ops @ [Flush]))"

theorem anthropic_buffer_refines_witness:
  "sample_run = events_text brace_codec (fst (spec_run brace_codec ''0'' spec_new (sample_ops @ [Flush])))"
  by (rule anthropic_buffer_refines [OF sample_translated])

theorem anthropic_stream_well_formed_witness:
  "\<exists>evs. sample_run = events_text brace_codec evs"
  using anthropic_stream_well_formed [OF sample_translated, of "''0''"] by blast

text \<open>
  A stream as an OpenAI upstream sends it: a chunk without content, a text, a finish, a usage
  chunk and the end marker.
\<close>

definition pinged_ops :: "buffer_op list" where
  "pinged_ops =
     [Add (sample_event Ping), Flush, Add (sample_event (text_delta ''Hi'')), Add sample_ping, Flush,
      Add (sample_event (MessageDelta (end_delta SR_EndTurn) zero_usage)), Add (sample_event Ping),
      Flush, Add (sample_event MessageStop)]"

lemma pinged_translated: "\<forall>e \<in> set (added_events pinged_ops). translated brace_codec e"
  by (simp add: pinged_ops_def sample_event_def sample_ping_def translated_def)

lemma pinged_events:
  "op_events pinged_ops = replicate 1 Ping @ text_delta ''Hi'' #
     [] @ MessageDelta (end_delta SR_EndTurn) zero_usage # [Ping, MessageStop]"
  by (simp add: pinged_ops_def sample_event_def sample_ping_def messages_event_of_def should_skip_def
      from_provider_response_def)

theorem text_stream_exact_witness:
  "\<exists>j \<le> 1. fst (buffer_run (anthropic_add brace_codec ''0'') (anthropic_to_bytes brace_codec)
      anthropic_new (pinged_ops @ [Flush])) =
    events_text brace_codec
      ([Ping, MessageStart (synthetic_message ''0'' ''unknown''), ContentBlockStart 0 (CB_Text [] None),
        text_delta ''Hi'', ContentBlockStop 0, MessageDelta (end_delta SR_EndTurn) zero_usage] @
       replicate j Ping @ [MessageStop])"
  using text_stream_exact [OF pinged_translated pinged_events, of "''0''"]
  by (simp add: first_model_def learn_models_def pinged_ops_def sample_event_def sample_ping_def
      should_skip_def from_provider_response_def data_model_def model_or_unknown_def)

theorem anthropic_content_preserved_witness:
  "\<exists>evs rest. sample_run = events_text brace_codec evs \<and>
    [text_delta ''Hi''] = filter is_content_delta evs @ rest"
  using anthropic_content_preserved [OF sample_translated, of "''0''"]
  by (auto simp: sample_events text_delta_def)

theorem anthropic_single_start_witness:
  "\<exists>evs. sample_run = events_text brace_codec evs \<and> length (filter is_message_start evs) \<le> 1"
  by (rule anthropic_single_start [OF sample_translated])
     (simp add: sample_events text_delta_def)

end
