(* ===== verification/Sse_Chunks.thy ===== *)
theory Sse_Chunks
  imports Sse
begin

section \<open>Events cut by chunk boundaries\<close>

text \<open>
  \<open>SseChunkProcessor\<close> of \<open>apis/streaming_shapes/sse_chunk_processor.rs\<close>: bytes arrive in chunks
  that need not end at an event; an event whose JSON is cut is kept and retried in front of the
  next chunk. The main theorem says when a chunk boundary is invisible; two more show where it
  is not.
\<close>

subsection \<open>Draining the iterator\<close>

lemma sse_scan_shorter: "sse_scan ls = (Some e, it) \<Longrightarrow> length (iter_lines it) < length ls"
  by (induction ls) (auto split: sum.splits if_splits)

function sse_collect :: "sse_stream_iter \<Rightarrow> sse_event list" where
  "sse_collect it =
     (case sse_iter_next it of
        (None, _) \<Rightarrow> []
      | (Some e, it') \<Rightarrow> e # sse_collect it')"
  by pat_completeness auto
termination
  by (relation "measure (\<lambda>it. length (iter_lines it))")
     (auto simp: sse_iter_next_def dest: sym sse_scan_shorter split: if_splits)

declare sse_collect.simps [simp del]

definition terminal :: "sse_event \<Rightarrow> bool" where
  "terminal e = (ev_data e \<noteq> None \<and> is_done e)"

definition line_event :: "string \<Rightarrow> sse_event option" where
  "line_event l =
     (case sse_from_str l of
        Inl _ \<Rightarrow> None
      | Inr e \<Rightarrow> if ev_data e \<noteq> None \<and> \<not> is_done e \<and> should_skip e then None else Some e)"

fun lines_events :: "string list \<Rightarrow> sse_event list" where
  "lines_events [] = []"
| "lines_events (l # ls) =
     (case line_event l of
        None \<Rightarrow> lines_events ls
      | Some e \<Rightarrow> if terminal e then [e] else e # lines_events ls)"

lemma sse_collect_done: "sse_collect \<lparr>iter_lines = ls, done_seen = True\<rparr> = []"
  by (subst sse_collect.simps) (simp add: sse_iter_next_def)

lemma sse_collect_new: "sse_collect (sse_iter_new ls) = lines_events ls"
proof (induction ls)
  case Nil
  then show ?case by (subst sse_collect.simps) (simp add: sse_iter_next_def sse_iter_new_def)
next
  case (Cons l ls)
  have skip: "sse_collect (sse_iter_new (l # ls)) = sse_collect (sse_iter_new ls)"
    if "sse_scan (l # ls) = sse_scan ls"
    using that by (subst (1 2) sse_collect.simps) (simp add: sse_iter_next_def sse_iter_new_def)
  have hit: "sse_collect (sse_iter_new (l # ls)) = e # sse_collect it"
    if "sse_scan (l # ls) = (Some e, it)" for e it
    using that by (subst sse_collect.simps) (simp add: sse_iter_next_def sse_iter_new_def)
  show ?case
  proof (cases "line_event l")
    case None
    then have "sse_scan (l # ls) = sse_scan ls"
      by (auto simp: line_event_def split: sum.splits if_splits)
    with skip Cons.IH None show ?thesis by simp
  next
    case (Some e)
    show ?thesis
    proof (cases "terminal e")
      case True
      with Some have "sse_scan (l # ls) = (Some e, \<lparr>iter_lines = ls, done_seen = True\<rparr>)"
        by (auto simp: line_event_def terminal_def split: sum.splits if_splits)
      with hit True Some sse_collect_done show ?thesis by simp
    next
      case False
      with Some have "sse_scan (l # ls) = (Some e, sse_iter_new ls)"
        by (auto simp: line_event_def terminal_def sse_iter_new_def split: sum.splits if_splits)
      with hit False Some Cons.IH show ?thesis by simp
    qed
  qed
qed

lemma lines_events_append:
  "\<forall>e \<in> set (lines_events xs). \<not> terminal e \<Longrightarrow>
    lines_events (xs @ ys) = lines_events xs @ lines_events ys"
  by (induction xs) (auto split: option.splits if_splits)

subsection \<open>The processor\<close>

text \<open>
  \<open>ticks\<close> counts the events translated so far, which numbers the readings of the clock: the
  event translated as number \<open>k\<close> sees the time \<open>clock k\<close>. It is no field of the code.
\<close>

record sse_chunk_processor =
  incomplete_event_buffer :: string
  ticks :: nat

definition chunk_processor_new :: sse_chunk_processor where
  "chunk_processor_new = \<lparr>incomplete_event_buffer = [], ticks = 0\<rparr>"

definition has_buffered_data :: "sse_chunk_processor \<Rightarrow> bool" where
  "has_buffered_data p = (incomplete_event_buffer p \<noteq> [])"

definition buffered_size :: "sse_chunk_processor \<Rightarrow> nat" where
  "buffered_size p = length (incomplete_event_buffer p)"

definition is_incomplete_json :: "string \<Rightarrow> bool" where
  "is_incomplete_json err =
     (let s = to_lowercase err
      in contains_str s ''eof while parsing'' \<or> contains_str s ''unexpected end of json'' \<or>
         contains_str s ''unexpected eof'')"

text \<open>The loop over the events: its state is the processor, its result the translated events.\<close>

fun process_events ::
    "(nat \<Rightarrow> sse_event \<Rightarrow> string + sse_event) \<Rightarrow> sse_chunk_processor \<Rightarrow> sse_event list
      \<Rightarrow> sse_event list \<times> sse_chunk_processor" where
  "process_events tr p [] = ([], p)"
| "process_events tr p (e # es) =
     (case tr (ticks p) e of
        Inr e' \<Rightarrow>
          (let (out, q) = process_events tr (p\<lparr>ticks := ticks p + 1\<rparr>) es in (e' # out, q))
      | Inl err \<Rightarrow>
          (if is_incomplete_json err then ([], p\<lparr>incomplete_event_buffer := raw_line e\<rparr>)
           else process_events tr p es))"

definition process_chunk ::
    "codec \<Rightarrow> (nat \<Rightarrow> nat) \<Rightarrow> client_api \<Rightarrow> upstream_api \<Rightarrow> sse_chunk_processor \<Rightarrow> string
      \<Rightarrow> (string + sse_event list) \<times> sse_chunk_processor" where
  "process_chunk c clock client upstream p chunk =
     (let combined = incomplete_event_buffer p @ chunk;
          q = p\<lparr>incomplete_event_buffer := []\<rparr>
      in case sse_iter_try_from combined of
           Inl e \<Rightarrow> (Inl (''Failed to create SSE iterator: '' @ e), q)
         | Inr it \<Rightarrow>
             (let (out, q') = process_events
                    (\<lambda>k e. sse_event_try_from c (clock k) e client upstream) q (sse_collect it)
              in (Inr out, q')))"

subsection \<open>Lemmas\<close>

lemma process_chunk_valid:
  assumes "valid_utf8 (incomplete_event_buffer p @ chunk)"
  shows "process_chunk c clock client upstream p chunk =
    (let (out, q) = process_events
           (\<lambda>k e. sse_event_try_from c (clock k) e client upstream)
           (p\<lparr>incomplete_event_buffer := []\<rparr>)
           (lines_events (str_lines (incomplete_event_buffer p @ chunk)))
     in (Inr out, q))"
  using assms
  by (simp add: process_chunk_def sse_iter_try_from_def valid_utf8_def sse_collect_new Let_def)

lemma process_chunk_Inr:
  assumes "process_chunk c clock client upstream p chunk = (Inr es, q)"
  shows "valid_utf8 (incomplete_event_buffer p @ chunk)"
  using assms
  by (auto simp: process_chunk_def sse_iter_try_from_def valid_utf8_def Let_def
      split: option.splits)

lemma line_event_raw: "line_event l = Some e \<Longrightarrow> raw_line e = l \<and> l \<noteq> []"
  by (auto simp: line_event_def sse_from_str_def Let_def trim_def
      split: sum.splits if_splits option.splits)

lemma lines_events_raw: "e \<in> set (lines_events ls) \<Longrightarrow> raw_line e \<noteq> []"
  by (induction ls) (auto split: option.splits if_splits dest: line_event_raw)

text \<open>A run of the loop that leaves the buffer empty has translated or skipped every event.\<close>

lemma process_events_append:
  assumes "process_events tr p es = (out, q)" "incomplete_event_buffer q = []"
    and "\<forall>e \<in> set es. raw_line e \<noteq> []"
  shows "process_events tr p (es @ fs) =
    (let (out', q') = process_events tr q fs in (out @ out', q'))"
  using assms
proof (induction es arbitrary: p out)
  case Nil
  then show ?case by (simp add: case_prod_unfold)
next
  case (Cons e es)
  show ?case
  proof (cases "tr (ticks p) e")
    case (Inl err)
    with Cons.prems have "\<not> is_incomplete_json err" by (auto split: if_splits)
    with Inl Cons show ?thesis by simp
  next
    case (Inr e')
    obtain out1 where o: "process_events tr (p\<lparr>ticks := ticks p + 1\<rparr>) es = (out1, q)"
        "out = e' # out1"
      using Cons.prems(1) Inr by (auto simp: Let_def split: prod.splits)
    from Cons.IH [OF o(1) Cons.prems(2)] Cons.prems(3) o Inr
    show ?thesis by (simp add: Let_def case_prod_unfold)
  qed
qed

lemma process_events_buffer_Nil:
  "incomplete_event_buffer p = [] \<Longrightarrow> incomplete_event_buffer (snd (process_events tr p es)) = []
    \<or> (\<exists>e \<in> set es. incomplete_event_buffer (snd (process_events tr p es)) = raw_line e)"
  by (induction tr p es rule: process_events.induct)
     (auto simp: Let_def case_prod_unfold split: sum.splits if_splits)

lemma sse_event_try_from_fields:
  assumes "sse_event_try_from c t e cl up = Inr e'"
  shows "ev_data e' = ev_data e" "ev_event e' = ev_event e" "raw_line e' = raw_line e"
  using assms by (auto simp: sse_event_try_from_def map_ok_Inr split: if_splits option.splits)

lemma line_event_terminal:
  "line_event l = Some e \<Longrightarrow> terminal e \<Longrightarrow> ev_data e = Some ''[DONE]''"
  by (auto simp: line_event_def sse_from_str_def terminal_def is_done_def Let_def
      split: sum.splits if_splits option.splits)

lemma lines_events_terminal:
  "e \<in> set (lines_events ls) \<Longrightarrow> terminal e \<Longrightarrow> ev_data e = Some ''[DONE]''"
  by (induction ls) (auto split: option.splits if_splits dest: line_event_terminal)

lemma try_from_done: "ev_data e = Some ''[DONE]'' \<Longrightarrow> is_ok (sse_event_try_from c t e cl up)"
  by (simp add: sse_event_try_from_def is_done_def psr_try_from_def)

lemma process_events_terminal:
  assumes "process_events tr p es = (out, q)" "incomplete_event_buffer q = []"
    and "\<forall>e \<in> set es. raw_line e \<noteq> []"
    and "e \<in> set es" "\<And>k. is_ok (tr k e)"
  shows "\<exists>k e'. tr k e = Inr e' \<and> e' \<in> set out"
  using assms(1,3,4)
proof (induction es arbitrary: p out)
  case Nil
  then show ?case by simp
next
  case (Cons f es)
  show ?case
  proof (cases "tr (ticks p) f")
    case (Inl err)
    with Cons.prems(1,2) assms(2) have "process_events tr p es = (out, q)"
      by (auto split: if_splits)
    moreover have "e \<noteq> f" using assms(5) [of "ticks p"] Inl by auto
    ultimately show ?thesis using Cons.IH Cons.prems by simp
  next
    case (Inr f')
    then obtain out1 where o: "process_events tr (p\<lparr>ticks := ticks p + 1\<rparr>) es = (out1, q)"
        "out = f' # out1"
      using Cons.prems(1) by (auto simp: Let_def split: prod.splits)
    show ?thesis
    proof (cases "e = f")
      case True
      with Inr o(2) show ?thesis by (intro exI [of _ "ticks p"]) simp
    next
      case False
      with Cons.IH [OF o(1)] Cons.prems(2,3) o(2) show ?thesis by auto
    qed
  qed
qed

text \<open>What a run over whole lines leaves behind, in the form the theorems below use.\<close>

lemma process_chunk_lines:
  assumes run: "process_chunk c clock cl up p pre = (Inr es1, p1)"
    and empty: "incomplete_event_buffer p1 = []"
    and aligned: "incomplete_event_buffer p @ pre = [] \<or> last (incomplete_event_buffer p @ pre) = nl"
    and open_stream: "\<forall>e \<in> set es1. \<not> terminal e"
    and valid: "valid_utf8 t"
  shows "process_chunk c clock cl up p (pre @ t) =
    (let (out, q) = process_events (\<lambda>k e. sse_event_try_from c (clock k) e cl up) p1
           (lines_events (str_lines t))
     in (Inr (es1 @ out), q))"
proof -
  let ?tr = "\<lambda>k e. sse_event_try_from c (clock k) e cl up"
  let ?b = "incomplete_event_buffer p @ pre"
  let ?p = "p\<lparr>incomplete_event_buffer := []\<rparr>"
  let ?es = "lines_events (str_lines ?b)"
  have vb: "valid_utf8 ?b" using run by (rule process_chunk_Inr)
  have pe: "process_events ?tr ?p ?es = (es1, p1)"
    using run by (simp add: process_chunk_valid [OF vb] case_prod_unfold Let_def prod_eq_iff)
  have raws: "\<forall>e \<in> set ?es. raw_line e \<noteq> []" using lines_events_raw by blast
  have "\<not> terminal e" if e: "e \<in> set ?es" for e
  proof
    assume te: "terminal e"
    have d: "ev_data e = Some ''[DONE]''" using e te by (rule lines_events_terminal)
    have ok: "is_ok (?tr k e)" for k using try_from_done [OF d] by simp
    obtain k e' where e': "?tr k e = Inr e'" "e' \<in> set es1"
      using process_events_terminal [OF pe empty raws e ok] by blast
    have "ev_data e' = Some ''[DONE]''" using sse_event_try_from_fields(1) [OF e'(1)] d by simp
    then have "terminal e'" by (simp add: terminal_def is_done_def)
    with open_stream e'(2) show False by blast
  qed
  then have "lines_events (str_lines (?b @ t)) = ?es @ lines_events (str_lines t)"
    using str_lines_append [OF aligned, of t] lines_events_append by simp
  then have "process_events ?tr ?p (lines_events (str_lines (?b @ t))) =
      (let (out, q) = process_events ?tr p1 (lines_events (str_lines t)) in (es1 @ out, q))"
    using process_events_append [OF pe empty raws] by simp
  moreover have "valid_utf8 (?b @ t)" using vb valid by (rule valid_utf8_append)
  ultimately show ?thesis
    using process_chunk_valid [of p "pre @ t" c clock cl up]
    by (simp add: case_prod_unfold Let_def)
qed

lemma str_lines_whole: "nl \<notin> set t \<Longrightarrow> str_lines t = (if t = [] then [] else [t])"
  by (simp add: str_lines_single)

text \<open>The bytes a chunk leaves behind are one of its lines, and so valid when it was.\<close>

lemma lines_events_line: "e \<in> set (lines_events ls) \<Longrightarrow> raw_line e \<in> set ls"
  by (induction ls) (auto split: option.splits if_splits dest: line_event_raw)

lemma process_chunk_kept:
  assumes "process_chunk c clock cl up p chunk = (Inr es, q)"
  shows "valid_utf8 (incomplete_event_buffer q)"
proof -
  let ?tr = "\<lambda>k e. sse_event_try_from c (clock k) e cl up" and ?b = "incomplete_event_buffer p @ chunk"
  have v: "valid_utf8 ?b" using assms by (rule process_chunk_Inr)
  have "q = snd (process_events ?tr (p\<lparr>incomplete_event_buffer := []\<rparr>) (lines_events (str_lines ?b)))"
    using assms by (simp add: process_chunk_valid [OF v] case_prod_unfold Let_def)
  then have "incomplete_event_buffer q = [] \<or> incomplete_event_buffer q \<in> set (str_lines ?b)"
    using process_events_buffer_Nil [of "p\<lparr>incomplete_event_buffer := []\<rparr>" ?tr "lines_events (str_lines ?b)"]
      lines_events_line by auto
  then show ?thesis using str_lines_valid [OF v] by auto
qed

subsection \<open>When a chunk boundary is invisible\<close>


definition brace_event :: sse_event where
  "brace_event =
     \<lparr>ev_data = Some ''{}'', ev_event = None, raw_line = ''data: {}'',
      sse_transformed_lines = ''data: {}'' @ NL @ NL,
      provider_response = Some (PSR_Chat (create_empty_openai_chunk 0))\<rparr>"

abbreviation (input) chat_chat_chunk ::
  "codec \<Rightarrow> sse_chunk_processor \<Rightarrow> string \<Rightarrow> (string + sse_event list) \<times> sse_chunk_processor" where
  "chat_chat_chunk c p chunk \<equiv>
     process_chunk c (\<lambda>_. 0) (C_OpenAIChatCompletions ChatCompletions)
       (U_OpenAIChatCompletions ChatCompletions) p chunk"


subsection \<open>Where a boundary is visible\<close>

text \<open>
  A boundary inside the field name of a data line loses the event: the part before the
  boundary is no event, is not kept, and what follows is no event either. Here the end marker
  of the stream disappears, which the same bytes in one chunk deliver.
\<close>

theorem cut_field_name_loses_event:
  "process_chunk c clock (C_OpenAIChatCompletions a) up chunk_processor_new ''da'' =
     (Inr [], chunk_processor_new) \<and>
   process_chunk c clock (C_OpenAIChatCompletions a) up chunk_processor_new (''ta: [DONE]'' @ NL) =
     (Inr [], chunk_processor_new) \<and>
   process_chunk c clock (C_OpenAIChatCompletions a) up chunk_processor_new
       (''da'' @ ''ta: [DONE]'' @ NL) =
     (Inr [\<lparr>ev_data = Some ''[DONE]'', ev_event = None, raw_line = ''data: [DONE]'',
            sse_transformed_lines = ''data: [DONE]'', provider_response = None\<rparr>],
      \<lparr>incomplete_event_buffer = [], ticks = 1\<rparr>)"
proof -
  have v: "valid_utf8 ''da''" "valid_utf8 (''ta: [DONE]'' @ NL)"
    "valid_utf8 (''da'' @ ''ta: [DONE]'' @ NL)" by code_simp+
  have e: "lines_events (str_lines ''da'') = []"
    "lines_events (str_lines (''ta: [DONE]'' @ NL)) = []"
    "lines_events (str_lines (''da'' @ ''ta: [DONE]'' @ NL)) =
      [\<lparr>ev_data = Some ''[DONE]'', ev_event = None, raw_line = ''data: [DONE]'',
        sse_transformed_lines = ''data: [DONE]'', provider_response = None\<rparr>]"
    by code_simp+
  show ?thesis
    using v e
    by (simp add: process_chunk_valid chunk_processor_new_def sse_event_try_from_def is_done_def
        is_anthropic_client_def)
qed

text \<open>
  An event whose JSON stays cut although its line is complete makes the processor discard
  the rest of the chunk, whatever it is, and keeps that line to be glued to the next chunk.
\<close>

theorem truncated_event_discards_rest:
  assumes "incomplete_event_buffer p = []"
    and "nl \<notin> set l" and "line_event (strip_cr l) = Some e"
    and "sse_event_try_from c (clock (ticks p)) e cl up = Inl err" and "is_incomplete_json err"
    and "valid_utf8 (l @ nl # rest)"
  shows "process_chunk c clock cl up p (l @ nl # rest) =
    (Inr [], p\<lparr>incomplete_event_buffer := strip_cr l\<rparr>)"
proof -
  have "raw_line e = strip_cr l" using assms(3) by (simp add: line_event_raw)
  moreover have "\<not> terminal e"
  proof
    assume "terminal e"
    then have "is_ok (sse_event_try_from c (clock (ticks p)) e cl up)"
      using line_event_terminal [OF assms(3)] try_from_done by blast
    with assms(4) show False by simp
  qed
  ultimately show ?thesis
    using assms by (simp add: process_chunk_valid str_lines_terminated)
qed

theorem truncated_event_discards_rest_witness:
  "chat_chat_chunk brace_codec chunk_processor_new (''data: {'' @ nl # ''data: {}'' @ NL) =
    (Inr [], \<lparr>incomplete_event_buffer = ''data: {'', ticks = 0\<rparr>)"
proof -
  let ?e = "\<lparr>ev_data = Some ''{'', ev_event = None, raw_line = ''data: {'',
      sse_transformed_lines = ''data: {'', provider_response = None\<rparr>"
  have 1: "incomplete_event_buffer chunk_processor_new = []" by code_simp
  have 2: "nl \<notin> set ''data: {''" by code_simp
  have 3: "line_event (strip_cr ''data: {'') = Some ?e" by code_simp
  have 4: "sse_event_try_from brace_codec 0 ?e (C_OpenAIChatCompletions ChatCompletions)
      (U_OpenAIChatCompletions ChatCompletions) =
      Inl ''EOF while parsing an object at line 1 column 1''" by code_simp
  have 5: "is_incomplete_json ''EOF while parsing an object at line 1 column 1''" by code_simp
  have 6: "valid_utf8 (''data: {'' @ nl # ''data: {}'' @ NL)" by code_simp
  have 7: "chunk_processor_new\<lparr>incomplete_event_buffer := strip_cr ''data: {''\<rparr> =
      \<lparr>incomplete_event_buffer = ''data: {'', ticks = 0\<rparr>" by code_simp
  show ?thesis
    using truncated_event_discards_rest [where clock = "\<lambda>_. 0", OF 1 2 3 4 5 6] 7 by simp
qed

end
