(* ===== verification/Stream_Props.thy ===== *)
theory Stream_Props
  imports Sse
begin

section \<open>Properties of the event translations\<close>

text \<open>
  What survives a translation from one protocol to another and back, which event types a pair
  of APIs yields, and that every pair the gateway chooses is one the translation supports.
\<close>

lemmas chunk_simps =
  create_openai_chunk_def create_empty_openai_chunk_def tool_start_chunk_def tool_args_chunk_def
  text_chunk_def empty_delta_def

lemma usage_roundtrip:
  "messages_usage_of_usage (usage_of_messages_usage u) = u \<longleftrightarrow>
    cache_creation_input_tokens u = None \<and> cache_read_input_tokens u = None"
  by (cases u) (auto simp: messages_usage_of_usage_def usage_of_messages_usage_def)

lemma stop_reason_roundtrip:
  "stop_reason_of_finish (finish_of_stop_reason r) = r \<longleftrightarrow> r \<notin> {SR_StopSequence, SR_PauseTurn}"
  by (cases r) auto

subsection \<open>Anthropic to Chat Completions and back\<close>

fun chat_representable :: "messages_event \<Rightarrow> bool" where
  "chat_representable (ContentBlockStart _ (CB_ToolUse _ _ inp cache)) =
     (inp = JObject [] \<and> cache = None)"
| "chat_representable (ContentBlockDelta i (TextDelta t)) = (i = 0 \<and> t \<noteq> [])"
| "chat_representable (ContentBlockDelta _ (InputJsonDelta _)) = True"
| "chat_representable (MessageDelta d u) =
     (mmd_stop_reason d \<notin> {SR_StopSequence, SR_PauseTurn} \<and> mmd_stop_sequence d = None \<and>
      cache_creation_input_tokens u = None \<and> cache_read_input_tokens u = None)"
| "chat_representable Ping = True"
| "chat_representable _ = False"

lemma tool_start_back:
  "chat_to_messages (tool_start_chunk now i tid n) =
    Inr (ContentBlockStart i (CB_ToolUse tid n (JObject []) None))"
  by (simp add: chat_to_messages_def chunk_simps)

lemma tool_args_back:
  "chat_to_messages (tool_args_chunk now i a) = Inr (ContentBlockDelta i (InputJsonDelta a))"
  by (simp add: chat_to_messages_def chunk_simps)

lemma text_back:
  "chat_to_messages (text_chunk now t) =
    Inr (if t = [] then Ping else ContentBlockDelta 0 (TextDelta t))"
  by (simp add: chat_to_messages_def chunk_simps)

lemma empty_back: "chat_to_messages (create_empty_openai_chunk now) = Inr Ping"
  by (simp add: chat_to_messages_def chunk_simps)

lemma finish_back:
  "chat_to_messages (create_openai_chunk now i m empty_delta (Some fr) u) =
    Inr (MessageDelta (end_delta (stop_reason_of_finish fr))
      (case u of None \<Rightarrow> zero_usage | Some v \<Rightarrow> messages_usage_of_usage v))"
  by (simp add: chat_to_messages_def chunk_simps split: option.split)

lemma role_back:
  "chat_to_messages (create_openai_chunk now i m (empty_delta\<lparr>md_role := r\<rparr>) None u) = Inr Ping"
  by (cases u) (simp_all add: chat_to_messages_def chunk_simps)

lemma usage_back:
  "chat_to_messages (create_openai_chunk now i m empty_delta None u) = Inr Ping"
  by (cases u) (simp_all add: chat_to_messages_def chunk_simps)

lemma no_choices_back: "cc_choices r = [] \<Longrightarrow> chat_to_messages r = Inr Ping"
  by (simp add: chat_to_messages_def)

lemmas chat_back = tool_start_back tool_args_back text_back empty_back finish_back role_back usage_back
  no_choices_back

lemma end_delta_eq: "end_delta r = d \<longleftrightarrow> mmd_stop_reason d = r \<and> mmd_stop_sequence d = None"
  by (cases d) (auto simp: end_delta_def)

text \<open>
  (C36) The Anthropic events that survive a translation to a Chat Completions chunk and back are
  exactly these: starts of tool calls with empty input, non-empty text in block 0, tool-call
  arguments, message deltas whose stop reason Chat Completions can express and that report no
  cache usage, and pings. Everything else changes or disappears.
\<close>

theorem anthropic_chat_roundtrip:
  "bind_result (messages_to_chat now e) chat_to_messages = Inr e \<longleftrightarrow> chat_representable e"
proof (cases e)
  case (ContentBlockStart i b)
  then show ?thesis by (cases b) (auto simp: chat_back)
next
  case (ContentBlockDelta i d)
  then show ?thesis by (cases d) (auto simp: chat_back)
next
  case (MessageDelta d u)
  then show ?thesis
    by (auto simp: chat_back end_delta_eq usage_roundtrip stop_reason_roundtrip
        eq_commute [of "mmd_stop_reason d"])
qed (auto simp: chat_back)

subsection \<open>Bedrock to Anthropic, directly and through Chat Completions\<close>

fun chat_transparent :: "converse_event \<Rightarrow> bool" where
  "chat_transparent (B_MessageStart _) = False"
| "chat_transparent (B_ContentBlockDelta i (B_DeltaText t)) = (i = 0 \<and> t \<noteq> [])"
| "chat_transparent (B_ContentBlockStop _) = False"
| "chat_transparent (B_Metadata _) = False"
| "chat_transparent _ = True"

lemma bedrock_stop_commute:
  "stop_reason_of_finish (finish_of_bedrock r) = stop_reason_of_bedrock r"
  by (cases r) simp_all

text \<open>
  The two routes from Bedrock to Anthropic agree, the direct translation and the one
  through a Chat Completions chunk, except on the events a chunk has no room for: the start of
  a message, the end of a block, the usage report, and text that is empty or not in block 0.
\<close>

theorem bedrock_routes_agree:
  "bind_result (bedrock_to_chat now e) chat_to_messages = bedrock_to_messages nanos e \<longleftrightarrow>
    chat_transparent e"
proof (cases e)
  case (B_ContentBlockStart i b)
  then show ?thesis by (cases b) (simp add: chat_back)
next
  case (B_ContentBlockDelta i d)
  then show ?thesis by (cases d) (auto simp: chat_back)
qed (simp_all add: chat_back bedrock_stop_commute)

subsection \<open>Chat Completions to Anthropic\<close>

fun is_envelope_event :: "messages_event \<Rightarrow> bool" where
  "is_envelope_event (MessageStart _) = True"
| "is_envelope_event (ContentBlockStop _) = True"
| "is_envelope_event MessageStop = True"
| "is_envelope_event _ = False"

lemma convert_tool_call_deltas_content:
  "case convert_tool_call_deltas tcs of Inl _ \<Rightarrow> False | Inr e \<Rightarrow> \<not> is_envelope_event e"
  by (induction tcs) (simp_all split: option.split)

text \<open>
  The translation of a Chat Completions chunk to an Anthropic event never fails and never
  opens or closes a message or closes a block: the envelope is the stream buffer's business.
\<close>

theorem chat_to_messages_content_only:
  "case chat_to_messages r of Inl _ \<Rightarrow> False | Inr e \<Rightarrow> \<not> is_envelope_event e"
  by (cases "cc_choices r")
     (simp_all add: chat_to_messages_def Let_def convert_tool_call_deltas_content split: option.split)

text \<open>
  A tool call whose identifier, name and first arguments arrive in one delta loses those
  arguments, and so does every tool call of the delta after the first.
\<close>

theorem combined_tool_delta_loses_arguments:
  "chat_to_messages
     (create_openai_chunk now i m
       (empty_delta\<lparr>md_tool_calls := Some
          (\<lparr>tcd_index = k, tcd_id = Some tid, tcd_call_type = ty,
            tcd_function = Some \<lparr>fcd_name = Some n, fcd_arguments = args\<rparr>\<rparr> # tcs)\<rparr>) None None) =
   Inr (ContentBlockStart k (CB_ToolUse tid n (JObject []) None))"
  by (simp add: chat_to_messages_def chunk_simps)

subsection \<open>Event types and API pairs\<close>

fun event_for_client :: "client_api \<Rightarrow> provider_stream_response \<Rightarrow> bool" where
  "event_for_client (C_OpenAIChatCompletions _) (PSR_Chat _) = True"
| "event_for_client (C_AnthropicMessagesAPI _) (PSR_Messages _) = True"
| "event_for_client (C_OpenAIResponsesAPI _) (PSR_Responses _) = True"
| "event_for_client _ _ = False"

lemma case_map_ok: "(case map_ok f r of Inl e \<Rightarrow> P e | Inr x \<Rightarrow> Q x) =
    (case r of Inl e \<Rightarrow> P e | Inr x \<Rightarrow> Q (f x))"
  by (cases r) simp_all

lemma case_sum_True: "(case r of Inl _ \<Rightarrow> True | Inr _ \<Rightarrow> True)"
  by (cases r) simp_all

lemma translation_type_safe_data:
  "case psr_try_from c nanos b cl up of Inl _ \<Rightarrow> True | Inr r \<Rightarrow> event_for_client cl r"
  by (auto simp: psr_try_from_def case_map_ok case_sum_True is_anthropic_client_def
      split: upstream_api.split client_api.split sum.split)

lemma translation_type_safe_frame:
  "case psr_of_frame de nanos f cl up of Inl _ \<Rightarrow> True | Inr r \<Rightarrow> event_for_client cl r"
  by (auto simp: psr_of_frame_def case_map_ok case_sum_True
      split: upstream_api.split client_api.split decoded_frame.split sum.split)

text \<open>
  A translated event is an event of the client's protocol, whatever the upstream sends and
  whether it comes as a data line or as a Bedrock frame.
\<close>

theorem translation_type_safe:
  "(case psr_try_from c nanos b cl up of Inl _ \<Rightarrow> True | Inr r \<Rightarrow> event_for_client cl r) \<and>
   (case psr_of_frame de nanos f cl up of Inl _ \<Rightarrow> True | Inr r \<Rightarrow> event_for_client cl r)"
  by (intro conjI translation_type_safe_data translation_type_safe_frame)

text \<open>Every error the translation of a data line can produce.\<close>

definition codec_error :: "codec \<Rightarrow> string \<Rightarrow> string \<Rightarrow> bool" where
  "codec_error c b e = (de_chat c b = Inl e \<or> de_messages c b = Inl e \<or>
     de_converse c b = Inl e \<or> de_responses c b = Inl e)"

lemma lift_error_not_unsupported: "lift_error r \<noteq> Inl unsupported_combination"
proof (cases r)
  case (Inl e)
  then show ?thesis by (cases e) (simp_all add: unsupported_combination_def)
qed simp

text \<open>
  The translation of data lines supports every pair of a client API and the upstream API
  the gateway chooses for it on a streaming request, for every provider but Bedrock, whose
  frames have their own translation: it can only fail because the JSON parser does or the
  event has no counterpart.
\<close>

theorem streaming_pairs_supported:
  assumes "p \<noteq> P_AmazonBedrock" and "\<not> codec_error c b unsupported_combination"
  shows "psr_try_from c nanos b cl (compatible_api_for_client p cl True) \<noteq>
    Inl unsupported_combination"
  using assms
  by (cases cl)
     (auto simp: psr_try_from_def compatible_api_for_client_def codec_error_def
       lift_error_not_unsupported bind_result_Inl split: provider_id.split_asm if_splits)

theorem streaming_pairs_supported_witness:
  "psr_try_from \<lparr>ser_chat = (\<lambda>_. []), ser_messages = (\<lambda>_. []), ser_converse = (\<lambda>_. []),
      ser_responses = (\<lambda>_. []), de_chat = (\<lambda>_. Inr (create_empty_openai_chunk 0)),
      de_messages = (\<lambda>_. Inr Ping), de_converse = (\<lambda>_. Inl []), de_responses = (\<lambda>_. Inl []),
      de_value = (\<lambda>_. Inl [])\<rparr> 0 ''{}'' (C_OpenAIResponsesAPI Responses)
      (compatible_api_for_client P_Mistral (C_OpenAIResponsesAPI Responses) True) \<noteq>
    Inl unsupported_combination"
  by (rule streaming_pairs_supported) (simp_all add: codec_error_def unsupported_combination_def)

subsection \<open>The wire text of a translated event\<close>

lemma translated_wire_fact:
  "case sse_event_try_from c nanos e cl up of
     Inl _ \<Rightarrow> True
   | Inr e' \<Rightarrow>
       (if is_done e \<and> \<not> is_anthropic_client cl then sse_transformed_lines e' = ''data: [DONE]''
        else ev_data e = None \<or>
          (\<exists>r. provider_response e' = Some r \<and> sse_transformed_lines e' = psr_string c r \<and>
               event_for_client cl r))"
proof (cases "is_done e \<and> \<not> is_anthropic_client cl")
  case True
  then show ?thesis by (simp add: sse_event_try_from_def)
next
  case False
  show ?thesis
  proof (cases "ev_data e")
    case None
    with False show ?thesis by (auto simp: sse_event_try_from_def)
  next
    case (Some d)
    have adj: "adjust_event_only cl up e' = e'" if "ev_data e' = Some d" for e'
      using that by (simp add: adjust_event_only_def is_event_only_def
          split: client_api.split upstream_api.split)
    show ?thesis
      using False Some translation_type_safe_data [where c = c and nanos = nanos and b = d and cl = cl and up = up] adj
      by (auto simp: sse_event_try_from_def case_map_ok split: sum.splits)
  qed
qed

text \<open>
  The wire text of a translated data line is the serialisation of the parsed event it
  carries, and an event without one keeps no JSON payload of the upstream, except for the end
  marker, whose text is fixed.
\<close>

theorem translated_wire_text:
  "case sse_event_try_from c nanos e cl up of
     Inl _ \<Rightarrow> True
   | Inr e' \<Rightarrow>
       (if is_done e \<and> \<not> is_anthropic_client cl then sse_transformed_lines e' = ''data: [DONE]''
        else ev_data e = None \<or>
          (\<exists>r. provider_response e' = Some r \<and> sse_transformed_lines e' = psr_string c r \<and>
               event_for_client cl r))"
  by (rule translated_wire_fact)

text \<open>
  On the pair of an Anthropic upstream and a Chat Completions client, the two lines of the
  upstream's closing event give the end marker first and then one more chunk, so the client
  receives data after the end of its stream.
\<close>

theorem chunk_after_done:
  assumes "de_messages c d = Inr MessageStop" and "d \<noteq> ''[DONE]''"
  shows "map_ok sse_transformed_lines
      (sse_event_try_from c t
        \<lparr>ev_data = None, ev_event = Some ''message_stop'', raw_line = ''event: message_stop'',
         sse_transformed_lines = ''event: message_stop'', provider_response = None\<rparr>
        (C_OpenAIChatCompletions a) (U_AnthropicMessagesAPI b)) = Inr ''data: [DONE]'' \<and>
    map_ok provider_response
      (sse_event_try_from c t
        \<lparr>ev_data = Some d, ev_event = None, raw_line = ''data: '' @ d,
         sse_transformed_lines = ''data: '' @ d, provider_response = None\<rparr>
        (C_OpenAIChatCompletions a) (U_AnthropicMessagesAPI b)) =
      Inr (Some (PSR_Chat (create_openai_chunk (epoch_seconds t) ''stream'' ''unknown'' empty_delta
        (Some FR_Stop) None)))"
  using assms
  by (simp add: sse_event_try_from_def is_done_def is_anthropic_client_def psr_try_from_def)

theorem chunk_after_done_witness:
  "map_ok sse_transformed_lines
      (sse_event_try_from \<lparr>ser_chat = (\<lambda>_. ''{}''), ser_messages = (\<lambda>_. []), ser_converse = (\<lambda>_. []),
          ser_responses = (\<lambda>_. []), de_chat = (\<lambda>_. Inl []), de_messages = (\<lambda>_. Inr MessageStop),
          de_converse = (\<lambda>_. Inl []), de_responses = (\<lambda>_. Inl []), de_value = (\<lambda>_. Inl [])\<rparr> 0
        \<lparr>ev_data = None, ev_event = Some ''message_stop'', raw_line = ''event: message_stop'',
         sse_transformed_lines = ''event: message_stop'', provider_response = None\<rparr>
        (C_OpenAIChatCompletions ChatCompletions) (U_AnthropicMessagesAPI Messages)) =
      Inr ''data: [DONE]''"
  by (rule conjunct1 [OF chunk_after_done [where d = "''{}''"]]) simp_all

end
