(* ===== verification/Gateway_Stream.thy ===== *)
theory Gateway_Stream
  imports Responses_Streams Anthropic_Protocol Sse_Chunks Stream_Props
begin

section \<open>The response path of the gateway filter\<close>

text \<open>
  The buffer enum and its factory (\<open>apis/streaming_shapes/sse.rs\<close>,
  \<open>providers/streaming_response.rs\<close>) and the response side of
  \<open>crates/llm_gateway/src/stream_context.rs\<close>: how the filter drives the chunk processor and the
  buffer for each body chunk, and the metrics at the end of a request. Metrics are returned as
  values; logging and the time-to-first-token measurement are left out.
\<close>

subsection \<open>The buffer of a stream\<close>

datatype any_buffer =
    SB_Passthrough passthrough_buffer
  | SB_OpenAIChatCompletions chat_buffer
  | SB_AnthropicMessages anthropic_buffer
  | SB_OpenAIResponses responses_buffer

record stream_env =
  se_codec :: codec
  se_message_id :: string
  se_hash :: hash_env
  se_clock :: "nat \<Rightarrow> nat"

fun any_add :: "stream_env \<Rightarrow> any_buffer \<Rightarrow> sse_event \<Rightarrow> any_buffer" where
  "any_add env (SB_Passthrough b) e = SB_Passthrough (passthrough_add b e)"
| "any_add env (SB_OpenAIChatCompletions b) e = SB_OpenAIChatCompletions (chat_buffer_add b e)"
| "any_add env (SB_AnthropicMessages b) e =
     SB_AnthropicMessages (anthropic_add (se_codec env) (se_message_id env) b e)"
| "any_add env (SB_OpenAIResponses b) e =
     SB_OpenAIResponses (responses_add (se_codec env) (se_hash env) b e)"

fun any_to_bytes :: "stream_env \<Rightarrow> any_buffer \<Rightarrow> string \<times> any_buffer" where
  "any_to_bytes env (SB_Passthrough b) = apsnd SB_Passthrough (passthrough_to_bytes b)"
| "any_to_bytes env (SB_OpenAIChatCompletions b) =
     apsnd SB_OpenAIChatCompletions (chat_buffer_to_bytes b)"
| "any_to_bytes env (SB_AnthropicMessages b) =
     apsnd SB_AnthropicMessages (anthropic_to_bytes (se_codec env) b)"
| "any_to_bytes env (SB_OpenAIResponses b) = apsnd SB_OpenAIResponses (responses_to_bytes b)"

fun any_pending :: "any_buffer \<Rightarrow> sse_event list" where
  "any_pending (SB_Passthrough b) = pb_buffered_events b"
| "any_pending (SB_OpenAIChatCompletions b) = cb_buffered_events b"
| "any_pending (SB_AnthropicMessages b) = ab_buffered_events b"
| "any_pending (SB_OpenAIResponses b) = rb_buffered_events b"

fun any_closing :: "stream_env \<Rightarrow> any_buffer \<Rightarrow> sse_event list" where
  "any_closing env (SB_AnthropicMessages b) = anthropic_closing (se_codec env) b"
| "any_closing env _ = []"

interpretation any: sse_stream_buffer "any_add env" "any_to_bytes env" any_pending "any_closing env" for env
proof
  fix b :: any_buffer and e :: sse_event
  show "fst (any_to_bytes env b) = wire (any_pending b @ any_closing env b)"
    by (cases b) (simp_all add: passthrough.flush_bytes chat.flush_bytes anthropic.flush_bytes
        responses.flush_bytes)
  show "any_pending (snd (any_to_bytes env b)) = []"
    by (cases b) (simp_all add: passthrough.flush_pending chat.flush_pending
        anthropic.flush_pending responses.flush_pending)
  show "any_closing env (snd (any_to_bytes env b)) = []"
    by (cases b) (simp_all add: anthropic.flush_closing)
  show "\<exists>es. wire (any_pending (any_add env b e)) = wire (any_pending b) @ es"
    by (cases b) (simp_all add: passthrough.add_extends chat.add_extends anthropic.add_extends
        responses.add_extends)
  show "should_skip e \<Longrightarrow> any_add env b e = b"
    by (cases b) (simp_all add: passthrough.add_skip chat.add_skip anthropic.add_skip
        responses.add_skip)
qed

definition buffer_for :: "client_api \<Rightarrow> upstream_api \<Rightarrow> any_buffer" where
  "buffer_for client upstream =
     (if \<not> needs_buffering client upstream then SB_Passthrough passthrough_new
      else (case client of
              C_OpenAIChatCompletions _ \<Rightarrow> SB_OpenAIChatCompletions chat_buffer_new
            | C_AnthropicMessagesAPI _ \<Rightarrow> SB_AnthropicMessages anthropic_new
            | C_OpenAIResponsesAPI _ \<Rightarrow> SB_OpenAIResponses responses_new))"

lemma any_run:
  "buffer_run (any_add env) (any_to_bytes env) (SB_AnthropicMessages b) ops =
    apsnd SB_AnthropicMessages (buffer_run (anthropic_add (se_codec env) (se_message_id env))
      (anthropic_to_bytes (se_codec env)) b ops)"
  "buffer_run (any_add env) (any_to_bytes env) (SB_OpenAIResponses rb) ops =
    apsnd SB_OpenAIResponses (buffer_run (responses_add (se_codec env) (se_hash env))
      responses_to_bytes rb ops)"
  "buffer_run (any_add env) (any_to_bytes env) (SB_Passthrough pb) ops =
    apsnd SB_Passthrough (buffer_run passthrough_add passthrough_to_bytes pb ops)"
  by (induction ops arbitrary: b rb pb rule: added_events.induct)
     (simp_all add: Let_def case_prod_unfold apsnd_def map_prod_def)

subsection \<open>One body chunk\<close>

record stream_context =
  sc_buffer :: "any_buffer option"
  sc_processor :: "sse_chunk_processor option"
  response_tokens :: nat

definition stream_context_new :: stream_context where
  "stream_context_new = \<lparr>sc_buffer = None, sc_processor = None, response_tokens = 0\<rparr>"

definition estimated_tokens :: "string \<Rightarrow> nat" where
  "estimated_tokens content = max (length content div 4) 1"

definition count_tokens :: "provider_stream_response \<Rightarrow> nat \<Rightarrow> nat" where
  "count_tokens r n =
     (case psr_content_delta r of Some t \<Rightarrow> n + estimated_tokens t | None \<Rightarrow> n)"

text \<open>The loop over the translated events; \<open>False\<close> is the early return on a missing response.\<close>

fun add_events ::
    "stream_env \<Rightarrow> sse_event list \<Rightarrow> any_buffer \<Rightarrow> nat \<Rightarrow> bool \<times> any_buffer \<times> nat" where
  "add_events env [] b n = (True, b, n)"
| "add_events env (e # es) b n =
     (if \<not> is_done e \<and> \<not> is_event_only e
      then (case provider_response e of
              None \<Rightarrow> (False, b, n)
            | Some r \<Rightarrow> add_events env es (any_add env b e) (count_tokens r n))
      else add_events env es (any_add env b e) n)"

text \<open>
  \<open>handle_streaming_response\<close> for SSE upstreams: \<open>None\<close> is \<open>Err(Action::Continue)\<close>. The buffer
  factory cannot fail.
\<close>

definition handle_streaming_response ::
    "stream_env \<Rightarrow> client_api \<Rightarrow> upstream_api \<Rightarrow> string \<Rightarrow> stream_context
      \<Rightarrow> string option \<times> stream_context" where
  "handle_streaming_response env client upstream body s =
     (let p = (case sc_processor s of Some p \<Rightarrow> p | None \<Rightarrow> chunk_processor_new);
          b = (case sc_buffer s of Some b \<Rightarrow> b | None \<Rightarrow> buffer_for client upstream);
          (r, p') = process_chunk (se_codec env) (se_clock env) client upstream p body
      in case r of
           Inl _ \<Rightarrow> (None, s\<lparr>sc_processor := Some p', sc_buffer := Some b\<rparr>)
         | Inr events \<Rightarrow>
             (let (ok, b1, n) = add_events env events b (response_tokens s)
              in if ok
                 then (let (bytes, b2) = any_to_bytes env b1
                       in (Some bytes, \<lparr>sc_buffer = Some b2, sc_processor = Some p', response_tokens = n\<rparr>))
                 else (None, \<lparr>sc_buffer = Some b1, sc_processor = Some p', response_tokens = n\<rparr>)))"

text \<open>
  What the client receives for a chunk: the filter replaces the body only on success, otherwise
  the chunk of the upstream goes on to the client as it is.
\<close>

definition forwarded_chunk ::
    "stream_env \<Rightarrow> client_api \<Rightarrow> upstream_api \<Rightarrow> string \<Rightarrow> stream_context \<Rightarrow> string \<times> stream_context" where
  "forwarded_chunk env client upstream body s =
     (let (r, s') = handle_streaming_response env client upstream body s
      in (case r of Some bytes \<Rightarrow> bytes | None \<Rightarrow> body, s'))"

fun forward_all ::
    "stream_env \<Rightarrow> client_api \<Rightarrow> upstream_api \<Rightarrow> string list \<Rightarrow> stream_context \<Rightarrow> string \<times> stream_context" where
  "forward_all env client upstream [] s = ([], s)"
| "forward_all env client upstream (c # cs) s =
     (let (o1, s1) = forwarded_chunk env client upstream c s;
          (o2, s2) = forward_all env client upstream cs s1
      in (o1 @ o2, s2))"

subsection \<open>Bedrock frames\<close>

text \<open>
  The frame decoder is a parameter: the frames it finds in a chunk, in order, up to the first
  incomplete one (\<open>Inr\<close>) or up to a decoding error (\<open>Inl\<close>).
\<close>

fun add_frames ::
    "stream_env \<Rightarrow> (string \<Rightarrow> string \<Rightarrow> string + converse_event) \<Rightarrow> nat \<Rightarrow> client_api \<Rightarrow> upstream_api
      \<Rightarrow> decoded_frame list \<Rightarrow> any_buffer \<Rightarrow> nat \<Rightarrow> any_buffer \<times> nat" where
  "add_frames env de nanos client upstream [] b n = (b, n)"
| "add_frames env de nanos client upstream (FrameIncomplete # fs) b n = (b, n)"
| "add_frames env de nanos client upstream (FrameComplete m # fs) b n =
     (case psr_of_frame de nanos (FrameComplete m) client upstream of
        Inl _ \<Rightarrow> add_frames env de nanos client upstream fs b n
      | Inr r \<Rightarrow> add_frames env de nanos client upstream fs
                 (any_add env b (from_provider_response (se_codec env) r)) (count_tokens r n))"

definition handle_bedrock_binary_stream ::
    "stream_env \<Rightarrow> (string \<Rightarrow> string \<Rightarrow> string + converse_event) \<Rightarrow> nat \<Rightarrow> client_api \<Rightarrow> upstream_api
      \<Rightarrow> decoded_frame list + decoded_frame list \<Rightarrow> stream_context \<Rightarrow> string option \<times> stream_context" where
  "handle_bedrock_binary_stream env de nanos client upstream decoded s =
     (let b = (case sc_buffer s of Some b \<Rightarrow> b | None \<Rightarrow> buffer_for client upstream);
          frames = (case decoded of Inl fs \<Rightarrow> fs | Inr fs \<Rightarrow> fs);
          (b1, n) = add_frames env de nanos client upstream frames b (response_tokens s)
      in case decoded of
           Inl _ \<Rightarrow> (None, s\<lparr>sc_buffer := Some b1, response_tokens := n\<rparr>)
         | Inr _ \<Rightarrow>
             (let (bytes, b2) = any_to_bytes env b1
              in (Some bytes, s\<lparr>sc_buffer := Some b2, response_tokens := n\<rparr>)))"

subsection \<open>The loop over the events never fails\<close>

lemma process_events_out:
  "e' \<in> set (fst (process_events tr p es)) \<Longrightarrow> \<exists>k. \<exists>e \<in> set es. tr k e = Inr e'"
  by (induction tr p es rule: process_events.induct)
     (auto simp: Let_def case_prod_unfold split: sum.splits if_splits)

lemma line_event_parts:
  "line_event l = Some e \<Longrightarrow> provider_response e = None \<and> (ev_data e = None \<longleftrightarrow> ev_event e \<noteq> None)"
  by (auto simp: line_event_def sse_from_str_def Let_def split: sum.splits if_splits option.splits)

lemma lines_events_parts:
  "e \<in> set (lines_events ls) \<Longrightarrow>
    provider_response e = None \<and> (ev_data e = None \<longleftrightarrow> ev_event e \<noteq> None)"
  by (induction ls) (auto split: option.splits if_splits dest: line_event_parts)

lemma process_chunk_event:
  assumes "process_chunk c clock cl up p chunk = (Inr es, q)" "e' \<in> set es"
  obtains t e where "sse_event_try_from c t e cl up = Inr e'" "provider_response e = None"
    "ev_data e = None \<longleftrightarrow> ev_event e \<noteq> None"
proof -
  let ?ls = "lines_events (str_lines (incomplete_event_buffer p @ chunk))"
  have "es = fst (process_events (\<lambda>k e. sse_event_try_from c (clock k) e cl up)
      (p\<lparr>incomplete_event_buffer := []\<rparr>) ?ls)"
    using assms(1) by (simp add: process_chunk_valid [OF process_chunk_Inr [OF assms(1)]]
        case_prod_unfold Let_def)
  with assms(2) obtain k e where "e \<in> set ?ls" "sse_event_try_from c (clock k) e cl up = Inr e'"
    using process_events_out by blast
  then show thesis using that lines_events_parts by blast
qed

lemma translated_event_cases:
  assumes "sse_event_try_from c t e cl up = Inr e'"
    and "ev_data e = None \<longleftrightarrow> ev_event e \<noteq> None"
  shows "is_done e' \<or> is_event_only e' \<or>
    (\<exists>r. provider_response e' = Some r \<and> sse_transformed_lines e' = psr_string c r \<and>
         event_for_client cl r)"
proof -
  note f = sse_event_try_from_fields [OF assms(1)]
  show ?thesis
    using assms f translated_wire_fact [where c = c and nanos = t and e = e and cl = cl and up = up]
    by (auto simp: is_event_only_def is_done_def split: if_splits)
qed

lemma add_events_ok:
  "\<forall>e \<in> set es. is_done e \<or> is_event_only e \<or> provider_response e \<noteq> None \<Longrightarrow>
    fst (add_events env es b n) \<and> fst (snd (add_events env es b n)) = foldl (any_add env) b es"
  by (induction es arbitrary: b n) (auto split: option.split)

lemma process_chunk_added:
  assumes "process_chunk (se_codec env) clock cl up p chunk = (Inr es, q)"
  shows "fst (add_events env es b n) \<and> fst (snd (add_events env es b n)) = foldl (any_add env) b es"
proof (rule add_events_ok, rule ballI)
  fix e assume e: "e \<in> set es"
  show "is_done e \<or> is_event_only e \<or> provider_response e \<noteq> None"
  proof (rule process_chunk_event [OF assms e])
    fix t e0
    assume t: "sse_event_try_from (se_codec env) t e0 cl up = Inr e"
      and d: "ev_data e0 = None \<longleftrightarrow> ev_event e0 \<noteq> None"
    show ?thesis using translated_event_cases [OF t d] by auto
  qed
qed

definition waiting_bytes :: "stream_context \<Rightarrow> string" where
  "waiting_bytes s =
     (case sc_processor s of Some p \<Rightarrow> incomplete_event_buffer p | None \<Rightarrow> [])"

lemma process_chunk_Inl:
  "(\<exists>e q. process_chunk c clock cl up p chunk = (Inl e, q)) \<longleftrightarrow>
    \<not> valid_utf8 (incomplete_event_buffer p @ chunk)"
  by (auto simp: process_chunk_def sse_iter_try_from_def valid_utf8_def Let_def case_prod_unfold
      split: option.splits)

text \<open>
  The filter fails on a chunk, and lets it through to the client untranslated, exactly when
  the bytes it has are not valid UTF-8, which includes every chunk that ends inside a
  multi-byte character; the other error returns of the handler cannot happen.
\<close>

theorem streaming_failure_iff_invalid_utf8:
  "fst (handle_streaming_response env cl up body s) = None \<longleftrightarrow> \<not> valid_utf8 (waiting_bytes s @ body)"
proof -
  let ?p = "case sc_processor s of Some p \<Rightarrow> p | None \<Rightarrow> chunk_processor_new"
  have w: "waiting_bytes s = incomplete_event_buffer ?p"
    by (simp add: waiting_bytes_def chunk_processor_new_def split: option.split)
  obtain r q where pc: "process_chunk (se_codec env) (se_clock env) cl up ?p body = (r, q)" by fastforce
  show ?thesis
  proof (cases r)
    case (Inl e)
    then have "\<not> valid_utf8 (waiting_bytes s @ body)"
      using pc process_chunk_Inl [of "se_codec env" "se_clock env" cl up ?p body] w by auto
    with pc Inl show ?thesis by (simp add: handle_streaming_response_def Let_def)
  next
    case (Inr es)
    then have "valid_utf8 (waiting_bytes s @ body)"
      using pc process_chunk_Inr [of "se_codec env" "se_clock env" cl up ?p body es q] w by simp
    moreover have "fst (add_events env es b n)" for b n
      using process_chunk_added [of env "se_clock env" cl up ?p body es q] pc Inr by simp
    ultimately show ?thesis
      using pc Inr by (simp add: handle_streaming_response_def Let_def case_prod_unfold)
  qed
qed

subsection \<open>The filter as a client of its buffer\<close>

fun chunk_events ::
    "stream_env \<Rightarrow> client_api \<Rightarrow> upstream_api \<Rightarrow> sse_chunk_processor \<Rightarrow> string list
      \<Rightarrow> sse_event list list option" where
  "chunk_events env cl up p [] = Some []"
| "chunk_events env cl up p (c # cs) =
     (case process_chunk (se_codec env) (se_clock env) cl up p c of
        (Inl _, _) \<Rightarrow> None
      | (Inr es, q) \<Rightarrow> map_option ((#) es) (chunk_events env cl up q cs))"

lemma chunk_events_valid:
  "valid_utf8 (incomplete_event_buffer p) \<Longrightarrow> \<forall>c \<in> set cs. valid_utf8 c \<Longrightarrow>
    \<exists>ess. chunk_events env cl up p cs = Some ess"
proof (induction cs arbitrary: p)
  case (Cons c cs)
  have v: "valid_utf8 (incomplete_event_buffer p @ c)" using Cons.prems by (auto intro: valid_utf8_append)
  then obtain es q where pc: "process_chunk (se_codec env) (se_clock env) cl up p c = (Inr es, q)"
    by (auto simp: process_chunk_valid case_prod_unfold Let_def)
  obtain ess where "chunk_events env cl up q cs = Some ess"
    using Cons.IH [OF process_chunk_kept [OF pc]] Cons.prems(2) by auto
  then show ?case using pc by simp
qed simp

definition chunk_ops :: "sse_event list list \<Rightarrow> buffer_op list" where
  "chunk_ops ess = concat (map (\<lambda>es. map Add es @ [Flush]) ess)"

lemma chunk_ops_simps [simp]:
  "chunk_ops [] = []" "chunk_ops (es # ess) = map Add es @ Flush # chunk_ops ess"
  by (simp_all add: chunk_ops_def)

lemma added_events_Add [simp]: "added_events (map Add es @ ops) = es @ added_events ops"
  by (induction es) simp_all

lemma added_events_map [simp]: "added_events (map Add es) = es"
  by (induction es) simp_all

lemma added_chunk_ops: "added_events (chunk_ops ess) = concat ess"
  by (induction ess) simp_all

lemma chunk_ops_flush: "ess \<noteq> [] \<Longrightarrow> \<exists>ops. chunk_ops ess = ops @ [Flush] \<and> added_events ops = concat ess"
proof (induction ess rule: rev_induct)
  case Nil
  then show ?case by simp
next
  case (snoc es ess)
  have "chunk_ops (ess @ [es]) = (chunk_ops ess @ map Add es) @ [Flush]" by (simp add: chunk_ops_def)
  moreover have "added_events (chunk_ops ess @ map Add es) = concat (ess @ [es])"
    using added_events_Add [of es "[]"] by (simp add: added_chunk_ops)
  ultimately show ?case by blast
qed

lemma forward_all_run:
  assumes "chunk_events env cl up (case sc_processor s of Some p \<Rightarrow> p | None \<Rightarrow> chunk_processor_new) cs = Some ess"
  shows "fst (forward_all env cl up cs s) =
    fst (buffer_run (any_add env) (any_to_bytes env)
      (case sc_buffer s of Some b \<Rightarrow> b | None \<Rightarrow> buffer_for cl up) (chunk_ops ess))"
  using assms
proof (induction cs arbitrary: s ess)
  case Nil
  then show ?case by simp
next
  case (Cons c cs)
  let ?p = "case sc_processor s of Some p \<Rightarrow> p | None \<Rightarrow> chunk_processor_new"
  let ?b = "case sc_buffer s of Some b \<Rightarrow> b | None \<Rightarrow> buffer_for cl up"
  obtain es q where pc: "process_chunk (se_codec env) (se_clock env) cl up ?p c = (Inr es, q)"
    using Cons.prems by (auto split: prod.splits sum.splits)
  then obtain ess' where ess: "ess = es # ess'" "chunk_events env cl up q cs = Some ess'"
    using Cons.prems by auto
  note added = process_chunk_added [OF pc, of ?b "response_tokens s"]
  let ?b1 = "foldl (any_add env) ?b es"
  obtain s1 where s1: "forwarded_chunk env cl up c s = (fst (any_to_bytes env ?b1), s1)"
    "sc_processor s1 = Some q" "sc_buffer s1 = Some (snd (any_to_bytes env ?b1))"
    using pc added
    by (simp add: forwarded_chunk_def handle_streaming_response_def Let_def case_prod_unfold)
  have "fst (forward_all env cl up cs s1) =
      fst (buffer_run (any_add env) (any_to_bytes env) (snd (any_to_bytes env ?b1)) (chunk_ops ess'))"
    using Cons.IH [of s1 ess'] s1(2,3) ess(2) by simp
  then show ?case
    using s1(1) ess(1)
    by (simp add: buffer_run_append any.run_adds Let_def case_prod_unfold)
qed

lemma chunk_events_event:
  assumes "chunk_events env cl up p cs = Some ess" "es \<in> set ess" "e' \<in> set es"
  shows "\<exists>t e. sse_event_try_from (se_codec env) t e cl up = Inr e' \<and> provider_response e = None \<and>
    (ev_data e = None \<longleftrightarrow> ev_event e \<noteq> None)"
  using assms
proof (induction cs arbitrary: p ess)
  case Nil
  then show ?case by simp
next
  case (Cons c cs)
  obtain es0 q where pc: "process_chunk (se_codec env) (se_clock env) cl up p c = (Inr es0, q)"
    using Cons.prems(1) by (auto split: prod.splits sum.splits)
  then obtain ess' where ess: "ess = es0 # ess'" "chunk_events env cl up q cs = Some ess'"
    using Cons.prems(1) by auto
  show ?case
  proof (cases "es \<in> set ess'")
    case True
    with Cons.IH [OF ess(2)] Cons.prems(3) show ?thesis by blast
  next
    case False
    with Cons.prems(2,3) ess(1) have "e' \<in> set es0" by simp
    with process_chunk_event [OF pc] show ?thesis by metis
  qed
qed

subsection \<open>End of a request\<close>

text \<open>
  \<open>handle_end_of_request_metrics_and_traces\<close>: the recorded time per token and tokens per second,
  or a panic (the division by a time per token of zero), when tokens were counted.
\<close>

datatype end_metrics = NoTokens | Recorded nat nat | DivisionPanic

definition end_of_request_metrics :: "nat \<Rightarrow> nat \<Rightarrow> end_metrics" where
  "end_of_request_metrics duration_ms tokens =
     (if tokens > 0
      then (let tpot = duration_ms div tokens
            in if tpot = 0 then DivisionPanic else Recorded tpot (1000 div tpot))
      else NoTokens)"

text \<open>
  A response that streams at least one token per millisecond makes the filter divide by
  zero when it reports the throughput, and no other response does.
\<close>

theorem end_metrics_panic:
  "end_of_request_metrics duration_ms tokens = DivisionPanic \<longleftrightarrow> duration_ms < tokens"
  by (auto simp: end_of_request_metrics_def Let_def div_eq_0_iff)

end
