(* ===== verification/Gateway_Props.thy ===== *)
theory Gateway_Props
  imports Gateway_Stream
begin

section \<open>From upstream bytes to client bytes\<close>

text \<open>
  The properties of the buffers, carried through the chunk processor and the filter to the bytes
  of a whole response, cut into body chunks in any way.
\<close>

lemma anthropic_chunk_translated:
  assumes "sse_event_try_from c t e (C_AnthropicMessagesAPI a) up = Inr e'"
    and "ev_data e = None \<longleftrightarrow> ev_event e \<noteq> None" and "\<not> is_event_only e'"
  shows "translated c e'"
proof -
  note f = sse_event_try_from_fields [OF assms(1)]
  have "ev_data e \<noteq> None" using assms(2,3) f by (auto simp: is_event_only_def)
  then obtain r where r: "provider_response e' = Some r" "sse_transformed_lines e' = psr_string c r"
    "event_for_client (C_AnthropicMessagesAPI a) r"
    using assms(1) translated_wire_fact [where c = c and nanos = t and e = e and up = up and
        cl = "C_AnthropicMessagesAPI a"]
    by (auto simp: is_anthropic_client_def)
  then show ?thesis by (cases r) (simp_all add: translated_def)
qed

text \<open>
  (C1) Whatever bytes a Chat Completions upstream sends, and wherever between two characters the
  transport cuts them (every chunk is valid UTF-8; \<open>utf8_cut_leaks_upstream_bytes\<close> shows what a
  cut inside a character does), as long as no line with an event name and no data is read, an
  Anthropic client receives a well-formed stream: nothing but pings before the first message
  start, one message stop at most, after a start and a delta, and nothing after it.
\<close>

theorem gateway_anthropic_well_formed:
  assumes "cs \<noteq> []" and "\<forall>c \<in> set cs. valid_utf8 c"
    and "\<forall>e \<in> set (concat (the (chunk_events env (C_AnthropicMessagesAPI a) (U_OpenAIChatCompletions m)
      chunk_processor_new cs))). \<not> is_event_only e"
  shows "\<exists>evs.
    fst (forward_all env (C_AnthropicMessagesAPI a) (U_OpenAIChatCompletions m) cs stream_context_new) =
      events_text (se_codec env) evs \<and>
    (\<forall>xs ys. evs = xs @ MessageStop # ys \<longrightarrow>
       ys = [] \<and> (\<exists>m. MessageStart m \<in> set xs) \<and> (\<exists>d v. MessageDelta d v \<in> set xs)) \<and>
    (\<forall>xs e ys. evs = xs @ e # ys \<and> e \<noteq> Ping \<longrightarrow> (\<exists>m. MessageStart m \<in> set (xs @ [e])))"
proof -
  let ?cl = "C_AnthropicMessagesAPI a" and ?up = "U_OpenAIChatCompletions m"
  have "\<exists>ess. chunk_events env ?cl ?up chunk_processor_new cs = Some ess"
    by (rule chunk_events_valid) (use assms(2) in \<open>simp_all add: chunk_processor_new_def\<close>)
  then obtain ess where ess: "chunk_events env ?cl ?up chunk_processor_new cs = Some ess" by blast
  have "ess \<noteq> []" using assms(1) ess by (cases cs) (auto split: prod.splits sum.splits)
  then obtain ops where ops: "chunk_ops ess = ops @ [Flush]" "added_events ops = concat ess"
    using chunk_ops_flush by blast
  have tr: "\<forall>e \<in> set (added_events ops). translated (se_codec env) e"
  proof
    fix e' assume e': "e' \<in> set (added_events ops)"
    then obtain es where "es \<in> set ess" "e' \<in> set es" using ops(2) by auto
    then obtain t e where "sse_event_try_from (se_codec env) t e ?cl ?up = Inr e'"
      "ev_data e = None \<longleftrightarrow> ev_event e \<noteq> None"
      using chunk_events_event [OF ess, of es e'] by metis
    moreover have "\<not> is_event_only e'" using e' ops(2) assms(3) ess by auto
    ultimately show "translated (se_codec env) e'" by (rule anthropic_chunk_translated)
  qed
  have "fst (forward_all env ?cl ?up cs stream_context_new) =
      fst (buffer_run (any_add env) (any_to_bytes env) (buffer_for ?cl ?up) (ops @ [Flush]))"
    using forward_all_run [of env ?cl ?up stream_context_new cs ess] ess ops(1)
    by (simp add: stream_context_new_def)
  also have "\<dots> = events_text (se_codec env)
      (fst (spec_run (se_codec env) (se_message_id env) spec_new (ops @ [Flush])))"
    using anthropic_new_run_refines [OF tr] by (simp add: buffer_for_def any_run)
  finally show ?thesis
    using well_formed [of "fst (spec_run (se_codec env) (se_message_id env) spec_new (ops @ [Flush]))"]
      spec_run_phases [of spec_new "se_codec env" "se_message_id env" "ops @ [Flush]"]
    by (intro exI conjI [of "_ = _"]) (auto simp: spec_new_def)
qed

text \<open>
  (C2) Whatever bytes a Chat Completions upstream sends, and wherever between two characters the
  transport cuts them (every chunk is valid UTF-8; \<open>utf8_cut_leaks_upstream_bytes\<close> shows what a
  cut inside a character does), a Responses client receives events numbered 0, 1, 2, ..., which are none or begin with the created and the in-progress
  event, and at most one completed event.
\<close>

theorem gateway_responses_life_cycle:
  assumes "cs \<noteq> []" and "\<forall>c \<in> set cs. valid_utf8 c"
  shows "\<exists>evs.
    fst (forward_all env (C_OpenAIResponsesAPI a) (U_OpenAIChatCompletions m) cs stream_context_new) =
      responses_text (se_codec env) evs \<and>
    map event_number evs = map of_nat [0 ..< length evs] \<and>
    (evs = [] \<or> (\<exists>r1 q1 r2 q2 rest. evs = RE_Created r1 q1 # RE_InProgress r2 q2 # rest \<and>
       (\<forall>x \<in> set rest. \<not> is_prelude x))) \<and>
    completions evs \<le> 1"
proof -
  let ?cl = "C_OpenAIResponsesAPI a" and ?up = "U_OpenAIChatCompletions m"
  have "\<exists>ess. chunk_events env ?cl ?up chunk_processor_new cs = Some ess"
    by (rule chunk_events_valid) (use assms(2) in \<open>simp_all add: chunk_processor_new_def\<close>)
  then obtain ess where ess: "chunk_events env ?cl ?up chunk_processor_new cs = Some ess" by blast
  have "ess \<noteq> []" using assms(1) ess by (cases cs) (auto split: prod.splits sum.splits)
  then obtain ops where ops: "chunk_ops ess = ops @ [Flush]" "added_events ops = concat ess"
    using chunk_ops_flush by blast
  have inp: "\<forall>e \<in> set (added_events ops). chat_input e"
  proof
    fix e' assume "e' \<in> set (added_events ops)"
    then obtain es where "es \<in> set ess" "e' \<in> set es" using ops(2) by auto
    then show "chat_input e'"
      using chunk_events_event [OF ess, of es e'] translated_chat_input by metis
  qed
  let ?evs = "fst (responses_log (se_hash env) responses_state_new (added_events ops))"
  have "fst (forward_all env ?cl ?up cs stream_context_new) =
      fst (buffer_run (any_add env) (any_to_bytes env) (buffer_for ?cl ?up) (ops @ [Flush]))"
    using forward_all_run [of env ?cl ?up stream_context_new cs ess] ess ops(1)
    by (simp add: stream_context_new_def)
  also have "\<dots> = responses_text (se_codec env) ?evs"
    by (simp add: buffer_for_def any_run responses_run)
  finally have bytes: "fst (forward_all env ?cl ?up cs stream_context_new) =
      responses_text (se_codec env) ?evs" .
  have "fresh responses_state_new" by (simp add: fresh_def)
  note cyc = responses_log_fresh [OF this inp, of "se_hash env"]
  have "map event_number ?evs = map of_nat [0 ..< length ?evs]"
    using counts_D(1) [OF counts_log [OF inp, of "se_hash env"], of responses_state_new]
    by (simp add: numbers_upt)
  with bytes cyc show ?thesis by (intro exI [of _ ?evs]) (simp split: if_splits)
qed

text \<open>
  A chunk that ends inside a multi-byte character reaches the client of another protocol
  as the raw bytes of the upstream, and the event it begins is lost: the bytes that follow in
  the next chunk are no event any more. Here the start of a data line with the first byte of
  a two-byte character, then its second byte and the end of the line.
\<close>

theorem utf8_cut_leaks_upstream_bytes:
  "fst (forward_all env (C_AnthropicMessagesAPI a) (U_OpenAIChatCompletions m)
      [''data: '' @ [CHR 0xC3], CHR 0xA9 # NL] stream_context_new) =
    ''data: '' @ [CHR 0xC3] @ [CHR 0xA9] @ NL"
proof -
  have bad: "utf8_scan 0 (''data: '' @ [CHR 0xC3]) = Some (6, None)"
    "utf8_scan 0 (CHR 0xA9 # NL) = Some (0, Some 1)" by code_simp+
  show ?thesis
    using bad
    by (simp add: forwarded_chunk_def handle_streaming_response_def process_chunk_def
        sse_iter_try_from_def stream_context_new_def chunk_processor_new_def Let_def)
qed

subsection \<open>Concrete runs\<close>

definition sample_env :: stream_env where
  "sample_env = \<lparr>se_codec = brace_codec, se_message_id = ''0'', se_hash = list_env, se_clock = (\<lambda>_. 0)\<rparr>"

definition sample_chunks :: "string list" where
  "sample_chunks = [''data: {'', ''}'' @ NL @ NL @ ''data: [DONE]'' @ NL]"

lemma sample_chunks_valid: "\<forall>c \<in> set sample_chunks. valid_utf8 c"
  by code_simp

lemma sample_anthropic_events:
  "(case chunk_events sample_env (C_AnthropicMessagesAPI Messages) (U_OpenAIChatCompletions ChatCompletions)
      chunk_processor_new sample_chunks of
     Some ess \<Rightarrow> list_all (\<lambda>e. \<not> is_event_only e) (concat ess) | None \<Rightarrow> False)"
  by code_simp

theorem gateway_anthropic_well_formed_witness:
  "\<exists>evs. fst (forward_all sample_env (C_AnthropicMessagesAPI Messages)
      (U_OpenAIChatCompletions ChatCompletions) sample_chunks stream_context_new) =
    events_text brace_codec evs"
proof -
  have "\<forall>e \<in> set (concat (the (chunk_events sample_env (C_AnthropicMessagesAPI Messages)
      (U_OpenAIChatCompletions ChatCompletions) chunk_processor_new sample_chunks))). \<not> is_event_only e"
    using sample_anthropic_events by (auto split: option.splits simp: list_all_iff)
  moreover have "sample_chunks \<noteq> []" by (simp add: sample_chunks_def)
  ultimately show ?thesis
    using gateway_anthropic_well_formed [of sample_chunks sample_env Messages ChatCompletions]
      sample_chunks_valid
    by (auto simp: sample_env_def)
qed

theorem gateway_responses_life_cycle_witness:
  "\<exists>evs. fst (forward_all sample_env (C_OpenAIResponsesAPI Responses)
      (U_OpenAIChatCompletions ChatCompletions) sample_chunks stream_context_new) =
    responses_text brace_codec evs \<and> completions evs \<le> 1"
proof -
  have "sample_chunks \<noteq> []" by (simp add: sample_chunks_def)
  then show ?thesis
    using gateway_responses_life_cycle [of sample_chunks sample_env Responses ChatCompletions]
      sample_chunks_valid
    by (auto simp: sample_env_def)
qed

end
