(* ===== verification/Request_Types.thy ===== *)
theory Request_Types
  imports Stream_Types
begin

section \<open>The request data types of the provider APIs\<close>

text \<open>
  The requests of \<open>crates/hermesllm/src/apis/openai.rs\<close> (Chat Completions), \<open>apis/anthropic.rs\<close>
  (Messages), \<open>apis/amazon_bedrock.rs\<close> (Converse) and \<open>apis/openai_responses.rs\<close> (Responses), in the
  order of the fields of the code. Content blocks, roles, JSON values and the Responses tools are
  those of \<open>Stream_Types\<close>. A hash map of a request is the list of its entries: it is only copied,
  and entries are removed by key.
\<close>

subsection \<open>Chat Completions requests\<close>

record image_url =
  iu_url :: string
  iu_detail :: "string option"

datatype content_part = CP_Text string | CP_ImageUrl image_url

datatype message_content = MC_Text string | MC_Parts "content_part list"

record tool_call =
  tc_id :: string
  tc_call_type :: string
  tc_function :: function_call

record message =
  m_role :: role
  m_content :: "message_content option"
  m_name :: "string option"
  m_tool_calls :: "tool_call list option"
  m_tool_call_id :: "string option"

record function_def =
  fn_name :: string
  fn_description :: "string option"
  fn_parameters :: json
  fn_strict :: "bool option"

record tool =
  t_tool_type :: string
  t_function :: function_def

datatype tool_choice_type = TCT_Auto | TCT_Required | TCT_None

text \<open>The second variant carries the choice type and the name of the function.\<close>

datatype tool_choice = TC_Type tool_choice_type | TC_Function string string

record stream_options =
  so_include_usage :: "bool option"

datatype static_content_type = SCT_Text string | SCT_Parts "content_part list"

record static_content =
  st_content_type :: string
  st_content :: static_content_type

record chat_request =
  cr_messages :: "message list"
  cr_model :: string
  cr_frequency_penalty :: "f32 option"
  cr_function_call :: "string option"
  cr_functions :: "tool list option"
  cr_logit_bias :: "(string \<times> i32) list option"
  cr_logprobs :: "bool option"
  cr_max_completion_tokens :: "u32 option"
  cr_max_tokens :: "u32 option"
  cr_modalities :: "string list option"
  cr_metadata :: "(string \<times> json) list option"
  cr_n :: "u32 option"
  cr_presence_penalty :: "f32 option"
  cr_parallel_tool_calls :: "bool option"
  cr_prediction :: "static_content option"
  cr_response_format :: "json option"
  cr_reasoning_effort :: "string option"
  cr_seed :: "i32 option"
  cr_service_tier :: "string option"
  cr_stop :: "string list option"
  cr_store :: "bool option"
  cr_stream :: "bool option"
  cr_stream_options :: "stream_options option"
  cr_temperature :: "f32 option"
  cr_tool_choice :: "tool_choice option"
  cr_tools :: "tool list option"
  cr_top_p :: "f32 option"
  cr_top_logprobs :: "u32 option"
  cr_user :: "string option"
  cr_web_search_options :: "json option"
  cr_top_k :: "u32 option"
  cr_stop_token_ids :: "u32 list option"
  cr_continue_final_message :: "bool option"
  cr_add_generation_prompt :: "bool option"

text \<open>The derived \<open>Default\<close>, which the struct updates \<open>..Default::default()\<close> start from.\<close>

definition chat_request_default :: chat_request where
  "chat_request_default = \<lparr>cr_messages = [], cr_model = [], cr_frequency_penalty = None,
     cr_function_call = None, cr_functions = None, cr_logit_bias = None, cr_logprobs = None,
     cr_max_completion_tokens = None, cr_max_tokens = None, cr_modalities = None,
     cr_metadata = None, cr_n = None, cr_presence_penalty = None, cr_parallel_tool_calls = None,
     cr_prediction = None, cr_response_format = None, cr_reasoning_effort = None,
     cr_seed = None, cr_service_tier = None, cr_stop = None, cr_store = None, cr_stream = None,
     cr_stream_options = None, cr_temperature = None, cr_tool_choice = None, cr_tools = None,
     cr_top_p = None, cr_top_logprobs = None, cr_user = None, cr_web_search_options = None,
     cr_top_k = None, cr_stop_token_ids = None, cr_continue_final_message = None,
     cr_add_generation_prompt = None\<rparr>"

subsection \<open>Anthropic Messages requests\<close>

datatype service_tier = ST_Auto | ST_StandardOnly

record thinking_config =
  th_thinking_type :: string
  th_budget_tokens :: "u32 option"

datatype mcp_server_type = MST_Url

record mcp_tool_configuration =
  mtc_allowed_tools :: "string list option"
  mtc_enabled :: "bool option"

record mcp_server =
  mcs_name :: string
  mcs_server_type :: mcp_server_type
  mcs_url :: string
  mcs_authorization_token :: "string option"
  mcs_tool_configuration :: "mcp_tool_configuration option"

datatype messages_message_content = MMC_Single string | MMC_Blocks "content_block list"

datatype messages_system_prompt = MSP_Single string | MSP_Blocks "content_block list"

record messages_message =
  mm_role :: messages_role
  mm_content :: messages_message_content

record messages_tool =
  mt_name :: string
  mt_description :: "string option"
  mt_input_schema :: json

datatype messages_tool_choice_type = MTC_Auto | MTC_Any | MTC_Tool | MTC_None

record messages_tool_choice =
  mtc_kind :: messages_tool_choice_type
  mtc_name :: "string option"
  mtc_disable_parallel_tool_use :: "bool option"

record messages_request =
  mq_model :: string
  mq_messages :: "messages_message list"
  mq_max_tokens :: u32
  mq_container :: "string option"
  mq_mcp_servers :: "mcp_server list option"
  mq_system :: "messages_system_prompt option"
  mq_metadata :: "(string \<times> json) list option"
  mq_service_tier :: "service_tier option"
  mq_thinking :: "thinking_config option"
  mq_temperature :: "f32 option"
  mq_top_p :: "f32 option"
  mq_top_k :: "u32 option"
  mq_stream :: "bool option"
  mq_stop_sequences :: "string list option"
  mq_tools :: "messages_tool list option"
  mq_tool_choice :: "messages_tool_choice option"

subsection \<open>Bedrock Converse requests\<close>

datatype guard_qualifier = GQ_Grounding | GQ_Relevance | GQ_Harmfulness | GQ_Helpfulness

record guard_content_text =
  gct_text :: string
  gct_qualifiers :: "guard_qualifier list option"

text \<open>The single variants of the image and the document source: media type and data.\<close>

datatype bedrock_image_source = BIS_Base64 string string
datatype bedrock_document_source = BDS_Base64 string string

datatype tool_result_status = TRS_Success | TRS_Error

datatype tool_result_block_content =
    TRB_Text string
  | TRB_Image bedrock_image_source
  | TRB_Json json

record tool_use_block =
  tub_tool_use_id :: string
  tub_name :: string
  tub_input :: json

record tool_result_block =
  trb_tool_use_id :: string
  trb_content :: "tool_result_block_content list"
  trb_status :: "tool_result_status option"

datatype bedrock_block =
    BB_Text string
  | BB_Image bedrock_image_source
  | BB_Document bedrock_document_source "string option"
  | BB_ToolUse tool_use_block
  | BB_ToolResult tool_result_block
  | BB_GuardContent "guard_content_text option"

record bedrock_message =
  bm_role :: conversation_role
  bm_content :: "bedrock_block list"

datatype system_block = SB_Text string | SB_GuardContent "guard_content_text option"

record inference_configuration =
  ic_max_tokens :: "u32 option"
  ic_temperature :: "f32 option"
  ic_top_p :: "f32 option"
  ic_stop_sequences :: "string list option"

text \<open>A \<open>ToolSpec\<close>, the only variant of \<open>Tool\<close>, with its input schema.\<close>

record tool_spec =
  ts_name :: string
  ts_description :: "string option"
  ts_input_schema :: json

datatype bedrock_tool_choice = BTC_Auto | BTC_Any | BTC_Tool string

record tool_configuration =
  tcf_tools :: "tool_spec list option"
  tcf_tool_choice :: "bedrock_tool_choice option"

datatype guardrail_trace = GT_Enabled | GT_Disabled

record guardrail_configuration =
  gc_guardrail_identifier :: string
  gc_guardrail_version :: string
  gc_trace :: "guardrail_trace option"

record converse_request =
  bq_model_id :: string
  bq_messages :: "bedrock_message list option"
  bq_system :: "system_block list option"
  bq_inference_config :: "inference_configuration option"
  bq_tool_config :: "tool_configuration option"
  bq_guardrail_config :: "guardrail_configuration option"
  bq_additional_model_request_fields :: "json option"
  bq_additional_model_response_field_paths :: "string list option"
  bq_performance_config :: "inference_configuration option"
  bq_prompt_variables :: "(string \<times> string) list option"
  bq_request_metadata :: "(string \<times> string) list option"
  bq_metadata :: "(string \<times> json) list option"
  bq_stream :: bool

subsection \<open>Responses requests\<close>

datatype message_role = MRo_User | MRo_Assistant | MRo_System | MRo_Developer | MRo_Tool

datatype input_content =
    IC_InputText string
  | IC_InputImage string "string option"
  | IC_InputFile string
  | IC_InputAudio "string option" "string option"

datatype input_message_content = IMC_Text string | IMC_Items "input_content list"

record input_message =
  im_role :: message_role
  im_content :: input_message_content

text \<open>
  The struct variants carry, in order: type and id; type, name, arguments and call id; type, call
  id and output.
\<close>

datatype input_item =
    II_Message input_message
  | II_ItemReference string string
  | II_FunctionCall string string string string
  | II_FunctionCallOutput string string json

datatype input_param =
    IP_Text string
  | IP_Items "input_item list"
  | IP_SingleItem input_item

datatype include_enum =
    WebSearchCallActionSources | CodeInterpreterCallOutputs | ComputerCallOutputImageUrl
  | FileSearchCallResults | MessageInputImageImageUrl | MessageOutputTextLogprobs
  | ReasoningEncryptedContent

text \<open>A named choice carries its type and the name of its function.\<close>

datatype responses_tool_choice = RTC_String string | RTC_Named string string

record audio_config =
  ac_voice :: string
  ac_format :: "string option"

record responses_request =
  rq_model :: string
  rq_input :: input_param
  rq_include :: "include_enum list option"
  rq_parallel_tool_calls :: "bool option"
  rq_store :: "bool option"
  rq_instructions :: "string option"
  rq_stream :: "bool option"
  rq_stream_options :: "stream_options option"
  rq_conversation :: "string option option"
  rq_tools :: "resp_tool list option"
  rq_tool_choice :: "responses_tool_choice option"
  rq_max_output_tokens :: "i32 option"
  rq_temperature :: "f32 option"
  rq_top_p :: "f32 option"
  rq_metadata :: "(string \<times> json) list option"
  rq_previous_response_id :: "string option"
  rq_modalities :: "modality list option"
  rq_audio :: "audio_config option"
  rq_text :: "text_format option option"
  rq_reasoning_effort :: "reasoning_effort option"
  rq_truncation :: "string option"
  rq_user :: "string option"
  rq_max_tool_calls :: "i32 option"
  rq_service_tier :: "string option"
  rq_background :: "bool option"
  rq_top_logprobs :: "i32 option"

subsection \<open>Text of a content\<close>

fun part_text :: "content_part \<Rightarrow> string option" where
  "part_text (CP_Text t) = Some t"
| "part_text (CP_ImageUrl _) = None"

definition extract_text_parts :: "content_part list \<Rightarrow> string" where
  "extract_text_parts ps = join NL (List.map_filter part_text ps)"

fun extract_text_content :: "message_content \<Rightarrow> string" where
  "extract_text_content (MC_Text t) = t"
| "extract_text_content (MC_Parts ps) = extract_text_parts ps"

definition extract_text :: "message_content option \<Rightarrow> string" where
  "extract_text c = (case c of Some c' \<Rightarrow> extract_text_content c' | None \<Rightarrow> [])"

fun block_text :: "content_block \<Rightarrow> string option" where
  "block_text (CB_Text t _) = Some t"
| "block_text _ = None"

definition extract_text_blocks :: "content_block list \<Rightarrow> string" where
  "extract_text_blocks bs = join NL (List.map_filter block_text bs)"

fun extract_text_tool_result :: "content_block tool_result_content \<Rightarrow> string" where
  "extract_text_tool_result (TRC_Text t) = t"
| "extract_text_tool_result (TRC_Blocks bs) = extract_text_blocks bs"

subsection \<open>Building messages\<close>

text \<open>A message with a role and text only, the struct literal the code writes in many places.\<close>

definition text_message :: "role \<Rightarrow> string \<Rightarrow> message" where
  "text_message r t = \<lparr>m_role = r, m_content = Some (MC_Text t), m_name = None,
     m_tool_calls = None, m_tool_call_id = None\<rparr>"

definition function_tool_call :: "string \<Rightarrow> string \<Rightarrow> string \<Rightarrow> tool_call" where
  "function_tool_call i n a =
     \<lparr>tc_id = i, tc_call_type = ''function'', tc_function = \<lparr>fc_name = n, fc_arguments = a\<rparr>\<rparr>"

lemma text_message_sel [simp]:
  "m_role (text_message r t) = r" "m_content (text_message r t) = Some (MC_Text t)"
  "m_name (text_message r t) = None" "m_tool_calls (text_message r t) = None"
  "m_tool_call_id (text_message r t) = None"
  by (simp_all add: text_message_def)

lemma function_tool_call_sel [simp]:
  "tc_id (function_tool_call i n a) = i" "tc_call_type (function_tool_call i n a) = ''function''"
  "fc_name (tc_function (function_tool_call i n a)) = n"
  "fc_arguments (tc_function (function_tool_call i n a)) = a"
  by (simp_all add: function_tool_call_def)

subsection \<open>The JSON library\<close>

text \<open>
  \<open>serde_json\<close> on values: \<open>to_string\<close>, which does not fail on a \<open>Value\<close>, and \<open>from_str\<close>, whose
  error is the text its \<open>Display\<close> prints. Parsing what was printed gives the value back; this is
  the only law the development assumes, as a hypothesis where it is needed.
\<close>

record json_codec =
  json_print :: "json \<Rightarrow> string"
  json_parse :: "string \<Rightarrow> string + json"

definition json_codec_ok :: "json_codec \<Rightarrow> bool" where
  "json_codec_ok c \<longleftrightarrow> (\<forall>j. json_parse c (json_print c j) = Inr j)"

lemma json_codec_okD: "json_codec_ok c \<Longrightarrow> json_parse c (json_print c j) = Inr j"
  by (simp add: json_codec_ok_def)

end
