(* ===== verification/Request_Messages.thy ===== *)
theory Request_Messages
  imports Request_Types Stream_Transforms
begin

section \<open>From Anthropic requests to Chat Completions and Bedrock\<close>

text \<open>
  \<open>transforms/lib.rs\<close> and \<open>transforms/request/from_anthropic.rs\<close> of \<open>crates/hermesllm/src\<close>, with the
  request fix-ups of \<open>apis/openai.rs\<close> they end with. The JSON library is the parameter \<open>c\<close>.
\<close>

subsection \<open>Images\<close>

fun convert_image_source_to_url :: "image_source \<Rightarrow> string" where
  "convert_image_source_to_url (IS_Base64 media_type d) =
     ''data:'' @ media_type @ '';base64,'' @ d"
| "convert_image_source_to_url (IS_Url url) = url"

definition convert_image_url_to_source :: "image_url \<Rightarrow> image_source" where
  "convert_image_url_to_source u =
     (if starts_with (iu_url u) ''data:''
      then (case split_once (CHR '','') (iu_url u) of
              Some (hdr, d) \<Rightarrow>
                IS_Base64
                  (case strip_prefix hdr ''data:'' of
                     Some s \<Rightarrow> hd (split_char (CHR '';'') s)
                   | None \<Rightarrow> ''image/jpeg'')
                  d
            | None \<Rightarrow> IS_Url (iu_url u))
      else IS_Url (iu_url u))"

subsection \<open>Splitting the blocks of a message\<close>

fun block_tool_call :: "json_codec \<Rightarrow> content_block \<Rightarrow> tool_call option" where
  "block_tool_call c (CB_ToolUse i n inp _) = Some (function_tool_call i n (json_print c inp))"
| "block_tool_call c (CB_ServerToolUse i n inp) = Some (function_tool_call i n (json_print c inp))"
| "block_tool_call c (CB_McpToolUse i n inp) = Some (function_tool_call i n (json_print c inp))"
| "block_tool_call c _ = None"

definition extract_tool_calls :: "json_codec \<Rightarrow> content_block list \<Rightarrow> tool_call list option" where
  "extract_tool_calls c bs =
     (let tool_calls = List.map_filter (block_tool_call c) bs
      in if tool_calls = [] then None else Some tool_calls)"

fun block_content_part :: "content_block \<Rightarrow> content_part option" where
  "block_content_part (CB_Text t _) = Some (CP_Text t)"
| "block_content_part (CB_Image s) =
     Some (CP_ImageUrl \<lparr>iu_url = convert_image_source_to_url s, iu_detail = Some ''auto''\<rparr>)"
| "block_content_part _ = None"

fun block_tool_result :: "content_block \<Rightarrow> (string \<times> string \<times> bool) option" where
  "block_tool_result (CB_ToolResult i err r _) =
     Some (i, extract_text_tool_result r, case_option False id err)"
| "block_tool_result (CB_WebSearchToolResult i err bs) =
     Some (i, extract_text_blocks bs, case_option False id err)"
| "block_tool_result (CB_CodeExecutionToolResult i err bs) =
     Some (i, extract_text_blocks bs, case_option False id err)"
| "block_tool_result (CB_McpToolResult i err bs) =
     Some (i, extract_text_blocks bs, case_option False id err)"
| "block_tool_result _ = None"

text \<open>
  The three vectors are filled by one pass that pushes each block into at most one of them; other
  blocks (thinking, documents, uploads) are skipped. Serialising a value does not fail, so the
  result is not an error.
\<close>

definition split_for_openai ::
    "json_codec \<Rightarrow> content_block list \<Rightarrow>
     content_part list \<times> tool_call list \<times> (string \<times> string \<times> bool) list" where
  "split_for_openai c bs =
     (List.map_filter block_content_part bs, List.map_filter (block_tool_call c) bs,
      List.map_filter block_tool_result bs)"

fun role_of_messages_role :: "messages_role \<Rightarrow> role" where
  "role_of_messages_role MR_User = R_User"
| "role_of_messages_role MR_Assistant = R_Assistant"
| "role_of_messages_role MR_System = R_System"

definition build_openai_content ::
    "content_part list \<Rightarrow> tool_call list \<Rightarrow> message_content option" where
  "build_openai_content content_parts tool_calls =
     (if content_parts = [] \<and> tool_calls \<noteq> [] then None
      else if length content_parts = 1 \<and> tool_calls = []
        then (case content_parts ! 0 of
                CP_Text t \<Rightarrow> Some (MC_Text t)
              | _ \<Rightarrow> Some (MC_Parts content_parts))
      else if content_parts = [] then Some (MC_Text [])
      else Some (MC_Parts content_parts))"

definition tool_result_message :: "string \<times> string \<times> bool \<Rightarrow> message" where
  "tool_result_message r =
     (case r of (tool_use_id, result_text, is_error) \<Rightarrow>
        \<lparr>m_role = R_Tool, m_content = Some (MC_Text result_text), m_name = None,
         m_tool_calls = None, m_tool_call_id = Some tool_use_id\<rparr>)"

definition messages_message_to_chat :: "json_codec \<Rightarrow> messages_message \<Rightarrow> message list" where
  "messages_message_to_chat c m =
     (case mm_content m of
        MMC_Single t \<Rightarrow> [text_message (role_of_messages_role (mm_role m)) t]
      | MMC_Blocks bs \<Rightarrow>
          (let (content_parts, tool_calls, tool_results) = split_for_openai c bs
           in map tool_result_message tool_results @
              (if content_parts \<noteq> [] \<or> tool_calls \<noteq> []
               then [\<lparr>m_role = role_of_messages_role (mm_role m),
                      m_content = build_openai_content content_parts tool_calls, m_name = None,
                      m_tool_calls = (if tool_calls = [] then None else Some tool_calls),
                      m_tool_call_id = None\<rparr>]
               else [])))"

subsection \<open>The request\<close>

definition system_prompt_to_message :: "messages_system_prompt \<Rightarrow> message" where
  "system_prompt_to_message p =
     text_message R_System
       (case p of MSP_Single t \<Rightarrow> t | MSP_Blocks bs \<Rightarrow> extract_text_blocks bs)"

definition convert_anthropic_tools :: "messages_tool list \<Rightarrow> tool list" where
  "convert_anthropic_tools ts =
     map (\<lambda>t. \<lparr>t_tool_type = ''function'',
               t_function = \<lparr>fn_name = mt_name t, fn_description = mt_description t,
                             fn_parameters = mt_input_schema t, fn_strict = None\<rparr>\<rparr>) ts"

definition convert_anthropic_tool_choice ::
    "messages_tool_choice option \<Rightarrow> tool_choice option \<times> bool option" where
  "convert_anthropic_tool_choice tc =
     (case tc of
        Some ch \<Rightarrow>
          (Some (case mtc_kind ch of
                   MTC_Auto \<Rightarrow> TC_Type TCT_Auto
                 | MTC_Any \<Rightarrow> TC_Type TCT_Required
                 | MTC_None \<Rightarrow> TC_Type TCT_None
                 | MTC_Tool \<Rightarrow>
                     (case mtc_name ch of
                        Some n \<Rightarrow> TC_Function ''function'' n
                      | None \<Rightarrow> TC_Type TCT_Auto)),
           map_option Not (mtc_disable_parallel_tool_use ch))
      | None \<Rightarrow> (None, None))"

text \<open>The float literal \<open>1.0\<close> as its bit pattern.\<close>

definition f32_one :: f32 where "f32_one = 0x3F800000"

definition suppress_max_tokens_if_o3 :: "chat_request \<Rightarrow> chat_request" where
  "suppress_max_tokens_if_o3 r =
     (let m = cr_model r
      in if m = ''o3'' \<or> starts_with m ''o3-'' \<or> m = ''openrouter/o3'' \<or>
            starts_with m ''openrouter/o3-''
         then r\<lparr>cr_max_tokens := None\<rparr> else r)"

definition fix_temperature_if_gpt5 :: "chat_request \<Rightarrow> chat_request" where
  "fix_temperature_if_gpt5 r =
     (if starts_with (cr_model r) ''gpt-5'' then r\<lparr>cr_temperature := Some f32_one\<rparr> else r)"

definition messages_to_chat_request :: "json_codec \<Rightarrow> messages_request \<Rightarrow> chat_request" where
  "messages_to_chat_request c r =
     (let system = (case mq_system r of Some s \<Rightarrow> [system_prompt_to_message s] | None \<Rightarrow> []);
          (tool_choice, parallel_tool_calls) = convert_anthropic_tool_choice (mq_tool_choice r)
      in fix_temperature_if_gpt5 (suppress_max_tokens_if_o3
           (chat_request_default
            \<lparr>cr_model := mq_model r,
             cr_messages := system @ concat (map (messages_message_to_chat c) (mq_messages r)),
             cr_temperature := mq_temperature r,
             cr_top_p := mq_top_p r,
             cr_max_completion_tokens := Some (mq_max_tokens r),
             cr_stream := mq_stream r,
             cr_stop := mq_stop_sequences r,
             cr_tools := map_option convert_anthropic_tools (mq_tools r),
             cr_tool_choice := tool_choice,
             cr_parallel_tool_calls := parallel_tool_calls\<rparr>)))"

subsection \<open>To Bedrock\<close>

fun tool_result_text :: "content_block \<Rightarrow> tool_result_block_content option" where
  "tool_result_text (CB_Text t _) = Some (TRB_Text t)"
| "tool_result_text _ = None"

definition bedrock_tool_result_content ::
    "content_block tool_result_content \<Rightarrow> tool_result_block_content list" where
  "bedrock_tool_result_content r =
     (let result =
        (case r of
           TRC_Text t \<Rightarrow> [TRB_Text t]
         | TRC_Blocks bs \<Rightarrow> List.map_filter tool_result_text bs)
      in if result = [] then [TRB_Text '' ''] else result)"

fun messages_block_to_bedrock :: "content_block \<Rightarrow> bedrock_block option" where
  "messages_block_to_bedrock (CB_Text t _) = (if t \<noteq> [] then Some (BB_Text t) else None)"
| "messages_block_to_bedrock (CB_ToolUse i n inp _) =
     Some (BB_ToolUse \<lparr>tub_tool_use_id = i, tub_name = n, tub_input = inp\<rparr>)"
| "messages_block_to_bedrock (CB_ToolResult i err r _) =
     Some (BB_ToolResult
       \<lparr>trb_tool_use_id = i, trb_content = bedrock_tool_result_content r,
        trb_status = (if case_option False id err then Some TRS_Error else Some TRS_Success)\<rparr>)"
| "messages_block_to_bedrock (CB_Image (IS_Base64 media_type d)) =
     Some (BB_Image (BIS_Base64 media_type d))"
| "messages_block_to_bedrock _ = None"

definition messages_message_to_bedrock ::
    "messages_message \<Rightarrow> transform_error + bedrock_message" where
  "messages_message_to_bedrock m =
     (let convert = (\<lambda>role.
            let blocks =
              (case mm_content m of
                 MMC_Single t \<Rightarrow> (if t \<noteq> [] then [BB_Text t] else [])
               | MMC_Blocks bs \<Rightarrow> List.map_filter messages_block_to_bedrock bs)
            in Inr \<lparr>bm_role = role, bm_content = (if blocks = [] then [BB_Text '' ''] else blocks)\<rparr>)
      in case mm_role m of
           MR_User \<Rightarrow> convert CR_User
         | MR_Assistant \<Rightarrow> convert CR_Assistant
         | MR_System \<Rightarrow> Inl (TE_UnsupportedConversion
             ''System messages must be set via the system prompt, not messages''))"

fun try_map :: "('a \<Rightarrow> 'e + 'b) \<Rightarrow> 'a list \<Rightarrow> 'e + 'b list" where
  "try_map f [] = Inr []"
| "try_map f (x # xs) =
     (case f x of
        Inl e \<Rightarrow> Inl e
      | Inr y \<Rightarrow> (case try_map f xs of Inl e \<Rightarrow> Inl e | Inr ys \<Rightarrow> Inr (y # ys)))"

definition messages_tool_choice_to_bedrock :: "messages_tool_choice \<Rightarrow> bedrock_tool_choice" where
  "messages_tool_choice_to_bedrock ch =
     (case mtc_kind ch of
        MTC_Auto \<Rightarrow> BTC_Auto
      | MTC_Any \<Rightarrow> BTC_Any
      | MTC_None \<Rightarrow> BTC_Auto
      | MTC_Tool \<Rightarrow> (case mtc_name ch of Some n \<Rightarrow> BTC_Tool n | None \<Rightarrow> BTC_Auto))"

definition messages_tool_config_to_bedrock :: "messages_request \<Rightarrow> tool_configuration option" where
  "messages_tool_config_to_bedrock r =
     (case mq_tools r of
        None \<Rightarrow> None
      | Some ts \<Rightarrow>
          (if ts = [] then None
           else Some \<lparr>tcf_tools = Some (map (\<lambda>t. \<lparr>ts_name = mt_name t,
                          ts_description = mt_description t, ts_input_schema = mt_input_schema t\<rparr>) ts),
                      tcf_tool_choice =
                        map_option messages_tool_choice_to_bedrock (mq_tool_choice r)\<rparr>))"

text \<open>The fields of a converse request that no translation fills.\<close>

definition converse_request_base :: "string \<Rightarrow> bool \<Rightarrow> converse_request" where
  "converse_request_base model stream =
     \<lparr>bq_model_id = model, bq_messages = None, bq_system = None, bq_inference_config = None,
      bq_tool_config = None, bq_guardrail_config = None,
      bq_additional_model_request_fields = None,
      bq_additional_model_response_field_paths = None, bq_performance_config = None,
      bq_prompt_variables = None, bq_request_metadata = None, bq_metadata = None,
      bq_stream = stream\<rparr>"

definition messages_to_converse_request ::
    "messages_request \<Rightarrow> transform_error + converse_request" where
  "messages_to_converse_request r =
     (case try_map messages_message_to_bedrock (mq_messages r) of
        Inl e \<Rightarrow> Inl e
      | Inr ms \<Rightarrow>
          Inr ((converse_request_base (mq_model r) (case_option False id (mq_stream r)))
            \<lparr>bq_messages := (if mq_messages r = [] then None else Some ms),
             bq_system := map_option
               (\<lambda>p. [SB_Text (case p of MSP_Single t \<Rightarrow> t | MSP_Blocks bs \<Rightarrow> extract_text_blocks bs)])
               (mq_system r),
             bq_inference_config := Some \<lparr>ic_max_tokens = Some (mq_max_tokens r),
               ic_temperature = mq_temperature r, ic_top_p = mq_top_p r,
               ic_stop_sequences = mq_stop_sequences r\<rparr>,
             bq_tool_config := messages_tool_config_to_bedrock r\<rparr>))"

end
