(* ===== verification/Request_OpenAI.thy ===== *)
theory Request_OpenAI
  imports Request_Messages "HOL-Library.AList"
begin

section \<open>From Chat Completions and Responses requests to the other APIs\<close>

text \<open>
  \<open>transforms/request/from_openai.rs\<close> of \<open>crates/hermesllm/src\<close>: Responses input to messages,
  Responses requests to Chat Completions, and Chat Completions requests to Anthropic and Bedrock.
  The map of a JSON object keeps the order of insertion, so \<open>insert\<close> is \<open>AList.update\<close>.
\<close>

subsection \<open>Responses input\<close>

fun role_of_message_role :: "message_role \<Rightarrow> role" where
  "role_of_message_role MRo_User = R_User"
| "role_of_message_role MRo_Assistant = R_Assistant"
| "role_of_message_role MRo_System = R_System"
| "role_of_message_role MRo_Developer = R_Developer"
| "role_of_message_role MRo_Tool = R_Tool"

fun input_content_part :: "input_content \<Rightarrow> content_part option" where
  "input_content_part (IC_InputText t) = Some (CP_Text t)"
| "input_content_part (IC_InputImage url _) = Some (CP_ImageUrl \<lparr>iu_url = url, iu_detail = None\<rparr>)"
| "input_content_part (IC_InputFile _) = None"
| "input_content_part (IC_InputAudio _ _) = None"

fun convert_input_content :: "input_message_content \<Rightarrow> message_content" where
  "convert_input_content (IMC_Text t) = MC_Text t"
| "convert_input_content (IMC_Items items) =
     (if length items = 1
      then (case items ! 0 of
              IC_InputText t \<Rightarrow> MC_Text t
            | _ \<Rightarrow> MC_Parts (List.map_filter input_content_part items))
      else MC_Parts (List.map_filter input_content_part items))"

definition attach_tool_call :: "message list \<Rightarrow> tool_call \<Rightarrow> message list" where
  "attach_tool_call ms tc =
     (if ms \<noteq> [] \<and> m_role (last ms) = R_Assistant
      then butlast ms @ [(last ms)\<lparr>m_tool_calls :=
             Some (case m_tool_calls (last ms) of Some existing \<Rightarrow> existing @ [tc] | None \<Rightarrow> [tc])\<rparr>]
      else ms @ [\<lparr>m_role = R_Assistant, m_content = None, m_name = None,
                  m_tool_calls = Some [tc], m_tool_call_id = None\<rparr>])"

fun convert_input_item :: "json_codec \<Rightarrow> message list \<Rightarrow> input_item \<Rightarrow> message list" where
  "convert_input_item c ms (II_Message im) =
     ms @ [\<lparr>m_role = role_of_message_role (im_role im),
            m_content = Some (convert_input_content (im_content im)), m_name = None,
            m_tool_calls = None, m_tool_call_id = None\<rparr>]"
| "convert_input_item c ms (II_FunctionCallOutput _ call_id output) =
     ms @ [\<lparr>m_role = R_Tool,
            m_content = Some (MC_Text (case output of JString s \<Rightarrow> s | _ \<Rightarrow> json_print c output)),
            m_name = None, m_tool_calls = None, m_tool_call_id = Some call_id\<rparr>]"
| "convert_input_item c ms (II_FunctionCall _ name arguments call_id) =
     attach_tool_call ms (function_tool_call call_id name arguments)"
| "convert_input_item c ms (II_ItemReference _ _) = ms"

definition instructions_messages :: "string option \<Rightarrow> message list" where
  "instructions_messages instructions =
     (case instructions of Some s \<Rightarrow> [text_message R_System s] | None \<Rightarrow> [])"

text \<open>The conversion never fails; a single item is converted as the list of that item.\<close>

fun convert_input :: "json_codec \<Rightarrow> input_param \<Rightarrow> string option \<Rightarrow> message list" where
  "convert_input c (IP_Text t) instructions =
     instructions_messages instructions @ [text_message R_User t]"
| "convert_input c (IP_SingleItem item) instructions =
     foldl (convert_input_item c) (instructions_messages instructions) [item]"
| "convert_input c (IP_Items items) instructions =
     foldl (convert_input_item c) (instructions_messages instructions) items"

subsection \<open>Responses tools\<close>

definition normalize_function_parameters :: "json option \<Rightarrow> json option \<Rightarrow> json" where
  "normalize_function_parameters parameters fallback_extra =
     (let base =
        (case parameters of
           Some (JObject obj) \<Rightarrow>
             (let obj = AList.update ''type'' (JString ''object'') obj
              in if map_of obj ''properties'' = None
                 then AList.update ''properties'' (JObject []) obj else obj)
         | _ \<Rightarrow> [(''type'', JString ''object''), (''properties'', JObject [])])
      in JObject (case fallback_extra of
                    Some extra \<Rightarrow> AList.update ''x-custom-format'' extra base
                  | None \<Rightarrow> base))"

definition opt_entry :: "string \<Rightarrow> string option \<Rightarrow> (string \<times> json) list" where
  "opt_entry k v = (case v of Some s \<Rightarrow> [(k, JString s)] | None \<Rightarrow> [])"

definition user_location_value :: "user_location \<Rightarrow> json" where
  "user_location_value loc =
     JObject [(''type'', JString (ul_location_type loc)),
              (''approximate'', JObject
                 (opt_entry ''city'' (ul_city loc) @ opt_entry ''country'' (ul_country loc) @
                  opt_entry ''region'' (ul_region loc) @ opt_entry ''timezone'' (ul_timezone loc)))]"

definition web_search_value :: "string option \<Rightarrow> user_location option \<Rightarrow> json" where
  "web_search_value sz loc =
     JObject (opt_entry ''search_context_size'' sz @
              (case loc of Some l \<Rightarrow> [(''user_location'', user_location_value l)] | None \<Rightarrow> []))"

definition custom_tool_schema :: json where
  "custom_tool_schema =
     JObject [(''type'', JString ''object''),
              (''properties'', JObject [(''input'', JObject [(''type'', JString ''string'')])]),
              (''required'', JArray [JString ''input'']),
              (''additionalProperties'', JBool True)]"

definition function_tool :: "string \<Rightarrow> string option \<Rightarrow> json \<Rightarrow> bool option \<Rightarrow> tool" where
  "function_tool n d p s =
     \<lparr>t_tool_type = ''function'',
      t_function = \<lparr>fn_name = n, fn_description = d, fn_parameters = p, fn_strict = s\<rparr>\<rparr>"

text \<open>The loop over the tools: \<open>idx\<close> is the position, \<open>ws\<close> the web-search options found so far.\<close>

fun convert_responses_tools ::
    "nat \<Rightarrow> json option \<Rightarrow> resp_tool list \<Rightarrow> transform_error + tool list \<times> json option" where
  "convert_responses_tools idx ws [] = Inr ([], ws)"
| "convert_responses_tools idx ws (t # ts) =
     (let continue = (\<lambda>new ws'.
            case convert_responses_tools (Suc idx) ws' ts of
              Inl e \<Rightarrow> Inl e
            | Inr (rest, ws'') \<Rightarrow> Inr (new @ rest, ws''))
      in case t of
           RT_Function name description parameters strict \<Rightarrow>
             continue [function_tool name description
                         (normalize_function_parameters parameters None) strict] ws
         | RT_WebSearchPreview _ sz loc \<Rightarrow>
             continue [] (if ws = None then Some (web_search_value sz loc) else ws)
         | RT_Custom name description fmt \<Rightarrow>
             continue [function_tool
                         (case name of Some n \<Rightarrow> n | None \<Rightarrow> ''custom_tool_'' @ digits (idx + 1))
                         description
                         (normalize_function_parameters (Some custom_tool_schema) fmt)
                         (Some False)] ws
         | RT_FileSearch _ _ _ _ \<Rightarrow> Inl (TE_UnsupportedConversion
             ''FileSearch tool is not supported in ChatCompletions API. Only function/custom/web search tools are supported in this conversion.'')
         | RT_CodeInterpreter \<Rightarrow> Inl (TE_UnsupportedConversion
             ''CodeInterpreter tool is not supported in ChatCompletions API conversion.'')
         | RT_Computer _ _ _ \<Rightarrow> Inl (TE_UnsupportedConversion
             ''Computer tool is not supported in ChatCompletions API conversion.''))"

subsection \<open>Responses requests to Chat Completions\<close>

fun modality_name :: "modality \<Rightarrow> string" where
  "modality_name MO_Text = ''text''"
| "modality_name MO_Audio = ''audio''"

fun effort_name :: "reasoning_effort \<Rightarrow> string" where
  "effort_name Low = ''low''"
| "effort_name Medium = ''medium''"
| "effort_name High = ''high''"

fun convert_responses_tool_choice :: "responses_tool_choice \<Rightarrow> tool_choice" where
  "convert_responses_tool_choice (RTC_String s) =
     (if s = ''auto'' then TC_Type TCT_Auto
      else if s = ''required'' then TC_Type TCT_Required
      else if s = ''none'' then TC_Type TCT_None
      else TC_Type TCT_Auto)"
| "convert_responses_tool_choice (RTC_Named _ n) = TC_Function ''function'' n"

text \<open>The casts of \<open>i32\<close> to \<open>u32\<close> keep the bits.\<close>

definition responses_to_chat_request ::
    "json_codec \<Rightarrow> responses_request \<Rightarrow> transform_error + chat_request" where
  "responses_to_chat_request c r =
     (case (case rq_tools r of
              Some ts \<Rightarrow> convert_responses_tools 0 None ts
            | None \<Rightarrow> Inr ([], None)) of
        Inl e \<Rightarrow> Inl e
      | Inr (tools, web_search) \<Rightarrow>
          Inr (chat_request_default
            \<lparr>cr_model := rq_model r,
             cr_messages := convert_input c (rq_input r) (rq_instructions r),
             cr_temperature := rq_temperature r,
             cr_top_p := rq_top_p r,
             cr_max_completion_tokens := rq_max_output_tokens r,
             cr_stream := rq_stream r,
             cr_metadata := rq_metadata r,
             cr_user := rq_user r,
             cr_store := rq_store r,
             cr_service_tier := rq_service_tier r,
             cr_top_logprobs := rq_top_logprobs r,
             cr_modalities := map_option (map modality_name) (rq_modalities r),
             cr_stream_options := rq_stream_options r,
             cr_reasoning_effort := map_option effort_name (rq_reasoning_effort r),
             cr_tools := (if tools = [] then None else Some tools),
             cr_tool_choice := map_option convert_responses_tool_choice (rq_tool_choice r),
             cr_parallel_tool_calls := rq_parallel_tool_calls r,
             cr_web_search_options := web_search\<rparr>))"

subsection \<open>Chat Completions to Anthropic\<close>

fun part_to_block :: "content_part \<Rightarrow> content_block" where
  "part_to_block (CP_Text t) = CB_Text t None"
| "part_to_block (CP_ImageUrl u) = CB_Image (convert_image_url_to_source u)"

definition content_blocks_of :: "message_content option \<Rightarrow> content_block list" where
  "content_blocks_of mc =
     (case mc of
        Some (MC_Text t) \<Rightarrow> (if t \<noteq> [] then [CB_Text t None] else [])
      | Some (MC_Parts ps) \<Rightarrow> map part_to_block ps
      | None \<Rightarrow> [])"

definition tool_call_to_block :: "json_codec \<Rightarrow> tool_call \<Rightarrow> transform_error + content_block" where
  "tool_call_to_block c tc =
     (case json_parse c (fc_arguments (tc_function tc)) of
        Inl e \<Rightarrow> Inl (TE_JsonError e)
      | Inr inp \<Rightarrow> Inr (CB_ToolUse (tc_id tc) (fc_name (tc_function tc)) inp None))"

definition convert_openai_message_to_anthropic_content ::
    "json_codec \<Rightarrow> message \<Rightarrow> transform_error + content_block list" where
  "convert_openai_message_to_anthropic_content c m =
     (case try_map (tool_call_to_block c) (case m_tool_calls m of Some tcs \<Rightarrow> tcs | None \<Rightarrow> []) of
        Inl e \<Rightarrow> Inl e
      | Inr calls \<Rightarrow> Inr (content_blocks_of (m_content m) @ calls))"

definition build_anthropic_content :: "content_block list \<Rightarrow> messages_message_content" where
  "build_anthropic_content bs =
     (if length bs = 1
      then (case bs ! 0 of CB_Text t _ \<Rightarrow> MMC_Single t | _ \<Rightarrow> MMC_Blocks bs)
      else if bs = [] then MMC_Single []
      else MMC_Blocks bs)"

definition tool_id_missing :: transform_error where
  "tool_id_missing = TE_MissingField ''tool_call_id required for Tool messages''"

definition message_to_messages ::
    "json_codec \<Rightarrow> message \<Rightarrow> transform_error + messages_message" where
  "message_to_messages c m =
     (let convert = (\<lambda>role.
            case convert_openai_message_to_anthropic_content c m of
              Inl e \<Rightarrow> Inl e
            | Inr bs \<Rightarrow> Inr \<lparr>mm_role = role, mm_content = build_anthropic_content bs\<rparr>)
      in case m_role m of
           R_User \<Rightarrow> convert MR_User
         | R_Assistant \<Rightarrow> convert MR_Assistant
         | R_Tool \<Rightarrow>
             (case m_tool_call_id m of
                None \<Rightarrow> Inl tool_id_missing
              | Some i \<Rightarrow>
                  Inr \<lparr>mm_role = MR_User,
                       mm_content = MMC_Blocks [CB_ToolResult i None
                         (TRC_Blocks [CB_Text (extract_text (m_content m)) None]) None]\<rparr>)
         | _ \<Rightarrow> Inl (TE_UnsupportedConversion ''System messages should be handled separately''))"

definition convert_openai_tools :: "tool list \<Rightarrow> messages_tool list" where
  "convert_openai_tools ts =
     map (\<lambda>t. \<lparr>mt_name = fn_name (t_function t), mt_description = fn_description (t_function t),
               mt_input_schema = fn_parameters (t_function t)\<rparr>) ts"

definition convert_openai_tool_choice ::
    "tool_choice option \<Rightarrow> bool option \<Rightarrow> messages_tool_choice option" where
  "convert_openai_tool_choice ch par =
     map_option (\<lambda>ch.
       case ch of
         TC_Type TCT_Auto \<Rightarrow> \<lparr>mtc_kind = MTC_Auto, mtc_name = None,
             mtc_disable_parallel_tool_use = map_option Not par\<rparr>
       | TC_Type TCT_Required \<Rightarrow> \<lparr>mtc_kind = MTC_Any, mtc_name = None,
             mtc_disable_parallel_tool_use = map_option Not par\<rparr>
       | TC_Type TCT_None \<Rightarrow> \<lparr>mtc_kind = MTC_None, mtc_name = None,
             mtc_disable_parallel_tool_use = None\<rparr>
       | TC_Function _ n \<Rightarrow> \<lparr>mtc_kind = MTC_Tool, mtc_name = Some n,
             mtc_disable_parallel_tool_use = map_option Not par\<rparr>) ch"

definition is_system_role :: "role \<Rightarrow> bool" where
  "is_system_role r \<longleftrightarrow> r = R_System \<or> r = R_Developer"

text \<open>The loop over the messages; \<open>sys\<close> is the system prompt seen last.\<close>

fun convert_chat_messages ::
    "json_codec \<Rightarrow> messages_system_prompt option \<Rightarrow> message list \<Rightarrow>
     transform_error + messages_system_prompt option \<times> messages_message list" where
  "convert_chat_messages c sys [] = Inr (sys, [])"
| "convert_chat_messages c sys (m # ms) =
     (if is_system_role (m_role m)
      then convert_chat_messages c (Some (MSP_Single (extract_text (m_content m)))) ms
      else (case message_to_messages c m of
              Inl e \<Rightarrow> Inl e
            | Inr a \<Rightarrow>
                (case convert_chat_messages c sys ms of
                   Inl e \<Rightarrow> Inl e
                 | Inr (sys', as) \<Rightarrow> Inr (sys', a # as))))"

definition DEFAULT_MAX_TOKENS :: u32 where "DEFAULT_MAX_TOKENS = 4096"

definition option_or :: "'a option \<Rightarrow> 'a option \<Rightarrow> 'a option" where
  "option_or a b = (case a of Some x \<Rightarrow> Some x | None \<Rightarrow> b)"

definition chat_to_messages_request ::
    "json_codec \<Rightarrow> chat_request \<Rightarrow> transform_error + messages_request" where
  "chat_to_messages_request c r =
     (case convert_chat_messages c None (cr_messages r) of
        Inl e \<Rightarrow> Inl e
      | Inr (system, messages) \<Rightarrow>
          Inr \<lparr>mq_model = cr_model r, mq_messages = messages,
               mq_max_tokens =
                 (case option_or (cr_max_completion_tokens r) (cr_max_tokens r) of
                    Some n \<Rightarrow> n | None \<Rightarrow> DEFAULT_MAX_TOKENS),
               mq_container = None, mq_mcp_servers = None, mq_system = system,
               mq_metadata = None, mq_service_tier = None, mq_thinking = None,
               mq_temperature = cr_temperature r, mq_top_p = cr_top_p r, mq_top_k = None,
               mq_stream = cr_stream r, mq_stop_sequences = cr_stop r,
               mq_tools = map_option convert_openai_tools (cr_tools r),
               mq_tool_choice =
                 convert_openai_tool_choice (cr_tool_choice r) (cr_parallel_tool_calls r)\<rparr>)"

subsection \<open>Chat Completions to Bedrock\<close>

definition parse_data_url :: "string \<Rightarrow> (string \<times> string) option" where
  "parse_data_url url =
     (if \<not> starts_with url ''data:'' then None
      else (case split_once (CHR '','') (drop 5 url) of
              None \<Rightarrow> None
            | Some (hdr, d) \<Rightarrow>
                (let header_parts = split_char (CHR '';'') hdr
                 in if header_parts = [] then None
                    else if length header_parts > 1 \<and> header_parts ! 1 = ''base64''
                         then Some (header_parts ! 0, d) else None)))"

text \<open>A part of a user message: \<open>None\<close> where the code pushes nothing.\<close>

fun part_to_bedrock :: "content_part \<Rightarrow> transform_error + bedrock_block option" where
  "part_to_bedrock (CP_Text t) = Inr (if t \<noteq> [] then Some (BB_Text t) else None)"
| "part_to_bedrock (CP_ImageUrl u) =
     (if starts_with (iu_url u) ''data:''
      then (case parse_data_url (iu_url u) of
              Some (media_type, d) \<Rightarrow> Inr (Some (BB_Image (BIS_Base64 media_type d)))
            | None \<Rightarrow> Inl (TE_UnsupportedConversion
                (''Invalid data URL format: '' @ iu_url u)))
      else Inl (TE_UnsupportedConversion
        ''Only base64 data URLs are supported for images in Bedrock''))"

definition user_blocks :: "message_content option \<Rightarrow> transform_error + bedrock_block list" where
  "user_blocks mc =
     (case (case mc of
              Some (MC_Text t) \<Rightarrow> Inr (if t \<noteq> [] then [BB_Text t] else [])
            | Some (MC_Parts ps) \<Rightarrow>
                (case try_map part_to_bedrock ps of
                   Inl e \<Rightarrow> Inl e
                 | Inr bs \<Rightarrow> Inr (List.map_filter id bs))
            | None \<Rightarrow> Inr []) of
        Inl e \<Rightarrow> Inl e
      | Inr bs \<Rightarrow> Inr (if bs = [] then [BB_Text '' ''] else bs))"

definition tool_call_to_bedrock :: "json_codec \<Rightarrow> tool_call \<Rightarrow> transform_error + bedrock_block" where
  "tool_call_to_bedrock c tc =
     (let a = fc_arguments (tc_function tc)
      in case json_parse c a of
           Inl e \<Rightarrow> Inl (TE_UnsupportedConversion
             (''Failed to parse tool arguments as JSON: '' @ e @ ''. Arguments: '' @ a))
         | Inr inp \<Rightarrow> Inr (BB_ToolUse \<lparr>tub_tool_use_id = tc_id tc,
             tub_name = fc_name (tc_function tc), tub_input = inp\<rparr>))"

definition assistant_blocks :: "json_codec \<Rightarrow> message \<Rightarrow> transform_error + bedrock_block list" where
  "assistant_blocks c m =
     (let text_content = extract_text (m_content m);
          calls = (case m_tool_calls m of Some tcs \<Rightarrow> tcs | None \<Rightarrow> []);
          texts = (if text_content \<noteq> [] then [BB_Text text_content]
                   else if calls = [] then [BB_Text '' ''] else [])
      in case try_map (tool_call_to_bedrock c) calls of
           Inl e \<Rightarrow> Inl e
         | Inr uses \<Rightarrow>
             (let bs = texts @ uses in Inr (if bs = [] then [BB_Text '' ''] else bs)))"

definition tool_blocks :: "message \<Rightarrow> transform_error + bedrock_block list" where
  "tool_blocks m =
     (case m_tool_call_id m of
        None \<Rightarrow> Inl tool_id_missing
      | Some i \<Rightarrow>
          (let t = extract_text (m_content m)
           in Inr [BB_ToolResult \<lparr>trb_tool_use_id = i,
                     trb_content = (if t = [] then [TRB_Text '' ''] else [TRB_Text t]),
                     trb_status = Some TRS_Success\<rparr>]))"

definition message_to_bedrock :: "json_codec \<Rightarrow> message \<Rightarrow> transform_error + bedrock_message" where
  "message_to_bedrock c m =
     (let with_role = (\<lambda>role blocks.
            case blocks of
              Inl e \<Rightarrow> Inl e
            | Inr bs \<Rightarrow> Inr \<lparr>bm_role = role, bm_content = bs\<rparr>)
      in case m_role m of
           R_User \<Rightarrow> with_role CR_User (user_blocks (m_content m))
         | R_Assistant \<Rightarrow> with_role CR_Assistant (assistant_blocks c m)
         | R_Tool \<Rightarrow> with_role CR_User (tool_blocks m)
         | _ \<Rightarrow> Inl (TE_UnsupportedConversion
             ''System messages should be handled separately in Bedrock''))"

fun convert_chat_messages_bedrock ::
    "json_codec \<Rightarrow> message list \<Rightarrow> transform_error + system_block list \<times> bedrock_message list" where
  "convert_chat_messages_bedrock c [] = Inr ([], [])"
| "convert_chat_messages_bedrock c (m # ms) =
     (if is_system_role (m_role m)
      then (case convert_chat_messages_bedrock c ms of
              Inl e \<Rightarrow> Inl e
            | Inr (ss, bs) \<Rightarrow> Inr (SB_Text (extract_text (m_content m)) # ss, bs))
      else (case message_to_bedrock c m of
              Inl e \<Rightarrow> Inl e
            | Inr b \<Rightarrow>
                (case convert_chat_messages_bedrock c ms of
                   Inl e \<Rightarrow> Inl e
                 | Inr (ss, bs) \<Rightarrow> Inr (ss, b # bs))))"

fun chat_tool_choice_to_bedrock :: "tool_choice \<Rightarrow> bedrock_tool_choice" where
  "chat_tool_choice_to_bedrock (TC_Type TCT_Auto) = BTC_Auto"
| "chat_tool_choice_to_bedrock (TC_Type TCT_Required) = BTC_Any"
| "chat_tool_choice_to_bedrock (TC_Type TCT_None) = BTC_Auto"
| "chat_tool_choice_to_bedrock (TC_Function _ n) = BTC_Tool n"

definition chat_tool_config_to_bedrock :: "chat_request \<Rightarrow> tool_configuration option" where
  "chat_tool_config_to_bedrock r =
     (if cr_tools r \<noteq> None \<or> cr_tool_choice r \<noteq> None
      then Some
        \<lparr>tcf_tools = map_option (map (\<lambda>t. \<lparr>ts_name = fn_name (t_function t),
             ts_description = fn_description (t_function t),
             ts_input_schema = fn_parameters (t_function t)\<rparr>)) (cr_tools r),
         tcf_tool_choice =
           option_or (map_option chat_tool_choice_to_bedrock (cr_tool_choice r))
             (if cr_tools r \<noteq> None then Some BTC_Auto else None)\<rparr>
      else None)"

definition chat_inference_config :: "chat_request \<Rightarrow> inference_configuration option" where
  "chat_inference_config r =
     (let max_tokens = option_or (cr_max_completion_tokens r) (cr_max_tokens r)
      in if max_tokens \<noteq> None \<or> cr_temperature r \<noteq> None \<or> cr_top_p r \<noteq> None \<or> cr_stop r \<noteq> None
         then Some \<lparr>ic_max_tokens = max_tokens, ic_temperature = cr_temperature r,
                    ic_top_p = cr_top_p r, ic_stop_sequences = cr_stop r\<rparr>
         else None)"

definition chat_to_converse_request ::
    "json_codec \<Rightarrow> chat_request \<Rightarrow> transform_error + converse_request" where
  "chat_to_converse_request c r =
     (case convert_chat_messages_bedrock c (cr_messages r) of
        Inl e \<Rightarrow> Inl e
      | Inr (system, messages) \<Rightarrow>
          Inr ((converse_request_base (cr_model r) (case_option False id (cr_stream r)))
            \<lparr>bq_messages := (if messages = [] then None else Some messages),
             bq_system := (if system = [] then None else Some system),
             bq_inference_config := chat_inference_config r,
             bq_tool_config := chat_tool_config_to_bedrock r\<rparr>))"

end
