(* ===== verification/Provider_Request.thy ===== *)
theory Provider_Request
  imports Request_OpenAI Endpoints
begin

section \<open>The requests behind one interface\<close>

text \<open>
  The trait \<open>ProviderRequest\<close> and the enum \<open>ProviderRequestType\<close> of
  \<open>crates/hermesllm/src/providers/request.rs\<close>, with the trait's implementations in \<open>apis/openai.rs\<close>,
  \<open>apis/anthropic.rs\<close>, \<open>apis/amazon_bedrock.rs\<close> and \<open>apis/openai_responses.rs\<close>. Serialisers and
  parsers of whole requests are parameters. Warnings are not modelled.
\<close>

subsection \<open>Metadata\<close>

text \<open>\<open>HashMap::remove\<close>: whether the key was there, and the map without it.\<close>

definition remove_key ::
    "string \<Rightarrow> (string \<times> json) list option \<Rightarrow> bool \<times> (string \<times> json) list option" where
  "remove_key k md =
     (case md of
        Some m \<Rightarrow> (map_of m k \<noteq> None, Some (AList.delete k m))
      | None \<Rightarrow> (False, None))"

subsection \<open>Chat Completions\<close>

fun part_token_text :: "content_part \<Rightarrow> string" where
  "part_token_text (CP_Text t) = t"
| "part_token_text (CP_ImageUrl _) = ''[Image]''"

definition chat_extract_messages_text :: "chat_request \<Rightarrow> string" where
  "chat_extract_messages_text r =
     foldl (\<lambda>acc m. acc @ '' '' @
       (case m_content m of
          Some (MC_Text t) \<Rightarrow> t
        | Some (MC_Parts ps) \<Rightarrow> join '' '' (map part_token_text ps)
        | None \<Rightarrow> [])) [] (cr_messages r)"

definition chat_get_recent_user_message :: "chat_request \<Rightarrow> string option" where
  "chat_get_recent_user_message r =
     (if cr_messages r = [] then None
      else (case m_content (last (cr_messages r)) of
              Some (MC_Text t) \<Rightarrow> Some t
            | _ \<Rightarrow> None))"

definition tool_list_names :: "tool list \<Rightarrow> string list" where
  "tool_list_names ts = map (\<lambda>t. fn_name (t_function t)) ts"

definition chat_get_tool_names :: "chat_request \<Rightarrow> string list option" where
  "chat_get_tool_names r =
     (let from = (\<lambda>ts. case ts of
                   Some ts' \<Rightarrow> (if tool_list_names ts' \<noteq> [] then Some (tool_list_names ts') else None)
                 | None \<Rightarrow> None)
      in option_or (from (cr_tools r)) (from (cr_functions r)))"

definition chat_set_messages :: "message list \<Rightarrow> chat_request \<Rightarrow> chat_request" where
  "chat_set_messages ms r = r\<lparr>cr_messages := ms\<rparr>"

definition is_kimi_code_model :: "string \<Rightarrow> bool" where
  "is_kimi_code_model m \<longleftrightarrow> m = ''kimi-for-coding''"

definition normalize_for_kimi_code_api :: "chat_request \<Rightarrow> chat_request" where
  "normalize_for_kimi_code_api r =
     r\<lparr>cr_stream_options := None, cr_reasoning_effort := None, cr_web_search_options := None,
       cr_service_tier := None, cr_store := None\<rparr>"

subsection \<open>Anthropic Messages\<close>

definition messages_extract_messages_text :: "messages_request \<Rightarrow> string" where
  "messages_extract_messages_text r =
     join '' ''
       ((case mq_system r of
           Some (MSP_Single s) \<Rightarrow> [s]
         | Some (MSP_Blocks bs) \<Rightarrow> List.map_filter block_text bs
         | None \<Rightarrow> []) @
        concat (map (\<lambda>m. case mm_content m of
           MMC_Single t \<Rightarrow> [t]
         | MMC_Blocks bs \<Rightarrow> List.map_filter block_text bs) (mq_messages r)))"

definition first_some :: "('a \<Rightarrow> 'b option) \<Rightarrow> 'a list \<Rightarrow> 'b option" where
  "first_some f xs = (case List.map_filter f xs of [] \<Rightarrow> None | y # _ \<Rightarrow> Some y)"

text \<open>The first text of the last user message that has one.\<close>

definition messages_get_recent_user_message :: "messages_request \<Rightarrow> string option" where
  "messages_get_recent_user_message r =
     first_some (\<lambda>m. if mm_role m = MR_User
                     then (case mm_content m of
                             MMC_Single t \<Rightarrow> Some t
                           | MMC_Blocks bs \<Rightarrow> first_some block_text bs)
                     else None) (rev (mq_messages r))"

definition messages_get_messages :: "json_codec \<Rightarrow> messages_request \<Rightarrow> message list" where
  "messages_get_messages c r =
     (case mq_system r of Some s \<Rightarrow> [system_prompt_to_message s] | None \<Rightarrow> []) @
     concat (map (messages_message_to_chat c) (mq_messages r))"

fun message_plain_text :: "message \<Rightarrow> string option" where
  "message_plain_text m = (case m_content m of Some (MC_Text t) \<Rightarrow> Some t | _ \<Rightarrow> None)"

definition ok_values :: "('a \<Rightarrow> 'e + 'b) \<Rightarrow> 'a list \<Rightarrow> 'b list" where
  "ok_values f xs = List.map_filter (\<lambda>x. case f x of Inl _ \<Rightarrow> None | Inr y \<Rightarrow> Some y) xs"

definition messages_set_messages ::
    "json_codec \<Rightarrow> message list \<Rightarrow> messages_request \<Rightarrow> messages_request" where
  "messages_set_messages c ms r =
     (let system_messages = filter (\<lambda>m. is_system_role (m_role m)) ms;
          regular_messages = filter (\<lambda>m. \<not> is_system_role (m_role m)) ms
      in r\<lparr>mq_system := (if system_messages \<noteq> []
             then Some (MSP_Single (join NL (List.map_filter message_plain_text system_messages)))
             else mq_system r),
           mq_messages := ok_values (message_to_messages c) regular_messages\<rparr>)"

subsection \<open>Bedrock Converse\<close>

fun bedrock_block_token_text :: "bedrock_block \<Rightarrow> string option" where
  "bedrock_block_token_text (BB_Text t) = Some t"
| "bedrock_block_token_text (BB_GuardContent (Some g)) = Some (gct_text g)"
| "bedrock_block_token_text _ = None"

fun system_block_token_text :: "system_block \<Rightarrow> string option" where
  "system_block_token_text (SB_Text t) = Some t"
| "system_block_token_text (SB_GuardContent (Some g)) = Some (gct_text g)"
| "system_block_token_text (SB_GuardContent None) = None"

definition opt_list :: "'a list option \<Rightarrow> 'a list" where
  "opt_list xs = (case xs of Some ys \<Rightarrow> ys | None \<Rightarrow> [])"

definition converse_extract_messages_text :: "converse_request \<Rightarrow> string" where
  "converse_extract_messages_text r =
     join '' ''
       (concat (map (\<lambda>m. List.map_filter bedrock_block_token_text (bm_content m))
                  (opt_list (bq_messages r))) @
        List.map_filter system_block_token_text (opt_list (bq_system r)))"

fun bedrock_block_text :: "bedrock_block \<Rightarrow> string option" where
  "bedrock_block_text (BB_Text t) = Some t"
| "bedrock_block_text _ = None"

definition converse_get_recent_user_message :: "converse_request \<Rightarrow> string option" where
  "converse_get_recent_user_message r =
     (case bq_messages r of
        None \<Rightarrow> None
      | Some ms \<Rightarrow>
          (case find (\<lambda>m. bm_role m = CR_User) (rev ms) of
             None \<Rightarrow> None
           | Some m \<Rightarrow> first_some bedrock_block_text (bm_content m)))"

definition converse_get_tool_names :: "converse_request \<Rightarrow> string list option" where
  "converse_get_tool_names r =
     (case bq_tool_config r of
        None \<Rightarrow> None
      | Some tc \<Rightarrow> map_option (map ts_name) (tcf_tools tc))"

definition converse_get_temperature :: "converse_request \<Rightarrow> f32 option" where
  "converse_get_temperature r =
     (case bq_inference_config r of None \<Rightarrow> None | Some ic \<Rightarrow> ic_temperature ic)"

fun system_block_text :: "system_block \<Rightarrow> string option" where
  "system_block_text (SB_Text t) = Some t"
| "system_block_text _ = None"

fun role_of_conversation_role :: "conversation_role \<Rightarrow> role" where
  "role_of_conversation_role CR_User = R_User"
| "role_of_conversation_role CR_Assistant = R_Assistant"

definition converse_get_messages :: "converse_request \<Rightarrow> message list" where
  "converse_get_messages r =
     map (text_message R_System) (List.map_filter system_block_text (opt_list (bq_system r))) @
     map (\<lambda>m. text_message (role_of_conversation_role (bm_role m))
                (join NL (List.map_filter bedrock_block_text (bm_content m))))
       (opt_list (bq_messages r))"

fun plain_system_block :: "message \<Rightarrow> system_block option" where
  "plain_system_block m =
     (if m_role m = R_System then map_option SB_Text (message_plain_text m) else None)"

fun plain_bedrock_message :: "message \<Rightarrow> bedrock_message option" where
  "plain_bedrock_message m =
     (let with_role = (\<lambda>r. Some \<lparr>bm_role = r,
            bm_content = (case message_plain_text m of Some t \<Rightarrow> [BB_Text t] | None \<Rightarrow> [])\<rparr>)
      in case m_role m of
           R_User \<Rightarrow> with_role CR_User
         | R_Assistant \<Rightarrow> with_role CR_Assistant
         | _ \<Rightarrow> None)"

definition converse_set_messages :: "message list \<Rightarrow> converse_request \<Rightarrow> converse_request" where
  "converse_set_messages ms r =
     (let system_blocks = List.map_filter plain_system_block ms
      in r\<lparr>bq_system := (if system_blocks \<noteq> [] then Some system_blocks else bq_system r),
           bq_messages := Some (List.map_filter plain_bedrock_message ms)\<rparr>)"

subsection \<open>Responses\<close>

fun append_input_content_text :: "string \<Rightarrow> input_content \<Rightarrow> string" where
  "append_input_content_text buffer (IC_InputText t) = buffer @ t"
| "append_input_content_text buffer (IC_InputImage _ _) = buffer @ ''[Image]''"
| "append_input_content_text buffer (IC_InputFile _) = buffer @ ''[File]''"
| "append_input_content_text buffer (IC_InputAudio _ _) = buffer @ ''[Audio]''"

definition append_content_items_text :: "string \<Rightarrow> input_content list \<Rightarrow> string" where
  "append_content_items_text buffer items =
     foldl (\<lambda>b i. append_input_content_text (b @ '' '') i) buffer items"

fun append_message_content_text :: "string \<Rightarrow> input_message_content \<Rightarrow> string" where
  "append_message_content_text buffer (IMC_Text t) = buffer @ t"
| "append_message_content_text buffer (IMC_Items items) = append_content_items_text buffer items"

fun responses_extract_input_text :: "input_param \<Rightarrow> string" where
  "responses_extract_input_text (IP_Text t) = t"
| "responses_extract_input_text (IP_SingleItem item) =
     (case item of
        II_Message m \<Rightarrow> append_message_content_text [] (im_content m)
      | _ \<Rightarrow> [])"
| "responses_extract_input_text (IP_Items items) =
     foldl (\<lambda>b item. case item of
              II_Message m \<Rightarrow> append_message_content_text (b @ '' '') (im_content m)
            | _ \<Rightarrow> b) [] items"

fun input_text :: "input_content \<Rightarrow> string option" where
  "input_text (IC_InputText t) = Some t"
| "input_text _ = None"

fun user_item_text :: "input_item \<Rightarrow> string option" where
  "user_item_text (II_Message m) =
     (if im_role m = MRo_User
      then (case im_content m of
              IMC_Text t \<Rightarrow> Some t
            | IMC_Items items \<Rightarrow> first_some input_text items)
      else None)"
| "user_item_text _ = None"

fun responses_recent_user_message :: "input_param \<Rightarrow> string option" where
  "responses_recent_user_message (IP_Text t) = Some t"
| "responses_recent_user_message (IP_SingleItem item) = user_item_text item"
| "responses_recent_user_message (IP_Items items) = first_some user_item_text (rev items)"

fun resp_tool_name :: "resp_tool \<Rightarrow> string option" where
  "resp_tool_name (RT_Function n _ _ _) = Some n"
| "resp_tool_name (RT_Custom n _ _) = n"
| "resp_tool_name _ = None"

definition responses_get_messages :: "json_codec \<Rightarrow> responses_request \<Rightarrow> message list" where
  "responses_get_messages c r = convert_input c (rq_input r) (rq_instructions r)"

definition speaker :: "role \<Rightarrow> string" where
  "speaker r = (case r of R_User \<Rightarrow> ''User'' | R_Assistant \<Rightarrow> ''Assistant'' | _ \<Rightarrow> ''Unknown'')"

definition responses_set_messages :: "message list \<Rightarrow> responses_request \<Rightarrow> responses_request" where
  "responses_set_messages ms r =
     (let system_text = join NL (List.map_filter message_plain_text
            (filter (\<lambda>m. m_role m = R_System) ms));
          r = (if system_text \<noteq> [] then r\<lparr>rq_instructions := Some system_text\<rparr> else r);
          input_messages = filter (\<lambda>m. m_role m \<noteq> R_System) ms
      in if input_messages = [] then r
         else if length input_messages = 1
           then (case message_plain_text (input_messages ! 0) of
                   Some t \<Rightarrow> r\<lparr>rq_input := IP_Text t\<rparr>
                 | None \<Rightarrow> r)
         else r\<lparr>rq_input := IP_Text (join NL (List.map_filter
                  (\<lambda>m. map_option (\<lambda>t. speaker (m_role m) @ '': '' @ t) (message_plain_text m))
                  input_messages))\<rparr>)"

subsection \<open>The request enum\<close>

datatype provider_request =
    PR_ChatCompletions chat_request
  | PR_Messages messages_request
  | PR_BedrockConverse converse_request
  | PR_BedrockConverseStream converse_request
  | PR_Responses responses_request

record request_codec =
  rc_json :: json_codec
  ser_chat_request :: "chat_request \<Rightarrow> string + string"
  ser_messages_request :: "messages_request \<Rightarrow> string + string"
  ser_converse_request :: "converse_request \<Rightarrow> string + string"
  ser_responses_request :: "responses_request \<Rightarrow> string + string"
  parse_chat_request :: "string \<Rightarrow> string + chat_request"
  parse_messages_request :: "string \<Rightarrow> string + messages_request"
  parse_responses_request :: "string \<Rightarrow> string + responses_request"

text \<open>The error's message and the error it was made from.\<close>

datatype request_error_source = ES_Transform transform_error | ES_Json string

record provider_request_error =
  pre_message :: string
  pre_source :: "request_error_source option"

definition provider_request_error_display :: "provider_request_error \<Rightarrow> string" where
  "provider_request_error_display e = ''Provider request error: '' @ pre_message e"

fun pr_model :: "provider_request \<Rightarrow> string" where
  "pr_model (PR_ChatCompletions r) = cr_model r"
| "pr_model (PR_Messages r) = mq_model r"
| "pr_model (PR_BedrockConverse r) = bq_model_id r"
| "pr_model (PR_BedrockConverseStream r) = bq_model_id r"
| "pr_model (PR_Responses r) = rq_model r"

fun pr_set_model :: "string \<Rightarrow> provider_request \<Rightarrow> provider_request" where
  "pr_set_model m (PR_ChatCompletions r) = PR_ChatCompletions (r\<lparr>cr_model := m\<rparr>)"
| "pr_set_model m (PR_Messages r) = PR_Messages (r\<lparr>mq_model := m\<rparr>)"
| "pr_set_model m (PR_BedrockConverse r) = PR_BedrockConverse (r\<lparr>bq_model_id := m\<rparr>)"
| "pr_set_model m (PR_BedrockConverseStream r) = PR_BedrockConverseStream (r\<lparr>bq_model_id := m\<rparr>)"
| "pr_set_model m (PR_Responses r) = PR_Responses (r\<lparr>rq_model := m\<rparr>)"

fun pr_is_streaming :: "provider_request \<Rightarrow> bool" where
  "pr_is_streaming (PR_ChatCompletions r) = case_option False id (cr_stream r)"
| "pr_is_streaming (PR_Messages r) = case_option False id (mq_stream r)"
| "pr_is_streaming (PR_BedrockConverse r) = False"
| "pr_is_streaming (PR_BedrockConverseStream r) = True"
| "pr_is_streaming (PR_Responses r) = case_option False id (rq_stream r)"

fun pr_extract_messages_text :: "provider_request \<Rightarrow> string" where
  "pr_extract_messages_text (PR_ChatCompletions r) = chat_extract_messages_text r"
| "pr_extract_messages_text (PR_Messages r) = messages_extract_messages_text r"
| "pr_extract_messages_text (PR_BedrockConverse r) = converse_extract_messages_text r"
| "pr_extract_messages_text (PR_BedrockConverseStream r) = converse_extract_messages_text r"
| "pr_extract_messages_text (PR_Responses r) = responses_extract_input_text (rq_input r)"

fun pr_get_recent_user_message :: "provider_request \<Rightarrow> string option" where
  "pr_get_recent_user_message (PR_ChatCompletions r) = chat_get_recent_user_message r"
| "pr_get_recent_user_message (PR_Messages r) = messages_get_recent_user_message r"
| "pr_get_recent_user_message (PR_BedrockConverse r) = converse_get_recent_user_message r"
| "pr_get_recent_user_message (PR_BedrockConverseStream r) = converse_get_recent_user_message r"
| "pr_get_recent_user_message (PR_Responses r) = responses_recent_user_message (rq_input r)"

fun pr_get_tool_names :: "provider_request \<Rightarrow> string list option" where
  "pr_get_tool_names (PR_ChatCompletions r) = chat_get_tool_names r"
| "pr_get_tool_names (PR_Messages r) = map_option (map mt_name) (mq_tools r)"
| "pr_get_tool_names (PR_BedrockConverse r) = converse_get_tool_names r"
| "pr_get_tool_names (PR_BedrockConverseStream r) = converse_get_tool_names r"
| "pr_get_tool_names (PR_Responses r) = map_option (List.map_filter resp_tool_name) (rq_tools r)"

definition serialize_with :: "string \<Rightarrow> string + string \<Rightarrow> provider_request_error + string" where
  "serialize_with what r =
     (case r of
        Inl e \<Rightarrow> Inl \<lparr>pre_message = ''Failed to serialize '' @ what @ '': '' @ e,
                      pre_source = Some (ES_Json e)\<rparr>
      | Inr s \<Rightarrow> Inr s)"

fun pr_to_bytes :: "request_codec \<Rightarrow> provider_request \<Rightarrow> provider_request_error + string" where
  "pr_to_bytes c (PR_ChatCompletions r) = serialize_with ''OpenAI request'' (ser_chat_request c r)"
| "pr_to_bytes c (PR_Messages r) = serialize_with ''MessagesRequest'' (ser_messages_request c r)"
| "pr_to_bytes c (PR_BedrockConverse r) =
     serialize_with ''Bedrock request'' (ser_converse_request c r)"
| "pr_to_bytes c (PR_BedrockConverseStream r) =
     serialize_with ''Bedrock request'' (ser_converse_request c r)"
| "pr_to_bytes c (PR_Responses r) =
     serialize_with ''Responses API request'' (ser_responses_request c r)"

fun pr_metadata :: "provider_request \<Rightarrow> (string \<times> json) list option" where
  "pr_metadata (PR_ChatCompletions r) = cr_metadata r"
| "pr_metadata (PR_Messages r) = mq_metadata r"
| "pr_metadata (PR_BedrockConverse r) = bq_metadata r"
| "pr_metadata (PR_BedrockConverseStream r) = bq_metadata r"
| "pr_metadata (PR_Responses r) = rq_metadata r"

fun pr_set_metadata :: "(string \<times> json) list option \<Rightarrow> provider_request \<Rightarrow> provider_request" where
  "pr_set_metadata md (PR_ChatCompletions r) = PR_ChatCompletions (r\<lparr>cr_metadata := md\<rparr>)"
| "pr_set_metadata md (PR_Messages r) = PR_Messages (r\<lparr>mq_metadata := md\<rparr>)"
| "pr_set_metadata md (PR_BedrockConverse r) = PR_BedrockConverse (r\<lparr>bq_metadata := md\<rparr>)"
| "pr_set_metadata md (PR_BedrockConverseStream r) =
     PR_BedrockConverseStream (r\<lparr>bq_metadata := md\<rparr>)"
| "pr_set_metadata md (PR_Responses r) = PR_Responses (r\<lparr>rq_metadata := md\<rparr>)"

definition pr_remove_metadata_key :: "string \<Rightarrow> provider_request \<Rightarrow> bool \<times> provider_request" where
  "pr_remove_metadata_key k r =
     (let (found, md) = remove_key k (pr_metadata r) in (found, pr_set_metadata md r))"

fun pr_get_temperature :: "provider_request \<Rightarrow> f32 option" where
  "pr_get_temperature (PR_ChatCompletions r) = cr_temperature r"
| "pr_get_temperature (PR_Messages r) = mq_temperature r"
| "pr_get_temperature (PR_BedrockConverse r) = converse_get_temperature r"
| "pr_get_temperature (PR_BedrockConverseStream r) = converse_get_temperature r"
| "pr_get_temperature (PR_Responses r) = rq_temperature r"

fun pr_get_messages :: "json_codec \<Rightarrow> provider_request \<Rightarrow> message list" where
  "pr_get_messages c (PR_ChatCompletions r) = cr_messages r"
| "pr_get_messages c (PR_Messages r) = messages_get_messages c r"
| "pr_get_messages c (PR_BedrockConverse r) = converse_get_messages r"
| "pr_get_messages c (PR_BedrockConverseStream r) = converse_get_messages r"
| "pr_get_messages c (PR_Responses r) = responses_get_messages c r"

fun pr_set_messages :: "json_codec \<Rightarrow> message list \<Rightarrow> provider_request \<Rightarrow> provider_request" where
  "pr_set_messages c ms (PR_ChatCompletions r) = PR_ChatCompletions (chat_set_messages ms r)"
| "pr_set_messages c ms (PR_Messages r) = PR_Messages (messages_set_messages c ms r)"
| "pr_set_messages c ms (PR_BedrockConverse r) = PR_BedrockConverse (converse_set_messages ms r)"
| "pr_set_messages c ms (PR_BedrockConverseStream r) =
     PR_BedrockConverseStream (converse_set_messages ms r)"
| "pr_set_messages c ms (PR_Responses r) = PR_Responses (responses_set_messages ms r)"

subsection \<open>Parsing the client's bytes\<close>

text \<open>The error is the text the \<open>io::Error\<close> displays.\<close>

definition parse_chat :: "request_codec \<Rightarrow> string \<Rightarrow> string + chat_request" where
  "parse_chat c bytes =
     (case parse_chat_request c bytes of
        Inl e \<Rightarrow> Inl (''JSON parsing error: '' @ e)
      | Inr r \<Rightarrow> Inr (fix_temperature_if_gpt5 (suppress_max_tokens_if_o3 r)))"

fun request_of_bytes :: "request_codec \<Rightarrow> string \<Rightarrow> client_api \<Rightarrow> string + provider_request" where
  "request_of_bytes c bytes (C_OpenAIChatCompletions _) =
     map_sum id PR_ChatCompletions (parse_chat c bytes)"
| "request_of_bytes c bytes (C_AnthropicMessagesAPI _) =
     map_sum id PR_Messages (parse_messages_request c bytes)"
| "request_of_bytes c bytes (C_OpenAIResponsesAPI _) =
     map_sum id PR_Responses (parse_responses_request c bytes)"

subsection \<open>Translation to the upstream API\<close>

definition failed_to_convert ::
    "string \<Rightarrow> string \<Rightarrow> transform_error + 'a \<Rightarrow> provider_request_error + 'a" where
  "failed_to_convert from target r =
     (case r of
        Inl e \<Rightarrow> Inl \<lparr>pre_message = ''Failed to convert '' @ from @ '' to '' @ target @ '': '' @
                        transform_error_display e,
                      pre_source = Some (ES_Transform e)\<rparr>
      | Inr x \<Rightarrow> Inr x)"

definition unsupported :: "string \<Rightarrow> provider_request_error" where
  "unsupported msg = \<lparr>pre_message = msg, pre_source = None\<rparr>"

definition chat_to_messages_pr :: "json_codec \<Rightarrow> chat_request \<Rightarrow> provider_request_error + provider_request" where
  "chat_to_messages_pr c r =
     map_sum id PR_Messages
       (failed_to_convert ''ChatCompletionsRequest'' ''MessagesRequest'' (chat_to_messages_request c r))"

definition chat_to_converse_pr :: "json_codec \<Rightarrow> chat_request \<Rightarrow> provider_request_error + provider_request" where
  "chat_to_converse_pr c r =
     map_sum id PR_BedrockConverse
       (failed_to_convert ''ChatCompletionsRequest'' ''Amazon Bedrock request''
          (chat_to_converse_request c r))"

definition chat_to_converse_stream_pr ::
    "json_codec \<Rightarrow> chat_request \<Rightarrow> provider_request_error + provider_request" where
  "chat_to_converse_stream_pr c r =
     map_sum id PR_BedrockConverseStream
       (failed_to_convert ''ChatCompletionsRequest'' ''Amazon Bedrock Stream request''
          (chat_to_converse_request c r))"

definition via_chat ::
    "json_codec \<Rightarrow> responses_request \<Rightarrow> (chat_request \<Rightarrow> provider_request_error + provider_request) \<Rightarrow>
     provider_request_error + provider_request" where
  "via_chat c r k =
     (case failed_to_convert ''ResponsesAPIRequest'' ''ChatCompletionsRequest''
             (responses_to_chat_request c r) of
        Inl e \<Rightarrow> Inl e
      | Inr chat \<Rightarrow> k chat)"

fun request_for_upstream ::
    "json_codec \<Rightarrow> provider_request \<Rightarrow> upstream_api \<Rightarrow> provider_request_error + provider_request" where
  "request_for_upstream c (PR_ChatCompletions r) (U_OpenAIChatCompletions _) = Inr (PR_ChatCompletions r)"
| "request_for_upstream c (PR_ChatCompletions r) (U_AnthropicMessagesAPI _) = chat_to_messages_pr c r"
| "request_for_upstream c (PR_ChatCompletions r) (U_AmazonBedrockConverse _) = chat_to_converse_pr c r"
| "request_for_upstream c (PR_ChatCompletions r) (U_AmazonBedrockConverseStream _) =
     chat_to_converse_stream_pr c r"
| "request_for_upstream c (PR_ChatCompletions _) (U_OpenAIResponsesAPI _) = Inl (unsupported
     ''Conversion from ChatCompletionsRequest to ResponsesAPIRequest is not supported. ResponsesAPI can only be used as a client API, not as an upstream API.'')"
| "request_for_upstream c (PR_Messages r) (U_AnthropicMessagesAPI _) = Inr (PR_Messages r)"
| "request_for_upstream c (PR_Messages r) (U_OpenAIChatCompletions _) =
     Inr (PR_ChatCompletions (messages_to_chat_request c r))"
| "request_for_upstream c (PR_Messages r) (U_AmazonBedrockConverse _) =
     map_sum id PR_BedrockConverse
       (failed_to_convert ''MessagesRequest'' ''Amazon Bedrock request''
          (messages_to_converse_request r))"
| "request_for_upstream c (PR_Messages r) (U_AmazonBedrockConverseStream _) =
     map_sum id PR_BedrockConverseStream
       (failed_to_convert ''MessagesRequest'' ''Amazon Bedrock Stream request''
          (messages_to_converse_request r))"
| "request_for_upstream c (PR_Messages _) (U_OpenAIResponsesAPI _) = Inl (unsupported
     ''Conversion from MessagesRequest to ResponsesAPIRequest is not supported. ResponsesAPI can only be used as a client API, not as an upstream API.'')"
| "request_for_upstream c (PR_Responses r) (U_OpenAIResponsesAPI _) = Inr (PR_Responses r)"
| "request_for_upstream c (PR_Responses r) (U_OpenAIChatCompletions _) =
     via_chat c r (\<lambda>chat. Inr (PR_ChatCompletions chat))"
| "request_for_upstream c (PR_Responses r) (U_AnthropicMessagesAPI _) =
     via_chat c r (chat_to_messages_pr c)"
| "request_for_upstream c (PR_Responses r) (U_AmazonBedrockConverse _) =
     via_chat c r (chat_to_converse_pr c)"
| "request_for_upstream c (PR_Responses r) (U_AmazonBedrockConverseStream _) =
     via_chat c r (chat_to_converse_stream_pr c)"
| "request_for_upstream c (PR_BedrockConverse _) _ = Inl (unsupported
     ''Amazon Bedrock Converse is not supported as a client API. Only OpenAI ChatCompletions, Anthropic Messages, and OpenAI Responses APIs are supported as client APIs.'')"
| "request_for_upstream c (PR_BedrockConverseStream _) _ = Inl (unsupported
     ''Amazon Bedrock Converse Stream is not supported as a client API. Only OpenAI ChatCompletions, Anthropic Messages, and OpenAI Responses APIs are supported as client APIs.'')"

subsection \<open>Normalisation for the provider\<close>

fun is_chat_upstream :: "upstream_api \<Rightarrow> bool" where
  "is_chat_upstream (U_OpenAIChatCompletions _) = True"
| "is_chat_upstream _ = False"

definition normalize_xai :: "provider_id \<Rightarrow> upstream_api \<Rightarrow> provider_request \<Rightarrow> provider_request" where
  "normalize_xai p u r =
     (if p = P_XAI \<and> is_chat_upstream u
      then (case r of
              PR_ChatCompletions q \<Rightarrow> PR_ChatCompletions (q\<lparr>cr_web_search_options := None\<rparr>)
            | _ \<Rightarrow> r)
      else r)"

definition explicit_stream :: "chat_request \<Rightarrow> chat_request" where
  "explicit_stream q = (if cr_stream q = None then q\<lparr>cr_stream := Some False\<rparr> else q)"

definition metered_stream :: "chat_request \<Rightarrow> chat_request" where
  "metered_stream q =
     (if cr_stream q = Some True \<and> cr_stream_options q = None
      then q\<lparr>cr_stream_options := Some \<lparr>so_include_usage = Some True\<rparr>\<rparr> else q)"

definition normalize_chat :: "chat_request \<Rightarrow> chat_request" where
  "normalize_chat q =
     (let q = metered_stream (explicit_stream q)
      in if is_kimi_code_model (cr_model q) then normalize_for_kimi_code_api q else q)"

definition normalize_chat_upstream :: "upstream_api \<Rightarrow> provider_request \<Rightarrow> provider_request" where
  "normalize_chat_upstream u r =
     (if is_chat_upstream u
      then (case r of
              PR_ChatCompletions q \<Rightarrow> PR_ChatCompletions (normalize_chat q)
            | PR_Messages q \<Rightarrow>
                (if is_kimi_code_model (mq_model q) \<and> mq_thinking q \<noteq> None
                 then PR_Messages (q\<lparr>mq_thinking := None\<rparr>) else r)
            | _ \<Rightarrow> r)
      else r)"

definition CHATGPT_BASE_INSTRUCTIONS :: string where
  "CHATGPT_BASE_INSTRUCTIONS = ''You are Codex, based on GPT-5. You are running as a coding agent in the Codex CLI on a user's computer.''"

definition chatgpt_instructions :: "string option \<Rightarrow> string" where
  "chatgpt_instructions i =
     (case i of
        Some existing \<Rightarrow>
          (if contains_str existing CHATGPT_BASE_INSTRUCTIONS then existing
           else CHATGPT_BASE_INSTRUCTIONS @ NL @ NL @ existing)
      | None \<Rightarrow> CHATGPT_BASE_INSTRUCTIONS)"

fun input_as_items :: "input_param \<Rightarrow> input_param" where
  "input_as_items (IP_Text t) =
     IP_Items [II_Message \<lparr>im_role = MRo_User, im_content = IMC_Text t\<rparr>]"
| "input_as_items (IP_SingleItem i) = IP_Items [i]"
| "input_as_items (IP_Items is) = IP_Items is"

definition chatgpt_no_streaming :: provider_request_error where
  "chatgpt_no_streaming = unsupported
     ''Non-streaming requests are not supported for the ChatGPT Codex provider. Set stream=true or omit the stream field.''"

definition normalize_chatgpt :: "responses_request \<Rightarrow> provider_request_error + responses_request" where
  "normalize_chatgpt q =
     (let q = q\<lparr>rq_instructions := Some (chatgpt_instructions (rq_instructions q)),
                rq_store := Some False\<rparr>
      in if rq_stream q = Some False then Inl chatgpt_no_streaming
         else Inr (q\<lparr>rq_stream := Some True, rq_input := input_as_items (rq_input q)\<rparr>))"

text \<open>
  The code updates the request in place; on an error the caller answers the client and drops the
  request, so only the error is returned.
\<close>

definition normalize_for_upstream ::
    "provider_id \<Rightarrow> upstream_api \<Rightarrow> provider_request \<Rightarrow> provider_request_error + provider_request" where
  "normalize_for_upstream p u r =
     (let r = normalize_chat_upstream u (normalize_xai p u r)
      in if p = P_ChatGPT
         then (case r of
                 PR_Responses q \<Rightarrow> map_sum id PR_Responses (normalize_chatgpt q)
               | _ \<Rightarrow> Inr r)
         else Inr r)"

end
