(* ===== verification/Json_Instance.thy ===== *)
theory Json_Instance
  imports Request_Types
begin

section \<open>An instance of the JSON codec\<close>

text \<open>
  A printer of JSON values and the parser that inverts it, to show that the law the theorems assume
  of the JSON library can hold. The text is not the one \<open>serde_json\<close> prints: every character of a
  string is escaped, and separators are left out.
\<close>

fun print_str :: "string \<Rightarrow> string" where
  "print_str [] = [CHR 0x22]"
| "print_str (c # s) = CHR 0x5C # c # print_str s"

fun print_json :: "json \<Rightarrow> string" where
  "print_json JNull = ''n''"
| "print_json (JBool b) = (if b then ''t'' else ''f'')"
| "print_json (JNumber s) = CHR ''#'' # print_str s"
| "print_json (JString s) = CHR ''$'' # print_str s"
| "print_json (JArray js) = CHR ''['' # concat (map print_json js) @ '']''"
| "print_json (JObject kvs) =
     CHR ''{'' # concat (map (\<lambda>(k, v). CHR '':'' # print_str k @ print_json v) kvs) @ ''}''"

fun parse_str :: "string \<Rightarrow> (string \<times> string) option" where
  "parse_str [] = None"
| "parse_str (q # s) =
     (if q = CHR 0x22 then Some ([], s)
      else if q = CHR 0x5C
        then (case s of
                [] \<Rightarrow> None
              | c # s' \<Rightarrow> map_option (\<lambda>(a, b). (c # a, b)) (parse_str s'))
        else None)"

text \<open>The fuel of the parser is the length of the text, of which every call uses up a character.\<close>

fun parse_value :: "nat \<Rightarrow> string \<Rightarrow> (json \<times> string) option"
and parse_elements :: "nat \<Rightarrow> string \<Rightarrow> (json list \<times> string) option"
and parse_members :: "nat \<Rightarrow> string \<Rightarrow> ((string \<times> json) list \<times> string) option" where
  "parse_value 0 s = None"
| "parse_value (Suc n) s =
     (case s of
        [] \<Rightarrow> None
      | c # s' \<Rightarrow>
          if c = CHR ''n'' then Some (JNull, s')
          else if c = CHR ''t'' then Some (JBool True, s')
          else if c = CHR ''f'' then Some (JBool False, s')
          else if c = CHR ''#'' then map_option (\<lambda>(a, b). (JNumber a, b)) (parse_str s')
          else if c = CHR ''$'' then map_option (\<lambda>(a, b). (JString a, b)) (parse_str s')
          else if c = CHR ''['' then map_option (\<lambda>(a, b). (JArray a, b)) (parse_elements n s')
          else if c = CHR ''{'' then map_option (\<lambda>(a, b). (JObject a, b)) (parse_members n s')
          else None)"
| "parse_elements 0 s = None"
| "parse_elements (Suc n) s =
     (if s \<noteq> [] \<and> hd s = CHR '']'' then Some ([], tl s)
      else (case parse_value n s of
              None \<Rightarrow> None
            | Some (v, s') \<Rightarrow> map_option (\<lambda>(a, b). (v # a, b)) (parse_elements n s')))"
| "parse_members 0 s = None"
| "parse_members (Suc n) s =
     (if s \<noteq> [] \<and> hd s = CHR ''}'' then Some ([], tl s)
      else (case parse_str (tl s) of
              None \<Rightarrow> None
            | Some (k, s') \<Rightarrow>
                (case parse_value n s' of
                   None \<Rightarrow> None
                 | Some (v, s'') \<Rightarrow> map_option (\<lambda>(a, b). ((k, v) # a, b)) (parse_members n s''))))"

definition parse_json :: "string \<Rightarrow> string + json" where
  "parse_json s =
     (case parse_value (length s) s of Some (j, []) \<Rightarrow> Inr j | _ \<Rightarrow> Inl ''syntax error'')"

definition escaped_json :: json_codec where
  "escaped_json = \<lparr>json_print = print_json, json_parse = parse_json\<rparr>"

lemma parse_print_str [simp]: "parse_str (print_str s @ r) = Some (s, r)"
  by (induction s) auto

lemma print_json_nonempty: "length (print_json j) \<ge> 1"
  by (cases j) auto

lemma print_json_hd: "print_json j @ r \<noteq> [] \<and> hd (print_json j @ r) \<noteq> CHR '']''"
  by (cases j) auto

lemma parse_print_value:
  "length (print_json j) \<le> n \<Longrightarrow> parse_value n (print_json j @ r) = Some (j, r)"
proof (induction j arbitrary: n r)
  case (JArray js)
  have elems: "length (concat (map print_json ks)) < m \<Longrightarrow>
      parse_elements m (concat (map print_json ks) @ CHR '']'' # r) = Some (ks, r)"
    if "set ks \<subseteq> set js" for ks m
    using that
  proof (induction ks arbitrary: m)
    case Nil
    then show ?case by (cases m) auto
  next
    case (Cons k ks)
    then obtain m' where m: "m = Suc m'" by (cases m) auto
    have "parse_value m' (print_json k @ x) = Some (k, x)" for x
      using Cons.prems m by (intro JArray.IH) auto
    moreover have "length (concat (map print_json ks)) < m'"
      using Cons.prems(1) m print_json_nonempty [of k] by simp
    ultimately show ?case
      using Cons.IH [of m'] Cons.prems(2) m print_json_hd [of k] by simp
  qed
  obtain n' where n: "n = Suc n'" using JArray.prems by (cases n) auto
  show ?case using elems [of js n'] JArray.prems n by simp
next
  case (JObject kvs)
  let ?p = "\<lambda>(k, v). CHR '':'' # print_str k @ print_json v"
  have mems: "length (concat (map ?p ks)) < m \<Longrightarrow>
      parse_members m (concat (map ?p ks) @ CHR ''}'' # r) = Some (ks, r)"
    if "set ks \<subseteq> set kvs" for ks m
    using that
  proof (induction ks arbitrary: m)
    case Nil
    then show ?case by (cases m) auto
  next
    case (Cons kv ks)
    then obtain m' where m: "m = Suc m'" by (cases m) auto
    obtain k v where kv: "kv = (k, v)" by fastforce
    have "parse_value m' (print_json v @ x) = Some (v, x)" for x
      using Cons.prems m kv by (intro JObject.IH [of kv]) auto
    moreover have "length (concat (map ?p ks)) < m'"
      using Cons.prems(1) m kv by simp
    ultimately show ?case
      using Cons.IH [of m'] Cons.prems(2) m kv by simp
  qed
  obtain n' where n: "n = Suc n'" using JObject.prems by (cases n) auto
  show ?case using mems [of kvs n'] JObject.prems n by simp
next
  case JNull
  then show ?case by (cases n) simp_all
next
  case (JBool b)
  then show ?case by (cases n; cases b) simp_all
next
  case (JNumber s)
  then show ?case by (cases n) simp_all
next
  case (JString s)
  then show ?case by (cases n) simp_all
qed

lemma escaped_json_ok [simp]: "json_codec_ok escaped_json"
  using parse_print_value [OF order_refl, where r = "[]"]
  by (simp add: json_codec_ok_def escaped_json_def parse_json_def)

end
