(* ===== verification/Request_Props.thy ===== *)
theory Request_Props
  imports Provider_Request Json_Instance
begin

section \<open>Properties of the request translations\<close>

text \<open>
  What survives the translation of a request: round trips through Chat Completions, tool calls and
  results, the shape Bedrock asks for; and what does not.
\<close>

subsection \<open>Generic facts\<close>

lemma try_map_Inr_iff:
  "try_map f xs = Inr ys \<longleftrightarrow> list_all2 (\<lambda>x y. f x = Inr y) xs ys"
proof (induction xs arbitrary: ys)
  case (Cons x xs)
  show ?case by (auto simp: list_all2_Cons1 simp flip: Cons.IH split: sum.splits)
qed auto

lemma try_map_Inr_map: "(\<And>x. x \<in> set xs \<Longrightarrow> f x = Inr (g x)) \<Longrightarrow> try_map f xs = Inr (map g xs)"
  by (induction xs) auto

lemma map_filter_all_None: "(\<And>x. x \<in> set xs \<Longrightarrow> f x = None) \<Longrightarrow> List.map_filter f xs = []"
  by (induction xs) (auto simp: map_filter_simps)

lemma map_filter_all_Some:
  "(\<And>x. x \<in> set xs \<Longrightarrow> f x = Some (g x)) \<Longrightarrow> List.map_filter f xs = map g xs"
  by (induction xs) (auto simp: map_filter_simps)


subsection \<open>Images\<close>

fun portable_image :: "image_source \<Rightarrow> bool" where
  "portable_image (IS_Url u) = (\<not> starts_with u ''data:'')"
| "portable_image (IS_Base64 m d) = (CHR '','' \<notin> set m \<and> CHR '';'' \<notin> set m)"

lemma split_once_prefix: "c \<notin> set a \<Longrightarrow> split_once c (a @ c # b) = Some (a, b)"
  by (simp add: split_once_Some)

lemma image_roundtrip:
  assumes "portable_image s"
  shows "convert_image_url_to_source \<lparr>iu_url = convert_image_source_to_url s, iu_detail = d\<rparr> = s"
proof (cases s)
  case (IS_Url u)
  then show ?thesis using assms by (simp add: convert_image_url_to_source_def)
next
  case (IS_Base64 m b)
  have "split_once (CHR '','') ((''data:'' @ m @ '';base64'') @ CHR '','' # b) =
      Some (''data:'' @ m @ '';base64'', b)"
    by (rule split_once_prefix) (use assms IS_Base64 in auto)
  moreover have "strip_prefix (''data:'' @ m @ '';base64'') ''data:'' = Some (m @ '';base64'')"
    by (simp add: strip_prefix_def starts_with_def)
  moreover have "hd (split_char (CHR '';'') (m @ CHR '';'' # ''base64'')) = m"
    using assms IS_Base64 by (simp add: split_char_append split_char_single)
  ultimately show ?thesis
    by (simp add: IS_Base64 convert_image_url_to_source_def starts_with_def)
qed

subsection \<open>Messages that survive\<close>

text \<open>
  A block that Chat Completions can carry: text without cache control, an image whose URL tells
  its source, a tool use without cache control.
\<close>

fun portable_content :: "content_block \<Rightarrow> bool" where
  "portable_content (CB_Text _ cache) = (cache = None)"
| "portable_content (CB_Image s) = portable_image s"
| "portable_content _ = False"

fun portable_tool_use :: "content_block \<Rightarrow> bool" where
  "portable_tool_use (CB_ToolUse _ _ _ cache) = (cache = None)"
| "portable_tool_use _ = False"

fun is_text_block :: "content_block \<Rightarrow> bool" where
  "is_text_block (CB_Text _ _) = True"
| "is_text_block _ = False"

fun portable_tool_result :: "content_block \<Rightarrow> bool" where
  "portable_tool_result (CB_ToolResult _ None (TRC_Blocks [CB_Text _ None]) None) = True"
| "portable_tool_result _ = False"

text \<open>
  Content before tool uses, not a single text (which is written as a plain string), or exactly one
  tool result of the user.
\<close>

definition portable_blocks :: "messages_role \<Rightarrow> content_block list \<Rightarrow> bool" where
  "portable_blocks r bs \<longleftrightarrow>
     (\<exists>cs us. bs = cs @ us \<and> list_all portable_content cs \<and> list_all portable_tool_use us \<and>
        bs \<noteq> [] \<and> \<not> (length bs = 1 \<and> is_text_block (hd bs))) \<or>
     r = MR_User \<and> (\<exists>b. bs = [b] \<and> portable_tool_result b)"

definition portable_message :: "messages_message \<Rightarrow> bool" where
  "portable_message m \<longleftrightarrow> mm_role m \<noteq> MR_System \<and>
     (case mm_content m of MMC_Single _ \<Rightarrow> True | MMC_Blocks bs \<Rightarrow> portable_blocks (mm_role m) bs)"

fun content_part_of :: "content_block \<Rightarrow> content_part" where
  "content_part_of (CB_Text t _) = CP_Text t"
| "content_part_of (CB_Image s) =
     CP_ImageUrl \<lparr>iu_url = convert_image_source_to_url s, iu_detail = Some ''auto''\<rparr>"
| "content_part_of _ = CP_Text []"

fun tool_call_of :: "json_codec \<Rightarrow> content_block \<Rightarrow> tool_call" where
  "tool_call_of c (CB_ToolUse i n inp _) = function_tool_call i n (json_print c inp)"
| "tool_call_of c _ = function_tool_call [] [] []"

lemma portable_content_facts:
  assumes "portable_content b"
  shows "block_content_part b = Some (content_part_of b)" "block_tool_call c b = None"
    "block_tool_result b = None" "part_to_block (content_part_of b) = b"
  using assms by (cases b; simp add: image_roundtrip)+

lemma portable_tool_use_facts:
  assumes "portable_tool_use b"
  shows "block_content_part b = None" "block_tool_call c b = Some (tool_call_of c b)"
    "block_tool_result b = None" "\<not> is_text_block b"
    "json_codec_ok c \<Longrightarrow> tool_call_to_block c (tool_call_of c b) = Inr b"
  using assms by (cases b; simp add: tool_call_to_block_def json_codec_okD)+

lemma split_portable:
  assumes "list_all portable_content cs" "list_all portable_tool_use us"
  shows "split_for_openai c (cs @ us) = (map content_part_of cs, map (tool_call_of c) us, [])"
proof -
  have "List.map_filter block_content_part cs = map content_part_of cs"
    "List.map_filter (block_tool_call c) us = map (tool_call_of c) us"
    using assms by (auto simp: list_all_iff portable_content_facts portable_tool_use_facts
        intro: map_filter_all_Some)
  moreover have "List.map_filter block_content_part us = []"
    "List.map_filter (block_tool_call c) cs = []" "List.map_filter block_tool_result cs = []"
    "List.map_filter block_tool_result us = []"
    using assms by (auto simp: list_all_iff portable_content_facts portable_tool_use_facts
        intro: map_filter_all_None)
  ultimately show ?thesis by (simp add: split_for_openai_def)
qed

lemma build_openai_then_blocks:
  assumes "list_all portable_content cs" "cs \<noteq> [] \<or> tcs \<noteq> []"
    "\<not> (length cs = 1 \<and> tcs = [] \<and> is_text_block (hd cs))"
  shows "content_blocks_of (build_openai_content (map content_part_of cs) tcs) = cs"
proof -
  have parts: "map part_to_block (map content_part_of cs) = cs"
    using assms(1) by (simp add: list_all_iff portable_content_facts map_idI)
  show ?thesis
  proof (cases "length cs = 1 \<and> tcs = []")
    case True
    then obtain b where b: "cs = [b]" by (cases cs) auto
    then obtain s where "b = CB_Image s"
      using assms True by (cases b) auto
    then show ?thesis using b parts True by (simp add: build_openai_content_def content_blocks_of_def)
  next
    case False
    then show ?thesis using parts assms(2)
      by (auto simp: build_openai_content_def content_blocks_of_def)
  qed
qed


lemma portable_blocks_roundtrip:
  assumes c: "json_codec_ok c" and cs: "list_all portable_content cs"
    and us: "list_all portable_tool_use us" and ne: "cs @ us \<noteq> []"
    and shape: "\<not> (length (cs @ us) = 1 \<and> is_text_block (hd (cs @ us)))" and r: "r \<noteq> MR_System"
  shows "\<exists>m. messages_message_to_chat c \<lparr>mm_role = r, mm_content = MMC_Blocks (cs @ us)\<rparr> = [m] \<and>
     \<not> is_system_role (m_role m) \<and>
     message_to_messages c m = Inr \<lparr>mm_role = r, mm_content = MMC_Blocks (cs @ us)\<rparr>"
proof -
  define tcs where "tcs = map (tool_call_of c) us"
  have tcs: "tcs = [] \<longleftrightarrow> us = []" by (simp add: tcs_def)
  let ?m = "\<lparr>m_role = role_of_messages_role r,
    m_content = build_openai_content (map content_part_of cs) tcs, m_name = None,
    m_tool_calls = (if tcs = [] then None else Some tcs), m_tool_call_id = None\<rparr>"
  have "content_blocks_of (m_content ?m) = cs"
    using build_openai_then_blocks [OF cs, of tcs] ne shape tcs by auto
  moreover have "try_map (tool_call_to_block c) tcs = Inr us"
    using us portable_tool_use_facts(5) [OF _ c]
    by (simp add: tcs_def try_map_Inr_iff list_all2_map1 list_all_iff list.rel_refl_strong)
  then have "try_map (tool_call_to_block c) (case m_tool_calls ?m of Some x \<Rightarrow> x | None \<Rightarrow> []) = Inr us"
    by (auto simp: tcs)
  ultimately have content: "convert_openai_message_to_anthropic_content c ?m = Inr (cs @ us)"
    by (simp add: convert_openai_message_to_anthropic_content_def)
  have build: "build_anthropic_content (cs @ us) = MMC_Blocks (cs @ us)"
    using ne shape by (cases "cs @ us") (auto simp: build_anthropic_content_def split: content_block.splits)
  have "message_to_messages c ?m = Inr \<lparr>mm_role = r, mm_content = MMC_Blocks (cs @ us)\<rparr>"
    using content build r by (cases r) (simp_all add: message_to_messages_def)
  moreover have "messages_message_to_chat c \<lparr>mm_role = r, mm_content = MMC_Blocks (cs @ us)\<rparr> = [?m]"
    using ne by (simp add: messages_message_to_chat_def split_portable [OF cs us] tcs_def)
  moreover have "\<not> is_system_role (m_role ?m)" using r by (cases r) (auto simp: is_system_role_def)
  ultimately show ?thesis by blast
qed

lemma portable_message_roundtrip:
  assumes c: "json_codec_ok c" and p: "portable_message mm"
  shows "\<exists>m. messages_message_to_chat c mm = [m] \<and> \<not> is_system_role (m_role m) \<and>
     message_to_messages c m = Inr mm"
proof (cases "mm_content mm")
  case (MMC_Single t)
  then show ?thesis using p
    by (cases mm; cases "mm_role mm")
       (auto simp: portable_message_def messages_message_to_chat_def is_system_role_def
         message_to_messages_def convert_openai_message_to_anthropic_content_def
         content_blocks_of_def build_anthropic_content_def)
next
  case (MMC_Blocks bs)
  then have mm: "mm = \<lparr>mm_role = mm_role mm, mm_content = MMC_Blocks bs\<rparr>" by simp
  have r: "mm_role mm \<noteq> MR_System" using p by (simp add: portable_message_def)
  from p MMC_Blocks have "portable_blocks (mm_role mm) bs" by (simp add: portable_message_def)
  then consider cs us where "bs = cs @ us" "list_all portable_content cs"
      "list_all portable_tool_use us" "cs @ us \<noteq> []"
      "\<not> (length (cs @ us) = 1 \<and> is_text_block (hd (cs @ us)))"
    | b where "bs = [b]" "portable_tool_result b" "mm_role mm = MR_User"
    unfolding portable_blocks_def by blast
  then show ?thesis
  proof cases
    case 1
    then show ?thesis using portable_blocks_roundtrip [OF c 1(2-5) r] mm by metis
  next
    case 2
    then obtain i t where "b = CB_ToolResult i None (TRC_Blocks [CB_Text t None]) None"
      by (cases b rule: portable_tool_result.cases) auto
    then show ?thesis using mm 2
      by (subst (1 2) mm)
         (auto simp: messages_message_to_chat_def split_for_openai_def map_filter_simps
           tool_result_message_def is_system_role_def message_to_messages_def
           extract_text_def extract_text_blocks_def)
  qed
qed

lemma convert_portable_messages:
  assumes c: "json_codec_ok c" and "list_all portable_message mms"
  shows "convert_chat_messages c sys (concat (map (messages_message_to_chat c) mms)) = Inr (sys, mms)"
  using assms(2)
proof (induction mms)
  case (Cons mm mms)
  obtain m where "messages_message_to_chat c mm = [m]" "\<not> is_system_role (m_role m)"
    "message_to_messages c m = Inr mm"
    using portable_message_roundtrip [OF c] Cons.prems by auto
  then show ?case using Cons by simp
qed simp

subsection \<open>The whole request\<close>

definition portable_tool_choice :: "messages_tool_choice \<Rightarrow> bool" where
  "portable_tool_choice tc \<longleftrightarrow>
     (mtc_kind tc = MTC_Tool \<longleftrightarrow> mtc_name tc \<noteq> None) \<and>
     (mtc_kind tc = MTC_None \<longrightarrow> mtc_disable_parallel_tool_use tc = None)"

text \<open>The fields Chat Completions has no place for are empty; the temperature is not overridden.\<close>

definition portable_request :: "messages_request \<Rightarrow> bool" where
  "portable_request r \<longleftrightarrow>
     list_all portable_message (mq_messages r) \<and>
     (case mq_system r of Some (MSP_Blocks _) \<Rightarrow> False | _ \<Rightarrow> True) \<and>
     (case mq_tool_choice r of Some tc \<Rightarrow> portable_tool_choice tc | None \<Rightarrow> True) \<and>
     (starts_with (mq_model r) ''gpt-5'' \<longrightarrow> mq_temperature r = Some f32_one) \<and>
     mq_container r = None \<and> mq_mcp_servers r = None \<and> mq_metadata r = None \<and>
     mq_service_tier r = None \<and> mq_thinking r = None \<and> mq_top_k r = None"

lemma tools_roundtrip: "convert_openai_tools (convert_anthropic_tools ts) = ts"
  by (induction ts) (simp_all add: convert_openai_tools_def convert_anthropic_tools_def)

lemma tool_choice_roundtrip:
  assumes "case tc of Some t \<Rightarrow> portable_tool_choice t | None \<Rightarrow> True"
    and "convert_anthropic_tool_choice tc = (ch, par)"
  shows "convert_openai_tool_choice ch par = tc"
proof (cases tc)
  case None
  then show ?thesis using assms(2)
    by (auto simp: convert_anthropic_tool_choice_def convert_openai_tool_choice_def)
next
  case (Some t)
  have neg: "map_option Not (map_option Not d) = d" for d by (cases d) auto
  show ?thesis using assms Some
    by (cases t; cases "mtc_kind t"; cases "mtc_name t")
       (auto simp: convert_anthropic_tool_choice_def convert_openai_tool_choice_def
         portable_tool_choice_def neg)
qed

lemma suppress_sel [simp]:
  "cr_messages (suppress_max_tokens_if_o3 r) = cr_messages r"
  "cr_model (suppress_max_tokens_if_o3 r) = cr_model r"
  "cr_max_completion_tokens (suppress_max_tokens_if_o3 r) = cr_max_completion_tokens r"
  "cr_temperature (suppress_max_tokens_if_o3 r) = cr_temperature r"
  "cr_top_p (suppress_max_tokens_if_o3 r) = cr_top_p r"
  "cr_stream (suppress_max_tokens_if_o3 r) = cr_stream r"
  "cr_stop (suppress_max_tokens_if_o3 r) = cr_stop r"
  "cr_tools (suppress_max_tokens_if_o3 r) = cr_tools r"
  "cr_tool_choice (suppress_max_tokens_if_o3 r) = cr_tool_choice r"
  "cr_parallel_tool_calls (suppress_max_tokens_if_o3 r) = cr_parallel_tool_calls r"
  by (simp_all add: suppress_max_tokens_if_o3_def Let_def)

lemma fix_temperature_sel [simp]:
  "cr_messages (fix_temperature_if_gpt5 r) = cr_messages r"
  "cr_model (fix_temperature_if_gpt5 r) = cr_model r"
  "cr_max_completion_tokens (fix_temperature_if_gpt5 r) = cr_max_completion_tokens r"
  "cr_temperature (fix_temperature_if_gpt5 r) =
     (if starts_with (cr_model r) ''gpt-5'' then Some f32_one else cr_temperature r)"
  "cr_top_p (fix_temperature_if_gpt5 r) = cr_top_p r"
  "cr_stream (fix_temperature_if_gpt5 r) = cr_stream r"
  "cr_stop (fix_temperature_if_gpt5 r) = cr_stop r"
  "cr_tools (fix_temperature_if_gpt5 r) = cr_tools r"
  "cr_tool_choice (fix_temperature_if_gpt5 r) = cr_tool_choice r"
  "cr_parallel_tool_calls (fix_temperature_if_gpt5 r) = cr_parallel_tool_calls r"
  by (simp_all add: fix_temperature_if_gpt5_def)

lemma messages_to_chat_request_sel:
  "cr_messages (messages_to_chat_request c r) =
     (case mq_system r of Some s \<Rightarrow> [system_prompt_to_message s] | None \<Rightarrow> []) @
     concat (map (messages_message_to_chat c) (mq_messages r))"
  "cr_model (messages_to_chat_request c r) = mq_model r"
  "cr_max_completion_tokens (messages_to_chat_request c r) = Some (mq_max_tokens r)"
  "cr_temperature (messages_to_chat_request c r) =
     (if starts_with (mq_model r) ''gpt-5'' then Some f32_one else mq_temperature r)"
  "cr_top_p (messages_to_chat_request c r) = mq_top_p r"
  "cr_stream (messages_to_chat_request c r) = mq_stream r"
  "cr_stop (messages_to_chat_request c r) = mq_stop_sequences r"
  "cr_tools (messages_to_chat_request c r) = map_option convert_anthropic_tools (mq_tools r)"
  "cr_tool_choice (messages_to_chat_request c r) = fst (convert_anthropic_tool_choice (mq_tool_choice r))"
  "cr_parallel_tool_calls (messages_to_chat_request c r) =
     snd (convert_anthropic_tool_choice (mq_tool_choice r))"
  by (simp_all add: messages_to_chat_request_def split: prod.splits)


definition sample_messages_request :: messages_request where
  "sample_messages_request =
     \<lparr>mq_model = ''claude-sonnet'',
      mq_messages =
        [\<lparr>mm_role = MR_User, mm_content = MMC_Blocks
            [CB_Text ''What is this?'' None, CB_Image (IS_Base64 ''image/png'' ''QUJD'')]\<rparr>,
         \<lparr>mm_role = MR_Assistant, mm_content = MMC_Blocks
            [CB_ToolUse ''call_1'' ''look'' (JObject [(''depth'', JNumber ''2'')]) None]\<rparr>,
         \<lparr>mm_role = MR_User, mm_content = MMC_Blocks
            [CB_ToolResult ''call_1'' None (TRC_Blocks [CB_Text ''a cat'' None]) None]\<rparr>,
         \<lparr>mm_role = MR_Assistant, mm_content = MMC_Single ''A cat.''\<rparr>],
      mq_max_tokens = 256, mq_container = None, mq_mcp_servers = None,
      mq_system = Some (MSP_Single ''Be brief.''), mq_metadata = None, mq_service_tier = None,
      mq_thinking = None, mq_temperature = Some f32_one, mq_top_p = None, mq_top_k = None,
      mq_stream = Some True, mq_stop_sequences = Some [''END''],
      mq_tools = Some [\<lparr>mt_name = ''look'', mt_description = None, mt_input_schema = JObject []\<rparr>],
      mq_tool_choice = Some \<lparr>mtc_kind = MTC_Tool, mtc_name = Some ''look'',
        mtc_disable_parallel_tool_use = Some True\<rparr>\<rparr>"

lemma sample_portable: "portable_request sample_messages_request"
proof -
  have "portable_blocks MR_User
      [CB_Text ''What is this?'' None, CB_Image (IS_Base64 ''image/png'' ''QUJD'')]"
    by (simp add: portable_blocks_def)
       (rule exI [where x = "[CB_Text ''What is this?'' None, CB_Image (IS_Base64 ''image/png'' ''QUJD'')]"],
        simp)
  moreover have "portable_blocks MR_Assistant
      [CB_ToolUse ''call_1'' ''look'' (JObject [(''depth'', JNumber ''2'')]) None]"
    by (simp add: portable_blocks_def) (rule exI [where x = "[]"], simp)
  ultimately show ?thesis
    by (simp add: portable_request_def sample_messages_request_def portable_message_def
        portable_blocks_def portable_tool_choice_def)
qed


subsection \<open>The content Bedrock asks for\<close>

text \<open>
  No text block is empty and every tool result has content; under the flag \<open>strict\<close>, no text inside a
  tool result is empty either.
\<close>

fun block_not_empty :: "bool \<Rightarrow> bedrock_block \<Rightarrow> bool" where
  "block_not_empty strict (BB_Text t) = (t \<noteq> [])"
| "block_not_empty strict (BB_ToolResult r) =
     (trb_content r \<noteq> [] \<and> (strict \<longrightarrow> TRB_Text [] \<notin> set (trb_content r)))"
| "block_not_empty strict _ = True"

definition bedrock_message_ok :: "bool \<Rightarrow> bedrock_message \<Rightarrow> bool" where
  "bedrock_message_ok strict m \<longleftrightarrow> bm_content m \<noteq> [] \<and> list_all (block_not_empty strict) (bm_content m)"

text \<open>An Anthropic client's tool result that has an empty text.\<close>

fun empty_result :: "content_block \<Rightarrow> bool" where
  "empty_result (CB_ToolResult i err (TRC_Text t) cc) = (t = [])"
| "empty_result (CB_ToolResult i err (TRC_Blocks bs) cc) = list_ex (\<lambda>b. tool_result_text b = Some (TRB_Text [])) bs"
| "empty_result _ = False"

definition sends_empty_result :: "messages_request \<Rightarrow> bool" where
  "sends_empty_result r = list_ex (\<lambda>m.
     case mm_content m of MMC_Single t \<Rightarrow> False | MMC_Blocks bs \<Rightarrow> list_ex empty_result bs) (mq_messages r)"

fun converse_of :: "provider_request \<Rightarrow> converse_request option" where
  "converse_of (PR_BedrockConverse q) = Some q"
| "converse_of (PR_BedrockConverseStream q) = Some q"
| "converse_of _ = None"

lemma list_all_map_filter:
  "(\<And>x y. x \<in> set xs \<Longrightarrow> f x = Some y \<Longrightarrow> P y) \<Longrightarrow> list_all P (List.map_filter f xs)"
  by (induction xs) (auto simp: map_filter_simps split: option.splits)

lemma try_map_list_all:
  "try_map f xs = Inr ys \<Longrightarrow> (\<And>x y. x \<in> set xs \<Longrightarrow> f x = Inr y \<Longrightarrow> P y) \<Longrightarrow> list_all P ys"
  by (induction xs arbitrary: ys) (fastforce split: sum.splits)+

lemma messages_block_ok:
  assumes "messages_block_to_bedrock b = Some y" and "strict \<longrightarrow> \<not> empty_result b"
  shows "block_not_empty strict y"
  using assms
  by (cases b rule: messages_block_to_bedrock.cases; cases b rule: empty_result.cases)
     (auto simp: bedrock_tool_result_content_def Let_def list_ex_iff set_map_filter split: if_splits)

lemma messages_message_ok:
  assumes "messages_message_to_bedrock m = Inr b"
    and "strict \<longrightarrow> (\<forall>bs. mm_content m = MMC_Blocks bs \<longrightarrow> \<not> list_ex empty_result bs)"
  shows "bedrock_message_ok strict b"
proof -
  let ?bs = "case mm_content m of MMC_Single t \<Rightarrow> if t \<noteq> [] then [BB_Text t] else []
      | MMC_Blocks bs \<Rightarrow> List.map_filter messages_block_to_bedrock bs"
  have "bm_content b = (if ?bs = [] then [BB_Text '' ''] else ?bs)"
    using assms(1) by (cases "mm_role m") (auto simp: messages_message_to_bedrock_def Let_def)
  moreover have "list_all (block_not_empty strict) ?bs"
    using assms(2)
    by (auto split: messages_message_content.splits simp: list_ex_iff
        intro!: list_all_map_filter intro: messages_block_ok)
  ultimately show ?thesis by (auto simp: bedrock_message_ok_def)
qed

lemma part_ok: "part_to_bedrock p = Inr (Some y) \<Longrightarrow> block_not_empty strict y"
  by (cases p) (auto split: if_splits option.splits)

lemma user_blocks_ok:
  assumes "user_blocks mc = Inr bs"
  shows "bs \<noteq> [] \<and> list_all (block_not_empty strict) bs"
proof (cases mc)
  case (Some content)
  then show ?thesis
  proof (cases content)
    case (MC_Parts ps)
    then obtain os where os: "try_map part_to_bedrock ps = Inr os"
      "bs = (if List.map_filter id os = [] then [BB_Text '' ''] else List.map_filter id os)"
      using assms Some by (auto simp: user_blocks_def split: sum.splits)
    have "list_all (\<lambda>x. \<forall>y. x = Some y \<longrightarrow> block_not_empty strict y) os"
      by (rule try_map_list_all [OF os(1)]) (auto dest: part_ok)
    then have "list_all (block_not_empty strict) (List.map_filter id os)"
      by (intro list_all_map_filter) (auto simp: list_all_iff)
    then show ?thesis using os(2) by auto
  qed (use assms Some in \<open>auto simp: user_blocks_def split: if_splits\<close>)
qed (use assms in \<open>auto simp: user_blocks_def\<close>)

lemma tool_call_ok: "tool_call_to_bedrock c tc = Inr y \<Longrightarrow> block_not_empty strict y"
  by (auto simp: tool_call_to_bedrock_def Let_def split: sum.splits)

lemma assistant_blocks_ok:
  assumes "assistant_blocks c m = Inr bs"
  shows "bs \<noteq> [] \<and> list_all (block_not_empty strict) bs"
proof -
  have "list_all (block_not_empty strict) uses" if "try_map (tool_call_to_bedrock c) tcs = Inr uses" for tcs uses
    using that by (rule try_map_list_all) (rule tool_call_ok)
  then show ?thesis using assms
    by (auto simp: assistant_blocks_def Let_def split: sum.splits if_splits)
qed

lemma message_to_bedrock_ok:
  assumes "message_to_bedrock c m = Inr b"
  shows "bedrock_message_ok strict b"
  using assms user_blocks_ok [of "m_content m"] assistant_blocks_ok [of c m]
  by (cases "m_role m")
     (auto simp: message_to_bedrock_def bedrock_message_ok_def tool_blocks_def Let_def
       split: sum.splits option.splits)

lemma convert_bedrock_ok:
  "convert_chat_messages_bedrock c ms = Inr (ss, bs) \<Longrightarrow> list_all (bedrock_message_ok strict) bs"
  by (induction ms arbitrary: ss bs)
     (auto split: if_splits sum.splits intro: message_to_bedrock_ok)

lemma chat_to_converse_ok:
  "chat_to_converse_request c r = Inr q \<Longrightarrow> list_all (bedrock_message_ok strict) (opt_list (bq_messages q))"
  using convert_bedrock_ok
  by (fastforce simp: chat_to_converse_request_def opt_list_def split: sum.splits)

lemma messages_to_converse_ok:
  assumes "messages_to_converse_request r = Inr q" and "strict \<longrightarrow> \<not> sends_empty_result r"
  shows "list_all (bedrock_message_ok strict) (opt_list (bq_messages q))"
proof -
  obtain ms where ms: "try_map messages_message_to_bedrock (mq_messages r) = Inr ms"
    "opt_list (bq_messages q) = (if mq_messages r = [] then [] else ms)"
    using assms(1) by (auto simp: messages_to_converse_request_def opt_list_def split: sum.splits)
  have "list_all (bedrock_message_ok strict) ms"
  proof (rule try_map_list_all [OF ms(1)])
    fix m b assume m: "m \<in> set (mq_messages r)" "messages_message_to_bedrock m = Inr b"
    have "strict \<longrightarrow> (\<forall>bs. mm_content m = MMC_Blocks bs \<longrightarrow> \<not> list_ex empty_result bs)"
      using assms(2) m(1) by (auto simp: sends_empty_result_def list_ex_iff)
    with m(2) show "bedrock_message_ok strict b" by (rule messages_message_ok)
  qed
  then show ?thesis using ms(2) by simp
qed

lemmas request_translation_defs =
  chat_to_messages_pr_def chat_to_converse_pr_def chat_to_converse_stream_pr_def via_chat_def
  failed_to_convert_def

lemma map_sum_Inr: "map_sum f g s = Inr y \<longleftrightarrow> (\<exists>x. s = Inr x \<and> y = g x)"
  by (cases s) auto

lemma failed_to_convert_Inr: "failed_to_convert from target r = Inr x \<longleftrightarrow> r = Inr x"
  by (cases r) (auto simp: failed_to_convert_def)

lemma request_bedrock_ok:
  assumes "request_for_upstream c r u = Inr q" and "converse_of q = Some b"
    and "\<And>a. r = PR_Messages a \<Longrightarrow> strict \<longrightarrow> \<not> sends_empty_result a"
  shows "list_all (bedrock_message_ok strict) (opt_list (bq_messages b))"
  using assms
  by (cases "(c, r, u)" rule: request_for_upstream.cases)
     (auto simp: chat_to_messages_pr_def chat_to_converse_pr_def chat_to_converse_stream_pr_def
       via_chat_def map_sum_Inr failed_to_convert_Inr
       intro: chat_to_converse_ok messages_to_converse_ok split: sum.splits)

text \<open>
  (C13) Whatever the client's API, a translated Bedrock request never has a message without content
  blocks, a text block that is empty or a tool result without content; and no text inside a tool
  result is empty, unless an Anthropic client itself sends a tool result with an empty text, which is
  passed on as it is.
\<close>

theorem bedrock_content_never_empty:
  assumes "request_for_upstream c r u = Inr q" and "converse_of q = Some b"
    and "m \<in> set (opt_list (bq_messages b))"
  shows "bedrock_message_ok (case r of PR_Messages a \<Rightarrow> \<not> sends_empty_result a | _ \<Rightarrow> True) m"
proof -
  have "list_all (bedrock_message_ok (case r of PR_Messages a \<Rightarrow> \<not> sends_empty_result a | _ \<Rightarrow> True))
      (opt_list (bq_messages b))"
    by (rule request_bedrock_ok [OF assms(1,2)]) simp
  then show ?thesis using assms(3) by (simp add: list_all_iff)
qed

text \<open>
  The exception: an empty tool result of an Anthropic client reaches Bedrock as an empty text; only
  a result without any text gets the blank.
\<close>

theorem empty_result_text_kept:
  "messages_block_to_bedrock (CB_ToolResult i err (TRC_Text []) cc) =
     Some (BB_ToolResult \<lparr>trb_tool_use_id = i, trb_content = [TRB_Text []],
       trb_status = (if case_option False id err then Some TRS_Error else Some TRS_Success)\<rparr>)"
  by (simp add: bedrock_tool_result_content_def)

definition sample_empty_contents :: provider_request where
  "sample_empty_contents = PR_ChatCompletions (chat_request_default
     \<lparr>cr_model := ''nova'', cr_messages := [text_message R_User [], text_message R_Assistant [],
        tool_result_message (''t1'', [], False)]\<rparr>)"

theorem bedrock_content_never_empty_witness:
  "\<exists>q. request_for_upstream escaped_json sample_empty_contents (U_AmazonBedrockConverse Converse) =
       Inr (PR_BedrockConverse q) \<and>
     map bm_content (opt_list (bq_messages q)) = [[BB_Text '' ''], [BB_Text '' ''],
       [BB_ToolResult \<lparr>trb_tool_use_id = ''t1'', trb_content = [TRB_Text '' ''],
          trb_status = Some TRS_Success\<rparr>]] \<and>
     bedrock_message_ok True (opt_list (bq_messages q) ! 2)"
proof -
  obtain q where q: "request_for_upstream escaped_json sample_empty_contents
      (U_AmazonBedrockConverse Converse) = Inr (PR_BedrockConverse q)"
    "map bm_content (opt_list (bq_messages q)) = [[BB_Text '' ''], [BB_Text '' ''],
       [BB_ToolResult \<lparr>trb_tool_use_id = ''t1'', trb_content = [TRB_Text '' ''],
          trb_status = Some TRS_Success\<rparr>]]"
    by (simp add: sample_empty_contents_def chat_to_converse_pr_def chat_to_converse_request_def
        is_system_role_def message_to_bedrock_def user_blocks_def assistant_blocks_def tool_blocks_def
        extract_text_def failed_to_convert_def opt_list_def tool_result_message_def)
  have "length (opt_list (bq_messages q)) = 3" using arg_cong [OF q(2), of length] by simp
  then have mem: "opt_list (bq_messages q) ! 2 \<in> set (opt_list (bq_messages q))" by (intro nth_mem) simp
  have "bedrock_message_ok (case sample_empty_contents of PR_Messages a \<Rightarrow> \<not> sends_empty_result a | _ \<Rightarrow> True)
      (opt_list (bq_messages q) ! 2)"
    by (rule bedrock_content_never_empty [OF q(1) _ mem]) (simp only: converse_of.simps)
  then have "bedrock_message_ok True (opt_list (bq_messages q) ! 2)"
    by (simp only: sample_empty_contents_def provider_request.case)
  with q show ?thesis by (intro exI [of _ q] conjI)
qed

end
