(* ===== verification/Request_Tools.thy ===== *)
theory Request_Tools
  imports Request_Props
begin

section \<open>Tool calls and results across the APIs\<close>

text \<open>
  A request translated to another API holds the tool calls and results of the client's request, in
  order. The traffic of a request is defined for each API and compared across the translations.
\<close>

subsection \<open>Tool calls and results\<close>

text \<open>
  The tool traffic of a conversation: calls with identifier, name and arguments (what parsing
  them gives, where they are a string), and answers with identifier and text.
\<close>

datatype tool_traffic = Called string string "string + json" | Answered string string

text \<open>Bedrock gets a blank where a text is empty.\<close>

fun nonblank :: "tool_traffic \<Rightarrow> tool_traffic" where
  "nonblank (Answered i t) = Answered i (if t = [] then '' '' else t)"
| "nonblank t = t"

definition message_traffic :: "json_codec \<Rightarrow> message \<Rightarrow> tool_traffic list" where
  "message_traffic c m =
     (if m_role m = R_Tool
      then (case m_tool_call_id m of
              Some i \<Rightarrow> [Answered i (extract_text (m_content m))] | None \<Rightarrow> [])
      else map (\<lambda>tc. Called (tc_id tc) (fc_name (tc_function tc))
                       (json_parse c (fc_arguments (tc_function tc))))
             (opt_list (m_tool_calls m)))"

fun block_traffic :: "content_block \<Rightarrow> tool_traffic option" where
  "block_traffic (CB_ToolUse i n inp _) = Some (Called i n (Inr inp))"
| "block_traffic (CB_ToolResult i _ r _) = Some (Answered i (extract_text_tool_result r))"
| "block_traffic _ = None"

fun content_traffic :: "messages_message_content \<Rightarrow> tool_traffic list" where
  "content_traffic (MMC_Single _) = []"
| "content_traffic (MMC_Blocks bs) = List.map_filter block_traffic bs"

fun trb_text :: "tool_result_block_content \<Rightarrow> string option" where
  "trb_text (TRB_Text t) = Some t"
| "trb_text _ = None"

fun bedrock_traffic :: "bedrock_block \<Rightarrow> tool_traffic option" where
  "bedrock_traffic (BB_ToolUse u) = Some (Called (tub_tool_use_id u) (tub_name u) (Inr (tub_input u)))"
| "bedrock_traffic (BB_ToolResult r) =
     Some (Answered (trb_tool_use_id r) (join NL (List.map_filter trb_text (trb_content r))))"
| "bedrock_traffic _ = None"

fun item_traffic :: "json_codec \<Rightarrow> input_item \<Rightarrow> tool_traffic list" where
  "item_traffic c (II_FunctionCall _ n a i) = [Called i n (json_parse c a)]"
| "item_traffic c (II_FunctionCallOutput _ i output) =
     [Answered i (case output of JString s \<Rightarrow> s | _ \<Rightarrow> json_print c output)]"
| "item_traffic c _ = []"

fun input_traffic :: "json_codec \<Rightarrow> input_param \<Rightarrow> tool_traffic list" where
  "input_traffic c (IP_Text _) = []"
| "input_traffic c (IP_SingleItem item) = item_traffic c item"
| "input_traffic c (IP_Items items) = concat (map (item_traffic c) items)"

definition converse_traffic :: "converse_request \<Rightarrow> tool_traffic list" where
  "converse_traffic q =
     concat (map (\<lambda>m. List.map_filter bedrock_traffic (bm_content m)) (opt_list (bq_messages q)))"

fun pr_traffic :: "json_codec \<Rightarrow> provider_request \<Rightarrow> tool_traffic list" where
  "pr_traffic c (PR_ChatCompletions r) = concat (map (message_traffic c) (cr_messages r))"
| "pr_traffic c (PR_Messages r) = concat (map (\<lambda>m. content_traffic (mm_content m)) (mq_messages r))"
| "pr_traffic c (PR_BedrockConverse r) = converse_traffic r"
| "pr_traffic c (PR_BedrockConverseStream r) = converse_traffic r"
| "pr_traffic c (PR_Responses r) = input_traffic c (rq_input r)"

text \<open>
  What the APIs ask of a client: only the assistant calls tools, only the user answers with
  results. The provider-side tools of Anthropic are left out.
\<close>

definition calls_by_assistant :: "message \<Rightarrow> bool" where
  "calls_by_assistant m \<longleftrightarrow> m_tool_calls m = None \<or> m_role m = R_Assistant"

fun is_server_block :: "content_block \<Rightarrow> bool" where
  "is_server_block (CB_ServerToolUse _ _ _) = True"
| "is_server_block (CB_McpToolUse _ _ _) = True"
| "is_server_block (CB_WebSearchToolResult _ _ _) = True"
| "is_server_block (CB_CodeExecutionToolResult _ _ _) = True"
| "is_server_block (CB_McpToolResult _ _ _) = True"
| "is_server_block _ = False"

fun tool_block_role :: "content_block \<Rightarrow> messages_role option" where
  "tool_block_role (CB_ToolUse _ _ _ _) = Some MR_Assistant"
| "tool_block_role (CB_ToolResult _ _ _ _) = Some MR_User"
| "tool_block_role _ = None"

definition tools_by_role :: "messages_message \<Rightarrow> bool" where
  "tools_by_role m \<longleftrightarrow> mm_role m \<noteq> MR_System \<and>
     (case mm_content m of
        MMC_Single _ \<Rightarrow> True
      | MMC_Blocks bs \<Rightarrow> list_all (\<lambda>b. \<not> is_server_block b \<and>
          (case tool_block_role b of Some r \<Rightarrow> mm_role m = r | None \<Rightarrow> True)) bs)"

fun proper_tool_use :: "provider_request \<Rightarrow> bool" where
  "proper_tool_use (PR_ChatCompletions r) = list_all calls_by_assistant (cr_messages r)"
| "proper_tool_use (PR_Messages r) = list_all tools_by_role (mq_messages r)"
| "proper_tool_use _ = True"

lemma calls_translated:
  assumes "try_map (tool_call_to_block c) tcs = Inr bs"
  shows "List.map_filter block_traffic bs =
    map (\<lambda>tc. Called (tc_id tc) (fc_name (tc_function tc))
                (json_parse c (fc_arguments (tc_function tc)))) tcs"
  using assms
  by (induction tcs arbitrary: bs)
     (auto simp: tool_call_to_block_def map_filter_simps split: sum.splits)

lemma calls_translated_bedrock:
  assumes "try_map (tool_call_to_bedrock c) tcs = Inr bs"
  shows "List.map_filter bedrock_traffic bs =
    map (\<lambda>tc. Called (tc_id tc) (fc_name (tc_function tc))
                (json_parse c (fc_arguments (tc_function tc)))) tcs"
  using assms
  by (induction tcs arbitrary: bs)
     (auto simp: tool_call_to_bedrock_def Let_def map_filter_simps split: sum.splits)

lemma content_blocks_no_traffic: "List.map_filter block_traffic (content_blocks_of mc) = []"
proof -
  have "block_traffic (part_to_block p) = None" for p by (cases p) auto
  then show ?thesis
    by (auto simp: content_blocks_of_def map_filter_simps intro!: map_filter_all_None
        split: option.splits message_content.splits)
qed

lemma build_anthropic_content_traffic:
  "content_traffic (build_anthropic_content bs) = List.map_filter block_traffic bs"
  by (cases bs; cases "tl bs"; cases "hd bs")
     (auto simp: build_anthropic_content_def map_filter_simps)

lemma message_to_messages_traffic:
  assumes "message_to_messages c m = Inr a" "calls_by_assistant m"
  shows "content_traffic (mm_content a) = message_traffic c m"
proof -
  have *: "content_traffic (build_anthropic_content bs) =
      map (\<lambda>tc. Called (tc_id tc) (fc_name (tc_function tc))
            (json_parse c (fc_arguments (tc_function tc)))) (opt_list (m_tool_calls m))"
    if "convert_openai_message_to_anthropic_content c m = Inr bs" for bs
    using that calls_translated
    by (auto simp: convert_openai_message_to_anthropic_content_def build_anthropic_content_traffic
        content_blocks_no_traffic opt_list_def split: sum.splits option.splits)
  show ?thesis using assms *
    by (cases "m_role m")
       (auto simp: message_to_messages_def message_traffic_def Let_def map_filter_simps
         extract_text_blocks_def split: sum.splits option.splits)
qed

lemma user_blocks_no_traffic: "user_blocks mc = Inr bs \<Longrightarrow> List.map_filter bedrock_traffic bs = []"
proof -
  have part: "part_to_bedrock p = Inr (Some b) \<Longrightarrow> bedrock_traffic b = None" for p b
    by (cases p) (auto split: if_splits option.splits)
  have "List.map_filter bedrock_traffic (List.map_filter id os) = []"
    if "try_map part_to_bedrock ps = Inr os" for ps os
    using that
    by (induction ps arbitrary: os)
       (auto simp: map_filter_simps part split: sum.splits option.splits)
  then show "user_blocks mc = Inr bs \<Longrightarrow> ?thesis"
    by (auto simp: user_blocks_def map_filter_simps
        split: option.splits message_content.splits sum.splits if_splits)
qed

lemma assistant_blocks_traffic:
  assumes "assistant_blocks c m = Inr bs"
  shows "List.map_filter bedrock_traffic bs =
    map (\<lambda>tc. Called (tc_id tc) (fc_name (tc_function tc))
                (json_parse c (fc_arguments (tc_function tc)))) (opt_list (m_tool_calls m))"
  using assms calls_translated_bedrock
  by (fastforce simp: assistant_blocks_def Let_def map_filter_simps opt_list_def
      split: sum.splits option.splits if_splits)

lemma message_to_bedrock_traffic:
  assumes "message_to_bedrock c m = Inr b" "calls_by_assistant m"
  shows "map nonblank (List.map_filter bedrock_traffic (bm_content b)) =
    map nonblank (message_traffic c m)"
proof (cases "m_role m")
  case R_Assistant
  then show ?thesis using assms assistant_blocks_traffic
    by (auto simp: message_to_bedrock_def message_traffic_def split: sum.splits)
next
  case R_User
  then show ?thesis using assms user_blocks_no_traffic
    by (auto simp: message_to_bedrock_def message_traffic_def calls_by_assistant_def opt_list_def
        split: sum.splits)
next
  case R_Tool
  then show ?thesis using assms
    by (auto simp: message_to_bedrock_def message_traffic_def tool_blocks_def Let_def
        map_filter_simps split: sum.splits option.splits)
qed (use assms in \<open>auto simp: message_to_bedrock_def Let_def\<close>)

lemma system_no_traffic:
  "calls_by_assistant m \<Longrightarrow> is_system_role (m_role m) \<Longrightarrow> message_traffic c m = []"
  by (auto simp: calls_by_assistant_def is_system_role_def message_traffic_def opt_list_def)

lemma convert_chat_messages_traffic:
  "convert_chat_messages c sys ms = Inr (sys', as) \<Longrightarrow> list_all calls_by_assistant ms \<Longrightarrow>
   concat (map (\<lambda>a. content_traffic (mm_content a)) as) = concat (map (message_traffic c) ms)"
  by (induction ms arbitrary: sys as)
     (auto simp: system_no_traffic message_to_messages_traffic split: if_splits sum.splits)

lemma convert_bedrock_traffic:
  "convert_chat_messages_bedrock c ms = Inr (ss, bs) \<Longrightarrow> list_all calls_by_assistant ms \<Longrightarrow>
   map nonblank (concat (map (\<lambda>b. List.map_filter bedrock_traffic (bm_content b)) bs)) =
   map nonblank (concat (map (message_traffic c) ms))"
  by (induction ms arbitrary: ss bs)
     (auto simp: system_no_traffic message_to_bedrock_traffic split: if_splits sum.splits)

lemma messages_message_to_chat_traffic:
  assumes c: "json_codec_ok c" and ok: "tools_by_role m"
  shows "concat (map (message_traffic c) (messages_message_to_chat c m)) = content_traffic (mm_content m)
    \<and> list_all calls_by_assistant (messages_message_to_chat c m)"
proof (cases "mm_content m")
  case (MMC_Single t)
  then show ?thesis using ok
    by (cases "mm_role m")
       (auto simp: messages_message_to_chat_def message_traffic_def opt_list_def calls_by_assistant_def)
next
  case (MMC_Blocks bs)
  have results: "message_traffic c (tool_result_message r) = [case r of (i, t, e) \<Rightarrow> Answered i t]"
    "calls_by_assistant (tool_result_message r)" for r
    by (cases r; simp add: tool_result_message_def message_traffic_def extract_text_def
        calls_by_assistant_def)+
  show ?thesis
  proof (cases "mm_role m")
    case MR_User
    have "list_all (\<lambda>b. \<not> is_server_block b \<and> tool_block_role b \<noteq> Some MR_Assistant) bs"
      using ok MMC_Blocks MR_User by (auto simp: tools_by_role_def list_all_iff)
    then have "List.map_filter (block_tool_call c) bs = [] \<and>
        map (\<lambda>r. case r of (i, t, e) \<Rightarrow> Answered i t) (List.map_filter block_tool_result bs) =
        List.map_filter block_traffic bs"
    proof (induction bs)
      case (Cons b bs)
      then show ?case by (cases b) (auto simp: map_filter_simps)
    qed (simp add: map_filter_simps)
    then show ?thesis using MMC_Blocks MR_User results
      by (auto simp: messages_message_to_chat_def split_for_openai_def message_traffic_def opt_list_def
          calls_by_assistant_def comp_def list_all_iff)
         (metis (no_types, lifting) concat_map_singleton)+
  next
    case MR_Assistant
    have "list_all (\<lambda>b. \<not> is_server_block b \<and> tool_block_role b \<noteq> Some MR_User) bs"
      using ok MMC_Blocks MR_Assistant by (auto simp: tools_by_role_def list_all_iff)
    then have "List.map_filter block_tool_result bs = [] \<and>
        map (\<lambda>tc. Called (tc_id tc) (fc_name (tc_function tc))
               (json_parse c (fc_arguments (tc_function tc)))) (List.map_filter (block_tool_call c) bs) =
        List.map_filter block_traffic bs"
    proof (induction bs)
      case (Cons b bs)
      then show ?case by (cases b) (auto simp: map_filter_simps json_codec_okD [OF c])
    qed (simp add: map_filter_simps)
    then show ?thesis using MMC_Blocks MR_Assistant
      by (auto simp: messages_message_to_chat_def split_for_openai_def message_traffic_def opt_list_def
          calls_by_assistant_def)
  next
    case MR_System
    then show ?thesis using ok by (simp add: tools_by_role_def)
  qed
qed

lemma bedrock_tool_result_text:
  "nonblank (Answered i (join NL (List.map_filter trb_text (bedrock_tool_result_content r)))) =
   nonblank (Answered i (extract_text_tool_result r))"
proof (cases r)
  case (TRC_Blocks bs)
  have "List.map_filter trb_text (List.map_filter tool_result_text bs) = List.map_filter block_text bs"
    "List.map_filter tool_result_text bs = [] \<longleftrightarrow> List.map_filter block_text bs = []"
  proof (induction bs)
    case (Cons b bs)
    case 1 show ?case using Cons by (cases b) (auto simp: map_filter_simps)
    case 2 show ?case using Cons by (cases b) (auto simp: map_filter_simps)
  qed (auto simp: map_filter_simps)
  then show ?thesis using TRC_Blocks
    by (auto simp: bedrock_tool_result_content_def Let_def extract_text_blocks_def map_filter_simps)
qed (simp add: bedrock_tool_result_content_def map_filter_simps)

lemma messages_block_to_bedrock_traffic:
  assumes "\<not> is_server_block b"
  shows "map nonblank (List.map_filter bedrock_traffic (List.map_filter messages_block_to_bedrock [b])) =
    map nonblank (List.map_filter block_traffic [b])"
proof (cases b)
  case (CB_Image s)
  then show ?thesis by (cases s) (auto simp: map_filter_simps)
next
  case (CB_ToolResult i e r cache)
  then show ?thesis using bedrock_tool_result_text [of i r]
    by (simp add: map_filter_simps)
qed (use assms in \<open>auto simp: map_filter_simps\<close>)

lemma messages_message_to_bedrock_traffic:
  assumes "messages_message_to_bedrock m = Inr b" "tools_by_role m"
  shows "map nonblank (List.map_filter bedrock_traffic (bm_content b)) =
    map nonblank (content_traffic (mm_content m))"
proof -
  let ?bs = "case mm_content m of MMC_Single t \<Rightarrow> if t \<noteq> [] then [BB_Text t] else []
      | MMC_Blocks bs \<Rightarrow> List.map_filter messages_block_to_bedrock bs"
  have b: "bm_content b = (if ?bs = [] then [BB_Text '' ''] else ?bs)"
    using assms by (cases "mm_role m") (auto simp: messages_message_to_bedrock_def Let_def)
  have blocks: "map nonblank (List.map_filter bedrock_traffic (List.map_filter messages_block_to_bedrock bs)) =
      map nonblank (List.map_filter block_traffic bs)"
    if "list_all (\<lambda>b. \<not> is_server_block b) bs" for bs
    using that
  proof (induction bs)
    case (Cons x xs)
    have "map nonblank (List.map_filter bedrock_traffic (List.map_filter messages_block_to_bedrock ([x] @ xs))) =
        map nonblank (List.map_filter block_traffic ([x] @ xs))"
      using messages_block_to_bedrock_traffic [of x] Cons by (simp only: map_filter_append map_append) auto
    then show ?case by simp
  qed (simp add: map_filter_simps)
  have "map nonblank (List.map_filter bedrock_traffic ?bs) = map nonblank (content_traffic (mm_content m))"
    using assms(2) by (cases "mm_content m")
      (auto simp: map_filter_simps tools_by_role_def list_all_iff intro!: blocks)
  then show ?thesis using b by (auto simp: map_filter_simps)
qed

lemma attach_traffic:
  assumes "list_all calls_by_assistant ms"
  shows "concat (map (message_traffic c) (attach_tool_call ms (function_tool_call i n a))) =
     concat (map (message_traffic c) ms) @ [Called i n (json_parse c a)] \<and>
    list_all calls_by_assistant (attach_tool_call ms (function_tool_call i n a))"
proof (cases "ms \<noteq> [] \<and> m_role (last ms) = R_Assistant")
  case True
  obtain l x where ms: "ms = l @ [x]" using True by (metis append_butlast_last_id)
  then show ?thesis using assms True
    by (auto simp: attach_tool_call_def message_traffic_def opt_list_def calls_by_assistant_def
        split: option.splits)
next
  case False
  then show ?thesis using assms
    by (auto simp: attach_tool_call_def message_traffic_def opt_list_def calls_by_assistant_def)
qed

lemma convert_items_traffic:
  "list_all calls_by_assistant ms \<Longrightarrow>
   concat (map (message_traffic c) (foldl (convert_input_item c) ms items)) =
     concat (map (message_traffic c) ms) @ concat (map (item_traffic c) items) \<and>
   list_all calls_by_assistant (foldl (convert_input_item c) ms items)"
proof (induction items arbitrary: ms)
  case (Cons it items)
  have "concat (map (message_traffic c) (convert_input_item c ms it)) =
      concat (map (message_traffic c) ms) @ item_traffic c it \<and>
      list_all calls_by_assistant (convert_input_item c ms it)"
    using Cons.prems attach_traffic [OF Cons.prems]
    by (cases it)
       (auto simp: message_traffic_def opt_list_def calls_by_assistant_def extract_text_def list_all_iff)
  then show ?case using Cons.IH by simp
qed simp

lemma convert_input_traffic:
  "concat (map (message_traffic c) (convert_input c inp i)) = input_traffic c inp \<and>
   list_all calls_by_assistant (convert_input c inp i)"
proof -
  have "list_all calls_by_assistant (instructions_messages i)"
    "concat (map (message_traffic c) (instructions_messages i)) = []"
    by (auto simp: instructions_messages_def calls_by_assistant_def message_traffic_def opt_list_def
        split: option.splits)
  then show ?thesis using convert_items_traffic [of "instructions_messages i" c]
    by (cases inp) (auto simp: message_traffic_def opt_list_def calls_by_assistant_def simp del: foldl_Cons)
qed

lemma responses_to_chat_sel:
  "responses_to_chat_request c r = Inr q \<Longrightarrow>
   cr_messages q = convert_input c (rq_input r) (rq_instructions r) \<and> cr_stream q = rq_stream r \<and>
   cr_model q = rq_model r \<and> cr_temperature q = rq_temperature r"
  by (auto simp: responses_to_chat_request_def split: sum.splits)

lemma chat_request_traffic:
  assumes "list_all calls_by_assistant (cr_messages r)"
  shows "chat_to_messages_request c r = Inr q \<Longrightarrow>
      pr_traffic c (PR_Messages q) = pr_traffic c (PR_ChatCompletions r)"
    "chat_to_converse_request c r = Inr b \<Longrightarrow>
      map nonblank (converse_traffic b) = map nonblank (pr_traffic c (PR_ChatCompletions r))"
proof -
  show "chat_to_messages_request c r = Inr q \<Longrightarrow>
      pr_traffic c (PR_Messages q) = pr_traffic c (PR_ChatCompletions r)"
    using assms convert_chat_messages_traffic
    by (fastforce simp: chat_to_messages_request_def split: sum.splits)
  show "map nonblank (converse_traffic b) = map nonblank (pr_traffic c (PR_ChatCompletions r))"
    if b: "chat_to_converse_request c r = Inr b"
  proof -
    obtain ss bs where *: "convert_chat_messages_bedrock c (cr_messages r) = Inr (ss, bs)"
      "opt_list (bq_messages b) = bs"
      using b by (auto simp: chat_to_converse_request_def opt_list_def split: sum.splits)
    show ?thesis using convert_bedrock_traffic [OF *(1) assms] *(2) by (simp add: converse_traffic_def)
  qed
qed

lemma messages_to_converse_traffic:
  assumes "messages_to_converse_request r = Inr b" "list_all tools_by_role (mq_messages r)"
  shows "map nonblank (converse_traffic b) = map nonblank (pr_traffic c (PR_Messages r))"
proof -
  obtain bs where bs: "try_map messages_message_to_bedrock (mq_messages r) = Inr bs"
    "opt_list (bq_messages b) = bs"
    using assms(1) by (auto simp: messages_to_converse_request_def opt_list_def split: sum.splits if_splits)
  have "try_map messages_message_to_bedrock ms = Inr bs \<Longrightarrow> list_all tools_by_role ms \<Longrightarrow>
      map nonblank (concat (map (\<lambda>b. List.map_filter bedrock_traffic (bm_content b)) bs)) =
      map nonblank (concat (map (\<lambda>m. content_traffic (mm_content m)) ms))" for ms bs
    by (induction ms arbitrary: bs)
       (auto simp: messages_message_to_bedrock_traffic split: sum.splits)
  from this [OF bs(1) assms(2)] show ?thesis using bs(2) by (simp add: converse_traffic_def)
qed

lemma responses_request_traffic:
  assumes "request_for_upstream c (PR_Responses m) u = Inr q"
  shows "map nonblank (pr_traffic c q) = map nonblank (input_traffic c (rq_input m))"
proof -
  have *: "list_all calls_by_assistant (cr_messages chat)"
    "pr_traffic c (PR_ChatCompletions chat) = input_traffic c (rq_input m)"
    if "responses_to_chat_request c m = Inr chat" for chat
    using responses_to_chat_sel [OF that] convert_input_traffic by auto
  show ?thesis using assms * chat_request_traffic [of _ c]
    by (cases u) (fastforce simp: via_chat_def chat_to_messages_pr_def chat_to_converse_pr_def
        chat_to_converse_stream_pr_def map_sum_Inr failed_to_convert_Inr split: sum.splits)+
qed



end
