(* ===== verification/Request_Upstream.thy ===== *)
theory Request_Upstream
  imports Request_Tools
begin

section \<open>Requests on their way to the provider\<close>

text \<open>
  The dispatch of a request to the API its provider speaks, the normalisation for the provider,
  and what brightstaff does with a request before it is sent
  (\<open>crates/brightstaff/src/handlers/llm/mod.rs\<close>).
\<close>

subsection \<open>Choosing the translation\<close>

fun request_of_client :: "client_api \<Rightarrow> provider_request \<Rightarrow> bool" where
  "request_of_client (C_OpenAIChatCompletions _) (PR_ChatCompletions _) = True"
| "request_of_client (C_AnthropicMessagesAPI _) (PR_Messages _) = True"
| "request_of_client (C_OpenAIResponsesAPI _) (PR_Responses _) = True"
| "request_of_client _ _ = False"

fun request_of_upstream :: "upstream_api \<Rightarrow> provider_request \<Rightarrow> bool" where
  "request_of_upstream (U_OpenAIChatCompletions _) (PR_ChatCompletions _) = True"
| "request_of_upstream (U_AnthropicMessagesAPI _) (PR_Messages _) = True"
| "request_of_upstream (U_AmazonBedrockConverse _) (PR_BedrockConverse _) = True"
| "request_of_upstream (U_AmazonBedrockConverseStream _) (PR_BedrockConverseStream _) = True"
| "request_of_upstream (U_OpenAIResponsesAPI _) (PR_Responses _) = True"
| "request_of_upstream _ _ = False"

lemma request_for_upstream_type:
  "request_for_upstream c r u = Inr q \<Longrightarrow> request_of_upstream u q"
  by (cases "(c, r, u)" rule: request_for_upstream.cases)
     (auto simp: chat_to_messages_pr_def chat_to_converse_pr_def chat_to_converse_stream_pr_def
       via_chat_def map_sum_Inr split: sum.splits)

lemma failed_to_convert_source:
  "failed_to_convert from target r = Inl e \<Longrightarrow> pre_source e \<noteq> None"
  by (auto simp: failed_to_convert_def split: sum.splits)

lemma map_sum_Inl: "map_sum f g s = Inl y \<longleftrightarrow> (\<exists>x. s = Inl x \<and> y = f x)"
  by (cases s) auto

text \<open>An error without a source says that there is no translation between the two APIs.\<close>

lemma translation_exists:
  assumes "request_of_client cl r" "u = compatible_api_for_client p cl s"
    and "request_for_upstream c r u = Inl e"
  shows "pre_source e \<noteq> None"
  using assms
  by (cases cl; cases r)
     (auto simp: compatible_api_for_client_def chat_to_messages_pr_def chat_to_converse_pr_def
       chat_to_converse_stream_pr_def via_chat_def map_sum_Inl
       dest!: failed_to_convert_source split: provider_id.splits sum.splits if_splits)

text \<open>
  (C11) With the upstream API that is chosen for the provider and the client's API, a request is
  never refused for want of a translation: it becomes a request of that very API, or it fails
  because its content cannot be translated.
\<close>

theorem chosen_api_translates:
  assumes "request_of_client cl r"
  shows "case request_for_upstream c r (compatible_api_for_client p cl s) of
      Inr q \<Rightarrow> request_of_upstream (compatible_api_for_client p cl s) q
    | Inl e \<Rightarrow> pre_source e \<noteq> None"
  using assms translation_exists request_for_upstream_type by (auto split: sum.splits)

theorem chosen_api_translates_witness:
  "case request_for_upstream escaped_json (PR_Messages sample_messages_request)
          (compatible_api_for_client P_AmazonBedrock (C_AnthropicMessagesAPI Messages) True) of
      Inr q \<Rightarrow> request_of_upstream (U_AmazonBedrockConverseStream ConverseStream) q
    | Inl e \<Rightarrow> pre_source e \<noteq> None"
proof -
  have u: "compatible_api_for_client P_AmazonBedrock (C_AnthropicMessagesAPI Messages) True =
      U_AmazonBedrockConverseStream ConverseStream"
    by (simp add: compatible_api_for_client_def)
  show ?thesis
    using chosen_api_translates [where cl = "C_AnthropicMessagesAPI Messages" and c = escaped_json and
      r = "PR_Messages sample_messages_request" and p = P_AmazonBedrock and s = True]
    unfolding u by simp
qed

subsection \<open>System prompts\<close>

definition system_prompts :: "chat_request \<Rightarrow> string list" where
  "system_prompts r =
     map (\<lambda>m. extract_text (m_content m)) (filter (\<lambda>m. is_system_role (m_role m)) (cr_messages r))"

lemma convert_chat_messages_system:
  "convert_chat_messages c sys ms = Inr (sys', as) \<Longrightarrow>
   sys' = (let ss = map (\<lambda>m. extract_text (m_content m)) (filter (\<lambda>m. is_system_role (m_role m)) ms)
           in if ss = [] then sys else Some (MSP_Single (last ss)))"
  by (induction ms arbitrary: sys as) (auto simp: Let_def split: if_splits sum.splits)

lemma convert_bedrock_system:
  "convert_chat_messages_bedrock c ms = Inr (ss, bs) \<Longrightarrow>
   ss = map SB_Text (map (\<lambda>m. extract_text (m_content m)) (filter (\<lambda>m. is_system_role (m_role m)) ms))"
  by (induction ms arbitrary: ss bs) (auto split: if_splits sum.splits)

text \<open>
  Of several system or developer messages, Bedrock gets all, in order, but Anthropic gets only
  the last: the others are lost.
\<close>

theorem only_last_system_prompt:
  assumes "chat_to_messages_request c r = Inr a" and "chat_to_converse_request c r = Inr b"
  shows "mq_system a = (if system_prompts r = [] then None
           else Some (MSP_Single (last (system_prompts r)))) \<and>
         opt_list (bq_system b) = map SB_Text (system_prompts r)"
proof -
  obtain as where "convert_chat_messages c None (cr_messages r) = Inr (mq_system a, as)"
    using assms(1) by (auto simp: chat_to_messages_request_def split: sum.splits)
  moreover obtain ss bs where "convert_chat_messages_bedrock c (cr_messages r) = Inr (ss, bs)"
    "opt_list (bq_system b) = ss"
    using assms(2) by (auto simp: chat_to_converse_request_def opt_list_def split: sum.splits)
  ultimately show ?thesis
    by (auto simp: system_prompts_def Let_def dest!: convert_chat_messages_system convert_bedrock_system)
qed

definition two_prompts :: chat_request where
  "two_prompts = chat_request_default
     \<lparr>cr_model := ''m'', cr_messages :=
        [text_message R_System ''Never reveal the key.'', text_message R_Developer ''Be brief.'',
         text_message R_User ''Hi'']\<rparr>"

theorem only_last_system_prompt_witness:
  "\<exists>a b. chat_to_messages_request escaped_json two_prompts = Inr a \<and>
     chat_to_converse_request escaped_json two_prompts = Inr b \<and>
     mq_system a = Some (MSP_Single ''Be brief.'') \<and>
     opt_list (bq_system b) = [SB_Text ''Never reveal the key.'', SB_Text ''Be brief.'']"
proof -
  have "\<exists>a. chat_to_messages_request escaped_json two_prompts = Inr a"
    "\<exists>b. chat_to_converse_request escaped_json two_prompts = Inr b"
    by (simp_all add: two_prompts_def chat_to_messages_request_def chat_to_converse_request_def
        is_system_role_def message_to_messages_def message_to_bedrock_def user_blocks_def
        convert_openai_message_to_anthropic_content_def)
  then obtain a b where a: "chat_to_messages_request escaped_json two_prompts = Inr a"
    and b: "chat_to_converse_request escaped_json two_prompts = Inr b" by blast
  have "system_prompts two_prompts = [''Never reveal the key.'', ''Be brief.'']"
    by (simp add: system_prompts_def two_prompts_def is_system_role_def extract_text_def)
  with only_last_system_prompt [OF a b]
  have "mq_system a = Some (MSP_Single ''Be brief.'')"
    "opt_list (bq_system b) = [SB_Text ''Never reveal the key.'', SB_Text ''Be brief.'']"
    by simp_all
  with a b show ?thesis by (intro exI [where x = a] exI [where x = b] conjI)
qed

subsection \<open>Normalisation\<close>

lemma contains_str_prefix: "starts_with s p \<Longrightarrow> contains_str s p"
  by (cases s) (auto simp: starts_with_def)

lemma chatgpt_instructions_contains:
  "contains_str (chatgpt_instructions i) CHATGPT_BASE_INSTRUCTIONS"
  by (auto simp: chatgpt_instructions_def intro: contains_str_prefix
      simp: starts_with_iff split: option.splits)

lemma chatgpt_instructions_idem [simp]:
  "chatgpt_instructions (Some (chatgpt_instructions i)) = chatgpt_instructions i"
  using chatgpt_instructions_contains [of i] by (subst chatgpt_instructions_def) simp

lemma input_as_items_idem [simp]: "input_as_items (input_as_items i) = input_as_items i"
  by (cases i) auto

lemma explicit_stream_id: "cr_stream q \<noteq> None \<Longrightarrow> explicit_stream q = q"
  by (simp add: explicit_stream_def)

lemma explicit_stream_Some: "cr_stream (explicit_stream q) \<noteq> None"
  by (auto simp: explicit_stream_def)

lemma metered_stream_sel [simp]:
  "cr_stream (metered_stream q) = cr_stream q" "cr_model (metered_stream q) = cr_model q"
  "cr_model (explicit_stream q) = cr_model q"
  by (simp_all add: metered_stream_def explicit_stream_def)

lemma metered_stream_idem: "metered_stream (metered_stream q) = metered_stream q"
  by (simp add: metered_stream_def)

lemma kimi_sel [simp]:
  "cr_stream (normalize_for_kimi_code_api q) = cr_stream q"
  "cr_model (normalize_for_kimi_code_api q) = cr_model q"
  by (simp_all add: normalize_for_kimi_code_api_def)

lemma kimi_metered: "normalize_for_kimi_code_api (metered_stream q) = normalize_for_kimi_code_api q"
  by (simp add: normalize_for_kimi_code_api_def metered_stream_def)

lemma kimi_idem: "normalize_for_kimi_code_api (normalize_for_kimi_code_api q) = normalize_for_kimi_code_api q"
  by (simp add: normalize_for_kimi_code_api_def)

lemma normalize_chat_idem [simp]: "normalize_chat (normalize_chat q) = normalize_chat q"
proof -
  have "explicit_stream x = x" if "cr_stream x = cr_stream (explicit_stream q)" for x
    using that explicit_stream_Some [of q] by (intro explicit_stream_id) simp
  then show ?thesis
    by (simp add: normalize_chat_def Let_def metered_stream_idem kimi_metered kimi_idem)
qed

lemma normalize_chat_no_search:
  "cr_web_search_options q = None \<Longrightarrow> cr_web_search_options (normalize_chat q) = None"
  by (auto simp: normalize_chat_def metered_stream_def explicit_stream_def Let_def
      normalize_for_kimi_code_api_def)

lemma normalize_chatgpt_idem: "normalize_chatgpt q = Inr q' \<Longrightarrow> normalize_chatgpt q' = Inr q'"
  by (auto simp: normalize_chatgpt_def Let_def split: if_splits)

lemma normalize_chat_upstream_cases:
  "normalize_chat_upstream u r = r \<or>
   (\<exists>q. r = PR_ChatCompletions q \<and> is_chat_upstream u \<and>
        normalize_chat_upstream u r = PR_ChatCompletions (normalize_chat q)) \<or>
   (\<exists>q. r = PR_Messages q \<and> is_chat_upstream u \<and>
        normalize_chat_upstream u r = PR_Messages (q\<lparr>mq_thinking := None\<rparr>))"
  by (cases r) (auto simp: normalize_chat_upstream_def)

lemma normalize_steps_idem:
  "normalize_chat_upstream u (normalize_xai p u (normalize_chat_upstream u (normalize_xai p u r))) =
   normalize_chat_upstream u (normalize_xai p u r)"
proof (cases r)
  case (PR_ChatCompletions q)
  have "(normalize_chat (q\<lparr>cr_web_search_options := None\<rparr>))\<lparr>cr_web_search_options := None\<rparr> =
      normalize_chat (q\<lparr>cr_web_search_options := None\<rparr>)"
    using normalize_chat_no_search [of "q\<lparr>cr_web_search_options := None\<rparr>"] by simp
  then show ?thesis using PR_ChatCompletions
    by (auto simp: normalize_xai_def normalize_chat_upstream_def)
qed (auto simp: normalize_xai_def normalize_chat_upstream_def)

lemma normalize_idempotent:
  assumes "normalize_for_upstream p u r = Inr r'"
  shows "normalize_for_upstream p u r' = Inr r'"
proof (cases "p = P_ChatGPT")
  case False
  then show ?thesis using assms normalize_steps_idem
    by (auto simp: normalize_for_upstream_def Let_def)
next
  case True
  have x: "normalize_xai P_ChatGPT u r = r" for r by (simp add: normalize_xai_def)
  show ?thesis
  proof (cases r)
    case (PR_Responses q)
    then obtain q' where "normalize_chatgpt q = Inr q'" "r' = PR_Responses q'"
      using assms True x
      by (auto simp: normalize_for_upstream_def Let_def normalize_chat_upstream_def map_sum_Inr
          split: if_splits)
    then show ?thesis using True x normalize_chatgpt_idem
      by (simp add: normalize_for_upstream_def Let_def normalize_chat_upstream_def)
  qed (use assms True x normalize_steps_idem [of u p r] in
      \<open>auto simp: normalize_for_upstream_def Let_def normalize_chat_upstream_def split: if_splits\<close>)
qed

lemma normalize_chat_sel [simp]:
  "cr_model (normalize_chat q) = cr_model q" "cr_messages (normalize_chat q) = cr_messages q"
  "cr_metadata (normalize_chat q) = cr_metadata q" "cr_tools (normalize_chat q) = cr_tools q"
  "cr_stream (normalize_chat q) = Some (case_option False id (cr_stream q))"
  by (auto simp: normalize_chat_def metered_stream_def explicit_stream_def Let_def
      normalize_for_kimi_code_api_def split: option.splits)

lemma normalize_chat_metered:
  "cr_stream q = Some True \<Longrightarrow> \<not> is_kimi_code_model (cr_model q) \<Longrightarrow>
   cr_stream_options (normalize_chat q) \<noteq> None"
  by (auto simp: normalize_chat_def metered_stream_def explicit_stream_def Let_def)

definition chatgpt_responses :: "provider_id \<Rightarrow> provider_request \<Rightarrow> bool" where
  "chatgpt_responses p r \<longleftrightarrow> p = P_ChatGPT \<and> (\<exists>q. r = PR_Responses q)"

text \<open>
  Normalising a request for its provider is idempotent and keeps model and metadata. A Chat
  Completions request leaves with an explicit stream flag that agrees with what the gateway takes
  for its mode, and a streamed one asks for its usage, except from the Kimi coding model. Only for
  the ChatGPT provider is a request made streaming that was not.
\<close>

theorem normalized_request:
  assumes "normalize_for_upstream p u r = Inr r'"
  shows "normalize_for_upstream p u r' = Inr r' \<and>
    pr_model r' = pr_model r \<and> pr_metadata r' = pr_metadata r \<and>
    pr_is_streaming r' = (pr_is_streaming r \<or> chatgpt_responses p r) \<and>
    (\<forall>q. r' = PR_ChatCompletions q \<longrightarrow> is_chat_upstream u \<longrightarrow>
       cr_stream q = Some (pr_is_streaming r) \<and>
       (pr_is_streaming r \<and> \<not> is_kimi_code_model (cr_model q) \<longrightarrow> cr_stream_options q \<noteq> None))"
proof (cases r)
  case (PR_Responses q)
  then show ?thesis using assms normalize_idempotent [OF assms]
    by (auto simp: normalize_for_upstream_def Let_def normalize_chat_upstream_def normalize_xai_def
        map_sum_Inr normalize_chatgpt_def chatgpt_responses_def split: if_splits)
next
  case (PR_ChatCompletions q)
  then show ?thesis using assms normalize_idempotent [OF assms] normalize_chat_metered
    by (auto simp: normalize_for_upstream_def Let_def normalize_chat_upstream_def normalize_xai_def
        chatgpt_responses_def split: if_splits option.splits)
qed (use assms normalize_idempotent [OF assms] in
    \<open>auto simp: normalize_for_upstream_def Let_def normalize_chat_upstream_def normalize_xai_def
        chatgpt_responses_def split: if_splits\<close>)

theorem normalized_request_witness:
  "\<exists>q. normalize_for_upstream P_XAI (U_OpenAIChatCompletions ChatCompletions)
        (PR_ChatCompletions (chat_request_default\<lparr>cr_model := ''grok'', cr_stream := Some True\<rparr>)) =
      Inr (PR_ChatCompletions q) \<and>
     cr_stream q = Some True \<and> cr_stream_options q \<noteq> None"
proof -
  let ?r = "PR_ChatCompletions (chat_request_default\<lparr>cr_model := ''grok'', cr_stream := Some True\<rparr>)"
  let ?u = "U_OpenAIChatCompletions ChatCompletions"
  obtain q where q: "normalize_for_upstream P_XAI ?u ?r = Inr (PR_ChatCompletions q)"
    "cr_model q = ''grok''"
    by (simp add: normalize_for_upstream_def normalize_chat_upstream_def normalize_xai_def)
  then show ?thesis using normalized_request [OF q(1)]
    by (auto simp: is_kimi_code_model_def)
qed

subsection \<open>What a translation loses\<close>

fun clear_error :: "content_block \<Rightarrow> content_block" where
  "clear_error (CB_ToolResult i _ r cache) = CB_ToolResult i None r cache"
| "clear_error (CB_WebSearchToolResult i _ bs) = CB_WebSearchToolResult i None bs"
| "clear_error (CB_CodeExecutionToolResult i _ bs) = CB_CodeExecutionToolResult i None bs"
| "clear_error (CB_McpToolResult i _ bs) = CB_McpToolResult i None bs"
| "clear_error b = b"

definition clear_errors :: "messages_message \<Rightarrow> messages_message" where
  "clear_errors m =
     (case mm_content m of
        MMC_Single _ \<Rightarrow> m
      | MMC_Blocks bs \<Rightarrow> m\<lparr>mm_content := MMC_Blocks (map clear_error bs)\<rparr>)"

lemma clear_error_blocks:
  "List.map_filter block_content_part (map clear_error bs) = List.map_filter block_content_part bs"
  "List.map_filter (block_tool_call c) (map clear_error bs) = List.map_filter (block_tool_call c) bs"
  "map tool_result_message (List.map_filter block_tool_result (map clear_error bs)) =
     map tool_result_message (List.map_filter block_tool_result bs)"
proof (induction bs)
  case (Cons b bs)
  case 1 show ?case using Cons by (cases b) (auto simp: map_filter_simps)
  case 2 show ?case using Cons by (cases b) (auto simp: map_filter_simps)
  case 3 show ?case using Cons by (cases b) (auto simp: map_filter_simps tool_result_message_def)
qed (auto simp: map_filter_simps)

lemma clear_errors_chat: "messages_message_to_chat c (clear_errors m) = messages_message_to_chat c m"
  by (cases "mm_content m")
     (simp_all add: clear_errors_def messages_message_to_chat_def split_for_openai_def
       clear_error_blocks)

text \<open>
  Chat Completions does not tell a failed tool from a successful one: clearing the error flags
  of an Anthropic request changes nothing of its translation. Bedrock is told of the failure.
\<close>

theorem tool_error_flag_lost:
  "messages_to_chat_request c (r\<lparr>mq_messages := map clear_errors (mq_messages r)\<rparr>) =
     messages_to_chat_request c r \<and>
   (\<exists>b. messages_block_to_bedrock (CB_ToolResult i (Some True) t cache) = Some (BB_ToolResult b) \<and>
        trb_status b = Some TRS_Error)"
  by (simp add: messages_to_chat_request_def clear_errors_chat comp_def)

text \<open>
  The temperature a GPT-5 model asks for is set for Anthropic clients, but a request of a
  Responses client keeps its own when it is translated to Chat Completions.
\<close>

theorem gpt5_temperature_by_client:
  assumes "responses_to_chat_request c r = Inr q" and "starts_with (rq_model r) ''gpt-5''"
  shows "cr_temperature q = rq_temperature r \<and>
    (mq_model m = rq_model r \<longrightarrow> cr_temperature (messages_to_chat_request c m) = Some f32_one)"
  using assms responses_to_chat_sel [OF assms(1)] by (simp add: messages_to_chat_request_sel)

end
