(* ===== verification/Request_Interface.thy ===== *)
theory Request_Interface
  imports Provider_Request
begin

section \<open>The request interface as a locale\<close>

text \<open>
  What the callers of the trait \<open>ProviderRequest\<close> rely on: setting the model and removing metadata
  keys change nothing else. A client that stamps a model and strips keys is reasoned about once,
  in the locale; it is interpreted on each request type and on the enum.
\<close>

locale request_interface =
  fixes get_model :: "'r \<Rightarrow> string"
    and set_model :: "string \<Rightarrow> 'r \<Rightarrow> 'r"
    and streaming :: "'r \<Rightarrow> bool"
    and token_text :: "'r \<Rightarrow> string"
    and metadata :: "'r \<Rightarrow> (string \<times> json) list option"
    and remove_metadata :: "string \<Rightarrow> 'r \<Rightarrow> bool \<times> 'r"
  assumes model_set: "get_model (set_model m r) = m"
    and set_set: "set_model m (set_model n r) = set_model m r"
    and streaming_set: "streaming (set_model m r) = streaming r"
    and text_set: "token_text (set_model m r) = token_text r"
    and metadata_set: "metadata (set_model m r) = metadata r"
    and remove_found: "fst (remove_metadata k r) = fst (remove_key k (metadata r))"
    and metadata_remove: "metadata (snd (remove_metadata k r)) = snd (remove_key k (metadata r))"
    and model_remove: "get_model (snd (remove_metadata k r)) = get_model r"
    and streaming_remove: "streaming (snd (remove_metadata k r)) = streaming r"
    and text_remove: "token_text (snd (remove_metadata k r)) = token_text r"
    and set_remove: "set_model m (snd (remove_metadata k r)) = snd (remove_metadata k (set_model m r))"

definition meta_value :: "(string \<times> json) list option \<Rightarrow> string \<Rightarrow> json option" where
  "meta_value md k = (case md of Some m \<Rightarrow> map_of m k | None \<Rightarrow> None)"

lemma map_of_AList_delete: "map_of (AList.delete k m) j = (if j = k then None else map_of m j)"
  by (simp add: delete_conv')

lemma meta_value_remove:
  "meta_value (snd (remove_key k md)) j = (if j = k then None else meta_value md j)"
  by (cases md) (auto simp: remove_key_def meta_value_def map_of_AList_delete)

definition strip_keys :: "(string \<Rightarrow> 'r \<Rightarrow> bool \<times> 'r) \<Rightarrow> string list \<Rightarrow> 'r \<Rightarrow> 'r" where
  "strip_keys remove ks r = fold (\<lambda>k r. snd (remove k r)) ks r"

lemma strip_keys_simps [simp]:
  "strip_keys remove [] r = r"
  "strip_keys remove (k # ks) r = strip_keys remove ks (snd (remove k r))"
  by (simp_all add: strip_keys_def)

context request_interface
begin

lemma stripped:
  "get_model (strip_keys remove_metadata ks r) = get_model r \<and>
   streaming (strip_keys remove_metadata ks r) = streaming r \<and>
   token_text (strip_keys remove_metadata ks r) = token_text r \<and>
   meta_value (metadata (strip_keys remove_metadata ks r)) k =
     (if k \<in> set ks then None else meta_value (metadata r) k)"
  by (induction ks arbitrary: r)
     (auto simp: model_remove streaming_remove text_remove metadata_remove meta_value_remove)

lemma stamped:
  "get_model (strip_keys remove_metadata ks (set_model m r)) = m \<and>
   streaming (strip_keys remove_metadata ks (set_model m r)) = streaming r \<and>
   token_text (strip_keys remove_metadata ks (set_model m r)) = token_text r \<and>
   meta_value (metadata (strip_keys remove_metadata ks (set_model m r))) k =
     (if k \<in> set ks then None else meta_value (metadata r) k)"
  using stripped [of ks "set_model m r" k] by (simp add: model_set streaming_set text_set metadata_set)

lemma set_after_strip:
  "set_model m (strip_keys remove_metadata ks (set_model n r)) =
   strip_keys remove_metadata ks (set_model m r)"
proof -
  have "set_model m (strip_keys remove_metadata ks r) = strip_keys remove_metadata ks (set_model m r)"
    for r by (induction ks arbitrary: r) (simp_all add: set_remove)
  then show ?thesis by (simp add: set_set)
qed

end

subsection \<open>The providers\<close>

definition remove_through ::
    "('r \<Rightarrow> (string \<times> json) list option) \<Rightarrow> ((string \<times> json) list option \<Rightarrow> 'r \<Rightarrow> 'r) \<Rightarrow>
     string \<Rightarrow> 'r \<Rightarrow> bool \<times> 'r" where
  "remove_through get put k r = (let (found, md) = remove_key k (get r) in (found, put md r))"

lemma remove_through_sel [simp]:
  "fst (remove_through get put k r) = fst (remove_key k (get r))"
  "snd (remove_through get put k r) = put (snd (remove_key k (get r))) r"
  by (simp_all add: remove_through_def split: prod.splits)

interpretation chat_request: request_interface cr_model "\<lambda>m. cr_model_update (\<lambda>_. m)"
  "\<lambda>r. case_option False id (cr_stream r)" chat_extract_messages_text cr_metadata
  "remove_through cr_metadata (\<lambda>md. cr_metadata_update (\<lambda>_. md))"
  by unfold_locales (simp_all add: chat_extract_messages_text_def)

interpretation messages_request: request_interface mq_model "\<lambda>m. mq_model_update (\<lambda>_. m)"
  "\<lambda>r. case_option False id (mq_stream r)" messages_extract_messages_text mq_metadata
  "remove_through mq_metadata (\<lambda>md. mq_metadata_update (\<lambda>_. md))"
  by unfold_locales (simp_all add: messages_extract_messages_text_def)

interpretation converse_request: request_interface bq_model_id "\<lambda>m. bq_model_id_update (\<lambda>_. m)"
  bq_stream converse_extract_messages_text bq_metadata
  "remove_through bq_metadata (\<lambda>md. bq_metadata_update (\<lambda>_. md))"
  by unfold_locales (simp_all add: converse_extract_messages_text_def)

interpretation responses_request: request_interface rq_model "\<lambda>m. rq_model_update (\<lambda>_. m)"
  "\<lambda>r. case_option False id (rq_stream r)" "\<lambda>r. responses_extract_input_text (rq_input r)"
  rq_metadata "remove_through rq_metadata (\<lambda>md. rq_metadata_update (\<lambda>_. md))"
  by unfold_locales simp_all

lemma pr_set_metadata_sel [simp]:
  "pr_metadata (pr_set_metadata md r) = md" "pr_model (pr_set_metadata md r) = pr_model r"
  "pr_is_streaming (pr_set_metadata md r) = pr_is_streaming r"
  "pr_extract_messages_text (pr_set_metadata md r) = pr_extract_messages_text r"
  "pr_set_model m (pr_set_metadata md r) = pr_set_metadata md (pr_set_model m r)"
  "pr_metadata (pr_set_model m r) = pr_metadata r"
  by (cases r; simp add: chat_extract_messages_text_def messages_extract_messages_text_def
      converse_extract_messages_text_def)+

lemma pr_remove_sel:
  "fst (pr_remove_metadata_key k r) = fst (remove_key k (pr_metadata r))"
  "snd (pr_remove_metadata_key k r) = pr_set_metadata (snd (remove_key k (pr_metadata r))) r"
  by (simp_all add: pr_remove_metadata_key_def split: prod.splits)

interpretation request: request_interface pr_model pr_set_model pr_is_streaming
  pr_extract_messages_text pr_metadata pr_remove_metadata_key
proof
  fix m n k and r :: provider_request
  show "pr_model (pr_set_model m r) = m" "pr_set_model m (pr_set_model n r) = pr_set_model m r"
    "pr_is_streaming (pr_set_model m r) = pr_is_streaming r"
    "pr_extract_messages_text (pr_set_model m r) = pr_extract_messages_text r"
    by (cases r; simp add: chat_extract_messages_text_def messages_extract_messages_text_def
        converse_extract_messages_text_def)+
qed (simp_all add: pr_remove_sel)

end
