(* ===== verification/Llm_Providers.thy ===== *)
theory Llm_Providers
  imports Endpoints "HOL-Library.AList" "HOL-Library.Word"
begin

section \<open>The configured LLM providers and their lookup\<close>

text \<open>
  The provider entries of \<open>crates/common/src/configuration.rs\<close>, the table built from them and
  its lookup in \<open>crates/common/src/llm_providers.rs\<close>, the provider hint of
  \<open>crates/common/src/routing.rs\<close> and the gateway's \<open>select_llm_provider\<close>
  (\<open>crates/llm_gateway/src/stream_context.rs\<close>). Hash maps are association lists with
  \<open>AList.update\<close> as the insertion; sets are lists. The parsed \<open>provider_models.yaml\<close> is the
  parameter \<open>registry\<close>. Logging is not modelled.
\<close>

subsection \<open>Configuration entries\<close>

datatype time_unit = TU_Second | TU_Minute | TU_Hour | TU_Day

record limit =
  lim_tokens :: "32 word"
  lim_unit :: time_unit

record ratelimit_header =
  rh_name :: string
  rh_value :: "string option"

record llm_ratelimit =
  lr_selector :: "ratelimit_header option"
  lr_limit :: limit

record llm_provider =
  lp_name :: string
  lp_provider_interface :: llm_provider_type
  lp_access_key :: "string option"
  lp_model :: "string option"
  lp_default :: "bool option"
  lp_stream :: "bool option"
  lp_endpoint :: "string option"
  lp_port :: "16 word option"
  lp_rate_limits :: "llm_ratelimit option"
  lp_usage :: "string option"
  lp_cluster_name :: "string option"
  lp_base_url_path_prefix :: "string option"
  lp_internal :: "bool option"
  lp_passthrough_auth :: "bool option"
  lp_headers :: "(string \<times> string) list option"

text \<open>\<open>LlmProvider::default\<close>.\<close>

definition llm_provider_default :: llm_provider where
  "llm_provider_default =
     \<lparr>lp_name = ''openai'', lp_provider_interface = L_OpenAI, lp_access_key = None,
      lp_model = None, lp_default = Some True, lp_stream = Some False, lp_endpoint = None,
      lp_port = None, lp_rate_limits = None, lp_usage = None, lp_cluster_name = None,
      lp_base_url_path_prefix = None, lp_internal = None, lp_passthrough_auth = None,
      lp_headers = None\<rparr>"

text \<open>\<open>LlmProvider::to_provider_id\<close>.\<close>

definition lp_to_provider_id :: "llm_provider \<Rightarrow> string + provider_id" where
  "lp_to_provider_id p = to_provider_id (lp_provider_interface p)"

record model_detail =
  md_id :: string
  md_object :: "string option"
  md_created :: nat
  md_owned_by :: string

text \<open>\<open>IntoModels for Vec<LlmProvider>\<close>; the list object is its data.\<close>

definition into_models :: "llm_provider list \<Rightarrow> model_detail list" where
  "into_models ps =
     map (\<lambda>p. \<lparr>md_id = lp_name p, md_object = Some ''model'', md_created = 0,
               md_owned_by = ''system''\<rparr>)
       (filter (\<lambda>p. lp_internal p \<noteq> Some True) ps)"

subsection \<open>The table\<close>

record llm_providers =
  providers :: "(string \<times> llm_provider) list"
  default_provider :: "llm_provider option"
  wildcard_providers :: "(string \<times> llm_provider) list"

datatype new_error = EmptySource | MoreThanOneDefault | DuplicateName string

definition is_wildcard :: "llm_provider \<Rightarrow> bool" where
  "is_wildcard p =
     (case lp_model p of None \<Rightarrow> False | Some m \<Rightarrow> m = ''*'' \<or> ends_with m ''/*'')"

definition wildcard_prefix :: "llm_provider \<Rightarrow> string" where
  "wildcard_prefix p = trim_end_matches (CHR ''*'') (trim_end_str ''/*'' (lp_name p))"

definition is_default :: "llm_provider \<Rightarrow> bool" where
  "is_default p = (lp_default p = Some True)"

text \<open>The first pass: the models with an entry of their own, by provider prefix.\<close>

definition collect_specific ::
    "(string \<times> string list) list \<Rightarrow> llm_provider \<Rightarrow> (string \<times> string list) list" where
  "collect_specific acc p =
     (if is_wildcard p then acc
      else
        (case split_once (CHR ''/'') (lp_name p) of
           None \<Rightarrow> acc
         | Some (pre, m) \<Rightarrow>
             AList.update pre
               (List.insert m (case map_of acc pre of None \<Rightarrow> [] | Some ms \<Rightarrow> ms)) acc))"

definition specific_models_by_provider :: "llm_provider list \<Rightarrow> (string \<times> string list) list" where
  "specific_models_by_provider cfg = foldl collect_specific [] cfg"

definition models_to_exclude :: "(string \<times> string list) list \<Rightarrow> string \<Rightarrow> string list" where
  "models_to_exclude sp pre = (case map_of sp pre of None \<Rightarrow> [] | Some ms \<Rightarrow> ms)"

text \<open>The expansion of a wildcard entry, one model at a time.\<close>

definition expand_model ::
    "string \<Rightarrow> llm_provider \<Rightarrow> string list \<Rightarrow> (string \<times> llm_provider) list \<Rightarrow> string
       \<Rightarrow> (string \<times> llm_provider) list" where
  "expand_model pre p excluded tab m =
     (if m \<in> set excluded then tab
      else
        (let full_model_id = pre @ ''/'' @ m;
             expanded = p\<lparr>lp_model := Some m, lp_name := full_model_id\<rparr>
         in AList.update m expanded (AList.update full_model_id expanded tab)))"

definition add_wildcard ::
    "(string \<Rightarrow> string list option) \<Rightarrow> (string \<times> string list) list \<Rightarrow> llm_provider
       \<Rightarrow> llm_providers \<Rightarrow> llm_providers" where
  "add_wildcard registry sp p t =
     (let pre = wildcard_prefix p;
          t1 = t\<lparr>wildcard_providers := AList.update pre p (wildcard_providers t)\<rparr>
      in case provider_try_from pre of
           Inl _ \<Rightarrow> t1
         | Inr pid \<Rightarrow>
             t1\<lparr>providers := foldl (expand_model pre p (models_to_exclude sp pre)) (providers t1)
                              (provider_models registry pid)\<rparr>)"

definition add_specific :: "llm_provider \<Rightarrow> llm_providers \<Rightarrow> llm_providers" where
  "add_specific p t =
     (let tab = AList.update (lp_name p) p (providers t)
      in t\<lparr>providers :=
             (case lp_model p of None \<Rightarrow> tab | Some m \<Rightarrow> AList.update m p tab)\<rparr>)"

text \<open>The second pass; \<open>names\<close> is \<open>specific_provider_names\<close>.\<close>

fun add_providers ::
    "(string \<Rightarrow> string list option) \<Rightarrow> (string \<times> string list) list \<Rightarrow> llm_provider list
       \<Rightarrow> string list \<Rightarrow> llm_providers \<Rightarrow> new_error + llm_providers" where
  "add_providers registry sp [] names t = Inr t"
| "add_providers registry sp (p # ps) names t =
     (if is_default p \<and> default_provider t \<noteq> None then Inl MoreThanOneDefault
      else
        (let t1 = (if is_default p then t\<lparr>default_provider := Some p\<rparr> else t)
         in if is_wildcard p then
              add_providers registry sp ps names (add_wildcard registry sp p t1)
            else if lp_name p \<in> set names then Inl (DuplicateName (lp_name p))
            else add_providers registry sp ps (lp_name p # names) (add_specific p t1)))"

text \<open>\<open>LlmProviders::try_from\<close>.\<close>

definition llm_providers_try_from ::
    "(string \<Rightarrow> string list option) \<Rightarrow> llm_provider list \<Rightarrow> new_error + llm_providers" where
  "llm_providers_try_from registry cfg =
     (if cfg = [] then Inl EmptySource
      else add_providers registry (specific_models_by_provider cfg) cfg []
             \<lparr>providers = [], default_provider = None, wildcard_providers = []\<rparr>)"

text \<open>\<open>LlmProviders::get\<close>.\<close>

definition providers_get :: "llm_providers \<Rightarrow> string \<Rightarrow> llm_provider option" where
  "providers_get t name =
     (case map_of (providers t) name of
        Some p \<Rightarrow> Some p
      | None \<Rightarrow>
          (case split_once (CHR ''/'') name of
             None \<Rightarrow> None
           | Some (provider_prefix, model_name) \<Rightarrow>
               (case map_of (providers t) (provider_prefix @ ''/'' @ model_name) of
                  Some p \<Rightarrow> Some p
                | None \<Rightarrow>
                    (case map_of (providers t) model_name of
                       Some p \<Rightarrow> Some p
                     | None \<Rightarrow>
                         (case map_of (wildcard_providers t) provider_prefix of
                            Some w \<Rightarrow> Some (w\<lparr>lp_model := Some model_name\<rparr>)
                          | None \<Rightarrow> None)))))"

text \<open>
  \<open>LlmProviders::to_models\<close>; \<open>order\<close> is the order in which the hash map is iterated, and
  \<open>Inl\<close> the panic of \<open>to_provider_id\<close>.
\<close>

fun model_details :: "(string \<times> llm_provider) list \<Rightarrow> string + model_detail list" where
  "model_details [] = Inr []"
| "model_details ((key, p) # es) =
     (if lp_internal p \<noteq> Some True \<and> key = lp_name p then
        (case lp_to_provider_id p of
           Inl e \<Rightarrow> Inl e
         | Inr pid \<Rightarrow>
             (case model_details es of
                Inl e \<Rightarrow> Inl e
              | Inr ms \<Rightarrow>
                  Inr (\<lparr>md_id = key, md_object = Some ''model'', md_created = 0,
                        md_owned_by = provider_display pid\<rparr> # ms)))
      else model_details es)"

definition to_models ::
    "((string \<times> llm_provider) list \<Rightarrow> (string \<times> llm_provider) list) \<Rightarrow> llm_providers
       \<Rightarrow> string + model_detail list" where
  "to_models order t = model_details (order (providers t))"

subsection \<open>Routing\<close>

datatype provider_hint = HintDefault | HintName string

definition hint_of_string :: "string \<Rightarrow> provider_hint" where
  "hint_of_string v = (if v = ''default'' then HintDefault else HintName v)"

fun get_llm_provider :: "llm_providers \<Rightarrow> provider_hint option \<Rightarrow> string + llm_provider" where
  "get_llm_provider t (Some HintDefault) =
     (case default_provider t of
        Some p \<Rightarrow> Inr p
      | None \<Rightarrow> Inl ''No default provider configured'')"
| "get_llm_provider t (Some (HintName name)) =
     (case providers_get t name of
        Some p \<Rightarrow> Inr p
      | None \<Rightarrow> Inl (''Model '' @ [CHR 0x27] @ name @ [CHR 0x27]
                       @ '' not found in configured providers''))"
| "get_llm_provider t None = Inl ''No model specified in request''"

text \<open>
  \<open>StreamContext::select_llm_provider\<close>; \<open>hint\<close> is the value of the header
  \<open>x-arch-llm-provider-hint\<close>.
\<close>

definition select_llm_provider :: "llm_providers \<Rightarrow> string option \<Rightarrow> string + llm_provider" where
  "select_llm_provider t hint =
     (case get_llm_provider t (map_option hint_of_string hint) of
        Inr p \<Rightarrow> Inr p
      | Inl err \<Rightarrow>
          (case default_provider t of
             Some p \<Rightarrow> Inr p
           | None \<Rightarrow> Inl err))"

text \<open>
  \<open>get_provider_info\<close> of \<open>crates/brightstaff/src/handlers/llm/mod.rs\<close>; the flag asks for
  unversioned upstream paths.
\<close>

definition get_provider_info ::
    "llm_providers \<Rightarrow> string \<Rightarrow> string + (provider_id \<times> string option \<times> bool)" where
  "get_provider_info t model_name =
     (let info = (\<lambda>p. case lp_to_provider_id p of
                        Inl e \<Rightarrow> Inl e
                      | Inr pid \<Rightarrow> Inr (pid, lp_base_url_path_prefix p,
                                        starts_with (lp_name p) ''perplexity/''))
      in case providers_get t model_name of
           Some p \<Rightarrow> info p
         | None \<Rightarrow>
             (case default_provider t of
                Some p \<Rightarrow> info p
              | None \<Rightarrow> Inr (P_OpenAI, None, False)))"

text \<open>\<open>get_upstream_path\<close> of the same file.\<close>

definition get_upstream_path ::
    "llm_providers \<Rightarrow> string \<Rightarrow> string \<Rightarrow> string \<Rightarrow> bool \<Rightarrow> string + string" where
  "get_upstream_path t model_name request_path resolved_model is_streaming =
     (case get_provider_info t model_name of
        Inl e \<Rightarrow> Inl e
      | Inr (pid, base, unversioned) \<Rightarrow>
          (case client_from_endpoint request_path of
             None \<Rightarrow> Inr request_path
           | Some api \<Rightarrow>
               Inr (target_endpoint_for_provider api pid request_path resolved_model is_streaming
                      base unversioned)))"

subsection \<open>The table as a list of writes\<close>

text \<open>
  The abstract specification: every entry writes some keys, and a lookup sees the last write.
\<close>

definition specific :: "llm_provider \<Rightarrow> bool" where
  "specific p = (\<not> is_wildcard p)"

definition has_own_entry :: "llm_provider list \<Rightarrow> string \<Rightarrow> string \<Rightarrow> bool" where
  "has_own_entry cfg pre m =
     (\<exists>q \<in> set cfg. specific q \<and> split_once (CHR ''/'') (lp_name q) = Some (pre, m))"

definition expanded_provider :: "llm_provider \<Rightarrow> string \<Rightarrow> llm_provider" where
  "expanded_provider p m = p\<lparr>lp_model := Some m, lp_name := wildcard_prefix p @ ''/'' @ m\<rparr>"

definition expanded_models ::
    "(string \<Rightarrow> string list option) \<Rightarrow> llm_provider list \<Rightarrow> llm_provider \<Rightarrow> string list" where
  "expanded_models registry cfg p =
     (case provider_try_from (wildcard_prefix p) of
        Inl _ \<Rightarrow> []
      | Inr pid \<Rightarrow> filter (\<lambda>m. \<not> has_own_entry cfg (wildcard_prefix p) m)
                    (provider_models registry pid))"

definition entry_writes ::
    "(string \<Rightarrow> string list option) \<Rightarrow> llm_provider list \<Rightarrow> llm_provider
       \<Rightarrow> (string \<times> llm_provider) list" where
  "entry_writes registry cfg p =
     (if is_wildcard p then
        concat (map (\<lambda>m. [(wildcard_prefix p @ ''/'' @ m, expanded_provider p m),
                          (m, expanded_provider p m)])
                  (expanded_models registry cfg p))
      else (lp_name p, p) # (case lp_model p of None \<Rightarrow> [] | Some m \<Rightarrow> [(m, p)]))"

definition table_writes ::
    "(string \<Rightarrow> string list option) \<Rightarrow> llm_provider list \<Rightarrow> (string \<times> llm_provider) list" where
  "table_writes registry cfg = concat (map (entry_writes registry cfg) cfg)"

lemma map_of_rev_append: "map_of (rev (xs @ ys)) = map_of (rev xs) ++ map_of (rev ys)"
  by simp

lemma map_of_update [simp]: "map_of (AList.update k v al) = (map_of al)(k \<mapsto> v)"
  by (rule update_conv')

lemma foldl_models:
  "set (models_to_exclude (foldl collect_specific acc ps) pre) =
     set (models_to_exclude acc pre) \<union> {m. has_own_entry ps pre m}"
proof (induction ps arbitrary: acc)
  case Nil
  then show ?case by (simp add: has_own_entry_def)
next
  case (Cons p ps)
  have "set (models_to_exclude (collect_specific acc p) pre) =
     set (models_to_exclude acc pre) \<union> {m. has_own_entry [p] pre m}"
  proof (cases "split_once (CHR ''/'') (lp_name p)")
    case None
    then show ?thesis by (simp add: collect_specific_def has_own_entry_def del: split_once_None)
  next
    case (Some x)
    obtain a b where x: "x = (a, b)" by (cases x)
    show ?thesis
      by (cases "map_of acc a"; cases "a = pre")
        (auto simp: Some x collect_specific_def models_to_exclude_def has_own_entry_def
          specific_def)
  qed
  then show ?case using Cons.IH [of "collect_specific acc p"]
    by (auto simp: has_own_entry_def)
qed

lemma excluded_iff:
  "m \<in> set (models_to_exclude (specific_models_by_provider cfg) pre) \<longleftrightarrow> has_own_entry cfg pre m"
  unfolding specific_models_by_provider_def foldl_models by (simp add: models_to_exclude_def)

lemma foldl_expand:
  "map_of (foldl (expand_model (wildcard_prefix p) p ex) tab ms) =
     map_of tab ++ map_of (rev (concat
       (map (\<lambda>m. [(wildcard_prefix p @ ''/'' @ m, expanded_provider p m),
                   (m, expanded_provider p m)])
          (filter (\<lambda>m. m \<notin> set ex) ms))))"
  by (induction ms arbitrary: tab)
    (simp_all add: expand_model_def Let_def expanded_provider_def)

lemma add_wildcard_table:
  assumes "is_wildcard p"
  shows "map_of (providers (add_wildcard registry (specific_models_by_provider cfg) p t)) =
      map_of (providers t) ++ map_of (rev (entry_writes registry cfg p))"
    and "map_of (wildcard_providers (add_wildcard registry sp p t)) =
      (map_of (wildcard_providers t))(wildcard_prefix p \<mapsto> p)"
    and "default_provider (add_wildcard registry sp p t) = default_provider t"
  using assms
  by (simp_all add: add_wildcard_def Let_def entry_writes_def expanded_models_def foldl_expand
      excluded_iff split: sum.split)

lemma add_specific_table:
  assumes "\<not> is_wildcard p"
  shows "map_of (providers (add_specific p t)) =
      map_of (providers t) ++ map_of (rev (entry_writes registry cfg p))"
    and "wildcard_providers (add_specific p t) = wildcard_providers t"
    and "default_provider (add_specific p t) = default_provider t"
  using assms
  by (auto simp: add_specific_def Let_def entry_writes_def split: option.split)

lemma add_providers_table:
  assumes "add_providers registry (specific_models_by_provider cfg) ps names t = Inr t'"
  shows "map_of (providers t') =
      map_of (providers t) ++ map_of (rev (concat (map (entry_writes registry cfg) ps))) \<and>
    map_of (wildcard_providers t') =
      map_of (wildcard_providers t)
        ++ map_of (rev (map (\<lambda>p. (wildcard_prefix p, p)) (filter is_wildcard ps))) \<and>
    default_provider t' =
      (if default_provider t = None then find is_default ps else default_provider t)"
  using assms
proof (induction ps arbitrary: names t)
  case Nil
  then show ?case by auto
next
  case (Cons p ps)
  let ?t = "if is_default p then t\<lparr>default_provider := Some p\<rparr> else t"
  have guard: "\<not> (is_default p \<and> default_provider t \<noteq> None)"
    using Cons.prems by (auto split: if_splits)
  have eq: "providers ?t = providers t" "wildcard_providers ?t = wildcard_providers t"
    by simp_all
  show ?case
  proof (cases "is_wildcard p")
    case True
    then have "add_providers registry (specific_models_by_provider cfg) ps names
        (add_wildcard registry (specific_models_by_provider cfg) p ?t) = Inr t'"
      using Cons.prems guard by (auto simp: Let_def split: if_splits)
    note ih = Cons.IH [OF this]
    have "map_of (wildcard_providers t') = map_of (wildcard_providers t)
        ++ map_of (rev (map (\<lambda>p. (wildcard_prefix p, p)) (filter is_wildcard (p # ps))))"
      unfolding conjunct1 [OF conjunct2 [OF ih]] add_wildcard_table (2) [OF True] eq
      using True by simp
    then show ?thesis using ih True guard eq
      by (cases "is_default p") (simp_all add: add_wildcard_table)
  next
    case False
    then have "add_providers registry (specific_models_by_provider cfg) ps (lp_name p # names)
        (add_specific p ?t) = Inr t'"
      using Cons.prems guard by (auto simp: Let_def split: if_splits)
    from Cons.IH [OF this] show ?thesis using False guard eq
      by (cases "is_default p") (simp_all add: add_specific_table (1) [where registry = registry and cfg = cfg]
        add_specific_table (2, 3))
  qed
qed

lemma try_from_table:
  assumes "llm_providers_try_from registry cfg = Inr t"
  shows "map_of (providers t) = map_of (rev (table_writes registry cfg))"
    and "map_of (wildcard_providers t) =
      map_of (rev (map (\<lambda>p. (wildcard_prefix p, p)) (filter is_wildcard cfg)))"
    and "default_provider t = find is_default cfg"
  using assms add_providers_table [where ps = cfg and names = "[]"]
  by (auto simp: llm_providers_try_from_def table_writes_def split: if_splits)

text \<open>
  (C34) The table that is built from a configuration is the list of its entries' writes, the last
  write to a key winning: a specific entry writes its name and its model; a wildcard entry writes,
  for every model of its provider without an entry of its own, the full identifier and the bare
  model name. The wildcard table and the default provider are read off the configuration.
\<close>

theorem llm_providers_table:
  assumes "llm_providers_try_from registry cfg = Inr t"
  shows "map_of (providers t) = map_of (rev (table_writes registry cfg)) \<and>
    map_of (wildcard_providers t) =
      map_of (rev (map (\<lambda>p. (wildcard_prefix p, p)) (filter is_wildcard cfg))) \<and>
    default_provider t = find is_default cfg"
  using try_from_table [OF assms] by simp

subsection \<open>Which configurations are accepted\<close>

lemma add_providers_ok:
  "is_ok (add_providers registry sp ps names t) \<longleftrightarrow>
     length (filter is_default ps) \<le> (if default_provider t = None then 1 else 0) \<and>
     distinct (map lp_name (filter specific ps)) \<and>
     set (map lp_name (filter specific ps)) \<inter> set names = {}"
proof (induction ps arbitrary: names t)
  case Nil
  then show ?case by simp
next
  case (Cons p ps)
  have d: "default_provider (add_wildcard registry sp p u) = default_provider u"
    "default_provider (add_specific p u) = default_provider u" for u
    by (simp_all add: add_wildcard_def add_specific_def Let_def split: sum.split)
  show ?case
    by (cases "is_default p"; cases "default_provider t"; cases "is_wildcard p")
      (auto simp: Cons.IH Let_def d specific_def)
qed

lemma try_from_ok:
  "is_ok (llm_providers_try_from registry cfg) \<longleftrightarrow>
     cfg \<noteq> [] \<and> length (filter is_default cfg) \<le> 1 \<and> distinct (map lp_name (filter specific cfg))"
  by (simp add: llm_providers_try_from_def add_providers_ok)

lemma add_providers_error:
  assumes "add_providers registry sp ps names t = Inl e"
  shows "(e = MoreThanOneDefault \<and>
      2 \<le> length (filter is_default ps) + (if default_provider t = None then 0 else 1)) \<or>
    (\<exists>n. e = DuplicateName n \<and>
      2 \<le> length (filter (\<lambda>p. specific p \<and> lp_name p = n) ps) + (if n \<in> set names then 1 else 0))"
  using assms
proof (induction ps arbitrary: names t)
  case Nil
  then show ?case by simp
next
  case (Cons p ps)
  let ?t = "if is_default p then t\<lparr>default_provider := Some p\<rparr> else t"
  have d: "default_provider (add_wildcard registry sp p u) = default_provider u"
    "default_provider (add_specific p u) = default_provider u" for u
    by (simp_all add: add_wildcard_def add_specific_def Let_def split: sum.split)
  consider (dflt) "is_default p" "default_provider t \<noteq> None"
    | (wild) "\<not> (is_default p \<and> default_provider t \<noteq> None)" "is_wildcard p"
    | (dup) "\<not> (is_default p \<and> default_provider t \<noteq> None)" "\<not> is_wildcard p"
        "lp_name p \<in> set names"
    | (spec) "\<not> (is_default p \<and> default_provider t \<noteq> None)" "\<not> is_wildcard p"
        "lp_name p \<notin> set names"
    by blast
  then show ?case
  proof cases
    case dflt
    then show ?thesis using Cons.prems by auto
  next
    case wild
    then have "add_providers registry sp ps names (add_wildcard registry sp p ?t) = Inl e"
      using Cons.prems by (auto simp: Let_def split: if_splits)
    from Cons.IH [OF this] show ?thesis using wild
      by (cases "is_default p"; cases "default_provider t")
        (auto simp: d specific_def split: if_splits)
  next
    case dup
    then have "e = DuplicateName (lp_name p)" using Cons.prems by (auto simp: Let_def)
    then show ?thesis using dup by (simp add: specific_def)
  next
    case spec
    then have "add_providers registry sp ps (lp_name p # names) (add_specific p ?t) = Inl e"
      using Cons.prems by (auto simp: Let_def split: if_splits)
    from Cons.IH [OF this] show ?thesis using spec
      by (cases "is_default p"; cases "default_provider t")
        (auto simp: d specific_def split: if_splits)
  qed
qed

text \<open>
  A configuration is accepted exactly when it is not empty, has at most one default entry
  and no two specific entries of the same name; and each error says what is wrong: no entry at
  all, two default entries, or two specific entries with the reported name.
\<close>

theorem llm_providers_errors:
  "(case llm_providers_try_from registry cfg of
      Inr t \<Rightarrow> cfg \<noteq> [] \<and> length (filter is_default cfg) \<le> 1 \<and>
              distinct (map lp_name (filter specific cfg))
    | Inl EmptySource \<Rightarrow> cfg = []
    | Inl MoreThanOneDefault \<Rightarrow> 2 \<le> length (filter is_default cfg)
    | Inl (DuplicateName n) \<Rightarrow> 2 \<le> length (filter (\<lambda>p. specific p \<and> lp_name p = n) cfg))"
proof (cases "llm_providers_try_from registry cfg")
  case (Inr t)
  then show ?thesis using try_from_ok [of registry cfg] by simp
next
  case (Inl e)
  show ?thesis
  proof (cases "cfg = []")
    case True
    then show ?thesis by (simp add: llm_providers_try_from_def)
  next
    case False
    then show ?thesis
      using Inl add_providers_error [of registry "specific_models_by_provider cfg" cfg "[]"
          "\<lparr>providers = [], default_provider = None, wildcard_providers = []\<rparr>" e]
      by (auto simp: llm_providers_try_from_def)
  qed
qed

subsection \<open>Requests stay within the configuration\<close>

text \<open>
  Two providers of the same account: they differ in name and model at most, so they share
  the interface, the credential, the endpoint, the base path and every other setting.
\<close>

definition same_account :: "llm_provider \<Rightarrow> llm_provider \<Rightarrow> bool" where
  "same_account p q \<longleftrightarrow> q\<lparr>lp_name := lp_name p, lp_model := lp_model p\<rparr> = p"

lemma same_account_refl [simp]: "same_account p p"
  by (simp add: same_account_def)

lemma same_account_self: "q \<in> set cfg \<Longrightarrow> \<exists>p \<in> set cfg. same_account p q"
  by (rule bexI [of _ q]) simp_all

lemma same_account_model: "same_account p q \<Longrightarrow> same_account p (q\<lparr>lp_model := m\<rparr>)"
  by (simp add: same_account_def)

lemma entry_writes_account:
  "(k, q) \<in> set (entry_writes registry cfg p) \<Longrightarrow> same_account p q"
  by (auto simp: entry_writes_def expanded_provider_def same_account_def
      split: if_splits option.splits)

lemma table_writes_account:
  assumes "(k, q) \<in> set (table_writes registry cfg)"
  shows "\<exists>p \<in> set cfg. same_account p q"
  using assms entry_writes_account [of k q registry cfg] by (auto simp: table_writes_def)

lemma providers_get_account:
  assumes "llm_providers_try_from registry cfg = Inr t" and "providers_get t name = Some q"
  shows "\<exists>p \<in> set cfg. same_account p q"
proof -
  have tab: "\<exists>p \<in> set cfg. same_account p r" if "map_of (providers t) k = Some r" for k r
    using table_writes_account map_of_SomeD [of "rev (table_writes registry cfg)" k r] that
      try_from_table (1) [OF assms(1)] by auto
  have wild: "\<exists>p \<in> set cfg. same_account p r"
    if "map_of (wildcard_providers t) k = Some r" for k r
    using map_of_SomeD [of "rev (map (\<lambda>p. (wildcard_prefix p, p)) (filter is_wildcard cfg))" k r]
      that try_from_table (2) [OF assms(1)] by (auto intro: same_account_self)
  show ?thesis
    using assms(2) tab wild same_account_model
    by (fastforce simp: providers_get_def split: option.splits prod.splits)
qed

lemma find_in_set: "find P xs = Some x \<Longrightarrow> x \<in> set xs"
  by (induction xs) (auto split: if_splits)

lemma find_exists: "x \<in> set xs \<Longrightarrow> P x \<Longrightarrow> \<exists>y. find P xs = Some y"
  by (induction xs) auto

text \<open>
  (C32) Whatever provider hint a request carries, the provider the gateway selects is a configured
  one, or a configured wildcard provider with another name and model: the credential and the
  endpoint it goes to are those of one entry of the configuration. If the configuration has
  a default entry, selection never fails.
\<close>

theorem selection_stays_configured:
  assumes "llm_providers_try_from registry cfg = Inr t"
  shows "(case select_llm_provider t hint of
      Inr q \<Rightarrow> \<exists>p \<in> set cfg. same_account p q
    | Inl _ \<Rightarrow> \<not> (\<exists>p \<in> set cfg. is_default p))"
proof -
  have dflt: "\<exists>p \<in> set cfg. same_account p q" if "default_provider t = Some q" for q
    using that try_from_table (3) [OF assms] find_in_set [of is_default cfg q]
      same_account_self [of q cfg] by simp
  have none: "\<not> (\<exists>p \<in> set cfg. is_default p)" if "default_provider t = None"
    using that try_from_table (3) [OF assms] find_exists [of _ cfg is_default] by fastforce
  have named: "\<exists>p \<in> set cfg. same_account p q"
    if h: "get_llm_provider t h = Inr q" for h q
    using h dflt [of q] providers_get_account [OF assms, of _ q]
    by (cases "(t, h)" rule: get_llm_provider.cases) (auto split: option.splits)
  show ?thesis
    using named dflt none
    by (auto simp: select_llm_provider_def split: sum.splits option.splits)
qed

subsection \<open>Precedence of specific entries\<close>

lemma to_lowercase_slash: "CHR ''/'' \<in> set s \<Longrightarrow> CHR ''/'' \<in> set (to_lowercase s)"
  by (induction s rule: to_lowercase.induct) (auto simp: ascii_lower_def)

lemma provider_prefix_no_slash:
  assumes "provider_try_from s = Inr pid"
  shows "CHR ''/'' \<notin> set s"
proof -
  have "to_lowercase s \<in> fst ` set provider_names"
    using assms map_of_SomeD [of provider_names "to_lowercase s"]
    by (force simp: provider_try_from_def split: option.splits)
  moreover have "\<forall>n \<in> fst ` set provider_names. CHR ''/'' \<notin> set n"
    by (simp add: provider_names_def)
  ultimately show ?thesis using to_lowercase_slash by blast
qed

lemma map_of_unique:
  assumes "(k, w) \<in> set xs" and "\<And>v. (k, v) \<in> set xs \<Longrightarrow> v = w"
  shows "map_of xs k = Some w"
proof -
  obtain v where "map_of xs k = Some v"
    using assms(1) weak_map_of_SomeI [of k w xs] by blast
  then show ?thesis using assms(2) [of v] map_of_SomeD [of xs k v] by blast
qed

text \<open>The models to which some wildcard entry of the configuration may be expanded.\<close>

definition wildcard_models ::
    "(string \<Rightarrow> string list option) \<Rightarrow> llm_provider list \<Rightarrow> string set" where
  "wildcard_models registry cfg =
     {m. \<exists>q \<in> set cfg. is_wildcard q \<and> m \<in> set (expanded_models registry cfg q)}"

lemma writes_of_specific:
  assumes "distinct (map lp_name (filter specific cfg))"
    and "p \<in> set cfg" "specific p" "CHR ''/'' \<in> set (lp_name p)"
    and "\<And>q. q \<in> set cfg \<Longrightarrow> specific q \<Longrightarrow> lp_model q = Some (lp_name p) \<Longrightarrow> q = p"
    and "lp_name p \<notin> wildcard_models registry cfg"
    and "(lp_name p, v) \<in> set (table_writes registry cfg)"
  shows "v = p"
proof -
  obtain q where q: "q \<in> set cfg" "(lp_name p, v) \<in> set (entry_writes registry cfg q)"
    using assms(7) by (auto simp: table_writes_def)
  show ?thesis
  proof (cases "is_wildcard q")
    case True
    let ?pre = "wildcard_prefix q"
    obtain m where m: "m \<in> set (expanded_models registry cfg q)"
      "lp_name p = ?pre @ ''/'' @ m \<or> lp_name p = m"
      using q(2) True by (auto simp: entry_writes_def)
    then have name: "lp_name p = ?pre @ CHR ''/'' # m"
      using assms(6) True q(1) by (auto simp: wildcard_models_def)
    have "CHR ''/'' \<notin> set ?pre"
      using m(1) provider_prefix_no_slash [of ?pre]
      by (cases "provider_try_from ?pre") (simp_all add: expanded_models_def)
    then have "split_once (CHR ''/'') (lp_name p) = Some (?pre, m)"
      using name by (simp add: split_once_Some)
    then have "has_own_entry cfg ?pre m" using assms(2,3) by (auto simp: has_own_entry_def)
    then show ?thesis using m(1) by (auto simp: expanded_models_def split: sum.splits)
  next
    case False
    then consider "lp_name q = lp_name p" "v = q" | "lp_model q = Some (lp_name p)" "v = q"
      using q(2) by (auto simp: entry_writes_def split: option.splits)
    then show ?thesis
    proof cases
      case 1
      then show ?thesis using assms(1-3) q(1) False by (auto simp: specific_def distinct_map inj_on_def)
    next
      case 2
      then show ?thesis using assms(5) [of q] q(1) False by (simp add: specific_def)
    qed
  qed
qed

text \<open>
  A specific entry named \<open>provider/model\<close> takes precedence over every wildcard expansion: a
  request for its name is served by exactly that entry, unless the name is also the model
  name of another specific entry or of an expanded wildcard model.
\<close>

theorem specific_entry_wins:
  assumes "llm_providers_try_from registry cfg = Inr t"
    and "p \<in> set cfg" "specific p" "CHR ''/'' \<in> set (lp_name p)"
    and "\<And>q. q \<in> set cfg \<Longrightarrow> specific q \<Longrightarrow> lp_model q = Some (lp_name p) \<Longrightarrow> q = p"
    and "lp_name p \<notin> wildcard_models registry cfg"
  shows "get_llm_provider t (Some (hint_of_string (lp_name p))) = Inr p"
proof -
  have d: "distinct (map lp_name (filter specific cfg))"
    using try_from_ok [of registry cfg] assms(1) by simp
  have mem: "(lp_name p, p) \<in> set (rev (table_writes registry cfg))"
    using assms(2,3) by (auto simp: table_writes_def entry_writes_def specific_def)
  have "map_of (rev (table_writes registry cfg)) (lp_name p) = Some p"
  proof (rule map_of_unique [OF mem])
    fix v
    assume "(lp_name p, v) \<in> set (rev (table_writes registry cfg))"
    then have "(lp_name p, v) \<in> set (table_writes registry cfg)" by simp
    from this show "v = p" using writes_of_specific [OF d assms(2-6)] by blast
  qed
  then have "providers_get t (lp_name p) = Some p"
    by (simp add: providers_get_def try_from_table (1) [OF assms(1)])
  moreover have "lp_name p \<noteq> ''default''" using assms(4) by auto
  ultimately show ?thesis by (simp add: hint_of_string_def)
qed

text \<open>
  The provider prefix of a request is not binding: if the identifier \<open>pre/m\<close> is not in the table
  but the bare model name \<open>m\<close> is, the request is served by the entry behind \<open>m\<close>, whatever
  provider \<open>pre\<close> names and even if \<open>pre\<close> has a wildcard entry that would take the model.
\<close>

theorem bare_model_ignores_prefix:
  assumes "llm_providers_try_from registry cfg = Inr t"
    and "CHR ''/'' \<notin> set pre"
    and "map_of (rev (table_writes registry cfg)) (pre @ ''/'' @ m) = None"
    and "map_of (rev (table_writes registry cfg)) m = Some q"
  shows "get_llm_provider t (Some (HintName (pre @ ''/'' @ m))) = Inr q"
proof -
  have "split_once (CHR ''/'') (pre @ ''/'' @ m) = Some (pre, m)"
    using assms(2) by (simp add: split_once_Some)
  then show ?thesis using assms(3,4) by (simp add: providers_get_def try_from_table (1) [OF assms(1)])
qed

lemma expansion_last_write:
  assumes "m \<in> set ms" "\<And>m'. pre @ CHR ''/'' # m' \<noteq> m"
  shows "map_of (rev (concat (map (\<lambda>m. [(pre @ ''/'' @ m, f m), (m, f m)]) ms))) m = Some (f m)"
  by (rule map_of_unique) (use assms in auto)

text \<open>
  The precedence of specific entries does not extend to names without a slash: a model name that
  a wildcard entry expands after them is served by the wildcard entry, even if a specific
  entry has that very name.
\<close>

theorem wildcard_shadows_bare_name:
  assumes "llm_providers_try_from registry (cfg @ [w]) = Inr t" "is_wildcard w"
    and "m \<in> set (expanded_models registry (cfg @ [w]) w)" "CHR ''/'' \<notin> set m"
  shows "get_llm_provider t (Some (HintName m)) = Inr (expanded_provider w m)"
proof -
  have "map_of (rev (entry_writes registry (cfg @ [w]) w)) m = Some (expanded_provider w m)"
    unfolding entry_writes_def if_P [OF assms(2)]
    by (rule expansion_last_write [OF assms(3)]) (use assms(4) in auto)
  then have "map_of (rev (table_writes registry (cfg @ [w]))) m = Some (expanded_provider w m)"
    by (simp add: table_writes_def map_add_def)
  then show ?thesis by (simp add: providers_get_def try_from_table (1) [OF assms(1)])
qed

subsection \<open>A sample configuration\<close>

text \<open>
  A wildcard entry for OpenAI and one for Anthropic, and a specific entry with a key of
  its own, as the witnesses use them.
\<close>

definition sample_registry :: "string \<Rightarrow> string list option" where
  "sample_registry k =
     (if k = ''openai'' then Some [''openai/gpt-4o'', ''openai/o3''] else None)"

definition sample_entry :: "string \<Rightarrow> string \<Rightarrow> string \<Rightarrow> llm_provider" where
  "sample_entry name model key = llm_provider_default
     \<lparr>lp_name := name, lp_model := Some model, lp_access_key := Some key, lp_default := None\<rparr>"

definition sample_config :: "llm_provider list" where
  "sample_config =
     [sample_entry ''openai/gpt-4o'' ''gpt-4o'' ''A'', sample_entry ''anthropic/*'' ''*'' ''B'',
      sample_entry ''openai/*'' ''*'' ''C'']"

definition sample_providers :: llm_providers where
  "sample_providers =
     (case llm_providers_try_from sample_registry sample_config of Inr t \<Rightarrow> t)"

lemma sample_providers: "llm_providers_try_from sample_registry sample_config = Inr sample_providers"
proof -
  have "is_ok (llm_providers_try_from sample_registry sample_config)" by code_simp
  then show ?thesis by (auto simp: sample_providers_def is_ok_iff)
qed

theorem llm_providers_table_witness:
  "map_of (providers sample_providers) =
     map_of (rev (table_writes sample_registry sample_config)) \<and>
   map_of (table_writes sample_registry sample_config) ''openai/o3'' \<noteq> None"
proof
  show "map_of (providers sample_providers) =
      map_of (rev (table_writes sample_registry sample_config))"
    using llm_providers_table [OF sample_providers] by simp
qed code_simp

theorem selection_stays_configured_witness:
  "\<exists>p \<in> set sample_config. same_account p
     (case select_llm_provider sample_providers (Some ''anthropic/claude'') of Inr q \<Rightarrow> q)"
proof -
  have "is_ok (select_llm_provider sample_providers (Some ''anthropic/claude''))" by code_simp
  then show ?thesis
    using selection_stays_configured [OF sample_providers, of "Some ''anthropic/claude''"]
    by (auto simp: is_ok_iff)
qed

theorem specific_entry_wins_witness:
  "get_llm_provider sample_providers (Some (hint_of_string ''openai/gpt-4o'')) =
     Inr (sample_entry ''openai/gpt-4o'' ''gpt-4o'' ''A'')"
proof -
  let ?p = "sample_entry ''openai/gpt-4o'' ''gpt-4o'' ''A''"
  have name: "lp_name ?p = ''openai/gpt-4o''" by (simp add: sample_entry_def)
  have mem: "?p \<in> set sample_config" by (simp add: sample_config_def)
  have spec: "specific ?p" by code_simp
  have "list_all (\<lambda>q. lp_model q \<noteq> Some (lp_name ?p)) sample_config" by code_simp
  then have others: "q \<in> set sample_config \<Longrightarrow> specific q \<Longrightarrow> lp_model q = Some (lp_name ?p) \<Longrightarrow> q = ?p"
    for q by (auto simp: list_all_iff)
  have "list_all (\<lambda>q. lp_name ?p \<notin> set (expanded_models sample_registry sample_config q))
      sample_config" by code_simp
  then have wild: "lp_name ?p \<notin> wildcard_models sample_registry sample_config"
    by (auto simp: list_all_iff wildcard_models_def)
  show ?thesis
    using specific_entry_wins [OF sample_providers mem spec _ others wild] by (simp add: name)
qed

theorem bare_model_ignores_prefix_witness:
  "get_llm_provider sample_providers (Some (HintName ''anthropic/o3'')) =
     Inr (expanded_provider (sample_entry ''openai/*'' ''*'' ''C'') ''o3'')"
proof -
  have "map_of (rev (table_writes sample_registry sample_config)) (''anthropic'' @ ''/'' @ ''o3'') = None"
    by code_simp
  moreover have "map_of (rev (table_writes sample_registry sample_config)) ''o3'' =
      Some (expanded_provider (sample_entry ''openai/*'' ''*'' ''C'') ''o3'')"
    by code_simp
  ultimately show ?thesis
    using bare_model_ignores_prefix [OF sample_providers, of "''anthropic''" "''o3''"] by simp
qed

theorem wildcard_shadows_bare_name_witness:
  "\<exists>t. llm_providers_try_from sample_registry
        ([sample_entry ''o3'' ''my-model'' ''A''] @ [sample_entry ''openai/*'' ''*'' ''C'']) = Inr t \<and>
     get_llm_provider t (Some (HintName ''o3'')) =
        Inr (expanded_provider (sample_entry ''openai/*'' ''*'' ''C'') ''o3'')"
proof -
  let ?cfg = "[sample_entry ''o3'' ''my-model'' ''A''] @ [sample_entry ''openai/*'' ''*'' ''C'']"
  have "is_ok (llm_providers_try_from sample_registry ?cfg)" by code_simp
  then obtain t where t: "llm_providers_try_from sample_registry ?cfg = Inr t"
    by (auto simp: is_ok_iff)
  have "is_wildcard (sample_entry ''openai/*'' ''*'' ''C'')" by code_simp
  moreover have "''o3'' \<in> set (expanded_models sample_registry ?cfg (sample_entry ''openai/*'' ''*'' ''C''))"
    by code_simp
  ultimately have "get_llm_provider t (Some (HintName ''o3'')) =
      Inr (expanded_provider (sample_entry ''openai/*'' ''*'' ''C'') ''o3'')"
    using wildcard_shadows_bare_name [OF t] by simp
  then show ?thesis using t by blast
qed

end
