(* ===== verification/Model_Failover.thy ===== *)
theory Model_Failover
  imports Llm_Providers "HOL-Library.Multiset"
begin

section \<open>Model aliases, backend health and failover\<close>

text \<open>
  Brightstaff's choice of backends: \<open>ModelAlias\<close> of \<open>crates/common/src/configuration.rs\<close>, the
  cooldowns of \<open>crates/brightstaff/src/handlers/llm/health.rs\<close>, and from
  \<open>crates/brightstaff/src/handlers/llm/mod.rs\<close> the resolution of an alias, the candidates of a
  request and the attempt loop of \<open>send_upstream\<close>. Instants and durations are nanoseconds.
  Parameters: the clock, the two shuffles, the HTTP client, the serialised request for a model
  name and the test whether a string is a header value.
\<close>

subsection \<open>Aliases\<close>

record model_alias =
  ma_target :: "string option"
  ma_targets :: "string list option"

fun add_targets :: "string list \<Rightarrow> string list \<Rightarrow> string list" where
  "add_targets out [] = out"
| "add_targets out (t # ts) = add_targets (if t \<noteq> [] \<and> t \<notin> set out then out @ [t] else out) ts"

definition candidates :: "model_alias \<Rightarrow> string list" where
  "candidates a =
     (let out = (case ma_target a of None \<Rightarrow> [] | Some t \<Rightarrow> (if t \<noteq> [] then [t] else []))
      in case ma_targets a of None \<Rightarrow> out | Some ts \<Rightarrow> add_targets out ts)"

definition primary :: "model_alias \<Rightarrow> string option" where
  "primary a = (case candidates a of [] \<Rightarrow> None | t # _ \<Rightarrow> Some t)"

definition resolve_alias_candidates ::
    "string \<Rightarrow> (string \<times> model_alias) list option \<Rightarrow> string list" where
  "resolve_alias_candidates model_from_request model_aliases =
     (case model_aliases of
        None \<Rightarrow> [model_from_request]
      | Some aliases \<Rightarrow>
          (case map_of aliases model_from_request of
             None \<Rightarrow> [model_from_request]
           | Some a \<Rightarrow> (if candidates a \<noteq> [] then candidates a else [model_from_request])))"

definition resolve_model_alias :: "string \<Rightarrow> (string \<times> model_alias) list option \<Rightarrow> string" where
  "resolve_model_alias model_from_request model_aliases =
     (case resolve_alias_candidates model_from_request model_aliases of
        [] \<Rightarrow> model_from_request
      | t # _ \<Rightarrow> t)"

subsection \<open>Cooldowns\<close>

definition from_secs :: "nat \<Rightarrow> nat" where
  "from_secs n = n * 1000000000"

definition DEFAULT_COOLDOWN :: nat where "DEFAULT_COOLDOWN = from_secs 30"
definition MAX_COOLDOWN :: nat where "MAX_COOLDOWN = from_secs 300"

record health_tracker =
  cooldowns :: "(string \<times> nat) list"
  default_cooldown :: nat
  max_cooldown :: nat

definition health_new :: "nat \<Rightarrow> health_tracker" where
  "health_new dflt =
     \<lparr>cooldowns = [], default_cooldown = dflt, max_cooldown = MAX_COOLDOWN\<rparr>"

definition health_default :: health_tracker where
  "health_default = health_new DEFAULT_COOLDOWN"

definition is_available :: "nat \<Rightarrow> health_tracker \<Rightarrow> string \<Rightarrow> bool" where
  "is_available now t model =
     (case map_of (cooldowns t) model of Some until \<Rightarrow> until \<le> now | None \<Rightarrow> True)"

definition mark_unhealthy :: "nat \<Rightarrow> string \<Rightarrow> nat option \<Rightarrow> health_tracker \<Rightarrow> health_tracker" where
  "mark_unhealthy now model retry_after t =
     (let cd = min (case retry_after of None \<Rightarrow> default_cooldown t | Some d \<Rightarrow> d) (max_cooldown t)
      in t\<lparr>cooldowns := AList.update model (now + cd) (cooldowns t)\<rparr>)"

definition mark_healthy :: "string \<Rightarrow> health_tracker \<Rightarrow> health_tracker" where
  "mark_healthy model t = t\<lparr>cooldowns := AList.delete model (cooldowns t)\<rparr>"

definition order_candidates ::
    "(string list \<Rightarrow> string list) \<Rightarrow> (string list \<Rightarrow> string list) \<Rightarrow> nat \<Rightarrow> health_tracker
       \<Rightarrow> string list \<Rightarrow> string list" where
  "order_candidates shuffle1 shuffle2 now t cands =
     (let (available, cooled) = partition (\<lambda>m. case map_of (cooldowns t) m of
                                                 Some until \<Rightarrow> until \<le> now
                                               | None \<Rightarrow> True) cands
      in shuffle1 available @ shuffle2 cooled)"

subsection \<open>Upstream answers\<close>

definition is_retryable_status :: "nat \<Rightarrow> bool" where
  "is_retryable_status s = (s \<in> {401, 404, 429, 500, 502, 503, 504})"

text \<open>\<open>str::parse::<u64>\<close>: an optional plus sign and at least one digit, below \<open>2 ^ 64\<close>.\<close>

fun digits_value :: "nat \<Rightarrow> string \<Rightarrow> nat option" where
  "digits_value acc [] = Some acc"
| "digits_value acc (c # s) =
     (if 48 \<le> byte c \<and> byte c \<le> (57 :: nat) then
        (let v = 10 * acc + (byte c - 48) in if v < 2 ^ 64 then digits_value v s else None)
      else None)"

definition parse_u64 :: "string \<Rightarrow> nat option" where
  "parse_u64 s =
     (let ds = (case s of [] \<Rightarrow> [] | c # r \<Rightarrow> (if c = CHR ''+'' then r else s))
      in if ds = [] then None else digits_value 0 ds)"

text \<open>\<open>retry_after_duration\<close>; the argument is the header's text, if it is there and readable.\<close>

definition retry_after_duration :: "string option \<Rightarrow> nat option" where
  "retry_after_duration v =
     (case v of
        None \<Rightarrow> None
      | Some s \<Rightarrow> map_option from_secs (parse_u64 (trim s)))"

subsection \<open>The candidates of a request\<close>

text \<open>
  The part of \<open>parse_and_validate_request\<close> that resolves the model: the ordered candidates, or
  the text of the 400 response.
\<close>

definition prepare_candidates ::
    "(string list \<Rightarrow> string list) \<Rightarrow> (string list \<Rightarrow> string list) \<Rightarrow> nat \<Rightarrow> health_tracker
       \<Rightarrow> llm_providers \<Rightarrow> (string \<times> model_alias) list option \<Rightarrow> string
       \<Rightarrow> string + string list" where
  "prepare_candidates shuffle1 shuffle2 now health tab model_aliases model_from_request =
     (let existing = filter (\<lambda>m. providers_get tab m \<noteq> None)
                       (resolve_alias_candidates model_from_request model_aliases)
      in if existing = [] then
           Inl (''Model '' @ [CHR 0x27] @ resolve_model_alias model_from_request model_aliases
                  @ [CHR 0x27] @ '' not found in configured providers'')
         else Inr (order_candidates shuffle1 shuffle2 now health existing))"

text \<open>
  The resolved model and the list that \<open>send_upstream\<close> tries: the model pinned to the
  session, the model the router selected (it answers \<open>none\<close> to select none), or the ordered
  candidates of the alias.
\<close>

definition upstream_candidates ::
    "string option \<Rightarrow> string \<Rightarrow> string \<Rightarrow> string list \<Rightarrow> string \<times> string list" where
  "upstream_candidates pinned_model router_selected alias_resolved_model alias_candidates =
     (case pinned_model of
        Some m \<Rightarrow> (m, [m])
      | None \<Rightarrow>
          (let route_overrode = (router_selected \<noteq> ''none'');
               model = (if route_overrode then router_selected else alias_resolved_model)
           in (model, if route_overrode \<or> alias_candidates = [] then [model] else alias_candidates)))"

subsection \<open>The attempt loop\<close>

text \<open>
  The HTTP client: the \<open>n\<close>-th request, with its headers and body, is answered by a
  response with a status and a \<open>Retry-After\<close> header, or fails.
\<close>

datatype 'r upstream_result =
    Upstream_Response nat "string option" 'r
  | Send_Error string

type_synonym headers = "(string \<times> string) list"

definition PROVIDER_HINT :: string where
  "PROVIDER_HINT = ''x-arch-llm-provider-hint''"

record 'r attempt_env =
  ae_clock :: "nat \<Rightarrow> nat"
  ae_send :: "nat \<Rightarrow> headers \<Rightarrow> string \<Rightarrow> 'r upstream_result"
  ae_body :: "string \<Rightarrow> string + string"
  ae_header_ok :: "string \<Rightarrow> bool"

definition model_name_only :: "string \<Rightarrow> string" where
  "model_name_only candidate =
     (case split_once (CHR ''/'') candidate of None \<Rightarrow> candidate | Some (_, m) \<Rightarrow> m)"

text \<open>
  The outcome of the loop: an error response with its status and text, or the winning response
  with its candidate; then the tracker and the requests that were sent.
\<close>

fun attempt_loop ::
    "'r attempt_env \<Rightarrow> nat \<Rightarrow> headers \<Rightarrow> health_tracker \<Rightarrow> string list
       \<Rightarrow> (nat \<times> string + nat \<times> 'r \<times> string) \<times> health_tracker \<times> (headers \<times> string) list" where
  "attempt_loop e n hs t [] = (Inl (503, ''No upstream model candidates available''), t, [])"
| "attempt_loop e n hs t (c # cs) =
     (case ae_body e (model_name_only c) of
        Inl err \<Rightarrow> (Inl (500, ''Failed to serialize request: '' @ err), t, [])
      | Inr body \<Rightarrow>
          (let is_last = (cs = []);
               hs = (if ae_header_ok e c then AList.update PROVIDER_HINT c hs else hs)
           in case ae_send e n hs body of
                Upstream_Response status retry_after r \<Rightarrow>
                  (if is_retryable_status status then
                     (let t = mark_unhealthy (ae_clock e n) c (retry_after_duration retry_after) t
                      in if \<not> is_last then
                           (case attempt_loop e (n + 1) hs t cs of
                              (res, t', sent) \<Rightarrow> (res, t', (hs, body) # sent))
                         else (Inr (status, r, c), t, [(hs, body)]))
                   else (Inr (status, r, c), mark_healthy c t, [(hs, body)]))
              | Send_Error err \<Rightarrow>
                  (let t = mark_unhealthy (ae_clock e n) c None t
                   in if \<not> is_last then
                        (case attempt_loop e (n + 1) hs t cs of
                           (res, t', sent) \<Rightarrow> (res, t', (hs, body) # sent))
                      else (Inl (500, ''Failed to send request: '' @ err), t, [(hs, body)]))))"

subsection \<open>Lemmas on aliases and cooldowns\<close>

lemma add_targets_props:
  "distinct out \<Longrightarrow> [] \<notin> set out \<Longrightarrow>
     distinct (add_targets out ts) \<and> [] \<notin> set (add_targets out ts) \<and>
     set (add_targets out ts) = set out \<union> (set ts - {[]}) \<and>
     (\<exists>rest. add_targets out ts = out @ rest)"
proof (induction ts arbitrary: out)
  case (Cons t ts)
  show ?case
  proof (cases "t \<noteq> [] \<and> t \<notin> set out")
    case True
    then show ?thesis using Cons.IH [of "out @ [t]"] Cons.prems by auto
  next
    case False
    then show ?thesis using Cons.IH [of out] Cons.prems by auto
  qed
qed simp

lemma candidates_props:
  "distinct (candidates a) \<and> [] \<notin> set (candidates a)"
  using add_targets_props [of "[]"] add_targets_props [of "[t]" for t]
  by (auto simp: candidates_def Let_def split: option.split)

lemma resolve_alias_not_empty: "resolve_alias_candidates m aliases \<noteq> []"
  by (simp add: resolve_alias_candidates_def split: option.split)

lemma is_available_mark:
  "is_available now (mark_unhealthy t0 m ra t) m' =
     (if m' = m then
        t0 + min (case ra of None \<Rightarrow> default_cooldown t | Some d \<Rightarrow> d) (max_cooldown t) \<le> now
      else is_available now t m')"
  by (simp add: is_available_def mark_unhealthy_def update_conv' Let_def)

lemma is_available_healthy:
  "is_available now (mark_healthy m t) m' = (m' = m \<or> is_available now t m')"
  by (simp add: is_available_def mark_healthy_def delete_conv')

lemma tracker_limits [simp]:
  "max_cooldown (mark_unhealthy t0 m ra t) = max_cooldown t"
  "max_cooldown (mark_healthy m t) = max_cooldown t"
  "default_cooldown (mark_unhealthy t0 m ra t) = default_cooldown t"
  by (simp_all add: mark_unhealthy_def mark_healthy_def Let_def)

subsection \<open>Every cooldown ends\<close>

datatype health_op = Unhealthy nat string "nat option" | Healthy string

fun health_step :: "health_tracker \<Rightarrow> health_op \<Rightarrow> health_tracker" where
  "health_step t (Unhealthy now m ra) = mark_unhealthy now m ra t"
| "health_step t (Healthy m) = mark_healthy m t"

fun op_time :: "health_op \<Rightarrow> nat" where
  "op_time (Unhealthy now m ra) = now"
| "op_time (Healthy m) = 0"

lemma cooldown_ends:
  assumes "\<forall>m. is_available (T + max_cooldown t) t m" and "\<forall>p \<in> set ops. op_time p \<le> T"
  shows "max_cooldown (foldl health_step t ops) = max_cooldown t \<and>
    (\<forall>m. is_available (T + max_cooldown t) (foldl health_step t ops) m)"
  using assms
proof (induction ops arbitrary: t)
  case (Cons p ops)
  have "max_cooldown (health_step t p) = max_cooldown t" by (cases p) simp_all
  moreover have "is_available (T + max_cooldown t) (health_step t p) m" for m
    using Cons.prems by (cases p) (auto simp: is_available_mark is_available_healthy)
  ultimately show ?case using Cons.IH [of "health_step t p"] Cons.prems(2) by simp
qed simp

text \<open>
  (C35) No backend is parked for good: five minutes after the last failure every backend is available
  again, whatever cooldowns the upstreams asked for and however failures and successes
  were mixed.
\<close>

theorem every_backend_recovers:
  assumes "\<forall>p \<in> set ops. op_time p \<le> T"
  shows "is_available (T + from_secs 300) (foldl health_step health_default ops) m"
  using cooldown_ends [of T health_default ops] assms
  by (simp add: health_default_def health_new_def MAX_COOLDOWN_def is_available_def)

theorem every_backend_recovers_witness:
  "is_available (from_secs 310) (foldl health_step health_default
     [Unhealthy 0 ''a'' None, Healthy ''a'',
      Unhealthy (from_secs 10) ''a'' (retry_after_duration (Some '' 400 ''))]) ''a'' \<and>
   \<not> is_available (from_secs 309) (foldl health_step health_default
     [Unhealthy 0 ''a'' None, Healthy ''a'',
      Unhealthy (from_secs 10) ''a'' (retry_after_duration (Some '' 400 ''))]) ''a''"
proof
  show "is_available (from_secs 310) (foldl health_step health_default
     [Unhealthy 0 ''a'' None, Healthy ''a'',
      Unhealthy (from_secs 10) ''a'' (retry_after_duration (Some '' 400 ''))]) ''a''"
    using every_backend_recovers [of "[Unhealthy 0 ''a'' None, Healthy ''a'',
        Unhealthy (from_secs 10) ''a'' (retry_after_duration (Some '' 400 ''))]" "from_secs 10" "''a''"]
    by (simp add: from_secs_def)
  have trim: "trim '' 400 '' = ''400''" by code_simp
  have parse: "parse_u64 ''400'' = Some 400" by (simp add: parse_u64_def)
  have "retry_after_duration (Some '' 400 '') = Some (from_secs 400)"
    using trim parse by (simp add: retry_after_duration_def)
  then show "\<not> is_available (from_secs 309) (foldl health_step health_default
     [Unhealthy 0 ''a'' None, Healthy ''a'',
      Unhealthy (from_secs 10) ''a'' (retry_after_duration (Some '' 400 ''))]) ''a''"
    by (simp add: is_available_mark health_default_def health_new_def MAX_COOLDOWN_def
        mark_healthy_def mark_unhealthy_def from_secs_def is_available_def)
qed

subsection \<open>The order of the candidates\<close>

lemma mset_order_candidates:
  assumes "\<And>xs. mset (sh1 xs) = mset xs" and "\<And>xs. mset (sh2 xs) = mset xs"
  shows "mset (order_candidates sh1 sh2 now t cs) = mset cs"
  by (simp add: order_candidates_def is_available_def [abs_def] comp_def Let_def assms
      flip: multiset_partition)

text \<open>
  Ordering the candidates loses none and puts every available backend before every backend in
  cooldown, for any shuffle; in particular the first candidate is available if one is.
\<close>

theorem order_candidates_available_first:
  assumes "\<And>xs. mset (sh1 xs) = mset xs" and "\<And>xs. mset (sh2 xs) = mset xs"
  shows "mset (order_candidates sh1 sh2 now t cs) = mset cs \<and>
    sorted_wrt (\<lambda>a b. is_available now t b \<longrightarrow> is_available now t a)
      (order_candidates sh1 sh2 now t cs)"
proof -
  have eq: "order_candidates sh1 sh2 now t cs =
      sh1 (filter (is_available now t) cs) @ sh2 (filter (\<lambda>m. \<not> is_available now t m) cs)"
    by (simp add: order_candidates_def is_available_def [abs_def] comp_def Let_def)
  have s: "set (sh1 xs) = set xs" "set (sh2 xs) = set xs" for xs
    using assms mset_eq_setD by blast+
  have same: "sorted_wrt (\<lambda>a b. is_available now t b \<longrightarrow> is_available now t a) xs"
    if "\<forall>x \<in> set xs. is_available now t x = v" for v xs
    using that by (induction xs) auto
  have "sorted_wrt (\<lambda>a b. is_available now t b \<longrightarrow> is_available now t a)
      (sh1 (filter (is_available now t) cs))"
    by (rule same [of _ True]) (simp add: s)
  moreover have "sorted_wrt (\<lambda>a b. is_available now t b \<longrightarrow> is_available now t a)
      (sh2 (filter (\<lambda>m. \<not> is_available now t m) cs))"
    by (rule same [of _ False]) (simp add: s)
  ultimately show ?thesis
    by (simp add: eq assms sorted_wrt_append s flip: multiset_partition)
qed

theorem order_candidates_available_first_witness:
  "order_candidates rev rev 5 (mark_unhealthy 0 ''b'' None health_default) [''b'', ''a'', ''c'']
     = [''c'', ''a'', ''b''] \<and>
   mset (order_candidates rev rev 5 (mark_unhealthy 0 ''b'' None health_default) [''b'', ''a'', ''c''])
     = mset [''b'', ''a'', ''c'']"
proof
  show "mset (order_candidates rev rev 5 (mark_unhealthy 0 ''b'' None health_default)
      [''b'', ''a'', ''c'']) = mset [''b'', ''a'', ''c'']"
    using order_candidates_available_first [of rev rev] by simp
  show "order_candidates rev rev 5 (mark_unhealthy 0 ''b'' None health_default) [''b'', ''a'', ''c'']
     = [''c'', ''a'', ''b'']"
    by (simp add: order_candidates_def mark_unhealthy_def health_default_def health_new_def
        DEFAULT_COOLDOWN_def MAX_COOLDOWN_def from_secs_def)
qed

subsection \<open>Failover\<close>

fun fails :: "'r upstream_result \<Rightarrow> bool" where
  "fails (Upstream_Response status ra r) = is_retryable_status status"
| "fails (Send_Error err) = True"

fun requested_cooldown :: "'r upstream_result \<Rightarrow> nat option" where
  "requested_cooldown (Upstream_Response status ra r) = retry_after_duration ra"
| "requested_cooldown (Send_Error err) = None"

text \<open>How long a failure keeps a backend in cooldown.\<close>

definition cooldown_for :: "health_tracker \<Rightarrow> 'r upstream_result \<Rightarrow> nat" where
  "cooldown_for t u =
     min (case requested_cooldown u of None \<Rightarrow> default_cooldown t | Some d \<Rightarrow> d) (max_cooldown t)"

lemma cooldown_for_mark [simp]: "cooldown_for (mark_unhealthy now m ra t) = cooldown_for t"
  by (simp add: cooldown_for_def fun_eq_iff split: option.split)

lemma is_available_failed:
  "is_available now (mark_unhealthy t0 m (requested_cooldown u) t) m' =
     (if m' = m then t0 + cooldown_for t u \<le> now else is_available now t m')"
  by (simp add: is_available_mark cooldown_for_def)

text \<open>The request that is sent to a candidate, and its answer as the \<open>n\<close>-th request.\<close>

definition hinted :: "headers \<Rightarrow> string \<Rightarrow> headers" where
  "hinted hs c = AList.update PROVIDER_HINT c hs"

definition body_of :: "'r attempt_env \<Rightarrow> string \<Rightarrow> string" where
  "body_of e c = (case ae_body e (model_name_only c) of Inl err \<Rightarrow> [] | Inr b \<Rightarrow> b)"

definition answer :: "'r attempt_env \<Rightarrow> nat \<Rightarrow> headers \<Rightarrow> string \<Rightarrow> 'r upstream_result" where
  "answer e n hs c = ae_send e n (hinted hs c) (body_of e c)"

definition sendable :: "'r attempt_env \<Rightarrow> string \<Rightarrow> bool" where
  "sendable e c = (ae_header_ok e c \<and> is_ok (ae_body e (model_name_only c)))"

lemma update_update: "AList.update k v (AList.update k w al) = AList.update k v al"
  by (induction al) auto

lemma hinted_hinted [simp]: "hinted (hinted hs c) d = hinted hs d"
  by (simp add: hinted_def update_update)

lemma attempt_failed:
  assumes "sendable e c" "fails (answer e n hs c)" "cs \<noteq> []"
  shows "attempt_loop e n hs t (c # cs) =
    (case attempt_loop e (n + 1) (hinted hs c)
        (mark_unhealthy (ae_clock e n) c (requested_cooldown (answer e n hs c)) t) cs of
       (res, t', sent) \<Rightarrow> (res, t', (hinted hs c, body_of e c) # sent))"
proof -
  obtain b where b: "ae_body e (model_name_only c) = Inr b"
    using assms(1) by (auto simp: sendable_def is_ok_iff)
  show ?thesis
  proof (cases "answer e n hs c")
    case (Upstream_Response s ra r)
    then show ?thesis using assms b
      by (simp add: sendable_def answer_def body_of_def hinted_def Let_def)
  next
    case (Send_Error err)
    then show ?thesis using assms b
      by (simp add: sendable_def answer_def body_of_def hinted_def Let_def)
  qed
qed

lemma attempt_succeeded:
  assumes "sendable e c" "answer e n hs c = Upstream_Response s ra r" "\<not> is_retryable_status s"
  shows "attempt_loop e n hs t (c # cs) =
    (Inr (s, r, c), mark_healthy c t, [(hinted hs c, body_of e c)])"
proof -
  obtain b where b: "ae_body e (model_name_only c) = Inr b"
    using assms(1) by (auto simp: sendable_def is_ok_iff)
  then show ?thesis using assms
    by (simp add: sendable_def answer_def body_of_def hinted_def Let_def)
qed

lemma answer_hinted [simp]: "answer e n (hinted hs c) d = answer e n hs d"
  by (simp add: answer_def)

lemma failed_prefix:
  assumes "\<forall>c \<in> set (xs @ ys). sendable e c" "ys \<noteq> []"
    and "\<forall>i < length xs. fails (answer e (n + i) hs (xs ! i))"
  shows "\<exists>t'. attempt_loop e n hs t (xs @ ys) =
      (case attempt_loop e (n + length xs) (if xs = [] then hs else hinted hs (last xs)) t' ys of
         (res, t'', sent) \<Rightarrow> (res, t'', map (\<lambda>c. (hinted hs c, body_of e c)) xs @ sent)) \<and>
    (\<forall>now m. m \<notin> set xs \<longrightarrow> is_available now t' m = is_available now t m) \<and>
    (distinct xs \<longrightarrow> (\<forall>i < length xs. \<forall>now. is_available now t' (xs ! i) =
       (ae_clock e (n + i) + cooldown_for t (answer e (n + i) hs (xs ! i)) \<le> now)))"
  using assms
proof (induction xs arbitrary: n hs t)
  case Nil
  show ?case by (rule exI [of _ t]) (simp split: prod.split)
next
  case (Cons x xs)
  let ?t = "mark_unhealthy (ae_clock e n) x (requested_cooldown (answer e n hs x)) t"
  have f: "fails (answer e n hs x)" using Cons.prems(3) by fastforce
  have fs: "\<forall>i < length xs. fails (answer e (n + 1 + i) (hinted hs x) (xs ! i))"
    using Cons.prems(3) by fastforce
  have step: "attempt_loop e n hs t ((x # xs) @ ys) =
      (case attempt_loop e (n + 1) (hinted hs x) ?t (xs @ ys) of
         (res, t', sent) \<Rightarrow> (res, t', (hinted hs x, body_of e x) # sent))"
    using attempt_failed [OF _ f] Cons.prems(1,2) by simp
  obtain t' where t': "attempt_loop e (n + 1) (hinted hs x) ?t (xs @ ys) =
      (case attempt_loop e (n + 1 + length xs)
          (if xs = [] then hinted hs x else hinted (hinted hs x) (last xs)) t' ys of
         (res, t'', sent) \<Rightarrow>
           (res, t'', map (\<lambda>c. (hinted (hinted hs x) c, body_of e c)) xs @ sent))"
    "\<forall>now m. m \<notin> set xs \<longrightarrow> is_available now t' m = is_available now ?t m"
    "distinct xs \<Longrightarrow> \<forall>i < length xs. \<forall>now. is_available now t' (xs ! i) =
       (ae_clock e (n + 1 + i) + cooldown_for ?t (answer e (n + 1 + i) (hinted hs x) (xs ! i)) \<le> now)"
    using Cons.IH [OF _ Cons.prems(2) fs] Cons.prems(1) by fastforce
  have av: "is_available now t' ((x # xs) ! i) =
       (ae_clock e (n + i) + cooldown_for t (answer e (n + i) hs ((x # xs) ! i)) \<le> now)"
    if "distinct (x # xs)" "i < length (x # xs)" for now i
  proof (cases i)
    case 0
    then show ?thesis using t'(2) that(1) by (simp add: is_available_failed)
  next
    case (Suc j)
    then show ?thesis using t'(3) that by simp
  qed
  show ?case
  proof (rule exI [of _ t'], intro conjI)
    show "attempt_loop e n hs t ((x # xs) @ ys) =
      (case attempt_loop e (n + length (x # xs))
          (if x # xs = [] then hs else hinted hs (last (x # xs))) t' ys of
         (res, t'', sent) \<Rightarrow> (res, t'', map (\<lambda>c. (hinted hs c, body_of e c)) (x # xs) @ sent))"
      unfolding step t'(1) by (simp split: prod.split)
    show "\<forall>now m. m \<notin> set (x # xs) \<longrightarrow> is_available now t' m = is_available now t m"
      using t'(2) by (simp add: is_available_failed)
    show "distinct (x # xs) \<longrightarrow> (\<forall>i < length (x # xs). \<forall>now. is_available now t' ((x # xs) ! i) =
       (ae_clock e (n + i) + cooldown_for t (answer e (n + i) hs ((x # xs) ! i)) \<le> now))"
      using av by blast
  qed
qed

text \<open>
  (C10) Failover: if the candidates before \<open>c\<close> fail (with a retryable status or no answer) and \<open>c\<close>
  does not, the client gets the answer of \<open>c\<close>; every candidate up to \<open>c\<close> was asked once, in
  order, under its own provider hint; \<open>c\<close> is then available, and each failed backend is in
  cooldown for the time its upstream asked for, or the default, up to the cap.
\<close>

theorem failover_first_success:
  assumes "\<forall>c \<in> set (xs @ c # ys). sendable e c" "distinct (xs @ [c])"
    and "\<forall>i < length xs. fails (answer e (n + i) hs (xs ! i))"
    and "answer e (n + length xs) hs c = Upstream_Response s ra r" "\<not> is_retryable_status s"
  shows "\<exists>t'. attempt_loop e n hs t (xs @ c # ys) =
      (Inr (s, r, c), t', map (\<lambda>c. (hinted hs c, body_of e c)) (xs @ [c])) \<and>
    is_available now t' c \<and>
    (\<forall>i < length xs. is_available now t' (xs ! i) =
       (ae_clock e (n + i) + cooldown_for t (answer e (n + i) hs (xs ! i)) \<le> now))"
proof -
  let ?hs = "if xs = [] then hs else hinted hs (last xs)"
  obtain t' where t': "attempt_loop e n hs t (xs @ c # ys) =
      (case attempt_loop e (n + length xs) ?hs t' (c # ys) of
         (res, t'', sent) \<Rightarrow> (res, t'', map (\<lambda>c. (hinted hs c, body_of e c)) xs @ sent))"
    "\<forall>i < length xs. \<forall>now. is_available now t' (xs ! i) =
       (ae_clock e (n + i) + cooldown_for t (answer e (n + i) hs (xs ! i)) \<le> now)"
    using failed_prefix [OF assms(1) _ assms(3), of t] assms(2) by auto
  have ans: "answer e (n + length xs) ?hs c = Upstream_Response s ra r"
    using assms(4) by (cases "xs = []") simp_all
  have "attempt_loop e (n + length xs) ?hs t' (c # ys) =
      (Inr (s, r, c), mark_healthy c t', [(hinted hs c, body_of e c)])"
    using attempt_succeeded [OF _ ans assms(5)] assms(1) by simp
  moreover have "xs ! i \<noteq> c" if "i < length xs" for i
    using assms(2) that nth_mem by fastforce
  ultimately show ?thesis using t' by (auto simp: is_available_healthy)
qed

text \<open>
  Exhausted candidates: if every candidate fails, the client gets the last one's answer as it is,
  or a 500 if the last request got no answer.
\<close>

theorem failover_exhausted:
  assumes "\<forall>c \<in> set (xs @ [c]). sendable e c"
    and "\<forall>i < length (xs @ [c]). fails (answer e (n + i) hs ((xs @ [c]) ! i))"
  shows "\<exists>t'. attempt_loop e n hs t (xs @ [c]) =
      (case answer e (n + length xs) hs c of
         Upstream_Response s ra r \<Rightarrow> Inr (s, r, c)
       | Send_Error err \<Rightarrow> Inl (500, ''Failed to send request: '' @ err),
       t', map (\<lambda>c. (hinted hs c, body_of e c)) (xs @ [c]))"
proof -
  let ?hs = "if xs = [] then hs else hinted hs (last xs)"
  have fc: "fails (answer e (n + length xs) hs c)"
    using assms(2) [rule_format, of "length xs"] by simp
  have "fails (answer e (n + i) hs (xs ! i))" if "i < length xs" for i
    using assms(2) [rule_format, of i] that by (simp add: nth_append)
  then have fs: "\<forall>i < length xs. fails (answer e (n + i) hs (xs ! i))" by blast
  obtain t' where t': "attempt_loop e n hs t (xs @ [c]) =
      (case attempt_loop e (n + length xs) ?hs t' [c] of
         (res, t'', sent) \<Rightarrow> (res, t'', map (\<lambda>c. (hinted hs c, body_of e c)) xs @ sent))"
    using failed_prefix [OF assms(1) _ fs, of t] by auto
  obtain b where b: "ae_body e (model_name_only c) = Inr b" "ae_header_ok e c"
    using assms(1) by (auto simp: sendable_def is_ok_iff)
  have ans: "answer e (n + length xs) ?hs c = answer e (n + length xs) hs c" by simp
  have upd: "AList.update PROVIDER_HINT c ?hs = hinted hs c"
    by (simp add: hinted_def update_update)
  show ?thesis
    using t' fc b
    by (cases "answer e (n + length xs) hs c")
      (auto simp: answer_def body_of_def upd simp flip: hinted_def)
qed

text \<open>
  Not every server error leads to failover: any status from 500 to 599 other than 500, 502, 503
  and 504 ends the loop at once, is passed to the client, and clears the cooldown of the
  backend that sent it.
\<close>

theorem other_server_errors_not_retried:
  assumes "sendable e c" "answer e n hs c = Upstream_Response s ra r"
    and "s = 501 \<or> 505 \<le> s \<and> s \<le> 599"
  shows "attempt_loop e n hs t (c # cs) =
      (Inr (s, r, c), mark_healthy c t, [(hinted hs c, body_of e c)])"
proof (rule attempt_succeeded [OF assms(1,2)])
  show "\<not> is_retryable_status s" using assms(3) by (auto simp: is_retryable_status_def)
qed

lemma attempt_sent:
  assumes "(hs', b) \<in> set (snd (snd (attempt_loop e n hs t cs)))"
  shows "\<exists>c \<in> set cs. ae_body e (model_name_only c) = Inr b \<and>
    (ae_header_ok e c \<longrightarrow> map_of hs' PROVIDER_HINT = Some c)"
  using assms
proof (induction cs arbitrary: n hs t)
  case (Cons c cs)
  let ?hs = "if ae_header_ok e c then AList.update PROVIDER_HINT c hs else hs"
  have rest: ?case if "(hs', b) \<in> set (snd (snd (attempt_loop e (n + 1) ?hs t' cs)))" for t'
    using Cons.IH [OF that] by auto
  show ?case
  proof (cases "ae_body e (model_name_only c)")
    case (Inl err)
    then show ?thesis using Cons.prems by simp
  next
    case (Inr b')
    have "(hs', b) = (?hs, b') \<or> (\<exists>t'. (hs', b) \<in> set (snd (snd (attempt_loop e (n + 1) ?hs t' cs))))"
      using Cons.prems Inr
      by (cases "ae_send e n ?hs b'") (auto simp: Let_def case_prod_beta split: if_splits)
    moreover have "map_of ?hs PROVIDER_HINT = Some c" if "ae_header_ok e c"
      using that by (simp add: update_conv')
    ultimately show ?thesis using rest Inr by auto
  qed
qed simp

lemma prepared_candidates:
  assumes "prepare_candidates sh1 sh2 now health tab aliases model = Inr cands"
    and "\<And>xs. mset (sh1 xs) = mset xs" "\<And>xs. mset (sh2 xs) = mset xs"
  shows "set cands = {c \<in> set (resolve_alias_candidates model aliases). providers_get tab c \<noteq> None}"
    "cands \<noteq> []"
proof -
  let ?existing = "filter (\<lambda>m. providers_get tab m \<noteq> None) (resolve_alias_candidates model aliases)"
  have c: "cands = order_candidates sh1 sh2 now health ?existing" "?existing \<noteq> []"
    using assms(1) by (auto simp: prepare_candidates_def Let_def split: if_splits)
  have m: "mset cands = mset ?existing"
    using mset_order_candidates [OF assms(2,3)] c(1) by simp
  from mset_eq_setD [OF m]
  show "set cands = {c \<in> set (resolve_alias_candidates model aliases). providers_get tab c \<noteq> None}"
    by auto
  show "cands \<noteq> []" using m c(2) by auto
qed

text \<open>
  (C3) Model routing and the gateway agree: every request that brightstaff sends for a client's model
  is for one model that brightstaff chose, the one pinned to the session, otherwise the one its
  router selected, otherwise a candidate of the alias that its table has a provider for; the body
  carries that candidate's model name, and, if the candidate is a legal header value, the provider
  hint is the candidate. The gateway then selects the provider that brightstaff's table has for it,
  and its default provider, or an error, when the table has none (only a pinned or router-selected
  model can be missing); a candidate called \<open>default\<close> selects the default provider.
\<close>

theorem attempts_reach_their_provider:
  assumes "\<And>xs. mset (sh1 xs) = mset xs" "\<And>xs. mset (sh2 xs) = mset xs"
    and "prepare_candidates sh1 sh2 now health tab aliases model = Inr cands"
    and "upstream_candidates pinned selected resolved cands = (m, cs)"
    and "(hs', b) \<in> set (snd (snd (attempt_loop e n hs t cs)))"
  shows "\<exists>c. ae_body e (model_name_only c) = Inr b \<and>
    (case pinned of
       Some p \<Rightarrow> c = p
     | None \<Rightarrow> if selected \<noteq> ''none'' then c = selected
         else c \<in> set (resolve_alias_candidates model aliases) \<and> providers_get tab c \<noteq> None) \<and>
    (ae_header_ok e c \<longrightarrow> map_of hs' PROVIDER_HINT = Some c \<and>
       select_llm_provider tab (map_of hs' PROVIDER_HINT) =
         (case if c = ''default'' then None else providers_get tab c of
            Some q \<Rightarrow> Inr q
          | None \<Rightarrow> (case default_provider tab of
              Some q \<Rightarrow> Inr q
            | None \<Rightarrow> get_llm_provider tab (Some (hint_of_string c)))))"
proof -
  obtain c where c: "c \<in> set cs" "ae_body e (model_name_only c) = Inr b"
    "ae_header_ok e c \<longrightarrow> map_of hs' PROVIDER_HINT = Some c"
    using attempt_sent [OF assms(5)] by blast
  have "case pinned of
       Some p \<Rightarrow> c = p
     | None \<Rightarrow> if selected \<noteq> ''none'' then c = selected
         else c \<in> set (resolve_alias_candidates model aliases) \<and> providers_get tab c \<noteq> None"
    using assms(4) c(1) prepared_candidates [OF assms(3,1,2)]
    by (auto simp: upstream_candidates_def Let_def split: option.splits if_splits)
  then show ?thesis
    using c(2,3)
    by (intro exI [of _ c])
       (auto simp: select_llm_provider_def hint_of_string_def split: option.split)
qed

declare attempt_loop.simps (2) [simp del]

subsection \<open>A sample pool\<close>

text \<open>Three backends: the first is rate limited, the second unreachable, the third answers.\<close>

definition sample_env :: "string attempt_env" where
  "sample_env =
     \<lparr>ae_clock = id,
      ae_send = (\<lambda>n hs b.
        if map_of hs PROVIDER_HINT = Some ''openai/gpt-4o'' then Upstream_Response 429 (Some ''7'') ''''
        else if map_of hs PROVIDER_HINT = Some ''openai/o3'' then Send_Error ''refused''
        else Upstream_Response 200 None (''ok '' @ b)),
      ae_body = Inr, ae_header_ok = (\<lambda>_. True)\<rparr>"

lemma sample_sendable: "sendable sample_env c"
  by (simp add: sendable_def sample_env_def)

lemma sample_answers:
  "answer sample_env n [] ''openai/gpt-4o'' = Upstream_Response 429 (Some ''7'') ''''"
  "answer sample_env n [] ''openai/o3'' = Send_Error ''refused''"
  "answer sample_env n [] ''anthropic/x'' = Upstream_Response 200 None ''ok x''"
  by (simp_all add: answer_def sample_env_def hinted_def body_of_def model_name_only_def)

theorem failover_first_success_witness:
  "\<exists>t' sent. attempt_loop sample_env 5 [] health_default
      [''openai/gpt-4o'', ''openai/o3'', ''anthropic/x''] = (Inr (200, ''ok x'', ''anthropic/x''), t', sent) \<and>
    is_available 0 t' ''anthropic/x''"
proof -
  have f: "\<forall>i < length [''openai/gpt-4o'', ''openai/o3''].
      fails (answer sample_env (5 + i) [] ([''openai/gpt-4o'', ''openai/o3''] ! i))"
    by (simp add: All_less_Suc sample_answers is_retryable_status_def)
  show ?thesis
    using failover_first_success [of "[''openai/gpt-4o'', ''openai/o3'']" "''anthropic/x''" "[]"
        sample_env 5 "[]" 200 None "''ok x''" health_default 0] f
    by (auto simp: sample_sendable sample_answers is_retryable_status_def)
qed

theorem failover_exhausted_witness:
  "\<exists>t' sent. attempt_loop sample_env 5 [] health_default [''openai/gpt-4o'', ''openai/o3''] =
      (Inl (500, ''Failed to send request: refused''), t', sent)"
proof -
  have f: "\<forall>i < length ([''openai/gpt-4o''] @ [''openai/o3'']).
      fails (answer sample_env (5 + i) [] (([''openai/gpt-4o''] @ [''openai/o3'']) ! i))"
    by (simp add: All_less_Suc sample_answers is_retryable_status_def)
  show ?thesis
    using failover_exhausted [OF _ f, of health_default] by (auto simp: sample_sendable sample_answers)
qed

theorem other_server_errors_not_retried_witness:
  "attempt_loop (sample_env\<lparr>ae_send := \<lambda>n hs b. Upstream_Response 529 None ''overloaded''\<rparr>) 0 []
      health_default [''anthropic/x'', ''openai/o3''] =
    (Inr (529, ''overloaded'', ''anthropic/x''), mark_healthy ''anthropic/x'' health_default,
     [([(PROVIDER_HINT, ''anthropic/x'')], ''x'')])"
proof -
  let ?e = "sample_env\<lparr>ae_send := \<lambda>n hs b. Upstream_Response 529 None ''overloaded''\<rparr>"
  have "sendable ?e ''anthropic/x''" "answer ?e 0 [] ''anthropic/x'' = Upstream_Response 529 None ''overloaded''"
    by (simp_all add: sendable_def sample_env_def answer_def)
  then show ?thesis
    using other_server_errors_not_retried [of ?e "''anthropic/x''" 0 "[]" 529 None "''overloaded''"
        health_default "[''openai/o3'']"]
    by (simp add: hinted_def body_of_def sample_env_def model_name_only_def)
qed

theorem attempts_reach_their_provider_witness:
  "\<exists>c q. c \<in> {''openai/gpt-4o'', ''openai/o3''} \<and> select_llm_provider sample_providers
     (map_of (hinted [] ''openai/gpt-4o'') PROVIDER_HINT) = Inr q \<and>
     providers_get sample_providers c = Some q"
proof -
  let ?al = "Some [(''best'', \<lparr>ma_target = Some ''openai/gpt-4o'', ma_targets = Some [''openai/o3'']\<rparr>)]"
  have res: "resolve_alias_candidates ''best'' ?al = [''openai/gpt-4o'', ''openai/o3'']" by code_simp
  have "filter (\<lambda>m. providers_get sample_providers m \<noteq> None) [''openai/gpt-4o'', ''openai/o3''] =
      [''openai/gpt-4o'', ''openai/o3'']" by code_simp
  then have prep: "prepare_candidates id id 0 health_default sample_providers ?al ''best'' =
      Inr [''openai/gpt-4o'', ''openai/o3'']"
    by (simp add: prepare_candidates_def res order_candidates_def health_default_def health_new_def)
  have list: "upstream_candidates None ''none'' ''openai/gpt-4o'' [''openai/gpt-4o'', ''openai/o3''] =
      (''openai/gpt-4o'', [''openai/gpt-4o'', ''openai/o3''])"
    by (simp add: upstream_candidates_def)
  have body: "body_of sample_env ''openai/gpt-4o'' = ''gpt-4o''"
    by (simp add: body_of_def sample_env_def model_name_only_def)
  have sent: "(hinted [] ''openai/gpt-4o'', ''gpt-4o'') \<in> set (snd (snd (attempt_loop sample_env 0 []
      health_default [''openai/gpt-4o'', ''openai/o3''])))"
    using attempt_failed [OF sample_sendable, of 0 "[]" "''openai/gpt-4o''" "[''openai/o3'']"
        health_default]
    by (simp add: sample_answers is_retryable_status_def case_prod_beta body)
  from attempts_reach_their_provider [OF _ _ prep list sent]
  obtain c where "c \<in> {''openai/gpt-4o'', ''openai/o3''}" "providers_get sample_providers c \<noteq> None"
    "select_llm_provider sample_providers (map_of (hinted [] ''openai/gpt-4o'') PROVIDER_HINT) =
      (case if c = ''default'' then None else providers_get sample_providers c of
         Some q \<Rightarrow> Inr q
       | None \<Rightarrow> (case default_provider sample_providers of
           Some q \<Rightarrow> Inr q
         | None \<Rightarrow> get_llm_provider sample_providers (Some (hint_of_string c))))"
    unfolding res by (auto simp: sample_env_def)
  then show ?thesis by (auto split: if_splits)
qed

end
