(* ===== verification/Brightstaff_Request.thy ===== *)
theory Brightstaff_Request
  imports Request_Upstream Request_Interface Model_Failover
begin

section \<open>Brightstaff: from the client's bytes to the upstream request\<close>

text \<open>
  The request side of \<open>llm_chat_inner\<close> in \<open>crates/brightstaff/src/handlers/llm/mod.rs\<close>: the body
  is parsed, the model of the first candidate is stamped and routing metadata stripped, the input
  filter chain may replace the body, the request is normalised, and each attempt re-stamps the
  model. An HTTP answer is a status and a body. The filter chain (HTTP and MCP calls to agents)
  is a parameter: from the bytes of the request to its new bytes or an error.
\<close>

type_synonym http_answer = "nat \<times> string"

subsection \<open>The error answers of brightstaff\<close>

datatype brightstaff_error =
    BE_ModelNotFound string
  | BE_NoModelSpecified
  | BE_ConversationStateNotFound string
  | BE_InternalServerError string
  | BE_InvalidRequest string
  | BE_ForwardedError nat string
  | BE_StreamError string
  | BE_ResponseCreationFailed string

fun brightstaff_error_display :: "brightstaff_error \<Rightarrow> string" where
  "brightstaff_error_display (BE_ModelNotFound m) = ''The requested model '' @ [CHR 0x27] @ m @ [CHR 0x27] @ '' does not exist''"
| "brightstaff_error_display BE_NoModelSpecified =
     ''No model specified in request and no default provider configured''"
| "brightstaff_error_display (BE_ConversationStateNotFound i) =
     ''Conversation state not found for previous_response_id: '' @ i"
| "brightstaff_error_display (BE_InternalServerError _) = ''Internal server error''"
| "brightstaff_error_display (BE_InvalidRequest _) = ''Invalid request''"
| "brightstaff_error_display (BE_ForwardedError _ m) = m"
| "brightstaff_error_display (BE_StreamError e) = ''Stream error: '' @ e"
| "brightstaff_error_display (BE_ResponseCreationFailed e) = ''Failed to create response: '' @ e"

fun brightstaff_error_parts :: "brightstaff_error \<Rightarrow> nat \<times> string \<times> json" where
  "brightstaff_error_parts (BE_ModelNotFound m) =
     (404, ''ModelNotFound'', JObject [(''rejected_model_id'', JString m)])"
| "brightstaff_error_parts BE_NoModelSpecified = (400, ''NoModelSpecified'', JObject [])"
| "brightstaff_error_parts (BE_ConversationStateNotFound i) =
     (409, ''ConversationStateNotFound'', JObject [(''previous_response_id'', JString i)])"
| "brightstaff_error_parts (BE_InternalServerError e) =
     (500, ''InternalServerError'', JObject [(''reason'', JString e)])"
| "brightstaff_error_parts (BE_InvalidRequest e) =
     (400, ''InvalidRequest'', JObject [(''reason'', JString e)])"
| "brightstaff_error_parts (BE_ForwardedError s m) =
     (s, ''ForwardedError'', JObject [(''reason'', JString m)])"
| "brightstaff_error_parts (BE_StreamError e) =
     (400, ''StreamError'', JObject [(''reason'', JString e)])"
| "brightstaff_error_parts (BE_ResponseCreationFailed e) =
     (400, ''ResponseCreationFailed'', JObject [(''reason'', JString e)])"

definition error_into_response :: "json_codec \<Rightarrow> brightstaff_error \<Rightarrow> http_answer" where
  "error_into_response c e =
     (case brightstaff_error_parts e of
        (status, code, details) \<Rightarrow>
          (status, json_print c (JObject [(''error'', JObject
             [(''code'', JString code), (''message'', JString (brightstaff_error_display e)),
              (''details'', details)])])))"

subsection \<open>Preparing the request\<close>

definition prepare_request :: "string \<Rightarrow> provider_request \<Rightarrow> provider_request" where
  "prepare_request name r =
     (let r = pr_set_model name r;
          (_, r) = pr_remove_metadata_key ''archgw_preference_config'' r;
          (_, r) = pr_remove_metadata_key ''plano_preference_config'' r
      in r)"

definition parse_client_request ::
    "request_codec \<Rightarrow> client_api \<Rightarrow> string \<Rightarrow> http_answer + provider_request" where
  "parse_client_request c api bytes =
     (case request_of_bytes c bytes api of
        Inl e \<Rightarrow> Inl (400, ''Failed to parse request: '' @ e)
      | Inr r \<Rightarrow> Inr r)"

subsection \<open>The input filter chain\<close>

text \<open>The errors of the HTTP client and of serde are the strings they display as.\<close>

datatype pipeline_error =
    PE_RequestFailed string
  | PE_ParseError string
  | PE_AgentNotFound string
  | PE_NoChoicesInResponse string
  | PE_NoContentInResponse string
  | PE_NoResultInResponse string
  | PE_NoStructuredContentInResponse string
  | PE_ClientError string nat string
  | PE_ServerError string nat string
  | PE_Unauthorized string

definition quoted :: "string \<Rightarrow> string" where
  "quoted a = [CHR 0x27] @ a @ [CHR 0x27]"

definition agent_error :: "string \<Rightarrow> string \<Rightarrow> nat \<Rightarrow> string \<Rightarrow> string" where
  "agent_error kind agent status body =
     kind @ '' error from agent '' @ quoted agent @ '' (HTTP '' @ digits status @ ''): '' @ body"

fun pipeline_error_display :: "pipeline_error \<Rightarrow> string" where
  "pipeline_error_display (PE_RequestFailed e) = ''HTTP request failed: '' @ e"
| "pipeline_error_display (PE_ParseError e) = ''Failed to parse response: '' @ e"
| "pipeline_error_display (PE_AgentNotFound a) = ''Agent '' @ quoted a @ '' not found in agent map''"
| "pipeline_error_display (PE_NoChoicesInResponse a) = ''No choices in response from agent '' @ quoted a"
| "pipeline_error_display (PE_NoContentInResponse a) = ''No content in response from agent '' @ quoted a"
| "pipeline_error_display (PE_NoResultInResponse a) = ''No result in response from agent '' @ quoted a"
| "pipeline_error_display (PE_NoStructuredContentInResponse a) =
     ''No structured content in response from agent '' @ quoted a"
| "pipeline_error_display (PE_ClientError a s b) = agent_error ''Client'' a s b"
| "pipeline_error_display (PE_ServerError a s b) = agent_error ''Server'' a s b"
| "pipeline_error_display (PE_Unauthorized e) = ''Unauthorized: '' @ e"

definition valid_status :: "nat \<Rightarrow> bool" where
  "valid_status s \<longleftrightarrow> 100 \<le> s \<and> s \<le> 999"

definition pipeline_error_response :: "json_codec \<Rightarrow> pipeline_error \<Rightarrow> http_answer" where
  "pipeline_error_response c e =
     (case e of
        PE_ClientError agent status body \<Rightarrow>
          (if valid_status status then status else 400,
           json_print c (JObject [(''error'', JString ''FilterChainError''), (''agent'', JString agent),
             (''status'', JNumber (digits status)), (''agent_response'', JString body)]))
      | err \<Rightarrow> (500, ''Filter chain processing failed: '' @ pipeline_error_display err))"

definition apply_input_filters ::
    "request_codec \<Rightarrow> client_api \<Rightarrow> (string \<Rightarrow> pipeline_error + string) option \<Rightarrow> string \<Rightarrow>
     provider_request \<Rightarrow> http_answer + provider_request" where
  "apply_input_filters c api chain bytes r =
     (case chain of
        None \<Rightarrow> Inr r
      | Some process \<Rightarrow>
          (case process bytes of
             Inr filtered \<Rightarrow>
               (case request_of_bytes c filtered api of
                  Inr updated \<Rightarrow> Inr updated
                | Inl e \<Rightarrow> Inl (error_into_response (rc_json c)
                    (BE_InvalidRequest (''Input filter returned invalid request: '' @ e))))
           | Inl err \<Rightarrow> Inl (pipeline_error_response (rc_json c) err)))"

subsection \<open>The template and the attempts\<close>

text \<open>The streaming flag sent to the gateway, and the request every attempt starts from.\<close>

definition request_template ::
    "request_codec \<Rightarrow> client_api \<Rightarrow> provider_id \<Rightarrow> (string \<Rightarrow> pipeline_error + string) option \<Rightarrow>
     string \<Rightarrow> string \<Rightarrow> http_answer + bool \<times> provider_request" where
  "request_template c api p chain name bytes =
     (case parse_client_request c api bytes of
        Inl a \<Rightarrow> Inl a
      | Inr r \<Rightarrow>
          (let is_streaming = pr_is_streaming r
           in case apply_input_filters c api chain bytes (prepare_request name r) of
                Inl a \<Rightarrow> Inl a
              | Inr r' \<Rightarrow>
                  (case normalize_for_upstream p (compatible_api_for_client p api is_streaming) r' of
                     Inl e \<Rightarrow> Inl (400, pre_message e)
                   | Inr t \<Rightarrow> Inr (is_streaming, t))))"

definition attempt_request :: "provider_request \<Rightarrow> string \<Rightarrow> provider_request" where
  "attempt_request template candidate = pr_set_model (model_name_only candidate) template"

definition attempt_body ::
    "request_codec \<Rightarrow> provider_request \<Rightarrow> string \<Rightarrow> http_answer + string" where
  "attempt_body c template candidate =
     (case pr_to_bytes c (attempt_request template candidate) of
        Inl e \<Rightarrow> Inl (500, ''Failed to serialize request: '' @ provider_request_error_display e)
      | Inr body \<Rightarrow> Inr body)"

subsection \<open>Properties\<close>

declare request_of_bytes.simps [simp del]

definition PREFERENCE_KEYS :: "string list" where
  "PREFERENCE_KEYS = [''archgw_preference_config'', ''plano_preference_config'']"

lemma prepare_request_strip:
  "prepare_request n r = strip_keys pr_remove_metadata_key PREFERENCE_KEYS (pr_set_model n r)"
  by (simp add: prepare_request_def PREFERENCE_KEYS_def Let_def split: prod.splits)

lemma attempt_meta: "pr_metadata (attempt_request t cand) = pr_metadata t"
  by (simp add: attempt_request_def request.metadata_set)

text \<open>
  Without an input filter chain, every attempt asks for the model name of its candidate and
  carries the client's metadata without the routing preferences; the mode announced to the gateway
  is the one the client asked for.
\<close>

theorem attempts_without_filters:
  assumes "request_template c api p None n bytes = Inr (s, t)"
  shows "\<exists>r. request_of_bytes c bytes api = Inr r \<and> s = pr_is_streaming r \<and>
    pr_model (attempt_request t cand) = model_name_only cand \<and>
    meta_value (pr_metadata (attempt_request t cand)) k =
      (if k \<in> set PREFERENCE_KEYS then None else meta_value (pr_metadata r) k)"
proof -
  obtain r where r: "request_of_bytes c bytes api = Inr r" "s = pr_is_streaming r"
    "normalize_for_upstream p (compatible_api_for_client p api s) (prepare_request n r) = Inr t"
    using assms by (auto simp: request_template_def parse_client_request_def Let_def
        apply_input_filters_def split: sum.splits)
  have "meta_value (pr_metadata t) k =
      (if k \<in> set PREFERENCE_KEYS then None else meta_value (pr_metadata r) k)"
    using normalized_request [OF r(3)] request.stamped [of PREFERENCE_KEYS n r k]
    by (simp add: prepare_request_strip)
  then show ?thesis using r by (auto simp: attempt_meta) (auto simp: attempt_request_def request.model_set)
qed

text \<open>
  With an input filter chain that changes nothing, the preparation is lost: the request is
  parsed again from the client's bytes, so every attempt carries the routing preferences upstream.
\<close>

theorem filter_chain_restores_preferences:
  assumes "request_template c api p (Some Inr) n bytes = Inr (s, t)"
  shows "\<exists>r. request_of_bytes c bytes api = Inr r \<and>
    pr_metadata (attempt_request t cand) = pr_metadata r"
proof -
  obtain r where "request_of_bytes c bytes api = Inr r"
    "normalize_for_upstream p (compatible_api_for_client p api s) r = Inr t"
    using assms by (auto simp: request_template_def parse_client_request_def Let_def
        apply_input_filters_def split: sum.splits)
  then show ?thesis using normalized_request by (auto simp: attempt_meta)
qed

subsection \<open>A concrete request\<close>

text \<open>A parser that knows one text, the request below.\<close>

definition sample_chat_request :: chat_request where
  "sample_chat_request = chat_request_default
     \<lparr>cr_model := ''fast'', cr_messages := [text_message R_User ''Hi''],
      cr_metadata := Some [(''archgw_preference_config'', JString ''code: gpt''),
                           (''team'', JString ''a'')]\<rparr>"

definition sample_request_codec :: request_codec where
  "sample_request_codec =
     \<lparr>rc_json = escaped_json, ser_chat_request = (\<lambda>_. Inr ''{}''), ser_messages_request = (\<lambda>_. Inr ''{}''),
      ser_converse_request = (\<lambda>_. Inr ''{}''), ser_responses_request = (\<lambda>_. Inr ''{}''),
      parse_chat_request = (\<lambda>s. if s = ''body'' then Inr sample_chat_request else Inl ''EOF''),
      parse_messages_request = (\<lambda>_. Inl ''EOF''), parse_responses_request = (\<lambda>_. Inl ''EOF'')\<rparr>"

lemma sample_parses:
  "request_of_bytes sample_request_codec ''body'' (C_OpenAIChatCompletions ChatCompletions) =
     Inr (PR_ChatCompletions sample_chat_request)"
  by (simp add: request_of_bytes.simps sample_request_codec_def parse_chat_def suppress_max_tokens_if_o3_def
      fix_temperature_if_gpt5_def sample_chat_request_def starts_with_def)

lemma sample_template:
  "chain = None \<or> chain = Some Inr \<Longrightarrow>
   \<exists>t. request_template sample_request_codec (C_OpenAIChatCompletions ChatCompletions) P_Groq chain
         ''llama'' ''body'' = Inr (False, t)"
  by (auto simp: request_template_def parse_client_request_def apply_input_filters_def sample_parses
      normalize_for_upstream_def sample_chat_request_def chat_request_default_def Let_def)

theorem attempts_without_filters_witness:
  "\<exists>t. request_template sample_request_codec (C_OpenAIChatCompletions ChatCompletions) P_Groq None
         ''llama'' ''body'' = Inr (False, t) \<and>
       pr_model (attempt_request t ''groq/llama'') = ''llama'' \<and>
       meta_value (pr_metadata (attempt_request t ''groq/llama'')) ''archgw_preference_config'' = None"
proof -
  obtain t where t: "request_template sample_request_codec (C_OpenAIChatCompletions ChatCompletions)
      P_Groq None ''llama'' ''body'' = Inr (False, t)"
    using sample_template by blast
  have "model_name_only ''groq/llama'' = ''llama''" by (simp add: model_name_only_def)
  moreover have "''archgw_preference_config'' \<in> set PREFERENCE_KEYS" by (simp add: PREFERENCE_KEYS_def)
  ultimately show ?thesis
    using attempts_without_filters [OF t, of "''groq/llama''" "''archgw_preference_config''"] t
    by (intro exI [where x = t]) auto
qed

theorem filter_chain_restores_preferences_witness:
  "\<exists>t. request_template sample_request_codec (C_OpenAIChatCompletions ChatCompletions) P_Groq (Some Inr)
         ''llama'' ''body'' = Inr (False, t) \<and>
       meta_value (pr_metadata (attempt_request t ''groq/llama'')) ''archgw_preference_config'' =
         Some (JString ''code: gpt'')"
proof -
  obtain t where t: "request_template sample_request_codec (C_OpenAIChatCompletions ChatCompletions)
      P_Groq (Some Inr) ''llama'' ''body'' = Inr (False, t)"
    using sample_template by blast
  from filter_chain_restores_preferences [OF t, of "''groq/llama''"]
  have "pr_metadata (attempt_request t ''groq/llama'') = cr_metadata sample_chat_request"
    by (simp add: sample_parses)
  then have "meta_value (pr_metadata (attempt_request t ''groq/llama'')) ''archgw_preference_config'' =
      Some (JString ''code: gpt'')"
    by (simp add: sample_chat_request_def meta_value_def)
  with t show ?thesis by (intro exI [where x = t] conjI)
qed

end
