(* ===== verification/Conversation_Items.thy ===== *)
theory Conversation_Items
  imports Request_Types "HOL-Library.AList"
begin

section \<open>Items of a conversation\<close>

text \<open>
  \<open>transforms/response/output_to_input.rs\<close> of \<open>crates/hermesllm\<close>: the output of a response as the
  input of the next request; and the JSON form of input items, in which the conversation store of
  \<open>crates/brightstaff\<close> keeps them (the \<open>Serialize\<close> and \<open>Deserialize\<close> instances that serde derives
  from the attributes in \<open>apis/openai_responses.rs\<close>).
\<close>

subsection \<open>Outputs as inputs\<close>

fun output_content_input :: "output_content \<Rightarrow> input_content option" where
  "output_content_input (OC_OutputText t _ _) = Some (IC_InputText t)"
| "output_content_input (OC_OutputAudio d _) = Some (IC_InputAudio d None)"
| "output_content_input (OC_Refusal _) = None"

definition message_role_of_name :: "string \<Rightarrow> message_role" where
  "message_role_of_name r =
     (if r = ''user'' then MRo_User
      else if r = ''assistant'' then MRo_Assistant
      else if r = ''system'' then MRo_System
      else if r = ''developer'' then MRo_Developer
      else MRo_Assistant)"

fun tool_call_text :: "string option \<Rightarrow> string option \<Rightarrow> string" where
  "tool_call_text (Some n) (Some args) = ''Called function: '' @ n @ '' with arguments: '' @ args"
| "tool_call_text _ _ = ''Called a function''"

fun convert_responses_output_to_input_items :: "output_item \<Rightarrow> input_item option" where
  "convert_responses_output_to_input_items (OI_Message _ _ role content) =
     (let input_content = List.map_filter output_content_input content
      in if input_content = [] then None
         else Some (II_Message \<lparr>im_role = message_role_of_name role,
                                im_content = IMC_Items input_content\<rparr>))"
| "convert_responses_output_to_input_items (OI_FunctionCall _ _ _ name arguments) =
     Some (II_Message \<lparr>im_role = MRo_Assistant,
                       im_content = IMC_Items [IC_InputText (tool_call_text name arguments)]\<rparr>)"
| "convert_responses_output_to_input_items _ = None"

definition outputs_to_inputs :: "output_item list \<Rightarrow> input_item list" where
  "outputs_to_inputs outputs = List.map_filter convert_responses_output_to_input_items outputs"

subsection \<open>The JSON form\<close>

definition json_of_opt :: "string option \<Rightarrow> json" where
  "json_of_opt x = (case x of None \<Rightarrow> JNull | Some s \<Rightarrow> JString s)"

fun input_content_to_json :: "input_content \<Rightarrow> json" where
  "input_content_to_json (IC_InputText t) =
     JObject [(''type'', JString ''input_text''), (''text'', JString t)]"
| "input_content_to_json (IC_InputImage u d) =
     JObject [(''type'', JString ''input_image''), (''image_url'', JString u), (''detail'', json_of_opt d)]"
| "input_content_to_json (IC_InputFile u) =
     JObject [(''type'', JString ''input_file''), (''file_url'', JString u)]"
| "input_content_to_json (IC_InputAudio d f) =
     JObject [(''type'', JString ''input_audio''), (''data'', json_of_opt d), (''format'', json_of_opt f)]"

fun message_role_name :: "message_role \<Rightarrow> string" where
  "message_role_name MRo_User = ''user''"
| "message_role_name MRo_Assistant = ''assistant''"
| "message_role_name MRo_System = ''system''"
| "message_role_name MRo_Developer = ''developer''"
| "message_role_name MRo_Tool = ''tool''"

fun message_content_to_json :: "input_message_content \<Rightarrow> json" where
  "message_content_to_json (IMC_Text t) = JString t"
| "message_content_to_json (IMC_Items cs) = JArray (map input_content_to_json cs)"

fun input_item_to_json :: "input_item \<Rightarrow> json" where
  "input_item_to_json (II_Message m) =
     JObject [(''role'', JString (message_role_name (im_role m))),
              (''content'', message_content_to_json (im_content m))]"
| "input_item_to_json (II_ItemReference t i) =
     JObject [(''type'', JString t), (''id'', JString i)]"
| "input_item_to_json (II_FunctionCall t n a i) =
     JObject [(''type'', JString t), (''name'', JString n), (''arguments'', JString a),
              (''call_id'', JString i)]"
| "input_item_to_json (II_FunctionCallOutput t i output) =
     JObject [(''type'', JString t), (''call_id'', JString i), (''output'', output)]"

definition input_items_to_json :: "input_item list \<Rightarrow> json" where
  "input_items_to_json items = JArray (map input_item_to_json items)"

subsection \<open>Reading it back\<close>

text \<open>
  serde on a value whose objects have no duplicate keys; unknown keys are ignored. A struct may
  also be an array of its fields, an internally tagged enum an array that starts with the tag (a
  name or an index), a unit variant an object with the one key; only a struct variant of an
  untagged enum has to be an object. An \<open>Option\<close> field may be missing or null.
\<close>

definition field_str :: "(string \<times> json) list \<Rightarrow> string \<Rightarrow> string option" where
  "field_str m k = (case map_of m k of Some (JString s) \<Rightarrow> Some s | _ \<Rightarrow> None)"

definition field_opt :: "(string \<times> json) list \<Rightarrow> string \<Rightarrow> string option option" where
  "field_opt m k =
     (case map_of m k of
        None \<Rightarrow> Some None
      | Some JNull \<Rightarrow> Some None
      | Some (JString s) \<Rightarrow> Some (Some s)
      | Some _ \<Rightarrow> None)"

fun struct_fields :: "string list \<Rightarrow> json \<Rightarrow> (string \<times> json) list option" where
  "struct_fields names (JObject m) = Some m"
| "struct_fields names (JArray vs) =
     (if length vs = length names then Some (zip names vs) else None)"
| "struct_fields names _ = None"

fun content_variant :: "json \<Rightarrow> nat option" where
  "content_variant (JString t) =
     (if t \<in> {''input_text'', ''text'', ''output_text''} then Some 0
      else if t = ''input_image'' then Some 1
      else if t \<in> {''input_file'', ''file''} then Some 2
      else if t = ''input_audio'' then Some 3
      else None)"
| "content_variant (JNumber n) =
     (if n = ''0'' then Some 0 else if n = ''1'' then Some 1
      else if n = ''2'' then Some 2 else if n = ''3'' then Some 3 else None)"
| "content_variant _ = None"

definition content_of_variant :: "nat \<Rightarrow> json \<Rightarrow> input_content option" where
  "content_of_variant v j =
     (if v = 0 then
        Option.bind (struct_fields [''text''] j) (\<lambda>m. map_option IC_InputText (field_str m ''text''))
      else if v = 1 then
        Option.bind (struct_fields [''image_url'', ''detail''] j)
          (\<lambda>m. Option.bind (field_str m ''image_url'')
             (\<lambda>u. map_option (IC_InputImage u) (field_opt m ''detail'')))
      else if v = 2 then
        Option.bind (struct_fields [''file_url''] j)
          (\<lambda>m. map_option IC_InputFile (field_str m ''file_url''))
      else
        Option.bind (struct_fields [''data'', ''format''] j)
          (\<lambda>m. Option.bind (field_opt m ''data'')
             (\<lambda>d. map_option (IC_InputAudio d) (field_opt m ''format''))))"

fun input_content_of_json :: "json \<Rightarrow> input_content option" where
  "input_content_of_json (JObject m) =
     Option.bind (map_of m ''type'')
       (\<lambda>t. Option.bind (content_variant t)
          (\<lambda>v. content_of_variant v (JObject (AList.delete ''type'' m))))"
| "input_content_of_json (JArray (t # vs)) =
     Option.bind (content_variant t) (\<lambda>v. content_of_variant v (JArray vs))"
| "input_content_of_json _ = None"

definition message_role_of_tag :: "string \<Rightarrow> message_role option" where
  "message_role_of_tag s =
     List.find (\<lambda>r. message_role_name r = s)
       [MRo_User, MRo_Assistant, MRo_System, MRo_Developer, MRo_Tool]"

fun message_role_of_json :: "json \<Rightarrow> message_role option" where
  "message_role_of_json (JString s) = message_role_of_tag s"
| "message_role_of_json (JObject [(s, JNull)]) = message_role_of_tag s"
| "message_role_of_json _ = None"

fun option_all :: "'a option list \<Rightarrow> 'a list option" where
  "option_all [] = Some []"
| "option_all (x # xs) =
     (case x of None \<Rightarrow> None | Some y \<Rightarrow> map_option ((#) y) (option_all xs))"

fun message_content_of_json :: "json \<Rightarrow> input_message_content option" where
  "message_content_of_json (JString t) = Some (IMC_Text t)"
| "message_content_of_json (JArray vs) =
     map_option IMC_Items (option_all (map input_content_of_json vs))"
| "message_content_of_json _ = None"

definition input_message_of_json :: "json \<Rightarrow> input_message option" where
  "input_message_of_json j =
     Option.bind (struct_fields [''role'', ''content''] j)
       (\<lambda>m. Option.bind (Option.bind (map_of m ''role'') message_role_of_json)
          (\<lambda>r. map_option (\<lambda>c. \<lparr>im_role = r, im_content = c\<rparr>)
             (Option.bind (map_of m ''content'') message_content_of_json)))"

definition item_reference_of_fields :: "(string \<times> json) list \<Rightarrow> input_item option" where
  "item_reference_of_fields m =
     Option.bind (field_str m ''type'') (\<lambda>t. map_option (II_ItemReference t) (field_str m ''id''))"

definition function_call_of_fields :: "(string \<times> json) list \<Rightarrow> input_item option" where
  "function_call_of_fields m =
     Option.bind (field_str m ''type'')
       (\<lambda>t. Option.bind (field_str m ''name'')
          (\<lambda>n. Option.bind (field_str m ''arguments'')
             (\<lambda>a. map_option (II_FunctionCall t n a) (field_str m ''call_id''))))"

definition function_call_output_of_fields :: "(string \<times> json) list \<Rightarrow> input_item option" where
  "function_call_output_of_fields m =
     Option.bind (field_str m ''type'')
       (\<lambda>t. Option.bind (field_str m ''call_id'')
          (\<lambda>i. map_option (II_FunctionCallOutput t i) (map_of m ''output'')))"

text \<open>The variants of an untagged enum are tried in their order; the first that fits is taken.\<close>

definition struct_variants_of_json :: "json \<Rightarrow> input_item option" where
  "struct_variants_of_json j =
     (case j of
        JObject m \<Rightarrow>
          (case item_reference_of_fields m of
             Some i \<Rightarrow> Some i
           | None \<Rightarrow>
               (case function_call_of_fields m of
                  Some i \<Rightarrow> Some i
                | None \<Rightarrow> function_call_output_of_fields m))
      | _ \<Rightarrow> None)"

definition input_item_of_json :: "json \<Rightarrow> input_item option" where
  "input_item_of_json j =
     (case input_message_of_json j of
        Some m \<Rightarrow> Some (II_Message m)
      | None \<Rightarrow> struct_variants_of_json j)"

fun input_items_of_json :: "json \<Rightarrow> input_item list option" where
  "input_items_of_json (JArray vs) = option_all (map input_item_of_json vs)"
| "input_items_of_json _ = None"

subsection \<open>Round trip\<close>

lemma option_all_map: "(\<And>x. x \<in> set xs \<Longrightarrow> f (g x) = Some x) \<Longrightarrow> option_all (map (f \<circ> g) xs) = Some xs"
  by (induction xs) auto

lemma field_simps [simp]:
  "field_str m k = (case map_of m k of Some (JString s) \<Rightarrow> Some s | _ \<Rightarrow> None)"
  by (rule field_str_def)

lemma field_opt_json [simp]: "map_of m k = Some (json_of_opt x) \<Longrightarrow> field_opt m k = Some x"
  by (cases x) (simp_all add: field_opt_def json_of_opt_def)

lemma input_content_roundtrip: "input_content_of_json (input_content_to_json c) = Some c"
  by (cases c) (simp_all add: content_of_variant_def)

lemma message_role_roundtrip: "message_role_of_tag (message_role_name r) = Some r"
  by (cases r) (simp_all add: message_role_of_tag_def)

lemma message_content_roundtrip: "message_content_of_json (message_content_to_json c) = Some c"
  by (cases c) (simp_all add: option_all_map input_content_roundtrip)

lemma input_item_roundtrip: "input_item_of_json (input_item_to_json i) = Some i"
  by (cases i) (auto simp: input_item_of_json_def input_message_of_json_def message_role_roundtrip
      message_content_roundtrip struct_variants_of_json_def item_reference_of_fields_def
      function_call_of_fields_def function_call_output_of_fields_def)

lemma input_items_read: "input_items_of_json (input_items_to_json items) = Some items"
  by (simp add: input_items_to_json_def option_all_map input_item_roundtrip)

text \<open>
  No encoding is mistaken for another one's, although items carry no tag and the first variant that
  fits is taken.
\<close>

lemma input_item_to_json_inject: "input_item_to_json a = input_item_to_json b \<Longrightarrow> a = b"
  by (metis input_item_roundtrip option.inject)

end
