(* ===== verification/Conversation_State.thy ===== *)
theory Conversation_State
  imports Conversation_Items Brightstaff_Request
begin

section \<open>The conversation store\<close>

text \<open>
  \<open>brightstaff/src/state\<close>: the state of a conversation of the Responses API, kept for upstreams that
  do not keep it themselves, the interface \<open>StateStorage\<close> with its two backends, and
  \<open>resolve_conversation_state\<close> of \<open>handlers/llm/mod.rs\<close>. An operation of a backend takes and returns
  the state of the backend; the answers of the database are a parameter.
\<close>

record conversation_state =
  cv_response_id :: string
  cv_input_items :: "input_item list"
  cv_created_at :: i64
  cv_model :: string
  cv_provider :: string

datatype state_storage_error = SE_NotFound string | SE_StorageError string | SE_SerializationError string

fun state_storage_error_display :: "state_storage_error \<Rightarrow> string" where
  "state_storage_error_display (SE_NotFound i) = ''Conversation state not found for response_id: '' @ i"
| "state_storage_error_display (SE_StorageError m) = ''Storage error: '' @ m"
| "state_storage_error_display (SE_SerializationError m) = ''Serialization error: '' @ m"

definition merge_state :: "conversation_state \<Rightarrow> input_item list \<Rightarrow> input_item list" where
  "merge_state prev current = cv_input_items prev @ current"

fun extract_input_items :: "input_param \<Rightarrow> input_item list" where
  "extract_input_items (IP_Text t) =
     [II_Message \<lparr>im_role = MRo_User, im_content = IMC_Items [IC_InputText t]\<rparr>]"
| "extract_input_items (IP_SingleItem item) = [item]"
| "extract_input_items (IP_Items items) = items"

type_synonym ('a, 's) storage_result = "(state_storage_error + 'a) \<times> 's"

definition retrieve_and_combine_input ::
    "(string \<Rightarrow> 's \<Rightarrow> (conversation_state, 's) storage_result) \<Rightarrow> string \<Rightarrow> input_item list \<Rightarrow> 's \<Rightarrow>
     (input_item list, 's) storage_result" where
  "retrieve_and_combine_input get prev current s =
     (case get prev s of
        (Inl e, s') \<Rightarrow> (Inl e, s')
      | (Inr v, s') \<Rightarrow> (Inr (merge_state v current), s'))"

subsection \<open>The store in memory\<close>

type_synonym memory_storage = "(string \<times> conversation_state) list"

definition memory_new :: memory_storage where "memory_new = []"

definition memory_put :: "conversation_state \<Rightarrow> memory_storage \<Rightarrow> (unit, memory_storage) storage_result" where
  "memory_put v s = (Inr (), AList.update (cv_response_id v) v s)"

definition memory_get :: "string \<Rightarrow> memory_storage \<Rightarrow> (conversation_state, memory_storage) storage_result" where
  "memory_get i s = (case map_of s i of Some v \<Rightarrow> (Inr v, s) | None \<Rightarrow> (Inl (SE_NotFound i), s))"

definition memory_exists :: "string \<Rightarrow> memory_storage \<Rightarrow> (bool, memory_storage) storage_result" where
  "memory_exists i s = (Inr (map_of s i \<noteq> None), s)"

definition memory_delete :: "string \<Rightarrow> memory_storage \<Rightarrow> (unit, memory_storage) storage_result" where
  "memory_delete i s =
     (if map_of s i \<noteq> None then (Inr (), AList.delete i s) else (Inl (SE_NotFound i), s))"

subsection \<open>The store in PostgreSQL\<close>

text \<open>
  The rows of the table \<open>conversation_states\<close> (its primary key is \<open>response_id\<close>), and whether the
  table has been verified. Of the database a call sees the answer to the question whether the table
  exists and the error of its statement, if there is one. A JSONB value is taken to be read as it
  was written (the database may reorder keys, on which no reader depends); \<open>updated_at\<close>, which is
  never read, is left out.
\<close>

record pg_row =
  row_input_items :: json
  row_created_at :: i64
  row_model :: string
  row_provider :: string

record postgresql_storage =
  pg_rows :: "(string \<times> pg_row) list"
  table_verified :: bool

record pg_answers =
  table_exists :: "string + bool"
  statement_error :: "string option"

definition missing_table :: string where
  "missing_table = ''Table '' @ [CHR 0x27] @ ''conversation_states'' @ [CHR 0x27] @
     '' does not exist. Please run the setup SQL from docs/db_setup/conversation_states.sql''"

definition ensure_ready :: "pg_answers \<Rightarrow> postgresql_storage \<Rightarrow> (unit, postgresql_storage) storage_result" where
  "ensure_ready a s =
     (if table_verified s then (Inr (), s)
      else (case table_exists a of
              Inl e \<Rightarrow> (Inl (SE_StorageError (''Failed to verify table existence: '' @ e)), s)
            | Inr False \<Rightarrow> (Inl (SE_StorageError missing_table), s)
            | Inr True \<Rightarrow> (Inr (), s\<lparr>table_verified := True\<rparr>)))"

text \<open>A statement is run when the table is there; its own error is reported with a message.\<close>

definition run_statement ::
    "pg_answers \<Rightarrow> string \<Rightarrow> (postgresql_storage \<Rightarrow> ('a, postgresql_storage) storage_result) \<Rightarrow>
     postgresql_storage \<Rightarrow> ('a, postgresql_storage) storage_result" where
  "run_statement a message f s =
     (case ensure_ready a s of
        (Inl e, s') \<Rightarrow> (Inl e, s')
      | (Inr _, s') \<Rightarrow>
          (case statement_error a of
             Some e \<Rightarrow> (Inl (SE_StorageError (message @ '': '' @ e)), s')
           | None \<Rightarrow> f s'))"

text \<open>The upsert: on a conflict the row keeps its \<open>created_at\<close>.\<close>

definition upsert_row :: "conversation_state \<Rightarrow> postgresql_storage \<Rightarrow> postgresql_storage" where
  "upsert_row v s =
     (let created = (case map_of (pg_rows s) (cv_response_id v) of
                       Some row \<Rightarrow> row_created_at row | None \<Rightarrow> cv_created_at v)
      in s\<lparr>pg_rows := AList.update (cv_response_id v)
             \<lparr>row_input_items = input_items_to_json (cv_input_items v), row_created_at = created,
              row_model = cv_model v, row_provider = cv_provider v\<rparr> (pg_rows s)\<rparr>)"

definition postgresql_put ::
    "pg_answers \<Rightarrow> conversation_state \<Rightarrow> postgresql_storage \<Rightarrow> (unit, postgresql_storage) storage_result" where
  "postgresql_put a v =
     run_statement a (''Failed to store conversation state for '' @ cv_response_id v)
       (\<lambda>s. (Inr (), upsert_row v s))"

definition pg_not_found :: "string \<Rightarrow> state_storage_error" where
  "pg_not_found i = SE_NotFound (''Conversation state not found for response_id: '' @ i)"

text \<open>A row as a state; \<open>None\<close> where its items cannot be read.\<close>

definition row_state :: "string \<Rightarrow> pg_row \<Rightarrow> conversation_state option" where
  "row_state i row =
     map_option (\<lambda>items. \<lparr>cv_response_id = i, cv_input_items = items, cv_created_at = row_created_at row,
                           cv_model = row_model row, cv_provider = row_provider row\<rparr>)
       (input_items_of_json (row_input_items row))"

text \<open>The text of serde's error is a parameter.\<close>

definition postgresql_get ::
    "(json \<Rightarrow> string) \<Rightarrow> pg_answers \<Rightarrow> string \<Rightarrow> postgresql_storage \<Rightarrow>
     (conversation_state, postgresql_storage) storage_result" where
  "postgresql_get serde_error a i =
     run_statement a (''Failed to fetch conversation state for '' @ i)
       (\<lambda>s. case map_of (pg_rows s) i of
              None \<Rightarrow> (Inl (pg_not_found i), s)
            | Some row \<Rightarrow>
                (case row_state i row of
                   None \<Rightarrow> (Inl (SE_StorageError (''Failed to deserialize input_items: '' @
                               serde_error (row_input_items row))), s)
                 | Some v \<Rightarrow> (Inr v, s)))"

definition postgresql_exists ::
    "pg_answers \<Rightarrow> string \<Rightarrow> postgresql_storage \<Rightarrow> (bool, postgresql_storage) storage_result" where
  "postgresql_exists a i =
     run_statement a (''Failed to check existence for '' @ i)
       (\<lambda>s. (Inr (map_of (pg_rows s) i \<noteq> None), s))"

definition postgresql_delete ::
    "pg_answers \<Rightarrow> string \<Rightarrow> postgresql_storage \<Rightarrow> (unit, postgresql_storage) storage_result" where
  "postgresql_delete a i =
     run_statement a (''Failed to delete conversation state for '' @ i)
       (\<lambda>s. if map_of (pg_rows s) i = None then (Inl (pg_not_found i), s)
             else (Inr (), s\<lparr>pg_rows := AList.delete i (pg_rows s)\<rparr>))"

subsection \<open>The TLS mode of the connection\<close>

datatype ssl_mode = SM_Disable | SM_Prefer | SM_Require | SM_VerifyCa | SM_VerifyFull

fun find_str :: "string \<Rightarrow> string \<Rightarrow> nat option" where
  "find_str p [] = (if p = [] then Some 0 else None)"
| "find_str p (x # xs) = (if starts_with (x # xs) p then Some 0 else map_option Suc (find_str p xs))"

definition is_mode_char :: "char \<Rightarrow> bool" where
  "is_mode_char x \<longleftrightarrow>
     (48 \<le> byte x \<and> byte x \<le> 57) \<or> (65 \<le> byte x \<and> byte x \<le> 90) \<or> (97 \<le> byte x \<and> byte x \<le> 122) \<or>
     x = CHR ''-'' \<or> x = CHR ''_''"

definition parse_sslmode :: "string \<Rightarrow> ssl_mode" where
  "parse_sslmode connection =
     (case find_str ''sslmode='' (map ascii_lower connection) of
        None \<Rightarrow> SM_Prefer
      | Some start \<Rightarrow>
          (let val = map ascii_lower (takeWhile is_mode_char (drop (start + 8) connection))
           in if val = ''disable'' then SM_Disable
              else if val = ''require'' then SM_Require
              else if val = ''verify-ca'' \<or> val = ''verifyca'' then SM_VerifyCa
              else if val = ''verify-full'' \<or> val = ''verifyfull'' then SM_VerifyFull
              else SM_Prefer))"

subsection \<open>Resolving the state of a request\<close>

text \<open>
  A request the upstream cannot continue by itself gets the history of \<open>previous_response_id\<close> in
  front of its input. The outcome is an answer to the client, or whether the state is to be kept
  with the items it starts from and the request; a panic of \<open>get_upstream_path\<close> is its own outcome.
\<close>

datatype resolved_state =
    RS_Panic string
  | RS_Answer http_answer
  | RS_Ready bool "input_item list" provider_request

definition native_responses :: "string \<Rightarrow> bool" where
  "native_responses path =
     (case upstream_from_endpoint path of Some (U_OpenAIResponsesAPI _) \<Rightarrow> True | _ \<Rightarrow> False)"

definition continue_conversation ::
    "(string \<Rightarrow> 's \<Rightarrow> (conversation_state, 's) storage_result) \<Rightarrow> responses_request \<Rightarrow> 's \<Rightarrow>
     resolved_state \<times> 's" where
  "continue_conversation get q s =
     (let items = extract_input_items (rq_input q)
      in case rq_previous_response_id q of
           None \<Rightarrow> (RS_Ready True items (PR_Responses q), s)
         | Some prev \<Rightarrow>
             (case retrieve_and_combine_input get prev items s of
                (Inr combined, s') \<Rightarrow>
                  (RS_Ready True combined (PR_Responses (q\<lparr>rq_input := IP_Items combined\<rparr>)), s')
              | (Inl (SE_NotFound _), s') \<Rightarrow>
                  (RS_Answer (409, ''Conversation state not found for previous_response_id: '' @ prev), s')
              | (Inl _, s') \<Rightarrow> (RS_Ready True items (PR_Responses q), s')))"

definition resolve_conversation_state ::
    "(string \<Rightarrow> 's \<Rightarrow> (conversation_state, 's) storage_result) \<Rightarrow> provider_request \<Rightarrow> bool \<Rightarrow>
     's option \<Rightarrow> llm_providers \<Rightarrow> string \<Rightarrow> string \<Rightarrow> bool \<Rightarrow> resolved_state \<times> 's option" where
  "resolve_conversation_state get r is_responses_client store t model path is_streaming =
     (if \<not> is_responses_client then (RS_Ready False [] r, store)
      else (case (r, store) of
              (PR_Responses q, Some s) \<Rightarrow>
                (case get_upstream_path t model path model is_streaming of
                   Inl e \<Rightarrow> (RS_Panic e, store)
                 | Inr upstream_path \<Rightarrow>
                     (if native_responses upstream_path
                      then (RS_Ready False (extract_input_items (rq_input q)) r, store)
                      else (case continue_conversation get q s of (x, s') \<Rightarrow> (x, Some s'))))
            | _ \<Rightarrow> (RS_Ready False [] r, store)))"

end
