(* ===== verification/Conversation_Contract.thy ===== *)
theory Conversation_Contract
  imports Conversation_State
begin

section \<open>The contract of the conversation store\<close>

text \<open>
  What the users of the trait \<open>StateStorage\<close> rely on, as a locale: a backend implements a map from
  response identifiers to states (the abstraction \<open>stored\<close>), up to the time stamp, which a backend
  may keep from an earlier write. The locale is interpreted on both backends; the reading of what
  was written, the tasks that write behind the client's back and whole conversations are treated
  once, inside it.
\<close>

definition stamped :: "i64 \<Rightarrow> conversation_state \<Rightarrow> conversation_state" where
  "stamped t v = v\<lparr>cv_created_at := t\<rparr>"

lemma stamped_sel [simp]:
  "cv_input_items (stamped t v) = cv_input_items v" "cv_response_id (stamped t v) = cv_response_id v"
  "cv_model (stamped t v) = cv_model v" "cv_provider (stamped t v) = cv_provider v"
  by (simp_all add: stamped_def)

subsection \<open>Writes behind the client's back\<close>

text \<open>
  \<open>ResponsesStateProcessor::on_complete\<close> spawns a task that stores the state; requests are resolved
  meanwhile. The server is the backend with the states of the tasks that have not run.
\<close>

record 's conversation_server =
  sv_store :: 's
  sv_tasks :: "conversation_state list"

datatype server_event = Completes conversation_state | Runs conversation_state | Reads string

inductive server_step ::
    "(conversation_state \<Rightarrow> 's \<Rightarrow> (unit, 's) storage_result) \<Rightarrow>
     (string \<Rightarrow> 's \<Rightarrow> (conversation_state, 's) storage_result) \<Rightarrow>
     's conversation_server \<Rightarrow> server_event \<Rightarrow> 's conversation_server \<Rightarrow> bool"
  for put get where
  completes: "server_step put get s (Completes v) (s\<lparr>sv_tasks := sv_tasks s @ [v]\<rparr>)"
| runs: "sv_tasks s = us @ v # vs \<Longrightarrow>
    server_step put get s (Runs v) \<lparr>sv_store = snd (put v (sv_store s)), sv_tasks = us @ vs\<rparr>"
| reads: "server_step put get s (Reads i) (s\<lparr>sv_store := snd (get i (sv_store s))\<rparr>)"

inductive_cases server_step_E:
  "server_step put get s (Completes v) s'" "server_step put get s (Runs v) s'"
  "server_step put get s (Reads i) s'"

inductive server_run ::
    "(conversation_state \<Rightarrow> 's \<Rightarrow> (unit, 's) storage_result) \<Rightarrow>
     (string \<Rightarrow> 's \<Rightarrow> (conversation_state, 's) storage_result) \<Rightarrow>
     's conversation_server \<Rightarrow> server_event list \<Rightarrow> 's conversation_server \<Rightarrow> bool"
  for put get where
  start: "server_run put get s [] s"
| step: "server_run put get s es s' \<Longrightarrow> server_step put get s' e s'' \<Longrightarrow>
    server_run put get s (es @ [e]) s''"

fun completed_by :: "server_event \<Rightarrow> conversation_state option" where
  "completed_by (Completes v) = Some v"
| "completed_by _ = None"

definition completed :: "server_event list \<Rightarrow> conversation_state list" where
  "completed es = List.map_filter completed_by es"

lemma completed_simps [simp]:
  "completed [] = []" "completed (es @ [Completes v]) = completed es @ [v]"
  "completed (es @ [Runs v]) = completed es" "completed (es @ [Reads i]) = completed es"
  by (simp_all add: completed_def map_filter_simps)

subsection \<open>The locale\<close>

locale state_storage =
  fixes put :: "conversation_state \<Rightarrow> 's \<Rightarrow> (unit, 's) storage_result"
    and get :: "string \<Rightarrow> 's \<Rightarrow> (conversation_state, 's) storage_result"
    and exists :: "string \<Rightarrow> 's \<Rightarrow> (bool, 's) storage_result"
    and delete :: "string \<Rightarrow> 's \<Rightarrow> (unit, 's) storage_result"
    and stored :: "'s \<Rightarrow> string \<Rightarrow> conversation_state option"
    and inv :: "'s \<Rightarrow> bool"
  assumes get_found: "inv s \<Longrightarrow> stored s i = Some v \<Longrightarrow> fst (get i s) = Inr v"
    and get_missing: "inv s \<Longrightarrow> stored s i = None \<Longrightarrow> \<exists>m. fst (get i s) = Inl (SE_NotFound m)"
    and get_keeps: "inv s \<Longrightarrow> stored (snd (get i s)) = stored s \<and> inv (snd (get i s))"
    and exists_stored: "inv s \<Longrightarrow> fst (exists i s) = Inr (stored s i \<noteq> None)"
    and exists_keeps: "inv s \<Longrightarrow> stored (snd (exists i s)) = stored s \<and> inv (snd (exists i s))"
    and put_ok: "inv s \<Longrightarrow> fst (put v s) = Inr () \<and> inv (snd (put v s))"
    and put_stored: "inv s \<Longrightarrow> \<exists>t. stored (snd (put v s)) = (stored s)(cv_response_id v \<mapsto> stamped t v)"
    and delete_found: "inv s \<Longrightarrow> stored s i \<noteq> None \<Longrightarrow> fst (delete i s) = Inr ()"
    and delete_missing: "inv s \<Longrightarrow> stored s i = None \<Longrightarrow> \<exists>m. fst (delete i s) = Inl (SE_NotFound m)"
    and delete_stored: "inv s \<Longrightarrow> stored (snd (delete i s)) = (stored s)(i := None) \<and> inv (snd (delete i s))"
begin

lemma retrieve_found:
  "inv s \<Longrightarrow> stored s i = Some v \<Longrightarrow>
   fst (retrieve_and_combine_input get i cur s) = Inr (cv_input_items v @ cur)"
  using get_found [of s i v]
  by (cases "get i s") (simp add: retrieve_and_combine_input_def merge_state_def)

lemma retrieve_missing:
  "inv s \<Longrightarrow> stored s i = None \<Longrightarrow>
   \<exists>m. fst (retrieve_and_combine_input get i cur s) = Inl (SE_NotFound m)"
  using get_missing [of s i] by (cases "get i s") (auto simp: retrieve_and_combine_input_def)

lemma continue_found:
  assumes "inv s" and "stored s i = Some v" and "rq_previous_response_id q = Some i"
  shows "fst (continue_conversation get q s) =
    RS_Ready True (cv_input_items v @ extract_input_items (rq_input q))
      (PR_Responses (q\<lparr>rq_input := IP_Items (cv_input_items v @ extract_input_items (rq_input q))\<rparr>))"
  using retrieve_found [OF assms(1,2), of "extract_input_items (rq_input q)"] assms(3)
  by (cases "retrieve_and_combine_input get i (extract_input_items (rq_input q)) s")
     (simp add: continue_conversation_def Let_def)

lemma continue_missing:
  assumes "inv s" and "stored s i = None" and "rq_previous_response_id q = Some i"
  shows "fst (continue_conversation get q s) =
    RS_Answer (409, ''Conversation state not found for previous_response_id: '' @ i)"
  using retrieve_missing [OF assms(1,2), of "extract_input_items (rq_input q)"] assms(3)
  by (cases "retrieve_and_combine_input get i (extract_input_items (rq_input q)) s")
     (auto simp: continue_conversation_def Let_def)

text \<open>
  The invariant of the server: a response identifier is stored or still in a task, exactly when a
  response with it was completed, and what is stored is what was completed.
\<close>

definition consistent :: "conversation_state list \<Rightarrow> 's conversation_server \<Rightarrow> bool" where
  "consistent done s \<longleftrightarrow>
     inv (sv_store s) \<and> set (sv_tasks s) \<subseteq> set done \<and> distinct (map cv_response_id (sv_tasks s)) \<and>
     (\<forall>v \<in> set (sv_tasks s). stored (sv_store s) (cv_response_id v) = None) \<and>
     (\<forall>v \<in> set done - set (sv_tasks s). \<exists>t. stored (sv_store s) (cv_response_id v) = Some (stamped t v)) \<and>
     (\<forall>i. i \<notin> cv_response_id ` set done \<longrightarrow> stored (sv_store s) i = None)"

lemma step_consistent:
  assumes "server_step put get s e s'" and "consistent done s"
    and "distinct (map cv_response_id (done @ completed [e]))"
  shows "consistent (done @ completed [e]) s'"
  using assms(1)
proof cases
  case (completes v)
  then show ?thesis using assms(2,3)
    by (auto simp: consistent_def completed_def map_filter_simps inj_on_def image_iff)
next
  case (runs us v vs)
  obtain t where t: "stored (snd (put v (sv_store s))) = (stored (sv_store s))(cv_response_id v \<mapsto> stamped t v)"
    using put_stored assms(2) unfolding consistent_def by blast
  have "inj_on cv_response_id (set done)"
    using assms(3) by (simp add: distinct_map)
  moreover have "cv_response_id w \<noteq> cv_response_id v" if "w \<in> set us \<union> set vs" for w
    using that assms(2) runs(3) unfolding consistent_def by (auto simp: image_iff)
  ultimately show ?thesis using runs t put_ok assms(2)
    by (auto simp: consistent_def completed_def map_filter_simps inj_on_def)
next
  case (reads i)
  then show ?thesis using assms(2) get_keeps
    by (auto simp: consistent_def completed_def map_filter_simps)
qed

lemma run_consistent:
  assumes "server_run put get s0 es s" and "consistent [] s0"
    and "distinct (map cv_response_id (completed es))"
  shows "consistent (completed es) s"
  using assms
proof (induction rule: server_run.induct)
  case (step s es s' e s'')
  have "completed (es @ [e]) = completed es @ completed [e]" by (simp add: completed_def)
  with step step_consistent [OF step.hyps(2)] show ?case by simp
qed simp

lemma run_resolved:
  assumes "server_run put get s0 es s" and "consistent [] s0"
    and "distinct (map cv_response_id (completed es))" and "v \<in> set (completed es)"
    and "rq_previous_response_id q = Some (cv_response_id v)"
  shows "fst (continue_conversation get q (sv_store s)) =
    (if v \<in> set (sv_tasks s)
     then RS_Answer (409, ''Conversation state not found for previous_response_id: '' @ cv_response_id v)
     else RS_Ready True (cv_input_items v @ extract_input_items (rq_input q))
       (PR_Responses (q\<lparr>rq_input := IP_Items (cv_input_items v @ extract_input_items (rq_input q))\<rparr>)))"
proof -
  have c: "consistent (completed es) s" using run_consistent assms by blast
  then have i: "inv (sv_store s)" by (simp add: consistent_def)
  show ?thesis
  proof (cases "v \<in> set (sv_tasks s)")
    case True
    then have "stored (sv_store s) (cv_response_id v) = None"
      using c assms(4) by (auto simp: consistent_def)
    with True continue_missing [OF i _ assms(5)] show ?thesis by simp
  next
    case False
    then obtain t where "stored (sv_store s) (cv_response_id v) = Some (stamped t v)"
      using c assms(4) unfolding consistent_def by blast
    with False continue_found [OF i _ assms(5)] show ?thesis by simp
  qed
qed

end

subsection \<open>The two backends\<close>

lemma map_of_AList_update: "map_of (AList.update k v m) = (map_of m)(k \<mapsto> v)"
  by (simp add: update_conv')

lemma stamped_own: "stamped (cv_created_at v) v = v"
  by (simp add: stamped_def)

interpretation memory: state_storage memory_put memory_get memory_exists memory_delete map_of "\<lambda>_. True"
proof unfold_locales
  show "\<exists>t. map_of (snd (memory_put v s)) = (map_of s)(cv_response_id v \<mapsto> stamped t v)" for v s
    by (rule exI [of _ "cv_created_at v"]) (simp add: memory_put_def map_of_AList_update stamped_own)
qed (auto simp: memory_put_def memory_get_def memory_exists_def memory_delete_def delete_conv'
    split: option.splits)

text \<open>A database that answers: the table exists and no statement fails.\<close>

definition healthy :: pg_answers where
  "healthy = \<lparr>table_exists = Inr True, statement_error = None\<rparr>"

definition pg_stored :: "postgresql_storage \<Rightarrow> string \<Rightarrow> conversation_state option" where
  "pg_stored s i = Option.bind (map_of (pg_rows s) i) (row_state i)"

text \<open>Every row can be read, which the round trip of the items gives.\<close>

definition pg_readable :: "postgresql_storage \<Rightarrow> bool" where
  "pg_readable s \<longleftrightarrow> (\<forall>i row. map_of (pg_rows s) i = Some row \<longrightarrow> row_state i row \<noteq> None)"

lemma run_healthy:
  "run_statement healthy message f s =
     (if table_verified s then f s else f (s\<lparr>table_verified := True\<rparr>))"
  by (simp add: run_statement_def healthy_def ensure_ready_def)

lemma pg_verified [simp]:
  "pg_stored (s\<lparr>table_verified := b\<rparr>) = pg_stored s"
  "pg_readable (s\<lparr>table_verified := b\<rparr>) = pg_readable s"
  by (simp_all add: pg_stored_def [abs_def] pg_readable_def)

lemma pg_stored_None: "pg_readable s \<Longrightarrow> pg_stored s i = None \<longleftrightarrow> map_of (pg_rows s) i = None"
  by (cases "map_of (pg_rows s) i") (auto simp: pg_stored_def pg_readable_def)

lemma upsert_stored:
  "\<exists>t. pg_stored (upsert_row v s) = (pg_stored s)(cv_response_id v \<mapsto> stamped t v)"
proof -
  define t where "t = (case map_of (pg_rows s) (cv_response_id v) of
      Some row \<Rightarrow> row_created_at row | None \<Rightarrow> cv_created_at v)"
  have "pg_stored (upsert_row v s) = (pg_stored s)(cv_response_id v \<mapsto> stamped t v)"
    by (cases v) (auto simp: fun_eq_iff pg_stored_def upsert_row_def map_of_AList_update row_state_def
        input_items_read stamped_def t_def Let_def)
  then show ?thesis by blast
qed

lemma upsert_readable: "pg_readable s \<Longrightarrow> pg_readable (upsert_row v s)"
  by (auto simp: pg_readable_def upsert_row_def Let_def map_of_AList_update row_state_def
      input_items_read split: if_splits)

interpretation postgresql: state_storage "postgresql_put healthy" "postgresql_get serde_error healthy"
    "postgresql_exists healthy" "postgresql_delete healthy" pg_stored pg_readable
  for serde_error
proof unfold_locales
  fix s i v
  assume s: "pg_readable s"
  show "fst (postgresql_get serde_error healthy i s) = Inr v" if "pg_stored s i = Some v"
    using that by (auto simp: postgresql_get_def run_healthy pg_stored_def bind_eq_Some_conv)
  show "\<exists>m. fst (postgresql_get serde_error healthy i s) = Inl (SE_NotFound m)" if "pg_stored s i = None"
    using that s by (auto simp: postgresql_get_def run_healthy pg_stored_None pg_not_found_def)
  show "pg_stored (snd (postgresql_get serde_error healthy i s)) = pg_stored s \<and>
      pg_readable (snd (postgresql_get serde_error healthy i s))"
    using s by (auto simp: postgresql_get_def run_healthy split: option.splits)
  show "fst (postgresql_exists healthy i s) = Inr (pg_stored s i \<noteq> None)"
    using s by (auto simp: postgresql_exists_def run_healthy pg_stored_None)
  show "pg_stored (snd (postgresql_exists healthy i s)) = pg_stored s \<and>
      pg_readable (snd (postgresql_exists healthy i s))"
    using s by (auto simp: postgresql_exists_def run_healthy)
  show "fst (postgresql_put healthy v s) = Inr () \<and> pg_readable (snd (postgresql_put healthy v s))"
    using s by (auto simp: postgresql_put_def run_healthy upsert_readable)
  show "\<exists>t. pg_stored (snd (postgresql_put healthy v s)) =
      (pg_stored s)(cv_response_id v \<mapsto> stamped t v)"
    using upsert_stored [of v s] upsert_stored [of v "s\<lparr>table_verified := True\<rparr>"]
    by (simp add: postgresql_put_def run_healthy)
  show "fst (postgresql_delete healthy i s) = Inr ()" if "pg_stored s i \<noteq> None"
    using that s by (auto simp: postgresql_delete_def run_healthy pg_stored_None)
  show "\<exists>m. fst (postgresql_delete healthy i s) = Inl (SE_NotFound m)" if "pg_stored s i = None"
    using that s by (auto simp: postgresql_delete_def run_healthy pg_stored_None pg_not_found_def)
  show "pg_stored (snd (postgresql_delete healthy i s)) = (pg_stored s)(i := None) \<and>
      pg_readable (snd (postgresql_delete healthy i s))"
    using s by (auto simp: postgresql_delete_def run_healthy pg_stored_None fun_eq_iff
        delete_conv' pg_stored_def pg_readable_def split: if_splits)
qed

end
