(* ===== verification/Provider_Response.thy ===== *)
theory Provider_Response
  imports Request_Messages Request_OpenAI Endpoints
begin

section \<open>Whole responses and their translation\<close>

text \<open>
  The non-streaming responses of \<open>apis/openai.rs\<close>, \<open>apis/anthropic.rs\<close> and
  \<open>apis/amazon_bedrock.rs\<close>, their translation (\<open>transforms/response/to_openai.rs\<close>,
  \<open>transforms/response/to_anthropic.rs\<close>) and the dispatch of \<open>providers/response.rs\<close>, all under
  \<open>crates/hermesllm/src\<close>. The clock (in nanoseconds), the UUID without hyphens, the JSON library
  and the parsers of whole responses are parameters.
\<close>

subsection \<open>Response types\<close>

record response_message =
  rm_role :: role
  rm_content :: "string option"
  rm_refusal :: "string option"
  rm_annotations :: "json list option"
  rm_audio :: "json option"
  rm_function_call :: "function_call option"
  rm_tool_calls :: "tool_call list option"

record choice =
  ch_index :: u32
  ch_message :: response_message
  ch_finish_reason :: "finish_reason option"
  ch_logprobs :: "json option"

record chat_response =
  cs_id :: string
  cs_object :: "string option"
  cs_created :: u64
  cs_model :: string
  cs_choices :: "choice list"
  cs_usage :: usage
  cs_system_fingerprint :: "string option"
  cs_service_tier :: "string option"
  cs_metadata :: "(string \<times> json) list option"

record messages_container =
  mc_id :: string
  mc_container_type :: string
  mc_name :: string
  mc_status :: string

record messages_response =
  ms_id :: string
  ms_obj_type :: string
  ms_role :: messages_role
  ms_content :: "content_block list"
  ms_model :: string
  ms_stop_reason :: messages_stop_reason
  ms_stop_sequence :: "string option"
  ms_usage :: messages_usage
  ms_container :: "messages_container option"

record guardrail_trace_assessment =
  gta_action_reason :: "string option"
  gta_model_output :: "string list option"
  gta_input_assessment :: "(string \<times> json) list option"
  gta_output_assessments :: "(string \<times> json list) list option"

text \<open>The prompt router is the identifier of the model it invoked.\<close>

record converse_trace =
  ct_guardrail :: "guardrail_trace_assessment option"
  ct_prompt_router :: "string option"

datatype performance_latency = PL_Standard | PL_Optimized

text \<open>The message is the only variant of \<open>ConverseOutput\<close>; the metrics are a latency.\<close>

record converse_response =
  vs_output :: bedrock_message
  vs_stop_reason :: bedrock_stop_reason
  vs_usage :: bedrock_token_usage
  vs_metrics :: "u64 option"
  vs_additional_model_response_fields :: "json option"
  vs_performance_config :: "performance_latency option option"
  vs_trace :: "converse_trace option"

definition response_to_message :: "response_message \<Rightarrow> message" where
  "response_to_message m =
     \<lparr>m_role = rm_role m, m_content = map_option MC_Text (rm_content m), m_name = None,
      m_tool_calls = rm_tool_calls m, m_tool_call_id = None\<rparr>"

definition plain_choice ::
    "role \<Rightarrow> string option \<Rightarrow> tool_call list option \<Rightarrow> finish_reason \<Rightarrow> choice" where
  "plain_choice r content tool_calls finish =
     \<lparr>ch_index = 0,
      ch_message = \<lparr>rm_role = r, rm_content = content, rm_refusal = None, rm_annotations = None,
        rm_audio = None, rm_function_call = None, rm_tool_calls = tool_calls\<rparr>,
      ch_finish_reason = Some finish, ch_logprobs = None\<rparr>"

definition chat_completion :: "string \<Rightarrow> u64 \<Rightarrow> string \<Rightarrow> choice \<Rightarrow> usage \<Rightarrow> chat_response" where
  "chat_completion i created model ch u =
     \<lparr>cs_id = i, cs_object = Some ''chat.completion'', cs_created = created, cs_model = model,
      cs_choices = [ch], cs_usage = u, cs_system_fingerprint = None, cs_service_tier = None,
      cs_metadata = None\<rparr>"

subsection \<open>Chat Completions to Responses\<close>

definition json_str_field :: "string \<Rightarrow> (string \<times> json) list \<Rightarrow> string option" where
  "json_str_field k obj = (case map_of obj k of Some (JString s) \<Rightarrow> Some s | _ \<Rightarrow> None)"

definition response_message_content :: "response_message \<Rightarrow> output_content list" where
  "response_message_content m =
     (case rm_content m of Some t \<Rightarrow> [OC_OutputText t [] None] | None \<Rightarrow> []) @
     (case rm_audio m of
        Some (JObject obj) \<Rightarrow>
          [OC_OutputAudio (json_str_field ''data'' obj) (json_str_field ''transcript'' obj)]
      | _ \<Rightarrow> []) @
     (case rm_refusal m of Some r \<Rightarrow> [OC_Refusal r] | None \<Rightarrow> [])"

definition message_item_id :: "string \<Rightarrow> string" where
  "message_item_id i =
     (if starts_with i ''msg_'' then i
      else if starts_with i ''resp_'' then ''msg_'' @ drop 5 i
      else if starts_with i ''chatcmpl-'' then ''msg_'' @ drop 9 i
      else ''msg_'' @ i)"

fun role_name :: "role \<Rightarrow> string" where
  "role_name R_User = ''user''"
| "role_name R_Assistant = ''assistant''"
| "role_name R_System = ''system''"
| "role_name R_Tool = ''tool''"
| "role_name R_Developer = ''developer''"

definition function_call_item :: "tool_call \<Rightarrow> output_item" where
  "function_call_item tc =
     OI_FunctionCall (''func_'' @ tc_id tc) OIS_Completed (tc_id tc)
       (Some (fc_name (tc_function tc))) (Some (fc_arguments (tc_function tc)))"

definition choice_output :: "string \<Rightarrow> choice \<Rightarrow> output_item list" where
  "choice_output i ch =
     (let m = ch_message ch; content = response_message_content m
      in (if content \<noteq> []
          then [OI_Message (message_item_id i) OIS_Completed (role_name (rm_role m)) content] else []) @
         (case rm_tool_calls m of Some tcs \<Rightarrow> map function_call_item tcs | None \<Rightarrow> []))"

definition finish_status :: "finish_reason option \<Rightarrow> response_status" where
  "finish_status f =
     (case f of
        Some FR_Stop \<Rightarrow> RS_Completed
      | Some FR_ToolCalls \<Rightarrow> RS_Completed
      | Some FR_Length \<Rightarrow> RS_Incomplete
      | Some FR_ContentFilter \<Rightarrow> RS_Failed
      | _ \<Rightarrow> RS_Completed)"

text \<open>The casts of \<open>u32\<close> to \<open>i32\<close> keep the bits.\<close>

definition response_usage_of :: "usage \<Rightarrow> response_usage" where
  "response_usage_of u =
     \<lparr>ru_input_tokens = prompt_tokens u, ru_output_tokens = completion_tokens u,
      ru_total_tokens = total_tokens u,
      ru_cached_tokens = map_option (\<lambda>d. case_option 0 id (ptd_cached_tokens d))
        (u_prompt_tokens_details u),
      ru_reasoning_tokens = map_option (\<lambda>d. case_option 0 id (ctd_reasoning_tokens d))
        (u_completion_tokens_details u)\<rparr>"

text \<open>The conversion never fails.\<close>

definition chat_to_responses_response :: "string \<Rightarrow> chat_response \<Rightarrow> responses_response" where
  "chat_to_responses_response uuid r =
     (let output = (case cs_choices r of ch # _ \<Rightarrow> choice_output (cs_id r) ch | [] \<Rightarrow> []);
          status = (case cs_choices r of ch # _ \<Rightarrow> finish_status (ch_finish_reason ch)
                    | [] \<Rightarrow> RS_Completed)
      in \<lparr>rr_id = (if starts_with (cs_id r) ''resp_'' then cs_id r else ''resp_'' @ uuid),
          rr_object = ''response'', rr_created_at = cs_created r, rr_status = status,
          rr_error = None,
          rr_incomplete_details = (if status = RS_Incomplete then Some IR_MaxOutputTokens else None),
          rr_instructions = None, rr_model = cs_model r, rr_output = output,
          rr_usage = Some (response_usage_of (cs_usage r)), rr_parallel_tool_calls = True,
          rr_conversation = None, rr_previous_response_id = None, rr_tools = [],
          rr_tool_choice = ''auto'', rr_temperature = f32_one, rr_top_p = f32_one,
          rr_metadata = (case cs_metadata r of Some m \<Rightarrow> m | None \<Rightarrow> []), rr_truncation = None,
          rr_max_output_tokens = None,
          rr_reasoning = Some \<lparr>re_effort = None, re_summary = None\<rparr>, rr_store = None,
          rr_text = None, rr_audio = None, rr_modalities = None,
          rr_service_tier = cs_service_tier r, rr_background = Some False,
          rr_top_logprobs = None, rr_max_tool_calls = None\<rparr>)"

subsection \<open>Anthropic to Chat Completions\<close>

fun visible_text :: "content_block \<Rightarrow> string option" where
  "visible_text (CB_Text t _) = Some t"
| "visible_text (CB_Thinking t _ _) = Some (''thinking: '' @ t)"
| "visible_text _ = None"

definition convert_anthropic_content_to_openai :: "content_block list \<Rightarrow> message_content" where
  "convert_anthropic_content_to_openai bs = MC_Text (join NL (List.map_filter visible_text bs))"

definition message_content_string :: "message_content \<Rightarrow> string option" where
  "message_content_string mc =
     (case mc of
        MC_Text t \<Rightarrow> Some t
      | MC_Parts ps \<Rightarrow> (let t = extract_text_parts ps in if t = [] then None else Some t))"

definition messages_to_chat_response ::
    "json_codec \<Rightarrow> u64 \<Rightarrow> messages_response \<Rightarrow> chat_response" where
  "messages_to_chat_response c now r =
     chat_completion (ms_id r) now (ms_model r)
       (plain_choice R_Assistant
          (message_content_string (convert_anthropic_content_to_openai (ms_content r)))
          (extract_tool_calls c (ms_content r)) (finish_of_stop_reason (ms_stop_reason r)))
       \<lparr>prompt_tokens = input_tokens (ms_usage r), completion_tokens = output_tokens (ms_usage r),
        total_tokens = input_tokens (ms_usage r) + output_tokens (ms_usage r),
        u_prompt_tokens_details = None, u_completion_tokens_details = None\<rparr>"

subsection \<open>Bedrock to Chat Completions\<close>

fun bedrock_tool_call :: "json_codec \<Rightarrow> bedrock_block \<Rightarrow> tool_call option" where
  "bedrock_tool_call c (BB_ToolUse u) =
     Some (function_tool_call (tub_tool_use_id u) (tub_name u) (json_print c (tub_input u)))"
| "bedrock_tool_call c _ = None"

fun bedrock_text :: "bedrock_block \<Rightarrow> string" where
  "bedrock_text (BB_Text t) = t"
| "bedrock_text _ = []"

definition convert_bedrock_message_to_openai ::
    "json_codec \<Rightarrow> bedrock_message \<Rightarrow> string option \<times> tool_call list option" where
  "convert_bedrock_message_to_openai c m =
     (let text_content = concat (map bedrock_text (bm_content m));
          tool_calls = List.map_filter (bedrock_tool_call c) (bm_content m)
      in (if text_content = [] then None else Some text_content,
          if tool_calls = [] then None else Some tool_calls))"

definition bedrock_response_id :: "nat \<Rightarrow> string" where
  "bedrock_response_id nanos = ''bedrock-'' @ digits nanos"

definition bedrock_model :: "converse_response \<Rightarrow> string" where
  "bedrock_model r =
     (case vs_trace r of
        None \<Rightarrow> ''bedrock-model''
      | Some t \<Rightarrow> (case ct_prompt_router t of Some m \<Rightarrow> m | None \<Rightarrow> ''bedrock-model''))"

definition converse_to_chat_response ::
    "json_codec \<Rightarrow> nat \<Rightarrow> u64 \<Rightarrow> converse_response \<Rightarrow> chat_response" where
  "converse_to_chat_response c nanos now r =
     (let (content, tool_calls) = convert_bedrock_message_to_openai c (vs_output r);
          u = vs_usage r
      in chat_completion (bedrock_response_id nanos) now (bedrock_model r)
           (plain_choice (role_of_conversation (bm_role (vs_output r))) content tool_calls
              (finish_of_bedrock (vs_stop_reason r)))
           \<lparr>prompt_tokens = bu_input_tokens u, completion_tokens = bu_output_tokens u,
            total_tokens = bu_total_tokens u, u_prompt_tokens_details = None,
            u_completion_tokens_details = None\<rparr>)"

subsection \<open>To Anthropic\<close>

definition chat_to_messages_response ::
    "json_codec \<Rightarrow> chat_response \<Rightarrow> transform_error + messages_response" where
  "chat_to_messages_response c r =
     (case cs_choices r of
        [] \<Rightarrow> Inl (TE_MissingField ''choices'')
      | ch # _ \<Rightarrow>
          (case convert_openai_message_to_anthropic_content c (response_to_message (ch_message ch)) of
             Inl e \<Rightarrow> Inl e
           | Inr content \<Rightarrow>
               Inr \<lparr>ms_id = cs_id r, ms_obj_type = ''message'', ms_role = MR_Assistant,
                    ms_content = content, ms_model = cs_model r,
                    ms_stop_reason =
                      (case ch_finish_reason ch of
                         Some f \<Rightarrow> stop_reason_of_finish f | None \<Rightarrow> SR_EndTurn),
                    ms_stop_sequence = None,
                    ms_usage = \<lparr>input_tokens = prompt_tokens (cs_usage r),
                      output_tokens = completion_tokens (cs_usage r),
                      cache_creation_input_tokens = None, cache_read_input_tokens = None\<rparr>,
                    ms_container = None\<rparr>))"

fun tool_result_block_of :: "json_codec \<Rightarrow> tool_result_block_content \<Rightarrow> content_block" where
  "tool_result_block_of c (TRB_Text t) = CB_Text t None"
| "tool_result_block_of c (TRB_Image (BIS_Base64 m d)) = CB_Image (IS_Base64 m d)"
| "tool_result_block_of c (TRB_Json j) = CB_Text (json_print c j) None"

fun bedrock_block_to_messages :: "json_codec \<Rightarrow> bedrock_block \<Rightarrow> content_block option" where
  "bedrock_block_to_messages c (BB_Text t) = Some (CB_Text t None)"
| "bedrock_block_to_messages c (BB_ToolUse u) =
     Some (CB_ToolUse (tub_tool_use_id u) (tub_name u) (tub_input u) None)"
| "bedrock_block_to_messages c (BB_ToolResult r) =
     Some (CB_ToolResult (trb_tool_use_id r) (map_option (\<lambda>s. s = TRS_Error) (trb_status r))
       (TRC_Blocks (map (tool_result_block_of c) (trb_content r))) None)"
| "bedrock_block_to_messages c (BB_Image (BIS_Base64 m d)) = Some (CB_Image (IS_Base64 m d))"
| "bedrock_block_to_messages c (BB_Document (BDS_Base64 m d) _) = Some (CB_Document (DS_Base64 m d))"
| "bedrock_block_to_messages c (BB_GuardContent g) = map_option (\<lambda>t. CB_Text (gct_text t) None) g"

definition convert_bedrock_message_to_anthropic_content ::
    "json_codec \<Rightarrow> bedrock_message \<Rightarrow> content_block list" where
  "convert_bedrock_message_to_anthropic_content c m =
     List.map_filter (bedrock_block_to_messages c) (bm_content m)"

definition converse_to_messages_response ::
    "json_codec \<Rightarrow> nat \<Rightarrow> converse_response \<Rightarrow> messages_response" where
  "converse_to_messages_response c nanos r =
     \<lparr>ms_id = bedrock_response_id nanos, ms_obj_type = ''message'',
      ms_role = messages_role_of_conversation (bm_role (vs_output r)),
      ms_content = convert_bedrock_message_to_anthropic_content c (vs_output r),
      ms_model = bedrock_model r, ms_stop_reason = stop_reason_of_bedrock (vs_stop_reason r),
      ms_stop_sequence = None,
      ms_usage = \<lparr>input_tokens = bu_input_tokens (vs_usage r),
        output_tokens = bu_output_tokens (vs_usage r),
        cache_creation_input_tokens = bu_cache_write_input_tokens (vs_usage r),
        cache_read_input_tokens = bu_cache_read_input_tokens (vs_usage r)\<rparr>,
      ms_container = None\<rparr>"

subsection \<open>The response enum and its token usage\<close>

datatype provider_response =
    PRs_ChatCompletions chat_response
  | PRs_Messages messages_response
  | PRs_Responses responses_response

text \<open>A \<open>usize\<close> is a word of the width of the target; the filter is built for 32 bits.\<close>

record 'n usage_details =
  ud_prompt_tokens :: 'n
  ud_completion_tokens :: 'n
  ud_total_tokens :: 'n
  ud_cached_input_tokens :: "'n option"
  ud_cache_creation_tokens :: "'n option"
  ud_reasoning_tokens :: "'n option"

definition chat_usage_details :: "usage \<Rightarrow> ('w::len) word usage_details" where
  "chat_usage_details u =
     \<lparr>ud_prompt_tokens = ucast (prompt_tokens u), ud_completion_tokens = ucast (completion_tokens u),
      ud_total_tokens = ucast (total_tokens u),
      ud_cached_input_tokens = (case u_prompt_tokens_details u of
        Some d \<Rightarrow> map_option ucast (ptd_cached_tokens d) | None \<Rightarrow> None),
      ud_cache_creation_tokens = None,
      ud_reasoning_tokens = (case u_completion_tokens_details u of
        Some d \<Rightarrow> map_option ucast (ctd_reasoning_tokens d) | None \<Rightarrow> None)\<rparr>"

definition messages_usage_details :: "messages_usage \<Rightarrow> ('w::len) word usage_details" where
  "messages_usage_details u =
     \<lparr>ud_prompt_tokens = ucast (input_tokens u), ud_completion_tokens = ucast (output_tokens u),
      ud_total_tokens = ucast (input_tokens u + output_tokens u),
      ud_cached_input_tokens = map_option ucast (cache_read_input_tokens u),
      ud_cache_creation_tokens = map_option ucast (cache_creation_input_tokens u),
      ud_reasoning_tokens = None\<rparr>"

definition nonneg_usize :: "i32 \<Rightarrow> ('w::len) word" where
  "nonneg_usize n = (if sint n < 0 then 0 else scast n)"

definition responses_usage_details :: "response_usage \<Rightarrow> ('w::len) word usage_details" where
  "responses_usage_details u =
     \<lparr>ud_prompt_tokens = scast (ru_input_tokens u), ud_completion_tokens = scast (ru_output_tokens u),
      ud_total_tokens = scast (ru_total_tokens u),
      ud_cached_input_tokens = map_option nonneg_usize (ru_cached_tokens u),
      ud_cache_creation_tokens = None,
      ud_reasoning_tokens = map_option nonneg_usize (ru_reasoning_tokens u)\<rparr>"

fun extract_usage_details :: "provider_response \<Rightarrow> ('w::len) word usage_details option" where
  "extract_usage_details (PRs_ChatCompletions r) = Some (chat_usage_details (cs_usage r))"
| "extract_usage_details (PRs_Messages r) = Some (messages_usage_details (ms_usage r))"
| "extract_usage_details (PRs_Responses r) = map_option responses_usage_details (rr_usage r)"

definition extract_usage_counts ::
    "provider_response \<Rightarrow> (('w::len) word \<times> 'w word \<times> 'w word) option" where
  "extract_usage_counts r =
     map_option (\<lambda>d. (ud_prompt_tokens d, ud_completion_tokens d, ud_total_tokens d))
       (extract_usage_details r)"

subsection \<open>From the upstream's bytes to the client's response\<close>

record response_codec =
  rs_json :: json_codec
  rs_now_nanos :: nat
  rs_uuid :: string
  parse_chat_response :: "string \<Rightarrow> string + chat_response"
  parse_messages_response :: "string \<Rightarrow> string + messages_response"
  parse_converse_response :: "string \<Rightarrow> string + converse_response"
  parse_responses_response :: "string \<Rightarrow> string + responses_response"
  ser_response :: "provider_response \<Rightarrow> string + string"

definition rs_now :: "response_codec \<Rightarrow> u64" where
  "rs_now c = of_nat (rs_now_nanos c div 1000000000)"

definition chat_response_of_bytes :: "response_codec \<Rightarrow> string \<Rightarrow> string + chat_response" where
  "chat_response_of_bytes c bytes =
     map_sum (\<lambda>e. ''JSON parsing error: '' @ e) id (parse_chat_response c bytes)"

definition messages_of_chat :: "response_codec \<Rightarrow> chat_response \<Rightarrow> string + messages_response" where
  "messages_of_chat c r =
     map_sum (\<lambda>e. ''Transformation error: '' @ transform_error_display e) id
       (chat_to_messages_response (rs_json c) r)"

definition then_parsed :: "'e + 'a \<Rightarrow> ('a \<Rightarrow> 'e + 'b) \<Rightarrow> 'e + 'b" where
  "then_parsed x f = (case x of Inl e \<Rightarrow> Inl e | Inr a \<Rightarrow> f a)"

definition unsupported_response_combination :: string where
  "unsupported_response_combination = ''Unsupported API combination for response transformation''"

definition response_of_bytes ::
    "response_codec \<Rightarrow> string \<Rightarrow> client_api \<Rightarrow> provider_id \<Rightarrow> string + provider_response" where
  "response_of_bytes c bytes client p =
     (case (compatible_api_for_client p client False, client) of
        (U_OpenAIChatCompletions _, C_OpenAIChatCompletions _) \<Rightarrow>
          map_sum id PRs_ChatCompletions (chat_response_of_bytes c bytes)
      | (U_AnthropicMessagesAPI _, C_AnthropicMessagesAPI _) \<Rightarrow>
          map_sum id PRs_Messages (parse_messages_response c bytes)
      | (U_AnthropicMessagesAPI _, C_OpenAIChatCompletions _) \<Rightarrow>
          map_sum id (\<lambda>r. PRs_ChatCompletions (messages_to_chat_response (rs_json c) (rs_now c) r))
            (parse_messages_response c bytes)
      | (U_OpenAIChatCompletions _, C_AnthropicMessagesAPI _) \<Rightarrow>
          then_parsed (chat_response_of_bytes c bytes)
            (\<lambda>r. map_sum id PRs_Messages (messages_of_chat c r))
      | (U_AmazonBedrockConverse _, C_OpenAIChatCompletions _) \<Rightarrow>
          map_sum id (\<lambda>r. PRs_ChatCompletions
              (converse_to_chat_response (rs_json c) (rs_now_nanos c) (rs_now c) r))
            (parse_converse_response c bytes)
      | (U_AmazonBedrockConverse _, C_AnthropicMessagesAPI _) \<Rightarrow>
          map_sum id (\<lambda>r. PRs_Messages (converse_to_messages_response (rs_json c) (rs_now_nanos c) r))
            (parse_converse_response c bytes)
      | (U_OpenAIResponsesAPI _, C_OpenAIResponsesAPI _) \<Rightarrow>
          map_sum (\<lambda>e. ''JSON parsing error: '' @ e) PRs_Responses (parse_responses_response c bytes)
      | (U_OpenAIChatCompletions _, C_OpenAIResponsesAPI _) \<Rightarrow>
          map_sum id (\<lambda>r. PRs_Responses (chat_to_responses_response (rs_uuid c) r))
            (chat_response_of_bytes c bytes)
      | (U_AnthropicMessagesAPI _, C_OpenAIResponsesAPI _) \<Rightarrow>
          map_sum id (\<lambda>r. PRs_Responses (chat_to_responses_response (rs_uuid c)
              (messages_to_chat_response (rs_json c) (rs_now c) r)))
            (parse_messages_response c bytes)
      | (U_AmazonBedrockConverse _, C_OpenAIResponsesAPI _) \<Rightarrow>
          map_sum id (\<lambda>r. PRs_Responses (chat_to_responses_response (rs_uuid c)
              (converse_to_chat_response (rs_json c) (rs_now_nanos c) (rs_now c) r)))
            (parse_converse_response c bytes)
      | _ \<Rightarrow> Inl unsupported_response_combination)"

subsection \<open>The filter's handling of a whole response\<close>

text \<open>
  \<open>handle_non_streaming_response\<close> of \<open>crates/llm_gateway/src/stream_context.rs\<close>: the new body with
  the token count of the request, or the error answer, if one is sent (\<open>Err(Action::Continue)\<close>).
\<close>

definition handle_non_streaming_response ::
    "response_codec \<Rightarrow> client_api option \<Rightarrow> provider_id \<Rightarrow> string \<Rightarrow> 32 word \<Rightarrow>
     (nat \<times> string) option + string \<times> 32 word" where
  "handle_non_streaming_response c client p body tokens =
     (case client of
        None \<Rightarrow> Inl None
      | Some api \<Rightarrow>
          (case response_of_bytes c body api p of
             Inl e \<Rightarrow> Inl (Some (400, ''Response parsing error: '' @ e))
           | Inr r \<Rightarrow>
               (let tokens' = (case extract_usage_counts r of
                                 Some (_, completion, _) \<Rightarrow> completion | None \<Rightarrow> tokens)
                in case ser_response c r of
                     Inr bytes \<Rightarrow> Inr (bytes, tokens')
                   | Inl e \<Rightarrow> Inl (Some (500, ''Response serialization error: '' @ e)))))"

end
