(* ===== verification/Response_State.thy ===== *)
theory Response_State
  imports Conversation_Contract Provider_Response Sse_Chunks
begin

section \<open>Capturing the response of a conversation\<close>

text \<open>
  \<open>ResponsesStateProcessor\<close> of \<open>brightstaff/src/state/response_state_processor.rs\<close>: every chunk of
  the response passes through it to the processor it wraps; at the end the state of the
  conversation is stored. The gzip decoder, serde, the clock and the wrapped processor are
  parameters; the state a response leads to is the result, which a task of its own stores.
\<close>

subsection \<open>Lossy decoding\<close>

text \<open>\<open>String::from_utf8_lossy\<close>: every invalid sequence becomes U+FFFD.\<close>

definition replacement :: string where
  "replacement = [CHR 0xEF, CHR 0xBF, CHR 0xBD]"

function utf8_lossy :: "string \<Rightarrow> string" where
  "utf8_lossy [] = []"
| "utf8_lossy (a # s) =
     (case utf8_step (a # s) of
        Inr n \<Rightarrow> take n (a # s) @ utf8_lossy (drop n (a # s))
      | Inl None \<Rightarrow> replacement
      | Inl (Some n) \<Rightarrow> replacement @ utf8_lossy (drop (max 1 n) (a # s)))"
  by pat_completeness auto
termination
  by (relation "measure length") (auto dest: utf8_step_Inr)

declare utf8_lossy.simps(2) [simp del]

subsection \<open>The processor\<close>

record state_processor =
  rp_original_input :: "input_item list"
  rp_model :: string
  rp_provider :: string
  rp_is_streaming :: bool
  rp_is_openai_upstream :: bool
  rp_content_encoding :: "string option"
  rp_chunk_buffer :: string
  rp_response_id :: "string option"
  rp_output_items :: "output_item list option"

definition state_processor_new ::
    "input_item list \<Rightarrow> string \<Rightarrow> string \<Rightarrow> bool \<Rightarrow> bool \<Rightarrow> string option \<Rightarrow> state_processor" where
  "state_processor_new original model provider streaming openai encoding =
     \<lparr>rp_original_input = original, rp_model = model, rp_provider = provider,
      rp_is_streaming = streaming, rp_is_openai_upstream = openai, rp_content_encoding = encoding,
      rp_chunk_buffer = [], rp_response_id = None, rp_output_items = None\<rparr>"

record processor_env =
  pe_gunzip :: "string \<Rightarrow> string + string"
  pe_event :: "string \<Rightarrow> string + responses_event"
  pe_response :: "string \<Rightarrow> string + responses_response"
  pe_now :: i64
  pe_warn :: bool

definition decompress_buffer :: "processor_env \<Rightarrow> state_processor \<Rightarrow> string" where
  "decompress_buffer env p =
     (if rp_chunk_buffer p = [] then []
      else (case rp_content_encoding p of
              Some encoding \<Rightarrow>
                (if encoding = ''gzip''
                 then (case pe_gunzip env (rp_chunk_buffer p) of
                         Inr d \<Rightarrow> d | Inl _ \<Rightarrow> rp_chunk_buffer p)
                 else rp_chunk_buffer p)
            | None \<Rightarrow> rp_chunk_buffer p))"

definition capture :: "responses_response \<Rightarrow> state_processor \<Rightarrow> state_processor" where
  "capture r p = p\<lparr>rp_response_id := Some (rr_id r), rp_output_items := Some (rr_output r)\<rparr>"

definition completed_response :: "processor_env \<Rightarrow> sse_event \<Rightarrow> responses_response option" where
  "completed_response env e =
     (case ev_data e of
        None \<Rightarrow> None
      | Some d \<Rightarrow>
          (case pe_event env d of Inr (RE_Completed r _) \<Rightarrow> Some r | _ \<Rightarrow> None))"

definition chunk_completion :: "processor_env \<Rightarrow> string \<Rightarrow> responses_response option" where
  "chunk_completion env chunk =
     (case sse_iter_try_from chunk of
        Inl _ \<Rightarrow> None
      | Inr it \<Rightarrow> first_some (completed_response env) (sse_collect it))"

definition try_parse_response_chunk :: "processor_env \<Rightarrow> string \<Rightarrow> state_processor \<Rightarrow> state_processor" where
  "try_parse_response_chunk env chunk p =
     (if rp_is_streaming p
      then (case chunk_completion env chunk of None \<Rightarrow> p | Some r \<Rightarrow> capture r p)
      else p\<lparr>rp_chunk_buffer := rp_chunk_buffer p @ chunk\<rparr>)"

text \<open>
  The preview that is logged when the body cannot be parsed is cut at 200 bytes: \<open>None\<close> is the panic
  of a slice that is not on a character boundary. The arguments of a log call are only evaluated if
  its level is enabled.
\<close>

definition log_preview :: "processor_env \<Rightarrow> string \<Rightarrow> string option" where
  "log_preview env body =
     (let preview = utf8_lossy body; preview_len = min (length preview) 200
      in if \<not> pe_warn env then Some []
         else if is_char_boundary preview preview_len then Some (take preview_len preview) else None)"

definition try_parse_buffered_response :: "processor_env \<Rightarrow> state_processor \<Rightarrow> state_processor option" where
  "try_parse_buffered_response env p =
     (if rp_is_streaming p \<or> rp_chunk_buffer p = [] then Some p
      else (let body = decompress_buffer env p
            in case pe_response env body of
                 Inr r \<Rightarrow> Some (capture r p)
               | Inl _ \<Rightarrow> (case log_preview env body of None \<Rightarrow> None | Some _ \<Rightarrow> Some p)))"

definition stored_state :: "processor_env \<Rightarrow> state_processor \<Rightarrow> conversation_state option" where
  "stored_state env p =
     (if rp_is_openai_upstream p then None
      else (case (rp_response_id p, rp_output_items p) of
              (Some i, Some outputs) \<Rightarrow>
                Some \<lparr>cv_response_id = i,
                      cv_input_items = rp_original_input p @ outputs_to_inputs outputs,
                      cv_created_at = pe_now env, cv_model = rp_model p, cv_provider = rp_provider p\<rparr>
            | _ \<Rightarrow> None))"

subsection \<open>As a stream processor\<close>

text \<open>
  The processor with the one it wraps: \<open>on_complete\<close> gives the wrapped processor's final state and
  the state to store, or \<open>None\<close> if it panics before the wrapped processor has completed.
\<close>

definition state_process_chunk ::
    "processor_env \<Rightarrow> (string \<Rightarrow> 'i \<Rightarrow> (string + string option) \<times> 'i) \<Rightarrow> string \<Rightarrow>
     state_processor \<times> 'i \<Rightarrow> (string + string option) \<times> state_processor \<times> 'i" where
  "state_process_chunk env inner chunk s =
     (case s of (p, i) \<Rightarrow>
        (case inner chunk i of (out, i') \<Rightarrow> (out, try_parse_response_chunk env chunk p, i')))"

definition state_on_complete ::
    "processor_env \<Rightarrow> ('i \<Rightarrow> 'i) \<Rightarrow> state_processor \<times> 'i \<Rightarrow> ('i \<times> conversation_state option) option" where
  "state_on_complete env inner_complete s =
     (case s of (p, i) \<Rightarrow>
        (case try_parse_buffered_response env p of
           None \<Rightarrow> None
         | Some p' \<Rightarrow> Some (inner_complete i, stored_state env p')))"

definition after_chunks :: "processor_env \<Rightarrow> string list \<Rightarrow> state_processor \<Rightarrow> state_processor" where
  "after_chunks env chunks p = fold (try_parse_response_chunk env) chunks p"

text \<open>The processor \<open>send_upstream\<close> installs, if the state is to be kept.\<close>

definition install_processor ::
    "bool \<Rightarrow> input_item list \<Rightarrow> bool \<Rightarrow> string \<Rightarrow> string \<Rightarrow> bool \<Rightarrow> string option \<Rightarrow> state_processor option" where
  "install_processor should_manage items has_storage alias_model resolved_model streaming encoding =
     (if should_manage \<and> items \<noteq> [] \<and> has_storage
      then Some (state_processor_new items alias_model resolved_model streaming False encoding)
      else None)"

subsection \<open>What is stored\<close>

lemma after_chunks_simps [simp]:
  "after_chunks env [] p = p"
  "after_chunks env (x # xs) p = after_chunks env xs (try_parse_response_chunk env x p)"
  by (simp_all add: after_chunks_def)

lemma buffered_chunks:
  "\<not> rp_is_streaming p \<Longrightarrow>
   after_chunks env chunks p = p\<lparr>rp_chunk_buffer := rp_chunk_buffer p @ concat chunks\<rparr>"
  by (induction chunks arbitrary: p) (simp_all add: try_parse_response_chunk_def)

lemma first_some_append:
  "first_some f (xs @ ys) = (case first_some f xs of None \<Rightarrow> first_some f ys | Some y \<Rightarrow> Some y)"
  by (simp add: first_some_def split: list.splits)

lemma first_some_simps [simp]:
  "first_some f [] = None"
  "first_some f (x # xs) = (case f x of None \<Rightarrow> first_some f xs | Some y \<Rightarrow> Some y)"
  by (simp_all add: first_some_def map_filter_simps split: option.splits)

lemma capture_sel [simp]:
  "rp_is_streaming (capture r p) = rp_is_streaming p"
  "rp_is_openai_upstream (capture r p) = rp_is_openai_upstream p"
  "rp_original_input (capture r p) = rp_original_input p"
  "rp_model (capture r p) = rp_model p" "rp_provider (capture r p) = rp_provider p"
  "rp_response_id (capture r p) = Some (rr_id r)" "rp_output_items (capture r p) = Some (rr_output r)"
  "capture r (capture r' p) = capture r p"
  by (simp_all add: capture_def)

lemma streamed_chunks:
  "rp_is_streaming p \<Longrightarrow>
   after_chunks env chunks p =
     (case first_some (chunk_completion env) (rev chunks) of None \<Rightarrow> p | Some r \<Rightarrow> capture r p)"
  by (induction chunks arbitrary: p)
     (auto simp: try_parse_response_chunk_def first_some_append split: option.splits)

text \<open>The state of a captured response.\<close>

definition conversation_of :: "processor_env \<Rightarrow> state_processor \<Rightarrow> responses_response \<Rightarrow> conversation_state" where
  "conversation_of env p r =
     \<lparr>cv_response_id = rr_id r,
      cv_input_items = rp_original_input p @ outputs_to_inputs (rr_output r),
      cv_created_at = pe_now env, cv_model = rp_model p, cv_provider = rp_provider p\<rparr>"

lemma stored_capture:
  "\<not> rp_is_openai_upstream p \<Longrightarrow> stored_state env (capture r p) = Some (conversation_of env p r)"
  by (simp add: stored_state_def conversation_of_def)

lemma decompress_cong:
  "decompress_buffer env (p\<lparr>rp_chunk_buffer := b\<rparr>) =
   (if b = [] then []
    else if rp_content_encoding p = Some ''gzip''
    then (case pe_gunzip env b of Inr d \<Rightarrow> d | Inl _ \<Rightarrow> b) else b)"
  by (simp add: decompress_buffer_def split: option.splits sum.splits)

lemma install_processor_sel:
  assumes "install_processor manage items storage alias resolved streaming encoding = Some p"
  shows "rp_original_input p = items" "rp_model p = alias" "rp_provider p = resolved"
    "rp_is_streaming p = streaming" "rp_is_openai_upstream p = False" "rp_response_id p = None"
    "rp_content_encoding p = encoding" "rp_chunk_buffer p = []"
  using assms by (auto simp: install_processor_def state_processor_new_def split: if_splits)

text \<open>
  A response that is not streamed is captured however it is cut into chunks: if the whole body,
  unzipped where it is compressed, parses, then the conversation stored is the items the request
  started from followed by the outputs of the response.
\<close>

theorem buffered_response_stored:
  assumes "install_processor manage items storage alias resolved False encoding = Some p"
    and "concat chunks \<noteq> []"
    and "pe_response env (decompress_buffer env (p\<lparr>rp_chunk_buffer := concat chunks\<rparr>)) = Inr r"
  shows "\<exists>v. state_on_complete env complete (after_chunks env chunks p, i) = Some (complete i, Some v) \<and>
    cv_response_id v = rr_id r \<and> cv_input_items v = items @ outputs_to_inputs (rr_output r)"
  using assms install_processor_sel [OF assms(1)]
  by (simp add: state_on_complete_def buffered_chunks try_parse_buffered_response_def Let_def
      stored_capture conversation_of_def del: concat_eq_Nil_conv)

text \<open>
  A streamed response is captured only where one chunk holds the whole \<open>response.completed\<close>
  event: cut by a chunk boundary, the event is missed and the conversation is not stored, although
  the same bytes in one chunk are stored.
\<close>

theorem split_completion_lost:
  assumes "install_processor manage items storage alias resolved True encoding = Some p"
    and "\<forall>x \<in> set chunks. chunk_completion env x = None"
    and "chunk_completion env (concat chunks) = Some r"
  shows "state_on_complete env complete (after_chunks env chunks p, i) = Some (complete i, None) \<and>
    (\<exists>v. state_on_complete env complete (after_chunks env [concat chunks] p, i) =
            Some (complete i, Some v) \<and> cv_response_id v = rr_id r)"
proof -
  have "first_some (chunk_completion env) (rev chunks) = None"
    using assms(2) by (induction chunks) (auto simp: first_some_append)
  then show ?thesis using assms(3) install_processor_sel [OF assms(1)]
    by (auto simp: state_on_complete_def streamed_chunks try_parse_buffered_response_def
        stored_capture conversation_of_def try_parse_response_chunk_def stored_state_def)
qed

subsection \<open>The preview of a body that does not parse\<close>

lemma utf8_lossy_ascii:
  "\<forall>x \<in> set t. byte x < 128 \<Longrightarrow> utf8_lossy (t @ s) = t @ utf8_lossy s"
  by (induction t) (simp_all add: utf8_lossy.simps(2) utf8_step.simps)

lemma utf8_lossy_two:
  "in_range 194 223 a \<Longrightarrow> is_cont_byte b \<Longrightarrow> utf8_lossy (a # b # s) = a # b # utf8_lossy s"
  by (simp add: utf8_lossy.simps(2) utf8_step.simps in_range_def)

text \<open>
  If the body of a response that is not streamed does not parse, its first 199 bytes are ASCII
  and a two-byte character follows, then the preview for the log is cut inside that character: the
  processor panics before the processor it wraps has completed.
\<close>

theorem preview_cut_panics:
  assumes "install_processor manage items storage alias resolved False encoding = Some p"
    and "pe_warn env" and "pe_response env body = Inl e"
    and "decompress_buffer env (p\<lparr>rp_chunk_buffer := concat chunks\<rparr>) = body"
    and "body = t @ a # b # rest" and "length t = 199" and "\<forall>x \<in> set t. byte x < 128"
    and "in_range 194 223 a" and "is_cont_byte b"
  shows "state_on_complete env complete (after_chunks env chunks p, i) = None"
proof -
  have "concat chunks \<noteq> []" using assms(4,5) by (auto simp: decompress_cong simp del: concat_eq_Nil_conv)
  moreover have "utf8_lossy body = t @ a # b # utf8_lossy rest"
    using assms(5-9) by (simp add: utf8_lossy_ascii utf8_lossy_two)
  then have "log_preview env body = None"
    using assms(2,6,9) by (simp add: log_preview_def is_char_boundary_def nth_append)
  ultimately show ?thesis using assms(3,4) install_processor_sel [OF assms(1)]
    by (simp add: state_on_complete_def buffered_chunks try_parse_buffered_response_def Let_def
        del: concat_eq_Nil_conv)
qed

subsection \<open>Concrete responses\<close>

definition no_usage :: usage where
  "no_usage = \<lparr>prompt_tokens = 0, completion_tokens = 0, total_tokens = 0,
     u_prompt_tokens_details = None, u_completion_tokens_details = None\<rparr>"

definition calling_response :: responses_response where
  "calling_response = chat_to_responses_response [] (chat_completion ''resp_1'' 0 ''m''
     (plain_choice R_Assistant None (Some [function_tool_call ''c1'' ''look'' ''{}'']) FR_ToolCalls)
     no_usage)"

lemma calling_response_sel [simp]:
  "rr_id calling_response = ''resp_1''"
  "rr_output calling_response =
     [OI_FunctionCall ''func_c1'' OIS_Completed ''c1'' (Some ''look'') (Some ''{}'')]"
  by (simp_all add: calling_response_def chat_to_responses_response_def chat_completion_def
      plain_choice_def choice_output_def response_message_content_def function_call_item_def
      starts_with_def Let_def)

text \<open>Of all texts only \<open>x\<close> is a \<open>response.completed\<close> event and only \<open>ok\<close> a response.\<close>

definition sample_processor_env :: processor_env where
  "sample_processor_env =
     \<lparr>pe_gunzip = (\<lambda>_. Inl ''invalid gzip header''),
      pe_event = (\<lambda>d. if d = ''x'' then Inr (RE_Completed calling_response 1) else Inl ''expected value''),
      pe_response = (\<lambda>d. if d = ''ok'' then Inr calling_response else Inl ''expected value''),
      pe_now = 0, pe_warn = True\<rparr>"

definition sample_processor :: "bool \<Rightarrow> state_processor" where
  "sample_processor streaming =
     state_processor_new [II_ItemReference ''item_reference'' ''i''] ''m'' ''openai/m'' streaming False None"

lemma sample_installed:
  "install_processor True [II_ItemReference ''item_reference'' ''i''] True ''m'' ''openai/m'' streaming None =
     Some (sample_processor streaming)"
  by (simp add: install_processor_def sample_processor_def)

lemma sample_decompress [simp]:
  "decompress_buffer sample_processor_env (sample_processor b\<lparr>rp_chunk_buffer := s\<rparr>) = s"
proof -
  have "rp_content_encoding (sample_processor b) = None"
    by (simp add: sample_processor_def state_processor_new_def)
  then show ?thesis by (simp add: decompress_cong)
qed

lemma sample_parses_response: "pe_response sample_processor_env ''ok'' = Inr calling_response"
  by (simp add: sample_processor_env_def)

theorem buffered_response_stored_witness:
  "\<exists>v. state_on_complete sample_processor_env id (after_chunks sample_processor_env [''o'', ''k''] (sample_processor False), ()) =
        Some ((), Some v) \<and> cv_response_id v = ''resp_1'' \<and>
     cv_input_items v = [II_ItemReference ''item_reference'' ''i''] @
       outputs_to_inputs (rr_output calling_response)"
  using buffered_response_stored [OF sample_installed, of "[''o'', ''k'']" sample_processor_env calling_response id "()"]
  by (simp add: sample_parses_response del: after_chunks_simps)

lemma sample_completion:
  "chunk_completion sample_processor_env (''data: '') = None"
  "chunk_completion sample_processor_env (''x'' @ [nl]) = None"
  "chunk_completion sample_processor_env (''data: '' @ ''x'' @ [nl]) = Some calling_response"
proof -
  have ok: "utf8_scan 0 s = None" if "s \<in> {''data: '', ''x'' @ [nl], ''data: x'' @ [nl]}" for s
    using that by (auto intro!: utf8_scan_ascii simp: nl_def)
  have "str_lines ''data: '' = [''data: '']" by (rule str_lines_single) (simp_all add: nl_def)
  then show "chunk_completion sample_processor_env (''data: '') = None"
    using ok [of "''data: ''"]
    by (simp add: chunk_completion_def sse_iter_try_from_def sse_collect_new line_event_def
        sse_from_str_def trim_def ws1_def ws2_def ws3_def strip_prefix_def starts_with_def)
  have "str_lines (''x'' @ nl # []) = strip_cr ''x'' # str_lines []"
    by (rule str_lines_terminated) (simp add: nl_def)
  then show "chunk_completion sample_processor_env (''x'' @ [nl]) = None"
    using ok [of "''x'' @ [nl]"]
    by (simp add: chunk_completion_def sse_iter_try_from_def sse_collect_new line_event_def
        sse_from_str_def trim_def ws1_def ws2_def ws3_def strip_prefix_def starts_with_def
        strip_cr_def cr_def)
  have "str_lines (''data: x'' @ nl # []) = strip_cr ''data: x'' # str_lines []"
    by (rule str_lines_terminated) (simp add: nl_def)
  then show "chunk_completion sample_processor_env (''data: '' @ ''x'' @ [nl]) = Some calling_response"
    using ok [of "''data: x'' @ [nl]"]
    by (simp add: chunk_completion_def sse_iter_try_from_def sse_collect_new line_event_def
        sse_from_str_def trim_def ws1_def ws2_def ws3_def strip_prefix_def starts_with_def
        strip_cr_def cr_def completed_response_def sample_processor_env_def terminal_def is_done_def
        should_skip_def ping_data_def Let_def)
qed

theorem split_completion_lost_witness:
  "state_on_complete sample_processor_env id
     (after_chunks sample_processor_env [''data: '', ''x'' @ [nl]] (sample_processor True), ()) = Some ((), None) \<and>
   (\<exists>v. state_on_complete sample_processor_env id
      (after_chunks sample_processor_env [''data: x'' @ [nl]] (sample_processor True), ()) = Some ((), Some v) \<and>
      cv_response_id v = ''resp_1'')"
  using split_completion_lost [OF sample_installed, of "[''data: '', ''x'' @ [nl]]" sample_processor_env
      calling_response id "()"] sample_completion by simp

theorem preview_cut_panics_witness:
  "state_on_complete sample_processor_env id
     (after_chunks sample_processor_env [replicate 199 CHR ''a'' @ [CHR 0xC3, CHR 0xA9]] (sample_processor False), ()) = None"
proof (rule preview_cut_panics [OF sample_installed])
  let ?t = "replicate 199 CHR ''a''"
  show "decompress_buffer sample_processor_env (sample_processor False\<lparr>rp_chunk_buffer :=
      concat [?t @ [CHR 0xC3, CHR 0xA9]]\<rparr>) = ?t @ [CHR 0xC3, CHR 0xA9]"
    by simp
  show "pe_response sample_processor_env (?t @ [CHR 0xC3, CHR 0xA9]) = Inl ''expected value''"
    by (simp add: sample_processor_env_def)
  show "?t @ [CHR 0xC3, CHR 0xA9] = ?t @ CHR 0xC3 # CHR 0xA9 # []" by simp
qed (simp_all add: sample_processor_env_def in_range_def is_cont_byte_def)

end
