(* ===== verification/Conversation_Props.thy ===== *)
theory Conversation_Props
  imports Response_State
begin

section \<open>Conversations of the Responses API\<close>

text \<open>
  The store, the processor that fills it and the resolution of a request together: what a request
  that continues a conversation gets, while tasks still run, after any number of turns, and what is
  lost on the way.
\<close>

subsection \<open>Resuming while tasks run\<close>

definition no_tasks :: "'s \<Rightarrow> 's conversation_server" where
  "no_tasks s = \<lparr>sv_store = s, sv_tasks = []\<rparr>"

text \<open>
  (C5) Whatever the order in which responses complete, tasks run and requests read the store: a
  request that continues a completed response gets exactly the items stored for it in front of its
  own, or, as long as the task of that response has not run, the answer 409. No other outcome is
  possible and no other conversation shows through.
\<close>

theorem conversation_resumed:
  assumes "server_run memory_put memory_get (no_tasks memory_new) es s"
    and "distinct (map cv_response_id (completed es))" and "v \<in> set (completed es)"
    and "rq_previous_response_id q = Some (cv_response_id v)"
  shows "fst (continue_conversation memory_get q (sv_store s)) =
    (if v \<in> set (sv_tasks s)
     then RS_Answer (409, ''Conversation state not found for previous_response_id: '' @ cv_response_id v)
     else RS_Ready True (cv_input_items v @ extract_input_items (rq_input q))
       (PR_Responses (q\<lparr>rq_input := IP_Items (cv_input_items v @ extract_input_items (rq_input q))\<rparr>)))"
  by (rule memory.run_resolved [OF assms(1) _ assms(2-4)])
     (simp add: memory.consistent_def no_tasks_def memory_new_def)

text \<open>
  The same holds of a database that answers, whose rows hold the items as JSON.
\<close>

theorem conversation_resumed_postgresql:
  assumes "server_run (postgresql_put healthy) (postgresql_get serde_error healthy)
      (no_tasks \<lparr>pg_rows = [], table_verified = False\<rparr>) es s"
    and "distinct (map cv_response_id (completed es))" and "v \<in> set (completed es)"
    and "rq_previous_response_id q = Some (cv_response_id v)"
  shows "fst (continue_conversation (postgresql_get serde_error healthy) q (sv_store s)) =
    (if v \<in> set (sv_tasks s)
     then RS_Answer (409, ''Conversation state not found for previous_response_id: '' @ cv_response_id v)
     else RS_Ready True (cv_input_items v @ extract_input_items (rq_input q))
       (PR_Responses (q\<lparr>rq_input := IP_Items (cv_input_items v @ extract_input_items (rq_input q))\<rparr>)))"
  by (rule postgresql.run_resolved [OF assms(1) _ assms(2-4)])
     (simp add: postgresql.consistent_def no_tasks_def pg_readable_def pg_stored_def)

subsection \<open>Many turns\<close>

text \<open>
  A turn of a client that continues each response with its next request: the request, whether its
  response is streamed and how it is compressed, the chunks of the response as they pass through
  the processor, and the response they carry. After each turn the state the processor leaves is
  stored, if there is one, before the next request comes.
\<close>

record conversation_turn =
  tn_request :: responses_request
  tn_streaming :: bool
  tn_encoding :: "string option"
  tn_chunks :: "string list"
  tn_response :: responses_response

definition complete_turn :: "processor_env \<Rightarrow> state_processor \<Rightarrow> string list \<Rightarrow> conversation_state option option" where
  "complete_turn env p chunks =
     map_option snd (state_on_complete env id (after_chunks env chunks p, ()))"

fun converse_turns ::
    "(conversation_state \<Rightarrow> 's \<Rightarrow> (unit, 's) storage_result) \<Rightarrow>
     (string \<Rightarrow> 's \<Rightarrow> (conversation_state, 's) storage_result) \<Rightarrow> processor_env \<Rightarrow> string \<Rightarrow> string \<Rightarrow>
     string option \<Rightarrow> conversation_turn list \<Rightarrow> 's \<Rightarrow> (string option \<times> 's) option" where
  "converse_turns put get env model provider prev [] s = Some (prev, s)"
| "converse_turns put get env model provider prev (t # ts) s =
     (case continue_conversation get ((tn_request t)\<lparr>rq_previous_response_id := prev\<rparr>) s of
        (RS_Ready manage items _, s') \<Rightarrow>
          (case install_processor manage items True model provider (tn_streaming t) (tn_encoding t) of
             None \<Rightarrow> converse_turns put get env model provider (Some (rr_id (tn_response t))) ts s'
           | Some p \<Rightarrow>
               (case complete_turn env p (tn_chunks t) of
                  None \<Rightarrow> None
                | Some stored \<Rightarrow>
                    converse_turns put get env model provider (Some (rr_id (tn_response t))) ts
                      (case stored of None \<Rightarrow> s' | Some v \<Rightarrow> snd (put v s'))))
      | _ \<Rightarrow> None)"

text \<open>
  The response of a turn arrives: its body, unzipped where it is compressed, parses as the
  response, or the last of the streamed chunks that hold a whole \<open>response.completed\<close> event
  holds it.
\<close>

definition turn_arrives :: "processor_env \<Rightarrow> conversation_turn \<Rightarrow> bool" where
  "turn_arrives env t =
     (if tn_streaming t
      then first_some (chunk_completion env) (rev (tn_chunks t)) = Some (tn_response t)
      else concat (tn_chunks t) \<noteq> [] \<and>
        pe_response env (decompress_buffer env
          (state_processor_new [] [] [] False False (tn_encoding t)\<lparr>rp_chunk_buffer := concat (tn_chunks t)\<rparr>))
        = Inr (tn_response t))"

definition history :: "conversation_turn list \<Rightarrow> input_item list" where
  "history ts = concat (map (\<lambda>t. extract_input_items (rq_input (tn_request t)) @
     outputs_to_inputs (rr_output (tn_response t))) ts)"

definition last_id :: "string option \<Rightarrow> conversation_turn list \<Rightarrow> string option" where
  "last_id prev ts = (if ts = [] then prev else Some (rr_id (tn_response (last ts))))"

lemma turn_encoding [simp]:
  "rp_content_encoding (state_processor_new items model provider streaming openai encoding) = encoding"
  by (simp add: state_processor_new_def)

lemma complete_turn_stored:
  assumes "turn_arrives env t"
    and "install_processor manage items storage model provider (tn_streaming t) (tn_encoding t) = Some p"
  shows "\<exists>v. complete_turn env p (tn_chunks t) = Some (Some v) \<and>
    cv_response_id v = rr_id (tn_response t) \<and>
    cv_input_items v = items @ outputs_to_inputs (rr_output (tn_response t))"
proof (cases "tn_streaming t")
  case True
  then show ?thesis using assms(1) install_processor_sel [OF assms(2)]
    by (simp add: complete_turn_def turn_arrives_def state_on_complete_def streamed_chunks
        try_parse_buffered_response_def stored_capture conversation_of_def)
next
  case False
  then have ne: "concat (tn_chunks t) \<noteq> []" using assms(1) by (simp add: turn_arrives_def)
  with False have "pe_response env (decompress_buffer env (p\<lparr>rp_chunk_buffer := concat (tn_chunks t)\<rparr>)) =
      Inr (tn_response t)"
    using assms(1) install_processor_sel(7) [OF assms(2)]
    by (simp add: turn_arrives_def decompress_cong if_not_P [OF ne] del: concat_eq_Nil_conv)
  note c = ne this
  then show ?thesis using False c install_processor_sel [OF assms(2)]
    by (simp add: complete_turn_def state_on_complete_def buffered_chunks Let_def stored_capture
        try_parse_buffered_response_def conversation_of_def del: concat_eq_Nil_conv)
qed

lemma install_some:
  "items \<noteq> [] \<Longrightarrow> install_processor True items True model provider streaming encoding =
     Some (state_processor_new items model provider streaming False encoding)"
  by (simp add: install_processor_def)

context state_storage
begin

definition recorded :: "'s \<Rightarrow> string option \<Rightarrow> input_item list \<Rightarrow> bool" where
  "recorded s prev h =
     (case prev of None \<Rightarrow> h = [] | Some i \<Rightarrow> \<exists>v. stored s i = Some v \<and> cv_input_items v = h)"

lemma continue_recorded:
  assumes "inv s" and "recorded s prev h"
  shows "\<exists>q' s'. continue_conversation get (q\<lparr>rq_previous_response_id := prev\<rparr>) s =
      (RS_Ready True (h @ extract_input_items (rq_input q)) q', s') \<and> inv s'"
proof (cases prev)
  case None
  then show ?thesis using assms by (simp add: recorded_def continue_conversation_def)
next
  case (Some i)
  then obtain v where v: "stored s i = Some v" "cv_input_items v = h"
    using assms(2) by (auto simp: recorded_def)
  obtain s' where "get i s = (Inr v, s')"
    using get_found [OF assms(1) v(1)] by (cases "get i s") simp
  with Some v(2) show ?thesis using get_keeps [OF assms(1), of i]
    by (simp add: continue_conversation_def retrieve_and_combine_input_def merge_state_def Let_def)
qed

lemma converse_history:
  assumes "inv s" and "recorded s prev h"
    and "\<forall>t \<in> set ts. extract_input_items (rq_input (tn_request t)) \<noteq> [] \<and> turn_arrives env t"
  shows "\<exists>s'. converse_turns put get env model provider prev ts s = Some (last_id prev ts, s') \<and>
    inv s' \<and> recorded s' (last_id prev ts) (h @ history ts)"
  using assms
proof (induction ts arbitrary: prev s h)
  case Nil
  then show ?case by (simp add: last_id_def history_def)
next
  case (Cons t ts)
  let ?i = "rr_id (tn_response t)" and ?out = "outputs_to_inputs (rr_output (tn_response t))"
  define items where "items = h @ extract_input_items (rq_input (tn_request t))"
  obtain q' s1 where c: "continue_conversation get ((tn_request t)\<lparr>rq_previous_response_id := prev\<rparr>) s =
      (RS_Ready True items q', s1)" and s1: "inv s1"
    using continue_recorded [OF Cons.prems(1,2)] unfolding items_def by blast
  have "items \<noteq> []" using Cons.prems(3) by (simp add: items_def)
  then obtain p where p: "install_processor True items True model provider (tn_streaming t) (tn_encoding t) = Some p"
    using install_some by blast
  obtain v where v: "complete_turn env p (tn_chunks t) = Some (Some v)" "cv_response_id v = ?i"
    "cv_input_items v = items @ ?out"
    using complete_turn_stored [OF _ p] Cons.prems(3) by auto
  obtain x where "stored (snd (put v s1)) = (stored s1)(cv_response_id v \<mapsto> stamped x v)"
    using put_stored [OF s1] by blast
  then have "recorded (snd (put v s1)) (Some ?i) (items @ ?out)"
    using v(2,3) by (simp add: recorded_def)
  from Cons.IH [OF _ this] obtain s' where
    "converse_turns put get env model provider (Some ?i) ts (snd (put v s1)) = Some (last_id (Some ?i) ts, s')"
    "inv s'" "recorded s' (last_id (Some ?i) ts) ((items @ ?out) @ history ts)"
    using put_ok [OF s1] Cons.prems(3) by auto
  moreover have "last_id (Some ?i) ts = last_id prev (t # ts)" by (simp add: last_id_def)
  ultimately show ?case using c p v(1) by (auto simp: items_def history_def)
qed

end

text \<open>
  (C9) A conversation of any number of turns never fails, and the store ends with its whole history
  under the last response, if every request has items, every response arrives (a body that parses, or
  a chunk that holds the whole \<open>response.completed\<close> event) and is stored before the next request:
  the inputs of all requests, each followed by the outputs of its response in the form in which
  outputs are kept as inputs.
\<close>

theorem conversation_accumulates:
  assumes "ts \<noteq> []"
    and "\<forall>t \<in> set ts. extract_input_items (rq_input (tn_request t)) \<noteq> [] \<and> turn_arrives env t"
  shows "\<exists>s v. converse_turns memory_put memory_get env model provider None ts memory_new =
      Some (Some (rr_id (tn_response (last ts))), s) \<and>
    memory_get (rr_id (tn_response (last ts))) s = (Inr v, s) \<and> cv_input_items v = history ts"
  using memory.converse_history [of memory_new None "[]" ts env model provider] assms
  by (auto simp: memory.recorded_def memory_new_def last_id_def memory_get_def)

subsection \<open>What a conversation loses\<close>

lemma output_no_traffic:
  "convert_responses_output_to_input_items out = Some item \<Longrightarrow> item_traffic c item = []"
  by (cases out) (auto simp: Let_def split: if_splits)

lemma outputs_no_traffic: "concat (map (item_traffic c) (outputs_to_inputs outs)) = []"
  using output_no_traffic
  by (induction outs) (auto simp: outputs_to_inputs_def map_filter_simps split: option.splits)

text \<open>
  A stored tool call comes back as a text of the assistant: of a resumed conversation the
  upstream sees only the calls and results the client itself sends, so the result of a call the
  model made is an answer to a call that is not in the request.
\<close>

theorem resumed_calls_lost:
  assumes "memory_get i s = (Inr v, s)"
    and "cv_input_items v = items @ outputs_to_inputs outs"
    and "rq_previous_response_id q = Some i"
  shows "\<exists>q'. fst (continue_conversation memory_get q s) = RS_Ready True
        (cv_input_items v @ extract_input_items (rq_input q)) (PR_Responses q') \<and>
    (\<forall>u up. request_for_upstream c (PR_Responses q') u = Inr up \<longrightarrow>
       map nonblank (pr_traffic c up) =
         map nonblank (concat (map (item_traffic c) (items @ extract_input_items (rq_input q)))))"
proof -
  define q' where "q' = q\<lparr>rq_input := IP_Items (cv_input_items v @ extract_input_items (rq_input q))\<rparr>"
  have "fst (continue_conversation memory_get q s) = RS_Ready True
      (cv_input_items v @ extract_input_items (rq_input q)) (PR_Responses q')"
    using assms(1,3) by (simp add: continue_conversation_def retrieve_and_combine_input_def
        merge_state_def q'_def Let_def)
  moreover have "map nonblank (pr_traffic c up) =
      map nonblank (concat (map (item_traffic c) (items @ extract_input_items (rq_input q))))"
    if "request_for_upstream c (PR_Responses q') u = Inr up" for u up
    using responses_request_traffic [OF that] assms(2) outputs_no_traffic [of c outs]
    by (simp add: q'_def)
  ultimately show ?thesis by blast
qed

text \<open>
  An item that carries an \<open>id\<close> next to its \<open>type\<close>, as the function calls of a response do, is
  read as a reference, whatever else it holds: a client that sends a function call back as it got
  it loses the call, for a reference adds no message.
\<close>

theorem function_call_id_shadows:
  assumes "map_of m ''type'' = Some (JString t)" and "map_of m ''id'' = Some (JString i)"
    and "map_of m ''role'' = None"
  shows "\<exists>item. input_item_of_json (JObject m) = Some item \<and> convert_input_item c ms item = ms"
  using assms
  by (intro exI [where x = "II_ItemReference t i"])
     (simp add: input_item_of_json_def input_message_of_json_def struct_variants_of_json_def
       item_reference_of_fields_def)

text \<open>
  If the store fails otherwise than by not finding the conversation, the request goes on
  without its history: the upstream is asked with the new items alone.
\<close>

theorem storage_error_drops_history:
  assumes "get prev s = (Inl e, s')" and "\<forall>m. e \<noteq> SE_NotFound m"
    and "rq_previous_response_id q = Some prev"
  shows "fst (continue_conversation get q s) =
    RS_Ready True (extract_input_items (rq_input q)) (PR_Responses q)"
  using assms
  by (cases e) (simp_all add: continue_conversation_def retrieve_and_combine_input_def Let_def)

subsection \<open>Concrete conversations\<close>

text \<open>
  Whatever items a conversation holds, a database that answers gives them back as they were
  stored, although they are stored as JSON without tags.
\<close>

theorem postgresql_roundtrip:
  assumes "postgresql_put healthy v s = (x, s')"
  shows "x = Inr () \<and>
    (\<exists>t. fst (postgresql_get serde_error healthy (cv_response_id v) s') = Inr (v\<lparr>cv_created_at := t\<rparr>))"
proof -
  have "\<exists>t. pg_stored s' = (pg_stored (s\<lparr>table_verified := True\<rparr>))(cv_response_id v \<mapsto> stamped t v)"
    "x = Inr ()" "table_verified s'"
    using assms upsert_stored [of v s] upsert_stored [of v "s\<lparr>table_verified := True\<rparr>"]
    by (auto simp: postgresql_put_def run_healthy upsert_row_def Let_def split: if_splits)
  then obtain t where "pg_stored s' (cv_response_id v) = Some (stamped t v)" by auto
  with \<open>x = Inr ()\<close> \<open>table_verified s'\<close> show ?thesis
    by (auto simp: postgresql_get_def run_healthy pg_stored_def bind_eq_Some_conv stamped_def)
qed

definition responses_request_of :: "input_param \<Rightarrow> string option \<Rightarrow> responses_request" where
  "responses_request_of input prev =
     \<lparr>rq_model = ''m'', rq_input = input, rq_include = None, rq_parallel_tool_calls = None,
      rq_store = None, rq_instructions = None, rq_stream = None, rq_stream_options = None,
      rq_conversation = None, rq_tools = None, rq_tool_choice = None, rq_max_output_tokens = None,
      rq_temperature = None, rq_top_p = None, rq_metadata = None, rq_previous_response_id = prev,
      rq_modalities = None, rq_audio = None, rq_text = None, rq_reasoning_effort = None,
      rq_truncation = None, rq_user = None, rq_max_tool_calls = None, rq_service_tier = None,
      rq_background = None, rq_top_logprobs = None\<rparr>"

definition user_says :: "string \<Rightarrow> input_item" where
  "user_says t = II_Message \<lparr>im_role = MRo_User, im_content = IMC_Items [IC_InputText t]\<rparr>"

definition first_state :: conversation_state where
  "first_state = \<lparr>cv_response_id = ''resp_1'',
     cv_input_items = [user_says ''Hi''] @ outputs_to_inputs (rr_output calling_response),
     cv_created_at = 0, cv_model = ''m'', cv_provider = ''openai/m''\<rparr>"

definition tool_answer :: responses_request where
  "tool_answer = responses_request_of
     (IP_Items [II_FunctionCallOutput ''function_call_output'' ''c1'' (JString ''a cat'')]) (Some ''resp_1'')"

lemma sample_ids [simp]:
  "cv_response_id first_state = ''resp_1''" "rq_previous_response_id tool_answer = Some ''resp_1''"
  by (simp_all add: first_state_def tool_answer_def responses_request_of_def)

lemma one_completion:
  "server_run put get (no_tasks s) [Completes v] \<lparr>sv_store = s, sv_tasks = [v]\<rparr>"
proof -
  have "server_step put get (no_tasks s) (Completes v) \<lparr>sv_store = s, sv_tasks = [v]\<rparr>"
    using server_step.completes [where s = "no_tasks s" and v = v] by (simp add: no_tasks_def)
  from server_run.step [OF server_run.start this] show ?thesis by simp
qed

lemma one_task:
  "server_run put get (no_tasks s) [Completes v, Runs v] \<lparr>sv_store = snd (put v s), sv_tasks = []\<rparr>"
proof -
  have "server_step put get \<lparr>sv_store = s, sv_tasks = [v]\<rparr> (Runs v)
      \<lparr>sv_store = snd (put v s), sv_tasks = []\<rparr>"
    using server_step.runs [where s = "\<lparr>sv_store = s, sv_tasks = [v]\<rparr>" and us = "[]" and v = v]
    by simp
  from server_run.step [OF one_completion this] show ?thesis by simp
qed

theorem conversation_resumed_witness:
  "fst (continue_conversation memory_get tool_answer memory_new) =
     RS_Answer (409, ''Conversation state not found for previous_response_id: resp_1'') \<and>
   fst (continue_conversation memory_get tool_answer (snd (memory_put first_state memory_new))) =
     RS_Ready True (cv_input_items first_state @ extract_input_items (rq_input tool_answer))
       (PR_Responses (tool_answer\<lparr>rq_input :=
          IP_Items (cv_input_items first_state @ extract_input_items (rq_input tool_answer))\<rparr>))"
proof -
  have 1: "server_run memory_put memory_get (no_tasks memory_new) [Completes first_state]
      \<lparr>sv_store = memory_new, sv_tasks = [first_state]\<rparr>" by (rule one_completion)
  have 2: "server_run memory_put memory_get (no_tasks memory_new) [Completes first_state, Runs first_state]
      \<lparr>sv_store = snd (memory_put first_state memory_new), sv_tasks = []\<rparr>" by (rule one_task)
  show ?thesis using conversation_resumed [OF 1] conversation_resumed [OF 2]
    by (simp add: completed_def map_filter_simps)
qed

theorem conversation_resumed_postgresql_witness:
  "fst (continue_conversation (postgresql_get (\<lambda>_. ''invalid type'') healthy) tool_answer
      (snd (postgresql_put healthy first_state \<lparr>pg_rows = [], table_verified = False\<rparr>))) =
     RS_Ready True (cv_input_items first_state @ extract_input_items (rq_input tool_answer))
       (PR_Responses (tool_answer\<lparr>rq_input :=
          IP_Items (cv_input_items first_state @ extract_input_items (rq_input tool_answer))\<rparr>))"
proof -
  let ?s = "\<lparr>pg_rows = [], table_verified = False\<rparr>"
  have "server_run (postgresql_put healthy) (postgresql_get (\<lambda>_. ''invalid type'') healthy) (no_tasks ?s)
      [Completes first_state, Runs first_state]
      \<lparr>sv_store = snd (postgresql_put healthy first_state ?s), sv_tasks = []\<rparr>" by (rule one_task)
  from conversation_resumed_postgresql [OF this] show ?thesis
    by (simp add: completed_def map_filter_simps)
qed

theorem postgresql_roundtrip_witness:
  "\<exists>s' t. postgresql_put healthy first_state \<lparr>pg_rows = [], table_verified = False\<rparr> = (Inr (), s') \<and>
     fst (postgresql_get (\<lambda>_. ''invalid type'') healthy ''resp_1'' s') = Inr (first_state\<lparr>cv_created_at := t\<rparr>)"
proof -
  obtain x s' where p: "postgresql_put healthy first_state \<lparr>pg_rows = [], table_verified = False\<rparr> = (x, s')"
    by fastforce
  from postgresql_roundtrip [OF p, of "\<lambda>_. ''invalid type''"] p
  show ?thesis by (auto simp: first_state_def)
qed

theorem resumed_calls_lost_witness:
  "\<exists>q'. fst (continue_conversation memory_get tool_answer [(''resp_1'', first_state)]) =
      RS_Ready True (cv_input_items first_state @ extract_input_items (rq_input tool_answer)) (PR_Responses q') \<and>
    (\<forall>u up. request_for_upstream escaped_json (PR_Responses q') u = Inr up \<longrightarrow>
       map nonblank (pr_traffic escaped_json up) = [Answered ''c1'' ''a cat''])"
  using resumed_calls_lost [where i = "''resp_1''" and v = first_state and c = escaped_json and
      s = "[(''resp_1'', first_state)]" and items = "[user_says ''Hi'']" and
      outs = "rr_output calling_response" and q = tool_answer]
  by (simp add: memory_get_def first_state_def tool_answer_def responses_request_of_def user_says_def)

theorem function_call_id_shadows_witness:
  "\<exists>item. input_item_of_json (JObject [(''type'', JString ''function_call''), (''id'', JString ''func_c1''),
       (''call_id'', JString ''c1''), (''name'', JString ''look''), (''arguments'', JString ''{}'')]) = Some item \<and>
     convert_input_item escaped_json [] item = []"
  by (rule function_call_id_shadows [where t = "''function_call''" and i = "''func_c1''"]) simp_all

theorem storage_error_drops_history_witness:
  "fst (continue_conversation
      (postgresql_get (\<lambda>_. ''invalid type'') \<lparr>table_exists = Inr True, statement_error = Some ''timeout''\<rparr>)
      tool_answer \<lparr>pg_rows = [], table_verified = True\<rparr>) =
   RS_Ready True (extract_input_items (rq_input tool_answer)) (PR_Responses tool_answer)"
  by (rule storage_error_drops_history [where prev = "''resp_1''" and
        e = "SE_StorageError ''Failed to fetch conversation state for resp_1: timeout''" and
        s' = "\<lparr>pg_rows = [], table_verified = True\<rparr>"])
     (simp_all add: postgresql_get_def run_statement_def ensure_ready_def tool_answer_def responses_request_of_def)

text \<open>Two turns, the first answered by a body in two chunks, the second by a stream.\<close>

definition sample_turns :: "conversation_turn list" where
  "sample_turns =
     [\<lparr>tn_request = responses_request_of (IP_Text ''Hi'') None, tn_streaming = False, tn_encoding = None,
       tn_chunks = [''o'', ''k''], tn_response = calling_response\<rparr>,
      \<lparr>tn_request = responses_request_of (IP_Text ''Go on'') None, tn_streaming = True, tn_encoding = None,
       tn_chunks = [''data: x'' @ [nl]], tn_response = calling_response\<rparr>]"

lemma sample_turns_arrive:
  "\<forall>t \<in> set sample_turns. extract_input_items (rq_input (tn_request t)) \<noteq> [] \<and>
     turn_arrives sample_processor_env t"
  using sample_completion
  by (simp add: sample_turns_def turn_arrives_def responses_request_of_def decompress_cong
      sample_parses_response)

theorem conversation_accumulates_witness:
  "\<exists>s v. converse_turns memory_put memory_get sample_processor_env ''m'' ''openai/m'' None
       sample_turns memory_new = Some (Some ''resp_1'', s) \<and>
     memory_get ''resp_1'' s = (Inr v, s) \<and>
     cv_input_items v = [user_says ''Hi''] @ outputs_to_inputs (rr_output calling_response) @
       [user_says ''Go on''] @ outputs_to_inputs (rr_output calling_response)"
  using conversation_accumulates [OF _ sample_turns_arrive, of "''m''" "''openai/m''"]
  by (simp add: sample_turns_def responses_request_of_def history_def user_says_def)

subsection \<open>Upstreams behind a path prefix\<close>

text \<open>
  Whether the upstream keeps conversations itself is read off the path it is reached at, which is
  only recognised under \<open>/v1\<close>.
\<close>

definition keeps_conversations :: "provider_id \<Rightarrow> bool" where
  "keeps_conversations p \<longleftrightarrow> p \<in> {P_OpenAI, P_XAI, P_ChatGPT, P_Vercel}"

lemma prefixed_not_native:
  assumes "keeps_conversations p" and "trim_matches (CHR ''/'') base \<noteq> []"
    and "trim_matches (CHR ''/'') base \<noteq> ''v1''"
  shows "\<not> native_responses (target_endpoint_for_provider (C_OpenAIResponsesAPI Responses) p
    OPENAI_RESPONSES_API_PATH model streaming (Some base) unversioned)"
proof -
  let ?path = "''/'' @ trim_matches (CHR ''/'') base @ ''/responses''"
  have "target_endpoint_for_provider (C_OpenAIResponsesAPI Responses) p OPENAI_RESPONSES_API_PATH
      model streaming (Some base) unversioned = ?path"
    using assms(1,2) by (auto simp: keeps_conversations_def target_endpoint_for_provider_def Let_def
        route_by_provider_def build_endpoint_def trim_start_matches_def)
  moreover have "openai_from_endpoint ?path \<noteq> Some Responses"
    using assms(3) by (auto simp: openai_from_endpoint_def OPENAI_RESPONSES_API_PATH_def
        CHAT_COMPLETIONS_PATH_def split: if_splits)
  ultimately show ?thesis
    by (auto simp: native_responses_def upstream_from_endpoint_def split: option.splits bedrock_api.splits
        if_splits)
qed

text \<open>
  A provider that keeps conversations itself, reached behind a path prefix other than \<open>/v1\<close>,
  is taken for one that does not: the history is put in front of the input and the request goes
  upstream as it is, with \<open>previous_response_id\<close>, so the upstream adds the history once more.
\<close>

theorem prefixed_upstream_history_doubled:
  assumes "get_provider_info t model = Inr (p, Some base, unversioned)"
    and "keeps_conversations p" and "trim_matches (CHR ''/'') base \<notin> {[], ''v1''}"
    and "memory_get prev s = (Inr v, s)" and "rq_previous_response_id q = Some prev"
  shows "\<exists>q'. fst (resolve_conversation_state memory_get (PR_Responses q) True (Some s) t model
        OPENAI_RESPONSES_API_PATH streaming) =
      RS_Ready True (cv_input_items v @ extract_input_items (rq_input q)) (PR_Responses q') \<and>
    request_for_upstream c (PR_Responses q')
        (compatible_api_for_client p (C_OpenAIResponsesAPI Responses) streaming) = Inr (PR_Responses q') \<and>
    rq_input q' = IP_Items (cv_input_items v @ extract_input_items (rq_input q)) \<and>
    rq_previous_response_id q' = Some prev"
proof -
  have "client_from_endpoint OPENAI_RESPONSES_API_PATH = Some (C_OpenAIResponsesAPI Responses)"
    by (simp add: client_from_endpoint_def openai_from_endpoint_def OPENAI_RESPONSES_API_PATH_def
        CHAT_COMPLETIONS_PATH_def)
  then have path: "get_upstream_path t model OPENAI_RESPONSES_API_PATH model streaming =
      Inr (target_endpoint_for_provider (C_OpenAIResponsesAPI Responses) p OPENAI_RESPONSES_API_PATH
        model streaming (Some base) unversioned)"
    using assms(1) by (simp add: get_upstream_path_def)
  have api: "compatible_api_for_client p (C_OpenAIResponsesAPI Responses) streaming =
      U_OpenAIResponsesAPI Responses"
    using assms(2) by (auto simp: keeps_conversations_def compatible_api_for_client_def)
  show ?thesis using assms(3-5) prefixed_not_native [OF assms(2), of base]
    by (simp add: resolve_conversation_state_def path api continue_conversation_def
        retrieve_and_combine_input_def merge_state_def Let_def)
qed

definition prefixed_provider :: llm_providers where
  "prefixed_provider =
     \<lparr>providers = [(''openai/m'', llm_provider_default\<lparr>lp_base_url_path_prefix := Some ''/gateway/''\<rparr>)],
      default_provider = None, wildcard_providers = []\<rparr>"

lemma prefixed_provider_info:
  "get_provider_info prefixed_provider ''openai/m'' = Inr (P_OpenAI, Some ''/gateway/'', False)"
  by code_simp

theorem prefixed_upstream_history_doubled_witness:
  "\<exists>q'. fst (resolve_conversation_state memory_get (PR_Responses tool_answer) True
        (Some [(''resp_1'', first_state)]) prefixed_provider ''openai/m'' OPENAI_RESPONSES_API_PATH False) =
      RS_Ready True (cv_input_items first_state @ extract_input_items (rq_input tool_answer)) (PR_Responses q') \<and>
    request_for_upstream escaped_json (PR_Responses q')
        (compatible_api_for_client P_OpenAI (C_OpenAIResponsesAPI Responses) False) = Inr (PR_Responses q') \<and>
    rq_input q' = IP_Items (cv_input_items first_state @ extract_input_items (rq_input tool_answer)) \<and>
    rq_previous_response_id q' = Some ''resp_1''"
proof (rule prefixed_upstream_history_doubled [OF prefixed_provider_info])
  show "trim_matches (CHR ''/'') ''/gateway/'' \<notin> {[], ''v1''}" by code_simp
qed (simp_all add: keeps_conversations_def memory_get_def)

end
