(* ===== verification/Response_Props.thy ===== *)
theory Response_Props
  imports Provider_Response Request_Props
begin

section \<open>Properties of the response translations\<close>

text \<open>
  Every response the provider may send can be translated for the client; tool calls and token
  counts survive; an Anthropic response survives Chat Completions and back.
\<close>

subsection \<open>The upstream's response\<close>

datatype upstream_response =
    UR_Chat chat_response
  | UR_Messages messages_response
  | UR_Converse converse_response
  | UR_Responses responses_response

fun parsed_upstream :: "response_codec \<Rightarrow> string \<Rightarrow> upstream_api \<Rightarrow> string + upstream_response" where
  "parsed_upstream c b (U_OpenAIChatCompletions _) = map_sum id UR_Chat (parse_chat_response c b)"
| "parsed_upstream c b (U_AnthropicMessagesAPI _) = map_sum id UR_Messages (parse_messages_response c b)"
| "parsed_upstream c b (U_AmazonBedrockConverse _) = map_sum id UR_Converse (parse_converse_response c b)"
| "parsed_upstream c b (U_AmazonBedrockConverseStream _) =
     map_sum id UR_Converse (parse_converse_response c b)"
| "parsed_upstream c b (U_OpenAIResponsesAPI _) = map_sum id UR_Responses (parse_responses_response c b)"

fun response_of_client :: "client_api \<Rightarrow> provider_response \<Rightarrow> bool" where
  "response_of_client (C_OpenAIChatCompletions _) (PRs_ChatCompletions _) = True"
| "response_of_client (C_AnthropicMessagesAPI _) (PRs_Messages _) = True"
| "response_of_client (C_OpenAIResponsesAPI _) (PRs_Responses _) = True"
| "response_of_client _ _ = False"

text \<open>What Anthropic asks of a Chat Completions response: a choice, whose tool arguments are JSON.\<close>

definition expressible :: "json_codec \<Rightarrow> client_api \<Rightarrow> upstream_response \<Rightarrow> bool" where
  "expressible c cl u \<longleftrightarrow>
     (case (cl, u) of
        (C_AnthropicMessagesAPI _, UR_Chat r) \<Rightarrow>
          cs_choices r \<noteq> [] \<and>
          list_all (\<lambda>tc. is_ok (json_parse c (fc_arguments (tc_function tc))))
            (opt_list (rm_tool_calls (ch_message (hd (cs_choices r)))))
      | _ \<Rightarrow> True)"

lemma is_ok_map_sum [simp]: "is_ok (map_sum f g x) = is_ok x"
  by (cases x) (simp_all add: is_ok_iff)

lemma map_sum_Inr_ex: "(\<exists>u. map_sum f g x = Inr u \<and> P u) \<longleftrightarrow> (\<exists>r. x = Inr r \<and> P (g r))"
  by (cases x) simp_all

lemma try_map_is_ok: "is_ok (try_map f xs) = list_all (\<lambda>x. is_ok (f x)) xs"
  by (induction xs) (auto simp: is_ok_iff split: sum.splits)

lemma tool_call_block_is_ok:
  "is_ok (tool_call_to_block c tc) = is_ok (json_parse c (fc_arguments (tc_function tc)))"
  by (auto simp: tool_call_to_block_def is_ok_iff split: sum.splits)

lemma chat_to_messages_response_is_ok:
  "is_ok (chat_to_messages_response c r) = expressible c (C_AnthropicMessagesAPI a) (UR_Chat r)"
proof (cases "cs_choices r")
  case Nil
  then show ?thesis by (simp add: chat_to_messages_response_def expressible_def is_ok_iff)
next
  case (Cons ch chs)
  let ?tcs = "opt_list (rm_tool_calls (ch_message ch))"
  have "is_ok (chat_to_messages_response c r) = is_ok (try_map (tool_call_to_block c) ?tcs)"
    using Cons
    by (auto simp: chat_to_messages_response_def convert_openai_message_to_anthropic_content_def
        response_to_message_def opt_list_def is_ok_iff split: sum.splits option.splits)
  then show ?thesis using Cons
    by (simp add: try_map_is_ok tool_call_block_is_ok expressible_def)
qed

text \<open>The upstream APIs a client's API can meet, when the response is not streamed.\<close>

lemma upstream_of_chat_client:
  "compatible_api_for_client p (C_OpenAIChatCompletions a) False \<in>
     {U_OpenAIChatCompletions ChatCompletions, U_AmazonBedrockConverse Converse}"
  by (cases p) (simp_all add: compatible_api_for_client_def)

lemma upstream_of_messages_client:
  "compatible_api_for_client p (C_AnthropicMessagesAPI a) False \<in>
     {U_OpenAIChatCompletions ChatCompletions, U_AnthropicMessagesAPI Messages,
      U_AmazonBedrockConverse Converse}"
  by (cases p) (simp_all add: compatible_api_for_client_def)

lemma upstream_of_responses_client:
  "compatible_api_for_client p (C_OpenAIResponsesAPI a) False \<in>
     {U_OpenAIChatCompletions ChatCompletions, U_OpenAIResponsesAPI Responses,
      U_AmazonBedrockConverse Converse}"
  by (cases p) (simp_all add: compatible_api_for_client_def)

text \<open>
  (C12) Whatever the provider, the gateway's answer to a whole response is decided by the response
  alone: it is translated, and then into the client's API, exactly when it parses and, for an
  Anthropic client of a Chat Completions upstream, has a choice whose tool arguments are JSON. A
  response without choices or with truncated tool arguments is an error for that client, and for
  no other; the arm for unsupported combinations is never taken.
\<close>

theorem response_translation_complete:
  "(is_ok (response_of_bytes c b cl p) \<longleftrightarrow>
      (\<exists>u. parsed_upstream c b (compatible_api_for_client p cl False) = Inr u \<and>
        expressible (rs_json c) cl u)) \<and>
   (\<forall>r. response_of_bytes c b cl p = Inr r \<longrightarrow> response_of_client cl r)"
proof (cases cl)
  case (C_AnthropicMessagesAPI a)
  let ?up = "compatible_api_for_client p cl False"
  have chat: "is_ok (messages_of_chat c r) = expressible (rs_json c) cl (UR_Chat r)" for r
    using chat_to_messages_response_is_ok [of "rs_json c" r a] C_AnthropicMessagesAPI
    by (simp add: messages_of_chat_def)
  have other: "expressible (rs_json c) cl (UR_Messages m)" "expressible (rs_json c) cl (UR_Converse v)" for m v
    by (simp_all add: expressible_def split: client_api.split)
  from C_AnthropicMessagesAPI upstream_of_messages_client [of p a] consider
    "?up = U_OpenAIChatCompletions ChatCompletions" | "?up = U_AnthropicMessagesAPI Messages"
    | "?up = U_AmazonBedrockConverse Converse" by auto
  then show ?thesis
    using chat other C_AnthropicMessagesAPI
    by cases (cases "parse_chat_response c b"; cases "parse_messages_response c b";
      cases "parse_converse_response c b"; auto simp: response_of_bytes_def map_sum_Inr
        chat_response_of_bytes_def then_parsed_def is_ok_iff)+
next
  case (C_OpenAIChatCompletions a)
  then show ?thesis using upstream_of_chat_client [of p a]
    by (auto simp: response_of_bytes_def map_sum_Inr chat_response_of_bytes_def expressible_def
        map_sum_Inr_ex is_ok_iff)
next
  case (C_OpenAIResponsesAPI a)
  then show ?thesis using upstream_of_responses_client [of p a]
    by (auto simp: response_of_bytes_def map_sum_Inr chat_response_of_bytes_def expressible_def
        map_sum_Inr_ex is_ok_iff)
qed

subsection \<open>Tool calls and token counts\<close>

type_synonym called_tool = "string \<times> string \<times> (string + json)"

definition call_of :: "json_codec \<Rightarrow> tool_call \<Rightarrow> called_tool" where
  "call_of c tc = (tc_id tc, fc_name (tc_function tc), json_parse c (fc_arguments (tc_function tc)))"

definition choice_calls :: "json_codec \<Rightarrow> choice list \<Rightarrow> called_tool list" where
  "choice_calls c chs =
     (case chs of ch # _ \<Rightarrow> map (call_of c) (opt_list (rm_tool_calls (ch_message ch))) | [] \<Rightarrow> [])"

fun block_call :: "content_block \<Rightarrow> called_tool option" where
  "block_call (CB_ToolUse i n inp _) = Some (i, n, Inr inp)"
| "block_call (CB_ServerToolUse i n inp) = Some (i, n, Inr inp)"
| "block_call (CB_McpToolUse i n inp) = Some (i, n, Inr inp)"
| "block_call _ = None"

fun bedrock_call :: "bedrock_block \<Rightarrow> called_tool option" where
  "bedrock_call (BB_ToolUse u) = Some (tub_tool_use_id u, tub_name u, Inr (tub_input u))"
| "bedrock_call _ = None"

fun item_call :: "json_codec \<Rightarrow> output_item \<Rightarrow> called_tool option" where
  "item_call c (OI_FunctionCall _ _ i (Some n) (Some a)) = Some (i, n, json_parse c a)"
| "item_call c _ = None"

fun upstream_calls :: "json_codec \<Rightarrow> upstream_response \<Rightarrow> called_tool list" where
  "upstream_calls c (UR_Chat r) = choice_calls c (cs_choices r)"
| "upstream_calls c (UR_Messages r) = List.map_filter block_call (ms_content r)"
| "upstream_calls c (UR_Converse r) = List.map_filter bedrock_call (bm_content (vs_output r))"
| "upstream_calls c (UR_Responses r) = List.map_filter (item_call c) (rr_output r)"

fun response_calls :: "json_codec \<Rightarrow> provider_response \<Rightarrow> called_tool list" where
  "response_calls c (PRs_ChatCompletions r) = choice_calls c (cs_choices r)"
| "response_calls c (PRs_Messages r) = List.map_filter block_call (ms_content r)"
| "response_calls c (PRs_Responses r) = List.map_filter (item_call c) (rr_output r)"

fun upstream_tokens :: "upstream_response \<Rightarrow> (u32 \<times> u32) option" where
  "upstream_tokens (UR_Chat r) = Some (prompt_tokens (cs_usage r), completion_tokens (cs_usage r))"
| "upstream_tokens (UR_Messages r) = Some (input_tokens (ms_usage r), output_tokens (ms_usage r))"
| "upstream_tokens (UR_Converse r) = Some (bu_input_tokens (vs_usage r), bu_output_tokens (vs_usage r))"
| "upstream_tokens (UR_Responses r) =
     map_option (\<lambda>u. (ru_input_tokens u, ru_output_tokens u)) (rr_usage r)"

definition response_token_counts :: "provider_response \<Rightarrow> (u32 \<times> u32) option" where
  "response_token_counts r = map_option (\<lambda>(p, c, t). (p, c)) (extract_usage_counts r)"

lemma blocks_to_chat_calls:
  assumes "json_codec_ok c"
  shows "map (call_of c) (opt_list (extract_tool_calls c bs)) = List.map_filter block_call bs"
proof -
  have "map (call_of c) (List.map_filter (block_tool_call c) bs) = List.map_filter block_call bs"
  proof (induction bs)
    case (Cons b bs)
    then show ?case
      by (cases b) (auto simp: map_filter_simps call_of_def json_codec_okD [OF assms])
  qed (simp add: map_filter_simps)
  then show ?thesis by (auto simp: extract_tool_calls_def opt_list_def Let_def)
qed

lemma bedrock_to_chat_calls:
  assumes "json_codec_ok c"
  shows "map (call_of c) (opt_list (snd (convert_bedrock_message_to_openai c m))) =
    List.map_filter bedrock_call (bm_content m)"
proof -
  have "map (call_of c) (List.map_filter (bedrock_tool_call c) bs) = List.map_filter bedrock_call bs"
    for bs
  proof (induction bs)
    case (Cons b bs)
    then show ?case
      by (cases b) (auto simp: map_filter_simps call_of_def json_codec_okD [OF assms])
  qed (simp add: map_filter_simps)
  from this [of "bm_content m"] show ?thesis
    by (auto simp: convert_bedrock_message_to_openai_def opt_list_def Let_def)
qed

lemma bedrock_to_messages_calls:
  "List.map_filter block_call (convert_bedrock_message_to_anthropic_content c m) =
    List.map_filter bedrock_call (bm_content m)"
proof -
  have "List.map_filter block_call (List.map_filter (bedrock_block_to_messages c) bs) =
      List.map_filter bedrock_call bs" for bs
  proof (induction bs)
    case (Cons b bs)
    then show ?case
      by (cases "(c, b)" rule: bedrock_block_to_messages.cases) (auto simp: map_filter_simps split: option.splits)
  qed (simp add: map_filter_simps)
  then show ?thesis by (simp add: convert_bedrock_message_to_anthropic_content_def)
qed

lemma chat_to_messages_calls:
  assumes "chat_to_messages_response c r = Inr m"
  shows "List.map_filter block_call (ms_content m) = choice_calls c (cs_choices r) \<and>
    input_tokens (ms_usage m) = prompt_tokens (cs_usage r) \<and>
    output_tokens (ms_usage m) = completion_tokens (cs_usage r)"
proof -
  have calls: "List.map_filter block_call bs = map (call_of c) tcs"
    if "try_map (tool_call_to_block c) tcs = Inr bs" for tcs bs
    using that
    by (induction tcs arbitrary: bs)
       (auto simp: tool_call_to_block_def call_of_def map_filter_simps split: sum.splits)
  have texts: "List.map_filter block_call (content_blocks_of mc) = []" for mc
  proof -
    have "block_call (part_to_block p) = None" for p by (cases p) auto
    then show ?thesis
      by (auto simp: content_blocks_of_def map_filter_simps intro!: map_filter_all_None
          split: option.splits message_content.splits)
  qed
  show ?thesis using assms calls
    by (auto simp: chat_to_messages_response_def choice_calls_def texts opt_list_def
        convert_openai_message_to_anthropic_content_def response_to_message_def
        split: list.splits sum.splits option.splits)
qed

lemma chat_to_responses_calls:
  "List.map_filter (item_call c) (rr_output (chat_to_responses_response uuid r)) =
    choice_calls c (cs_choices r)"
proof -
  have calls: "List.map_filter (item_call c) (map function_call_item tcs) = map (call_of c) tcs" for tcs
    by (induction tcs) (auto simp: map_filter_simps function_call_item_def call_of_def)
  show ?thesis
    by (auto simp: chat_to_responses_response_def choice_calls_def choice_output_def Let_def
        map_filter_simps calls opt_list_def split: list.splits option.splits)
qed

lemmas token_count_defs =
  response_token_counts_def extract_usage_counts_def chat_usage_details_def
  messages_usage_details_def responses_usage_details_def

lemma chat_response_sel:
  "choice_calls k (cs_choices (messages_to_chat_response k now m)) =
    map (call_of k) (opt_list (extract_tool_calls k (ms_content m)))"
  "cs_usage (messages_to_chat_response k now m) =
    \<lparr>prompt_tokens = input_tokens (ms_usage m), completion_tokens = output_tokens (ms_usage m),
     total_tokens = input_tokens (ms_usage m) + output_tokens (ms_usage m),
     u_prompt_tokens_details = None, u_completion_tokens_details = None\<rparr>"
  "choice_calls k (cs_choices (converse_to_chat_response k nanos now v)) =
    map (call_of k) (opt_list (snd (convert_bedrock_message_to_openai k (vs_output v))))"
  "prompt_tokens (cs_usage (converse_to_chat_response k nanos now v)) = bu_input_tokens (vs_usage v)"
  "completion_tokens (cs_usage (converse_to_chat_response k nanos now v)) = bu_output_tokens (vs_usage v)"
  "rr_usage (chat_to_responses_response uuid r) = Some (response_usage_of (cs_usage r))"
  by (simp_all add: messages_to_chat_response_def converse_to_chat_response_def chat_completion_def
      plain_choice_def choice_calls_def chat_to_responses_response_def Let_def split: prod.splits)

text \<open>
  (C8) The response the client gets holds exactly the tool calls of the provider's (first) answer,
  in order, with identifiers, names and arguments, and the same input and output token counts.
\<close>

theorem response_calls_and_tokens_preserved:
  assumes "json_codec_ok (rs_json c)"
    and "parsed_upstream c b (compatible_api_for_client p cl False) = Inr u"
    and "response_of_bytes c b cl p = Inr r"
  shows "response_calls (rs_json c) r = upstream_calls (rs_json c) u \<and>
    response_token_counts r = upstream_tokens u"
proof (cases cl)
  case (C_AnthropicMessagesAPI a)
  then show ?thesis
    using assms upstream_of_messages_client [of p a]
    by (auto simp: response_of_bytes_def map_sum_Inr chat_response_of_bytes_def messages_of_chat_def
        then_parsed_def token_count_defs bedrock_to_messages_calls converse_to_messages_response_def
        dest!: chat_to_messages_calls)
next
  case (C_OpenAIChatCompletions a)
  then show ?thesis
    using assms upstream_of_chat_client [of p a]
    by (auto simp: response_of_bytes_def map_sum_Inr chat_response_of_bytes_def token_count_defs
        chat_response_sel bedrock_to_chat_calls)
next
  case (C_OpenAIResponsesAPI a)
  then show ?thesis
    using assms upstream_of_responses_client [of p a]
    by (auto simp: response_of_bytes_def map_sum_Inr chat_response_of_bytes_def token_count_defs
        chat_response_sel bedrock_to_chat_calls chat_to_responses_calls response_usage_of_def
        option.map_comp comp_def intro!: option.map_cong)
qed

subsection \<open>A provider answering\<close>

text \<open>A Bedrock answer with a text and a tool call, and parsers that know one text each.\<close>

definition sample_converse_response :: converse_response where
  "sample_converse_response =
     \<lparr>vs_output = \<lparr>bm_role = CR_Assistant, bm_content =
        [BB_Text ''Looking.'', BB_ToolUse \<lparr>tub_tool_use_id = ''t1'', tub_name = ''look'',
           tub_input = JObject [(''depth'', JNumber ''2'')]\<rparr>]\<rparr>,
      vs_stop_reason = B_ToolUse,
      vs_usage = \<lparr>bu_input_tokens = 12, bu_output_tokens = 7, bu_total_tokens = 19,
        bu_server_tool_usage = None, bu_cache_read_input_tokens = None,
        bu_cache_write_input_tokens = None\<rparr>,
      vs_metrics = None, vs_additional_model_response_fields = None, vs_performance_config = None,
      vs_trace = None\<rparr>"

definition sample_response_codec :: response_codec where
  "sample_response_codec =
     \<lparr>rs_json = escaped_json, rs_now_nanos = 0, rs_uuid = ''0f'',
      parse_chat_response = (\<lambda>_. Inl ''EOF''), parse_messages_response = (\<lambda>_. Inl ''EOF''),
      parse_converse_response =
        (\<lambda>s. if s = ''body'' then Inr sample_converse_response else Inl ''EOF''),
      parse_responses_response = (\<lambda>_. Inl ''EOF''), ser_response = (\<lambda>_. Inr ''{}'')\<rparr>"

lemma sample_upstream:
  "parsed_upstream sample_response_codec ''body''
     (compatible_api_for_client P_AmazonBedrock (C_OpenAIResponsesAPI Responses) False) =
   Inr (UR_Converse sample_converse_response)"
  by (simp add: sample_response_codec_def compatible_api_for_client_def)

theorem response_translation_complete_witness:
  "\<exists>r. response_of_bytes sample_response_codec ''body'' (C_OpenAIResponsesAPI Responses) P_AmazonBedrock =
         Inr r \<and> response_of_client (C_OpenAIResponsesAPI Responses) r"
proof -
  have "expressible (rs_json sample_response_codec) (C_OpenAIResponsesAPI Responses)
      (UR_Converse sample_converse_response)" by (simp add: expressible_def)
  with sample_upstream response_translation_complete [of sample_response_codec "''body''"
      "C_OpenAIResponsesAPI Responses" P_AmazonBedrock]
  show ?thesis by (auto simp: is_ok_iff)
qed

theorem response_calls_and_tokens_preserved_witness:
  "\<exists>r. response_of_bytes sample_response_codec ''body'' (C_OpenAIResponsesAPI Responses) P_AmazonBedrock =
         Inr r \<and>
       response_calls escaped_json r = [(''t1'', ''look'', Inr (JObject [(''depth'', JNumber ''2'')]))] \<and>
       response_token_counts r = Some (12, 7)"
proof -
  have json: "rs_json sample_response_codec = escaped_json" "json_codec_ok (rs_json sample_response_codec)"
    by (simp_all add: sample_response_codec_def)
  obtain r where r: "response_of_bytes sample_response_codec ''body'' (C_OpenAIResponsesAPI Responses)
      P_AmazonBedrock = Inr r"
    by (simp add: response_of_bytes_def compatible_api_for_client_def sample_response_codec_def)
  from response_calls_and_tokens_preserved [OF json(2) sample_upstream r] json(1)
  have "response_calls escaped_json r = [(''t1'', ''look'', Inr (JObject [(''depth'', JNumber ''2'')]))]"
    "response_token_counts r = Some (12, 7)"
    by (simp_all add: sample_converse_response_def map_filter_simps)
  with r show ?thesis by (intro exI [where x = r] conjI)
qed

subsection \<open>Anthropic responses through Chat Completions\<close>

definition portable_response :: "messages_response \<Rightarrow> bool" where
  "portable_response r \<longleftrightarrow>
     ms_obj_type r = ''message'' \<and> ms_role r = MR_Assistant \<and> ms_stop_sequence r = None \<and>
     ms_container r = None \<and> ms_stop_reason r \<notin> {SR_StopSequence, SR_PauseTurn} \<and>
     cache_creation_input_tokens (ms_usage r) = None \<and> cache_read_input_tokens (ms_usage r) = None \<and>
     (\<exists>t us. ms_content r = (if t = [] then [] else [CB_Text t None]) @ us \<and>
             list_all portable_tool_use us)"

lemma extract_tool_calls_uses:
  "list_all portable_tool_use us \<Longrightarrow> List.map_filter (block_tool_call c) us = map (tool_call_of c) us"
  by (auto simp: list_all_iff portable_tool_use_facts intro: map_filter_all_Some)

lemma visible_text_uses: "list_all portable_tool_use us \<Longrightarrow> List.map_filter visible_text us = []"
proof -
  have "portable_tool_use b \<Longrightarrow> visible_text b = None" for b by (cases b) auto
  then show "list_all portable_tool_use us \<Longrightarrow> ?thesis"
    by (auto simp: list_all_iff intro: map_filter_all_None)
qed

text \<open>
  An Anthropic response with at most one text, followed by tool calls, comes back unchanged
  from Chat Completions, unless it ended with a stop sequence or a pause or reports cache use.
\<close>

theorem anthropic_response_roundtrip:
  assumes c: "json_codec_ok c" and "portable_response r"
  shows "chat_to_messages_response c (messages_to_chat_response c now r) = Inr r"
proof -
  obtain t us where content: "ms_content r = (if t = [] then [] else [CB_Text t None]) @ us"
    and us: "list_all portable_tool_use us"
    using assms(2) unfolding portable_response_def by blast
  have calls: "extract_tool_calls c (ms_content r) =
      (if us = [] then None else Some (map (tool_call_of c) us))"
    using content us by (auto simp: extract_tool_calls_def extract_tool_calls_uses map_filter_simps)
  have shown: "message_content_string (convert_anthropic_content_to_openai (ms_content r)) = Some t"
    using content us by (auto simp: convert_anthropic_content_to_openai_def message_content_string_def
        visible_text_uses map_filter_simps)
  have "try_map (tool_call_to_block c) (map (tool_call_of c) us) = Inr us"
    using us portable_tool_use_facts(5) [OF _ c]
    by (simp add: try_map_Inr_iff list_all2_map1 list_all_iff list.rel_refl_strong)
  then have blocks: "convert_openai_message_to_anthropic_content c (response_to_message
      \<lparr>rm_role = R_Assistant, rm_content = Some t, rm_refusal = None, rm_annotations = None,
       rm_audio = None, rm_function_call = None,
       rm_tool_calls = (if us = [] then None else Some (map (tool_call_of c) us))\<rparr>) = Inr (ms_content r)"
    using content by (auto simp: convert_openai_message_to_anthropic_content_def
        response_to_message_def content_blocks_of_def)
  have stop: "stop_reason_of_finish (finish_of_stop_reason (ms_stop_reason r)) = ms_stop_reason r"
    using assms(2) by (cases "ms_stop_reason r") (auto simp: portable_response_def)
  have usage: "\<lparr>input_tokens = input_tokens (ms_usage r), output_tokens = output_tokens (ms_usage r),
      cache_creation_input_tokens = None, cache_read_input_tokens = None\<rparr> = ms_usage r"
    using assms(2) by (cases "ms_usage r") (simp add: portable_response_def)
  show ?thesis
    using assms(2) blocks stop usage calls shown
    by (cases r) (simp add: chat_to_messages_response_def messages_to_chat_response_def
        chat_completion_def plain_choice_def portable_response_def)
qed

definition sample_messages_response :: messages_response where
  "sample_messages_response =
     \<lparr>ms_id = ''msg_1'', ms_obj_type = ''message'', ms_role = MR_Assistant,
      ms_content = [CB_Text ''Looking.'' None,
        CB_ToolUse ''t1'' ''look'' (JObject [(''depth'', JNumber ''2'')]) None],
      ms_model = ''claude'', ms_stop_reason = SR_ToolUse, ms_stop_sequence = None,
      ms_usage = \<lparr>input_tokens = 12, output_tokens = 7, cache_creation_input_tokens = None,
        cache_read_input_tokens = None\<rparr>, ms_container = None\<rparr>"

theorem anthropic_response_roundtrip_witness:
  "portable_response sample_messages_response \<and>
   chat_to_messages_response escaped_json
     (messages_to_chat_response escaped_json 0 sample_messages_response) = Inr sample_messages_response"
proof -
  have "portable_response sample_messages_response"
    unfolding portable_response_def
    by (intro conjI exI [where x = "''Looking.''"]
        exI [where x = "[CB_ToolUse ''t1'' ''look'' (JObject [(''depth'', JNumber ''2'')]) None]"])
       (simp_all add: sample_messages_response_def)
  with anthropic_response_roundtrip [OF escaped_json_ok this] show ?thesis by blast
qed

end
