(* ===== verification/Rust_Text.thy ===== *)
theory Rust_Text
  imports Rust_Str
begin

section \<open>More string operations\<close>

text \<open>
  \<open>str::replace\<close> and slicing of the Rust standard library, and the loops with which several
  components move an index to a character boundary.
\<close>

subsection \<open>Replacing\<close>

text \<open>All occurrences of a non-empty pattern, from the left, without overlaps.\<close>

function replace_str :: "string \<Rightarrow> string \<Rightarrow> string \<Rightarrow> string" where
  "replace_str p r s =
     (if p = [] then s
      else if starts_with s p then r @ replace_str p r (drop (length p) s)
      else (case s of [] \<Rightarrow> [] | c # s' \<Rightarrow> c # replace_str p r s'))"
  by pat_completeness auto
termination
  by (relation "measure (\<lambda>(p, r, s). length s)") (auto simp: starts_with_def intro: diff_less)

declare replace_str.simps [simp del]

lemma replace_str_Nil [simp]: "replace_str p r [] = (if p = [] then [] else [])"
  by (subst replace_str.simps) (simp add: starts_with_def)

lemma replace_str_skip:
  "p \<noteq> [] \<Longrightarrow> \<not> starts_with (c # s) p \<Longrightarrow> replace_str p r (c # s) = c # replace_str p r s"
  by (subst replace_str.simps) simp

lemma replace_str_hit: "p \<noteq> [] \<Longrightarrow> replace_str p r (p @ s) = r @ replace_str p r s"
  by (subst replace_str.simps) simp

lemma replace_str_char [simp]:
  "replace_str [a] r (c # s) = (if c = a then r else [c]) @ replace_str [a] r s"
  by (subst replace_str.simps) (auto simp: starts_with_def)

lemma replace_char_removes: "a \<notin> set r \<Longrightarrow> a \<notin> set (replace_str [a] r s)"
  by (induction s) auto

lemma replace_char_id: "a \<notin> set s \<Longrightarrow> replace_str [a] r s = s"
  by (induction s) auto

text \<open>Text in which the first character of the pattern does not occur passes unchanged.\<close>

lemma replace_str_prefix:
  "p \<noteq> [] \<Longrightarrow> hd p \<notin> set a \<Longrightarrow> replace_str p r (a @ s) = a @ replace_str p r s"
proof (induction a)
  case (Cons c a)
  then have "\<not> starts_with (c # a @ s) p" by (cases p) (auto simp: starts_with_def)
  then show ?case using Cons by (simp add: replace_str_skip)
qed simp

lemma replace_str_id: "p \<noteq> [] \<Longrightarrow> hd p \<notin> set s \<Longrightarrow> replace_str p r s = s"
  using replace_str_prefix [of p s r "[]"] by simp

subsection \<open>Slices\<close>

text \<open>\<open>&s[..e]\<close> and \<open>&s[b..]\<close>; \<open>None\<close> is the panic at an index that is no character boundary.\<close>

definition slice_to :: "string \<Rightarrow> nat \<Rightarrow> string option" where
  "slice_to s e = (if is_char_boundary s e then Some (take e s) else None)"

definition slice_from :: "string \<Rightarrow> nat \<Rightarrow> string option" where
  "slice_from s b = (if is_char_boundary s b then Some (drop b s) else None)"

text \<open>\<open>while i > 0 && !s.is_char_boundary(i) { i -= 1 }\<close>\<close>

fun boundary_down :: "string \<Rightarrow> nat \<Rightarrow> nat" where
  "boundary_down s i = (if 0 < i \<and> \<not> is_char_boundary s i then boundary_down s (i - 1) else i)"

text \<open>\<open>while i < s.len() && !s.is_char_boundary(i) { i += 1 }\<close>\<close>

function boundary_up :: "string \<Rightarrow> nat \<Rightarrow> nat" where
  "boundary_up s i = (if i < length s \<and> \<not> is_char_boundary s i then boundary_up s (i + 1) else i)"
  by pat_completeness auto
termination by (relation "measure (\<lambda>(s, i). length s - i)") auto

declare boundary_down.simps [simp del] boundary_up.simps [simp del]

lemma boundary_down_props: "is_char_boundary s (boundary_down s i) \<and> boundary_down s i \<le> i"
proof (induction s i rule: boundary_down.induct)
  case (1 s i)
  then show ?case by (subst (1 2) boundary_down.simps) (cases "i = 0", auto)
qed

lemma boundary_up_props:
  "i \<le> length s \<Longrightarrow> is_char_boundary s (boundary_up s i) \<and> i \<le> boundary_up s i \<and> boundary_up s i \<le> length s"
proof (induction s i rule: boundary_up.induct)
  case (1 s i)
  then show ?case
    by (cases "i < length s \<and> \<not> is_char_boundary s i")
      (auto simp: boundary_up.simps [of s i])
qed

lemma boundary_down_boundary: "is_char_boundary s i \<Longrightarrow> boundary_down s i = i"
  by (subst boundary_down.simps) simp

text \<open>A character has at most four bytes, so the index moves by at most three in valid text.\<close>

lemma slice_to_down [simp]: "slice_to s (boundary_down s i) = Some (take (boundary_down s i) s)"
  by (simp add: slice_to_def boundary_down_props)

lemma slice_from_up [simp]: "i \<le> length s \<Longrightarrow> slice_from s (boundary_up s i) = Some (drop (boundary_up s i) s)"
  by (simp add: slice_from_def boundary_up_props)

subsection \<open>How far the index moves\<close>

text \<open>A character of valid text has at most four bytes, so the loops make at most three steps.\<close>

lemma utf8_step_first:
  assumes "utf8_step (a # s) = Inr n"
  shows "n \<le> 4" "\<not> is_cont_byte a"
  using assms
  by (auto simp: utf8_step.simps in_range_def is_cont_byte_def split: if_splits list.splits)

lemma valid_character_near:
  "utf8_scan k s = None \<Longrightarrow> i < length s \<Longrightarrow> \<exists>j \<le> i. i \<le> j + 3 \<and> \<not> is_cont_byte (s ! j)"
proof (induction k s arbitrary: i rule: utf8_scan.induct)
  case (2 k a s)
  from "2.prems"(1) obtain n where n: "utf8_step (a # s) = Inr n" "utf8_scan (k + n) (drop n (a # s)) = None"
    by (auto simp: utf8_scan.simps(2) split: sum.splits)
  note n4 = utf8_step_first [OF n(1)] and pos = utf8_step_Inr [OF n(1)]
  show ?case
  proof (cases "i < n")
    case True
    then show ?thesis using n4 by (intro exI [where x = 0]) auto
  next
    case False
    then have "i - n < length (drop n (a # s))" using "2.prems"(2) by auto
    then obtain j where j: "j \<le> i - n" "i - n \<le> j + 3" "\<not> is_cont_byte (drop n (a # s) ! j)"
      using "2.IH" [OF n(1) n(2)] by blast
    then show ?thesis using False pos "2.prems"(2)
      by (intro exI [where x = "n + j"]) (auto simp: add.commute)
  qed
qed simp

lemma boundary_down_ge: "j \<le> i \<Longrightarrow> is_char_boundary s j \<Longrightarrow> j \<le> boundary_down s i"
proof (induction s i rule: boundary_down.induct)
  case (1 s i)
  then show ?case
    by (cases "0 < i \<and> \<not> is_char_boundary s i"; cases "j = i")
      (auto simp: boundary_down.simps [of s i])
qed

lemma boundary_up_le: "i \<le> j \<Longrightarrow> is_char_boundary s j \<Longrightarrow> boundary_up s i \<le> j"
proof (induction s i rule: boundary_up.induct)
  case (1 s i)
  then show ?case
    by (cases "i < length s \<and> \<not> is_char_boundary s i"; cases "j = i")
      (auto simp: boundary_up.simps [of s i])
qed

lemma boundary_down_near: "valid_utf8 s \<Longrightarrow> i \<le> length s \<Longrightarrow> i \<le> boundary_down s i + 3"
proof (cases "i = length s")
  case False
  assume "valid_utf8 s" "i \<le> length s"
  with False obtain j where j: "j \<le> i" "i \<le> j + 3" "\<not> is_cont_byte (s ! j)"
    using valid_character_near [of 0 s i] by (auto simp: valid_utf8_def)
  then have "is_char_boundary s j" using False \<open>i \<le> length s\<close> by (simp add: is_char_boundary_def)
  with j boundary_down_ge [of j i s] show ?thesis by linarith
qed (simp add: boundary_down_boundary)

lemma boundary_up_near: "valid_utf8 s \<Longrightarrow> i \<le> length s \<Longrightarrow> boundary_up s i \<le> i + 3"
proof (cases "i + 3 < length s")
  case True
  assume "valid_utf8 s"
  with True obtain j where "j \<le> i + 3" "i + 3 \<le> j + 3" "\<not> is_cont_byte (s ! j)"
    using valid_character_near [of 0 s "i + 3"] by (auto simp: valid_utf8_def)
  moreover from this True have "is_char_boundary s j" by (simp add: is_char_boundary_def)
  ultimately show ?thesis using boundary_up_le [of i j s] by linarith
next
  case False
  assume "i \<le> length s"
  then show ?thesis using False boundary_up_props [of i s] by linarith
qed

end
