(* ===== verification/Chat_Json.thy ===== *)
theory Chat_Json
  imports Request_Types
begin

section \<open>The JSON form of chat messages\<close>

text \<open>
  The \<open>Serialize\<close> instances that serde derives for the messages of a Chat Completions request
  (\<open>crates/hermesllm/src/apis/openai.rs\<close>); a field that is \<open>None\<close> is left out. Keys keep the
  order of the fields.
\<close>

fun chat_role_name :: "role \<Rightarrow> string" where
  "chat_role_name R_System = ''system''"
| "chat_role_name R_User = ''user''"
| "chat_role_name R_Assistant = ''assistant''"
| "chat_role_name R_Tool = ''tool''"
| "chat_role_name R_Developer = ''developer''"

definition opt_field :: "string \<Rightarrow> ('a \<Rightarrow> json) \<Rightarrow> 'a option \<Rightarrow> (string \<times> json) list" where
  "opt_field k f x = (case x of None \<Rightarrow> [] | Some v \<Rightarrow> [(k, f v)])"

definition image_url_to_json :: "image_url \<Rightarrow> json" where
  "image_url_to_json i =
     JObject ((''url'', JString (iu_url i)) # opt_field ''detail'' JString (iu_detail i))"

fun content_part_to_json :: "content_part \<Rightarrow> json" where
  "content_part_to_json (CP_Text t) = JObject [(''type'', JString ''text''), (''text'', JString t)]"
| "content_part_to_json (CP_ImageUrl i) =
     JObject [(''type'', JString ''image_url''), (''image_url'', image_url_to_json i)]"

fun chat_content_to_json :: "message_content \<Rightarrow> json" where
  "chat_content_to_json (MC_Text t) = JString t"
| "chat_content_to_json (MC_Parts ps) = JArray (map content_part_to_json ps)"

definition function_call_to_json :: "function_call \<Rightarrow> json" where
  "function_call_to_json f =
     JObject [(''name'', JString (fc_name f)), (''arguments'', JString (fc_arguments f))]"

definition tool_call_to_json :: "tool_call \<Rightarrow> json" where
  "tool_call_to_json c =
     JObject [(''id'', JString (tc_id c)), (''type'', JString (tc_call_type c)),
              (''function'', function_call_to_json (tc_function c))]"

definition message_to_json :: "message \<Rightarrow> json" where
  "message_to_json m =
     JObject ((''role'', JString (chat_role_name (m_role m)))
       # opt_field ''content'' chat_content_to_json (m_content m)
       @ opt_field ''name'' JString (m_name m)
       @ opt_field ''tool_calls'' (\<lambda>cs. JArray (map tool_call_to_json cs)) (m_tool_calls m)
       @ opt_field ''tool_call_id'' JString (m_tool_call_id m))"

definition function_def_to_json :: "function_def \<Rightarrow> json" where
  "function_def_to_json f =
     JObject ((''name'', JString (fn_name f))
       # opt_field ''description'' JString (fn_description f)
       @ (''parameters'', fn_parameters f)
       # opt_field ''strict'' JBool (fn_strict f))"

definition tool_to_json :: "tool \<Rightarrow> json" where
  "tool_to_json t =
     JObject [(''type'', JString (t_tool_type t)), (''function'', function_def_to_json (t_function t))]"

lemma text_message_json:
  "message_to_json (text_message r t) =
     JObject [(''role'', JString (chat_role_name r)), (''content'', JString t)]"
  by (simp add: message_to_json_def opt_field_def)

end
