(* ===== verification/Orchestrator_Model.thy ===== *)
theory Orchestrator_Model
  imports Rust_Text Chat_Json "HOL-Library.AList"
begin

section \<open>The routing model\<close>

text \<open>
  \<open>crates/brightstaff/src/router/orchestrator_model_v1.rs\<close>: the prompt with which a small model is
  asked for the routes of a conversation, within a token budget, and the reading of its answer.
  Parameters: the JSON library, its pretty printer, and the text of its error for JSON of
  another shape. A panic is \<open>None\<close>.
\<close>

subsection \<open>Preferences\<close>

record orchestration_preference =
  op_name :: string
  op_description :: string

record agent_usage_preference =
  aup_model :: string
  aup_preferences :: "orchestration_preference list"

text \<open>The hand-written \<open>Serialize\<close> instance of \<open>common/src/configuration.rs\<close>.\<close>

definition preference_to_json :: "orchestration_preference \<Rightarrow> json" where
  "preference_to_json p =
     JObject [(''name'', JString (op_name p)), (''description'', JString (op_description p)),
              (''parameters'', JObject [(''type'', JString ''object''), (''properties'', JObject []),
                                      (''required'', JArray [])])]"

text \<open>
  \<open>SpacedJsonFormatter\<close>: a space after every comma and colon. How a string is quoted and escaped is
  the library's business.
\<close>

fun spaced_json :: "(string \<Rightarrow> string) \<Rightarrow> json \<Rightarrow> string" where
  "spaced_json q JNull = ''null''"
| "spaced_json q (JBool b) = (if b then ''true'' else ''false'')"
| "spaced_json q (JNumber n) = n"
| "spaced_json q (JString s) = q s"
| "spaced_json q (JArray vs) = ''['' @ join '', '' (map (spaced_json q) vs) @ '']''"
| "spaced_json q (JObject kvs) =
     ''{'' @ join '', '' (map (\<lambda>(k, v). q k @ '': '' @ spaced_json q v) kvs) @ ''}''"

record router_codec =
  rcd_json :: json_codec
  rcd_pretty :: "json \<Rightarrow> string"
  rcd_shape_error :: "json \<Rightarrow> string"

definition to_spaced_json :: "router_codec \<Rightarrow> json \<Rightarrow> string" where
  "to_spaced_json c j = spaced_json (\<lambda>s. json_print (rcd_json c) (JString s)) j"

definition routes_text :: "router_codec \<Rightarrow> orchestration_preference list \<Rightarrow> string" where
  "routes_text c ps = join NL (map (\<lambda>p. to_spaced_json c (preference_to_json p)) ps)"

subsection \<open>The prompt\<close>

definition DQ :: string where "DQ = [CHR 0x22]"

definition ORCHESTRATOR_SYSTEM_PROMPT :: string where
  "ORCHESTRATOR_SYSTEM_PROMPT = join NL
    [[],
     ''You are a helpful assistant that selects the most suitable routes based on user intent.'',
     ''You are provided with a list of available routes enclosed within <routes></routes> XML tags:'',
     ''<routes>'',
     ''{routes}'',
     ''</routes>'',
     [],
     ''You are also given the conversation context enclosed within <conversation></conversation> XML tags:'',
     ''<conversation>'',
     ''{conversation}'',
     ''</conversation>'',
     [],
     ''## Instructions'',
     ''1. Analyze the latest user intent from the conversation.'',
     ''2. Compare it against the available routes to find which routes can help fulfill the request.'',
     ''3. Respond only with the exact route names from <routes>.'',
     ''4. If no routes can help or the intent is already fulfilled, return an empty list.'',
     [],
     ''## Response Format'',
     ''Return your answer strictly in JSON as follows:'',
     ''{{'' @ DQ @ ''route'' @ DQ @ '': ['' @ DQ @ ''route_name_1'' @ DQ @ '', '' @ DQ @ ''route_name_2'' @ DQ @ '', '' @ DQ @ ''...'' @ DQ @ '']}}'',
     ''If no routes are needed, return an empty list for `route`.'',
     []]"

definition TOKEN_LENGTH_DIVISOR :: nat where "TOKEN_LENGTH_DIVISOR = 4"
definition MAX_TOKEN_LEN :: nat where "MAX_TOKEN_LEN = 8192"
definition MAX_ROUTING_TURNS :: nat where "MAX_ROUTING_TURNS = 16"
definition TRIM_MARKER :: string where "TRIM_MARKER = [CHR 0xE2, CHR 0x80, CHR 0xA6]"

text \<open>
  The middle of a text cut out. The lengths are below \<open>isize::MAX\<close>, so the \<open>usize\<close> arithmetic of
  the code does not overflow where the text is longer than the limit.
\<close>

definition trim_middle_utf8 :: "string \<Rightarrow> nat \<Rightarrow> string option" where
  "trim_middle_utf8 s max_bytes =
     (if length s \<le> max_bytes then Some s
      else if max_bytes \<le> length TRIM_MARKER then slice_to s (boundary_down s max_bytes)
      else
        (let available = max_bytes - length TRIM_MARKER;
             start_len = boundary_down s (available * 3 div 5);
             end_len = available - start_len;
             end_start = boundary_up s (length s - end_len)
         in case slice_to s start_len of
              None \<Rightarrow> None
            | Some head \<Rightarrow>
                (case slice_from s end_start of
                   None \<Rightarrow> None
                 | Some tail \<Rightarrow> Some (head @ TRIM_MARKER @ tail))))"

definition routable :: "message \<Rightarrow> bool" where
  "routable m \<longleftrightarrow> m_role m \<noteq> R_System \<and> m_role m \<noteq> R_Developer \<and> m_role m \<noteq> R_Tool \<and>
     extract_text (m_content m) \<noteq> []"

definition routing_window :: "message list \<Rightarrow> message list" where
  "routing_window messages =
     (let filtered = filter routable messages
      in drop (length filtered - MAX_ROUTING_TURNS) filtered)"

text \<open>
  The loop over the window, last message first: the messages that fit the budget, and of a user
  message that does not, what is left of the budget.
\<close>

fun select_messages :: "nat \<Rightarrow> nat \<Rightarrow> message list \<Rightarrow> message list option" where
  "select_messages max_tokens token_count [] = Some []"
| "select_messages max_tokens token_count (m # ms) =
     (let message_text = extract_text (m_content m);
          message_token_count = length message_text div TOKEN_LENGTH_DIVISOR
      in if max_tokens < token_count + message_token_count then
           (let remaining_tokens = max_tokens - token_count
            in if m_role m = R_User \<and> 0 < remaining_tokens then
                 (case trim_middle_utf8 message_text (remaining_tokens * TOKEN_LENGTH_DIVISOR) of
                    None \<Rightarrow> None
                  | Some truncated \<Rightarrow> Some [text_message R_User truncated])
               else Some [])
         else map_option ((#) (text_message (m_role m) message_text))
                (select_messages max_tokens (token_count + message_token_count) ms))"

definition last_message_fallback :: "message list \<Rightarrow> message list" where
  "last_message_fallback window =
     (if window = [] then []
      else [text_message (m_role (last window)) (extract_text (m_content (last window)))])"

definition routed_conversation :: "nat \<Rightarrow> message list \<Rightarrow> message list option" where
  "routed_conversation max_tokens messages =
     (let window = routing_window messages;
          token_count = length ORCHESTRATOR_SYSTEM_PROMPT div TOKEN_LENGTH_DIVISOR
      in map_option (\<lambda>selected. rev (if selected = [] then last_message_fallback window else selected))
           (select_messages max_tokens token_count (rev window)))"

definition generate_orchestrator_message :: "router_codec \<Rightarrow> string \<Rightarrow> message list \<Rightarrow> string" where
  "generate_orchestrator_message c prefs conversation =
     replace_str ''{conversation}'' (rcd_pretty c (JArray (map message_to_json conversation)))
       (replace_str ''{routes}'' prefs ORCHESTRATOR_SYSTEM_PROMPT)"

definition convert_to_orchestrator_preferences ::
    "router_codec \<Rightarrow> agent_usage_preference list option \<Rightarrow> string option" where
  "convert_to_orchestrator_preferences c prefs =
     map_option (\<lambda>ps. routes_text c (concat (map aup_preferences ps))) prefs"

subsection \<open>The model\<close>

record orchestrator_model =
  om_json_str :: string
  om_model_map :: "(string \<times> string) list"
  om_model :: string
  om_max_token_length :: nat

text \<open>The map of routes is given in its order of iteration.\<close>

definition orchestrator_model_new ::
    "router_codec \<Rightarrow> (string \<times> orchestration_preference list) list \<Rightarrow> string \<Rightarrow> nat \<Rightarrow> orchestrator_model" where
  "orchestrator_model_new c orchestrations model max_token_length =
     \<lparr>om_json_str = routes_text c (concat (map snd orchestrations)),
      om_model_map = foldl (\<lambda>t (name, m). AList.update name m t) []
        (concat (map (\<lambda>(m, ps). map (\<lambda>p. (op_name p, m)) ps) orchestrations)),
      om_model = model, om_max_token_length = max_token_length\<rparr>"

text \<open>\<open>0.01\<close> as an \<open>f32\<close>.\<close>

definition ROUTING_TEMPERATURE :: f32 where "ROUTING_TEMPERATURE = 0x3C23D70A"

definition generate_request ::
    "router_codec \<Rightarrow> orchestrator_model \<Rightarrow> message list \<Rightarrow> agent_usage_preference list option \<Rightarrow>
     chat_request option" where
  "generate_request c om messages prefs =
     map_option (\<lambda>conversation.
        chat_request_default
          \<lparr>cr_model := om_model om,
           cr_messages := [text_message R_User
             (generate_orchestrator_message c
               (case convert_to_orchestrator_preferences c prefs of Some p \<Rightarrow> p | None \<Rightarrow> om_json_str om)
               conversation)],
           cr_temperature := Some ROUTING_TEMPERATURE\<rparr>)
       (routed_conversation (om_max_token_length om) messages)"

subsection \<open>The answer\<close>

definition fix_json_response :: "string \<Rightarrow> string" where
  "fix_json_response body = replace_str [CHR 0x5C, CHR ''n''] [] (replace_str [CHR 0x27] [CHR 0x22] body)"

text \<open>
  \<open>AgentOrchestratorResponse\<close>: its one field may be missing or null; otherwise it is an array of strings.
\<close>

fun json_strings :: "json list \<Rightarrow> string list option" where
  "json_strings [] = Some []"
| "json_strings (JString s # vs) = map_option ((#) s) (json_strings vs)"
| "json_strings _ = None"

definition route_field :: "json \<Rightarrow> string list option option" where
  "route_field j =
     (case j of
        JObject m \<Rightarrow>
          (case map_of m ''route'' of
             None \<Rightarrow> Some None
           | Some JNull \<Rightarrow> Some None
           | Some (JArray vs) \<Rightarrow> map_option Some (json_strings vs)
           | Some _ \<Rightarrow> None)
      | JArray [JNull] \<Rightarrow> Some None
      | JArray [JArray vs] \<Rightarrow> map_option Some (json_strings vs)
      | _ \<Rightarrow> None)"

definition orchestrator_response_of :: "router_codec \<Rightarrow> string \<Rightarrow> string + string list option" where
  "orchestrator_response_of c body =
     (case json_parse (rcd_json c) body of
        Inl e \<Rightarrow> Inl e
      | Inr j \<Rightarrow> (case route_field j of None \<Rightarrow> Inl (rcd_shape_error c j) | Some r \<Rightarrow> Inr r))"

definition model_of_route :: "agent_usage_preference list \<Rightarrow> string \<Rightarrow> string option" where
  "model_of_route prefs route =
     map_option aup_model
       (find (\<lambda>u. list_ex (\<lambda>p. op_name p = route) (aup_preferences u)) prefs)"

definition parse_response ::
    "router_codec \<Rightarrow> orchestrator_model \<Rightarrow> string \<Rightarrow> agent_usage_preference list option \<Rightarrow>
     string + (string \<times> string) list option" where
  "parse_response c om content prefs =
     (if content = [] then Inr None
      else case orchestrator_response_of c (fix_json_response content) of
             Inl e \<Rightarrow> Inl (''Failed to parse JSON: '' @ e)
           | Inr r \<Rightarrow>
               (let selected_routes = (case r of None \<Rightarrow> [] | Some rs \<Rightarrow> rs);
                    valid_routes = filter (\<lambda>r. r \<noteq> []) selected_routes
                in if valid_routes = [] then Inr None
                   else
                     (let model_of = (case prefs of
                            Some ps \<Rightarrow> model_of_route ps
                          | None \<Rightarrow> map_of (om_model_map om));
                          result = List.map_filter
                            (\<lambda>r. map_option (\<lambda>m. (r, m)) (model_of r)) valid_routes
                      in if result = [] then Inr None else Inr (Some result))))"

subsection \<open>Trimming\<close>

lemma TRIM_MARKER_length [simp]: "length TRIM_MARKER = 3"
  by (simp add: TRIM_MARKER_def)

lemma trim_middle_cases:
  assumes "n < length s"
  obtains i where "i \<le> n" "is_char_boundary s i" "trim_middle_utf8 s n = Some (take i s)"
      "n \<le> 3" "i = boundary_down s n"
  | i j where "i \<le> j" "is_char_boundary s i" "is_char_boundary s j" "3 < n"
      "i = boundary_down s ((n - 3) * 3 div 5)" "j = boundary_up s (length s - (n - 3 - i))"
      "trim_middle_utf8 s n = Some (take i s @ TRIM_MARKER @ drop j s)"
      "i + (length s - j) + 3 \<le> n"
proof (cases "n \<le> 3")
  case True
  then show ?thesis using assms boundary_down_props [of s n]
    by (intro that(1) [of "boundary_down s n"]) (simp_all add: trim_middle_utf8_def)
next
  case False
  define i where "i = boundary_down s ((n - 3) * 3 div 5)"
  define e where "e = length s - (n - 3 - i)"
  have "i \<le> (n - 3) * 3 div 5" "is_char_boundary s i" using boundary_down_props by (auto simp: i_def)
  then have i: "i \<le> n - 3" "is_char_boundary s i" by auto
  have e: "e \<le> length s" "i \<le> e" using assms i by (auto simp: e_def)
  have up: "is_char_boundary s (boundary_up s e)" "e \<le> boundary_up s e" "boundary_up s e \<le> length s"
    using boundary_up_props [OF e(1)] by auto
  have "trim_middle_utf8 s n = Some (take i s @ TRIM_MARKER @ drop (boundary_up s e) s)"
    using False assms e up(1)
    unfolding trim_middle_utf8_def Let_def TRIM_MARKER_length i_def [symmetric] e_def [symmetric]
    by (simp add: slice_to_def slice_from_def i(2))
  moreover have "i + (length s - boundary_up s e) + 3 \<le> n"
  proof -
    have "length s - e = n - 3 - i" using assms by (simp add: e_def)
    then show ?thesis using up(2) i(1) False by simp
  qed
  moreover have "i \<le> boundary_up s e" "3 < n" using e(2) up(2) False by simp_all
  moreover have "boundary_up s e = boundary_up s (length s - (n - 3 - i))" by (simp only: e_def)
  ultimately show ?thesis using that(2) [OF _ i(2) up(1) _ i_def] by blast
qed

text \<open>
  (C26) Cutting the middle out of a message never panics, keeps a beginning and an end of it, and gives
  at most the bytes asked for; in valid UTF-8 it gives at most three fewer.
\<close>

theorem trim_middle_exact:
  assumes "valid_utf8 s" "n < length s"
  shows "\<exists>t. trim_middle_utf8 s n = Some t \<and> length t \<le> n \<and> n \<le> length t + 3 \<and>
    (\<exists>a b c. s = a @ b @ c \<and> (t = a \<and> c = [] \<or> t = a @ TRIM_MARKER @ c))"
  using assms(2)
proof (cases rule: trim_middle_cases)
  case (1 i)
  have len: "n \<le> i + 3" using boundary_down_near [OF assms(1), of n] assms(2) 1(5) by simp
  have "length (take i s) = i" using 1(1) assms(2) by simp
  then have "length (take i s) \<le> n \<and> n \<le> length (take i s) + 3" using 1(1) len by simp
  moreover have "s = take i s @ drop i s @ []" by simp
  ultimately show ?thesis using 1(3) by blast
next
  case (2 i j)
  have j: "j \<le> length s" using is_char_boundary_le [OF 2(3)] .
  have "j \<le> length s - (n - 3 - i) + 3"
    using boundary_up_near [OF assms(1), of "length s - (n - 3 - i)"] 2(6) by simp
  then have low: "n \<le> i + (length s - j) + 3 + 3" using 2(1,4,8) j assms(2) by linarith
  have "drop i s = take (j - i) (drop i s) @ drop j s"
    using 2(1) append_take_drop_id [of "j - i" "drop i s"] by simp
  then have split: "s = take i s @ take (j - i) (drop i s) @ drop j s" by (metis append_take_drop_id)
  have "length (take i s @ TRIM_MARKER @ drop j s) = i + 3 + (length s - j)"
    using 2(1) j by simp
  then have "length (take i s @ TRIM_MARKER @ drop j s) \<le> n"
    "n \<le> length (take i s @ TRIM_MARKER @ drop j s) + 3" using low 2(8) by linarith+
  then show ?thesis using 2(7) split by blast
qed

lemma trim_middle_within: "\<exists>t. trim_middle_utf8 s n = Some t \<and> length t \<le> n"
proof (cases "n < length s")
  case True
  then show ?thesis
  proof (cases rule: trim_middle_cases)
    case (1 i)
    then show ?thesis using True by auto
  next
    case (2 i j)
    have "length (take i s @ TRIM_MARKER @ drop j s) \<le> i + 3 + (length s - j)" by simp
    then have "length (take i s @ TRIM_MARKER @ drop j s) \<le> n" using 2(8) by linarith
    then show ?thesis using 2(7) by blast
  qed
qed (simp add: trim_middle_utf8_def)


subsection \<open>The budget of the prompt\<close>

definition text_tokens :: "message list \<Rightarrow> nat" where
  "text_tokens ms = sum_list (map (\<lambda>m. length (extract_text (m_content m)) div TOKEN_LENGTH_DIVISOR) ms)"

definition plain_text_message :: "message \<Rightarrow> message" where
  "plain_text_message m = text_message (m_role m) (extract_text (m_content m))"

definition prompt_tokens_used :: nat where
  "prompt_tokens_used = length ORCHESTRATOR_SYSTEM_PROMPT div TOKEN_LENGTH_DIVISOR"

lemma text_of_text_message [simp]: "extract_text (Some (MC_Text t)) = t"
  by (simp add: extract_text_def)

lemma text_tokens_simps [simp]:
  "text_tokens [] = 0"
  "text_tokens (m # ms) = length (extract_text (m_content m)) div TOKEN_LENGTH_DIVISOR + text_tokens ms"
  by (simp_all add: text_tokens_def)

lemma text_tokens_rev [simp]: "text_tokens (rev ms) = text_tokens ms"
  by (simp add: text_tokens_def rev_map [symmetric])

lemma plain_sel [simp]: "m_role (plain_text_message m) = m_role m" "extract_text (m_content (plain_text_message m)) = extract_text (m_content m)"
  by (simp_all add: plain_text_message_def)

text \<open>\<open>cut_user m m'\<close>: a user message with its middle cut out.\<close>

definition cut_user :: "message \<Rightarrow> message \<Rightarrow> bool" where
  "cut_user m m' \<longleftrightarrow> m_role m = R_User \<and>
     (\<exists>t n. trim_middle_utf8 (extract_text (m_content m)) n = Some t \<and> m' = text_message R_User t)"

lemma select_messages_spec:
  assumes "token_count \<le> max_tokens"
  shows "\<exists>sel k. select_messages max_tokens token_count ms = Some sel \<and>
    token_count + text_tokens sel \<le> max_tokens \<and>
    (sel = map plain_text_message (take k ms) \<or>
     (\<exists>m'. k < length ms \<and> cut_user (ms ! k) m' \<and> sel = map plain_text_message (take k ms) @ [m']))"
  using assms
proof (induction ms arbitrary: token_count)
  case (Cons m ms)
  let ?text = "extract_text (m_content m)"
  let ?n = "length ?text div TOKEN_LENGTH_DIVISOR" and ?rest = "max_tokens - token_count"
  show ?case
  proof (cases "max_tokens < token_count + ?n")
    case over: True
    show ?thesis
    proof (cases "m_role m = R_User \<and> 0 < ?rest")
      case True
      obtain t where t: "trim_middle_utf8 ?text (?rest * TOKEN_LENGTH_DIVISOR) = Some t"
        "length t \<le> ?rest * TOKEN_LENGTH_DIVISOR"
        using trim_middle_within by blast
      have "length t div TOKEN_LENGTH_DIVISOR \<le> ?rest"
        using t(2) div_le_mono [OF t(2), of TOKEN_LENGTH_DIVISOR] by (simp add: TOKEN_LENGTH_DIVISOR_def)
      then have "token_count + text_tokens [text_message R_User t] \<le> max_tokens"
        using Cons.prems by simp
      moreover have "select_messages max_tokens token_count (m # ms) = Some [text_message R_User t]"
        using over True t(1) by simp
      moreover have "cut_user m (text_message R_User t)" using True t(1) by (auto simp: cut_user_def)
      ultimately show ?thesis
        by (intro exI [where x = "[text_message R_User t]"] exI [where x = 0]) auto
    next
      case False
      then show ?thesis using over Cons.prems
        by (intro exI [where x = "[]"] exI [where x = 0]) auto
    qed
  next
    case False
    then have "token_count + ?n \<le> max_tokens" by simp
    then obtain sel k where sel: "select_messages max_tokens (token_count + ?n) ms = Some sel"
      "token_count + ?n + text_tokens sel \<le> max_tokens"
      "sel = map plain_text_message (take k ms) \<or>
       (\<exists>m'. k < length ms \<and> cut_user (ms ! k) m' \<and> sel = map plain_text_message (take k ms) @ [m'])"
      using Cons.IH by blast
    have "select_messages max_tokens token_count (m # ms) = Some (plain_text_message m # sel)"
      using False sel(1) by (simp add: plain_text_message_def)
    moreover have "token_count + text_tokens (plain_text_message m # sel) \<le> max_tokens"
      using sel(2) by simp
    ultimately show ?thesis using sel(3)
      by (intro exI [where x = "plain_text_message m # sel"] exI [where x = "Suc k"]) auto
  qed
qed simp

lemma select_messages_first_user:
  assumes "token_count < max_tokens" "m_role m = R_User"
  shows "\<exists>m' sel. select_messages max_tokens token_count (m # ms) = Some (m' # sel) \<and> m_role m' = R_User"
proof (cases "max_tokens < token_count + length (extract_text (m_content m)) div TOKEN_LENGTH_DIVISOR")
  case True
  then show ?thesis using assms
      trim_middle_within [of "extract_text (m_content m)" "(max_tokens - token_count) * TOKEN_LENGTH_DIVISOR"]
    by auto
next
  case False
  then show ?thesis using assms select_messages_spec
      [of "token_count + length (extract_text (m_content m)) div TOKEN_LENGTH_DIVISOR" max_tokens ms]
    by auto
qed

text \<open>
  (C24) If the newest message of the conversation is the user's and the budget is larger than the fixed
  prompt, the routing model gets a conversation that ends with a message of the user and fits the
  budget: the newest messages, at most sixteen, in order, each with its whole text, after at most
  one user message with its middle cut out.
\<close>

theorem routing_prompt_within_budget:
  assumes "prompt_tokens_used < max_tokens" "routing_window messages \<noteq> []"
    and "m_role (last (routing_window messages)) = R_User"
  shows "\<exists>conv k. routed_conversation max_tokens messages = Some conv \<and> conv \<noteq> [] \<and>
    m_role (last conv) = R_User \<and> prompt_tokens_used + text_tokens conv \<le> max_tokens \<and>
    length conv \<le> MAX_ROUTING_TURNS \<and>
    (conv = map plain_text_message (drop k (routing_window messages)) \<or>
     (\<exists>m m'. 0 < k \<and> m = routing_window messages ! (k - 1) \<and> cut_user m m' \<and>
        conv = m' # map plain_text_message (drop k (routing_window messages))))"
proof -
  let ?w = "routing_window messages"
  obtain m ms where rev: "rev ?w = m # ms" using assms(2) by (cases "rev ?w") auto
  then have m: "m_role m = R_User" using assms(3) by (metis hd_rev list.sel(1))
  obtain sel k where sel: "select_messages max_tokens prompt_tokens_used (rev ?w) = Some sel"
    "prompt_tokens_used + text_tokens sel \<le> max_tokens"
    "sel = map plain_text_message (take k (rev ?w)) \<or>
     (\<exists>m'. k < length (rev ?w) \<and> cut_user (rev ?w ! k) m' \<and> sel = map plain_text_message (take k (rev ?w)) @ [m'])"
    using select_messages_spec [of prompt_tokens_used max_tokens "rev ?w"] assms(1) by auto
  obtain m' sel' where ne: "sel = m' # sel'" "m_role m' = R_User"
    using select_messages_first_user [OF assms(1) m, of ms] sel(1) rev by auto
  have conv: "routed_conversation max_tokens messages = Some (rev sel)"
    using sel(1) ne(1) by (simp add: routed_conversation_def Let_def prompt_tokens_used_def)
  have drop: "rev (map plain_text_message (take k (rev ?w))) = map plain_text_message (drop (length ?w - k) ?w)" for k
    by (simp add: rev_map take_rev)
  have "length ?w \<le> MAX_ROUTING_TURNS" by (simp add: routing_window_def Let_def)
  then have len: "length (rev sel) \<le> MAX_ROUTING_TURNS" using sel(3) by auto
  have "rev sel = map plain_text_message (drop (length ?w - k) ?w) \<or>
     (\<exists>m m'. 0 < length ?w - k \<and> m = ?w ! (length ?w - k - 1) \<and> cut_user m m' \<and>
        rev sel = m' # map plain_text_message (drop (length ?w - k) ?w))"
    using sel(3)
  proof (elim disjE exE conjE)
    fix m'
    assume "k < length (rev ?w)" "cut_user (rev ?w ! k) m'" "sel = map plain_text_message (take k (rev ?w)) @ [m']"
    moreover from this have "rev sel = m' # map plain_text_message (drop (length ?w - k) ?w)"
      by (simp only: rev_append drop [of k]) simp
    ultimately show ?thesis by (intro disjI2) (auto simp: rev_nth)
  qed (simp add: drop [of k])
  moreover have "rev sel \<noteq> []" "m_role (last (rev sel)) = R_User"
    "prompt_tokens_used + text_tokens (rev sel) \<le> max_tokens"
    using ne sel(2) by (simp_all only: text_tokens_rev) simp_all
  ultimately show ?thesis using conv len by blast
qed

text \<open>
  The fallback has no budget: a conversation that ends with a long message of the assistant is sent
  with the whole of it.
\<close>

theorem assistant_tail_unbounded:
  assumes "routing_window messages \<noteq> []" "m_role (last (routing_window messages)) \<noteq> R_User"
    and "max_tokens < length (extract_text (m_content (last (routing_window messages)))) div TOKEN_LENGTH_DIVISOR"
  shows "routed_conversation max_tokens messages = Some [plain_text_message (last (routing_window messages))]"
proof -
  let ?w = "routing_window messages"
  obtain m ms where rev: "rev ?w = m # ms" using assms(1) by (cases "rev ?w") auto
  then have m: "m = last ?w" by (metis hd_rev list.sel(1))
  then have "select_messages max_tokens tc (rev ?w) = Some []" for tc
    unfolding rev using assms(2, 3) m by (simp add: Let_def)
  then show ?thesis using assms(1)
    by (simp add: routed_conversation_def last_message_fallback_def plain_text_message_def Let_def)
qed


subsection \<open>The routes of an answer\<close>

lemma model_of_route_Some:
  "model_of_route prefs r = Some m \<Longrightarrow>
   \<exists>u \<in> set prefs. aup_model u = m \<and> (\<exists>p \<in> set (aup_preferences u). op_name p = r)"
  by (induction prefs) (auto simp: model_of_route_def list_ex_iff split: if_splits)

lemma parsed_routes_known:
  assumes "parse_response c om content (Some prefs) = Inr (Some rs)"
  shows "rs \<noteq> []" "(r, m) \<in> set rs \<Longrightarrow> r \<noteq> [] \<and> model_of_route prefs r = Some m"
  using assms
  by (auto simp: parse_response_def Let_def set_map_filter split: if_splits sum.splits)

text \<open>
  Whatever the routing model answers, a route that is used is one of the offered preferences, with
  the model of the first preference that has the name.
\<close>

theorem parsed_routes_configured:
  assumes "parse_response c om content (Some prefs) = Inr (Some rs)"
  shows "rs \<noteq> [] \<and> (\<forall>(r, m) \<in> set rs. r \<noteq> [] \<and> model_of_route prefs r = Some m \<and>
    (\<exists>u \<in> set prefs. aup_model u = m \<and> (\<exists>p \<in> set (aup_preferences u). op_name p = r)))"
  using parsed_routes_known [OF assms] model_of_route_Some by fast

subsection \<open>Concrete conversations\<close>

lemma prompt_tokens_used_value: "prompt_tokens_used = 211"
  by (simp add: prompt_tokens_used_def ORCHESTRATOR_SYSTEM_PROMPT_def TOKEN_LENGTH_DIVISOR_def NL_def DQ_def)

definition long_message :: message where
  "long_message = text_message R_User (replicate 9000 CHR ''x'')"

definition sample_chat :: "message list" where
  "sample_chat = [text_message R_System ''Be brief'', text_message R_User ''Hello'', text_message R_Assistant ''Hi'',
     long_message]"

lemma routable_text [simp]:
  "routable (text_message r t) \<longleftrightarrow> r \<noteq> R_System \<and> r \<noteq> R_Developer \<and> r \<noteq> R_Tool \<and> t \<noteq> []"
  by (simp add: routable_def)

lemma sample_window:
  "routing_window sample_chat = [text_message R_User ''Hello'', text_message R_Assistant ''Hi'', long_message]"
  by (simp add: routing_window_def sample_chat_def long_message_def MAX_ROUTING_TURNS_def Let_def)

theorem routing_prompt_within_budget_witness:
  "\<exists>conv. routed_conversation 1211 sample_chat = Some conv \<and> conv \<noteq> [] \<and>
     m_role (last conv) = R_User \<and> text_tokens conv \<le> 1000"
proof -
  have "prompt_tokens_used < 1211" "routing_window sample_chat \<noteq> []"
    "m_role (last (routing_window sample_chat)) = R_User"
    by (simp_all add: prompt_tokens_used_value sample_window long_message_def)
  from routing_prompt_within_budget [OF this] obtain conv where
    "routed_conversation 1211 sample_chat = Some conv" "conv \<noteq> []" "m_role (last conv) = R_User"
    "prompt_tokens_used + text_tokens conv \<le> 1211" by blast
  then show ?thesis by (intro exI [where x = conv]) (simp add: prompt_tokens_used_value)
qed

theorem trim_middle_exact_witness:
  "\<exists>t. trim_middle_utf8 (replicate 9 CHR ''x'' @ [CHR 0xC3, CHR 0xA9]) 8 = Some t \<and> length t \<le> 8 \<and> 5 \<le> length t"
proof -
  have "valid_utf8 (replicate 9 CHR ''x'' @ [CHR 0xC3, CHR 0xA9])" by code_simp
  then obtain t where "trim_middle_utf8 (replicate 9 CHR ''x'' @ [CHR 0xC3, CHR 0xA9]) 8 = Some t"
    "length t \<le> 8" "8 \<le> length t + 3"
    using trim_middle_exact [of "replicate 9 CHR ''x'' @ [CHR 0xC3, CHR 0xA9]" 8] by auto
  then show ?thesis by (intro exI [where x = t]) simp
qed

theorem assistant_tail_unbounded_witness:
  "routed_conversation 1000 [text_message R_User ''Hi'', text_message R_Assistant (replicate 9000 CHR ''x'')] =
     Some [text_message R_Assistant (replicate 9000 CHR ''x'')]"
proof -
  have "routing_window [text_message R_User ''Hi'', text_message R_Assistant (replicate 9000 CHR ''x'')] =
      [text_message R_User ''Hi'', text_message R_Assistant (replicate 9000 CHR ''x'')]"
    by (simp add: routing_window_def MAX_ROUTING_TURNS_def Let_def)
  then show ?thesis
    using assistant_tail_unbounded
      [of "[text_message R_User ''Hi'', text_message R_Assistant (replicate 9000 CHR ''x'')]" 1000]
    by (simp add: TOKEN_LENGTH_DIVISOR_def plain_text_message_def)
qed

definition code_route :: "agent_usage_preference list" where
  "code_route = [\<lparr>aup_model = ''gpt'', aup_preferences = [\<lparr>op_name = ''code'', op_description = ''write code''\<rparr>]\<rparr>]"

text \<open>A JSON library that knows one text, the answer below.\<close>

definition sample_router_codec :: router_codec where
  "sample_router_codec = \<lparr>rcd_json = \<lparr>json_print = (\<lambda>_. []),
     json_parse = (\<lambda>s. if s = ''answer'' then Inr (JObject [(''route'', JArray [JString ''code'', JString ''other''])])
                       else Inl ''EOF'')\<rparr>,
     rcd_pretty = (\<lambda>_. []), rcd_shape_error = (\<lambda>_. [])\<rparr>"

theorem parsed_routes_configured_witness:
  "parse_response sample_router_codec (orchestrator_model_new sample_router_codec [] ''router'' 8192) ''answer''
     (Some code_route) = Inr (Some [(''code'', ''gpt'')]) \<and>
   model_of_route code_route ''code'' = Some ''gpt''"
proof -
  have fixed: "fix_json_response ''answer'' = ''answer''"
    by (simp add: fix_json_response_def replace_char_id replace_str_id)
  have p: "parse_response sample_router_codec (orchestrator_model_new sample_router_codec [] ''router'' 8192) ''answer''
     (Some code_route) = Inr (Some [(''code'', ''gpt'')])"
    by (simp add: parse_response_def fixed orchestrator_response_of_def sample_router_codec_def route_field_def
        model_of_route_def code_route_def map_filter_Cons Let_def)
  show ?thesis using p parsed_routes_configured [OF p] by simp
qed

end
