(* ===== verification/Model_Metrics.thy ===== *)
theory Model_Metrics
  imports Rust_Str "HOL-Library.AList" "HOL-Library.Multiset"
begin

section \<open>Model metrics and the ranking of models\<close>

text \<open>
  \<open>crates/brightstaff/src/router/model_metrics.rs\<close>: prices and latencies of models, fetched from
  outside and refreshed, and the order in which the models of a route are tried; the routing
  preferences of \<open>crates/common/src/configuration.rs\<close> and the start-up checks of
  \<open>crates/brightstaff/src/main.rs\<close> on them. Parameters: the HTTP client with the decoded answers,
  the addition and the parser of \<open>f64\<close>, the iteration order of hash maps.
\<close>

subsection \<open>Floating-point numbers\<close>

text \<open>
  An \<open>f64\<close> is its IEEE 754 bit pattern. Two numbers that are not NaN compare as sign and
  magnitude of their patterns, with one zero.
\<close>

type_synonym f64 = "64 word"

definition f64_magnitude :: "f64 \<Rightarrow> nat" where
  "f64_magnitude x = unat x mod 2 ^ 63"

definition f64_is_nan :: "f64 \<Rightarrow> bool" where
  "f64_is_nan x \<longleftrightarrow> 0x7FF0000000000000 < f64_magnitude x"

definition f64_key :: "f64 \<Rightarrow> int" where
  "f64_key x = (if unat x < 2 ^ 63 then int (f64_magnitude x) else - int (f64_magnitude x))"

datatype ordering = Less | Equal | Greater

definition int_cmp :: "int \<Rightarrow> int \<Rightarrow> ordering" where
  "int_cmp a b = (if a < b then Less else if a = b then Equal else Greater)"

definition f64_partial_cmp :: "f64 \<Rightarrow> f64 \<Rightarrow> ordering option" where
  "f64_partial_cmp a b =
     (if f64_is_nan a \<or> f64_is_nan b then None else Some (int_cmp (f64_key a) (f64_key b)))"

text \<open>\<open>slice::sort_by\<close>, a stable sort, as insertion sort.\<close>

fun insert_by :: "('a \<Rightarrow> 'a \<Rightarrow> ordering) \<Rightarrow> 'a \<Rightarrow> 'a list \<Rightarrow> 'a list" where
  "insert_by cmp x [] = [x]"
| "insert_by cmp x (y # ys) = (if cmp x y = Greater then y # insert_by cmp x ys else x # y # ys)"

definition sort_by :: "('a \<Rightarrow> 'a \<Rightarrow> ordering) \<Rightarrow> 'a list \<Rightarrow> 'a list" where
  "sort_by cmp xs = foldr (insert_by cmp) xs []"

subsection \<open>Routing preferences\<close>

datatype selection_preference = SP_Cheapest | SP_Fastest | SP_None

record routing_preference =
  rp_name :: string
  rp_description :: string
  rp_models :: "string list"
  rp_selection_policy :: selection_preference

datatype cost_provider = Digitalocean | ModelsDev

record cost_metrics_config =
  cmc_provider :: cost_provider
  cmc_url :: "string option"
  cmc_refresh_interval :: "nat option"
  cmc_model_aliases :: "(string \<times> string) list option"

text \<open>The only latency provider is Prometheus.\<close>

record latency_metrics_config =
  lmc_url :: string
  lmc_query :: string
  lmc_refresh_interval :: "nat option"

datatype metrics_source = MS_Cost cost_metrics_config | MS_Latency latency_metrics_config

subsection \<open>Fetching metrics\<close>

definition DO_PRICING_URL :: string where
  "DO_PRICING_URL = ''https://api.digitalocean.com/v2/gen-ai/models/catalog''"

definition MODELS_DEV_URL :: string where
  "MODELS_DEV_URL = ''https://models.dev/api.json''"

definition default_cost_url :: "cost_provider \<Rightarrow> string" where
  "default_cost_url p = (case p of Digitalocean \<Rightarrow> DO_PRICING_URL | ModelsDev \<Rightarrow> MODELS_DEV_URL)"

text \<open>
  The decoded answers: DigitalOcean gives models with optional input and output prices,
  models.dev providers with their models and optional prices, Prometheus labels and a value.
  The lists of models.dev are in the order in which the hash maps are walked. The client is asked
  for a URL (Prometheus also with a query); every failure is \<open>None\<close>.
\<close>

type_synonym do_list = "(string \<times> (f64 option \<times> f64 option) option) list"
type_synonym models_dev_list = "(string \<times> (string \<times> (f64 option \<times> f64 option) option) list) list"
type_synonym prometheus_list = "((string \<times> string) list \<times> string) list"

record metrics_client =
  mc_do :: "string \<Rightarrow> do_list option"
  mc_models_dev :: "string \<Rightarrow> models_dev_list option"
  mc_prometheus :: "string \<Rightarrow> string \<Rightarrow> prometheus_list option"
  mc_add :: "f64 \<Rightarrow> f64 \<Rightarrow> f64"
  mc_parse :: "string \<Rightarrow> f64 option"

type_synonym metric_table = "(string \<times> f64) list"

definition alias_of :: "(string \<times> string) list \<Rightarrow> string \<Rightarrow> string" where
  "alias_of aliases raw = (case map_of aliases raw of None \<Rightarrow> raw | Some a \<Rightarrow> a)"

definition table_of :: "(string \<times> f64) list \<Rightarrow> metric_table" where
  "table_of kvs = foldl (\<lambda>t (k, v). AList.update k v t) [] kvs"

definition price_or_zero :: "f64 option \<Rightarrow> f64" where
  "price_or_zero p = (case p of None \<Rightarrow> 0 | Some v \<Rightarrow> v)"

definition do_entry ::
    "metrics_client \<Rightarrow> (string \<times> string) list \<Rightarrow>
     string \<times> (f64 option \<times> f64 option) option \<Rightarrow> (string \<times> f64) option" where
  "do_entry C aliases m =
     (case m of
        (_, None) \<Rightarrow> None
      | (model_id, Some (input, output)) \<Rightarrow>
          Some (alias_of aliases model_id, mc_add C (price_or_zero input) (price_or_zero output)))"

definition fetch_do_pricing ::
    "metrics_client \<Rightarrow> string \<Rightarrow> (string \<times> string) list \<Rightarrow> metric_table" where
  "fetch_do_pricing C url aliases =
     (case mc_do C url of
        None \<Rightarrow> []
      | Some ms \<Rightarrow> table_of (List.map_filter (do_entry C aliases) ms))"

definition models_dev_model ::
    "metrics_client \<Rightarrow> (string \<times> string) list \<Rightarrow> string \<Rightarrow> metric_table \<Rightarrow>
     string \<times> (f64 option \<times> f64 option) option \<Rightarrow> metric_table" where
  "models_dev_model C aliases provider_id out m =
     (case m of
        (model_key, Some (Some input, Some output)) \<Rightarrow>
          (let raw_key = provider_id @ ''/'' @ model_key;
               total = mc_add C input output;
               out = AList.update (alias_of aliases raw_key) total out
           in if map_of out model_key = None then AList.update model_key total out else out)
      | _ \<Rightarrow> out)"

definition parse_models_dev_pricing ::
    "metrics_client \<Rightarrow> models_dev_list \<Rightarrow> (string \<times> string) list \<Rightarrow> metric_table" where
  "parse_models_dev_pricing C providers aliases =
     foldl (\<lambda>out (provider_id, models). foldl (models_dev_model C aliases provider_id) out models)
       [] providers"

definition fetch_models_dev_pricing ::
    "metrics_client \<Rightarrow> string \<Rightarrow> (string \<times> string) list \<Rightarrow> metric_table" where
  "fetch_models_dev_pricing C url aliases =
     (case mc_models_dev C url of
        None \<Rightarrow> []
      | Some providers \<Rightarrow> parse_models_dev_pricing C providers aliases)"

definition fetch_cost_pricing ::
    "metrics_client \<Rightarrow> cost_provider \<Rightarrow> string \<Rightarrow> (string \<times> string) list \<Rightarrow> metric_table" where
  "fetch_cost_pricing C p url aliases =
     (case p of
        Digitalocean \<Rightarrow> fetch_do_pricing C url aliases
      | ModelsDev \<Rightarrow> fetch_models_dev_pricing C url aliases)"

definition prometheus_entry ::
    "metrics_client \<Rightarrow> (string \<times> string) list \<times> string \<Rightarrow> (string \<times> f64) option" where
  "prometheus_entry C r =
     (case map_of (fst r) ''model_name'' of
        None \<Rightarrow> None
      | Some model_name \<Rightarrow> map_option (\<lambda>v. (model_name, v)) (mc_parse C (snd r)))"

definition fetch_prometheus_metrics ::
    "metrics_client \<Rightarrow> string \<Rightarrow> string \<Rightarrow> metric_table" where
  "fetch_prometheus_metrics C url query =
     (case mc_prometheus C (trim_end_matches (CHR ''/'') url @ ''/api/v1/query'') query of
        None \<Rightarrow> []
      | Some rs \<Rightarrow> table_of (List.map_filter (prometheus_entry C) rs))"

subsection \<open>The service\<close>

record model_metrics =
  mm_cost :: metric_table
  mm_latency :: metric_table

text \<open>
  What is done for a source at start-up; the refresh task of a source with an interval repeats it
  with what the client answers then.
\<close>

definition fetch_source :: "metrics_client \<Rightarrow> metrics_source \<Rightarrow> model_metrics \<Rightarrow> model_metrics" where
  "fetch_source C src s =
     (case src of
        MS_Cost cfg \<Rightarrow>
          s\<lparr>mm_cost := fetch_cost_pricing C (cmc_provider cfg)
               (case cmc_url cfg of None \<Rightarrow> default_cost_url (cmc_provider cfg) | Some u \<Rightarrow> u)
               (case cmc_model_aliases cfg of None \<Rightarrow> [] | Some a \<Rightarrow> a)\<rparr>
      | MS_Latency cfg \<Rightarrow> s\<lparr>mm_latency := fetch_prometheus_metrics C (lmc_url cfg) (lmc_query cfg)\<rparr>)"

definition metrics_new :: "metrics_client \<Rightarrow> metrics_source list \<Rightarrow> model_metrics" where
  "metrics_new C sources =
     foldl (\<lambda>s src. fetch_source C src s) \<lparr>mm_cost = [], mm_latency = []\<rparr> sources"

definition refreshed :: "metrics_source \<Rightarrow> bool" where
  "refreshed src = (case src of
     MS_Cost cfg \<Rightarrow> cmc_refresh_interval cfg \<noteq> None
   | MS_Latency cfg \<Rightarrow> lmc_refresh_interval cfg \<noteq> None)"

text \<open>One round of the refresh task of a source; without an interval there is no task.\<close>

definition refresh_source :: "metrics_client \<Rightarrow> metrics_source \<Rightarrow> model_metrics \<Rightarrow> model_metrics" where
  "refresh_source C src s = (if refreshed src then fetch_source C src s else s)"

subsection \<open>The ranking\<close>

definition rank_by_ascending_metric :: "string list \<Rightarrow> metric_table \<Rightarrow> string list" where
  "rank_by_ascending_metric models data =
     (let with_data = List.map_filter
            (\<lambda>m. case map_of data m of
                   None \<Rightarrow> None
                 | Some v \<Rightarrow> if f64_is_nan v then None else Some (m, v)) models;
          with_data = sort_by (\<lambda>a b. case f64_partial_cmp (snd a) (snd b) of
                                       None \<Rightarrow> Equal | Some ord \<Rightarrow> ord) with_data;
          without_data = filter (\<lambda>m. case map_of data m of None \<Rightarrow> True | Some v \<Rightarrow> f64_is_nan v) models
      in map fst with_data @ without_data)"

definition rank_models :: "model_metrics \<Rightarrow> string list \<Rightarrow> selection_preference \<Rightarrow> string list" where
  "rank_models s models policy =
     (case policy of
        SP_Cheapest \<Rightarrow> rank_by_ascending_metric models (mm_cost s)
      | SP_Fastest \<Rightarrow> rank_by_ascending_metric models (mm_latency s)
      | SP_None \<Rightarrow> models)"

subsection \<open>Start-up checks\<close>

definition is_cost :: "metrics_source \<Rightarrow> bool" where
  "is_cost s = (case s of MS_Cost _ \<Rightarrow> True | MS_Latency _ \<Rightarrow> False)"

text \<open>The metrics service, or why the server does not start.\<close>

definition init_metrics ::
    "metrics_client \<Rightarrow> metrics_source list option \<Rightarrow> string + model_metrics option" where
  "init_metrics C cfg =
     (case cfg of
        None \<Rightarrow> Inr None
      | Some sources \<Rightarrow>
          (if 1 < length (filter is_cost sources) then
             Inl ''model_metrics_sources: only one cost metrics source is allowed''
           else if 1 < length (filter (\<lambda>s. \<not> is_cost s) sources) then
             Inl ''model_metrics_sources: only one latency metrics source is allowed''
           else Inr (Some (metrics_new C sources))))"

definition preference_error :: "string \<Rightarrow> string \<Rightarrow> string \<Rightarrow> string" where
  "preference_error name prefer kind =
     ''routing_preferences route '' @ [CHR 0x27] @ name @ [CHR 0x27] @ '' uses prefer: '' @ prefer
       @ '' but no '' @ kind @ '' metrics source is configured '' @ [CHR 0xE2, CHR 0x80, CHR 0x94]
       @ '' add a '' @ kind @ '' metrics source to model_metrics_sources''"

definition check_preference :: "metrics_source list \<Rightarrow> routing_preference \<Rightarrow> string option" where
  "check_preference sources p =
     (if rp_selection_policy p = SP_Cheapest \<and> \<not> list_ex is_cost sources then
        Some (preference_error (rp_name p) ''cheapest'' ''cost'')
      else if rp_selection_policy p = SP_Fastest \<and> \<not> list_ex (\<lambda>s. \<not> is_cost s) sources then
        Some (preference_error (rp_name p) ''fastest'' ''latency'')
      else None)"

fun check_preferences :: "metrics_source list \<Rightarrow> routing_preference list \<Rightarrow> string + unit" where
  "check_preferences sources [] = Inr ()"
| "check_preferences sources (p # ps) =
     (case check_preference sources p of Some e \<Rightarrow> Inl e | None \<Rightarrow> check_preferences sources ps)"

subsection \<open>Sorting\<close>

lemma insert_by_key:
  "(\<And>y. y \<in> set ys \<Longrightarrow> cmp x y = int_cmp (k x) (k y)) \<Longrightarrow> insert_by cmp x ys = insort_key k x ys"
  by (induction ys) (auto simp: int_cmp_def)

lemma sort_by_key:
  "(\<And>x y. x \<in> set xs \<Longrightarrow> y \<in> set xs \<Longrightarrow> cmp x y = int_cmp (k x) (k y)) \<Longrightarrow>
   sort_by cmp xs = sort_key k xs"
proof (induction xs)
  case (Cons a xs)
  then have "insert_by cmp a (sort_key k xs) = insort_key k a (sort_key k xs)"
    by (intro insert_by_key) simp
  then show ?case using Cons by (simp add: sort_by_def)
qed (simp add: sort_by_def)

lemma insort_key_map: "map h (insort_key (\<lambda>a. g (h a)) x xs) = insort_key g (h x) (map h xs)"
  by (induction xs) auto

lemma sort_key_map: "map h (sort_key (\<lambda>a. g (h a)) xs) = sort_key g (map h xs)"
  by (induction xs) (simp_all add: insort_key_map)

lemma sort_key_known_first:
  fixes g :: "'a \<Rightarrow> int"
  assumes "\<And>x. x \<in> set xs \<Longrightarrow> P x \<Longrightarrow> g x < b" "\<And>x. x \<in> set xs \<Longrightarrow> \<not> P x \<Longrightarrow> g x = b"
  shows "sort_key g xs = sort_key g (filter P xs) @ filter (\<lambda>x. \<not> P x) xs"
proof (rule properties_for_sort_key)
  show "mset (sort_key g (filter P xs) @ filter (\<lambda>x. \<not> P x) xs) = mset xs"
    by (simp add: multiset_partition [of "mset xs" P, symmetric])
  have "sorted (map g (filter (\<lambda>x. \<not> P x) xs))"
    using assms(2) by (induction xs) auto
  then show "sorted (map g (sort_key g (filter P xs) @ filter (\<lambda>x. \<not> P x) xs))"
    using assms by (force simp: sorted_append)
  fix k
  assume "k \<in> set (sort_key g (filter P xs) @ filter (\<lambda>x. \<not> P x) xs)"
  then have k: "k \<in> set xs" by auto
  have "filter (\<lambda>x. g k = g x) (sort_key g (filter P xs)) = filter (\<lambda>x. g k = g x) (filter P xs)"
    by (simp add: eq_commute [of "g k"] sort_key_stable)
  moreover have "filter (\<lambda>x. g k = g x) (filter P xs) @ filter (\<lambda>x. g k = g x) (filter (\<lambda>x. \<not> P x) xs) =
      filter (\<lambda>x. g k = g x) xs"
  proof -
    have same: "P x = P k" if "x \<in> set xs" "g k = g x" for x
      using assms(1, 2) [of x] assms(1, 2) [of k] k that by (cases "P x"; cases "P k") auto
    have "filter (\<lambda>x. P x \<and> g k = g x) xs = (if P k then filter (\<lambda>x. g k = g x) xs else [])"
      "filter (\<lambda>x. \<not> P x \<and> g k = g x) xs = (if P k then [] else filter (\<lambda>x. g k = g x) xs)"
      using same by (auto simp: filter_empty_conv intro!: filter_cong)
    then show ?thesis by (simp only: filter_filter conj_commute) simp
  qed
  ultimately show "filter (\<lambda>x. g k = g x) (sort_key g (filter P xs) @ filter (\<lambda>x. \<not> P x) xs) =
      filter (\<lambda>x. g k = g x) xs" by simp
qed

subsection \<open>The ranking as one stable sort\<close>

text \<open>The reference: models with a metric by its value, all others after them.\<close>

definition rank_key :: "metric_table \<Rightarrow> string \<Rightarrow> int" where
  "rank_key data m =
     (case map_of data m of
        None \<Rightarrow> 2 ^ 64
      | Some v \<Rightarrow> if f64_is_nan v then 2 ^ 64 else f64_key v)"

definition has_metric :: "metric_table \<Rightarrow> string \<Rightarrow> bool" where
  "has_metric data m \<longleftrightarrow> (case map_of data m of None \<Rightarrow> False | Some v \<Rightarrow> \<not> f64_is_nan v)"

lemma f64_key_less: "f64_key v < 2 ^ 64"
proof -
  have "f64_magnitude v < 2 ^ 63" by (simp add: f64_magnitude_def)
  then show ?thesis by (simp add: f64_key_def)
qed

lemma rank_key_has: "has_metric data m \<Longrightarrow> rank_key data m = f64_key (the (map_of data m))"
  "has_metric data m \<Longrightarrow> rank_key data m < 2 ^ 64" "\<not> has_metric data m \<Longrightarrow> rank_key data m = 2 ^ 64"
  using f64_key_less [of "the (map_of data m)"]
  by (auto simp: has_metric_def rank_key_def split: option.splits if_splits)

lemma rank_is_sort: "rank_by_ascending_metric models data = sort_key (rank_key data) models"
proof -
  let ?has = "has_metric data" and ?pair = "\<lambda>m. (m, the (map_of data m))"
  have wd: "List.map_filter (\<lambda>m. case map_of data m of None \<Rightarrow> None
        | Some v \<Rightarrow> if f64_is_nan v then None else Some (m, v)) models = map ?pair (filter ?has models)"
    by (induction models) (auto simp: map_filter_Cons has_metric_def List.map_filter_def split: option.splits)
  have wo: "filter (\<lambda>m. case map_of data m of None \<Rightarrow> True | Some v \<Rightarrow> f64_is_nan v) models =
      filter (\<lambda>m. \<not> ?has m) models"
    by (intro filter_cong) (auto simp: has_metric_def split: option.splits)
  have "sort_by (\<lambda>a b. case f64_partial_cmp (snd a) (snd b) of None \<Rightarrow> Equal | Some ord \<Rightarrow> ord)
      (map ?pair (filter ?has models)) = sort_key (\<lambda>p. rank_key data (fst p)) (map ?pair (filter ?has models))"
    by (rule sort_by_key) (auto simp: f64_partial_cmp_def rank_key_has has_metric_def split: option.splits)
  then have "rank_by_ascending_metric models data =
      map fst (sort_key (\<lambda>p. rank_key data (fst p)) (map ?pair (filter ?has models))) @ filter (\<lambda>m. \<not> ?has m) models"
    by (simp add: rank_by_ascending_metric_def wd wo)
  also have "\<dots> = sort_key (rank_key data) (filter ?has models) @ filter (\<lambda>m. \<not> ?has m) models"
    by (simp add: sort_key_map [of fst "rank_key data"] comp_def)
  also have "\<dots> = sort_key (rank_key data) models"
    by (rule sort_key_known_first [symmetric]) (rule rank_key_has, assumption)+
  finally show ?thesis .
qed

subsection \<open>Properties\<close>

definition policy_key :: "model_metrics \<Rightarrow> selection_preference \<Rightarrow> string \<Rightarrow> int" where
  "policy_key s policy m =
     (case policy of
        SP_Cheapest \<Rightarrow> rank_key (mm_cost s) m
      | SP_Fastest \<Rightarrow> rank_key (mm_latency s) m
      | SP_None \<Rightarrow> 0)"

lemma rank_models_mset: "mset (rank_models s models p) = mset models"
  by (cases p) (simp_all add: rank_models_def rank_is_sort)

lemma rank_models_set: "set (rank_models s models p) = set models"
  by (rule mset_eq_setD) (rule rank_models_mset)

text \<open>
  (C25) The ranking is a stable sort of the configured models by their metric, with the models without
  one (or with NaN) at the end: no model is lost or repeated, and models that compare equal keep
  their configured order.
\<close>

theorem ranking_is_stable_sort:
  "rank_models s models policy = sort_key (policy_key s policy) models"
  by (cases policy) (simp_all add: rank_models_def policy_key_def [abs_def] rank_is_sort sort_key_const)

definition client_offline :: "metrics_client \<Rightarrow> bool" where
  "client_offline C \<longleftrightarrow> (\<forall>u. mc_do C u = None) \<and> (\<forall>u. mc_models_dev C u = None) \<and>
     (\<forall>u q. mc_prometheus C u q = None)"

definition source_policy :: "metrics_source \<Rightarrow> selection_preference" where
  "source_policy src = (if is_cost src then SP_Cheapest else SP_Fastest)"

text \<open>
  One failed refresh forgets all metrics of the source: the ranking falls back to the configured
  order, whatever was known before.
\<close>

theorem failed_refresh_forgets:
  assumes "client_offline C" "refreshed src"
  shows "rank_models (refresh_source C src s) models (source_policy src) = models"
proof -
  have const: "rank_by_ascending_metric models [] = models"
    by (simp add: rank_is_sort rank_key_def [abs_def] sort_key_const)
  show ?thesis
  proof (cases src)
    case (MS_Cost cfg)
    then show ?thesis using assms const
      by (cases "cmc_provider cfg")
        (simp_all add: refresh_source_def source_policy_def is_cost_def rank_models_def fetch_source_def
          fetch_cost_pricing_def fetch_do_pricing_def fetch_models_dev_pricing_def client_offline_def)
  next
    case (MS_Latency cfg)
    then show ?thesis using assms const
      by (simp add: refresh_source_def source_policy_def is_cost_def rank_models_def fetch_source_def
          fetch_prometheus_metrics_def client_offline_def)
  qed
qed

text \<open>
  The price of a bare model name that several providers sell is that of the provider the hash map
  happens to give first.
\<close>

theorem bare_price_depends_on_order:
  assumes "p \<noteq> q" "CHR ''/'' \<notin> set m"
  shows "map_of (parse_models_dev_pricing C
      [(p, [(m, Some (Some a, Some b))]), (q, [(m, Some (Some c, Some d))])] []) m = Some (mc_add C a b)"
    and "map_of (parse_models_dev_pricing C
      [(q, [(m, Some (Some c, Some d))]), (p, [(m, Some (Some a, Some b))])] []) m = Some (mc_add C c d)"
proof -
  have "r @ CHR ''/'' # m \<noteq> m" for r using assms(2) by (metis in_set_conv_decomp)
  then show "map_of (parse_models_dev_pricing C
      [(p, [(m, Some (Some a, Some b))]), (q, [(m, Some (Some c, Some d))])] []) m = Some (mc_add C a b)"
    "map_of (parse_models_dev_pricing C
      [(q, [(m, Some (Some c, Some d))]), (p, [(m, Some (Some a, Some b))])] []) m = Some (mc_add C c d)"
    using assms(1)
    by (simp_all add: parse_models_dev_pricing_def models_dev_model_def alias_of_def update_conv' Let_def)
qed

text \<open>A configuration that passes the start-up checks has a source for every policy.\<close>

lemma checked_policy_has_source:
  assumes "check_preferences sources ps = Inr ()" "p \<in> set ps" "rp_selection_policy p \<noteq> SP_None"
  shows "\<exists>src \<in> set sources. source_policy src = rp_selection_policy p"
  using assms
proof (induction ps)
  case (Cons q ps)
  then have q: "check_preference sources q = None" "check_preferences sources ps = Inr ()"
    by (simp_all split: option.splits)
  then show ?case
  proof (cases "p = q")
    case True
    with q(1) Cons.prems(3) show ?thesis
      by (cases "rp_selection_policy q")
        (auto simp: check_preference_def list_ex_iff source_policy_def split: if_splits)
  qed (use Cons q in auto)
qed simp

definition offline_client :: metrics_client where
  "offline_client = \<lparr>mc_do = (\<lambda>_. None), mc_models_dev = (\<lambda>_. None), mc_prometheus = (\<lambda>_ _. None),
     mc_add = (+), mc_parse = (\<lambda>_. None)\<rparr>"

theorem failed_refresh_forgets_witness:
  "rank_models \<lparr>mm_cost = [(''b'', 1), (''a'', 2)], mm_latency = []\<rparr> [''a'', ''b''] SP_Cheapest = [''b'', ''a''] \<and>
   rank_models (refresh_source offline_client
      (MS_Cost \<lparr>cmc_provider = ModelsDev, cmc_url = None, cmc_refresh_interval = Some 60, cmc_model_aliases = None\<rparr>)
      \<lparr>mm_cost = [(''b'', 1), (''a'', 2)], mm_latency = []\<rparr>) [''a'', ''b''] SP_Cheapest = [''a'', ''b'']"
proof
  show "rank_models \<lparr>mm_cost = [(''b'', 1), (''a'', 2)], mm_latency = []\<rparr> [''a'', ''b''] SP_Cheapest = [''b'', ''a'']"
    by (simp add: rank_models_def rank_is_sort rank_key_def f64_is_nan_def f64_key_def f64_magnitude_def)
  show "rank_models (refresh_source offline_client
      (MS_Cost \<lparr>cmc_provider = ModelsDev, cmc_url = None, cmc_refresh_interval = Some 60, cmc_model_aliases = None\<rparr>)
      \<lparr>mm_cost = [(''b'', 1), (''a'', 2)], mm_latency = []\<rparr>) [''a'', ''b''] SP_Cheapest = [''a'', ''b'']"
    using failed_refresh_forgets [of offline_client
      "MS_Cost \<lparr>cmc_provider = ModelsDev, cmc_url = None, cmc_refresh_interval = Some 60, cmc_model_aliases = None\<rparr>"
      "\<lparr>mm_cost = [(''b'', 1), (''a'', 2)], mm_latency = []\<rparr>" "[''a'', ''b'']"]
    by (simp add: client_offline_def offline_client_def refreshed_def source_policy_def is_cost_def)
qed

end
