(* ===== verification/Session_Cache.thy ===== *)
theory Session_Cache
  imports Conversation_Items Model_Failover Json_Instance
begin

section \<open>The session cache\<close>

text \<open>
  \<open>crates/brightstaff/src/session_cache/\<close>: routing decisions pinned to a session, in memory
  (\<open>memory.rs\<close>) or in Redis (\<open>redis.rs\<close>), and the choice of the backend (\<open>mod.rs\<close>). The LRU map of
  the \<open>lru\<close> crate and the Redis server are parameters: a record of operations, with their
  documented laws as a locale. The trait \<open>SessionCache\<close> is the locale \<open>session_cache\<close>. Instants and
  durations are nanoseconds.
\<close>

subsection \<open>Cached routes\<close>

record cached_route =
  crt_model_name :: string
  crt_route_name :: "string option"

type_synonym cache_entry = "cached_route \<times> nat \<times> nat"

definition cached_route_to_json :: "cached_route \<Rightarrow> json" where
  "cached_route_to_json r =
     JObject [(''model_name'', JString (crt_model_name r)),
              (''route_name'', json_of_opt (crt_route_name r))]"

definition cached_route_of_json :: "json \<Rightarrow> cached_route option" where
  "cached_route_of_json j =
     Option.bind (struct_fields [''model_name'', ''route_name''] j)
       (\<lambda>m. Option.bind (field_str m ''model_name'')
          (\<lambda>n. map_option (\<lambda>rn. \<lparr>crt_model_name = n, crt_route_name = rn\<rparr>)
             (field_opt m ''route_name'')))"

lemma cached_route_roundtrip: "cached_route_of_json (cached_route_to_json r) = Some r"
  by (cases "crt_route_name r")
    (simp_all add: cached_route_of_json_def cached_route_to_json_def json_of_opt_def
      field_str_def field_opt_def)

subsection \<open>The memory cache\<close>

text \<open>
  The operations of \<open>LruCache\<close>: a lookup may change the order of the entries, so it returns the
  cache; \<open>lru_iter\<close> lists the entries, the most recently used one first.
\<close>

record ('s, 'v) lru_ops =
  lru_new :: "nat \<Rightarrow> 's"
  lru_get :: "string \<Rightarrow> 's \<Rightarrow> 'v option \<times> 's"
  lru_put :: "string \<Rightarrow> 'v \<Rightarrow> 's \<Rightarrow> 's"
  lru_pop :: "string \<Rightarrow> 's \<Rightarrow> 's"
  lru_iter :: "'s \<Rightarrow> (string \<times> 'v) list"

definition mem_capacity :: "nat \<Rightarrow> nat" where
  "mem_capacity max_entries = (if max_entries = 0 then 10000 else max_entries)"

definition mem_new :: "('s, cache_entry) lru_ops \<Rightarrow> nat \<Rightarrow> 's" where
  "mem_new L max_entries = lru_new L (mem_capacity max_entries)"

definition mem_get ::
    "('s, cache_entry) lru_ops \<Rightarrow> nat \<Rightarrow> string \<Rightarrow> 's \<Rightarrow> cached_route option \<times> 's" where
  "mem_get L now key s =
     (case lru_get L key s of
        (Some (route, inserted_at, ttl), s') \<Rightarrow>
          (if now - inserted_at < ttl then Some route else None, s')
      | (None, s') \<Rightarrow> (None, s'))"

definition mem_put ::
    "('s, cache_entry) lru_ops \<Rightarrow> nat \<Rightarrow> string \<Rightarrow> cached_route \<Rightarrow> nat \<Rightarrow> 's \<Rightarrow> 's" where
  "mem_put L now key route ttl s = lru_put L key (route, now, ttl) s"

definition mem_remove :: "('s, cache_entry) lru_ops \<Rightarrow> string \<Rightarrow> 's \<Rightarrow> 's" where
  "mem_remove L key s = lru_pop L key s"

text \<open>The background task, every five minutes.\<close>

definition evict_expired :: "('s, cache_entry) lru_ops \<Rightarrow> nat \<Rightarrow> 's \<Rightarrow> 's" where
  "evict_expired L now s =
     (let expired = map fst (filter (\<lambda>(_, _, inserted_at, ttl). ttl \<le> now - inserted_at) (lru_iter L s))
      in foldl (\<lambda>s key. lru_pop L key s) s expired)"

subsection \<open>The Redis cache\<close>

text \<open>
  The server: a lookup gives an answer or an error (\<open>None\<close>). What \<open>SETEX\<close> and \<open>DEL\<close> answer is
  ignored by the code, so they are just what they do to the server.
\<close>

record 's redis_ops =
  rd_get :: "nat \<Rightarrow> string \<Rightarrow> 's \<Rightarrow> string option option"
  rd_set_ex :: "nat \<Rightarrow> string \<Rightarrow> string \<Rightarrow> nat \<Rightarrow> 's \<Rightarrow> 's"
  rd_del :: "nat \<Rightarrow> string \<Rightarrow> 's \<Rightarrow> 's"

definition KEY_PREFIX :: string where "KEY_PREFIX = ''plano:affinity:''"

definition make_key :: "string \<Rightarrow> string" where
  "make_key key = KEY_PREFIX @ key"

definition redis_get ::
    "json_codec \<Rightarrow> 's redis_ops \<Rightarrow> nat \<Rightarrow> string \<Rightarrow> 's \<Rightarrow> cached_route option \<times> 's" where
  "redis_get c R now key s =
     (case rd_get R now (make_key key) s of
        None \<Rightarrow> None
      | Some None \<Rightarrow> None
      | Some (Some v) \<Rightarrow>
          (case json_parse c v of Inl _ \<Rightarrow> None | Inr j \<Rightarrow> cached_route_of_json j), s)"

definition ttl_seconds :: "nat \<Rightarrow> nat" where
  "ttl_seconds ttl = max (ttl div 1000000000) 1"

definition redis_put ::
    "json_codec \<Rightarrow> 's redis_ops \<Rightarrow> nat \<Rightarrow> string \<Rightarrow> cached_route \<Rightarrow> nat \<Rightarrow> 's \<Rightarrow> 's" where
  "redis_put c R now key route ttl s =
     rd_set_ex R now (make_key key) (json_print c (cached_route_to_json route)) (ttl_seconds ttl) s"

definition redis_remove :: "'s redis_ops \<Rightarrow> nat \<Rightarrow> string \<Rightarrow> 's \<Rightarrow> 's" where
  "redis_remove R now key s = rd_del R now (make_key key) s"

subsection \<open>The choice of the backend\<close>

datatype session_cache_type = SC_Memory | SC_Redis

record session_cache_config =
  scc_cache_type :: session_cache_type
  scc_url :: "string option"
  scc_tenant_header :: "string option"

record routing =
  rt_session_ttl_seconds :: "nat option"
  rt_session_max_entries :: "nat option"
  rt_session_cache :: "session_cache_config option"

datatype session_backend = MemoryBackend nat | RedisBackend string

definition init_session_cache ::
    "(string \<Rightarrow> string option) \<Rightarrow> routing option \<Rightarrow> string + session_backend" where
  "init_session_cache connect cfg =
     (let max_entries = min (case Option.bind cfg rt_session_max_entries of
                               None \<Rightarrow> 10000 | Some n \<Rightarrow> n) 10000;
          cache_config = Option.bind cfg rt_session_cache
      in case (case cache_config of None \<Rightarrow> SC_Memory | Some c \<Rightarrow> scc_cache_type c) of
           SC_Memory \<Rightarrow> Inr (MemoryBackend max_entries)
         | SC_Redis \<Rightarrow>
             (case Option.bind cache_config scc_url of
                None \<Rightarrow> Inl ''session_cache.url is required when type is redis''
              | Some url \<Rightarrow>
                  (case connect url of
                     Some e \<Rightarrow> Inl (''failed to connect to Redis session cache: '' @ e)
                   | None \<Rightarrow> Inr (RedisBackend url))))"

subsection \<open>The contract of a session cache\<close>

text \<open>
  \<open>holds s k r d\<close>: the cache has the route \<open>r\<close> under the key \<open>k\<close>, to be served before the instant
  \<open>d\<close>. A cache may lose entries at any time; it never makes them up or keeps them longer.
\<close>

datatype cache_op =
    CGet nat string
  | CPut nat string cached_route nat
  | CRemove nat string
  | CTick nat

fun cache_step ::
    "(nat \<Rightarrow> string \<Rightarrow> 's \<Rightarrow> cached_route option \<times> 's) \<Rightarrow>
     (nat \<Rightarrow> string \<Rightarrow> cached_route \<Rightarrow> nat \<Rightarrow> 's \<Rightarrow> 's) \<Rightarrow> (nat \<Rightarrow> string \<Rightarrow> 's \<Rightarrow> 's) \<Rightarrow>
     (nat \<Rightarrow> 's \<Rightarrow> 's) \<Rightarrow> 's \<Rightarrow> cache_op \<Rightarrow> 's" where
  "cache_step get put remove tick s (CGet now k) = snd (get now k s)"
| "cache_step get put remove tick s (CPut now k r ttl) = put now k r ttl s"
| "cache_step get put remove tick s (CRemove now k) = remove now k s"
| "cache_step get put remove tick s (CTick now) = tick now s"

abbreviation mem_step :: "('s, cache_entry) lru_ops \<Rightarrow> 's \<Rightarrow> cache_op \<Rightarrow> 's" where
  "mem_step L \<equiv> cache_step (mem_get L) (mem_put L) (\<lambda>now. mem_remove L) (evict_expired L)"

text \<open>Redis drops expired entries by itself.\<close>

abbreviation redis_step :: "json_codec \<Rightarrow> 's redis_ops \<Rightarrow> 's \<Rightarrow> cache_op \<Rightarrow> 's" where
  "redis_step c R \<equiv> cache_step (redis_get c R) (redis_put c R) (redis_remove R) (\<lambda>now s. s)"

locale session_cache =
  fixes get :: "nat \<Rightarrow> string \<Rightarrow> 's \<Rightarrow> cached_route option \<times> 's"
    and put :: "nat \<Rightarrow> string \<Rightarrow> cached_route \<Rightarrow> nat \<Rightarrow> 's \<Rightarrow> 's"
    and remove :: "nat \<Rightarrow> string \<Rightarrow> 's \<Rightarrow> 's"
    and tick :: "nat \<Rightarrow> 's \<Rightarrow> 's"
    and holds :: "'s \<Rightarrow> string \<Rightarrow> cached_route \<Rightarrow> nat \<Rightarrow> bool"
    and lifetime :: "nat \<Rightarrow> nat"
  assumes get_holds: "fst (get now k s) = Some r \<Longrightarrow> \<exists>d. holds s k r d \<and> now < d"
    and get_keeps: "holds (snd (get now k s)) k' r d \<Longrightarrow> holds s k' r d"
    and put_keeps: "holds (put now k r ttl s) k' r' d \<Longrightarrow>
      k' = k \<and> r' = r \<and> d \<le> now + lifetime ttl \<or> holds s k' r' d"
    and remove_keeps: "holds (remove now k s) k' r d \<Longrightarrow> holds s k' r d"
    and tick_keeps: "holds (tick now s) k r d \<Longrightarrow> holds s k r d"
begin

abbreviation step :: "'s \<Rightarrow> cache_op \<Rightarrow> 's" where
  "step \<equiv> cache_step get put remove tick"

lemma held_was_put:
  assumes "holds (foldl step s ops) k r d" and "\<And>r d. \<not> holds s k r d"
  shows "\<exists>t ttl. CPut t k r ttl \<in> set ops \<and> d \<le> t + lifetime ttl"
  using assms
proof (induction ops rule: rev_induct)
  case (snoc p ops)
  from snoc.prems(1) have p: "holds (step (foldl step s ops) p) k r d" by simp
  have "holds (foldl step s ops) k r d \<or> (\<exists>t ttl. p = CPut t k r ttl \<and> d \<le> t + lifetime ttl)"
  proof (cases p)
    case (CGet now k')
    then show ?thesis using p get_keeps by simp
  next
    case (CPut t k' r' ttl)
    then show ?thesis using p put_keeps [of t k' r' ttl "foldl step s ops" k r d] by auto
  next
    case (CRemove now k')
    then show ?thesis using p remove_keeps by simp
  next
    case (CTick now)
    then show ?thesis using p tick_keeps by simp
  qed
  then show ?case using snoc.IH snoc.prems(2) by auto
qed simp

lemma served_was_put:
  assumes "fst (get now k (foldl step s ops)) = Some r" and "\<And>r d. \<not> holds s k r d"
  shows "\<exists>t ttl. CPut t k r ttl \<in> set ops \<and> now < t + lifetime ttl"
proof -
  from get_holds [OF assms(1)] obtain d where "holds (foldl step s ops) k r d" "now < d" by blast
  with held_was_put [of s ops k r d] assms(2) show ?thesis by force
qed

end

subsection \<open>The memory cache keeps the contract\<close>

text \<open>The laws of \<open>LruCache\<close>, on the list of its entries.\<close>

definition promote :: "string \<Rightarrow> (string \<times> 'v) list \<Rightarrow> (string \<times> 'v) list" where
  "promote k es = (case map_of es k of None \<Rightarrow> es | Some v \<Rightarrow> (k, v) # AList.delete k es)"

lemma map_of_promote [simp]: "map_of (promote k es) = map_of es"
  by (auto simp: promote_def fun_eq_iff delete_conv' split: option.split)

lemma map_of_delete: "map_of (AList.delete k es) k' = (if k' = k then None else map_of es k')"
  by (simp add: delete_conv')

locale lru_cache =
  fixes L :: "('s, 'v) lru_ops" and cap :: "'s \<Rightarrow> nat"
  assumes iter_new: "lru_iter L (lru_new L n) = []"
    and cap_new: "cap (lru_new L n) = n"
    and get_value: "fst (lru_get L k s) = map_of (lru_iter L s) k"
    and iter_get: "lru_iter L (snd (lru_get L k s)) = promote k (lru_iter L s)"
    and cap_get: "cap (snd (lru_get L k s)) = cap s"
    and iter_put: "lru_iter L (lru_put L k v s) = take (cap s) ((k, v) # AList.delete k (lru_iter L s))"
    and cap_put: "cap (lru_put L k v s) = cap s"
    and iter_pop: "lru_iter L (lru_pop L k s) = AList.delete k (lru_iter L s)"
    and cap_pop: "cap (lru_pop L k s) = cap s"

lemma map_of_take: "map_of (take n es) k = Some v \<Longrightarrow> map_of es k = Some v"
proof (induction es arbitrary: n)
  case (Cons e es)
  then show ?case by (cases n) (auto split: if_splits)
qed simp

definition entry_holds :: "(string \<times> cache_entry) list \<Rightarrow> string \<Rightarrow> cached_route \<Rightarrow> nat \<Rightarrow> bool" where
  "entry_holds es k r d \<longleftrightarrow> (\<exists>t ttl. map_of es k = Some (r, t, ttl) \<and> d = t + ttl)"

lemma entry_holds_sub:
  "entry_holds es' k r d \<Longrightarrow> (\<And>v. map_of es' k = Some v \<Longrightarrow> map_of es k = Some v) \<Longrightarrow> entry_holds es k r d"
  by (auto simp: entry_holds_def)

locale memory_session_cache = lru_cache L cap
  for L :: "('s, cache_entry) lru_ops" and cap :: "'s \<Rightarrow> nat"
begin

lemma iter_pops:
  "lru_iter L (foldl (\<lambda>s k. lru_pop L k s) s ks) = foldl (\<lambda>es k. AList.delete k es) (lru_iter L s) ks"
  by (induction ks arbitrary: s) (simp_all add: iter_pop)

lemma map_of_deletes:
  "map_of (foldl (\<lambda>es k. AList.delete k es) es ks) k' = (if k' \<in> set ks then None else map_of es k')"
  by (induction ks arbitrary: es) (auto simp: map_of_delete)

lemma mem_get_value:
  "fst (mem_get L now k s) =
     (case map_of (lru_iter L s) k of
        None \<Rightarrow> None
      | Some (r, t, ttl) \<Rightarrow> if now - t < ttl then Some r else None)"
  using get_value [of k s] by (cases "lru_get L k s") (auto simp: mem_get_def split: option.split)

lemma mem_get_state: "snd (mem_get L now k s) = snd (lru_get L k s)"
  by (cases "lru_get L k s") (auto simp: mem_get_def split: option.split)

end

sublocale memory_session_cache \<subseteq> session_cache "mem_get L" "mem_put L" "\<lambda>now. mem_remove L"
  "evict_expired L" "\<lambda>s. entry_holds (lru_iter L s)" "\<lambda>ttl. ttl"
proof
  fix now ttl :: nat and k k' :: string and s and r r' :: cached_route and d
  show "fst (mem_get L now k s) = Some r \<Longrightarrow> \<exists>d. entry_holds (lru_iter L s) k r d \<and> now < d"
    by (auto simp: mem_get_value entry_holds_def split: option.splits if_splits)
  show "entry_holds (lru_iter L (snd (mem_get L now k s))) k' r d \<Longrightarrow> entry_holds (lru_iter L s) k' r d"
    by (simp add: mem_get_state iter_get entry_holds_def)
  show "entry_holds (lru_iter L (mem_put L now k r ttl s)) k' r' d \<Longrightarrow>
      k' = k \<and> r' = r \<and> d \<le> now + ttl \<or> entry_holds (lru_iter L s) k' r' d"
    by (auto simp: mem_put_def iter_put entry_holds_def delete_conv' dest!: map_of_take split: if_splits)
  show "entry_holds (lru_iter L (mem_remove L k s)) k' r d \<Longrightarrow> entry_holds (lru_iter L s) k' r d"
    by (auto simp: mem_remove_def iter_pop map_of_delete elim!: entry_holds_sub split: if_splits)
  show "entry_holds (lru_iter L (evict_expired L now s)) k r d \<Longrightarrow> entry_holds (lru_iter L s) k r d"
    by (auto simp: evict_expired_def iter_pops map_of_deletes elim!: entry_holds_sub split: if_splits)
qed

text \<open>An LRU map as the list of its entries, with its capacity.\<close>

definition list_lru :: "((string \<times> 'v) list \<times> nat, 'v) lru_ops" where
  "list_lru = \<lparr>lru_new = (\<lambda>n. ([], n)),
     lru_get = (\<lambda>k (es, n). (map_of es k, (promote k es, n))),
     lru_put = (\<lambda>k v (es, n). (take n ((k, v) # AList.delete k es), n)),
     lru_pop = (\<lambda>k (es, n). (AList.delete k es, n)),
     lru_iter = fst\<rparr>"

interpretation list_lru: memory_session_cache list_lru snd
  by unfold_locales (auto simp: list_lru_def split: prod.splits)

subsection \<open>A session keeps its route\<close>

text \<open>
  Only the entries used more recently stand before an entry: as long as fewer than the capacity
  of other keys are used, the entry of a key is not pushed out.
\<close>

definition recent :: "string set \<Rightarrow> string \<Rightarrow> 'v \<Rightarrow> (string \<times> 'v) list \<Rightarrow> bool" where
  "recent K k v es \<longleftrightarrow> distinct (map fst es) \<and>
     (\<exists>pre post. es = pre @ (k, v) # post \<and> fst ` set pre \<subseteq> K)"

lemma recent_mono: "recent K k v es \<Longrightarrow> K \<subseteq> K' \<Longrightarrow> recent K' k v es"
  unfolding recent_def by blast

lemma recent_value: "recent K k v es \<Longrightarrow> map_of es k = Some v"
  by (auto simp: recent_def map_of_eq_None_iff rev_image_eqI map_add_def split: option.split)

lemma delete_append: "AList.delete k (xs @ ys) = AList.delete k xs @ AList.delete k ys"
  by (simp add: AList.delete_eq)

lemma recent_delete: "recent K k v es \<Longrightarrow> k' \<noteq> k \<Longrightarrow> recent K k v (AList.delete k' es)"
  unfolding recent_def
proof (elim conjE exE, intro conjI)
  fix pre post
  assume "distinct (map fst es)"
  then show "distinct (map fst (AList.delete k' es))" by (rule distinct_delete)
  assume "k' \<noteq> k" "es = pre @ (k, v) # post" "fst ` set pre \<subseteq> K"
  then show "\<exists>pre post. AList.delete k' es = pre @ (k, v) # post \<and> fst ` set pre \<subseteq> K"
    by (intro exI [where x = "AList.delete k' pre"] exI [where x = "AList.delete k' post"])
      (auto simp: delete_append AList.delete_eq)
qed

lemma distinct_front: "distinct (map fst es) \<Longrightarrow> distinct (map fst ((k, v) # AList.delete k es))"
  by (auto simp: delete_keys intro: distinct_removeAll)

lemma recent_front: "recent K k v es \<Longrightarrow> k' \<noteq> k \<Longrightarrow> k' \<in> K \<Longrightarrow> recent K k v ((k', w) # AList.delete k' es)"
proof -
  assume a: "recent K k v es" "k' \<noteq> k" "k' \<in> K"
  then obtain pre post where "AList.delete k' es = pre @ (k, v) # post" "fst ` set pre \<subseteq> K"
    using recent_delete [OF a(1, 2)] by (auto simp: recent_def)
  then show ?thesis using a distinct_front [of es k' w] unfolding recent_def
    by (intro conjI exI [where x = "(k', w) # pre"] exI [where x = post]) auto
qed

lemma recent_promote:
  assumes "recent K k v es" "k' \<in> insert k K"
  shows "recent K k v (promote k' es)"
proof (cases "k' = k")
  case True
  have "recent K k v ((k, v) # AList.delete k es)"
    unfolding recent_def using assms(1) distinct_front [of es k v]
    by (intro conjI exI [where x = "[]"] exI [where x = "AList.delete k es"]) (auto simp: recent_def)
  then show ?thesis using True recent_value [OF assms(1)] by (simp add: promote_def)
next
  case False
  then show ?thesis using assms recent_front by (auto simp: promote_def split: option.split)
qed

lemma recent_take:
  assumes "recent K k v es" "finite K" "card K < n"
  shows "recent K k v (take n es)"
proof -
  from assms(1) obtain pre post where es: "es = pre @ (k, v) # post" "fst ` set pre \<subseteq> K"
    and d: "distinct (map fst es)" by (auto simp: recent_def)
  have "length pre = card (fst ` set pre)" using d es(1) distinct_card [of "map fst pre"] by simp
  also have "\<dots> \<le> card K" using es(2) assms(2) by (rule card_mono [rotated])
  finally have "take n es = pre @ (k, v) # take (n - length pre - 1) post"
    using assms(3) es(1) by (simp add: take_Cons')
  moreover have "distinct (map fst (take n es))" using d by (simp add: take_map [symmetric] distinct_take)
  ultimately show ?thesis using es(2) unfolding recent_def by blast
qed

text \<open>What may happen to the cache meanwhile: \<open>K\<close> are the other keys, \<open>d\<close> the end of the entry.\<close>

fun undisturbed :: "string set \<Rightarrow> string \<Rightarrow> nat \<Rightarrow> cache_op \<Rightarrow> bool" where
  "undisturbed K k d (CGet now k') \<longleftrightarrow> k' \<in> insert k K"
| "undisturbed K k d (CPut now k' r ttl) \<longleftrightarrow> k' \<in> K"
| "undisturbed K k d (CRemove now k') \<longleftrightarrow> k' \<noteq> k"
| "undisturbed K k d (CTick now) \<longleftrightarrow> now < d"

context memory_session_cache
begin

lemma cap_pops: "cap (foldl (\<lambda>s k. lru_pop L k s) s ks) = cap s"
  by (induction ks arbitrary: s) (simp_all add: cap_pop)

lemma cap_step: "cap (step s p) = cap s"
  by (cases p) (simp_all add: mem_get_state mem_put_def mem_remove_def evict_expired_def
      cap_get cap_put cap_pop cap_pops)

lemma recent_pops:
  "recent K k v es \<Longrightarrow> k \<notin> set ks \<Longrightarrow> recent K k v (foldl (\<lambda>es k. AList.delete k es) es ks)"
proof (induction ks arbitrary: es)
  case (Cons a ks)
  then have "recent K k v (AList.delete a es)" by (intro recent_delete) auto
  then show ?case using Cons by simp
qed simp

lemma not_expired:
  assumes "recent K k (r, t, ttl) (lru_iter L s)" "now < t + ttl" "0 < ttl"
  shows "k \<notin> set (map fst (filter (\<lambda>(_, _, t, ttl). ttl \<le> now - t) (lru_iter L s)))"
proof
  assume "k \<in> set (map fst (filter (\<lambda>(_, _, t, ttl). ttl \<le> now - t) (lru_iter L s)))"
  then obtain r' t' ttl' where "(k, r', t', ttl') \<in> set (lru_iter L s)" "ttl' \<le> now - t'" by auto
  moreover have "distinct (map fst (lru_iter L s))" using assms(1) by (simp add: recent_def)
  ultimately have "(r', t', ttl') = (r, t, ttl)"
    using recent_value [OF assms(1)] by (metis map_of_is_SomeI option.inject)
  then show False using assms(2, 3) \<open>ttl' \<le> now - t'\<close> by simp
qed

lemma recent_step:
  assumes "recent K k (r, t, ttl) (lru_iter L s)" "k \<notin> K" "finite K" "card K < cap s"
    "undisturbed K k (t + ttl) p" "0 < ttl"
  shows "recent K k (r, t, ttl) (lru_iter L (step s p))"
  using assms
proof (cases p)
  case (CGet now k')
  then show ?thesis using assms by (simp add: mem_get_state iter_get recent_promote)
next
  case (CPut now k' r' ttl')
  then have "recent K k (r, t, ttl) ((k', r', now, ttl') # AList.delete k' (lru_iter L s))"
    using assms by (intro recent_front) auto
  then show ?thesis using assms CPut
    by (simp add: mem_put_def iter_put recent_take del: take_Suc_Cons)
next
  case (CRemove now k')
  then show ?thesis using assms by (simp add: mem_remove_def iter_pop recent_delete)
next
  case (CTick now)
  then show ?thesis using assms not_expired [OF assms(1)]
    by (simp add: evict_expired_def iter_pops recent_pops)
qed

lemma session_stays:
  assumes "recent K k (r, t, ttl) (lru_iter L s)" "k \<notin> K" "finite K" "card K < cap s"
    "\<forall>p \<in> set ops. undisturbed K k (t + ttl) p" "0 < ttl"
  shows "recent K k (r, t, ttl) (lru_iter L (foldl step s ops))"
  using assms
proof (induction ops arbitrary: s)
  case (Cons p ops)
  have "recent K k (r, t, ttl) (lru_iter L (step s p))" using Cons.prems by (intro recent_step) auto
  then show ?case using Cons.IH [of "step s p"] Cons.prems by (simp add: cap_step)
qed simp

lemma recent_put:
  assumes "distinct (map fst (lru_iter L s))" "0 < cap s"
  shows "recent K k (r, t, ttl) (lru_iter L (mem_put L t k r ttl s))"
proof -
  have "recent {} k (r, t, ttl) ((k, r, t, ttl) # AList.delete k (lru_iter L s))"
    using distinct_front [OF assms(1)] unfolding recent_def
    by (intro conjI exI [where x = "[]"] exI [where x = "AList.delete k (lru_iter L s)"]) auto
  then have "recent {} k (r, t, ttl) (lru_iter L (mem_put L t k r ttl s))"
    using assms(2) unfolding mem_put_def iter_put by (intro recent_take) auto
  then show ?thesis by (rule recent_mono) simp
qed

lemma distinct_step: "distinct (map fst (lru_iter L s)) \<Longrightarrow> distinct (map fst (lru_iter L (step s p)))"
proof (cases p)
  case (CPut now k r ttl)
  assume "distinct (map fst (lru_iter L s))"
  then show ?thesis using CPut distinct_front [of "lru_iter L s" k "(r, now, ttl)"]
    by (simp add: mem_put_def iter_put take_map [symmetric] distinct_take del: take_Suc_Cons)
next
  case (CTick now)
  have "distinct (map fst es) \<Longrightarrow> distinct (map fst (foldl (\<lambda>es k. AList.delete k es) es ks))" for ks and es :: "(string \<times> cache_entry) list"
    by (induction ks arbitrary: es) (simp_all add: distinct_delete)
  moreover assume "distinct (map fst (lru_iter L s))"
  ultimately show ?thesis using CTick by (simp add: evict_expired_def iter_pops)
next
  case (CGet now k)
  assume "distinct (map fst (lru_iter L s))"
  then show ?thesis using CGet distinct_front [of "lru_iter L s" k]
    by (auto simp: mem_get_state iter_get promote_def split: option.split)
next
  case (CRemove now k)
  assume "distinct (map fst (lru_iter L s))"
  then show ?thesis using CRemove by (simp add: mem_remove_def iter_pop distinct_delete)
qed

lemma mem_served_was_put:
  assumes "fst (mem_get L now k (foldl step s ops)) = Some r"
    and "\<And>r d. \<not> entry_holds (lru_iter L s) k r d"
  shows "\<exists>t ttl. CPut t k r ttl \<in> set ops \<and> now < t + ttl"
  using served_was_put [OF assms] .

lemma served_after:
  assumes "k \<notin> K" "finite K" "card K < mem_capacity n" "now < t + ttl"
    "\<forall>p \<in> set ops. undisturbed K k (t + ttl) p" "0 < ttl"
  shows "fst (mem_get L now k (foldl step (mem_new L n) (before @ CPut t k r ttl # ops))) = Some r"
proof -
  let ?s = "foldl step (mem_new L n) before"
  have "distinct (map fst (lru_iter L ?s)) \<and> cap ?s = mem_capacity n"
    by (induction before rule: rev_induct)
      (simp_all add: distinct_step cap_step mem_new_def iter_new cap_new)
  then have "recent K k (r, t, ttl) (lru_iter L (mem_put L t k r ttl ?s)) \<and>
      cap (mem_put L t k r ttl ?s) = mem_capacity n"
    using recent_put [of ?s] assms(3) by (simp add: mem_put_def cap_put)
  then have "recent K k (r, t, ttl) (lru_iter L (foldl step (mem_put L t k r ttl ?s) ops))"
    using assms by (intro session_stays) simp_all
  then have "map_of (lru_iter L (foldl step (mem_put L t k r ttl ?s) ops)) k = Some (r, t, ttl)"
    by (rule recent_value)
  moreover have "now - t < ttl" using assms(4, 6) by linarith
  ultimately show ?thesis by (simp add: mem_get_value)
qed

end

subsection \<open>The Redis cache keeps the contract\<close>

locale redis_server =
  fixes R :: "'s redis_ops" and stored :: "'s \<Rightarrow> string \<Rightarrow> string \<Rightarrow> nat \<Rightarrow> bool"
  assumes get_stored: "rd_get R now k s = Some (Some v) \<Longrightarrow> \<exists>d. stored s k v d \<and> now < d"
    and set_stored: "stored (rd_set_ex R now k v secs s) k' v' d \<Longrightarrow>
      k' = k \<and> v' = v \<and> d \<le> now + from_secs secs \<or> stored s k' v' d"
    and del_stored: "stored (rd_del R now k s) k' v d \<Longrightarrow> stored s k' v d"

locale redis_session_cache = redis_server R stored
  for R :: "'s redis_ops" and stored :: "'s \<Rightarrow> string \<Rightarrow> string \<Rightarrow> nat \<Rightarrow> bool" +
  fixes c :: json_codec
  assumes codec: "json_codec_ok c"

definition redis_holds ::
    "json_codec \<Rightarrow> ('s \<Rightarrow> string \<Rightarrow> string \<Rightarrow> nat \<Rightarrow> bool) \<Rightarrow> 's \<Rightarrow> string \<Rightarrow> cached_route \<Rightarrow> nat \<Rightarrow> bool" where
  "redis_holds c stored s k r d \<longleftrightarrow>
     (\<exists>v j. stored s (make_key k) v d \<and> json_parse c v = Inr j \<and> cached_route_of_json j = Some r)"

sublocale redis_session_cache \<subseteq> session_cache "redis_get c R" "redis_put c R" "redis_remove R"
  "\<lambda>now s. s" "redis_holds c stored" "\<lambda>ttl. from_secs (ttl_seconds ttl)"
proof
  fix now ttl :: nat and k k' :: string and s and r r' :: cached_route and d
  show "fst (redis_get c R now k s) = Some r \<Longrightarrow> \<exists>d. redis_holds c stored s k r d \<and> now < d"
    by (auto simp: redis_get_def redis_holds_def dest!: get_stored split: option.splits sum.splits)
  show "redis_holds c stored (redis_put c R now k r ttl s) k' r' d \<Longrightarrow>
      k' = k \<and> r' = r \<and> d \<le> now + from_secs (ttl_seconds ttl) \<or> redis_holds c stored s k' r' d"
    unfolding redis_holds_def redis_put_def
    by (auto dest!: set_stored simp: make_key_def json_codec_okD [OF codec] cached_route_roundtrip)
  show "redis_holds c stored (redis_remove R now k s) k' r d \<Longrightarrow> redis_holds c stored s k' r d"
    by (auto simp: redis_holds_def redis_remove_def dest: del_stored)
qed (simp_all add: redis_get_def)

context redis_session_cache
begin

lemma redis_served_was_put:
  assumes "fst (redis_get c R now k (foldl step s ops)) = Some r"
    and "\<And>r d. \<not> redis_holds c stored s k r d"
  shows "\<exists>t ttl. CPut t k r ttl \<in> set ops \<and> now < t + from_secs (ttl_seconds ttl)"
  using served_was_put [OF assms] .

end

text \<open>A server as an association list of values and the instants where they expire.\<close>

definition list_redis :: "(string \<times> string \<times> nat) list redis_ops" where
  "list_redis = \<lparr>rd_get = (\<lambda>now k s. Some (case map_of s k of
        None \<Rightarrow> None | Some (v, d) \<Rightarrow> if now < d then Some v else None)),
     rd_set_ex = (\<lambda>now k v secs s. AList.update k (v, now + from_secs secs) s),
     rd_del = (\<lambda>now. AList.delete)\<rparr>"

interpretation list_redis: redis_session_cache list_redis "\<lambda>s k v d. map_of s k = Some (v, d)" escaped_json
  by unfold_locales
    (auto simp: list_redis_def update_conv' delete_conv' split: option.splits if_splits)

subsection \<open>Properties\<close>

text \<open>
  A session keeps its route: whatever happened before, and however lookups, stores, removals and
  clean-ups for other keys follow, the stored route is served until its time is over, as long
  as fewer other keys are used than the cache has entries.
\<close>

theorem session_affinity:
  assumes "memory_session_cache L cap"
    and "k \<notin> K" "finite K" "card K < mem_capacity n"
    and "\<forall>p \<in> set ops. undisturbed K k (t + ttl) p"
    and "0 < ttl" "now < t + ttl"
  shows "fst (mem_get L now k (foldl (mem_step L) (mem_new L n) (before @ CPut t k r ttl # ops))) = Some r"
  using memory_session_cache.served_after [OF assms(1)] assms(2-) by blast

text \<open>
  Neither cache makes up a route or serves it past its time: what a lookup gives was stored under
  the same key and its lifetime is not over.
\<close>

theorem served_routes_fresh:
  assumes "memory_session_cache L cap"
    and "fst (mem_get L now k (foldl (mem_step L) (mem_new L n) ops)) = Some r"
  shows "\<exists>t ttl. CPut t k r ttl \<in> set ops \<and> now < t + ttl"
proof -
  have "lru_cache L cap" using assms(1) by (simp add: memory_session_cache_def)
  then have "\<not> entry_holds (lru_iter L (mem_new L n)) k r d" for r d
    by (simp add: entry_holds_def mem_new_def lru_cache.iter_new)
  then show ?thesis by (rule memory_session_cache.mem_served_was_put [OF assms])
qed

text \<open>In Redis a lifetime is counted in whole seconds and is at least one.\<close>

theorem redis_routes_fresh:
  assumes "redis_session_cache R stored c"
    and "fst (redis_get c R now k (foldl (redis_step c R) s ops)) = Some r"
    and "\<And>k v d. \<not> stored s k v d"
  shows "\<exists>t ttl. CPut t k r ttl \<in> set ops \<and> now < t + from_secs (ttl_seconds ttl)"
  by (rule redis_session_cache.redis_served_was_put [OF assms(1, 2)])
    (simp add: redis_holds_def assms(3))

subsection \<open>Concrete caches\<close>

definition route_of :: "string \<Rightarrow> cached_route" where
  "route_of m = \<lparr>crt_model_name = m, crt_route_name = None\<rparr>"

theorem session_affinity_witness:
  "fst (mem_get list_lru 8 ''s1'' (foldl (mem_step list_lru) (mem_new list_lru 2)
     [CPut 0 ''s0'' (route_of ''x'') 9, CPut 1 ''s1'' (route_of ''a'') 9,
      CPut 2 ''s2'' (route_of ''b'') 9, CTick 7, CGet 7 ''s2''])) = Some (route_of ''a'')"
  using session_affinity [OF list_lru.memory_session_cache_axioms, of "''s1''" "{''s2''}" 2
      "[CPut 2 ''s2'' (route_of ''b'') 9, CTick 7, CGet 7 ''s2'']" 1 9 8
      "[CPut 0 ''s0'' (route_of ''x'') 9]" "route_of ''a''"]
  by (simp add: mem_capacity_def)

theorem served_routes_fresh_witness:
  "fst (mem_get list_lru 3 ''s1'' (foldl (mem_step list_lru) (mem_new list_lru 2)
     [CPut 1 ''s1'' (route_of ''a'') 9])) = Some (route_of ''a'') \<and>
   (\<exists>t ttl. CPut t ''s1'' (route_of ''a'') ttl \<in> set [CPut 1 ''s1'' (route_of ''a'') 9] \<and> 3 < t + ttl)"
proof -
  have "fst (mem_get list_lru 3 ''s1'' (foldl (mem_step list_lru) (mem_new list_lru 2)
     [CPut 1 ''s1'' (route_of ''a'') 9])) = Some (route_of ''a'')"
    by (simp add: mem_get_def mem_put_def mem_new_def list_lru_def mem_capacity_def)
  then show ?thesis
    using served_routes_fresh [OF list_lru.memory_session_cache_axioms] by blast
qed

theorem redis_routes_fresh_witness:
  "fst (redis_get escaped_json list_redis 5 ''s1'' (foldl (redis_step escaped_json list_redis) []
     [CPut 1 ''s1'' (route_of ''a'') 0])) = Some (route_of ''a'') \<and>
   (\<exists>t ttl. CPut t ''s1'' (route_of ''a'') ttl \<in> set [CPut 1 ''s1'' (route_of ''a'') 0] \<and>
      5 < t + from_secs (ttl_seconds ttl))"
proof -
  have "fst (redis_get escaped_json list_redis 5 ''s1'' (foldl (redis_step escaped_json list_redis) []
     [CPut 1 ''s1'' (route_of ''a'') 0])) = Some (route_of ''a'')"
    by (simp add: redis_get_def redis_put_def list_redis_def ttl_seconds_def from_secs_def
        json_codec_okD cached_route_roundtrip)
  then show ?thesis
    by (intro conjI redis_routes_fresh [OF list_redis.redis_session_cache_axioms]) auto
qed

end
