(* ===== verification/Orchestrator_Service.thy ===== *)
theory Orchestrator_Service
  imports Orchestrator_Model Model_Metrics Session_Cache Provider_Request Provider_Response
begin

section \<open>The orchestrator service\<close>

text \<open>
  \<open>crates/brightstaff/src/router/http.rs\<close> and \<open>router/orchestrator.rs\<close>: the call of the routing
  model, the choice of a route and its ranked models, and the session cache in front of it; and
  \<open>handlers/llm/model_selection.rs\<close>, which asks for the route of a client request. Parameters: the
  HTTP client (headers and body to a status and a text, or an error), serde, the test whether a
  string is a header value, and the iteration order of hash maps.
\<close>

subsection \<open>Calling the routing model\<close>

definition RAW_BODY_LOG_LIMIT :: nat where "RAW_BODY_LOG_LIMIT = 512"

datatype http_error =
    HE_Request string
  | HE_Json string string
  | HE_Upstream nat string

fun http_error_display :: "http_error \<Rightarrow> string" where
  "http_error_display (HE_Request e) = ''Failed to send request: '' @ e"
| "http_error_display (HE_Json e _) = ''Failed to parse JSON response: '' @ e"
| "http_error_display (HE_Upstream status m) = ''Upstream returned '' @ digits status @ '': '' @ m"

definition truncate_for_log :: "string \<Rightarrow> string option" where
  "truncate_for_log s =
     (if length s \<le> RAW_BODY_LOG_LIMIT then Some s
      else slice_to s (boundary_down s RAW_BODY_LOG_LIMIT))"

text \<open>
  The error envelope: message, type and parameter of the object \<open>error\<close>. As an array the message
  comes first and the others may be missing at the end.
\<close>

definition envelope_fields :: "json \<Rightarrow> (string \<times> json) list option" where
  "envelope_fields j =
     (case j of
        JObject m \<Rightarrow> Some m
      | JArray vs \<Rightarrow>
          (if vs \<noteq> [] \<and> length vs \<le> 3 then Some (zip [''message'', ''type'', ''param''] vs) else None)
      | _ \<Rightarrow> None)"

definition upstream_error_body :: "json \<Rightarrow> (string \<times> string option \<times> string option) option" where
  "upstream_error_body j =
     Option.bind (struct_fields [''error''] j) (\<lambda>m.
     Option.bind (map_of m ''error'') (\<lambda>e.
     Option.bind (envelope_fields e) (\<lambda>b.
     Option.bind (field_str b ''message'') (\<lambda>msg.
     Option.bind (field_opt b ''type'') (\<lambda>t.
     map_option (\<lambda>p. (msg, t, p)) (field_opt b ''param''))))))"

definition extract_upstream_error_message :: "json_codec \<Rightarrow> string \<Rightarrow> string option" where
  "extract_upstream_error_message c body =
     (case (case json_parse c body of Inl _ \<Rightarrow> None | Inr j \<Rightarrow> upstream_error_body j) of
        Some (msg, err_type, param) \<Rightarrow>
          Some (msg @ (case param of None \<Rightarrow> [] | Some p \<Rightarrow> '' (param='' @ p @ '')'')
                    @ (case err_type of None \<Rightarrow> [] | Some t \<Rightarrow> '' [type='' @ t @ '']''))
      | None \<Rightarrow> truncate_for_log body)"

record routing_env =
  re_codec :: router_codec
  re_post :: "headers \<Rightarrow> string \<Rightarrow> string + nat \<times> string"
  re_ser_request :: "chat_request \<Rightarrow> string + string"
  re_parse_completion :: "string \<Rightarrow> string + chat_response"
  re_header_ok :: "string \<Rightarrow> bool"
  re_order :: "(string \<times> routing_preference) list \<Rightarrow> (string \<times> routing_preference) list"

text \<open>
  \<open>OE_Panic\<close> stands for a slice at an index that is no character boundary; it never happens
  (\<open>generate_request_total\<close>, \<open>post_never_panics\<close> below).
\<close>

datatype orchestration_error = OE_Http http_error | OE_Model string | OE_Panic

fun orchestration_error_display :: "orchestration_error \<Rightarrow> string" where
  "orchestration_error_display (OE_Http e) = http_error_display e"
| "orchestration_error_display (OE_Model e) = ''Orchestrator model error: '' @ e"
| "orchestration_error_display OE_Panic = []"

definition is_success :: "nat \<Rightarrow> bool" where
  "is_success status \<longleftrightarrow> 200 \<le> status \<and> status < 300"

definition post_and_extract_content ::
    "routing_env \<Rightarrow> headers \<Rightarrow> string \<Rightarrow> orchestration_error + string option" where
  "post_and_extract_content E hs body =
     (case re_post E hs body of
        Inl e \<Rightarrow> Inl (OE_Http (HE_Request e))
      | Inr (status, text) \<Rightarrow>
          (if \<not> is_success status then
             (case extract_upstream_error_message (rcd_json (re_codec E)) text of
                None \<Rightarrow> Inl OE_Panic
              | Some m \<Rightarrow> Inl (OE_Http (HE_Upstream status m)))
           else
             (case re_parse_completion E text of
                Inl e \<Rightarrow> Inl (OE_Http (HE_Json e (''Failed to parse JSON: '' @ text)))
              | Inr r \<Rightarrow>
                  (case cs_choices r of
                     [] \<Rightarrow> Inr None
                   | ch # _ \<Rightarrow> Inr (rm_content (ch_message ch))))))"

subsection \<open>The service\<close>

record orchestrator_service =
  os_model :: orchestrator_model
  os_provider_name :: string
  os_preferences :: "(string \<times> routing_preference) list"
  os_metrics :: "model_metrics option"
  os_session_ttl :: nat
  os_tenant_header :: "string option"

definition DEFAULT_SESSION_TTL_SECONDS :: nat where "DEFAULT_SESSION_TTL_SECONDS = 600"

definition preference_map :: "routing_preference list \<Rightarrow> (string \<times> routing_preference) list" where
  "preference_map ps = foldl (\<lambda>t p. AList.update (rp_name p) p t) [] ps"

text \<open>\<open>OrchestratorService::new\<close> makes a service without preferences, metrics and cache.\<close>

definition service_new :: "router_codec \<Rightarrow> string \<Rightarrow> string \<Rightarrow> nat \<Rightarrow> orchestrator_service" where
  "service_new c model_name provider_name max_token_length =
     \<lparr>os_model = orchestrator_model_new c [] model_name max_token_length,
      os_provider_name = provider_name, os_preferences = [], os_metrics = None,
      os_session_ttl = from_secs DEFAULT_SESSION_TTL_SECONDS, os_tenant_header = None\<rparr>"

definition service_with_routing ::
    "router_codec \<Rightarrow> string \<Rightarrow> string \<Rightarrow> routing_preference list option \<Rightarrow> model_metrics option \<Rightarrow>
     nat option \<Rightarrow> string option \<Rightarrow> nat \<Rightarrow> orchestrator_service" where
  "service_with_routing c model_name provider_name prefs metrics ttl tenant_header max_token_length =
     \<lparr>os_model = orchestrator_model_new c [] model_name max_token_length,
      os_provider_name = provider_name,
      os_preferences = (case prefs of None \<Rightarrow> [] | Some ps \<Rightarrow> preference_map ps),
      os_metrics = metrics,
      os_session_ttl = from_secs (case ttl of None \<Rightarrow> DEFAULT_SESSION_TTL_SECONDS | Some t \<Rightarrow> t),
      os_tenant_header = tenant_header\<rparr>"

subsection \<open>Sessions\<close>

definition session_key :: "string option \<Rightarrow> string \<Rightarrow> string" where
  "session_key tenant_id session_id =
     (case tenant_id of Some t \<Rightarrow> t @ '':'' @ session_id | None \<Rightarrow> session_id)"

text \<open>The operations of the cache, with the instant of the call.\<close>

record 's cache_ops =
  ca_get :: "nat \<Rightarrow> string \<Rightarrow> 's \<Rightarrow> cached_route option \<times> 's"
  ca_put :: "nat \<Rightarrow> string \<Rightarrow> cached_route \<Rightarrow> nat \<Rightarrow> 's \<Rightarrow> 's"

definition get_cached_route ::
    "'s cache_ops option \<Rightarrow> nat \<Rightarrow> string \<Rightarrow> string option \<Rightarrow> 's \<Rightarrow> cached_route option \<times> 's" where
  "get_cached_route cache now session_id tenant_id s =
     (case cache of
        None \<Rightarrow> (None, s)
      | Some c \<Rightarrow> ca_get c now (session_key tenant_id session_id) s)"

definition cache_route ::
    "'s cache_ops option \<Rightarrow> orchestrator_service \<Rightarrow> nat \<Rightarrow> string \<Rightarrow> string option \<Rightarrow> string \<Rightarrow>
     string option \<Rightarrow> 's \<Rightarrow> 's" where
  "cache_route cache svc now session_id tenant_id model_name route_name s =
     (case cache of
        None \<Rightarrow> s
      | Some c \<Rightarrow> ca_put c now (session_key tenant_id session_id)
                   \<lparr>crt_model_name = model_name, crt_route_name = route_name\<rparr> (os_session_ttl svc) s)"

subsection \<open>Routes\<close>

definition orchestration_headers :: "routing_env \<Rightarrow> orchestrator_service \<Rightarrow> string option \<Rightarrow> headers" where
  "orchestration_headers E svc request_id =
     [(''content-type'', ''application/json''),
      (PROVIDER_HINT, if re_header_ok E (os_provider_name svc) then os_provider_name svc else ''plano-orchestrator'')] @
     (case request_id of Some i \<Rightarrow> (if re_header_ok E i then [(''x-request-id'', i)] else []) | None \<Rightarrow> []) @
     [(''model'', ''plano-orchestrator'')]"

definition determine_orchestration ::
    "routing_env \<Rightarrow> orchestrator_service \<Rightarrow> message list \<Rightarrow> agent_usage_preference list option \<Rightarrow>
     string option \<Rightarrow> orchestration_error + (string \<times> string) list option" where
  "determine_orchestration E svc messages prefs request_id =
     (if messages = [] then Inr None
      else if prefs = None \<or> prefs = Some [] then Inr None
      else case generate_request (re_codec E) (os_model svc) messages prefs of
             None \<Rightarrow> Inl OE_Panic
           | Some r \<Rightarrow>
               (case re_ser_request E r of
                  Inl e \<Rightarrow> Inl (OE_Model (''Failed to parse JSON: '' @ e))
                | Inr body \<Rightarrow>
                    (case post_and_extract_content E (orchestration_headers E svc request_id) body of
                       Inl e \<Rightarrow> Inl e
                     | Inr None \<Rightarrow> Inr None
                     | Inr (Some content) \<Rightarrow>
                         map_sum OE_Model id (parse_response (re_codec E) (os_model svc) content prefs))))"

definition usage_preference :: "routing_preference \<Rightarrow> agent_usage_preference" where
  "usage_preference p =
     \<lparr>aup_model = (case rp_models p of [] \<Rightarrow> [] | m # _ \<Rightarrow> m),
      aup_preferences = [\<lparr>op_name = rp_name p, op_description = rp_description p\<rparr>]\<rparr>"

definition ranked_models :: "orchestrator_service \<Rightarrow> routing_preference \<Rightarrow> string list" where
  "ranked_models svc p =
     (case os_metrics svc of
        Some m \<Rightarrow> rank_models m (rp_models p) (rp_selection_policy p)
      | None \<Rightarrow> rp_models p)"

definition determine_route ::
    "routing_env \<Rightarrow> orchestrator_service \<Rightarrow> message list \<Rightarrow> routing_preference list option \<Rightarrow> string \<Rightarrow>
     orchestration_error + (string \<times> string list) option" where
  "determine_route E svc messages inline_prefs request_id =
     (if messages = [] then Inr None
      else
        (let inline_map = map_option preference_map inline_prefs
         in if inline_map = None \<and> os_preferences svc = [] then Inr None
            else
              (let source = (case inline_map of Some m \<Rightarrow> m | None \<Rightarrow> os_preferences svc);
                   prefs = map (\<lambda>(_, p). usage_preference p) (re_order E source)
               in case determine_orchestration E svc messages (Some prefs) (Some request_id) of
                    Inl e \<Rightarrow> Inl e
                  | Inr None \<Rightarrow> Inr None
                  | Inr (Some []) \<Rightarrow> Inr None
                  | Inr (Some ((route_name, _) # _)) \<Rightarrow>
                      (case (case Option.bind inline_map (\<lambda>m. map_of m route_name) of
                               Some p \<Rightarrow> Some p
                             | None \<Rightarrow> map_of (os_preferences svc) route_name) of
                         None \<Rightarrow> Inr None
                       | Some p \<Rightarrow> Inr (Some (route_name, ranked_models svc p))))))"

subsection \<open>The route of a client request\<close>

record routing_result =
  rres_model_name :: string
  rres_models :: "string list"
  rres_route_name :: "string option"

text \<open>The error is the text of an answer with status 500.\<close>

definition router_chat_get_upstream_model ::
    "routing_env \<Rightarrow> orchestrator_service \<Rightarrow> provider_request \<Rightarrow> string \<Rightarrow>
     routing_preference list option \<Rightarrow> string + routing_result" where
  "router_chat_get_upstream_model E svc client_request request_id inline_prefs =
     (case request_for_upstream (rcd_json (re_codec E)) client_request
             (U_OpenAIChatCompletions ChatCompletions) of
        Inl e \<Rightarrow> Inl (''Failed to convert request: '' @ provider_request_error_display e)
      | Inr (PR_ChatCompletions req) \<Rightarrow>
          (case determine_route E svc (cr_messages req) inline_prefs request_id of
             Inl e \<Rightarrow> Inl (''Failed to determine route: '' @ orchestration_error_display e)
           | Inr (Some (route_name, ranked)) \<Rightarrow>
               Inr \<lparr>rres_model_name = (case ranked of [] \<Rightarrow> [] | m # _ \<Rightarrow> m),
                    rres_models = ranked, rres_route_name = Some route_name\<rparr>
           | Inr None \<Rightarrow>
               Inr \<lparr>rres_model_name = ''none'', rres_models = [''none''], rres_route_name = None\<rparr>)
      | Inr _ \<Rightarrow> Inl ''Request conversion failed'')"

subsection \<open>Nothing panics\<close>

lemma truncate_for_log_total: "\<exists>t. truncate_for_log s = Some t \<and> length t \<le> RAW_BODY_LOG_LIMIT"
  using boundary_down_props [of s RAW_BODY_LOG_LIMIT] by (simp add: truncate_for_log_def)

lemma error_message_total: "\<exists>m. extract_upstream_error_message c body = Some m"
  using truncate_for_log_total [of body]
  by (auto simp: extract_upstream_error_message_def split: option.split)

lemma post_never_panics: "post_and_extract_content E hs body \<noteq> Inl OE_Panic"
proof (cases "re_post E hs body")
  case (Inr a)
  obtain status b where a: "a = (status, b)" by (cases a)
  obtain m where "extract_upstream_error_message (rcd_json (re_codec E)) b = Some m"
    using error_message_total by blast
  then show ?thesis using Inr a
    by (auto simp: post_and_extract_content_def split: sum.split list.split)
qed (simp add: post_and_extract_content_def)

lemma select_messages_total: "\<exists>sel. select_messages max_tokens tc ms = Some sel"
proof (induction ms arbitrary: tc)
  case (Cons m ms)
  let ?text = "extract_text (m_content m)"
  obtain t where "trim_middle_utf8 ?text ((max_tokens - tc) * TOKEN_LENGTH_DIVISOR) = Some t"
    using trim_middle_within by blast
  moreover obtain sel where "select_messages max_tokens (tc + length ?text div TOKEN_LENGTH_DIVISOR) ms = Some sel"
    using Cons.IH by blast
  ultimately show ?case by (simp add: Let_def)
qed simp

lemma generate_request_total: "\<exists>r. generate_request c om messages prefs = Some r"
  using select_messages_total by (simp add: generate_request_def routed_conversation_def Let_def)

lemma map_sum_id_Inr: "map_sum f id x = Inr y \<longleftrightarrow> x = Inr y"
  by (cases x) auto

lemma orchestration_never_panics: "determine_orchestration E svc messages prefs i \<noteq> Inl OE_Panic"
proof -
  obtain r where r: "generate_request (re_codec E) (os_model svc) messages prefs = Some r"
    using generate_request_total by blast
  have "map_sum OE_Model id x \<noteq> Inl OE_Panic" for x :: "string + (string \<times> string) list option"
    by (cases x) auto
  then show ?thesis using r post_never_panics
    by (auto simp: determine_orchestration_def split: option.split sum.split)
qed

subsection \<open>Properties\<close>

lemma preference_map_names: "map_of (preference_map ps) n = Some p \<Longrightarrow> p \<in> set ps \<and> rp_name p = n"
proof (induction ps rule: rev_induct)
  case (snoc q ps)
  then show ?case by (auto simp: preference_map_def update_conv' split: if_splits)
qed (simp add: preference_map_def)

definition service_ok :: "orchestrator_service \<Rightarrow> bool" where
  "service_ok svc \<longleftrightarrow> (\<forall>n p. map_of (os_preferences svc) n = Some p \<longrightarrow> rp_name p = n)"

lemma service_with_routing_ok: "service_ok (service_with_routing c mn pn prefs metrics ttl th mt)"
  by (auto simp: service_ok_def service_with_routing_def dest: preference_map_names split: option.splits)

text \<open>The preferences a request is routed by: its own, if it brings some, else the configured ones.\<close>

definition effective_preferences ::
    "orchestrator_service \<Rightarrow> routing_preference list option \<Rightarrow> (string \<times> routing_preference) list" where
  "effective_preferences svc inline_prefs =
     (case inline_prefs of Some ps \<Rightarrow> preference_map ps | None \<Rightarrow> os_preferences svc)"

lemma ranked_models_mset: "mset (ranked_models svc p) = mset (rp_models p)"
  by (simp add: ranked_models_def rank_models_mset split: option.split)

lemma distinct_preference_map: "distinct (map fst (preference_map ps))"
  by (induction ps rule: rev_induct) (simp_all add: preference_map_def distinct_update)

text \<open>
  (C23) A route is always one of the preferences in effect, whatever the routing model answers, and its
  candidates are exactly the models of that preference, ranked by its policy. A request that brings
  its own preferences is never routed by the configured ones.
\<close>

theorem route_is_configured:
  assumes "determine_route E svc messages inline_prefs i = Inr (Some (route, models))"
    and "service_ok svc" "\<And>xs. set (re_order E xs) = set xs"
    and "distinct (map fst (os_preferences svc))"
  shows "\<exists>p. map_of (effective_preferences svc inline_prefs) route = Some p \<and>
    rp_name p = route \<and> models = ranked_models svc p \<and> mset models = mset (rp_models p)"
proof -
  let ?src = "effective_preferences svc inline_prefs"
  have src: "(case map_option preference_map inline_prefs of Some m \<Rightarrow> m | None \<Rightarrow> os_preferences svc) = ?src"
    by (simp add: effective_preferences_def split: option.split)
  let ?prefs = "map (\<lambda>(_, p). usage_preference p) (re_order E ?src)"
  obtain m rest p where orch: "determine_orchestration E svc messages (Some ?prefs) (Some i) =
        Inr (Some ((route, m) # rest))"
    and p: "(case Option.bind (map_option preference_map inline_prefs) (\<lambda>m. map_of m route) of
              Some p \<Rightarrow> Some p | None \<Rightarrow> map_of (os_preferences svc) route) = Some p"
    and models: "models = ranked_models svc p"
    using assms(1) unfolding determine_route_def Let_def src
    by (auto split: if_splits sum.splits option.splits list.splits)
  obtain content where "parse_response (re_codec E) (os_model svc) content (Some ?prefs) =
      Inr (Some ((route, m) # rest))"
    using orch by (auto simp: determine_orchestration_def map_sum_id_Inr split: if_splits option.splits sum.splits)
  from parsed_routes_known(2) [OF this, of route m] have "model_of_route ?prefs route = Some m" by simp
  from model_of_route_Some [OF this] obtain n q where q: "(n, q) \<in> set (re_order E ?src)" "rp_name q = route"
    by (auto simp: usage_preference_def)
  have dist: "distinct (map fst ?src)"
    using assms(4) distinct_preference_map by (simp add: effective_preferences_def split: option.split)
  have nq: "map_of ?src n = Some q" using q(1) assms(3) dist by (simp add: map_of_is_SomeI)
  have "rp_name q = n"
    using nq assms(2) preference_map_names
    by (auto simp: effective_preferences_def service_ok_def split: option.splits)
  with q(2) nq have route: "map_of ?src route = Some q" by simp
  have "p = q"
    using p route by (auto simp: effective_preferences_def split: option.splits)
  with route q(2) models ranked_models_mset show ?thesis by auto
qed

text \<open>
  The key of a session is not injective: a client without tenant whose session is named
  \<open>tenant:session\<close> shares the pinned route of the tenant.
\<close>

theorem session_keys_collide:
  "session_key None (t @ '':'' @ s) = session_key (Some t) s"
  "session_key (Some (t @ '':'' @ u)) s = session_key (Some t) (u @ '':'' @ s)"
  by (simp_all add: session_key_def)

text \<open>Without a colon in the names of tenants they do not mix.\<close>

lemma session_key_inject:
  assumes "CHR '':'' \<notin> set t" "CHR '':'' \<notin> set t'" "session_key (Some t) s = session_key (Some t') s'"
  shows "t = t' \<and> s = s'"
proof -
  have eq: "t @ CHR '':'' # s = t' @ CHR '':'' # s'" using assms(3) by (simp add: session_key_def)
  have "split_once (CHR '':'') (t @ CHR '':'' # s) = Some (t, s)"
    by (subst split_once_Some) (use assms(1) in simp)
  moreover have "split_once (CHR '':'') (t' @ CHR '':'' # s') = Some (t', s')"
    by (subst split_once_Some) (use assms(2) in simp)
  ultimately have "Some (t, s) = Some (t', s')" unfolding eq by (rule trans [OF sym])
  then show ?thesis by blast
qed

subsection \<open>A concrete route\<close>

text \<open>A routing model that always gives the answer of the sample library, and the preferences.\<close>

definition answering_env :: routing_env where
  "answering_env = \<lparr>re_codec = sample_router_codec, re_post = (\<lambda>_ _. Inr (200, [])), re_ser_request = (\<lambda>_. Inr []),
     re_parse_completion = (\<lambda>_. Inr (chat_completion [] 0 [] (plain_choice R_Assistant (Some ''answer'') None FR_Stop)
       \<lparr>prompt_tokens = 9, completion_tokens = 1, total_tokens = 10,
         u_prompt_tokens_details = None, u_completion_tokens_details = None\<rparr>)),
     re_header_ok = (\<lambda>_. True), re_order = (\<lambda>xs. xs)\<rparr>"

definition code_preferences :: "routing_preference list" where
  "code_preferences = [\<lparr>rp_name = ''code'', rp_description = ''write code'', rp_models = [''gpt'', ''llama''],
     rp_selection_policy = SP_None\<rparr>]"

definition code_service :: orchestrator_service where
  "code_service = service_with_routing sample_router_codec ''router'' ''router'' (Some code_preferences) None None None 8192"

lemma code_service_routes:
  "determine_route answering_env code_service [text_message R_User ''Hi''] None ''r1'' =
     Inr (Some (''code'', [''gpt'', ''llama'']))"
proof -
  have fixed: "fix_json_response ''answer'' = ''answer''"
    by (simp add: fix_json_response_def replace_char_id replace_str_id)
  have ser: "re_ser_request answering_env q = Inr []" for q by (simp add: answering_env_def)
  have some: "map usage_preference code_preferences \<noteq> []" by (simp add: code_preferences_def)
  obtain r where r: "generate_request (re_codec answering_env) (os_model code_service) [text_message R_User ''Hi'']
      (Some (map usage_preference code_preferences)) = Some r" using generate_request_total by blast
  have post: "post_and_extract_content answering_env hs b = Inr (Some ''answer'')" for hs b
    by (simp add: post_and_extract_content_def answering_env_def is_success_def chat_completion_def plain_choice_def)
  have parsed: "parse_response (re_codec answering_env) (os_model code_service) ''answer''
      (Some (map usage_preference code_preferences)) = Inr (Some [(''code'', ''gpt'')])"
    by (simp add: parse_response_def fixed orchestrator_response_of_def answering_env_def sample_router_codec_def
        route_field_def model_of_route_def usage_preference_def code_preferences_def map_filter_Cons Let_def)
  have "determine_orchestration answering_env code_service [text_message R_User ''Hi'']
      (Some (map usage_preference code_preferences)) (Some ''r1'') = Inr (Some [(''code'', ''gpt'')])"
    using r some by (simp add: determine_orchestration_def post parsed ser)
  moreover have "os_preferences code_service = map (\<lambda>p. (rp_name p, p)) code_preferences"
    by (simp add: code_service_def service_with_routing_def preference_map_def code_preferences_def)
  ultimately show ?thesis
    by (simp add: determine_route_def Let_def answering_env_def code_preferences_def ranked_models_def
        code_service_def service_with_routing_def)
qed

theorem route_is_configured_witness:
  "determine_route answering_env code_service [text_message R_User ''Hi''] None ''r1'' =
     Inr (Some (''code'', [''gpt'', ''llama''])) \<and>
   (\<exists>p. map_of (effective_preferences code_service None) ''code'' = Some p \<and> rp_name p = ''code'' \<and>
     [''gpt'', ''llama''] = ranked_models code_service p)"
proof -
  have ok: "service_ok code_service" by (simp add: code_service_def service_with_routing_ok)
  have "\<And>xs. set (re_order answering_env xs) = set xs" by (simp add: answering_env_def)
  moreover have "distinct (map fst (os_preferences code_service))"
    by (simp add: code_service_def service_with_routing_def distinct_preference_map)
  ultimately show ?thesis using route_is_configured [OF code_service_routes ok] code_service_routes by blast
qed

end
