(* ===== verification/Json_Value.thy ===== *)
theory Json_Value
  imports Request_Types "HOL-Library.AList"
begin

section \<open>Access to JSON values\<close>

text \<open>
  The accessors of \<open>serde_json::Value\<close> that the function-calling handler uses. A number is its
  text; an integer that fits 64 bits is one for serde, everything else is a float. \<open>-0\<close> is a float.
\<close>

fun json_get :: "json \<Rightarrow> string \<Rightarrow> json option" where
  "json_get (JObject m) k = map_of m k"
| "json_get _ k = None"

fun as_str :: "json \<Rightarrow> string option" where
  "as_str (JString s) = Some s"
| "as_str _ = None"

fun as_array :: "json \<Rightarrow> json list option" where
  "as_array (JArray vs) = Some vs"
| "as_array _ = None"

fun as_object :: "json \<Rightarrow> (string \<times> json) list option" where
  "as_object (JObject m) = Some m"
| "as_object _ = None"

fun as_bool :: "json \<Rightarrow> bool option" where
  "as_bool (JBool b) = Some b"
| "as_bool _ = None"

definition is_digit :: "char \<Rightarrow> bool" where
  "is_digit c \<longleftrightarrow> 48 \<le> byte c \<and> byte c \<le> (57::nat)"

definition decimal_value :: "string \<Rightarrow> nat" where
  "decimal_value s = foldl (\<lambda>n c. 10 * n + (byte c - 48)) 0 s"

definition number_int :: "string \<Rightarrow> int option" where
  "number_int n =
     (case n of
        [] \<Rightarrow> None
      | c # s \<Rightarrow>
          if c = CHR ''-'' then
            (if s \<noteq> [] \<and> list_all is_digit s \<and> decimal_value s \<noteq> 0 then Some (- int (decimal_value s)) else None)
          else if list_all is_digit n then Some (int (decimal_value n)) else None)"

definition json_int :: "json \<Rightarrow> int option" where
  "json_int j = (case j of JNumber n \<Rightarrow> number_int n | _ \<Rightarrow> None)"

definition as_i64 :: "json \<Rightarrow> int option" where
  "as_i64 j = (case json_int j of Some i \<Rightarrow> (if - (2 ^ 63) \<le> i \<and> i < 2 ^ 63 then Some i else None) | None \<Rightarrow> None)"

definition is_i64 :: "json \<Rightarrow> bool" where
  "is_i64 j \<longleftrightarrow> as_i64 j \<noteq> None"

definition is_u64 :: "json \<Rightarrow> bool" where
  "is_u64 j \<longleftrightarrow> (case json_int j of Some i \<Rightarrow> 0 \<le> i \<and> i < 2 ^ 64 | None \<Rightarrow> False)"

definition is_number :: "json \<Rightarrow> bool" where
  "is_number j \<longleftrightarrow> (case j of JNumber _ \<Rightarrow> True | _ \<Rightarrow> False)"

definition is_f64 :: "json \<Rightarrow> bool" where
  "is_f64 j \<longleftrightarrow> is_number j \<and> \<not> is_i64 j \<and> \<not> is_u64 j"

definition is_boolean :: "json \<Rightarrow> bool" where
  "is_boolean j \<longleftrightarrow> as_bool j \<noteq> None"

definition is_string :: "json \<Rightarrow> bool" where
  "is_string j \<longleftrightarrow> as_str j \<noteq> None"

definition is_array :: "json \<Rightarrow> bool" where
  "is_array j \<longleftrightarrow> as_array j \<noteq> None"

definition is_object :: "json \<Rightarrow> bool" where
  "is_object j \<longleftrightarrow> as_object j \<noteq> None"

text \<open>
  Objects keep the order of their entries (feature \<open>preserve_order\<close>); \<open>Map::remove\<close> then moves the
  last entry to the place of the removed one. \<open>Map::insert\<close> replaces in place or appends.
\<close>

fun swap_remove :: "string \<Rightarrow> (string \<times> json) list \<Rightarrow> (string \<times> json) list" where
  "swap_remove k [] = []"
| "swap_remove k (x # xs) =
     (if fst x = k then (if xs = [] then [] else last xs # butlast xs) else x # swap_remove k xs)"

definition object_insert :: "string \<Rightarrow> json \<Rightarrow> (string \<times> json) list \<Rightarrow> (string \<times> json) list" where
  "object_insert k v m = AList.update k v m"

lemma map_of_rotated: "distinct (map fst (xs @ [x])) \<Longrightarrow> map_of (x # xs) = map_of (xs @ [x])"
  by (rule ext) (cases x, force simp: map_add_def split: option.split dest: map_of_SomeD)

lemma map_of_swap_remove:
  "distinct (map fst m) \<Longrightarrow> map_of (swap_remove k m) k' = (if k' = k then None else map_of m k')"
proof (induction m)
  case (Cons x m)
  show ?case
  proof (cases "fst x = k")
    case True
    have "map_of (last m # butlast m) = map_of m" if "m \<noteq> []"
      using map_of_rotated [of "butlast m" "last m"] Cons.prems that by simp
    moreover have "map_of m k = None" using Cons.prems True by (auto simp: map_of_eq_None_iff)
    ultimately show ?thesis using True by (cases x) auto
  next
    case False
    then show ?thesis using Cons by (cases x) auto
  qed
qed simp

lemma number_kinds: "is_f64 j \<or> is_i64 j \<or> is_u64 j \<longleftrightarrow> is_number j"
  by (auto simp: is_f64_def is_i64_def is_u64_def as_i64_def json_int_def is_number_def split: json.splits option.splits)

lemma json_kinds [simp]:
  "is_string j \<longleftrightarrow> (\<exists>s. j = JString s)"
  "is_array j \<longleftrightarrow> (\<exists>vs. j = JArray vs)"
  "is_object j \<longleftrightarrow> (\<exists>m. j = JObject m)"
  "is_boolean j \<longleftrightarrow> (\<exists>b. j = JBool b)"
  by (cases j; simp add: is_string_def is_array_def is_object_def is_boolean_def)+

end
