(* ===== verification/Routing_Service.thy ===== *)
theory Routing_Service
  imports Orchestrator_Service Brightstaff_Request Json_Value
begin

section \<open>Routing decisions and session pinning\<close>

text \<open>
  \<open>crates/brightstaff/src/handlers/routing_service.rs\<close> (the endpoint that answers with a routing
  decision), the routing phase of \<open>llm_chat_inner\<close> in \<open>handlers/llm/mod.rs\<close>, and the dispatch of
  requests in \<open>main.rs\<close>. Both handlers use one session cache. The instants of the cache calls, the
  identifiers of requests and traces and the client's headers are arguments.
\<close>

subsection \<open>Preferences in the body of a request\<close>

definition selection_preference_of_tag :: "string \<Rightarrow> selection_preference option" where
  "selection_preference_of_tag s =
     (if s = ''cheapest'' then Some SP_Cheapest
      else if s = ''fastest'' then Some SP_Fastest
      else if s = ''none'' \<or> s = [] then Some SP_None
      else None)"

text \<open>An option of the preference; null is no preference.\<close>

fun selection_preference_of_json :: "json \<Rightarrow> selection_preference option" where
  "selection_preference_of_json JNull = Some SP_None"
| "selection_preference_of_json (JString s) = selection_preference_of_tag s"
| "selection_preference_of_json (JObject [(s, JNull)]) = selection_preference_of_tag s"
| "selection_preference_of_json _ = None"

definition selection_policy_of_json :: "json \<Rightarrow> selection_preference option" where
  "selection_policy_of_json j =
     (case j of
        JObject m \<Rightarrow> (case map_of m ''prefer'' of None \<Rightarrow> Some SP_None | Some v \<Rightarrow> selection_preference_of_json v)
      | JArray [] \<Rightarrow> Some SP_None
      | JArray [v] \<Rightarrow> selection_preference_of_json v
      | _ \<Rightarrow> None)"

definition preference_fields :: "json \<Rightarrow> (string \<times> json) list option" where
  "preference_fields j =
     (case j of
        JObject m \<Rightarrow> Some m
      | JArray vs \<Rightarrow>
          (if length vs = 3 \<or> length vs = 4
           then Some (zip [''name'', ''description'', ''models'', ''selection_policy''] vs) else None)
      | _ \<Rightarrow> None)"

definition models_field :: "(string \<times> json) list \<Rightarrow> string list option" where
  "models_field m = (case map_of m ''models'' of Some (JArray vs) \<Rightarrow> json_strings vs | _ \<Rightarrow> None)"

definition policy_field :: "(string \<times> json) list \<Rightarrow> selection_preference option" where
  "policy_field m =
     (case map_of m ''selection_policy'' of None \<Rightarrow> Some SP_None | Some v \<Rightarrow> selection_policy_of_json v)"

definition routing_preference_of_json :: "json \<Rightarrow> routing_preference option" where
  "routing_preference_of_json j =
     Option.bind (preference_fields j) (\<lambda>m.
     Option.bind (field_str m ''name'') (\<lambda>n.
     Option.bind (field_str m ''description'') (\<lambda>d.
     Option.bind (models_field m) (\<lambda>ms.
     map_option (\<lambda>p. \<lparr>rp_name = n, rp_description = d, rp_models = ms, rp_selection_policy = p\<rparr>)
       (policy_field m)))))"

definition routing_preferences_of_json :: "json \<Rightarrow> routing_preference list option" where
  "routing_preferences_of_json j =
     (case j of JArray vs \<Rightarrow> option_all (map routing_preference_of_json vs) | _ \<Rightarrow> None)"

definition ROUTING_PREFERENCES :: string where "ROUTING_PREFERENCES = ''routing_preferences''"

text \<open>
  The body without the preferences, and the preferences if they can be read.
\<close>

definition extract_routing_policy ::
    "json_codec \<Rightarrow> string \<Rightarrow> string + string \<times> routing_preference list option" where
  "extract_routing_policy c raw =
     (case json_parse c raw of
        Inl e \<Rightarrow> Inl (''Failed to parse JSON: '' @ e)
      | Inr (JObject m) \<Rightarrow>
          Inr (json_print c (JObject (swap_remove ROUTING_PREFERENCES m)),
               Option.bind (map_of m ROUTING_PREFERENCES) routing_preferences_of_json)
      | Inr j \<Rightarrow> Inr (json_print c j, None))"

subsection \<open>The routing phase of a chat request\<close>

text \<open>
  An internal call (it carries the internal key), the session of the affinity header and the
  tenant.
\<close>

record session_context =
  sx_internal :: bool
  sx_session :: "string option"
  sx_tenant :: "string option"

definition pinned_route ::
    "'s cache_ops option \<Rightarrow> nat \<Rightarrow> session_context \<Rightarrow> 's \<Rightarrow> cached_route option \<times> 's" where
  "pinned_route cache now ctx s =
     (if \<not> sx_internal ctx then
        (case sx_session ctx of
           Some sid \<Rightarrow> get_cached_route cache now sid (sx_tenant ctx) s
         | None \<Rightarrow> (None, s))
      else (None, s))"

text \<open>
  The model and the candidates for the upstream, or the text of a 500 answer. \<open>pinned\<close> is what
  \<open>pinned_route\<close> found.
\<close>

definition route_request ::
    "routing_env \<Rightarrow> orchestrator_service \<Rightarrow> 's cache_ops option \<Rightarrow> nat \<Rightarrow> session_context \<Rightarrow>
     cached_route option \<Rightarrow> provider_request \<Rightarrow> string \<Rightarrow> routing_preference list option \<Rightarrow>
     string \<Rightarrow> string list \<Rightarrow> 's \<Rightarrow> (string + string \<times> string list) \<times> 's" where
  "route_request E svc cache now ctx pinned client_request request_id inline_prefs
      alias_resolved_model alias_candidates s =
     (case pinned of
        Some c \<Rightarrow>
          (Inr (upstream_candidates (Some (crt_model_name c)) [] alias_resolved_model alias_candidates), s)
      | None \<Rightarrow>
          (case router_chat_get_upstream_model E svc client_request request_id inline_prefs of
             Inl e \<Rightarrow> (Inl e, s)
           | Inr r \<Rightarrow>
               (let (model, cands) = upstream_candidates None (rres_model_name r) alias_resolved_model alias_candidates
                in (Inr (model, cands),
                    case sx_session ctx of
                      Some sid \<Rightarrow> cache_route cache svc now sid (sx_tenant ctx) model (rres_route_name r) s
                    | None \<Rightarrow> s))))"

text \<open>Both steps of a request: the lookup when it arrives, the choice after it was prepared.\<close>

definition choose_upstream ::
    "routing_env \<Rightarrow> orchestrator_service \<Rightarrow> 's cache_ops option \<Rightarrow> nat \<Rightarrow> nat \<Rightarrow> session_context \<Rightarrow>
     provider_request \<Rightarrow> string \<Rightarrow> routing_preference list option \<Rightarrow> string \<Rightarrow> string list \<Rightarrow> 's \<Rightarrow>
     (string + string \<times> string list) \<times> 's" where
  "choose_upstream E svc cache now now' ctx client_request request_id inline_prefs
      alias_resolved_model alias_candidates s =
     (case pinned_route cache now ctx s of
        (pinned, s) \<Rightarrow> route_request E svc cache now' ctx pinned client_request request_id inline_prefs
                        alias_resolved_model alias_candidates s)"

subsection \<open>The routing endpoint\<close>

definition trace_id_of :: "string \<Rightarrow> string" where
  "trace_id_of traceparent =
     (case split_char (CHR ''-'') traceparent of _ # t # _ \<Rightarrow> t | _ \<Rightarrow> ''unknown'')"

definition decision_to_json ::
    "string list \<Rightarrow> string option \<Rightarrow> string \<Rightarrow> string option \<Rightarrow> bool \<Rightarrow> json" where
  "decision_to_json models route trace_id session_id pinned =
     JObject ([(''models'', JArray (map JString models)), (''route'', json_of_opt route),
               (''trace_id'', JString trace_id)] @
              opt_field ''session_id'' JString session_id @ [(''pinned'', JBool pinned)])"

text \<open>The answer; \<open>None\<close> is the panic of \<open>unwrap\<close> on a path that is no endpoint.\<close>

definition routing_decision ::
    "routing_env \<Rightarrow> request_codec \<Rightarrow> orchestrator_service \<Rightarrow> 's cache_ops option \<Rightarrow> nat \<Rightarrow> nat \<Rightarrow>
     session_context \<Rightarrow> string \<Rightarrow> string \<Rightarrow> string \<Rightarrow> string \<Rightarrow> 's \<Rightarrow> http_answer option \<times> 's" where
  "routing_decision E rc svc cache now now' ctx request_path traceparent request_id raw s =
     (let trace_id = trace_id_of traceparent; c = rc_json rc;
          (cached, s) = (case sx_session ctx of
             Some sid \<Rightarrow> get_cached_route cache now sid (sx_tenant ctx) s
           | None \<Rightarrow> (None, s))
      in case cached of
           Some r \<Rightarrow>
             (Some (200, json_print c (decision_to_json [crt_model_name r] (crt_route_name r) trace_id
                (sx_session ctx) True)), s)
         | None \<Rightarrow>
             (case extract_routing_policy c raw of
                Inl e \<Rightarrow> (Some (error_into_response c (BE_InvalidRequest (''Failed to parse request JSON: '' @ e))), s)
              | Inr (body, prefs) \<Rightarrow>
                  (case client_from_endpoint request_path of
                     None \<Rightarrow> (None, s)
                   | Some api \<Rightarrow>
                       (case request_of_bytes rc body api of
                          Inl e \<Rightarrow> (Some (error_into_response c (BE_InvalidRequest (''Failed to parse request: '' @ e))), s)
                        | Inr req \<Rightarrow>
                            (case router_chat_get_upstream_model E svc req request_id prefs of
                               Inl e \<Rightarrow> (Some (error_into_response c (BE_InternalServerError e)), s)
                             | Inr r \<Rightarrow>
                                 (Some (200, json_print c (decision_to_json (rres_models r) (rres_route_name r)
                                    trace_id (sx_session ctx) False)),
                                  case sx_session ctx of
                                    Some sid \<Rightarrow> cache_route cache svc now' sid (sx_tenant ctx)
                                      (rres_model_name r) (rres_route_name r) s
                                  | None \<Rightarrow> s))))))"

lemma routing_decision_routed:
  assumes "sx_session ctx = Some sid" "get_cached_route cache now sid (sx_tenant ctx) s = (None, s1)"
    and "extract_routing_policy (rc_json rc) raw = Inr (body, prefs)"
    and "client_from_endpoint path = Some api" "request_of_bytes rc body api = Inr req"
    and "router_chat_get_upstream_model E svc req i prefs = Inr r"
  shows "routing_decision E rc svc cache now now' ctx path tp i raw s =
    (Some (200, json_print (rc_json rc) (decision_to_json (rres_models r) (rres_route_name r)
       (trace_id_of tp) (Some sid) False)),
     cache_route cache svc now' sid (sx_tenant ctx) (rres_model_name r) (rres_route_name r) s1)"
  using assms by (simp add: routing_decision_def Let_def)

subsection \<open>Dispatch\<close>

datatype http_method = M_GET | M_POST | M_PUT | M_DELETE | M_PATCH | M_HEAD | M_OPTIONS | M_Other

datatype handler =
    H_AgentResume
  | H_AgentChat
  | H_RoutingDecision string
  | H_LlmChat
  | H_FunctionCalling
  | H_ListModels
  | H_CorsPreflight
  | H_MemStats
  | H_NotFound

definition AGENT_CHAT_RESUME_PATH :: string where
  "AGENT_CHAT_RESUME_PATH = ''/v1/chat/completions/resume''"

definition is_llm_path :: "string \<Rightarrow> bool" where
  "is_llm_path p \<longleftrightarrow> p = CHAT_COMPLETIONS_PATH \<or> p = MESSAGES_PATH \<or> p = OPENAI_RESPONSES_API_PATH"

definition standard_route :: "http_method \<Rightarrow> string \<Rightarrow> handler" where
  "standard_route m path =
     (if m = M_POST \<and> is_llm_path path then H_LlmChat
      else if m = M_POST \<and> path = ''/function_calling'' then H_FunctionCalling
      else if m = M_GET \<and> (path = ''/v1/models'' \<or> path = ''/agents/v1/models'') then H_ListModels
      else if m = M_OPTIONS \<and> (path = ''/v1/models'' \<or> path = ''/agents/v1/models'') then H_CorsPreflight
      else if m = M_GET \<and> path = ''/debug/memstats'' then H_MemStats
      else H_NotFound)"

definition llm_suffix :: "string \<Rightarrow> string \<Rightarrow> string option" where
  "llm_suffix path pre =
     (case strip_prefix path pre of Some p \<Rightarrow> (if is_llm_path p then Some p else None) | None \<Rightarrow> None)"

definition dispatch :: "http_method \<Rightarrow> string \<Rightarrow> handler" where
  "dispatch m path =
     (if strip_prefix path ''/agents'' = Some AGENT_CHAT_RESUME_PATH \<and> m = M_POST then H_AgentResume
      else if llm_suffix path ''/agents'' \<noteq> None then H_AgentChat
      else if m = M_POST \<and> path = AGENT_CHAT_RESUME_PATH then H_AgentResume
      else case llm_suffix path ''/routing'' of
             Some p \<Rightarrow> H_RoutingDecision p
           | None \<Rightarrow> standard_route m path)"

text \<open>The label under which a request is counted.\<close>

definition handler_label_for :: "http_method \<Rightarrow> string \<Rightarrow> string" where
  "handler_label_for m path =
     (if llm_suffix path ''/agents'' \<noteq> None then ''agent_chat''
      else if strip_prefix path ''/agents'' = Some AGENT_CHAT_RESUME_PATH then ''agent_chat''
      else if llm_suffix path ''/routing'' \<noteq> None then ''routing_decision''
      else if m = M_POST \<and> path = AGENT_CHAT_RESUME_PATH then ''agent_chat''
      else if m = M_POST \<and> is_llm_path path then ''llm_chat''
      else if m = M_POST \<and> path = ''/function_calling'' then ''function_calling''
      else if m = M_GET \<and> (path = ''/v1/models'' \<or> path = ''/agents/v1/models'') then ''list_models''
      else if m = M_OPTIONS \<and> (path = ''/v1/models'' \<or> path = ''/agents/v1/models'') then ''cors_preflight''
      else ''not_found'')"

subsection \<open>Dispatch is safe\<close>

fun label_of :: "handler \<Rightarrow> string" where
  "label_of H_AgentResume = ''agent_chat''"
| "label_of H_AgentChat = ''agent_chat''"
| "label_of (H_RoutingDecision _) = ''routing_decision''"
| "label_of H_LlmChat = ''llm_chat''"
| "label_of H_FunctionCalling = ''function_calling''"
| "label_of H_ListModels = ''list_models''"
| "label_of H_CorsPreflight = ''cors_preflight''"
| "label_of H_MemStats = ''not_found''"
| "label_of H_NotFound = ''not_found''"

lemma resume_no_routing: "strip_prefix AGENT_CHAT_RESUME_PATH ''/routing'' = None"
  by (simp add: AGENT_CHAT_RESUME_PATH_def strip_prefix_def starts_with_def)

text \<open>
  Every request is counted under the handler that serves it, except a request to resume an agent
  chat by another method than POST, which is not found but counted as agent chat.
\<close>

lemma label_of_dispatch:
  assumes "m = M_POST \<or> strip_prefix path ''/agents'' \<noteq> Some AGENT_CHAT_RESUME_PATH"
  shows "handler_label_for m path = label_of (dispatch m path)"
  using assms
  by (auto simp: handler_label_for_def dispatch_def standard_route_def llm_suffix_def resume_no_routing
      split: option.splits if_splits)

lemma routed_path_is_endpoint: "dispatch m path = H_RoutingDecision p \<Longrightarrow> client_from_endpoint p \<noteq> None"
  by (auto simp: dispatch_def llm_suffix_def is_llm_path_def client_from_endpoint_def standard_route_def
      openai_from_endpoint_def anthropic_from_endpoint_def split: if_splits option.splits)

text \<open>The routing endpoint never panics on a path it is dispatched with.\<close>

theorem routing_decision_answers:
  assumes "dispatch m path = H_RoutingDecision p"
  shows "\<exists>status body. fst (routing_decision E rc svc cache now now' ctx p tp i raw s) = Some (status, body) \<and>
    status \<in> {200, 400, 500}"
proof -
  obtain api where "client_from_endpoint p = Some api" using routed_path_is_endpoint [OF assms] by auto
  then show ?thesis
    by (auto simp: routing_decision_def Let_def error_into_response_def split: prod.split option.split sum.split)
qed


subsection \<open>Sessions over the memory cache\<close>

text \<open>The cache operations of the service over the memory backend.\<close>

definition memory_cache :: "('s, cache_entry) lru_ops \<Rightarrow> 's cache_ops option" where
  "memory_cache L = Some \<lparr>ca_get = mem_get L, ca_put = mem_put L\<rparr>"

lemma memory_cache_ops [simp]:
  "get_cached_route (memory_cache L) now sid t s = mem_get L now (session_key t sid) s"
  "cache_route (memory_cache L) svc now sid t m rn s =
     mem_put L now (session_key t sid) \<lparr>crt_model_name = m, crt_route_name = rn\<rparr> (os_session_ttl svc) s"
  by (simp_all add: get_cached_route_def cache_route_def memory_cache_def)

text \<open>A route that is stored is found again, and a request of the session is then pinned to it.\<close>

lemma stored_route_found:
  assumes "memory_session_cache L cap"
    and "session_key t sid \<notin> K" "finite K" "card K < mem_capacity n"
    and "\<forall>p \<in> set ops. undisturbed K (session_key t sid) (t0 + ttl) p"
    and "0 < ttl" "now < t0 + ttl" "sx_session ctx = Some sid" "sx_tenant ctx = t" "\<not> sx_internal ctx"
  shows "fst (choose_upstream E svc (memory_cache L) now now' ctx r i prefs am ac
    (foldl (mem_step L) (mem_new L n) (before @ CPut t0 (session_key t sid) c ttl # ops))) =
      Inr (crt_model_name c, [crt_model_name c])"
proof -
  let ?s = "foldl (mem_step L) (mem_new L n) (before @ CPut t0 (session_key t sid) c ttl # ops)"
  have "fst (mem_get L now (session_key t sid) ?s) = Some c"
    using memory_session_cache.served_after [OF assms(1)] assms(2-7) by blast
  then obtain s' where "mem_get L now (session_key t sid) ?s = (Some c, s')"
    by (cases "mem_get L now (session_key t sid) ?s") auto
  then show ?thesis using assms(8-10)
    by (simp add: choose_upstream_def pinned_route_def route_request_def upstream_candidates_def
        del: foldl_append foldl_Cons)
qed

text \<open>What a routed request does to the cache: a lookup, unless it is internal, and a store.\<close>

definition session_ops ::
    "session_context \<Rightarrow> nat \<Rightarrow> nat \<Rightarrow> string \<Rightarrow> cached_route \<Rightarrow> nat \<Rightarrow> cache_op list" where
  "session_ops ctx now now' k c ttl =
     (if sx_internal ctx then [] else [CGet now k]) @ [CPut now' k c ttl]"

lemma routed_request_stores:
  assumes "choose_upstream E svc (memory_cache L) now now' ctx r i prefs am ac s = (Inr (m, cs), s')"
    and "sx_session ctx = Some sid" "fst (pinned_route (memory_cache L) now ctx s) = None"
  shows "\<exists>rn. s' = foldl (mem_step L) s (session_ops ctx now now' (session_key (sx_tenant ctx) sid)
    \<lparr>crt_model_name = m, crt_route_name = rn\<rparr> (os_session_ttl svc))"
  using assms
  by (cases "mem_get L now (session_key (sx_tenant ctx) sid) s")
    (auto simp: choose_upstream_def pinned_route_def route_request_def session_ops_def Let_def
      split: sum.splits prod.splits if_splits)

text \<open>
  (C22) A session sticks to its model, in the memory cache: once a client request of the session was
  routed to a model, a later client request of the session asks for this model only, whatever the
  router would now say, until the lifetime is over, as long as nothing else was stored under the
  key of the session and fewer other keys were used than the cache has entries. Internal calls and
  concurrent requests of the session do store there: see \<open>internal_call_repins\<close>.
\<close>

theorem session_sticks:
  assumes "memory_session_cache L cap"
    and "choose_upstream E svc (memory_cache L) t t0 ctx r i prefs am ac
      (foldl (mem_step L) (mem_new L n) before) = (Inr (m, cs), s1)"
    and "fst (pinned_route (memory_cache L) t ctx (foldl (mem_step L) (mem_new L n) before)) = None"
    and "sx_session ctx = Some sid" "\<not> sx_internal ctx" "k = session_key (sx_tenant ctx) sid"
    and "k \<notin> K" "finite K" "card K < mem_capacity n"
    and "\<forall>p \<in> set ops. undisturbed K k (t0 + os_session_ttl svc) p"
    and "0 < os_session_ttl svc" "now < t0 + os_session_ttl svc"
  shows "fst (choose_upstream E' svc (memory_cache L) now now' ctx r' i' prefs' am' ac'
    (foldl (mem_step L) s1 ops)) = Inr (m, [m])"
proof -
  obtain rn where s1: "s1 = foldl (mem_step L) (foldl (mem_step L) (mem_new L n) before)
      (session_ops ctx t t0 k \<lparr>crt_model_name = m, crt_route_name = rn\<rparr> (os_session_ttl svc))"
    using routed_request_stores [OF assms(2, 4, 3)] assms(6) by blast
  let ?c = "\<lparr>crt_model_name = m, crt_route_name = rn\<rparr>"
  have "foldl (mem_step L) s1 ops = foldl (mem_step L) (mem_new L n)
      ((before @ [CGet t k]) @ CPut t0 k ?c (os_session_ttl svc) # ops)"
    using assms(5) by (simp add: s1 session_ops_def)
  then show ?thesis
    using stored_route_found [OF assms(1), of "sx_tenant ctx" sid K n ops t0 "os_session_ttl svc" now ctx
        E' svc now' r' i' prefs' am' ac' "before @ [CGet t k]" ?c] assms(4-12)
    by simp
qed

text \<open>
  The guard for internal calls works one way only: an internal call does not read the pinned route
  but stores its own, so the client's next request is pinned to the model the internal call was
  routed to.
\<close>

theorem internal_call_repins:
  assumes "memory_session_cache L cap"
    and "choose_upstream E svc (memory_cache L) t t0 ctx r i prefs am ac
      (foldl (mem_step L) (mem_new L n) before) = (Inr (m, cs), s1)"
    and "sx_session ctx = Some sid" "sx_internal ctx" "0 < mem_capacity n"
    and "0 < os_session_ttl svc" "now < t0 + os_session_ttl svc"
  shows "fst (choose_upstream E' svc (memory_cache L) now now' (ctx\<lparr>sx_internal := False\<rparr>) r' i' prefs' am' ac'
    s1) = Inr (m, [m])"
proof -
  let ?k = "session_key (sx_tenant ctx) sid"
  have "fst (pinned_route (memory_cache L) t ctx s) = None" for s
    using assms(4) by (simp add: pinned_route_def)
  then obtain rn where "s1 = foldl (mem_step L) (mem_new L n)
      (before @ [CPut t0 ?k \<lparr>crt_model_name = m, crt_route_name = rn\<rparr> (os_session_ttl svc)])"
    using routed_request_stores [OF assms(2, 3)] assms(4) by (auto simp: session_ops_def)
  then show ?thesis
    using stored_route_found [OF assms(1), of "sx_tenant ctx" sid "{}" n "[]" t0 "os_session_ttl svc" now
        "ctx\<lparr>sx_internal := False\<rparr>" E' svc now' r' i' prefs' am' ac' before
        "\<lparr>crt_model_name = m, crt_route_name = rn\<rparr>"] assms
    by simp
qed

text \<open>
  (C37) The two handlers disagree on what a stored route is: the routing endpoint stores the sentinel
  \<open>none\<close> of a request without a route, and the chat handler then sends the session's requests to a
  model of that name.
\<close>

theorem routing_endpoint_pins_none:
  assumes "memory_session_cache L cap"
    and "routing_decision E rc svc (memory_cache L) t t0 ctx p tp i raw
      (foldl (mem_step L) (mem_new L n) before) =
        (Some (200, json_print (rc_json rc) (decision_to_json [''none''] None (trace_id_of tp) (Some sid) False)), s1)"
    and "json_codec_ok (rc_json rc)"
    and "sx_session ctx = Some sid" "\<not> sx_internal ctx" "0 < mem_capacity n"
    and "0 < os_session_ttl svc" "now < t0 + os_session_ttl svc"
  shows "fst (choose_upstream E' svc (memory_cache L) now now' ctx r' i' prefs' am' ac' s1) =
    Inr (''none'', [''none''])"
proof -
  let ?s = "foldl (mem_step L) (mem_new L n) before" and ?k = "session_key (sx_tenant ctx) sid"
  have inj: "json_print (rc_json rc) a = json_print (rc_json rc) b \<Longrightarrow> a = b" for a b
    using json_codec_okD [OF assms(3)] by (metis sum.inject(2))
  obtain o' s' where get: "mem_get L t ?k ?s = (o', s')" by (cases "mem_get L t ?k ?s")
  have s': "s' = foldl (mem_step L) (mem_new L n) (before @ [CGet t ?k])" using get by simp
  have s1: "s1 = mem_put L t0 ?k \<lparr>crt_model_name = ''none'', crt_route_name = None\<rparr> (os_session_ttl svc) s'"
    using assms(2) inj assms(4)
    by (auto simp: routing_decision_def Let_def get decision_to_json_def opt_field_def
        router_chat_get_upstream_model_def error_into_response_def json_of_opt_def
        dest!: inj split: option.splits sum.splits prod.splits provider_request.splits list.splits if_splits)
  have "s1 = foldl (mem_step L) (mem_new L n)
      ((before @ [CGet t ?k]) @ [CPut t0 ?k \<lparr>crt_model_name = ''none'', crt_route_name = None\<rparr> (os_session_ttl svc)])"
    by (simp add: s1 s')
  then show ?thesis
    using stored_route_found [OF assms(1), of "sx_tenant ctx" sid "{}" n "[]" t0 "os_session_ttl svc" now
        ctx E' svc now' r' i' prefs' am' ac' "before @ [CGet t ?k]"
        "\<lparr>crt_model_name = ''none'', crt_route_name = None\<rparr>"] assms(4-8)
    by simp
qed


text \<open>
  A pinned session has no failover: its one candidate is tried, and the client gets its failure,
  even if the alias it asked for has healthy backends.
\<close>

theorem pinned_session_no_failover:
  assumes "pinned_route cache now ctx s = (Some c, s')" "m = crt_model_name c"
    and "ae_body e (model_name_only m) = Inr body" "is_retryable_status status"
    and "\<And>hs. ae_send e n hs body = Upstream_Response status retry_after answer"
  shows "\<exists>cands. fst (choose_upstream E svc cache now now' ctx r i prefs am ac s) = Inr (m, cands) \<and>
    fst (attempt_loop e n hs t cands) = Inr (status, answer, m)"
  using assms by (simp add: choose_upstream_def route_request_def upstream_candidates_def attempt_loop.simps Let_def)

text \<open>
  Taking the routing preferences out of a request leaves every other field of the body as it was
  (the keys of a parsed object are distinct).
\<close>

theorem routing_policy_extracted:
  assumes "json_codec_ok c" "json_parse c raw = Inr (JObject m)" "distinct (map fst m)"
  shows "\<exists>body m'. extract_routing_policy c raw =
      Inr (body, Option.bind (map_of m ROUTING_PREFERENCES) routing_preferences_of_json) \<and>
    json_parse c body = Inr (JObject m') \<and>
    (\<forall>k. map_of m' k = (if k = ROUTING_PREFERENCES then None else map_of m k))"
  using assms by (simp add: extract_routing_policy_def json_codec_okD map_of_swap_remove)

subsection \<open>Concrete sessions\<close>

definition idle_env :: routing_env where
  "idle_env = \<lparr>re_codec = sample_router_codec, re_post = (\<lambda>_ _. Inl ''down''), re_ser_request = (\<lambda>_. Inr []),
     re_parse_completion = (\<lambda>_. Inl []), re_header_ok = (\<lambda>_. True), re_order = (\<lambda>xs. xs)\<rparr>"

definition sample_service :: orchestrator_service where
  "sample_service = service_with_routing sample_router_codec ''router'' ''router'' None None None None 8192"

definition client_session :: session_context where
  "client_session = \<lparr>sx_internal = False, sx_session = Some ''s1'', sx_tenant = None\<rparr>"

lemma sample_ttl [simp]: "os_session_ttl sample_service = 600000000000"
  by (simp add: sample_service_def service_with_routing_def from_secs_def DEFAULT_SESSION_TTL_SECONDS_def)

lemma idle_route:
  "router_chat_get_upstream_model idle_env sample_service (PR_ChatCompletions chat_request_default) i prefs =
     Inr \<lparr>rres_model_name = ''none'', rres_models = [''none''], rres_route_name = None\<rparr>"
  by (simp add: router_chat_get_upstream_model_def determine_route_def chat_request_default_def)

lemma empty_cache_pins_nothing: "pinned_route (memory_cache list_lru) now ctx (mem_new list_lru n) = (None, mem_new list_lru n)"
  by (simp add: pinned_route_def mem_new_def mem_get_def list_lru_def promote_def split: option.split)

lemma idle_choice:
  "\<exists>s1. choose_upstream idle_env sample_service (memory_cache list_lru) t t0 ctx
     (PR_ChatCompletions chat_request_default) i prefs ''openai/gpt'' [''openai/gpt'', ''groq/llama'']
     (mem_new list_lru n) = (Inr (''openai/gpt'', [''openai/gpt'', ''groq/llama'']), s1)"
  by (simp add: choose_upstream_def empty_cache_pins_nothing route_request_def idle_route upstream_candidates_def)

theorem session_sticks_witness:
  "\<exists>s1. choose_upstream idle_env sample_service (memory_cache list_lru) 10 20 client_session
       (PR_ChatCompletions chat_request_default) [] None ''openai/gpt'' [''openai/gpt'', ''groq/llama'']
       (mem_new list_lru 100) = (Inr (''openai/gpt'', [''openai/gpt'', ''groq/llama'']), s1) \<and>
     fst (choose_upstream idle_env sample_service (memory_cache list_lru) 50 60 client_session
       (PR_ChatCompletions chat_request_default) [] None ''groq/llama'' [''groq/llama'']
       (foldl (mem_step list_lru) s1 [CPut 30 ''s2'' (route_of ''x'') 9, CTick 40])) = Inr (''openai/gpt'', [''openai/gpt''])"
proof -
  obtain s1 where s1: "choose_upstream idle_env sample_service (memory_cache list_lru) 10 20 client_session
       (PR_ChatCompletions chat_request_default) [] None ''openai/gpt'' [''openai/gpt'', ''groq/llama'']
       (foldl (mem_step list_lru) (mem_new list_lru 100) []) = (Inr (''openai/gpt'', [''openai/gpt'', ''groq/llama'']), s1)"
    using idle_choice [of 10 20] by force
  have "fst (choose_upstream idle_env sample_service (memory_cache list_lru) 50 60 client_session
       (PR_ChatCompletions chat_request_default) [] None ''groq/llama'' [''groq/llama'']
       (foldl (mem_step list_lru) s1 [CPut 30 ''s2'' (route_of ''x'') 9, CTick 40])) = Inr (''openai/gpt'', [''openai/gpt''])"
    by (rule session_sticks [OF list_lru.memory_session_cache_axioms s1, where K = "{''s2''}" and k = "''s1''" and sid = "''s1''"])
      (simp_all add: empty_cache_pins_nothing client_session_def session_key_def mem_capacity_def)
  with s1 show ?thesis by auto
qed

theorem internal_call_repins_witness:
  "\<exists>s1. choose_upstream idle_env sample_service (memory_cache list_lru) 10 20 (client_session\<lparr>sx_internal := True\<rparr>)
       (PR_ChatCompletions chat_request_default) [] None ''openai/gpt'' [''openai/gpt'', ''groq/llama'']
       (foldl (mem_step list_lru) (mem_new list_lru 100) [CPut 1 ''s1'' (route_of ''pinned'') 99]) =
         (Inr (''openai/gpt'', [''openai/gpt'', ''groq/llama'']), s1) \<and>
     fst (choose_upstream idle_env sample_service (memory_cache list_lru) 50 60 client_session
       (PR_ChatCompletions chat_request_default) [] None ''x'' [] s1) = Inr (''openai/gpt'', [''openai/gpt''])"
proof -
  let ?ctx = "client_session\<lparr>sx_internal := True\<rparr>"
  have "\<exists>s1. choose_upstream idle_env sample_service (memory_cache list_lru) 10 20 ?ctx
       (PR_ChatCompletions chat_request_default) [] None ''openai/gpt'' [''openai/gpt'', ''groq/llama''] s =
         (Inr (''openai/gpt'', [''openai/gpt'', ''groq/llama'']), s1)" for s
    by (simp add: choose_upstream_def pinned_route_def route_request_def idle_route upstream_candidates_def)
  then obtain s1 where s1: "choose_upstream idle_env sample_service (memory_cache list_lru) 10 20 ?ctx
       (PR_ChatCompletions chat_request_default) [] None ''openai/gpt'' [''openai/gpt'', ''groq/llama'']
       (foldl (mem_step list_lru) (mem_new list_lru 100) [CPut 1 ''s1'' (route_of ''pinned'') 99]) =
         (Inr (''openai/gpt'', [''openai/gpt'', ''groq/llama'']), s1)" by blast
  have "fst (choose_upstream idle_env sample_service (memory_cache list_lru) 50 60 (?ctx\<lparr>sx_internal := False\<rparr>)
       (PR_ChatCompletions chat_request_default) [] None ''x'' [] s1) = Inr (''openai/gpt'', [''openai/gpt''])"
    by (rule internal_call_repins [OF list_lru.memory_session_cache_axioms s1, where sid = "''s1''"])
      (simp_all add: client_session_def mem_capacity_def)
  with s1 show ?thesis by (auto simp: client_session_def)
qed

definition sample_raw :: string where "sample_raw = print_json (JObject [])"

definition open_codec :: request_codec where
  "open_codec = sample_request_codec\<lparr>parse_chat_request := (\<lambda>_. Inr chat_request_default)\<rparr>"

theorem routing_endpoint_pins_none_witness:
  "\<exists>s1. routing_decision idle_env open_codec sample_service (memory_cache list_lru) 10 20 client_session
       CHAT_COMPLETIONS_PATH ''00-abc-0-01'' [] sample_raw (mem_new list_lru 100) =
         (Some (200, json_print escaped_json (decision_to_json [''none''] None ''abc'' (Some ''s1'') False)), s1) \<and>
     fst (choose_upstream idle_env sample_service (memory_cache list_lru) 50 60 client_session
       (PR_ChatCompletions chat_request_default) [] None ''openai/gpt'' [''openai/gpt''] s1) = Inr (''none'', [''none''])"
proof -
  have raw: "json_parse escaped_json sample_raw = Inr (JObject [])"
    using json_codec_okD [OF escaped_json_ok, of "JObject []"] by (simp add: sample_raw_def escaped_json_def)
  have tr: "trace_id_of ''00-abc-0-01'' = ''abc''" by (simp add: trace_id_of_def)
  have codec: "rc_json open_codec = escaped_json" by (simp add: open_codec_def sample_request_codec_def)
  have client_chat: "client_from_endpoint CHAT_COMPLETIONS_PATH = Some (C_OpenAIChatCompletions ChatCompletions)"
    by (simp add: client_from_endpoint_def openai_from_endpoint_def)
  have parsed: "request_of_bytes open_codec b (C_OpenAIChatCompletions ChatCompletions) =
      Inr (PR_ChatCompletions chat_request_default)" for b
    by (simp add: request_of_bytes.simps open_codec_def parse_chat_def suppress_max_tokens_if_o3_def
        fix_temperature_if_gpt5_def chat_request_default_def starts_with_def)
  have ctx: "sx_session client_session = Some ''s1''" "sx_tenant client_session = None"
      "\<not> sx_internal client_session"
    by (simp_all add: client_session_def)
  have miss: "get_cached_route (memory_cache list_lru) 10 ''s1'' (sx_tenant client_session) (mem_new list_lru 100) =
      (None, mem_new list_lru 100)"
    by (simp add: mem_new_def mem_get_def list_lru_def promote_def)
  have policy: "extract_routing_policy (rc_json open_codec) sample_raw = Inr (json_print escaped_json (JObject []), None)"
    by (simp add: codec extract_routing_policy_def raw)
  have "\<exists>s1. routing_decision idle_env open_codec sample_service (memory_cache list_lru) 10 20 client_session
       CHAT_COMPLETIONS_PATH ''00-abc-0-01'' [] sample_raw (mem_new list_lru 100) =
         (Some (200, json_print escaped_json (decision_to_json [''none''] None ''abc'' (Some ''s1'') False)), s1)"
    using routing_decision_routed [OF ctx(1) miss policy client_chat parsed idle_route]
    by (simp add: tr codec)
  then obtain s1 where s1: "routing_decision idle_env open_codec sample_service (memory_cache list_lru) 10 20 client_session
       CHAT_COMPLETIONS_PATH ''00-abc-0-01'' [] sample_raw (foldl (mem_step list_lru) (mem_new list_lru 100) []) =
         (Some (200, json_print (rc_json open_codec) (decision_to_json [''none''] None (trace_id_of ''00-abc-0-01'') (Some ''s1'') False)), s1)"
    by (auto simp: tr codec)
  have "fst (choose_upstream idle_env sample_service (memory_cache list_lru) 50 60 client_session
       (PR_ChatCompletions chat_request_default) [] None ''openai/gpt'' [''openai/gpt''] s1) = Inr (''none'', [''none''])"
    by (rule routing_endpoint_pins_none [OF list_lru.memory_session_cache_axioms s1])
      (simp_all add: client_session_def mem_capacity_def codec)
  with s1 show ?thesis by (auto simp: tr codec)
qed

theorem routing_decision_answers_witness:
  "dispatch M_POST ''/routing/v1/messages'' = H_RoutingDecision MESSAGES_PATH \<and>
   (\<exists>status body. fst (routing_decision idle_env open_codec sample_service (memory_cache list_lru) 1 2 client_session
      MESSAGES_PATH [] [] ''x'' (mem_new list_lru 3)) = Some (status, body) \<and> status \<in> {200, 400, 500})"
proof -
  have d: "dispatch M_POST ''/routing/v1/messages'' = H_RoutingDecision MESSAGES_PATH"
    by (simp add: dispatch_def llm_suffix_def strip_prefix_def starts_with_def is_llm_path_def
        MESSAGES_PATH_def AGENT_CHAT_RESUME_PATH_def)
  show ?thesis by (intro conjI d routing_decision_answers [OF d])
qed

theorem routing_policy_extracted_witness:
  "\<exists>body m'. extract_routing_policy escaped_json
       (json_print escaped_json (JObject [(''model'', JString ''m''), (''routing_preferences'', JArray [])])) =
         Inr (body, Some []) \<and>
     json_parse escaped_json body = Inr (JObject m') \<and> map_of m' ''model'' = Some (JString ''m'') \<and>
     map_of m' ''routing_preferences'' = None"
proof -
  let ?m = "[(''model'', JString ''m''), (''routing_preferences'', JArray [])]"
  have "json_parse escaped_json (json_print escaped_json (JObject ?m)) = Inr (JObject ?m)"
    by (rule json_codec_okD [OF escaped_json_ok])
  moreover have "distinct (map fst ?m)" by simp
  ultimately obtain body m' where
      "extract_routing_policy escaped_json (json_print escaped_json (JObject ?m)) =
         Inr (body, Option.bind (map_of ?m ROUTING_PREFERENCES) routing_preferences_of_json)"
      "json_parse escaped_json body = Inr (JObject m')"
      "\<forall>k. map_of m' k = (if k = ROUTING_PREFERENCES then None else map_of ?m k)"
    using routing_policy_extracted [OF escaped_json_ok] by blast
  then show ?thesis
    by (intro exI [of _ body] exI [of _ m'])
      (simp add: ROUTING_PREFERENCES_def routing_preferences_of_json_def)
qed

end
