(* ===== verification/Prompt_Types.thy ===== *)
theory Prompt_Types
  imports Conversation_Items Chat_Json Json_Value "HOL-Library.Multiset"
begin

section \<open>Prompt gateway: data types\<close>

text \<open>
  The request and response types of the prompt gateway (\<open>crates/common/src/api/open_ai.rs\<close>), its
  prompt targets (\<open>configuration.rs\<close>) and errors (\<open>errors.rs\<close>), with the JSON form that serde
  derives. A hash map is the association list of its entries; where it is iterated after
  insertions, the order of the keys is a parameter.
\<close>

subsection \<open>Hash maps and fields\<close>

definition hash_of :: "(string \<times> 'a) list \<Rightarrow> (string \<times> 'a) list" where
  "hash_of kvs = foldl (\<lambda>m (k, v). AList.update k v m) [] kvs"

definition hash_entries :: "(string list \<Rightarrow> string list) \<Rightarrow> (string \<times> 'a) list \<Rightarrow> (string \<times> 'a) list" where
  "hash_entries ord m = map (\<lambda>k. (k, the (map_of m k))) (ord (map fst m))"

definition order_ok :: "(string list \<Rightarrow> string list) \<Rightarrow> bool" where
  "order_ok ord \<longleftrightarrow> (\<forall>ks. mset (ord ks) = mset ks)"

lemma order_okD: "order_ok ord \<Longrightarrow> set (ord ks) = set ks" "order_ok ord \<Longrightarrow> distinct (ord ks) = distinct ks"
  unfolding order_ok_def by (metis set_mset_mset) (metis mset_eq_imp_distinct_iff)

lemma map_of_keys: "map_of (map (\<lambda>k. (k, f k)) ks) x = (if x \<in> set ks then Some (f x) else None)"
  by (induction ks) auto

lemma map_of_hash_entries:
  assumes "order_ok ord"
  shows "map_of (hash_entries ord m) = map_of m"
proof
  fix x
  have "map_of (hash_entries ord m) x = (if x \<in> set (map fst m) then Some (the (map_of m x)) else None)"
    by (simp add: hash_entries_def map_of_keys order_okD [OF assms])
  also have "\<dots> = map_of m x"
    using map_of_eq_None_iff [of m x] by (cases "map_of m x") simp_all
  finally show "map_of (hash_entries ord m) x = map_of m x" .
qed

lemma keys_hash_entries [simp]: "map fst (hash_entries ord m) = ord (map fst m)"
  by (simp add: hash_entries_def comp_def)

lemma hash_of_snoc: "hash_of (kvs @ [(k, v)]) = AList.update k v (hash_of kvs)"
  by (simp add: hash_of_def)

lemma map_of_hash_of: "map_of (hash_of kvs) = map_of (rev kvs)"
  by (induction kvs rule: rev_induct) (auto simp: hash_of_def update_conv')

lemma distinct_hash_of [simp]: "distinct (map fst (hash_of kvs))"
  by (induction kvs rule: rev_induct) (auto simp: hash_of_def distinct_update)

lemma update_new: "k \<notin> fst ` set m \<Longrightarrow> AList.update k v m = m @ [(k, v)]"
  by (induction m) auto

lemma hash_of_distinct: "distinct (map fst kvs) \<Longrightarrow> hash_of kvs = kvs"
proof (induction kvs rule: rev_induct)
  case (snoc kv kvs)
  then show ?case by (cases kv) (auto simp: hash_of_snoc update_new)
qed (simp add: hash_of_def)

definition de_field :: "(json \<Rightarrow> 'a option) \<Rightarrow> (string \<times> json) list \<Rightarrow> string \<Rightarrow> 'a option" where
  "de_field f m k = Option.bind (map_of m k) f"

definition de_opt :: "(json \<Rightarrow> 'a option) \<Rightarrow> (string \<times> json) list \<Rightarrow> string \<Rightarrow> 'a option option" where
  "de_opt f m k =
     (case map_of m k of None \<Rightarrow> Some None | Some v \<Rightarrow> (if v = JNull then Some None else map_option Some (f v)))"

definition de_default :: "'a \<Rightarrow> (json \<Rightarrow> 'a option) \<Rightarrow> (string \<times> json) list \<Rightarrow> string \<Rightarrow> 'a option" where
  "de_default d f m k = (case map_of m k of None \<Rightarrow> Some d | Some v \<Rightarrow> f v)"

definition de_list :: "(json \<Rightarrow> 'a option) \<Rightarrow> json \<Rightarrow> 'a list option" where
  "de_list f j = (case j of JArray vs \<Rightarrow> option_all (map f vs) | _ \<Rightarrow> None)"

definition de_map :: "(json \<Rightarrow> 'a option) \<Rightarrow> json \<Rightarrow> (string \<times> 'a) list option" where
  "de_map f j =
     (case j of
        JObject m \<Rightarrow> map_option hash_of (option_all (map (\<lambda>(k, v). map_option (Pair k) (f v)) m))
      | _ \<Rightarrow> None)"

text \<open>A unit variant: its name, or an object with the name and null.\<close>

definition unit_variant :: "json \<Rightarrow> string option" where
  "unit_variant j =
     (case j of JString s \<Rightarrow> Some s | JObject [(s, JNull)] \<Rightarrow> Some s | _ \<Rightarrow> None)"

subsection \<open>Messages\<close>

datatype tool_type = TT_Function

record gw_function_call =
  gf_name :: string
  gf_arguments :: string

record gw_tool_call =
  gtc_id :: string
  gtc_tool_type :: tool_type
  gtc_function :: gw_function_call

datatype multi_part_content_type = MPT_Text | MPT_ImageUrl

record multi_part_content =
  mpc_text :: "string option"
  mpc_content_type :: multi_part_content_type

datatype content_type = CT_Text string | CT_MultiPart "multi_part_content list"

fun content_display :: "content_type \<Rightarrow> string" where
  "content_display (CT_Text t) = t"
| "content_display (CT_MultiPart ps) =
     join [nl] (List.map_filter (\<lambda>p. if mpc_content_type p = MPT_Text then mpc_text p else None) ps)"

record gw_message =
  gm_role :: string
  gm_content :: "content_type option"
  gm_model :: "string option"
  gm_tool_calls :: "gw_tool_call list option"
  gm_tool_call_id :: "string option"

definition SYSTEM_ROLE :: string where "SYSTEM_ROLE = ''system''"
definition USER_ROLE :: string where "USER_ROLE = ''user''"
definition TOOL_ROLE :: string where "TOOL_ROLE = ''tool''"
definition ASSISTANT_ROLE :: string where "ASSISTANT_ROLE = ''assistant''"
definition ARCH_FC_MODEL_NAME :: string where "ARCH_FC_MODEL_NAME = ''Arch-Function''"

definition gw_message_new :: "string \<Rightarrow> string \<Rightarrow> gw_message" where
  "gw_message_new role content = \<lparr>gm_role = role, gm_content = Some (CT_Text content), gm_model = None,
     gm_tool_calls = None, gm_tool_call_id = None\<rparr>"

definition gw_message_default :: gw_message where
  "gw_message_default = \<lparr>gm_role = ASSISTANT_ROLE, gm_content = None, gm_model = None,
     gm_tool_calls = None, gm_tool_call_id = None\<rparr>"

subsection \<open>Tools\<close>

datatype parameter_type = PT_Int | PT_Float | PT_Bool | PT_String | PT_List | PT_Dict

definition parameter_type_of :: "string \<Rightarrow> parameter_type" where
  "parameter_type_of s =
     (if s = ''int'' \<or> s = ''integer'' then PT_Int
      else if s = ''float'' then PT_Float
      else if s = ''bool'' \<or> s = ''boolean'' then PT_Bool
      else if s = ''str'' \<or> s = ''string'' then PT_String
      else if s = ''list'' \<or> s = ''array'' then PT_List
      else if s = ''dict'' \<or> s = ''dictionary'' then PT_Dict
      else PT_String)"

record function_parameter =
  fp_parameter_type :: parameter_type
  fp_description :: string
  fp_required :: "bool option"
  fp_enum_values :: "string list option"
  fp_default :: "string option"
  fp_format :: "string option"

type_synonym function_parameters = "(string \<times> function_parameter) list"

record function_definition =
  fd_name :: string
  fd_description :: string
  fd_parameters :: function_parameters

record chat_completion_tool =
  cct_tool_type :: tool_type
  cct_function :: function_definition

record gw_request =
  gq_model :: string
  gq_messages :: "gw_message list"
  gq_tools :: "chat_completion_tool list option"
  gq_stream :: bool
  gq_stream_options :: "bool option"
  gq_metadata :: "(string \<times> string) list option"

record gw_choice =
  gch_finish_reason :: "string option"
  gch_index :: "nat option"
  gch_message :: gw_message

record gw_response =
  gres_usage :: "nat option"
  gres_choices :: "gw_choice list"
  gres_model :: string
  gres_metadata :: "(string \<times> string) list option"

definition gw_response_new :: "string \<Rightarrow> gw_response" where
  "gw_response_new message =
     \<lparr>gres_usage = None,
      gres_choices = [\<lparr>gch_finish_reason = Some ''done'', gch_index = Some 0,
        gch_message = (gw_message_new ASSISTANT_ROLE message)\<lparr>gm_model := Some ARCH_FC_MODEL_NAME\<rparr>\<rparr>],
      gres_model = ARCH_FC_MODEL_NAME, gres_metadata = None\<rparr>"

subsection \<open>Chunks of a streamed answer\<close>

record gw_delta =
  gd_role :: "string option"
  gd_content :: "string option"
  gd_tool_calls :: "gw_tool_call list option"
  gd_model :: "string option"
  gd_tool_call_id :: "string option"

record chunk_choice =
  gcc_delta :: gw_delta
  gcc_finish_reason :: "string option"

record gw_chunk =
  gk_model :: "string option"
  gk_choices :: "chunk_choice list"

definition gw_chunk_new ::
    "string option \<Rightarrow> string option \<Rightarrow> string option \<Rightarrow> gw_tool_call list option \<Rightarrow> gw_chunk" where
  "gw_chunk_new response role model tool_calls =
     \<lparr>gk_model = model,
      gk_choices = [\<lparr>gcc_delta = \<lparr>gd_role = role, gd_content = response, gd_tool_calls = tool_calls,
        gd_model = None, gd_tool_call_id = None\<rparr>, gcc_finish_reason = None\<rparr>]\<rparr>"

definition chunk_display :: "gw_chunk \<Rightarrow> string" where
  "chunk_display c =
     (case gk_choices c of [] \<Rightarrow> [] | ch # _ \<Rightarrow> (case gd_content (gcc_delta ch) of Some t \<Rightarrow> t | None \<Rightarrow> []))"

definition server_events_display :: "gw_chunk list \<Rightarrow> string" where
  "server_events_display events = concat (map chunk_display events)"

subsection \<open>State carried by the client\<close>

record tool_call_state =
  tcs_key :: string
  tcs_message :: "gw_message option"
  tcs_tool_call :: gw_function_call
  tcs_tool_response :: string

datatype arch_state = AS_ToolCall "tool_call_state list"


subsection \<open>The JSON that is sent\<close>

fun tool_type_name :: "tool_type \<Rightarrow> string" where
  "tool_type_name TT_Function = ''function''"

definition gw_function_call_to_json :: "gw_function_call \<Rightarrow> json" where
  "gw_function_call_to_json f = JObject [(''name'', JString (gf_name f)), (''arguments'', JString (gf_arguments f))]"

definition gw_tool_call_to_json :: "gw_tool_call \<Rightarrow> json" where
  "gw_tool_call_to_json c =
     JObject [(''id'', JString (gtc_id c)), (''type'', JString (tool_type_name (gtc_tool_type c))),
              (''function'', gw_function_call_to_json (gtc_function c))]"

fun multi_part_type_name :: "multi_part_content_type \<Rightarrow> string" where
  "multi_part_type_name MPT_Text = ''text''"
| "multi_part_type_name MPT_ImageUrl = ''image_url''"

definition opt_json :: "string option \<Rightarrow> json" where
  "opt_json x = (case x of None \<Rightarrow> JNull | Some s \<Rightarrow> JString s)"

definition multi_part_to_json :: "multi_part_content \<Rightarrow> json" where
  "multi_part_to_json p =
     JObject [(''text'', opt_json (mpc_text p)), (''type'', JString (multi_part_type_name (mpc_content_type p)))]"

fun content_to_json :: "content_type \<Rightarrow> json" where
  "content_to_json (CT_Text t) = JString t"
| "content_to_json (CT_MultiPart ps) = JArray (map multi_part_to_json ps)"

definition gw_message_to_json :: "gw_message \<Rightarrow> json" where
  "gw_message_to_json m =
     JObject ((''role'', JString (gm_role m))
       # opt_field ''content'' content_to_json (gm_content m)
       @ opt_field ''model'' JString (gm_model m)
       @ opt_field ''tool_calls'' (\<lambda>cs. JArray (map gw_tool_call_to_json cs)) (gm_tool_calls m)
       @ opt_field ''tool_call_id'' JString (gm_tool_call_id m))"

fun parameter_type_name :: "parameter_type \<Rightarrow> string" where
  "parameter_type_name PT_Int = ''int''"
| "parameter_type_name PT_Float = ''float''"
| "parameter_type_name PT_Bool = ''bool''"
| "parameter_type_name PT_String = ''str''"
| "parameter_type_name PT_List = ''list''"
| "parameter_type_name PT_Dict = ''dict''"

definition function_parameter_to_json :: "function_parameter \<Rightarrow> json" where
  "function_parameter_to_json p =
     JObject ([(''type'', JString (parameter_type_name (fp_parameter_type p))),
               (''description'', JString (fp_description p))]
       @ opt_field ''enum'' (\<lambda>vs. JArray (map JString vs)) (fp_enum_values p)
       @ opt_field ''default'' JString (fp_default p)
       @ opt_field ''format'' JString (fp_format p))"

definition function_parameters_to_json :: "(string list \<Rightarrow> string list) \<Rightarrow> function_parameters \<Rightarrow> json" where
  "function_parameters_to_json ord ps =
     (let entries = hash_entries ord ps;
          required = map fst (filter (\<lambda>(k, p). fp_required p = Some True) entries)
      in JObject ((''properties'', JObject (map (map_prod id function_parameter_to_json) entries))
           # (if required = [] then [] else [(''required'', JArray (map JString required))])))"

definition function_definition_to_json :: "(string list \<Rightarrow> string list) \<Rightarrow> function_definition \<Rightarrow> json" where
  "function_definition_to_json ord f =
     JObject [(''name'', JString (fd_name f)), (''description'', JString (fd_description f)),
              (''parameters'', function_parameters_to_json ord (fd_parameters f))]"

definition chat_completion_tool_to_json :: "(string list \<Rightarrow> string list) \<Rightarrow> chat_completion_tool \<Rightarrow> json" where
  "chat_completion_tool_to_json ord t =
     JObject [(''type'', JString (tool_type_name (cct_tool_type t))),
              (''function'', function_definition_to_json ord (cct_function t))]"

definition metadata_to_json :: "(string list \<Rightarrow> string list) \<Rightarrow> (string \<times> string) list \<Rightarrow> json" where
  "metadata_to_json ord m = JObject (map (map_prod id JString) (hash_entries ord m))"

definition gw_request_to_json :: "(string list \<Rightarrow> string list) \<Rightarrow> gw_request \<Rightarrow> json" where
  "gw_request_to_json ord r =
     JObject ([(''model'', JString (gq_model r)), (''messages'', JArray (map gw_message_to_json (gq_messages r)))]
       @ opt_field ''tools'' (\<lambda>ts. JArray (map (chat_completion_tool_to_json ord) ts)) (gq_tools r)
       @ [(''stream'', JBool (gq_stream r))]
       @ opt_field ''stream_options'' (\<lambda>b. JObject [(''include_usage'', JBool b)]) (gq_stream_options r)
       @ opt_field ''metadata'' (metadata_to_json ord) (gq_metadata r))"

definition gw_delta_to_json :: "gw_delta \<Rightarrow> json" where
  "gw_delta_to_json d =
     JObject (opt_field ''role'' JString (gd_role d) @ opt_field ''content'' JString (gd_content d)
       @ opt_field ''tool_calls'' (\<lambda>cs. JArray (map gw_tool_call_to_json cs)) (gd_tool_calls d)
       @ opt_field ''model'' JString (gd_model d) @ opt_field ''tool_call_id'' JString (gd_tool_call_id d))"

definition chunk_choice_to_json :: "chunk_choice \<Rightarrow> json" where
  "chunk_choice_to_json c =
     JObject [(''delta'', gw_delta_to_json (gcc_delta c)), (''finish_reason'', opt_json (gcc_finish_reason c))]"

definition gw_chunk_to_json :: "gw_chunk \<Rightarrow> json" where
  "gw_chunk_to_json c =
     JObject (opt_field ''model'' JString (gk_model c) @ [(''choices'', JArray (map chunk_choice_to_json (gk_choices c)))])"

definition to_server_events :: "json_codec \<Rightarrow> gw_chunk list \<Rightarrow> string" where
  "to_server_events c chunks =
     concat (map (\<lambda>k. ''data: '' @ json_print c (gw_chunk_to_json k) @ [nl, nl]) chunks)"


subsection \<open>Reading JSON\<close>

definition tool_type_of_json :: "json \<Rightarrow> tool_type option" where
  "tool_type_of_json j = (if unit_variant j = Some ''function'' then Some TT_Function else None)"

definition gw_function_call_of_json :: "json \<Rightarrow> gw_function_call option" where
  "gw_function_call_of_json j =
     Option.bind (struct_fields [''name'', ''arguments''] j) (\<lambda>m.
     Option.bind (de_field as_str m ''name'') (\<lambda>n.
     Option.bind (de_field as_str m ''arguments'') (\<lambda>a. Some \<lparr>gf_name = n, gf_arguments = a\<rparr>)))"

definition gw_tool_call_of_json :: "json \<Rightarrow> gw_tool_call option" where
  "gw_tool_call_of_json j =
     Option.bind (struct_fields [''id'', ''type'', ''function''] j) (\<lambda>m.
     Option.bind (de_field as_str m ''id'') (\<lambda>i.
     Option.bind (de_field tool_type_of_json m ''type'') (\<lambda>t.
     Option.bind (de_field gw_function_call_of_json m ''function'') (\<lambda>f.
     Some \<lparr>gtc_id = i, gtc_tool_type = t, gtc_function = f\<rparr>))))"

definition multi_part_type_of_json :: "json \<Rightarrow> multi_part_content_type option" where
  "multi_part_type_of_json j =
     (if unit_variant j = Some ''text'' then Some MPT_Text
      else if unit_variant j = Some ''image_url'' then Some MPT_ImageUrl else None)"

definition multi_part_of_json :: "json \<Rightarrow> multi_part_content option" where
  "multi_part_of_json j =
     Option.bind (struct_fields [''text'', ''type''] j) (\<lambda>m.
     Option.bind (de_opt as_str m ''text'') (\<lambda>t.
     Option.bind (de_field multi_part_type_of_json m ''type'') (\<lambda>ty.
     Some \<lparr>mpc_text = t, mpc_content_type = ty\<rparr>)))"

definition content_of_json :: "json \<Rightarrow> content_type option" where
  "content_of_json j =
     (case j of JString t \<Rightarrow> Some (CT_Text t) | _ \<Rightarrow> map_option CT_MultiPart (de_list multi_part_of_json j))"

definition gw_message_of_json :: "json \<Rightarrow> gw_message option" where
  "gw_message_of_json j =
     Option.bind (struct_fields [''role'', ''content'', ''model'', ''tool_calls'', ''tool_call_id''] j) (\<lambda>m.
     Option.bind (de_field as_str m ''role'') (\<lambda>r.
     Option.bind (de_opt content_of_json m ''content'') (\<lambda>c.
     Option.bind (de_opt as_str m ''model'') (\<lambda>md.
     Option.bind (de_opt (de_list gw_tool_call_of_json) m ''tool_calls'') (\<lambda>tcs.
     Option.bind (de_opt as_str m ''tool_call_id'') (\<lambda>i.
     Some \<lparr>gm_role = r, gm_content = c, gm_model = md, gm_tool_calls = tcs, gm_tool_call_id = i\<rparr>))))))"

definition parameter_type_of_json :: "json \<Rightarrow> parameter_type option" where
  "parameter_type_of_json j =
     Option.bind (unit_variant j) (\<lambda>s.
       if s = ''int'' then Some PT_Int else if s = ''float'' then Some PT_Float
       else if s = ''bool'' then Some PT_Bool else if s = ''str'' then Some PT_String
       else if s = ''list'' then Some PT_List else if s = ''dict'' then Some PT_Dict else None)"

definition function_parameter_of_json :: "json \<Rightarrow> function_parameter option" where
  "function_parameter_of_json j =
     Option.bind (struct_fields [''type'', ''description'', ''required'', ''enum'', ''default'', ''format''] j) (\<lambda>m.
     Option.bind (de_default PT_String parameter_type_of_json m ''type'') (\<lambda>t.
     Option.bind (de_field as_str m ''description'') (\<lambda>d.
     Option.bind (de_opt as_bool m ''required'') (\<lambda>r.
     Option.bind (de_opt (de_list as_str) m ''enum'') (\<lambda>e.
     Option.bind (de_opt as_str m ''default'') (\<lambda>df.
     Option.bind (de_opt as_str m ''format'') (\<lambda>f.
     Some \<lparr>fp_parameter_type = t, fp_description = d, fp_required = r, fp_enum_values = e, fp_default = df,
       fp_format = f\<rparr>)))))))"

definition function_parameters_of_json :: "json \<Rightarrow> function_parameters option" where
  "function_parameters_of_json j =
     Option.bind (struct_fields [''properties''] j) (\<lambda>m. de_field (de_map function_parameter_of_json) m ''properties'')"

definition function_definition_of_json :: "json \<Rightarrow> function_definition option" where
  "function_definition_of_json j =
     Option.bind (struct_fields [''name'', ''description'', ''parameters''] j) (\<lambda>m.
     Option.bind (de_field as_str m ''name'') (\<lambda>n.
     Option.bind (de_field as_str m ''description'') (\<lambda>d.
     Option.bind (de_field function_parameters_of_json m ''parameters'') (\<lambda>p.
     Some \<lparr>fd_name = n, fd_description = d, fd_parameters = p\<rparr>))))"

definition chat_completion_tool_of_json :: "json \<Rightarrow> chat_completion_tool option" where
  "chat_completion_tool_of_json j =
     Option.bind (struct_fields [''type'', ''function''] j) (\<lambda>m.
     Option.bind (de_field tool_type_of_json m ''type'') (\<lambda>t.
     Option.bind (de_field function_definition_of_json m ''function'') (\<lambda>f.
     Some \<lparr>cct_tool_type = t, cct_function = f\<rparr>)))"

definition stream_options_of_json :: "json \<Rightarrow> bool option" where
  "stream_options_of_json j =
     Option.bind (struct_fields [''include_usage''] j) (\<lambda>m. de_field as_bool m ''include_usage'')"

definition gw_request_of_json :: "json \<Rightarrow> gw_request option" where
  "gw_request_of_json j =
     Option.bind (struct_fields [''model'', ''messages'', ''tools'', ''stream'', ''stream_options'', ''metadata''] j) (\<lambda>m.
     Option.bind (de_default [] as_str m ''model'') (\<lambda>md.
     Option.bind (de_field (de_list gw_message_of_json) m ''messages'') (\<lambda>ms.
     Option.bind (de_opt (de_list chat_completion_tool_of_json) m ''tools'') (\<lambda>ts.
     Option.bind (de_default False as_bool m ''stream'') (\<lambda>s.
     Option.bind (de_opt stream_options_of_json m ''stream_options'') (\<lambda>so.
     Option.bind (de_opt (de_map as_str) m ''metadata'') (\<lambda>meta.
     Some \<lparr>gq_model = md, gq_messages = ms, gq_tools = ts, gq_stream = s, gq_stream_options = so,
       gq_metadata = meta\<rparr>)))))))"

text \<open>\<open>usize\<close> has 32 bits in the WebAssembly module.\<close>

definition usize_of_json :: "json \<Rightarrow> nat option" where
  "usize_of_json j = Option.bind (json_int j) (\<lambda>i. if 0 \<le> i \<and> i < 2 ^ 32 then Some (nat i) else None)"

definition gw_choice_of_json :: "json \<Rightarrow> gw_choice option" where
  "gw_choice_of_json j =
     Option.bind (struct_fields [''finish_reason'', ''index'', ''message''] j) (\<lambda>m.
     Option.bind (de_opt as_str m ''finish_reason'') (\<lambda>f.
     Option.bind (de_opt usize_of_json m ''index'') (\<lambda>i.
     Option.bind (de_field gw_message_of_json m ''message'') (\<lambda>msg.
     Some \<lparr>gch_finish_reason = f, gch_index = i, gch_message = msg\<rparr>))))"

definition gw_usage_of_json :: "json \<Rightarrow> nat option" where
  "gw_usage_of_json j =
     Option.bind (struct_fields [''completion_tokens''] j) (\<lambda>m. de_field usize_of_json m ''completion_tokens'')"

definition gw_response_of_json :: "json \<Rightarrow> gw_response option" where
  "gw_response_of_json j =
     Option.bind (struct_fields [''usage'', ''choices'', ''model'', ''metadata''] j) (\<lambda>m.
     Option.bind (de_opt gw_usage_of_json m ''usage'') (\<lambda>u.
     Option.bind (de_field (de_list gw_choice_of_json) m ''choices'') (\<lambda>cs.
     Option.bind (de_field as_str m ''model'') (\<lambda>md.
     Option.bind (de_opt (de_map as_str) m ''metadata'') (\<lambda>meta.
     Some \<lparr>gres_usage = u, gres_choices = cs, gres_model = md, gres_metadata = meta\<rparr>)))))"


definition tool_call_state_of_json :: "json \<Rightarrow> tool_call_state option" where
  "tool_call_state_of_json j =
     Option.bind (struct_fields [''key'', ''message'', ''tool_call'', ''tool_response''] j) (\<lambda>m.
     Option.bind (de_field as_str m ''key'') (\<lambda>k.
     Option.bind (de_opt gw_message_of_json m ''message'') (\<lambda>msg.
     Option.bind (de_field gw_function_call_of_json m ''tool_call'') (\<lambda>tc.
     Option.bind (de_field as_str m ''tool_response'') (\<lambda>r.
     Some \<lparr>tcs_key = k, tcs_message = msg, tcs_tool_call = tc, tcs_tool_response = r\<rparr>)))))"

definition arch_state_of_json :: "json \<Rightarrow> arch_state option" where
  "arch_state_of_json j = map_option AS_ToolCall (de_list tool_call_state_of_json j)"

definition gw_delta_of_json :: "json \<Rightarrow> gw_delta option" where
  "gw_delta_of_json j =
     Option.bind (struct_fields [''role'', ''content'', ''tool_calls'', ''model'', ''tool_call_id''] j) (\<lambda>m.
     Option.bind (de_opt as_str m ''role'') (\<lambda>r.
     Option.bind (de_opt as_str m ''content'') (\<lambda>c.
     Option.bind (de_opt (de_list gw_tool_call_of_json) m ''tool_calls'') (\<lambda>tcs.
     Option.bind (de_opt as_str m ''model'') (\<lambda>md.
     Option.bind (de_opt as_str m ''tool_call_id'') (\<lambda>i.
     Some \<lparr>gd_role = r, gd_content = c, gd_tool_calls = tcs, gd_model = md, gd_tool_call_id = i\<rparr>))))))"

definition chunk_choice_of_json :: "json \<Rightarrow> chunk_choice option" where
  "chunk_choice_of_json j =
     Option.bind (struct_fields [''delta'', ''finish_reason''] j) (\<lambda>m.
     Option.bind (de_field gw_delta_of_json m ''delta'') (\<lambda>d.
     Option.bind (de_opt as_str m ''finish_reason'') (\<lambda>f. Some \<lparr>gcc_delta = d, gcc_finish_reason = f\<rparr>)))"

definition gw_chunk_of_json :: "json \<Rightarrow> gw_chunk option" where
  "gw_chunk_of_json j =
     Option.bind (struct_fields [''model'', ''choices''] j) (\<lambda>m.
     Option.bind (de_opt as_str m ''model'') (\<lambda>md.
     Option.bind (de_field (de_list chunk_choice_of_json) m ''choices'') (\<lambda>cs.
     Some \<lparr>gk_model = md, gk_choices = cs\<rparr>)))"

text \<open>The chunks of a stream; a line that is no chunk is an error.\<close>

definition PING :: string where
  "PING = ''data: {'' @ [CHR 0x22] @ ''type'' @ [CHR 0x22] @ '': '' @ [CHR 0x22] @ ''ping'' @ [CHR 0x22] @ ''}''"

definition data_lines :: "string \<Rightarrow> string list" where
  "data_lines s =
     filter (\<lambda>d. d \<noteq> ''[DONE]'')
       (map (drop 6) (filter (\<lambda>l. starts_with l ''data: '' \<and> \<not> starts_with l PING) (str_lines s)))"

definition server_events_of_string :: "json_codec \<Rightarrow> string \<Rightarrow> gw_chunk list option" where
  "server_events_of_string c s =
     option_all (map (\<lambda>d. case json_parse c d of Inl _ \<Rightarrow> None | Inr j \<Rightarrow> gw_chunk_of_json j) (data_lines s))"

subsection \<open>Prompt targets\<close>

datatype endpoint_method = EM_Get | EM_Post

fun endpoint_method_display :: "endpoint_method \<Rightarrow> string" where
  "endpoint_method_display EM_Get = ''GET''"
| "endpoint_method_display EM_Post = ''POST''"

record target_parameter =
  tp_name :: string
  tp_parameter_type :: "string option"
  tp_description :: string
  tp_required :: "bool option"
  tp_enum_values :: "string list option"
  tp_default :: "string option"
  tp_in_path :: "bool option"
  tp_format :: "string option"

record endpoint_details =
  ed_name :: string
  ed_path :: "string option"
  ed_method :: "endpoint_method option"
  ed_http_headers :: "(string \<times> string) list option"

record prompt_target =
  pt_name :: string
  pt_default :: "bool option"
  pt_description :: string
  pt_endpoint :: "endpoint_details option"
  pt_parameters :: "target_parameter list option"
  pt_system_prompt :: "string option"
  pt_auto_llm_dispatch_on_response :: "bool option"

definition function_parameter_of :: "target_parameter \<Rightarrow> function_parameter" where
  "function_parameter_of p =
     \<lparr>fp_parameter_type = parameter_type_of (case tp_parameter_type p of Some t \<Rightarrow> t | None \<Rightarrow> ''str''),
      fp_description = tp_description p, fp_required = tp_required p, fp_enum_values = tp_enum_values p,
      fp_default = tp_default p, fp_format = tp_format p\<rparr>"

definition tool_of_target :: "prompt_target \<Rightarrow> chat_completion_tool" where
  "tool_of_target t =
     \<lparr>cct_tool_type = TT_Function,
      cct_function = \<lparr>fd_name = pt_name t, fd_description = pt_description t,
        fd_parameters = (case pt_parameters t of
            Some ps \<Rightarrow> hash_of (map (\<lambda>p. (tp_name p, function_parameter_of p)) ps)
          | None \<Rightarrow> [])\<rparr>\<rparr>"

text \<open>The overrides that the prompt gateway reads.\<close>

record gw_overrides =
  ov_optimize_context_window :: "bool option"
  ov_use_agent_orchestrator :: "bool option"

subsection \<open>Errors\<close>

record client_error =
  ce_upstream_name :: string
  ce_path :: string
  ce_internal_status :: string

definition client_error_display :: "client_error \<Rightarrow> string" where
  "client_error_display e =
     ''Error dispatching HTTP call to `'' @ ce_upstream_name e @ ''/'' @ ce_path e @ ''`, error: ''
       @ ce_internal_status e"

datatype server_error =
    SE_HttpDispatch client_error
  | SE_Deserialization string
  | SE_Serialization string
  | SE_LogicError string
  | SE_Upstream string string string string
  | SE_Jailbreak string
  | SE_NoMessagesFound string
  | SE_ExceededRatelimit string
  | SE_BadRequest string
  | SE_Streaming string
  | SE_OpenAI string

fun server_error_display :: "server_error \<Rightarrow> string" where
  "server_error_display (SE_HttpDispatch e) = client_error_display e"
| "server_error_display (SE_Deserialization e) = e"
| "server_error_display (SE_Serialization e) = e"
| "server_error_display (SE_LogicError t) = t"
| "server_error_display (SE_Upstream host path status body) =
     ''upstream application error host='' @ host @ '', path='' @ path @ '', status='' @ status @ '', body='' @ body"
| "server_error_display (SE_Jailbreak t) = ''jailbreak detected: '' @ t"
| "server_error_display (SE_NoMessagesFound why) = why"
| "server_error_display (SE_ExceededRatelimit e) = e"
| "server_error_display (SE_BadRequest why) = why"
| "server_error_display (SE_Streaming e) = ''error in streaming response''"
| "server_error_display (SE_OpenAI e) = ''error parsing openai message: '' @ e"


subsection \<open>Round trips\<close>

named_theorems json_simps \<open>reading what was written\<close>

lemma option_all_total: "\<forall>x \<in> set xs. f x = Some (g x) \<Longrightarrow> option_all (map f xs) = Some (map g xs)"
  by (induction xs) auto

lemma de_list_map: "(\<And>x. f (g x) = Some x) \<Longrightarrow> de_list f (JArray (map g xs)) = Some xs"
  by (simp add: de_list_def comp_def option_all_total [where g = "\<lambda>x. x"])

lemma unit_variant_JString [simp]: "unit_variant (JString s) = Some s"
  by (simp add: unit_variant_def)

lemma tool_type_json [json_simps]: "tool_type_of_json (JString (tool_type_name t)) = Some t"
  by (cases t) (simp add: tool_type_of_json_def)

lemma gw_function_call_json [json_simps]: "gw_function_call_of_json (gw_function_call_to_json f) = Some f"
  by (simp add: gw_function_call_of_json_def gw_function_call_to_json_def de_field_def)

lemma gw_tool_call_json [json_simps]: "gw_tool_call_of_json (gw_tool_call_to_json c) = Some c"
  by (simp add: gw_tool_call_of_json_def gw_tool_call_to_json_def de_field_def json_simps)

lemma multi_part_json [json_simps]: "multi_part_of_json (multi_part_to_json p) = Some p"
  by (cases p; cases "mpc_content_type p")
    (auto simp: multi_part_of_json_def multi_part_to_json_def de_field_def de_opt_def opt_json_def
        multi_part_type_of_json_def split: option.split)

lemma content_json [json_simps]: "content_of_json (content_to_json c) = Some c"
  by (cases c) (simp_all add: content_of_json_def de_list_map [OF multi_part_json])

lemma content_not_null [simp]: "content_to_json c \<noteq> JNull"
  by (cases c) simp_all

lemma gw_message_json [json_simps]: "gw_message_of_json (gw_message_to_json m) = Some m"
  by (cases "gm_content m"; cases "gm_model m"; cases "gm_tool_calls m"; cases "gm_tool_call_id m")
    (simp_all add: gw_message_of_json_def gw_message_to_json_def de_field_def de_opt_def opt_field_def json_simps
        de_list_map [OF gw_tool_call_json])

lemma gw_delta_json [json_simps]: "gw_delta_of_json (gw_delta_to_json d) = Some d"
  by (cases "gd_role d"; cases "gd_content d"; cases "gd_model d"; cases "gd_tool_calls d"; cases "gd_tool_call_id d")
    (simp_all add: gw_delta_of_json_def gw_delta_to_json_def de_opt_def opt_field_def de_list_map [OF gw_tool_call_json])

lemma chunk_choice_json [json_simps]: "chunk_choice_of_json (chunk_choice_to_json c) = Some c"
  by (cases "gcc_finish_reason c")
    (simp_all add: chunk_choice_of_json_def chunk_choice_to_json_def de_field_def de_opt_def opt_json_def json_simps)

lemma gw_chunk_json [json_simps]: "gw_chunk_of_json (gw_chunk_to_json c) = Some c"
  by (cases "gk_model c")
    (simp_all add: gw_chunk_of_json_def gw_chunk_to_json_def de_field_def de_opt_def opt_field_def
        de_list_map [OF chunk_choice_json])

lemma de_map_strings: "distinct (map fst m) \<Longrightarrow> de_map as_str (JObject (map (map_prod id JString) m)) = Some m"
  using option_all_total [where xs = m and f = "\<lambda>(k, v). Some (k, v)" and g = "\<lambda>x. x"]
  by (simp add: de_map_def comp_def case_prod_beta hash_of_distinct)

lemma stream_options_json [json_simps]: "stream_options_of_json (JObject [(''include_usage'', JBool b)]) = Some b"
  by (simp add: stream_options_of_json_def de_field_def)

text \<open>A request without tools is read as it was written, its metadata in the order of their iteration.\<close>

lemma gw_request_json:
  assumes "gq_tools r = None" "\<forall>m. gq_metadata r = Some m \<longrightarrow> distinct (map fst m)" "order_ok ord"
  shows "gw_request_of_json (gw_request_to_json ord r) =
    Some (r\<lparr>gq_metadata := map_option (hash_entries ord) (gq_metadata r)\<rparr>)"
proof -
  have "de_map as_str (metadata_to_json ord m) = Some (hash_entries ord m)" if "gq_metadata r = Some m" for m
    unfolding metadata_to_json_def using that assms by (intro de_map_strings) (simp add: order_okD)
  moreover have "metadata_to_json ord m \<noteq> JNull" for m by (simp add: metadata_to_json_def)
  ultimately show ?thesis
    using assms(1)
    by (cases "gq_metadata r"; cases "gq_stream_options r")
      (simp_all add: gw_request_of_json_def gw_request_to_json_def de_field_def de_opt_def de_default_def
        opt_field_def stream_options_json de_list_map [OF gw_message_json])
qed

text \<open>
  The parameters of a tool lose which of them are required: they are written as one list beside
  the properties, but read from the properties.
\<close>

theorem required_parameters_lost:
  assumes "distinct (map fst ps)" "order_ok ord"
  shows "function_parameters_of_json (function_parameters_to_json ord ps) =
    Some (hash_entries ord (map (map_prod id (\<lambda>p. p\<lparr>fp_required := None\<rparr>)) ps))"
proof -
  have p: "function_parameter_of_json (function_parameter_to_json p) = Some (p\<lparr>fp_required := None\<rparr>)" for p
    by (cases "fp_parameter_type p"; cases "fp_enum_values p"; cases "fp_default p"; cases "fp_format p")
      (simp_all add: function_parameter_of_json_def function_parameter_to_json_def de_field_def de_opt_def
        de_default_def opt_field_def parameter_type_of_json_def de_list_map)
  let ?es = "hash_entries ord ps" and ?f = "map_prod id (\<lambda>p. p\<lparr>fp_required := None\<rparr>)"
  have "de_map function_parameter_of_json (JObject (map (map_prod id function_parameter_to_json) ?es)) =
      Some (hash_of (map ?f ?es))"
    using option_all_total [where xs = ?es and f = "\<lambda>x. Some (fst x, (snd x)\<lparr>fp_required := None\<rparr>)" and g = ?f]
    by (simp add: de_map_def comp_def case_prod_beta p map_prod_def)
  also have "hash_of (map ?f ?es) = map ?f ?es"
    using assms by (intro hash_of_distinct) (simp add: order_okD comp_def hash_entries_def)
  also have "map ?f ?es = hash_entries ord (map ?f ps)"
  proof -
    have "the (map_of (map ?f ps) k) = (the (map_of ps k))\<lparr>fp_required := None\<rparr>" if "k \<in> fst ` set ps" for k
      using that by (induction ps) auto
    then show ?thesis using assms(2) by (auto simp: hash_entries_def comp_def order_okD)
  qed
  finally show ?thesis
    by (simp add: function_parameters_of_json_def function_parameters_to_json_def Let_def de_field_def id_def)
qed

end
