(* ===== verification/Request_Path.thy ===== *)
theory Request_Path
  imports Prompt_Types Json_Instance Rust_Text
begin

section \<open>Prompt gateway: the request of an API call\<close>

text \<open>
  \<open>crates/common/src/path.rs\<close> fills the path template of an endpoint, \<open>crates/prompt_gateway/src/tools.rs\<close>
  makes path and body of the call from it, \<open>crates/common/src/pii.rs\<close> hides credentials in logs. The
  percent encoding, the resolution of a URL, the text of numbers and the order of hash maps are
  parameters; a panic is \<open>None\<close>.
\<close>

record path_env =
  pe_codec :: json_codec
  pe_encode :: "string \<Rightarrow> string"
  pe_join :: "string \<Rightarrow> string + string \<times> string option"
  pe_number :: "string \<Rightarrow> string"
  pe_order :: "string list \<Rightarrow> string list"

subsection \<open>Path templates\<close>

text \<open>The loop over the template; the answer is the text and the names that were replaced.\<close>

fun fill_scan ::
    "path_env \<Rightarrow> (string \<times> string) list \<Rightarrow> string \<Rightarrow> string \<Rightarrow> string list \<Rightarrow> bool \<Rightarrow> string \<Rightarrow> string + string \<times> string list" where
  "fill_scan E params out cur vars in_param [] = Inr (out, vars)"
| "fill_scan E params out cur vars in_param (c # cs) =
     (if c = CHR ''{'' then fill_scan E params out cur vars True cs
      else if c = CHR ''}'' then
        (case map_of params cur of
           Some v \<Rightarrow> fill_scan E params (out @ pe_encode E v) [] (cur # vars) False cs
         | None \<Rightarrow> Inl (''Missing value for parameter `'' @ cur @ ''`''))
      else if in_param then fill_scan E params out (cur @ [c]) vars in_param cs
      else fill_scan E params (out @ [c]) cur vars in_param cs)"

definition append_query :: "string \<Rightarrow> string \<Rightarrow> string \<Rightarrow> string" where
  "append_query out n v = out @ (if contains_char out (CHR ''?'') then ''&'' else ''?'') @ n @ ''='' @ v"

fun add_remaining ::
    "path_env \<Rightarrow> (string \<times> string) list \<Rightarrow> string \<times> string list \<times> (string \<times> string) list \<Rightarrow>
     string \<times> string list \<times> (string \<times> string) list" where
  "add_remaining E [] s = s"
| "add_remaining E ((n, v) # rest) (out, vars, params) =
     add_remaining E rest
       (if n \<notin> set vars
        then (append_query out n (pe_encode E v), n # vars, AList.update n (pe_encode E v) params)
        else (out, vars, params))"

fun add_defaults ::
    "target_parameter list \<Rightarrow> string list \<Rightarrow> string \<times> (string \<times> string) list \<Rightarrow> string \<times> (string \<times> string) list" where
  "add_defaults [] vars s = s"
| "add_defaults (p # ps) vars (out, params) =
     add_defaults ps vars
       (case tp_default p of
          Some d \<Rightarrow>
            (if tp_name p \<notin> set vars then (append_query out (tp_name p) d, AList.update (tp_name p) d params)
             else (out, params))
        | None \<Rightarrow> (out, params))"

definition replace_params_in_path ::
    "path_env \<Rightarrow> string \<Rightarrow> (string \<times> string) list \<Rightarrow> target_parameter list \<Rightarrow>
     string + string \<times> string \<times> (string \<times> string) list" where
  "replace_params_in_path E path tool_params target_params =
     (case fill_scan E tool_params [] [] [] False path of
        Inl e \<Rightarrow> Inl e
      | Inr (out, vars) \<Rightarrow>
          (let (out, vars, params) = add_remaining E (hash_entries (pe_order E) tool_params) (out, vars, []);
               (out, params) = add_defaults target_params vars (out, params)
           in case pe_join E out of
                Inl e \<Rightarrow> Inl e
              | Inr (path, query) \<Rightarrow> Inr (path, case query of Some q \<Rightarrow> q | None \<Rightarrow> [], params)))"

subsection \<open>Path and body\<close>

text \<open>Only numbers, strings and booleans become parameters.\<close>

definition tool_param_text :: "path_env \<Rightarrow> json \<Rightarrow> string option" where
  "tool_param_text E j =
     (case j of
        JNumber n \<Rightarrow> Some (pe_number E n)
      | JString s \<Rightarrow> Some s
      | JBool b \<Rightarrow> Some (if b then ''true'' else ''false'')
      | _ \<Rightarrow> None)"

definition filter_tool_params :: "path_env \<Rightarrow> (string \<times> json) list option \<Rightarrow> (string \<times> string) list" where
  "filter_tool_params E params =
     (case params of
        None \<Rightarrow> []
      | Some m \<Rightarrow> hash_of (List.map_filter (\<lambda>(k, v). map_option (Pair k) (tool_param_text E v)) m))"

text \<open>The parameters of the query, for the body of a POST; \<open>None\<close> if one has no value.\<close>

fun add_query_params :: "string list \<Rightarrow> (string \<times> string) list \<Rightarrow> (string \<times> string) list option" where
  "add_query_params [] params = Some params"
| "add_query_params (q # qs) params =
     (case split_char (CHR ''='') q of
        key # v # _ \<Rightarrow> add_query_params qs (AList.update key v params)
      | _ \<Rightarrow> None)"

definition compute_request_path_body ::
    "path_env \<Rightarrow> string \<Rightarrow> (string \<times> json) list option \<Rightarrow> target_parameter list \<Rightarrow> endpoint_method \<Rightarrow>
     (string + string \<times> string option) option" where
  "compute_request_path_body E endpoint_path tool_params target_params http_method =
     (case replace_params_in_path E endpoint_path (filter_tool_params E tool_params) target_params of
        Inl e \<Rightarrow> Some (Inl e)
      | Inr (path, query, params) \<Rightarrow>
          (case http_method of
             EM_Get \<Rightarrow> Some (Inr (path @ ''?'' @ query, None))
           | EM_Post \<Rightarrow>
               map_option (\<lambda>ps. Inr (path, Some (json_print (pe_codec E)
                   (JObject (map (map_prod id JString) (hash_entries (pe_order E) ps))))))
                 (if query = [] then Some params else add_query_params (split_char (CHR ''&'') query) params)))"

subsection \<open>Credentials in logs\<close>

definition obfuscate_auth_header :: "(string \<times> string) list \<Rightarrow> (string \<times> string) list" where
  "obfuscate_auth_header headers =
     map (\<lambda>(k, v). (k, if to_lowercase k = ''authorization''
                        then (if starts_with v ''Bearer '' then ''Bearer ***'' else ''***'') else v)) headers"

text \<open>
  The log shows of an authorization header only whether it is a bearer token: headers that differ
  elsewhere in credentials look the same.
\<close>

lemma obfuscated_headers_hide:
  assumes "list_all2 (\<lambda>(k, v) (k', v'). k = k' \<and>
      (if to_lowercase k = ''authorization'' then starts_with v ''Bearer '' = starts_with v' ''Bearer '' else v = v')) hs hs'"
  shows "obfuscate_auth_header hs = obfuscate_auth_header hs'"
  using assms by (induction rule: list_all2_induct) (auto simp: obfuscate_auth_header_def split: if_splits)

subsection \<open>What the template becomes\<close>

datatype segment = Lit string | Var string

fun template :: "segment list \<Rightarrow> string" where
  "template [] = []"
| "template (Lit s # ss) = s @ template ss"
| "template (Var n # ss) = ''{'' @ n @ ''}'' @ template ss"

fun filled :: "path_env \<Rightarrow> (string \<times> string) list \<Rightarrow> segment list \<Rightarrow> string" where
  "filled E params [] = []"
| "filled E params (Lit s # ss) = s @ filled E params ss"
| "filled E params (Var n # ss) = pe_encode E (the (map_of params n)) @ filled E params ss"

fun variables :: "segment list \<Rightarrow> string list" where
  "variables [] = []"
| "variables (Lit s # ss) = variables ss"
| "variables (Var n # ss) = n # variables ss"

fun plain_segment :: "segment \<Rightarrow> bool" where
  "plain_segment (Lit s) \<longleftrightarrow> CHR ''{'' \<notin> set s \<and> CHR ''}'' \<notin> set s"
| "plain_segment (Var n) \<longleftrightarrow> CHR ''{'' \<notin> set n \<and> CHR ''}'' \<notin> set n"

lemma fill_scan_literal:
  "CHR ''{'' \<notin> set s \<Longrightarrow> CHR ''}'' \<notin> set s \<Longrightarrow>
   fill_scan E params out cur vars False (s @ r) = fill_scan E params (out @ s) cur vars False r"
  by (induction s arbitrary: out) auto

lemma fill_scan_name:
  "CHR ''{'' \<notin> set n \<Longrightarrow> CHR ''}'' \<notin> set n \<Longrightarrow>
   fill_scan E params out cur vars True (n @ r) = fill_scan E params out (cur @ n) vars True r"
  by (induction n arbitrary: cur) auto

lemma fill_scan_template:
  assumes "list_all plain_segment ss"
  shows "fill_scan E params out [] vars False (template ss) =
    (case find (\<lambda>n. map_of params n = None) (variables ss) of
       None \<Rightarrow> Inr (out @ filled E params ss, rev (variables ss) @ vars)
     | Some n \<Rightarrow> Inl (''Missing value for parameter `'' @ n @ ''`''))"
  using assms
proof (induction ss arbitrary: out vars)
  case (Cons s ss)
  then show ?case
  proof (cases s)
    case (Var n)
    with Cons show ?thesis
      by (cases "map_of params n") (auto simp: fill_scan_name split: option.split)
  qed (auto simp: fill_scan_literal split: option.split)
qed simp

text \<open>
  A template of literals and variables is filled variable by variable, percent-encoded; the first
  variable without a value is reported.
\<close>

lemma template_filled:
  assumes "list_all plain_segment ss"
  shows "fill_scan E params [] [] [] False (template ss) =
    (case find (\<lambda>n. map_of params n = None) (variables ss) of
       None \<Rightarrow> Inr (filled E params ss, rev (variables ss))
     | Some n \<Rightarrow> Inl (''Missing value for parameter `'' @ n @ ''`''))"
  using fill_scan_template [OF assms, of E params "[]" "[]"] by (simp split: option.split)

definition url_delimiters :: "char set" where
  "url_delimiters = {CHR ''/'', CHR ''?'', CHR ''#'', CHR ''&'', CHR ''=''}"

definition shape :: "string \<Rightarrow> string" where
  "shape s = filter (\<lambda>c. c \<in> url_delimiters) s"

lemma shape_append [simp]: "shape (s @ t) = shape s @ shape t"
  by (simp add: shape_def)

lemma shape_simps [simp]:
  "shape [] = []" "shape (c # s) = (if c \<in> url_delimiters then c # shape s else shape s)"
  by (simp_all add: shape_def)

lemma contains_query_shape: "contains_char s (CHR ''?'') = (CHR ''?'' \<in> set (shape s))"
  by (simp add: contains_char_def shape_def url_delimiters_def)

text \<open>
  The text that is handed to the URL library: the filled template, the other arguments of the call
  as a query and the defaults of the configuration.
\<close>

definition request_url ::
    "path_env \<Rightarrow> string \<Rightarrow> (string \<times> string) list \<Rightarrow> target_parameter list \<Rightarrow>
     string + string \<times> (string \<times> string) list" where
  "request_url E path tool_params target_params =
     (case fill_scan E tool_params [] [] [] False path of
        Inl e \<Rightarrow> Inl e
      | Inr (out, vars) \<Rightarrow>
          (let (out, vars, params) = add_remaining E (hash_entries (pe_order E) tool_params) (out, vars, [])
           in Inr (add_defaults target_params vars (out, params))))"

lemma replace_params_request_url:
  "replace_params_in_path E path tool_params target_params =
     (case request_url E path tool_params target_params of
        Inl e \<Rightarrow> Inl e
      | Inr (url, params) \<Rightarrow>
          map_sum id (\<lambda>(p, q). (p, case q of Some q \<Rightarrow> q | None \<Rightarrow> [], params)) (pe_join E url))"
  by (auto simp: replace_params_in_path_def request_url_def Let_def split: sum.split prod.split)

lemma add_remaining_extends: "\<exists>tail. fst (add_remaining E xs (out, vars, ps)) = out @ tail"
proof (induction xs arbitrary: out vars ps)
  case (Cons x xs)
  then show ?case by (cases x) (simp add: append_query_def, metis append.assoc)
qed simp

lemma add_defaults_extends: "\<exists>tail. fst (add_defaults tps vars (out, ps)) = out @ tail"
proof (induction tps arbitrary: out ps)
  case (Cons p tps)
  then show ?case by (simp add: append_query_def split: option.split) (metis append.assoc)
qed simp

lemma request_url_extends:
  assumes "fill_scan E params [] [] [] False path = Inr (out, vars)"
  shows "\<exists>tail ps. request_url E path params tps = Inr (out @ tail, ps)"
proof -
  let ?r = "add_remaining E (hash_entries (pe_order E) params) (out, vars, [])"
  let ?d = "add_defaults tps (fst (snd ?r)) (fst ?r, snd (snd ?r))"
  obtain a b where "fst ?r = out @ a" "fst ?d = fst ?r @ b"
    using add_remaining_extends add_defaults_extends by metis
  moreover have "request_url E path params tps = Inr ?d"
    using assms by (simp add: request_url_def case_prod_beta Let_def)
  ultimately show ?thesis by (intro exI [of _ "a @ b"] exI [of _ "snd ?d"]) (simp add: prod_eq_iff)
qed

lemma add_remaining_shape:
  assumes "\<And>v. shape (pe_encode E v) = []" and "map fst xs = map fst ys" and "shape out = shape out'"
  shows "shape (fst (add_remaining E xs (out, vars, ps))) = shape (fst (add_remaining E ys (out', vars, qs))) \<and>
    fst (snd (add_remaining E xs (out, vars, ps))) = fst (snd (add_remaining E ys (out', vars, qs)))"
  using assms(2,3)
proof (induction xs arbitrary: ys out out' vars ps qs)
  case (Cons x xs)
  then obtain n v w zs where x: "x = (n, v)" "ys = (n, w) # zs" "map fst xs = map fst zs"
    by (cases x; cases ys) auto
  let ?o = "append_query out n (pe_encode E v)" and ?o' = "append_query out' n (pe_encode E w)"
  have "shape ?o = shape ?o'"
    using Cons.prems(2) by (simp add: append_query_def contains_query_shape assms(1))
  with Cons.IH [OF x(3)] Cons.prems(2) x show ?case by auto
qed simp

lemma add_defaults_shape:
  "shape out = shape out' \<Longrightarrow>
   shape (fst (add_defaults tps vars (out, ps))) = shape (fst (add_defaults tps vars (out', qs)))"
proof (induction tps arbitrary: out out' ps qs)
  case (Cons p tps)
  have "shape (append_query out n v) = shape (append_query out' n v)" for n v
    using Cons.prems by (simp add: append_query_def contains_query_shape)
  with Cons.IH Cons.prems show ?case by (auto split: option.split)
qed simp

lemma map_of_None_keys: "map fst xs = map fst ys \<Longrightarrow> map_of xs k = None \<longleftrightarrow> map_of ys k = None"
  by (simp add: map_of_eq_None_iff flip: set_map)

fun literals :: "segment list \<Rightarrow> string" where
  "literals [] = []"
| "literals (Lit s # ss) = s @ literals ss"
| "literals (Var n # ss) = literals ss"

lemma filled_shape:
  assumes "\<And>v. shape (pe_encode E v) = []"
  shows "shape (filled E params ss) = shape (literals ss)"
  by (induction ss rule: literals.induct) (simp_all add: assms)

text \<open>
  (C40) The values of a call cannot change the shape of the URL of an endpoint, up to its resolution:
  the delimiters of the filled path are those of the template's own text, and the delimiters of the
  whole text that is resolved, with the arguments that are appended as a query and the configured
  defaults, are the same for any two calls with the same argument names, whatever values the model
  put into them. Dots are no delimiters: \<open>dot_value_reaches_resolver\<close> shows a value the resolution
  takes for a step up.
\<close>

theorem values_cannot_escape:
  assumes "list_all plain_segment ss" "\<And>v. set (pe_encode E v) \<inter> url_delimiters = {}"
    and "map fst params = map fst params'"
  shows "(\<forall>path vars. fill_scan E params [] [] [] False (template ss) = Inr (path, vars) \<longrightarrow>
      shape path = shape (literals ss)) \<and>
    (case request_url E (template ss) params tps of
       Inl e \<Rightarrow> request_url E (template ss) params' tps = Inl e \<and>
         replace_params_in_path E (template ss) params tps = Inl e
     | Inr (url, ps) \<Rightarrow>
         (\<exists>url' ps'. request_url E (template ss) params' tps = Inr (url', ps') \<and> shape url' = shape url) \<and>
         replace_params_in_path E (template ss) params tps =
           map_sum id (\<lambda>(p, q). (p, case q of Some q \<Rightarrow> q | None \<Rightarrow> [], ps)) (pe_join E url))"
proof -
  have none: "shape (pe_encode E v) = []" for v
    using assms(2) [of v] by (auto simp: shape_def filter_empty_conv)
  note path = template_filled [OF assms(1)] filled_shape [of E, OF none]
  have keys: "map fst (hash_entries (pe_order E) params) = map fst (hash_entries (pe_order E) params')"
    using assms(3) by (simp add: hash_entries_def comp_def)
  show ?thesis
  proof (cases "find (\<lambda>n. map_of params n = None) (variables ss)")
    case None
    then have none': "find (\<lambda>n. map_of params' n = None) (variables ss) = None"
      using map_of_None_keys [OF assms(3)] by simp
    define vars where "vars = rev (variables ss)"
    define r where "r = add_remaining E (hash_entries (pe_order E) params) (filled E params ss, vars, [])"
    define r' where "r' = add_remaining E (hash_entries (pe_order E) params') (filled E params' ss, vars, [])"
    have "shape (fst r) = shape (fst r')" "fst (snd r) = fst (snd r')"
      using add_remaining_shape [of E, OF none keys] path(2) by (simp_all add: r_def r'_def)
    moreover have "request_url E (template ss) params tps = Inr (add_defaults tps (fst (snd r)) (fst r, snd (snd r)))"
      "request_url E (template ss) params' tps = Inr (add_defaults tps (fst (snd r')) (fst r', snd (snd r')))"
      using None none' by (simp_all add: request_url_def path(1) r_def r'_def vars_def case_prod_beta Let_def)
    ultimately show ?thesis
      using add_defaults_shape [of "fst r" "fst r'" tps "fst (snd r)" "snd (snd r)" "snd (snd r')"]
        path(2) None
      by (auto simp: replace_params_request_url path(1) prod_eq_iff split: prod.split)
  next
    case (Some n)
    then have "find (\<lambda>n. map_of params' n = None) (variables ss) = Some n"
      using map_of_None_keys [OF assms(3)] by simp
    with Some show ?thesis
      by (simp add: replace_params_request_url request_url_def path(1))
  qed
qed

subsection \<open>Examples\<close>

definition split_url :: "string \<Rightarrow> string + string \<times> string option" where
  "split_url s = Inr (case split_once (CHR ''?'') s of Some (p, q) \<Rightarrow> (p, Some q) | None \<Rightarrow> (s, None))"

definition sample_path :: path_env where
  "sample_path = \<lparr>pe_codec = escaped_json, pe_encode = (\<lambda>v. List.map_filter (\<lambda>c. if c \<in> url_delimiters then None else Some c) v),
     pe_join = split_url, pe_number = id, pe_order = id\<rparr>"

theorem values_cannot_escape_witness:
  "\<exists>url ps url' ps'.
     request_url sample_path ''/u/{id}/f'' [(''id'', ''1/?x''), (''q'', ''a&b'')] [] = Inr (url, ps) \<and>
     request_url sample_path ''/u/{id}/f'' [(''id'', ''7''), (''q'', ''b'')] [] = Inr (url', ps') \<and>
     url = ''/u/1x/f?q=ab'' \<and> shape url' = shape url"
proof -
  let ?ss = "[Lit ''/u/'', Var ''id'', Lit ''/f'']"
  have url: "request_url sample_path (template ?ss) [(''id'', ''1/?x''), (''q'', ''a&b'')] [] =
      Inr (''/u/1x/f?q=ab'', [(''q'', ''ab'')])"
    by (simp add: request_url_def sample_path_def List.map_filter_simps url_delimiters_def hash_entries_def
        append_query_def contains_char_def)
  have "set (pe_encode sample_path v) \<inter> url_delimiters = {}" for v
    by (auto simp: sample_path_def List.map_filter_def split: if_splits)
  then show ?thesis
    using values_cannot_escape [of ?ss sample_path "[(''id'', ''1/?x''), (''q'', ''a&b'')]"
        "[(''id'', ''7''), (''q'', ''b'')]" "[]"] url
    by auto
qed

text \<open>
  Dots are not percent-encoded: a value of two dots stays a path segment that the resolution of the
  URL removes together with the segment before it.
\<close>

lemma dot_value_reaches_resolver:
  assumes "pe_encode E ''..'' = ''..''" and "pe_order E [''id''] = [''id'']"
    and "pe_join E ''/users/../orders'' = Inr (''/orders'', None)"
  shows "replace_params_in_path E ''/users/{id}/orders'' [(''id'', ''..'')] [] = Inr (''/orders'', [], [])"
  using assms by (simp add: replace_params_in_path_def hash_entries_def)

text \<open>
  The parameters of a POST stay percent-encoded inside its JSON body, and a query without a value
  in the path of the endpoint panics the filter.
\<close>

definition percent_path :: path_env where
  "percent_path = sample_path\<lparr>pe_encode := replace_str '' '' ''%20''\<rparr>"

lemma post_body_percent_encoded:
  "compute_request_path_body percent_path ''/u'' (Some [(''q'', JString ''a b'')]) [] EM_Post =
     Some (Inr (''/u'', Some (json_print escaped_json (JObject [(''q'', JString ''a%20b'')]))))"
  by (simp add: compute_request_path_body_def replace_params_in_path_def filter_tool_params_def List.map_filter_simps
      tool_param_text_def percent_path_def sample_path_def hash_of_def hash_entries_def append_query_def
      contains_char_def split_url_def)

lemma query_without_value_panics:
  "compute_request_path_body percent_path ''/u?q'' None [] EM_Post = None"
  by (simp add: compute_request_path_body_def replace_params_in_path_def filter_tool_params_def
      percent_path_def sample_path_def hash_entries_def contains_char_def split_url_def)

end
