(* ===== verification/Ratelimit.thy ===== *)
theory Ratelimit
  imports Llm_Providers
begin

section \<open>Token rate limits\<close>

text \<open>
  \<open>crates/common/src/ratelimit.rs\<close> and its configuration types. The keyed limiter of the
  \<open>governor\<close> crate is a parameter: how a limiter is made from a quota, and how a check changes it;
  the code keeps it behind a shared reference, so a check returns the new map. \<open>Inl\<close> in
  \<open>get_quota\<close> and \<open>ratelimit_new\<close> is a panic.
\<close>

record config_header =
  ch_key :: string
  ch_value :: "string option"

record ratelimit =
  rl_model :: string
  rl_selector :: config_header
  rl_limit :: limit

text \<open>The \<open>Header\<close> of a request, of which both parts are known.\<close>

record header =
  h_key :: string
  h_value :: string

definition config_header_from :: "header \<Rightarrow> config_header" where
  "config_header_from h = \<lparr>ch_key = h_key h, ch_value = Some (h_value h)\<rparr>"

datatype quota = Per_Second "32 word" | Per_Minute "32 word" | Per_Hour "32 word"

datatype verdict = Allowed | Not_Until | Insufficient_Capacity

record 'l governor =
  gv_keyed :: "quota \<Rightarrow> 'l"
  gv_check_key_n :: "nat \<Rightarrow> 'l \<Rightarrow> string \<Rightarrow> 32 word \<Rightarrow> verdict \<times> 'l"

datatype ratelimit_error = Exceeded_Limit string header "32 word"

type_synonym 'l ratelimit_map = "(string \<times> (config_header \<times> 'l) list) list"

definition get_quota :: "limit \<Rightarrow> string + quota" where
  "get_quota l =
     (if lim_tokens l = 0 then Inl ''Limit's tokens must be positive''
      else
        (case lim_unit l of
           TU_Second \<Rightarrow> Inr (Per_Second (lim_tokens l))
         | TU_Minute \<Rightarrow> Inr (Per_Minute (lim_tokens l))
         | TU_Hour \<Rightarrow> Inr (Per_Hour (lim_tokens l))
         | TU_Day \<Rightarrow>
             (let per_hour = max (lim_tokens l div 24) 1
              in if per_hour = 0 then Inl ''per_hour must be positive''
                 else Inr (Per_Hour per_hour))))"

text \<open>One round of the loop of \<open>RatelimitMap::new\<close>.\<close>

definition add_ratelimit ::
    "'l governor \<Rightarrow> ratelimit \<Rightarrow> 'l ratelimit_map \<Rightarrow> string + 'l ratelimit_map" where
  "add_ratelimit g c m =
     (case get_quota (rl_limit c) of
        Inl e \<Rightarrow> Inl e
      | Inr q \<Rightarrow>
          (let l = gv_keyed g q
           in case map_of m (rl_model c) of
                Some limits \<Rightarrow>
                  (case map_of limits (rl_selector c) of
                     Some _ \<Rightarrow> Inr m
                   | None \<Rightarrow> Inr (AList.update (rl_model c)
                                  (AList.update (rl_selector c) l limits) m))
              | None \<Rightarrow> Inr (AList.update (rl_model c) [(rl_selector c, l)] m)))"

fun add_ratelimits ::
    "'l governor \<Rightarrow> ratelimit list \<Rightarrow> 'l ratelimit_map \<Rightarrow> string + 'l ratelimit_map" where
  "add_ratelimits g [] m = Inr m"
| "add_ratelimits g (c # cs) m =
     (case add_ratelimit g c m of Inl e \<Rightarrow> Inl e | Inr m' \<Rightarrow> add_ratelimits g cs m')"

definition ratelimit_new :: "'l governor \<Rightarrow> ratelimit list \<Rightarrow> string + 'l ratelimit_map" where
  "ratelimit_new g cs = add_ratelimits g cs []"

text \<open>
  The choice of the limiter in \<open>check_limit\<close>: the one for this very value under the empty key,
  else the one for any value of the header under the value as the key.
\<close>

definition choose_limiter ::
    "(config_header \<times> 'l) list \<Rightarrow> header \<Rightarrow> (config_header \<times> 'l \<times> string) option" where
  "choose_limiter limits selector =
     (let config_selector = config_header_from selector
      in case map_of limits config_selector of
           Some l \<Rightarrow> Some (config_selector, l, '''')
         | None \<Rightarrow>
             (let any = config_selector\<lparr>ch_value := None\<rparr>
              in case map_of limits any of
                   Some l \<Rightarrow> Some (any, l, h_value selector)
                 | None \<Rightarrow> None))"

definition check_limit ::
    "'l governor \<Rightarrow> nat \<Rightarrow> 'l ratelimit_map \<Rightarrow> string \<Rightarrow> header \<Rightarrow> 32 word
       \<Rightarrow> (ratelimit_error + unit) \<times> 'l ratelimit_map" where
  "check_limit g now m provider selector tokens_used =
     (case map_of m provider of
        None \<Rightarrow> (Inr (), m)
      | Some limits \<Rightarrow>
          (case choose_limiter limits selector of
             None \<Rightarrow> (Inr (), m)
           | Some (sel, l, limit_key) \<Rightarrow>
               (case gv_check_key_n g now l limit_key tokens_used of
                  (v, l') \<Rightarrow>
                    (case v of
                       Allowed \<Rightarrow> Inr ()
                     | Not_Until \<Rightarrow> Inl (Exceeded_Limit provider selector tokens_used)
                     | Insufficient_Capacity \<Rightarrow> Inl (Exceeded_Limit provider selector tokens_used),
                     AList.update provider (AList.update sel l' limits) m))))"

subsection \<open>Which limits a configuration installs\<close>

definition limiter_at :: "'l ratelimit_map \<Rightarrow> string \<Rightarrow> config_header \<Rightarrow> 'l option" where
  "limiter_at m provider sel =
     (case map_of m provider of None \<Rightarrow> None | Some limits \<Rightarrow> map_of limits sel)"

definition entries_for :: "ratelimit list \<Rightarrow> string \<Rightarrow> config_header \<Rightarrow> ratelimit list" where
  "entries_for cs provider sel =
     filter (\<lambda>c. rl_model c = provider \<and> rl_selector c = sel) cs"

lemma get_quota_ok: "is_ok (get_quota l) \<longleftrightarrow> lim_tokens l \<noteq> 0"
proof -
  have "max (lim_tokens l div 24) 1 \<noteq> 0"
    by (metis max.cobounded2 word_le_0_iff zero_neq_one)
  then show ?thesis by (simp add: get_quota_def Let_def split: time_unit.split)
qed

lemma add_ratelimit_at:
  assumes "add_ratelimit g c m = Inr m'"
  shows "limiter_at m' provider sel =
    (case limiter_at m provider sel of
       Some l \<Rightarrow> Some l
     | None \<Rightarrow>
         if rl_model c = provider \<and> rl_selector c = sel
         then (case get_quota (rl_limit c) of Inr q \<Rightarrow> Some (gv_keyed g q) | Inl _ \<Rightarrow> None)
         else None)"
  using assms
  by (auto simp: add_ratelimit_def limiter_at_def update_conv' Let_def
      split: sum.splits option.splits if_splits)

lemma add_ratelimits_at:
  assumes "add_ratelimits g cs m = Inr m'"
  shows "limiter_at m' provider sel =
    (case limiter_at m provider sel of
       Some l \<Rightarrow> Some l
     | None \<Rightarrow>
         (case entries_for cs provider sel of
            [] \<Rightarrow> None
          | c # _ \<Rightarrow> (case get_quota (rl_limit c) of Inr q \<Rightarrow> Some (gv_keyed g q) | Inl _ \<Rightarrow> None)))"
  using assms
proof (induction cs arbitrary: m)
  case Nil
  then show ?case by (simp add: entries_for_def split: option.split)
next
  case (Cons c cs)
  obtain m1 where m1: "add_ratelimit g c m = Inr m1" "add_ratelimits g cs m1 = Inr m'"
    using Cons.prems by (auto split: sum.splits)
  have "is_ok (get_quota (rl_limit c))"
    using m1(1) by (auto simp: add_ratelimit_def split: sum.splits)
  then show ?case
    using Cons.IH [OF m1(2)] add_ratelimit_at [OF m1(1), of provider sel]
    by (cases "rl_model c = provider \<and> rl_selector c = sel"; cases "limiter_at m provider sel")
      (auto simp: entries_for_def is_ok_iff)
qed

lemma add_ratelimits_ok: "is_ok (add_ratelimits g cs m) \<longleftrightarrow> (\<forall>c \<in> set cs. lim_tokens (rl_limit c) \<noteq> 0)"
proof (induction cs arbitrary: m)
  case Nil
  then show ?case by simp
next
  case (Cons c cs)
  have "is_ok (add_ratelimit g c m) \<longleftrightarrow> lim_tokens (rl_limit c) \<noteq> 0"
    unfolding get_quota_ok [symmetric]
    by (auto simp: add_ratelimit_def Let_def split: sum.splits option.splits)
  then show ?case using Cons.IH by (auto simp: is_ok_iff split: sum.splits)
qed

subsection \<open>Sequences of checks\<close>

text \<open>The limiter and the key a request is counted under; checks never change it.\<close>

definition route ::
    "'l ratelimit_map \<Rightarrow> string \<Rightarrow> header \<Rightarrow> (config_header \<times> string) option" where
  "route m provider h =
     (let exact = config_header_from h; any = exact\<lparr>ch_value := None\<rparr>
      in if limiter_at m provider exact \<noteq> None then Some (exact, '''')
         else if limiter_at m provider any \<noteq> None then Some (any, h_value h)
         else None)"

text \<open>A request: the time, the model, the header and the number of tokens.\<close>

type_synonym request = "nat \<times> string \<times> header \<times> 32 word"

lemma choose_limiter_None:
  "map_of m p = Some limits \<Longrightarrow> choose_limiter limits h = None \<Longrightarrow> route m p h = None"
  by (simp add: choose_limiter_def route_def limiter_at_def Let_def split: option.splits)

lemma choose_limiter_Some:
  "map_of m p = Some limits \<Longrightarrow> choose_limiter limits h = Some (sel, l, k) \<Longrightarrow>
     route m p h = Some (sel, k) \<and> map_of limits sel = Some l"
  by (auto simp: choose_limiter_def route_def limiter_at_def Let_def split: option.splits)

lemma limiter_at_update:
  "map_of m p = Some limits \<Longrightarrow>
     limiter_at (AList.update p (AList.update sel l limits) m) p' sel' =
       (if p' = p \<and> sel' = sel then Some l else limiter_at m p' sel')"
  by (simp add: limiter_at_def update_conv')

lemma check_limit_step:
  assumes "check_limit g now m p h n = (r, m')"
  shows "case route m p h of
      None \<Rightarrow> r = Inr () \<and> m' = m
    | Some (sel, k) \<Rightarrow>
        (\<exists>l v l'. limiter_at m p sel = Some l \<and> gv_check_key_n g now l k n = (v, l') \<and>
           r = (if v = Allowed then Inr () else Inl (Exceeded_Limit p h n)) \<and>
           (\<forall>p' sel'. limiter_at m' p' sel' =
              (if p' = p \<and> sel' = sel then Some l' else limiter_at m p' sel')))"
proof (cases "map_of m p")
  case None
  then have "route m p h = None" by (simp add: route_def limiter_at_def Let_def)
  then show ?thesis using None assms by (simp add: check_limit_def)
next
  case (Some limits)
  show ?thesis
  proof (cases "choose_limiter limits h")
    case None
    then show ?thesis using Some assms choose_limiter_None [OF Some] by (simp add: check_limit_def)
  next
    case (Some x)
    obtain sel l k where x: "x = (sel, l, k)" by (cases x)
    obtain v l' where v: "gv_check_key_n g now l k n = (v, l')" by fastforce
    have ch: "route m p h = Some (sel, k)" "limiter_at m p sel = Some l"
      using choose_limiter_Some [OF \<open>map_of m p = Some limits\<close>] Some x
        \<open>map_of m p = Some limits\<close> by (auto simp: limiter_at_def)
    have "r = (if v = Allowed then Inr () else Inl (Exceeded_Limit p h n))"
      and "m' = AList.update p (AList.update sel l' limits) m"
      using assms \<open>map_of m p = Some limits\<close> Some x v
      by (simp_all add: check_limit_def split: verdict.splits)
    then show ?thesis using ch v limiter_at_update [OF \<open>map_of m p = Some limits\<close>] by simp
  qed
qed

lemma check_limit_route:
  assumes "check_limit g now m p h n = (r, m')"
  shows "route m' = route m"
proof -
  have "limiter_at m' q s = None \<longleftrightarrow> limiter_at m q s = None" for q s
  proof (cases "route m p h")
    case None
    then show ?thesis using check_limit_step [OF assms] by simp
  next
    case (Some x)
    obtain sel k where "x = (sel, k)" by (cases x)
    then obtain l l' where l: "limiter_at m p sel = Some l"
      "\<And>p' sel'. limiter_at m' p' sel' =
        (if p' = p \<and> sel' = sel then Some l' else limiter_at m p' sel')"
      using check_limit_step [OF assms] Some by auto
    show ?thesis using l(1) by (auto simp: l(2))
  qed
  then show ?thesis by (simp add: route_def fun_eq_iff Let_def del: not_None_eq)
qed

text \<open>
  The tokens admitted under one key: by a sequence of checks of the map, and by the
  sequence of checks of one limiter.
\<close>

fun map_admitted ::
    "'l governor \<Rightarrow> 'l ratelimit_map \<Rightarrow> request list \<Rightarrow> string \<Rightarrow> config_header \<Rightarrow> string
       \<Rightarrow> nat" where
  "map_admitted g m [] p sel k = 0"
| "map_admitted g m ((now, q, h, n) # rs) p sel k =
     (case check_limit g now m q h n of
        (r, m') \<Rightarrow>
          (if is_ok r \<and> q = p \<and> route m q h = Some (sel, k) then unat n else 0)
            + map_admitted g m' rs p sel k)"

fun limiter_admitted ::
    "'l governor \<Rightarrow> 'l \<Rightarrow> (nat \<times> string \<times> 32 word) list \<Rightarrow> string \<Rightarrow> nat" where
  "limiter_admitted g l [] k = 0"
| "limiter_admitted g l ((now, k', n) # cs) k =
     (case gv_check_key_n g now l k' n of
        (v, l') \<Rightarrow>
          (if v = Allowed \<and> k' = k then unat n else 0) + limiter_admitted g l' cs k)"

definition counted_at ::
    "'l ratelimit_map \<Rightarrow> string \<Rightarrow> config_header \<Rightarrow> request \<Rightarrow> (nat \<times> string \<times> 32 word) option"
  where
  "counted_at m p sel req =
     (case req of
        (now, q, h, n) \<Rightarrow>
          (case route m q h of
             Some (sel', k) \<Rightarrow> if q = p \<and> sel' = sel then Some (now, k, n) else None
           | None \<Rightarrow> None))"

lemma counted_at_simp:
  "counted_at m p sel (now, q, h, n) =
     (case route m q h of
        Some (sel', k) \<Rightarrow> if q = p \<and> sel' = sel then Some (now, k, n) else None
      | None \<Rightarrow> None)"
  by (simp add: counted_at_def)

lemma counted_at_route: "route m' = route m \<Longrightarrow> counted_at m' = counted_at m"
  by (simp add: counted_at_def fun_eq_iff)

lemma counted_at_time: "counted_at m p sel req = Some c \<Longrightarrow> fst c = fst req"
  by (auto simp: counted_at_def split: option.splits prod.splits if_splits)

lemma map_filter_filter: "List.map_filter f (filter (\<lambda>x. f x \<noteq> None) xs) = List.map_filter f xs"
proof (induction xs)
  case (Cons x xs)
  then show ?case by (cases "f x") (simp_all add: map_filter_Cons)
qed simp

lemma map_admitted_limiter:
  assumes "limiter_at m p sel = Some l"
  shows "map_admitted g m reqs p sel k =
    limiter_admitted g l (List.map_filter (counted_at m p sel) reqs) k"
  using assms
proof (induction g m reqs p sel k arbitrary: l rule: map_admitted.induct)
  case (1 g m p sel k)
  then show ?case by (simp add: List.map_filter_def)
next
  case (2 g m now q h n rs p sel k)
  obtain r m' where c: "check_limit g now m q h n = (r, m')" by fastforce
  have ih: "map_admitted g m' rs p sel k =
      limiter_admitted g l' (List.map_filter (counted_at m p sel) rs) k"
    if "limiter_at m' p sel = Some l'" for l'
    using "2.IH" [OF c [symmetric]] that counted_at_route [OF check_limit_route [OF c]]
    by simp
  show ?case
  proof (cases "route m q h")
    case None
    then show ?thesis using check_limit_step [OF c] c ih "2.prems"
      by (simp add: map_filter_Cons counted_at_simp)
  next
    case (Some x)
    obtain s j where x: "x = (s, j)" by (cases x)
    obtain l1 v l2 where s: "limiter_at m q s = Some l1" "gv_check_key_n g now l1 j n = (v, l2)"
      "r = (if v = Allowed then Inr () else Inl (Exceeded_Limit q h n))"
      "\<And>p' sel'. limiter_at m' p' sel' = (if p' = q \<and> sel' = s then Some l2 else limiter_at m p' sel')"
      using check_limit_step [OF c] Some x by auto
    show ?thesis
    proof (cases "q = p \<and> s = sel")
      case True
      then have "l1 = l" using s(1) "2.prems" by simp
      then show ?thesis using Some x s c ih [of l2] True
        by (simp add: map_filter_Cons counted_at_simp)
    next
      case False
      then have "limiter_at m' p sel = Some l" using s(4) "2.prems" by auto
      then show ?thesis using Some x c ih [of l] False
        by (auto simp: map_filter_Cons counted_at_simp)
    qed
  qed
qed

text \<open>
  Limits are isolated: how many tokens are admitted under a limit and a key depends only on the
  requests counted there. Requests for other models, other headers or, where the value has
  a limit of its own, other values neither use up the limit nor free it.
\<close>

theorem limits_isolated:
  assumes "limiter_at m p sel \<noteq> None"
  shows "map_admitted g m reqs p sel k =
    map_admitted g m (filter (\<lambda>req. counted_at m p sel req \<noteq> None) reqs) p sel k"
proof -
  obtain l where l: "limiter_at m p sel = Some l" using assms by blast
  show ?thesis unfolding map_admitted_limiter [OF l] map_filter_filter ..
qed

subsection \<open>The limit holds\<close>

fun quota_burst :: "quota \<Rightarrow> 32 word" where
  "quota_burst (Per_Second n) = n"
| "quota_burst (Per_Minute n) = n"
| "quota_burst (Per_Hour n) = n"

text \<open>The nanoseconds after which a quota replenishes one token: its period divided by its burst size.\<close>

fun quota_period :: "quota \<Rightarrow> nat" where
  "quota_period (Per_Second n) = 1000000000"
| "quota_period (Per_Minute n) = 60 * 1000000000"
| "quota_period (Per_Hour n) = 3600 * 1000000000"

definition replenish_1_per :: "quota \<Rightarrow> nat" where
  "replenish_1_per q = quota_period q div unat (quota_burst q)"

text \<open>The state of a limiter, and of the map of limiters, after a sequence of checks.\<close>

definition limiter_after :: "'l governor \<Rightarrow> 'l \<Rightarrow> (nat \<times> string \<times> 32 word) list \<Rightarrow> 'l" where
  "limiter_after g l cs = foldl (\<lambda>l (now, k, n). snd (gv_check_key_n g now l k n)) l cs"

definition map_after :: "'l governor \<Rightarrow> 'l ratelimit_map \<Rightarrow> request list \<Rightarrow> 'l ratelimit_map" where
  "map_after g m reqs = foldl (\<lambda>m (now, p, h, n). snd (check_limit g now m p h n)) m reqs"

text \<open>
  What the \<open>governor\<close> crate documents of a keyed limiter (the generic cell rate algorithm): after any
  checks, the tokens it admits for one key between two times are at most the burst size of its quota
  and those the quota replenishes between them. Times are in nanoseconds and do not decrease.
\<close>

definition respects_rate :: "'l governor \<Rightarrow> bool" where
  "respects_rate g \<longleftrightarrow>
     (\<forall>q before cs k a b. sorted (map fst (before @ cs)) \<and> (\<forall>c \<in> set cs. a \<le> fst c \<and> fst c \<le> b) \<longrightarrow>
        limiter_admitted g (limiter_after g (gv_keyed g q) before) cs k * replenish_1_per q \<le>
          unat (quota_burst q) * replenish_1_per q + (b - a))"

lemma map_after_limiter:
  assumes "limiter_at m p sel = Some l"
  shows "limiter_at (map_after g m reqs) p sel =
      Some (limiter_after g l (List.map_filter (counted_at m p sel) reqs)) \<and>
    counted_at (map_after g m reqs) = counted_at m"
  using assms
proof (induction reqs arbitrary: m l)
  case Nil
  then show ?case by (simp add: map_after_def limiter_after_def List.map_filter_def)
next
  case (Cons req reqs)
  obtain now q h n where req: "req = (now, q, h, n)" by (cases req)
  obtain r m' where c: "check_limit g now m q h n = (r, m')" by fastforce
  note same = counted_at_route [OF check_limit_route [OF c]]
  have step: "map_after g m (req # reqs) = map_after g m' reqs" by (simp add: map_after_def req c)
  show ?case
  proof (cases "counted_at m p sel req")
    case None
    have "limiter_at m' p sel = Some l"
    proof (cases "route m q h")
      case None
      then show ?thesis using check_limit_step [OF c] Cons.prems by simp
    next
      case (Some x)
      obtain s k where x: "x = (s, k)" by (cases x)
      with Some None req have "\<not> (p = q \<and> sel = s)" by (auto simp: counted_at_def)
      moreover obtain l' where "\<forall>p' sel'. limiter_at m' p' sel' =
          (if p' = q \<and> sel' = s then Some l' else limiter_at m p' sel')"
        using check_limit_step [OF c] Some x by auto
      ultimately show ?thesis using Cons.prems by auto
    qed
    from Cons.IH [OF this] show ?thesis using None step same by (simp add: map_filter_Cons)
  next
    case (Some x)
    then obtain k where x: "route m q h = Some (sel, k)" "q = p" "x = (now, k, n)"
      by (auto simp: counted_at_def req split: option.splits if_splits)
    then have "limiter_at m' p sel = Some (snd (gv_check_key_n g now l k n))"
      using check_limit_step [OF c] Cons.prems by auto
    from Cons.IH [OF this] show ?thesis using Some x step same
      by (simp add: map_filter_Cons limiter_after_def)
  qed
qed

lemma counted_times:
  "sorted (map fst reqs) \<Longrightarrow> sorted (map fst (List.map_filter (counted_at m p sel) reqs))"
proof (induction reqs)
  case (Cons req reqs)
  have "\<forall>c \<in> set (List.map_filter (counted_at m p sel) reqs). fst req \<le> fst c"
    using Cons.prems counted_at_time by (fastforce simp: set_map_filter)
  then show ?case using Cons counted_at_time [of m p sel req]
    by (auto simp: map_filter_Cons split: option.split)
qed (simp add: List.map_filter_def)

text \<open>
  The burst size a limit stands for, and the time after which it replenishes a token; a daily limit
  is an hourly one of a twenty-fourth of its tokens, but at least one.
\<close>

definition limit_burst :: "limit \<Rightarrow> nat" where
  "limit_burst l =
     unat (if lim_unit l = TU_Day then max (lim_tokens l div 24) 1 else lim_tokens l)"

definition limit_interval :: "limit \<Rightarrow> nat" where
  "limit_interval l =
     (case lim_unit l of TU_Second \<Rightarrow> 1 | TU_Minute \<Rightarrow> 60 | TU_Hour \<Rightarrow> 3600 | TU_Day \<Rightarrow> 3600)
       * 1000000000 div limit_burst l"

lemma get_quota_rate:
  assumes "get_quota l = Inr q"
  shows "unat (quota_burst q) = limit_burst l" "replenish_1_per q = limit_interval l"
  using assms
  by (auto simp: get_quota_def Let_def limit_burst_def limit_interval_def replenish_1_per_def
      split: time_unit.splits if_splits)

text \<open>
  (C31) Between any two times, whatever was asked before and in any mix of requests, the tokens admitted
  for a model under a configured limit and key are at most the burst size of the limit and what it
  replenishes between them: the limit is that of the first entry with this model and header, a
  daily limit being an hourly one of a twenty-fourth of its tokens, but at least one. (The product with
  the interval keeps the bound exact; a limit of more than a token a nanosecond has the interval zero
  and bounds nothing.)
\<close>

theorem admitted_within_limit:
  assumes "ratelimit_new g cs = Inr m" and "respects_rate g"
    and "entries_for cs p sel = c # rest"
    and "sorted (map fst (before @ reqs))" and "\<forall>req \<in> set reqs. a \<le> fst req \<and> fst req \<le> b"
  shows "map_admitted g (map_after g m before) reqs p sel k * limit_interval (rl_limit c) \<le>
    limit_burst (rl_limit c) * limit_interval (rl_limit c) + (b - a)"
proof -
  have "c \<in> set cs" using assms(3) by (auto simp: entries_for_def filter_eq_Cons_iff)
  then obtain q where q: "get_quota (rl_limit c) = Inr q"
    using add_ratelimits_ok [of g cs "[]"] assms(1) get_quota_ok
    by (metis is_ok_iff is_ok_simps(2) ratelimit_new_def)
  then have l: "limiter_at m p sel = Some (gv_keyed g q)"
    using add_ratelimits_at [of g cs "[]" m p sel] assms(1,3)
    by (simp add: ratelimit_new_def limiter_at_def)
  let ?count = "List.map_filter (counted_at m p sel)"
  have "map_admitted g (map_after g m before) reqs p sel k =
      limiter_admitted g (limiter_after g (gv_keyed g q) (?count before)) (?count reqs) k"
    using map_after_limiter [OF l, of g before] by (simp add: map_admitted_limiter)
  moreover have "sorted (map fst (?count before @ ?count reqs))"
    using counted_times [OF assms(4), of m p sel] by (simp add: map_filter_append)
  moreover have "\<forall>c \<in> set (?count reqs). a \<le> fst c \<and> fst c \<le> b"
    using assms(5) counted_at_time by (fastforce simp: set_map_filter)
  ultimately show ?thesis
    using assms(2) unfolding respects_rate_def get_quota_rate [OF q, symmetric] by metis
qed

subsection \<open>A sample limiter\<close>

text \<open>A limiter that never refills, for the witnesses: it counts the tokens used per key.\<close>

definition used :: "(string \<times> nat) list \<Rightarrow> string \<Rightarrow> nat" where
  "used u k = (case map_of u k of None \<Rightarrow> 0 | Some n \<Rightarrow> n)"

definition bucket_check ::
    "nat \<Rightarrow> quota \<times> (string \<times> nat) list \<Rightarrow> string \<Rightarrow> 32 word
       \<Rightarrow> verdict \<times> quota \<times> (string \<times> nat) list" where
  "bucket_check now l k n =
     (case l of
        (q, u) \<Rightarrow>
          if unat (quota_burst q) < unat n then (Insufficient_Capacity, l)
          else if unat (quota_burst q) < used u k + unat n then (Not_Until, l)
          else (Allowed, q, AList.update k (used u k + unat n) u))"

definition bucket :: "(quota \<times> (string \<times> nat) list) governor" where
  "bucket = \<lparr>gv_keyed = \<lambda>q. (q, []), gv_check_key_n = bucket_check\<rparr>"

text \<open>
  The generic cell rate algorithm: of each key, the time at which its tokens are all replenished.
\<close>

definition full_at :: "(string \<times> nat) list \<Rightarrow> string \<Rightarrow> nat" where
  "full_at u k = (case map_of u k of None \<Rightarrow> 0 | Some t \<Rightarrow> t)"

definition cell_rate_check ::
    "nat \<Rightarrow> quota \<times> (string \<times> nat) list \<Rightarrow> string \<Rightarrow> 32 word
       \<Rightarrow> verdict \<times> quota \<times> (string \<times> nat) list" where
  "cell_rate_check now l k n =
     (case l of
        (q, u) \<Rightarrow>
          (let t = max (full_at u k) now + unat n * replenish_1_per q
           in if unat (quota_burst q) < unat n then (Insufficient_Capacity, l)
              else if now + unat (quota_burst q) * replenish_1_per q < t then (Not_Until, l)
              else (Allowed, q, AList.update k t u)))"

definition cell_rate :: "(quota \<times> (string \<times> nat) list) governor" where
  "cell_rate = \<lparr>gv_keyed = \<lambda>q. (q, []), gv_check_key_n = cell_rate_check\<rparr>"

lemma cell_rate_after: "\<exists>u'. limiter_after cell_rate (q, u) cs = (q, u')"
  by (induction cs arbitrary: u)
     (auto simp: limiter_after_def cell_rate_def cell_rate_check_def Let_def)

lemma cell_rate_admitted:
  assumes "\<forall>c \<in> set cs. a \<le> fst c \<and> fst c \<le> b"
  shows "limiter_admitted cell_rate (q, u) cs k * replenish_1_per q + max (full_at u k) a \<le>
    max (max (full_at u k) a) (b + unat (quota_burst q) * replenish_1_per q)"
  using assms
proof (induction cs arbitrary: u)
  case Nil
  then show ?case by simp
next
  case (Cons c cs)
  obtain now j n where c: "c = (now, j, n)" by (cases c)
  then have now: "a \<le> now" "now \<le> b" using Cons.prems by simp_all
  let ?t = "max (full_at u j) now + unat n * replenish_1_per q"
  let ?u = "AList.update j ?t u"
  have u: "full_at ?u k = (if k = j then ?t else full_at u k)"
    by (simp add: full_at_def update_conv')
  consider (no) "\<exists>v. v \<noteq> Allowed \<and> cell_rate_check now (q, u) j n = (v, q, u)"
    | (yes) "cell_rate_check now (q, u) j n = (Allowed, q, ?u)"
        "?t \<le> now + unat (quota_burst q) * replenish_1_per q"
    by (cases "unat (quota_burst q) < unat n";
        cases "now + unat (quota_burst q) * replenish_1_per q < ?t")
      (simp_all add: cell_rate_check_def Let_def not_less)
  then show ?case
  proof cases
    case no
    then show ?thesis using Cons c by (auto simp: cell_rate_def)
  next
    case yes
    have "limiter_admitted cell_rate (q, ?u) cs k * replenish_1_per q + max (full_at ?u k) a \<le>
        max (max (full_at ?u k) a) (b + unat (quota_burst q) * replenish_1_per q)"
      using Cons.prems by (intro Cons.IH) simp
    then show ?thesis using yes now c u
      by (cases "k = j") (auto simp: cell_rate_def algebra_simps)
  qed
qed

lemma cell_rate_respects_rate: "respects_rate cell_rate"
  unfolding respects_rate_def
proof (intro allI impI, elim conjE)
  fix q k a b and before cs :: "(nat \<times> string \<times> 32 word) list"
  assume cs: "\<forall>c \<in> set cs. a \<le> fst c \<and> fst c \<le> b"
  obtain u where u: "limiter_after cell_rate (gv_keyed cell_rate q) before = (q, u)"
    using cell_rate_after [of q "[]" before] by (auto simp: cell_rate_def)
  show "limiter_admitted cell_rate (limiter_after cell_rate (gv_keyed cell_rate q) before) cs k *
      replenish_1_per q \<le> unat (quota_burst q) * replenish_1_per q + (b - a)"
    using cell_rate_admitted [OF cs, of q u k] unfolding u by (auto simp: max_def split: if_splits)
qed

definition sample_limits :: "ratelimit list" where
  "sample_limits =
     [\<lparr>rl_model = ''gpt'', rl_selector = \<lparr>ch_key = ''user'', ch_value = None\<rparr>,
       rl_limit = \<lparr>lim_tokens = 100, lim_unit = TU_Minute\<rparr>\<rparr>,
      \<lparr>rl_model = ''gpt'', rl_selector = \<lparr>ch_key = ''user'', ch_value = Some ''ann''\<rparr>,
       rl_limit = \<lparr>lim_tokens = 30, lim_unit = TU_Day\<rparr>\<rparr>]"

definition sample_map :: "(quota \<times> (string \<times> nat) list) ratelimit_map" where
  "sample_map = (case ratelimit_new bucket sample_limits of Inr m \<Rightarrow> m)"

lemma sample_map: "ratelimit_new bucket sample_limits = Inr sample_map"
proof -
  have "is_ok (ratelimit_new bucket sample_limits)" by code_simp
  then show ?thesis by (auto simp: sample_map_def is_ok_iff)
qed

definition sample_requests :: "request list" where
  "sample_requests =
     map (\<lambda>(v, n). (0, ''gpt'', \<lparr>h_key = ''user'', h_value = v\<rparr>, n))
       [(''bob'', 60), (''eve'', 80), (''bob'', 60), (''ann'', 1), (''ann'', 1), (''bob'', 40)]"

text \<open>Ten seconds, and so sixteen tokens, after those requests.\<close>

definition later_requests :: "request list" where
  "later_requests =
     map (\<lambda>(s, v, n). (s * 1000000000, ''gpt'', \<lparr>h_key = ''user'', h_value = v\<rparr>, n))
       [(50, ''bob'', 80), (55, ''bob'', 20), (60, ''bob'', 9)]"

theorem admitted_within_limit_witness:
  "\<exists>m. ratelimit_new cell_rate sample_limits = Inr m \<and>
     map_admitted cell_rate (map_after cell_rate m sample_requests) later_requests ''gpt''
       \<lparr>ch_key = ''user'', ch_value = None\<rparr> ''bob'' \<le> 116"
proof -
  have "is_ok (ratelimit_new cell_rate sample_limits)"
    unfolding ratelimit_new_def add_ratelimits_ok by (simp add: sample_limits_def)
  then obtain m where m: "ratelimit_new cell_rate sample_limits = Inr m" by (auto simp: is_ok_iff)
  have e: "entries_for sample_limits ''gpt'' \<lparr>ch_key = ''user'', ch_value = None\<rparr> =
      [hd sample_limits]" by code_simp
  have s: "sorted (map fst (sample_requests @ later_requests))"
    "\<forall>req \<in> set later_requests. 50000000000 \<le> fst req \<and> fst req \<le> 60000000000"
    by (simp_all add: sample_requests_def later_requests_def)
  have i: "limit_interval (rl_limit (hd sample_limits)) = 600000000" "limit_burst (rl_limit (hd sample_limits)) = 100"
    by (simp_all add: sample_limits_def limit_interval_def limit_burst_def)
  from admitted_within_limit [OF m cell_rate_respects_rate e s, of "''bob''"] m show ?thesis
    unfolding i by (intro exI [of _ m]) simp
qed

theorem limits_isolated_witness:
  "map_admitted bucket sample_map sample_requests ''gpt''
     \<lparr>ch_key = ''user'', ch_value = Some ''ann''\<rparr> '''' =
   map_admitted bucket sample_map (filter (\<lambda>req. counted_at sample_map ''gpt''
     \<lparr>ch_key = ''user'', ch_value = Some ''ann''\<rparr> req \<noteq> None) sample_requests) ''gpt''
     \<lparr>ch_key = ''user'', ch_value = Some ''ann''\<rparr> ''''"
proof (rule limits_isolated)
  show "limiter_at sample_map ''gpt'' \<lparr>ch_key = ''user'', ch_value = Some ''ann''\<rparr> \<noteq> None"
    by code_simp
qed

text \<open>
  A daily limit is enforced as an hourly one: a request for more than a twenty-fourth of the
  daily tokens can never be admitted, and a limit below 24 tokens a day admits a token every
  hour.
\<close>

theorem daily_limit_is_hourly:
  "get_quota \<lparr>lim_tokens = n, lim_unit = TU_Day\<rparr> =
     (if n = 0 then get_quota \<lparr>lim_tokens = 0, lim_unit = TU_Hour\<rparr>
      else if n < 24 then get_quota \<lparr>lim_tokens = 1, lim_unit = TU_Hour\<rparr>
      else get_quota \<lparr>lim_tokens = n div 24, lim_unit = TU_Hour\<rparr>)"
proof (cases "n < 24")
  case True
  then have "n div 24 = 0" by (simp add: div_word_less)
  then show ?thesis using True by (simp add: get_quota_def)
next
  case False
  then have "24 \<le> unat n" by (simp add: word_less_nat_alt)
  then have "unat (1 :: 32 word) \<le> unat (n div 24)"
    using div_le_mono [of 24 "unat n" 24] by (simp add: unat_div)
  then have "1 \<le> n div 24" by (simp only: word_le_nat_alt)
  then have "max (n div 24) 1 = n div 24" "n div 24 \<noteq> 0" by (auto simp: max_def)
  moreover have "n \<noteq> 0" using False by auto
  ultimately show ?thesis using False by (simp add: get_quota_def)
qed

end
