(* ===== verification/Gateway_Request.thy ===== *)
theory Gateway_Request
  imports Ratelimit
begin

section \<open>The gateway filter: request headers\<close>

text \<open>
  The request half of \<open>crates/llm_gateway/src/stream_context.rs\<close>: the selection of the provider,
  the upstream path, the credentials sent upstream and the rate-limit selector. The header
  map of the request belongs to the proxy and is a parameter with its operations; the tokenizer
  and the host clock are parameters too. A failed \<open>expect\<close> or \<open>unwrap\<close> is \<open>Inl\<close>. The list of
  extra headers of a provider stands for its hash map in the order in which it is iterated.
\<close>

subsection \<open>Credentials\<close>

definition pick_access_key :: "string \<Rightarrow> nat \<Rightarrow> string" where
  "pick_access_key raw seed =
     (if \<not> contains_char raw (CHR '','') then trim raw
      else
        (let keys = filter (\<lambda>k. k \<noteq> []) (map trim (split_char (CHR '','') raw))
         in if length keys = 0 then trim raw
            else if length keys = 1 then keys ! 0
            else keys ! (seed mod length keys)))"

definition extract_client_credential :: "string option \<Rightarrow> string option \<Rightarrow> string option" where
  "extract_client_credential authorization x_api_key =
     (let from_authorization =
        (case authorization of
           None \<Rightarrow> None
         | Some v \<Rightarrow>
             (let s = trim (case strip_prefix ''Bearer '' v of
                              Some r \<Rightarrow> r
                            | None \<Rightarrow> (case strip_prefix ''Bearer'' v of Some r \<Rightarrow> r | None \<Rightarrow> v))
              in if s \<noteq> [] then Some s else None))
      in case from_authorization of
           Some c \<Rightarrow> Some c
         | None \<Rightarrow>
             (case x_api_key of
                None \<Rightarrow> None
              | Some k \<Rightarrow> (if trim k \<noteq> [] then Some (trim k) else None)))"

subsection \<open>The filter's state and the proxy\<close>

record 'h host =
  ho_get :: "'h \<Rightarrow> string \<Rightarrow> string option"
  ho_set :: "string \<Rightarrow> string option \<Rightarrow> 'h \<Rightarrow> 'h"
  ho_add :: "string \<Rightarrow> string \<Rightarrow> 'h \<Rightarrow> 'h"

record gateway_request =
  gr_ratelimit_selector :: "header option"
  gr_streaming_response :: bool
  gr_client_api :: "client_api option"
  gr_resolved_api :: "upstream_api option"
  gr_llm_provider :: "llm_provider option"
  gr_request_id :: "string option"
  gr_traceparent :: "string option"
  gr_http_method :: "string option"
  gr_http_protocol :: "string option"

definition gateway_request_new :: gateway_request where
  "gateway_request_new =
     \<lparr>gr_ratelimit_selector = None, gr_streaming_response = False, gr_client_api = None,
      gr_resolved_api = None, gr_llm_provider = None, gr_request_id = None, gr_traceparent = None,
      gr_http_method = None, gr_http_protocol = None\<rparr>"

definition HEALTHZ_PATH :: string where "HEALTHZ_PATH = ''/healthz''"
definition IS_STREAMING_HEADER :: string where
  "IS_STREAMING_HEADER = ''x-arch-streaming-request''"
definition PROVIDER_HINT_HEADER :: string where
  "PROVIDER_HINT_HEADER = ''x-arch-llm-provider-hint''"
definition ROUTING_HEADER :: string where "ROUTING_HEADER = ''x-arch-llm-provider''"
definition RATELIMIT_SELECTOR_HEADER_KEY :: string where
  "RATELIMIT_SELECTOR_HEADER_KEY = ''x-arch-ratelimit-selector''"
definition REQUEST_ID_HEADER :: string where "REQUEST_ID_HEADER = ''x-request-id''"
definition TRACE_PARENT_HEADER :: string where "TRACE_PARENT_HEADER = ''traceparent''"

text \<open>\<open>StreamContext::update_upstream_path\<close>, for the selected provider.\<close>

definition update_upstream_path ::
    "'h host \<Rightarrow> llm_provider \<Rightarrow> gateway_request \<Rightarrow> string \<Rightarrow> 'h \<Rightarrow> string + 'h" where
  "update_upstream_path H p g request_path h =
     (case lp_to_provider_id p of
        Inl e \<Rightarrow> Inl e
      | Inr pid \<Rightarrow>
          Inr (case gr_client_api g of
                 None \<Rightarrow> h
               | Some api \<Rightarrow>
                   (let target = target_endpoint_for_provider api pid request_path
                          (case lp_model p of None \<Rightarrow> [] | Some m \<Rightarrow> m) (gr_streaming_response g)
                          (lp_base_url_path_prefix p) (starts_with (lp_name p) ''perplexity/'')
                    in if target \<noteq> request_path then ho_set H '':path'' (Some target) h else h)))"

text \<open>
  \<open>StreamContext::modify_auth_headers\<close>; the error is the text of its \<open>BadRequest\<close>, and \<open>seed\<close>
  the host clock in nanoseconds.
\<close>

definition set_credential ::
    "'h host \<Rightarrow> upstream_api option \<Rightarrow> string \<Rightarrow> 'h \<Rightarrow> 'h" where
  "set_credential H resolved_api credential h =
     (case resolved_api of
        Some (U_AnthropicMessagesAPI _) \<Rightarrow>
          ho_set H ''anthropic-version'' (Some ''2023-06-01'')
            (ho_set H ''x-api-key'' (Some credential) (ho_set H ''Authorization'' None h))
      | _ \<Rightarrow>
          ho_set H ''Authorization'' (Some (''Bearer '' @ credential))
            (ho_set H ''x-api-key'' None h))"

definition set_extra_headers :: "'h host \<Rightarrow> (string \<times> string) list option \<Rightarrow> 'h \<Rightarrow> 'h" where
  "set_extra_headers H extra h =
     (case extra of None \<Rightarrow> h | Some kvs \<Rightarrow> foldl (\<lambda>h (k, v). ho_set H k (Some v) h) h kvs)"

definition modify_auth_headers ::
    "'h host \<Rightarrow> nat \<Rightarrow> llm_provider \<Rightarrow> upstream_api option \<Rightarrow> 'h \<Rightarrow> string + 'h" where
  "modify_auth_headers H seed p resolved_api h =
     (let finish = (\<lambda>credential. Inr (set_extra_headers H (lp_headers p)
                                      (set_credential H resolved_api credential h)))
      in if lp_passthrough_auth p = Some True then
           (case extract_client_credential (ho_get H h ''Authorization'') (ho_get H h ''x-api-key'') of
              Some key \<Rightarrow> finish key
            | None \<Rightarrow> Inr h)
         else
           (case lp_access_key p of
              None \<Rightarrow> Inl (''No access key configured for selected LLM Provider '' @ [CHR 0x22]
                           @ lp_name p @ [CHR 0x22])
            | Some raw \<Rightarrow> finish (pick_access_key raw seed)))"

text \<open>\<open>StreamContext::save_ratelimit_header\<close>.\<close>

definition save_ratelimit_header :: "'h host \<Rightarrow> 'h \<Rightarrow> gateway_request \<Rightarrow> gateway_request" where
  "save_ratelimit_header H h g =
     g\<lparr>gr_ratelimit_selector :=
         (case ho_get H h RATELIMIT_SELECTOR_HEADER_KEY of
            None \<Rightarrow> None
          | Some key \<Rightarrow>
              (case ho_get H h key of
                 None \<Rightarrow> None
               | Some v \<Rightarrow> Some \<lparr>h_key = key, h_value = v\<rparr>))\<rparr>"

type_synonym reply = "nat \<times> string option"

text \<open>
  The part of \<open>on_http_request_headers\<close> for a supported endpoint: the upstream path, the
  routing header and the credentials.
\<close>

definition prepare_upstream ::
    "'h host \<Rightarrow> nat \<Rightarrow> llm_provider \<Rightarrow> string \<Rightarrow> gateway_request \<Rightarrow> 'h
       \<Rightarrow> string + 'h \<times> reply list" where
  "prepare_upstream H seed p request_path g h =
     (case update_upstream_path H p g request_path h of
        Inl e \<Rightarrow> Inl e
      | Inr h \<Rightarrow>
          (let cluster = (case lp_cluster_name p of
                            Some c \<Rightarrow> c
                          | None \<Rightarrow> llm_provider_type_display (lp_provider_interface p));
               h = ho_add H ROUTING_HEADER cluster h
           in case modify_auth_headers H seed p (gr_resolved_api g) h of
                Inr h \<Rightarrow> Inr (h, [])
              | Inl err \<Rightarrow>
                  Inr (h, if lp_endpoint p = None \<and> lp_provider_interface p \<noteq> L_Plano
                          then [(400, Some err)] else [])))"

text \<open>
  \<open>on_http_request_headers\<close>: the state, the headers that go upstream and the replies sent to
  the client.
\<close>

definition on_http_request_headers ::
    "'h host \<Rightarrow> nat \<Rightarrow> llm_providers \<Rightarrow> gateway_request \<Rightarrow> 'h
       \<Rightarrow> string + gateway_request \<times> 'h \<times> reply list" where
  "on_http_request_headers H seed tab g h =
     (let request_path = (case ho_get H h '':path'' of None \<Rightarrow> [] | Some p \<Rightarrow> p)
      in if request_path = HEALTHZ_PATH then Inr (g, h, [(200, None)])
         else
           (let g = g\<lparr>gr_http_method := ho_get H h '':method'',
                      gr_http_protocol := ho_get H h '':scheme'',
                      gr_streaming_response := (ho_get H h IS_STREAMING_HEADER = Some ''true'')\<rparr>
            in case select_llm_provider tab (ho_get H h PROVIDER_HINT_HEADER) of
                 Inl err \<Rightarrow>
                   Inr (g, h, [(400, Some (''{'' @ [CHR 0x22] @ ''error'' @ [CHR 0x22] @ '': ''
                                           @ [CHR 0x22] @ err @ [CHR 0x22] @ ''}''))])
               | Inr p \<Rightarrow>
                   (let g = g\<lparr>gr_llm_provider := Some p\<rparr>
                    in case client_from_endpoint request_path of
                         None \<Rightarrow> Inr (g, h, [(404, Some ''Unsupported endpoint'')])
                       | Some api \<Rightarrow>
                           (case lp_to_provider_id p of
                              Inl e \<Rightarrow> Inl e
                            | Inr pid \<Rightarrow>
                                (let g = g\<lparr>gr_client_api := Some api,
                                           gr_resolved_api := Some (compatible_api_for_client pid api
                                             (gr_streaming_response g))\<rparr>
                                 in case prepare_upstream H seed p request_path g h of
                                      Inl e \<Rightarrow> Inl e
                                    | Inr (h, replies) \<Rightarrow>
                                        (let h = ho_set H ''content-length'' None h;
                                             g = save_ratelimit_header H h g
                                         in Inr (g\<lparr>gr_request_id := ho_get H h REQUEST_ID_HEADER,
                                                   gr_traceparent := ho_get H h TRACE_PARENT_HEADER\<rparr>,
                                                 h, replies)))))))"

text \<open>
  \<open>StreamContext::enforce_ratelimits\<close>: \<open>token_count\<close> is the tokenizer's count, or none if it
  fails. The result is the panic of \<open>unwrap\<close>, or the verdict with the limiters; the selector
  is taken out of the state.
\<close>

definition enforce_ratelimits ::
    "'l governor \<Rightarrow> nat \<Rightarrow> nat option \<Rightarrow> string \<Rightarrow> gateway_request \<Rightarrow> 'l ratelimit_map
       \<Rightarrow> (string + (ratelimit_error + unit)) \<times> gateway_request \<times> 'l ratelimit_map" where
  "enforce_ratelimits gov now token_count model g m =
     (let n = (case token_count of None \<Rightarrow> 0 | Some n \<Rightarrow> n)
      in case gr_ratelimit_selector g of
           None \<Rightarrow> (Inr (Inr ()), g, m)
         | Some selector \<Rightarrow>
             (let g = g\<lparr>gr_ratelimit_selector := None\<rparr>
              in if (of_nat n :: 32 word) = 0 then (Inl ''called `Option::unwrap()` on a `None` value'', g, m)
                 else
                   (case check_limit gov now m model selector (of_nat n) of
                      (r, m') \<Rightarrow> (Inr r, g, m'))))"

subsection \<open>The choice among several keys\<close>

definition access_keys :: "string \<Rightarrow> string list" where
  "access_keys raw = filter (\<lambda>k. k \<noteq> []) (map trim (split_char (CHR '','') raw))"

lemma pick_access_key_eq:
  "access_keys raw \<noteq> [] \<Longrightarrow>
     pick_access_key raw seed = access_keys raw ! (seed mod length (access_keys raw))"
  by (auto simp: pick_access_key_def access_keys_def contains_char_def Let_def split_char_single
      split: if_splits)

text \<open>
  From a comma-separated list of credentials the gateway always picks one of the entries, never
  an empty one, and every entry is picked at some reading of the clock.
\<close>

theorem pick_access_key_fair:
  assumes "access_keys raw \<noteq> []"
  shows "range (pick_access_key raw) = set (access_keys raw) \<and> [] \<notin> set (access_keys raw)"
proof -
  let ?ks = "access_keys raw"
  have "set ?ks \<subseteq> range (pick_access_key raw)"
  proof
    fix k
    assume "k \<in> set ?ks"
    then obtain i where "i < length ?ks" "?ks ! i = k" by (metis in_set_conv_nth)
    then have "pick_access_key raw i = k" using pick_access_key_eq [OF assms] by simp
    then show "k \<in> range (pick_access_key raw)" by blast
  qed
  moreover have "range (pick_access_key raw) \<subseteq> set ?ks"
    using pick_access_key_eq [OF assms] assms by auto
  ultimately show ?thesis by (auto simp: access_keys_def)
qed

theorem pick_access_key_fair_witness:
  "range (pick_access_key ''k1, ,k2'') = {''k1'', ''k2''}"
proof -
  have "access_keys ''k1, ,k2'' = [''k1'', ''k2'']" by code_simp
  then show ?thesis using pick_access_key_fair [of "''k1, ,k2''"] by simp
qed

subsection \<open>Credentials that reach the upstream\<close>

text \<open>What is documented of the proxy's header map: names do not depend on case, and setting a
  header replaces or removes it and leaves the others; adding a value leaves the others.\<close>

definition host_ok :: "'h host \<Rightarrow> bool" where
  "host_ok H \<longleftrightarrow>
     (\<forall>k v h k'. ho_get H (ho_set H k v h) k' =
        (if to_lowercase k' = to_lowercase k then v else ho_get H h k')) \<and>
     (\<forall>k v h k'. to_lowercase k' \<noteq> to_lowercase k \<longrightarrow> ho_get H (ho_add H k v h) k' = ho_get H h k')"

lemma host_set:
  "host_ok H \<Longrightarrow> ho_get H (ho_set H k v h) k' =
     (if to_lowercase k' = to_lowercase k then v else ho_get H h k')"
  by (simp add: host_ok_def)

lemma host_add:
  "host_ok H \<Longrightarrow> to_lowercase k' \<noteq> to_lowercase k \<Longrightarrow> ho_get H (ho_add H k v h) k' = ho_get H h k'"
  by (simp add: host_ok_def)

definition credential_header :: "string \<Rightarrow> bool" where
  "credential_header k = (to_lowercase k \<in> {''authorization'', ''x-api-key''})"

lemma lowercase_names:
  "to_lowercase ''Authorization'' = ''authorization''" "to_lowercase ''x-api-key'' = ''x-api-key''"
  "to_lowercase ''content-length'' = ''content-length''" "to_lowercase '':path'' = '':path''"
  "to_lowercase ''anthropic-version'' = ''anthropic-version''"
  "to_lowercase ROUTING_HEADER = ''x-arch-llm-provider''"
  by code_simp+

definition extra_names :: "(string \<times> string) list option \<Rightarrow> string list" where
  "extra_names extra = (case extra of None \<Rightarrow> [] | Some kvs \<Rightarrow> map fst kvs)"

lemma extra_headers_keep:
  assumes "host_ok H" "\<forall>k' \<in> set (extra_names extra). to_lowercase k' \<noteq> to_lowercase k"
  shows "ho_get H (set_extra_headers H extra h) k = ho_get H h k"
proof -
  have "ho_get H (foldl (\<lambda>h (k, v). ho_set H k (Some v) h) h kvs) k = ho_get H h k"
    if "\<forall>k' \<in> set (map fst kvs). to_lowercase k' \<noteq> to_lowercase k" for kvs
    using that by (induction kvs arbitrary: h) (auto simp: host_set [OF assms(1)])
  then show ?thesis using assms(2) 
    by (cases extra) (simp_all add: set_extra_headers_def extra_names_def)
qed

definition credentials_sent :: "'h host \<Rightarrow> 'h \<Rightarrow> string option \<times> string option" where
  "credentials_sent H h = (ho_get H h ''Authorization'', ho_get H h ''x-api-key'')"

fun upstream_credentials :: "upstream_api option \<Rightarrow> string \<Rightarrow> string option \<times> string option" where
  "upstream_credentials (Some (U_AnthropicMessagesAPI a)) c = (None, Some c)"
| "upstream_credentials _ c = (Some (''Bearer '' @ c), None)"

lemma credentials_of_set:
  assumes "host_ok H"
  shows "credentials_sent H (set_credential H api c h) = upstream_credentials api c"
  using assms
  by (cases "(api, c)" rule: upstream_credentials.cases)
    (simp_all add: set_credential_def credentials_sent_def host_set lowercase_names)

lemma credentials_kept:
  assumes "host_ok H"
  shows "credentials_sent H (ho_set H ''content-length'' v h) = credentials_sent H h"
    and "credentials_sent H (ho_set H '':path'' v h) = credentials_sent H h"
    and "credentials_sent H (ho_add H ROUTING_HEADER c h) = credentials_sent H h"
  using assms by (simp_all add: credentials_sent_def host_set host_add lowercase_names)

lemma credentials_extra:
  assumes "host_ok H" "\<forall>k \<in> set (extra_names extra). \<not> credential_header k"
  shows "credentials_sent H (set_extra_headers H extra h) = credentials_sent H h"
proof -
  have keep: "ho_get H (set_extra_headers H extra h) k = ho_get H h k" if "credential_header k" for k
    by (rule extra_headers_keep [OF assms(1)]) (use assms(2) that in \<open>auto simp: credential_header_def\<close>)
  have "credential_header ''Authorization''" "credential_header ''x-api-key''"
    unfolding credential_header_def lowercase_names by simp_all
  then show ?thesis by (simp add: credentials_sent_def keep)
qed

lemma update_path_credentials:
  assumes "host_ok H" "update_upstream_path H p g path h = Inr h'"
  shows "credentials_sent H h' = credentials_sent H h"
  using assms
  by (auto simp: update_upstream_path_def Let_def credentials_kept
      split: sum.splits option.splits if_splits)

text \<open>The stages of a request that gets as far as the upstream API.\<close>

lemma request_stages:
  assumes "on_http_request_headers H seed tab gateway_request_new h = Inr (g', h', replies)"
    and "gr_resolved_api g' \<noteq> None"
  shows "\<exists>p g path h1 h2. gr_llm_provider g' = Some p \<and> gr_resolved_api g' = gr_resolved_api g \<and>
    update_upstream_path H p g path h = Inr h1 \<and>
    h' = ho_set H ''content-length'' None h2 \<and>
    (let h1 = ho_add H ROUTING_HEADER
        (case lp_cluster_name p of Some c \<Rightarrow> c
         | None \<Rightarrow> llm_provider_type_display (lp_provider_interface p)) h1
     in case modify_auth_headers H seed p (gr_resolved_api g') h1 of
          Inr h3 \<Rightarrow> h2 = h3 \<and> replies = []
        | Inl err \<Rightarrow> h2 = h1 \<and>
            replies = (if lp_endpoint p = None \<and> lp_provider_interface p \<noteq> L_Plano
                       then [(400, Some err)] else []))"
proof -
  let ?path = "case ho_get H h '':path'' of None \<Rightarrow> [] | Some p \<Rightarrow> p"
  let ?g = "gateway_request_new\<lparr>gr_http_method := ho_get H h '':method'',
      gr_http_protocol := ho_get H h '':scheme'',
      gr_streaming_response := (ho_get H h IS_STREAMING_HEADER = Some ''true'')\<rparr>"
  note run = assms(1) [unfolded on_http_request_headers_def Let_def]
  have path: "?path \<noteq> HEALTHZ_PATH"
    using run assms(2) by (auto simp: gateway_request_new_def)
  obtain p where p: "select_llm_provider tab (ho_get H h PROVIDER_HINT_HEADER) = Inr p"
    using run assms(2) path
    by (cases "select_llm_provider tab (ho_get H h PROVIDER_HINT_HEADER)")
      (auto simp: gateway_request_new_def)
  obtain api where api: "client_from_endpoint ?path = Some api"
    using run assms(2) path p
    by (cases "client_from_endpoint ?path") (auto simp: gateway_request_new_def)
  obtain pid where pid: "lp_to_provider_id p = Inr pid"
    using run path p api by (cases "lp_to_provider_id p") auto
  define g where "g = ?g\<lparr>gr_llm_provider := Some p, gr_client_api := Some api,
      gr_resolved_api := Some (compatible_api_for_client pid api (gr_streaming_response ?g))\<rparr>"
  have "\<exists>h2. prepare_upstream H seed p ?path g h = Inr (h2, replies) \<and>
      h' = ho_set H ''content-length'' None h2 \<and> gr_llm_provider g' = Some p \<and>
      gr_resolved_api g' = gr_resolved_api g"
    using run path p api pid
    by (cases "prepare_upstream H seed p ?path g h")
      (auto simp: g_def save_ratelimit_header_def)
  then obtain h2 where h2: "prepare_upstream H seed p ?path g h = Inr (h2, replies)"
      "h' = ho_set H ''content-length'' None h2" "gr_llm_provider g' = Some p"
      "gr_resolved_api g' = gr_resolved_api g"
    by blast
  obtain h1 where h1: "update_upstream_path H p g ?path h = Inr h1"
    using h2(1) by (cases "update_upstream_path H p g ?path h") (simp_all add: prepare_upstream_def)
  show ?thesis
    by (rule exI [of _ p], rule exI [of _ g], rule exI [of _ ?path], rule exI [of _ h1],
        rule exI [of _ h2])
      (use h2 h1 in \<open>auto simp: prepare_upstream_def Let_def split: sum.splits\<close>)
qed

text \<open>
  (C6) Credential isolation: for a provider with a configured key and without pass-through, the
  request that goes upstream carries that key in the header its API expects and no other
  credential: whatever \<open>Authorization\<close> or \<open>x-api-key\<close> the client sent is gone (unless the
  provider's own extra headers set them).
\<close>

theorem only_configured_credential:
  assumes "host_ok H"
    and "on_http_request_headers H seed tab gateway_request_new h = Inr (g', h', replies)"
    and "gr_resolved_api g' \<noteq> None" "gr_llm_provider g' = Some p"
    and "lp_passthrough_auth p \<noteq> Some True" "lp_access_key p = Some raw"
    and "\<forall>k \<in> set (extra_names (lp_headers p)). \<not> credential_header k"
  shows "credentials_sent H h' = upstream_credentials (gr_resolved_api g') (pick_access_key raw seed)
    \<and> replies = []"
  using request_stages [OF assms(2,3)] assms(1,4-7)
  by (auto simp: modify_auth_headers_def Let_def credentials_kept credentials_of_set
      credentials_extra)

text \<open>
  The gap in that isolation: for a provider without a key but with an endpoint of its own, the
  request is still sent, and the client's own credential headers reach the upstream as they
  came, although pass-through is not enabled.
\<close>

theorem client_credential_leaks:
  assumes "host_ok H"
    and "on_http_request_headers H seed tab gateway_request_new h = Inr (g', h', replies)"
    and "gr_resolved_api g' \<noteq> None" "gr_llm_provider g' = Some p"
    and "lp_passthrough_auth p \<noteq> Some True" "lp_access_key p = None"
    and "lp_endpoint p \<noteq> None \<or> lp_provider_interface p = L_Plano"
  shows "credentials_sent H h' = credentials_sent H h \<and> replies = []"
  using request_stages [OF assms(2,3)] assms(1,4-7) update_path_credentials [OF assms(1)]
  by (auto simp: modify_auth_headers_def Let_def credentials_kept split: option.splits)

text \<open>
  A rate-limited request whose text the tokenizer counts as empty, or cannot count, panics the
  filter instead of passing: exactly these requests do, and counts of \<open>2 ^ 32\<close> and its
  multiples.
\<close>

theorem empty_prompt_panics:
  "(\<exists>e. fst (enforce_ratelimits gov now token_count model g m) = Inl e) \<longleftrightarrow>
     gr_ratelimit_selector g \<noteq> None \<and>
     (case token_count of None \<Rightarrow> 0 | Some n \<Rightarrow> n) mod 2 ^ 32 = 0"
proof -
  have "(of_nat n :: 32 word) = 0 \<longleftrightarrow> n mod 2 ^ 32 = 0" for n
    by (simp add: word_of_nat_eq_0_iff dvd_eq_mod_eq_0)
  then show ?thesis
    by (auto simp: enforce_ratelimits_def Let_def split: option.split prod.split)
qed

subsection \<open>A sample proxy\<close>

text \<open>Headers as a list with lower-case names, the first value of a name being the one read.\<close>

definition list_host :: "(string \<times> string) list host" where
  "list_host =
     \<lparr>ho_get = (\<lambda>h k. map_of h (to_lowercase k)),
      ho_set = (\<lambda>k v h. case v of None \<Rightarrow> AList.delete (to_lowercase k) h
                                | Some v \<Rightarrow> AList.update (to_lowercase k) v h),
      ho_add = (\<lambda>k v h. h @ [(to_lowercase k, v)])\<rparr>"

lemma list_host_ok: "host_ok list_host"
  by (simp add: host_ok_def list_host_def update_conv' delete_conv' map_add_def split: option.split)

definition sample_headers :: "(string \<times> string) list" where
  "sample_headers =
     [('':path'', ''/v1/chat/completions''), (''authorization'', ''Bearer client''),
      (''x-api-key'', ''client''), (PROVIDER_HINT_HEADER, ''openai/gpt-4o'')]"

theorem only_configured_credential_witness:
  "\<exists>g' h' replies. on_http_request_headers list_host 7 sample_providers gateway_request_new sample_headers
      = Inr (g', h', replies) \<and>
    credentials_sent list_host h' = (Some ''Bearer A'', None)"
proof -
  let ?r = "on_http_request_headers list_host 7 sample_providers gateway_request_new sample_headers"
  let ?p = "sample_entry ''openai/gpt-4o'' ''gpt-4o'' ''A''"
  have "case ?r of Inl e \<Rightarrow> False | Inr (g', h', rs) \<Rightarrow>
      gr_resolved_api g' = Some (U_OpenAIChatCompletions ChatCompletions) \<and> gr_llm_provider g' = Some ?p"
    by code_simp
  then obtain g' h' rs where r: "?r = Inr (g', h', rs)"
    and g: "gr_resolved_api g' = Some (U_OpenAIChatCompletions ChatCompletions)"
      "gr_llm_provider g' = Some ?p"
    by (auto split: sum.splits prod.splits)
  have p: "lp_passthrough_auth ?p \<noteq> Some True" "lp_access_key ?p = Some ''A''"
    "\<forall>k \<in> set (extra_names (lp_headers ?p)). \<not> credential_header k"
    by (simp_all add: sample_entry_def llm_provider_default_def extra_names_def)
  have "pick_access_key ''A'' 7 = ''A''" by code_simp
  then have "credentials_sent list_host h' = (Some ''Bearer A'', None)"
    using only_configured_credential [OF list_host_ok r _ g(2) p] g(1) by simp
  then show ?thesis using r by blast
qed

definition keyless_provider :: llm_provider where
  "keyless_provider = llm_provider_default
     \<lparr>lp_name := ''openai/local'', lp_model := Some ''local'', lp_endpoint := Some ''10.0.0.5''\<rparr>"

theorem client_credential_leaks_witness:
  "\<exists>g' h' replies. on_http_request_headers list_host 7
        \<lparr>providers = [], default_provider = Some keyless_provider, wildcard_providers = []\<rparr>
        gateway_request_new sample_headers = Inr (g', h', replies) \<and>
     credentials_sent list_host h' = (Some ''Bearer client'', Some ''client'') \<and> replies = []"
proof -
  let ?r = "on_http_request_headers list_host 7
      \<lparr>providers = [], default_provider = Some keyless_provider, wildcard_providers = []\<rparr>
      gateway_request_new sample_headers"
  have "case ?r of Inl e \<Rightarrow> False | Inr (g', h', rs) \<Rightarrow>
      gr_resolved_api g' = Some (U_OpenAIChatCompletions ChatCompletions) \<and>
      gr_llm_provider g' = Some keyless_provider"
    by code_simp
  then obtain g' h' rs where r: "?r = Inr (g', h', rs)"
    and g: "gr_resolved_api g' = Some (U_OpenAIChatCompletions ChatCompletions)"
      "gr_llm_provider g' = Some keyless_provider"
    by (auto split: sum.splits prod.splits)
  have p: "lp_passthrough_auth keyless_provider \<noteq> Some True" "lp_access_key keyless_provider = None"
    "lp_endpoint keyless_provider \<noteq> None \<or> lp_provider_interface keyless_provider = L_Plano"
    by (simp_all add: keyless_provider_def llm_provider_default_def)
  have "credentials_sent list_host sample_headers = (Some ''Bearer client'', Some ''client'')"
    by code_simp
  then show ?thesis
    using client_credential_leaks [OF list_host_ok r _ g(2) p] g(1) r by auto
qed

end
