(* ===== verification/Prompt_Gateway.thy ===== *)
theory Prompt_Gateway
  imports Request_Path Gateway_Request
begin

section \<open>Prompt gateway: the filter\<close>

text \<open>
  The callbacks of \<open>crates/prompt_gateway/src/{filter_context,stream_context,http_context,context}.rs\<close>.
  A callback takes the context of the stream and gives the new context with what it asked the proxy
  to do, in order; \<open>None\<close> is a panic. The dispatch of a call by the proxy (the token, or the status
  of a failure), the texts of serde errors and the clock are parameters. Writing JSON does not fail
  for the types written here. Logging is left out.
\<close>

subsection \<open>Configuration\<close>

record gw_configuration =
  gwc_endpoints :: "(string \<times> string option) list option"
  gwc_overrides :: "gw_overrides option"
  gwc_system_prompt :: "string option"
  gwc_prompt_targets :: "prompt_target list option"

record gw_config =
  gc_system_prompt :: "string option"
  gc_prompt_targets :: "(string \<times> prompt_target) list"
  gc_endpoints :: "(string \<times> string option) list option"
  gc_overrides :: "gw_overrides option"

definition gw_config_new :: gw_config where
  "gw_config_new = \<lparr>gc_system_prompt = None, gc_prompt_targets = [], gc_endpoints = None, gc_overrides = None\<rparr>"

definition on_configure :: "(string list \<Rightarrow> string list) \<Rightarrow> gw_configuration \<Rightarrow> gw_config" where
  "on_configure ord conf =
     \<lparr>gc_system_prompt = gwc_system_prompt conf,
      gc_prompt_targets = hash_entries ord (hash_of (map (\<lambda>t. (pt_name t, t))
        (case gwc_prompt_targets conf of Some ts \<Rightarrow> ts | None \<Rightarrow> []))),
      gc_endpoints = gwc_endpoints conf,
      gc_overrides = gwc_overrides conf\<rparr>"

definition override_flag :: "(gw_overrides \<Rightarrow> bool option) \<Rightarrow> gw_config \<Rightarrow> bool" where
  "override_flag f C = (case gc_overrides C of Some ov \<Rightarrow> f ov = Some True | None \<Rightarrow> False)"

subsection \<open>State and calls\<close>

record call_args =
  ca_upstream :: string
  ca_path :: string
  ca_headers :: "(string \<times> string) list"
  ca_body :: "string option"
  ca_trailers :: "(string \<times> string) list"
  ca_timeout_secs :: nat

datatype response_handler_type = RH_ArchFC | RH_FunctionCall | RH_DefaultTarget

record call_context =
  sc_handler :: response_handler_type
  sc_user_message :: "string option"
  sc_prompt_target_name :: "string option"
  sc_request_body :: gw_request
  sc_upstream_cluster :: "string option"
  sc_upstream_cluster_path :: "string option"

record prompt_context =
  px_callouts :: "(nat \<times> call_context) list"
  px_tool_calls :: "gw_tool_call list option"
  px_tool_call_response :: "string option"
  px_arch_state :: "arch_state list option"
  px_request_body_size :: nat
  px_user_prompt :: "gw_message option"
  px_streaming_response :: bool
  px_is_chat_completions_request :: bool
  px_chat_completions_request :: "gw_request option"
  px_request_id :: "string option"
  px_start_upstream_llm_request_time :: nat
  px_time_to_first_token :: "nat option"
  px_traceparent :: "string option"
  px_arch_fc_response :: "string option"

definition prompt_context_new :: prompt_context where
  "prompt_context_new =
     \<lparr>px_callouts = [], px_tool_calls = None, px_tool_call_response = None, px_arch_state = None,
      px_request_body_size = 0, px_user_prompt = None, px_streaming_response = False,
      px_is_chat_completions_request = False, px_chat_completions_request = None, px_request_id = None,
      px_start_upstream_llm_request_time = 0, px_time_to_first_token = None, px_traceparent = None,
      px_arch_fc_response = None\<rparr>"

record gateway_env =
  ge_path :: path_env
  ge_dispatch :: "call_args \<Rightarrow> string + nat"
  ge_shape_error :: "string \<Rightarrow> string"
  ge_now_nanos :: nat

abbreviation ge_codec :: "gateway_env \<Rightarrow> json_codec" where
  "ge_codec E \<equiv> pe_codec (ge_path E)"

abbreviation ge_order :: "gateway_env \<Rightarrow> string list \<Rightarrow> string list" where
  "ge_order E \<equiv> pe_order (ge_path E)"

datatype host_action =
    HA_Response nat "string option"
  | HA_SetRequestBody nat string
  | HA_ResumeRequest
  | HA_Call nat call_args
  | HA_SetResponseHeader string "string option"
  | HA_SetResponseBody nat string

datatype filter_action = A_Continue | A_Pause

text \<open>\<open>serde_json\<close> on a body; the error is its text.\<close>

definition read_body :: "gateway_env \<Rightarrow> (json \<Rightarrow> 'a option) \<Rightarrow> string \<Rightarrow> string + 'a" where
  "read_body E f body =
     (case json_parse (ge_codec E) body of
        Inl e \<Rightarrow> Inl e
      | Inr j \<Rightarrow> (case f j of Some x \<Rightarrow> Inr x | None \<Rightarrow> Inl (ge_shape_error E body)))"

definition send_server_error :: "server_error \<Rightarrow> nat option \<Rightarrow> host_action" where
  "send_server_error e status =
     HA_Response (case status of Some n \<Rightarrow> n | None \<Rightarrow> 500) (Some (server_error_display e))"

definition http_call ::
    "gateway_env \<Rightarrow> call_args \<Rightarrow> call_context \<Rightarrow> prompt_context \<Rightarrow> client_error + prompt_context \<times> host_action list" where
  "http_call E args cc ctx =
     (case ge_dispatch E args of
        Inr token \<Rightarrow> Inr (ctx\<lparr>px_callouts := AList.update token cc (px_callouts ctx)\<rparr>, [HA_Call token args])
      | Inl status \<Rightarrow> Inl \<lparr>ce_upstream_name = ca_upstream args, ce_path = ca_path args, ce_internal_status = status\<rparr>)"

definition call_or_error ::
    "gateway_env \<Rightarrow> call_args \<Rightarrow> call_context \<Rightarrow> nat option \<Rightarrow> prompt_context \<Rightarrow> prompt_context \<times> host_action list" where
  "call_or_error E args cc status ctx =
     (case http_call E args cc ctx of
        Inr r \<Rightarrow> r
      | Inl e \<Rightarrow> (ctx, [send_server_error (SE_HttpDispatch e) status]))"

text \<open>The status code of a header: three digits from 100 on.\<close>

definition status_of :: "string \<Rightarrow> nat option" where
  "status_of s =
     (if length s = 3 \<and> list_all is_digit s \<and> 100 \<le> decimal_value s then Some (decimal_value s) else None)"

definition status_is_success :: "nat \<Rightarrow> bool" where
  "status_is_success n \<longleftrightarrow> 200 \<le> n \<and> n < 300"


subsection \<open>The request\<close>

definition UPSTREAM_HOST_HEADER :: string where "UPSTREAM_HOST_HEADER = ''x-arch-upstream''"
definition ARCH_INTERNAL_CLUSTER_NAME :: string where "ARCH_INTERNAL_CLUSTER_NAME = ''arch_internal''"
definition MODEL_SERVER_NAME :: string where "MODEL_SERVER_NAME = ''bright_staff''"
definition X_ARCH_STATE_HEADER :: string where "X_ARCH_STATE_HEADER = ''x-arch-state''"
definition X_ARCH_API_RESPONSE :: string where "X_ARCH_API_RESPONSE = ''x-arch-api-response-message''"
definition X_ARCH_TOOL_CALL :: string where "X_ARCH_TOOL_CALL = ''x-arch-tool-call-message''"
definition X_ARCH_FC_MODEL_RESPONSE :: string where "X_ARCH_FC_MODEL_RESPONSE = ''x-arch-fc-model-response''"
definition REQUEST_TIMEOUT_MS :: string where "REQUEST_TIMEOUT_MS = ''30000''"

text \<open>The routing header in the mode of the agent orchestrator, or an error that does not stop the request.\<close>

definition set_orchestrator_endpoint :: "'h host \<Rightarrow> gw_config \<Rightarrow> 'h \<Rightarrow> 'h \<times> host_action list" where
  "set_orchestrator_endpoint H C h =
     (if override_flag ov_use_agent_orchestrator C then
        (case gc_endpoints C of
           None \<Rightarrow> (h, [])
         | Some [(n, _)] \<Rightarrow> (ho_set H ROUTING_HEADER (Some n) h, [])
         | Some _ \<Rightarrow>
             (h, [send_server_error (SE_LogicError ''Need single endpoint when use_agent_orchestrator is set'') None]))
      else (h, []))"

definition pg_request_headers ::
    "'h host \<Rightarrow> gw_config \<Rightarrow> 'h \<Rightarrow> prompt_context \<Rightarrow> 'h \<times> prompt_context \<times> host_action list \<times> filter_action" where
  "pg_request_headers H C h ctx =
     (let (h, acts) = set_orchestrator_endpoint H C (ho_set H ''content-length'' None h);
          path = (case ho_get H h '':path'' of Some p \<Rightarrow> p | None \<Rightarrow> [])
      in if path = HEALTHZ_PATH then (h, ctx, acts @ [HA_Response 200 None], A_Continue)
         else (h,
               ctx\<lparr>px_is_chat_completions_request := contains_str CHAT_COMPLETIONS_PATH path,
                   px_request_id := ho_get H h REQUEST_ID_HEADER,
                   px_traceparent := ho_get H h TRACE_PARENT_HEADER\<rparr>,
               acts, A_Continue))"

text \<open>The state that the client carries: absent, read, or (\<open>None\<close>) the panic of its reading.\<close>

definition read_arch_state :: "json_codec \<Rightarrow> (string \<times> string) list option \<Rightarrow> arch_state list option option" where
  "read_arch_state c metadata =
     (case metadata of
        None \<Rightarrow> Some None
      | Some m \<Rightarrow>
          (case map_of m X_ARCH_STATE_HEADER of
             None \<Rightarrow> Some None
           | Some s \<Rightarrow>
               (case json_parse c s of
                  Inl e \<Rightarrow> None
                | Inr j \<Rightarrow> map_option Some (de_list arch_state_of_json j))))"

definition set_metadata :: "string \<Rightarrow> string \<Rightarrow> (string \<times> string) list option \<Rightarrow> (string \<times> string) list option" where
  "set_metadata k v m = Some (AList.update k v (case m of Some m \<Rightarrow> m | None \<Rightarrow> []))"

definition fc_metadata :: "gw_config \<Rightarrow> (string \<times> string) list option \<Rightarrow> (string \<times> string) list option" where
  "fc_metadata C m =
     (let m = (if override_flag ov_optimize_context_window C then set_metadata ''optimize_context_window'' ''true'' m else m)
      in if override_flag ov_use_agent_orchestrator C then set_metadata ''use_agent_orchestrator'' ''true'' m else m)"

definition fc_request :: "gw_config \<Rightarrow> gw_request \<Rightarrow> gw_request" where
  "fc_request C r =
     \<lparr>gq_model = gq_model r, gq_messages = gq_messages r,
      gq_tools = Some (map (\<lambda>(_, t). tool_of_target t) (gc_prompt_targets C)),
      gq_stream = gq_stream r, gq_stream_options = gq_stream_options r,
      gq_metadata = fc_metadata C (gq_metadata r)\<rparr>"

definition opt_header :: "string \<Rightarrow> string option \<Rightarrow> (string \<times> string) list" where
  "opt_header k v = (case v of Some v \<Rightarrow> [(k, v)] | None \<Rightarrow> [])"

definition fc_call_args :: "prompt_context \<Rightarrow> string \<Rightarrow> call_args" where
  "fc_call_args ctx body =
     \<lparr>ca_upstream = ARCH_INTERNAL_CLUSTER_NAME, ca_path = ''/function_calling'',
      ca_headers = [(UPSTREAM_HOST_HEADER, MODEL_SERVER_NAME), ('':method'', ''POST''), ('':path'', ''/function_calling''),
          (''content-type'', ''application/json''), ('':authority'', MODEL_SERVER_NAME),
          (''x-envoy-upstream-rq-timeout-ms'', REQUEST_TIMEOUT_MS)]
        @ opt_header REQUEST_ID_HEADER (px_request_id ctx) @ opt_header TRACE_PARENT_HEADER (px_traceparent ctx),
      ca_body = Some body, ca_trailers = [], ca_timeout_secs = 5\<rparr>"

text \<open>The last message of the user goes to the function-calling model.\<close>

definition ask_function_model ::
    "gateway_env \<Rightarrow> gw_config \<Rightarrow> gw_request \<Rightarrow> gw_message \<Rightarrow> prompt_context \<Rightarrow> prompt_context \<times> host_action list" where
  "ask_function_model E C r prompt ctx =
     (case gm_content prompt of
        None \<Rightarrow> (ctx, [send_server_error (SE_LogicError ''No content in the last user prompt'') None])
      | Some content \<Rightarrow>
          call_or_error E (fc_call_args ctx (json_print (ge_codec E) (gw_request_to_json (ge_order E) (fc_request C r))))
            \<lparr>sc_handler = RH_ArchFC, sc_user_message = Some (content_display content), sc_prompt_target_name = None,
             sc_request_body = r, sc_upstream_cluster = Some ARCH_INTERNAL_CLUSTER_NAME,
             sc_upstream_cluster_path = Some ''/function_calling''\<rparr> None ctx)"

definition pg_request_body ::
    "gateway_env \<Rightarrow> gw_config \<Rightarrow> nat \<Rightarrow> bool \<Rightarrow> string option \<Rightarrow> prompt_context \<Rightarrow>
     (prompt_context \<times> host_action list \<times> filter_action) option" where
  "pg_request_body E C body_size end_of_stream body ctx =
     (if \<not> end_of_stream then Some (ctx, [], A_Pause)
      else if body_size = 0 then Some (ctx, [], A_Continue)
      else
        (let ctx = ctx\<lparr>px_request_body_size := body_size\<rparr>
         in case body of
              None \<Rightarrow>
                Some (ctx, [send_server_error (SE_LogicError
                  (''Failed to obtain body bytes even though body_size is '' @ digits body_size)) None], A_Pause)
            | Some bytes \<Rightarrow>
                (case read_body E gw_request_of_json bytes of
                   Inl e \<Rightarrow> Some (ctx, [send_server_error (SE_Deserialization e) (Some 400)], A_Pause)
                 | Inr r \<Rightarrow>
                     (case read_arch_state (ge_codec E) (gq_metadata r) of
                        None \<Rightarrow> None
                      | Some state \<Rightarrow>
                          (let ctx = ctx\<lparr>px_arch_state := state, px_streaming_response := gq_stream r\<rparr>
                           in case find (\<lambda>m. gm_role m = USER_ROLE) (rev (gq_messages r)) of
                                None \<Rightarrow> Some (ctx, [], A_Continue)
                              | Some prompt \<Rightarrow>
                                  (let (ctx, acts) = ask_function_model E C r prompt
                                         (ctx\<lparr>px_user_prompt := Some prompt, px_chat_completions_request := Some r\<rparr>)
                                   in Some (ctx, acts, A_Pause)))))))"


subsection \<open>The answer of the function-calling model\<close>

definition first_message :: "gw_response \<Rightarrow> gw_message option" where
  "first_message r = (case gres_choices r of [] \<Rightarrow> None | ch # _ \<Rightarrow> Some (gch_message ch))"

definition check_intent_matched :: "gw_response \<Rightarrow> bool" where
  "check_intent_matched r =
     (case first_message r of
        None \<Rightarrow> False
      | Some m \<Rightarrow>
          (case gm_content m of Some c \<Rightarrow> content_display c \<noteq> [] | None \<Rightarrow> False) \<or>
          (case gm_tool_calls m of Some cs \<Rightarrow> cs \<noteq> [] | None \<Rightarrow> False))"

definition filter_out_arch_messages :: "gw_message list \<Rightarrow> gw_message list" where
  "filter_out_arch_messages ms =
     filter (\<lambda>m. \<not> (gm_role m = TOOL_ROLE \<or> gm_content m = None
                     \<or> (case gm_tool_calls m of Some cs \<Rightarrow> cs \<noteq> [] | None \<Rightarrow> False))) ms"

definition system_messages :: "string option \<Rightarrow> gw_message list" where
  "system_messages p = (case p of None \<Rightarrow> [] | Some t \<Rightarrow> [gw_message_new SYSTEM_ROLE t])"

definition get_system_prompt :: "gw_config \<Rightarrow> prompt_target option \<Rightarrow> string option" where
  "get_system_prompt C target =
     (case target of
        None \<Rightarrow> gc_system_prompt C
      | Some t \<Rightarrow> (case pt_system_prompt t of None \<Rightarrow> gc_system_prompt C | Some p \<Rightarrow> Some p))"

definition construct_llm_messages :: "gw_config \<Rightarrow> call_context \<Rightarrow> gw_message list" where
  "construct_llm_messages C cc =
     system_messages (case sc_prompt_target_name cc of
         None \<Rightarrow> gc_system_prompt C
       | Some n \<Rightarrow> get_system_prompt C (map_of (gc_prompt_targets C) n))
     @ filter_out_arch_messages (gq_messages (sc_request_body cc))"

text \<open>The body of the request is replaced and the request goes on to the LLM.\<close>

definition llm_request :: "string \<Rightarrow> gw_message list \<Rightarrow> gw_request \<Rightarrow> (string \<times> string) list option \<Rightarrow> gw_request" where
  "llm_request model messages r metadata =
     \<lparr>gq_model = model, gq_messages = messages, gq_tools = None, gq_stream = gq_stream r,
      gq_stream_options = gq_stream_options r, gq_metadata = metadata\<rparr>"

definition resume_with :: "gateway_env \<Rightarrow> prompt_context \<Rightarrow> gw_request \<Rightarrow> host_action list" where
  "resume_with E ctx r =
     [HA_SetRequestBody (px_request_body_size ctx) (json_print (ge_codec E) (gw_request_to_json (ge_order E) r)),
      HA_ResumeRequest]"

definition default_call_args :: "gateway_env \<Rightarrow> prompt_context \<Rightarrow> endpoint_details \<Rightarrow> gw_message list \<Rightarrow> call_args" where
  "default_call_args E ctx endpoint messages =
     (let path = (case ed_path endpoint of Some p \<Rightarrow> p | None \<Rightarrow> ''/'')
      in \<lparr>ca_upstream = ARCH_INTERNAL_CLUSTER_NAME, ca_path = path,
          ca_headers = [('':method'', ''POST''), (UPSTREAM_HOST_HEADER, ed_name endpoint), ('':path'', path),
              ('':authority'', ed_name endpoint), (''content-type'', ''application/json''),
              (''x-envoy-max-retries'', ''3''), (''x-envoy-upstream-rq-timeout-ms'', REQUEST_TIMEOUT_MS)]
            @ opt_header REQUEST_ID_HEADER (px_request_id ctx),
          ca_body = Some (json_print (ge_codec E) (JObject [(''messages'', JArray (map gw_message_to_json messages))])),
          ca_trailers = [], ca_timeout_secs = 5\<rparr>)"

definition default_target :: "gw_config \<Rightarrow> prompt_target option" where
  "default_target C = find (\<lambda>t. pt_default t = Some True) (map snd (gc_prompt_targets C))"

text \<open>No intent: the default target if there is one, otherwise the LLM.\<close>

definition no_intent_matched ::
    "gateway_env \<Rightarrow> gw_config \<Rightarrow> call_context \<Rightarrow> prompt_context \<Rightarrow> (prompt_context \<times> host_action list) option" where
  "no_intent_matched E C cc ctx =
     (case default_target C of
        Some t \<Rightarrow>
          (case pt_endpoint t of
             None \<Rightarrow> None
           | Some endpoint \<Rightarrow>
               Some (call_or_error E (default_call_args E ctx endpoint (gq_messages (sc_request_body cc)))
                 (cc\<lparr>sc_handler := RH_DefaultTarget, sc_prompt_target_name := Some (pt_name t)\<rparr>) (Some 400) ctx))
      | None \<Rightarrow>
          (case px_chat_completions_request ctx of
             None \<Rightarrow> None
           | Some r \<Rightarrow>
               Some (ctx, resume_with E ctx (llm_request (gq_model r)
                 (system_messages (gc_system_prompt C) @ filter_out_arch_messages (gq_messages (sc_request_body cc)))
                 (sc_request_body cc) None))))"

definition two_chunks ::
    "json_codec \<Rightarrow> string option \<Rightarrow> string option \<Rightarrow> string \<Rightarrow> string option \<Rightarrow> string" where
  "two_chunks c first model content model2 =
     to_server_events c [gw_chunk_new first (Some ASSISTANT_ROLE) model None, gw_chunk_new (Some content) None model2 None]"

text \<open>The model asks for more information: its text is the answer.\<close>

definition clarification ::
    "gateway_env \<Rightarrow> string \<Rightarrow> gw_message \<Rightarrow> prompt_context \<Rightarrow> (prompt_context \<times> host_action list) option" where
  "clarification E body m ctx =
     (if px_streaming_response ctx then
        (case gm_content m of
           None \<Rightarrow> None
         | Some c \<Rightarrow>
             Some (ctx\<lparr>px_tool_calls := None\<rparr>,
               [HA_Response 200 (Some (two_chunks (ge_codec E) (px_arch_fc_response ctx) (Some ARCH_FC_MODEL_NAME)
                  (content_display c) (Some (ARCH_FC_MODEL_NAME @ ''-Chat''))))]))
      else Some (ctx\<lparr>px_tool_calls := None\<rparr>, [HA_Response 200 (Some body)]))"

definition agent_metadata :: "gw_config \<Rightarrow> string \<Rightarrow> (string \<times> string) list" where
  "agent_metadata C name =
     (let m = [(''use_agent_orchestrator'', ''true''), (''agent-name'', name)];
          m = (if override_flag ov_optimize_context_window C
               then AList.update ''optimize_context_window'' ''true'' m else m)
      in AList.update ''use_agent_orchestrator'' ''true'' m)"

subsection \<open>The call of a prompt target\<close>

text \<open>The arguments as a map; no map if they cannot be read.\<close>

definition call_arguments :: "json_codec \<Rightarrow> string \<Rightarrow> (string \<times> json) list option" where
  "call_arguments c s = (case json_parse c s of Inr (JObject m) \<Rightarrow> Some (hash_of m) | _ \<Rightarrow> None)"

definition api_headers :: "prompt_context \<Rightarrow> endpoint_details \<Rightarrow> endpoint_method \<Rightarrow> string \<Rightarrow> (string \<times> string) list" where
  "api_headers ctx endpoint http_method path =
     hash_of ([(UPSTREAM_HOST_HEADER, ed_name endpoint), ('':method'', endpoint_method_display http_method),
         ('':path'', path), ('':authority'', ed_name endpoint), (''content-type'', ''application/json''),
         (''x-envoy-max-retries'', ''3''), (''x-envoy-upstream-rq-timeout-ms'', REQUEST_TIMEOUT_MS)]
       @ opt_header REQUEST_ID_HEADER (px_request_id ctx) @ opt_header TRACE_PARENT_HEADER (px_traceparent ctx)
       @ (case ed_http_headers endpoint of Some hs \<Rightarrow> hs | None \<Rightarrow> []))"

definition api_call_args ::
    "gateway_env \<Rightarrow> prompt_context \<Rightarrow> endpoint_details \<Rightarrow> endpoint_method \<Rightarrow> string \<Rightarrow> string option \<Rightarrow> call_args" where
  "api_call_args E ctx endpoint http_method path body =
     \<lparr>ca_upstream = ARCH_INTERNAL_CLUSTER_NAME, ca_path = path,
      ca_headers = hash_entries (ge_order E) (api_headers ctx endpoint http_method path),
      ca_body = body, ca_trailers = [], ca_timeout_secs = 5\<rparr>"

definition schedule_api_call_request ::
    "gateway_env \<Rightarrow> gw_config \<Rightarrow> gw_tool_call \<Rightarrow> call_context \<Rightarrow> prompt_context \<Rightarrow>
     (prompt_context \<times> host_action list) option" where
  "schedule_api_call_request E C tc cc ctx =
     Option.bind (map_of (gc_prompt_targets C) (gf_name (gtc_function tc))) (\<lambda>target.
     Option.bind (pt_endpoint target) (\<lambda>endpoint.
     let http_method = (case ed_method endpoint of Some m \<Rightarrow> m | None \<Rightarrow> EM_Get)
     in Option.bind (compute_request_path_body (ge_path E)
             (case ed_path endpoint of Some p \<Rightarrow> p | None \<Rightarrow> ''/'')
             (call_arguments (ge_codec E) (gf_arguments (gtc_function tc)))
             (case pt_parameters target of Some ps \<Rightarrow> ps | None \<Rightarrow> []) http_method) (\<lambda>computed.
          Some (case computed of
              Inl e \<Rightarrow>
                (ctx, [send_server_error (SE_BadRequest (''error computing api request path or body: '' @ e)) (Some 400)])
            | Inr (path, body) \<Rightarrow>
                call_or_error E (api_call_args E ctx endpoint http_method path body)
                  (cc\<lparr>sc_upstream_cluster := Some (ed_name endpoint), sc_upstream_cluster_path := Some path,
                      sc_handler := RH_FunctionCall\<rparr>) (Some 400) ctx))))"

text \<open>What happens with the tool calls of the answer; only the first one is used.\<close>

definition handle_tool_calls ::
    "gateway_env \<Rightarrow> gw_config \<Rightarrow> gw_tool_call \<Rightarrow> call_context \<Rightarrow> prompt_context \<Rightarrow>
     (prompt_context \<times> host_action list) option" where
  "handle_tool_calls E C tc cc ctx =
     (let name = gf_name (gtc_function tc); cc = cc\<lparr>sc_prompt_target_name := Some name\<rparr>
      in if override_flag ov_use_agent_orchestrator C then
           Some (ctx, resume_with E ctx (llm_request (gq_model (sc_request_body cc)) (construct_llm_messages C cc)
             (sc_request_body cc) (Some (agent_metadata C name))))
         else schedule_api_call_request E C tc cc ctx)"

definition arch_fc_response_handler ::
    "gateway_env \<Rightarrow> gw_config \<Rightarrow> string \<Rightarrow> call_context \<Rightarrow> prompt_context \<Rightarrow> (prompt_context \<times> host_action list) option" where
  "arch_fc_response_handler E C body cc ctx =
     (if \<not> valid_utf8 body then None
      else
        (case read_body E gw_response_of_json body of
           Inl e \<Rightarrow> Some (ctx, [send_server_error (SE_Deserialization e) None])
         | Inr r \<Rightarrow>
             (let ctx = ctx\<lparr>px_arch_fc_response := Option.bind (gres_metadata r) (\<lambda>m. map_of m X_ARCH_FC_MODEL_RESPONSE)\<rparr>
              in if \<not> check_intent_matched r then no_intent_matched E C cc ctx
                 else
                   Option.bind (first_message r) (\<lambda>m.
                     let ctx = ctx\<lparr>px_tool_calls := gm_tool_calls m\<rparr>
                     in case gm_tool_calls m of
                          Some (tc # _) \<Rightarrow> handle_tool_calls E C tc cc ctx
                        | _ \<Rightarrow> clarification E body m ctx))))"


subsection \<open>The answers of endpoints\<close>

definition context_prompt :: "content_type \<Rightarrow> string \<Rightarrow> gw_message" where
  "context_prompt content answer =
     gw_message_new USER_ROLE (content_display content @ [nl] @ ''context: '' @ answer)"

definition auto_dispatch :: "prompt_target \<Rightarrow> bool" where
  "auto_dispatch t \<longleftrightarrow> pt_auto_llm_dispatch_on_response t \<noteq> Some False"

text \<open>\<open>status\<close> is the header of the answer, if it has one.\<close>

definition api_call_response_handler ::
    "gateway_env \<Rightarrow> gw_config \<Rightarrow> string option \<Rightarrow> string \<Rightarrow> call_context \<Rightarrow> prompt_context \<Rightarrow>
     (prompt_context \<times> host_action list) option" where
  "api_call_response_handler E C status body cc ctx =
     Option.bind (sc_prompt_target_name cc) (\<lambda>name.
     Option.bind (map_of (gc_prompt_targets C) name) (\<lambda>target.
     let http_status = (case status of Some s \<Rightarrow> s | None \<Rightarrow> ''200'')
     in if http_status \<noteq> ''200'' then
          (case (sc_upstream_cluster cc, sc_upstream_cluster_path cc, status_of http_status) of
             (Some host, Some path, Some n) \<Rightarrow>
               (if valid_utf8 body then Some (ctx, [send_server_error (SE_Upstream host path http_status body) (Some n)])
                else None)
           | _ \<Rightarrow> None)
        else if \<not> valid_utf8 body then None
        else
          (let ctx = ctx\<lparr>px_tool_call_response := Some body\<rparr>; messages = construct_llm_messages C cc
           in if messages = [] then
                Some (ctx, [send_server_error (SE_NoMessagesFound ''no user messages found'') None])
              else if \<not> auto_dispatch target then
                Some (ctx, [HA_Response 200 (Some (if px_streaming_response ctx
                  then two_chunks (ge_codec E) None (Some ARCH_FC_MODEL_NAME) body (Some ARCH_FC_MODEL_NAME) else body))])
              else
                map_option (\<lambda>content.
                    (ctx\<lparr>px_start_upstream_llm_request_time := ge_now_nanos E\<rparr>,
                     resume_with E ctx (llm_request (gq_model (sc_request_body cc))
                       (butlast messages @ [context_prompt content body]) (sc_request_body cc) None)))
                  (gm_content (last messages)))))"

definition default_target_answer ::
    "gateway_env \<Rightarrow> string \<Rightarrow> prompt_context \<Rightarrow> (prompt_context \<times> host_action list) option" where
  "default_target_answer E body ctx =
     (if px_streaming_response ctx then
        (case read_body E gw_response_of_json body of
           Inl e \<Rightarrow> (if valid_utf8 body then Some (ctx, [send_server_error (SE_Deserialization e) None]) else None)
         | Inr r \<Rightarrow>
             Option.bind (first_message r) (\<lambda>m. map_option (\<lambda>c.
               (ctx, [HA_Response 200 (Some (two_chunks (ge_codec E) None (Some (gres_model r)) (content_display c)
                  (Some (gres_model r))))])) (gm_content m)))
      else if valid_utf8 body then Some (ctx, [HA_Response 200 (Some body)]) else None)"

definition default_target_handler ::
    "gateway_env \<Rightarrow> gw_config \<Rightarrow> string \<Rightarrow> call_context \<Rightarrow> prompt_context \<Rightarrow> (prompt_context \<times> host_action list) option" where
  "default_target_handler E C body cc ctx =
     Option.bind (sc_prompt_target_name cc) (\<lambda>name.
     Option.bind (map_of (gc_prompt_targets C) name) (\<lambda>target.
     if \<not> auto_dispatch target then default_target_answer E body ctx
     else
       (case read_body E gw_response_of_json body of
          Inl e \<Rightarrow> (if valid_utf8 body then Some (ctx, [send_server_error (SE_Deserialization e) None]) else None)
        | Inr r \<Rightarrow>
            (let messages = system_messages (pt_system_prompt target) @ gq_messages (sc_request_body cc)
             in Option.bind (Option.bind (first_message r) gm_content) (\<lambda>answer.
                if messages = [] then None
                else
                  Option.bind (gm_content (last messages)) (\<lambda>content.
                  map_option (\<lambda>r0.
                      (ctx, resume_with E ctx (llm_request (gq_model r0)
                         (butlast messages @ [context_prompt content (content_display answer)]) (sc_request_body cc) None)))
                    (px_chat_completions_request ctx)))))))"

definition handle_call_response ::
    "gateway_env \<Rightarrow> gw_config \<Rightarrow> string option \<Rightarrow> string \<Rightarrow> call_context \<Rightarrow> prompt_context \<Rightarrow>
     (prompt_context \<times> host_action list) option" where
  "handle_call_response E C status body cc ctx =
     (case sc_handler cc of
        RH_ArchFC \<Rightarrow> arch_fc_response_handler E C body cc ctx
      | RH_FunctionCall \<Rightarrow> api_call_response_handler E C status body cc ctx
      | RH_DefaultTarget \<Rightarrow> default_target_handler E C body cc ctx)"

text \<open>
  The answer to a call: \<open>body\<close> is empty if the proxy has none. A status that is no success is
  reported, one that is no number panics.
\<close>

definition pg_call_response ::
    "gateway_env \<Rightarrow> gw_config \<Rightarrow> nat \<Rightarrow> string option \<Rightarrow> string \<Rightarrow> prompt_context \<Rightarrow>
     (prompt_context \<times> host_action list) option" where
  "pg_call_response E C token status body ctx =
     Option.bind (map_of (px_callouts ctx) token) (\<lambda>cc.
     let ctx = ctx\<lparr>px_callouts := AList.delete token (px_callouts ctx)\<rparr>
     in case status of
          None \<Rightarrow> handle_call_response E C status body cc ctx
        | Some s \<Rightarrow>
            Option.bind (status_of s) (\<lambda>n.
              if status_is_success n then handle_call_response E C status body cc ctx
              else
                (case (sc_upstream_cluster cc, sc_upstream_cluster_path cc) of
                   (Some host, Some path) \<Rightarrow>
                     (if valid_utf8 body then Some (ctx, [send_server_error (SE_Upstream host path s body) (Some n)])
                      else None)
                 | _ \<Rightarrow> None)))"

subsection \<open>The response to the client\<close>

definition generate_tool_call_message :: "prompt_context \<Rightarrow> gw_message" where
  "generate_tool_call_message ctx =
     (case px_arch_fc_response ctx of
        Some t \<Rightarrow> (gw_message_new ASSISTANT_ROLE t)\<lparr>gm_model := Some ARCH_FC_MODEL_NAME\<rparr>
      | None \<Rightarrow> gw_message_default\<lparr>gm_model := Some ARCH_FC_MODEL_NAME, gm_tool_calls := px_tool_calls ctx\<rparr>)"

definition generate_api_response_message :: "prompt_context \<Rightarrow> gw_message option" where
  "generate_api_response_message ctx =
     (case (px_tool_call_response ctx, px_tool_calls ctx) of
        (Some t, Some (tc # _)) \<Rightarrow> Some ((gw_message_new TOOL_ROLE t)\<lparr>gm_tool_call_id := Some (gtc_id tc)\<rparr>)
      | _ \<Rightarrow> None)"

definition arch_state_text :: "json_codec \<Rightarrow> gw_message list \<Rightarrow> string" where
  "arch_state_text c ms =
     json_print c (JObject [(''messages'', JString (json_print c (JArray (map gw_message_to_json ms))))])"

text \<open>The metadata of the response with the messages of the call; \<open>None\<close> if it is no object.\<close>

definition response_metadata ::
    "json_codec \<Rightarrow> prompt_context \<Rightarrow> gw_message \<Rightarrow> (string \<times> json) list \<Rightarrow> (string \<times> json) list" where
  "response_metadata c ctx api_message m =
     (let call_message = generate_tool_call_message ctx;
          m = object_insert X_ARCH_TOOL_CALL (JString (json_print c (gw_message_to_json call_message))) m;
          m = object_insert X_ARCH_API_RESPONSE (JString (json_print c (gw_message_to_json api_message))) m;
          m = object_insert X_ARCH_STATE_HEADER (JString (arch_state_text c [call_message, api_message])) m
      in case px_arch_fc_response ctx of
           Some t \<Rightarrow> object_insert X_ARCH_FC_MODEL_RESPONSE (JString (json_print c (JString t))) m
         | None \<Rightarrow> m)"

definition annotated_response ::
    "json_codec \<Rightarrow> prompt_context \<Rightarrow> (string \<times> json) list \<Rightarrow> json option" where
  "annotated_response c ctx m =
     Option.bind (case map_of m ''metadata'' of None \<Rightarrow> Some [] | Some JNull \<Rightarrow> Some [] | Some v \<Rightarrow> as_object v) (\<lambda>md.
     map_option (\<lambda>api_message. JObject (object_insert ''metadata'' (JObject (response_metadata c ctx api_message md)) m))
       (generate_api_response_message ctx))"

definition has_tool_calls :: "prompt_context \<Rightarrow> bool" where
  "has_tool_calls ctx \<longleftrightarrow> (case px_tool_calls ctx of Some cs \<Rightarrow> cs \<noteq> [] | None \<Rightarrow> False)"

definition tool_call_chunks :: "json_codec \<Rightarrow> prompt_context \<Rightarrow> string" where
  "tool_call_chunks c ctx =
     to_server_events c
       [gw_chunk_new (px_arch_fc_response ctx) (Some ASSISTANT_ROLE) (Some ARCH_FC_MODEL_NAME) None,
        gw_chunk_new (px_tool_call_response ctx) (Some TOOL_ROLE) (Some ARCH_FC_MODEL_NAME) None]"

definition pg_response_headers :: "host_action list" where
  "pg_response_headers = [HA_SetResponseHeader ''content-length'' None]"

definition pg_response_body ::
    "gateway_env \<Rightarrow> nat \<Rightarrow> bool \<Rightarrow> string option \<Rightarrow> prompt_context \<Rightarrow> (prompt_context \<times> host_action list) option" where
  "pg_response_body E body_size end_of_stream body ctx =
     (if \<not> px_is_chat_completions_request ctx then Some (ctx, [])
      else
        (let ctx = (if px_time_to_first_token ctx = None then ctx\<lparr>px_time_to_first_token := Some (ge_now_nanos E)\<rparr> else ctx)
         in if end_of_stream \<and> body_size = 0 then Some (ctx, [])
            else
              (case body of
                 None \<Rightarrow> Some (ctx, [])
               | Some bytes \<Rightarrow>
                   (if \<not> valid_utf8 bytes \<or> \<not> has_tool_calls ctx then Some (ctx, [])
                    else if px_streaming_response ctx then
                      Some (ctx\<lparr>px_tool_calls := None\<rparr>,
                        [HA_SetResponseBody body_size (tool_call_chunks (ge_codec E) ctx @ bytes)])
                    else
                      (let ctx = (if px_arch_state ctx = None then ctx\<lparr>px_arch_state := Some []\<rparr> else ctx)
                       in case json_parse (ge_codec E) bytes of
                            Inl e \<Rightarrow> Some (ctx, [])
                          | Inr (JObject m) \<Rightarrow>
                              map_option (\<lambda>j. (ctx, [HA_SetResponseBody body_size (json_print (ge_codec E) j)]))
                                (annotated_response (ge_codec E) ctx m)
                          | Inr _ \<Rightarrow> Some (ctx, []))))))"

end
