(* ===== verification/Function_Calling.thy ===== *)
theory Function_Calling
  imports Json_Value Rust_Text Chat_Json Model_Metrics Json_Instance
begin

section \<open>Function calling: the answer of the model\<close>

text \<open>
  \<open>crates/brightstaff/src/handlers/function_calling.rs\<close>: the configuration of the function-calling
  model, the repair and reading of its answer, the verification of the tool calls it gives. Random
  numbers, the order of hash maps and the printing of floats are parameters.
\<close>

subsection \<open>Configuration\<close>

datatype function_calling_error =
    FE_JsonParse string
  | FE_JsonFix string
  | FE_InvalidModelResponse string
  | FE_ToolCallVerification string
  | FE_DataTypeConversion string
  | FE_UnsupportedDataType string
  | FE_Http string
  | FE_InvalidToolCall string

fun function_calling_error_display :: "function_calling_error \<Rightarrow> string" where
  "function_calling_error_display (FE_JsonParse e) = ''Failed to parse JSON: '' @ e"
| "function_calling_error_display (FE_JsonFix e) = ''Failed to fix malformed JSON: '' @ e"
| "function_calling_error_display (FE_InvalidModelResponse e) = ''Invalid model response: '' @ e"
| "function_calling_error_display (FE_ToolCallVerification e) = ''Tool call verification failed: '' @ e"
| "function_calling_error_display (FE_DataTypeConversion e) = ''Data type conversion error: '' @ e"
| "function_calling_error_display (FE_UnsupportedDataType e) = ''Unsupported data type: '' @ e"
| "function_calling_error_display (FE_Http e) = ''HTTP request error: '' @ e"
| "function_calling_error_display (FE_InvalidToolCall e) = ''Invalid tool call: '' @ e"

record generation_params =
  gp_temperature :: f32
  gp_top_p :: f32
  gp_top_k :: u32
  gp_max_tokens :: u32
  gp_stop_token_ids :: "u32 list"
  gp_logprobs :: "bool option"
  gp_top_logprobs :: "u32 option"

text \<open>The bit patterns of \<open>0.1\<close> and \<open>1.0\<close>.\<close>

definition generation_params_default :: generation_params where
  "generation_params_default = \<lparr>gp_temperature = 0x3DCCCCCD, gp_top_p = 0x3F800000, gp_top_k = 10,
     gp_max_tokens = 1024, gp_stop_token_ids = [151645], gp_logprobs = Some True, gp_top_logprobs = Some 10\<rparr>"

record arch_function_config =
  fcc_task_prompt :: string
  fcc_format_prompt :: string
  fcc_generation_params :: generation_params
  fcc_support_data_types :: "string list"

text \<open>A backslash followed by \<open>n\<close>, as it stands in the raw strings of the prompts, and an escaped quote.\<close>

definition RN :: string where "RN = [CHR 0x5C, CHR ''n'']"
definition RQ :: string where "RQ = [CHR 0x5C, CHR 0x22]"
definition FENCE :: string where "FENCE = [CHR 0x60, CHR 0x60, CHR 0x60]"

definition TASK_PROMPT :: string where
  "TASK_PROMPT = ''You are a helpful assistant designed to assist with the user query by making one or more function calls if needed.''
     @ RN @ RN @ ''You are provided with function signatures within <tools></tools> XML tags:''
     @ RN @ ''<tools>'' @ RN @ ''{tools}'' @ RN @ ''</tools>'' @ RN @ RN
     @ ''Your task is to decide which functions are needed and collect missing parameters if necessary.''"

definition FORMAT_PROMPT :: string where
  "FORMAT_PROMPT = RN @ RN @ ''Based on your analysis, provide your response in one of the following JSON formats:''
     @ RN @ ''1. If no functions are needed:'' @ RN @ FENCE @ ''json'' @ RN
     @ ''{'' @ RQ @ ''response'' @ RQ @ '': '' @ RQ @ ''Your response text here'' @ RQ @ ''}'' @ RN @ FENCE
     @ RN @ ''2. If functions are needed but some required parameters are missing:'' @ RN @ FENCE @ ''json'' @ RN
     @ ''{'' @ RQ @ ''required_functions'' @ RQ @ '': ['' @ RQ @ ''func_name1'' @ RQ @ '', '' @ RQ @ ''func_name2'' @ RQ
     @ '', ...], '' @ RQ @ ''clarification'' @ RQ @ '': '' @ RQ @ ''Text asking for missing parameters'' @ RQ @ ''}'' @ RN @ FENCE
     @ RN @ ''3. If functions are needed and all required parameters are available:'' @ RN @ FENCE @ ''json'' @ RN
     @ ''{'' @ RQ @ ''tool_calls'' @ RQ @ '': [{'' @ RQ @ ''name'' @ RQ @ '': '' @ RQ @ ''func_name1'' @ RQ @ '', '' @ RQ
     @ ''arguments'' @ RQ @ '': {'' @ RQ @ ''argument1'' @ RQ @ '': '' @ RQ @ ''value1'' @ RQ @ '', '' @ RQ @ ''argument2'' @ RQ
     @ '': '' @ RQ @ ''value2'' @ RQ @ ''}},... (more tool calls as required)]}'' @ RN @ FENCE"

definition SUPPORT_DATA_TYPES :: "string list" where
  "SUPPORT_DATA_TYPES = [''int'', ''float'', ''bool'', ''str'', ''list'', ''tuple'', ''set'', ''dict'',
     ''integer'', ''number'', ''boolean'', ''string'', ''array'', ''object'']"

definition arch_function_config_default :: arch_function_config where
  "arch_function_config_default = \<lparr>fcc_task_prompt = TASK_PROMPT, fcc_format_prompt = FORMAT_PROMPT,
     fcc_generation_params = generation_params_default, fcc_support_data_types = SUPPORT_DATA_TYPES\<rparr>"

text \<open>The configuration of the agent differs in the temperature, \<open>0.01\<close>.\<close>

definition arch_agent_config_default :: arch_function_config where
  "arch_agent_config_default = arch_function_config_default
     \<lparr>fcc_generation_params := generation_params_default\<lparr>gp_temperature := 0x3C23D70A\<rparr>\<rparr>"

record arch_function_handler =
  fh_model_name :: string
  fh_config :: arch_function_config
  fh_default_prefix :: string
  fh_clarify_prefix :: string

definition arch_function_handler_new :: "string \<Rightarrow> arch_function_config \<Rightarrow> arch_function_handler" where
  "arch_function_handler_new model_name cfg = \<lparr>fh_model_name = model_name, fh_config = cfg,
     fh_default_prefix = FENCE @ ''json'' @ RN @ ''{'' @ RQ,
     fh_clarify_prefix = FENCE @ ''json'' @ RN @ ''{'' @ RQ @ ''required_functions'' @ RQ @ '':''\<rparr>"

definition arch_agent_handler_new :: "string \<Rightarrow> arch_function_handler" where
  "arch_agent_handler_new model_name = arch_function_handler_new model_name arch_agent_config_default"

subsection \<open>Repairing JSON\<close>

definition is_opening :: "char \<Rightarrow> bool" where
  "is_opening c \<longleftrightarrow> c = CHR ''{'' \<or> c = CHR ''['' \<or> c = CHR ''(''"

definition is_closing :: "char \<Rightarrow> bool" where
  "is_closing c \<longleftrightarrow> c = CHR ''}'' \<or> c = CHR '']'' \<or> c = CHR '')''"

definition closing_of :: "char \<Rightarrow> char" where
  "closing_of c = (if c = CHR ''{'' then CHR ''}'' else if c = CHR ''['' then CHR '']'' else CHR '')'')"

text \<open>
  The scan for brackets: the text without closing brackets that do not match, and the stack of
  those left open. The brackets are ASCII, so the scan of the characters is one of the bytes.
\<close>

fun fix_scan :: "char list \<Rightarrow> string \<Rightarrow> string \<times> char list" where
  "fix_scan stack [] = ([], stack)"
| "fix_scan stack (c # s) =
     (if is_opening c then map_prod ((#) c) id (fix_scan (c # stack) s)
      else if is_closing c then
        (case stack of
           [] \<Rightarrow> fix_scan stack s
         | b # stack' \<Rightarrow>
             (if closing_of b = c then map_prod ((#) c) id (fix_scan stack' s) else fix_scan stack s))
      else map_prod ((#) c) id (fix_scan stack s))"

definition fix_brackets :: "string \<Rightarrow> string" where
  "fix_brackets s = (case fix_scan [] s of (out, stack) \<Rightarrow> out @ map closing_of stack)"

definition fix_json_string :: "json_codec \<Rightarrow> string \<Rightarrow> function_calling_error + string" where
  "fix_json_string c json_str =
     (let fixed = fix_brackets (trim json_str)
      in case json_parse c fixed of
           Inr v \<Rightarrow> Inr (json_print c v)
         | Inl _ \<Rightarrow>
             (case json_parse c (replace_str [CHR 0x27] [CHR 0x22] fixed) of
                Inr v \<Rightarrow> Inr (json_print c v)
              | Inl e \<Rightarrow> Inl (FE_JsonFix (''Failed to fix JSON: '' @ e))))"

subsection \<open>Reading the answer\<close>

record parsed_model_response =
  pm_raw_response :: string
  pm_response :: "string option"
  pm_required_functions :: "string list"
  pm_clarification :: string
  pm_tool_calls :: "tool_call list"
  pm_is_valid :: bool
  pm_error_message :: string

definition parsed_model_response_default :: parsed_model_response where
  "parsed_model_response_default = \<lparr>pm_raw_response = [], pm_response = None, pm_required_functions = [],
     pm_clarification = [], pm_tool_calls = [], pm_is_valid = False, pm_error_message = []\<rparr>"

text \<open>\<open>trim_start_matches\<close> with a string pattern.\<close>

function trim_start_str :: "string \<Rightarrow> string \<Rightarrow> string" where
  "trim_start_str p s = (if p \<noteq> [] \<and> starts_with s p then trim_start_str p (drop (length p) s) else s)"
  by pat_completeness auto
termination
  by (relation "measure (\<lambda>(p, s). length s)") (auto simp: starts_with_def intro!: diff_less)

declare trim_start_str.simps [simp del]

definition strip_markdown :: "string \<Rightarrow> string" where
  "strip_markdown content =
     (let s = trim content
      in if starts_with s FENCE \<and> ends_with s FENCE then
           (let s = trim_end_str FENCE (trim_start_str FENCE s);
                s = (if starts_with s ''json'' then trim_start_str ''json'' s else s)
            in replace_str RQ [CHR 0x22] (trim (trim_end_str RN (trim_start_str RN s))))
         else s)"

definition call_id :: "u32 \<Rightarrow> string" where
  "call_id r = ''call_'' @ digits (unat (r mod 10000 + 1000))"

text \<open>One tool call of the answer; \<open>r\<close> is the random number drawn for it.\<close>

definition tool_call_of_json :: "json_codec \<Rightarrow> u32 \<Rightarrow> json \<Rightarrow> tool_call" where
  "tool_call_of_json c r v =
     \<lparr>tc_id = call_id r, tc_call_type = ''function'',
      tc_function = \<lparr>fc_name = (case Option.bind (json_get v ''name'') as_str of Some n \<Rightarrow> n | None \<Rightarrow> []),
                     fc_arguments = (case json_get v ''arguments'' of Some a \<Rightarrow> json_print c a | None \<Rightarrow> [])\<rparr>\<rparr>"

definition parse_model_response :: "json_codec \<Rightarrow> (nat \<Rightarrow> u32) \<Rightarrow> string \<Rightarrow> parsed_model_response" where
  "parse_model_response c rnd content =
     (case fix_json_string c (strip_markdown content) of
        Inl e \<Rightarrow> parsed_model_response_default
          \<lparr>pm_error_message := ''Failed to fix JSON: '' @ function_calling_error_display e\<rparr>
      | Inr fixed \<Rightarrow>
          (let raw = FENCE @ ''json'' @ NL @ fixed @ NL @ FENCE
           in case json_parse c fixed of
                Inl e \<Rightarrow> parsed_model_response_default
                  \<lparr>pm_raw_response := raw, pm_error_message := ''Failed to parse model response: '' @ e\<rparr>
              | Inr v \<Rightarrow>
                  \<lparr>pm_raw_response = raw,
                   pm_response = Option.bind (json_get v ''response'') as_str,
                   pm_required_functions =
                     (case Option.bind (json_get v ''required_functions'') as_array of
                        Some fs \<Rightarrow> List.map_filter as_str fs | None \<Rightarrow> []),
                   pm_clarification =
                     (case Option.bind (json_get v ''clarification'') as_str of Some t \<Rightarrow> t | None \<Rightarrow> []),
                   pm_tool_calls =
                     (case Option.bind (json_get v ''tool_calls'') as_array of
                        Some ts \<Rightarrow> map (\<lambda>(i, t). tool_call_of_json c (rnd i) t) (enumerate 0 ts) | None \<Rightarrow> []),
                   pm_is_valid = True, pm_error_message = []\<rparr>))"

subsection \<open>Verification of tool calls\<close>

text \<open>How an integer is printed as a float, the error of a JSON value of the wrong shape, and the order of a hash map.\<close>

record verify_env =
  ve_codec :: json_codec
  ve_float_text :: "int \<Rightarrow> string"
  ve_shape_error :: "json \<Rightarrow> string"
  ve_order :: "(string \<times> json) list \<Rightarrow> (string \<times> json) list"

text \<open>Parsing a text as a \<open>Vec<Value>\<close> succeeds on arrays only.\<close>

definition convert_data_type :: "verify_env \<Rightarrow> json \<Rightarrow> string \<Rightarrow> function_calling_error + json" where
  "convert_data_type E v ty =
     (if ty = ''float'' \<or> ty = ''number'' then
        Inr (case as_i64 v of Some i \<Rightarrow> JNumber (ve_float_text E i) | None \<Rightarrow> v)
      else if ty = ''list'' \<or> ty = ''array'' then
        Inr (case as_str v of
               Some s \<Rightarrow> (case json_parse (ve_codec E) s of Inr (JArray vs) \<Rightarrow> JArray vs | _ \<Rightarrow> v)
             | None \<Rightarrow> v)
      else if (ty = ''str'' \<or> ty = ''string'') \<and> \<not> is_string v then Inr (JString (json_print (ve_codec E) v))
      else Inr v)"

definition check_value_type :: "json \<Rightarrow> string \<Rightarrow> bool" where
  "check_value_type v ty =
     (if ty = ''int'' \<or> ty = ''integer'' then is_i64 v \<or> is_u64 v
      else if ty = ''float'' \<or> ty = ''number'' then is_f64 v \<or> is_i64 v \<or> is_u64 v
      else if ty = ''bool'' \<or> ty = ''boolean'' then is_boolean v
      else if ty = ''str'' \<or> ty = ''string'' then is_string v
      else if ty = ''list'' \<or> ty = ''array'' then is_array v
      else if ty = ''dict'' \<or> ty = ''object'' then is_object v
      else True)"

definition validate_or_convert_parameter :: "verify_env \<Rightarrow> json \<Rightarrow> string \<Rightarrow> function_calling_error + bool" where
  "validate_or_convert_parameter E v ty =
     (if check_value_type v ty then Inr True
      else map_sum id (\<lambda>w. check_value_type w ty) (convert_data_type E v ty))"

record tool_call_verification =
  tv_is_valid :: bool
  tv_invalid_tool_call :: "tool_call option"
  tv_error_message :: string

definition quote :: "string \<Rightarrow> string" where "quote s = [CHR 0x60] @ s @ [CHR 0x60]"

definition required_problem :: "string \<Rightarrow> json \<Rightarrow> (string \<times> json) list \<Rightarrow> string option" where
  "required_problem func_name params args =
     (case Option.bind (json_get params ''required'') as_array of
        None \<Rightarrow> None
      | Some required \<Rightarrow>
          map_option (\<lambda>p. quote p @ '' is required by the function '' @ quote func_name
              @ '' but not found in the tool call!'')
            (find (\<lambda>p. map_of args p = None) (List.map_filter as_str required)))"

definition parameter_problem ::
    "verify_env \<Rightarrow> string list \<Rightarrow> string \<Rightarrow> (string \<times> json) list \<Rightarrow> string \<times> json \<Rightarrow> string option" where
  "parameter_problem E types func_name properties arg =
     (case arg of (n, v) \<Rightarrow>
        (case map_of properties n of
           None \<Rightarrow> Some (''Parameter '' @ quote n @ '' is not defined in the function '' @ quote func_name @ ''.'')
         | Some schema \<Rightarrow>
             (case Option.bind (json_get schema ''type'') as_str of
                None \<Rightarrow> None
              | Some ty \<Rightarrow>
                  (if ty \<notin> set types then Some (''Data type '' @ quote ty @ '' is not supported.'')
                   else if validate_or_convert_parameter E v ty = Inr True then None
                   else Some (''Parameter '' @ quote n @ '' is expected to have the data type '' @ quote ty
                          @ '', got incompatible type.'')))))"

text \<open>The first problem in a list.\<close>

fun first_problem :: "('a \<Rightarrow> string option) \<Rightarrow> 'a list \<Rightarrow> string option" where
  "first_problem f [] = None"
| "first_problem f (x # xs) = (case f x of Some e \<Rightarrow> Some e | None \<Rightarrow> first_problem f xs)"

definition types_problem ::
    "verify_env \<Rightarrow> string list \<Rightarrow> string \<Rightarrow> json \<Rightarrow> (string \<times> json) list \<Rightarrow> string option" where
  "types_problem E types func_name params args =
     (case Option.bind (json_get params ''properties'') as_object of
        None \<Rightarrow> None
      | Some properties \<Rightarrow> first_problem (parameter_problem E types func_name properties) (ve_order E args))"

text \<open>
  The problem of one call. The types are checked even if a required parameter is missing; a
  problem with them then replaces the message.
\<close>

definition function_table :: "tool list \<Rightarrow> (string \<times> json) list" where
  "function_table tools =
     foldl (\<lambda>t x. AList.update (fn_name (t_function x)) (fn_parameters (t_function x)) t) [] tools"

definition call_problem :: "verify_env \<Rightarrow> string list \<Rightarrow> tool list \<Rightarrow> tool_call \<Rightarrow> string option" where
  "call_problem E types tools tc =
     (let n = fc_name (tc_function tc);
          bad = (\<lambda>e. Some (''Failed to parse arguments for function '' @ [CHR 0x27] @ n @ [CHR 0x27] @ '': '' @ e))
      in case json_parse (ve_codec E) (fc_arguments (tc_function tc)) of
           Inl e \<Rightarrow> bad e
         | Inr (JObject args) \<Rightarrow>
             (case map_of (function_table tools) n of
                None \<Rightarrow> Some (n @ '' is not available!'')
              | Some params \<Rightarrow>
                  (case types_problem E types n params args of
                     Some e \<Rightarrow> Some e
                   | None \<Rightarrow> required_problem n params args))
         | Inr j \<Rightarrow> bad (ve_shape_error E j))"

fun verify_tool_calls :: "verify_env \<Rightarrow> string list \<Rightarrow> tool list \<Rightarrow> tool_call list \<Rightarrow> tool_call_verification" where
  "verify_tool_calls E types tools [] =
     \<lparr>tv_is_valid = True, tv_invalid_tool_call = None, tv_error_message = []\<rparr>"
| "verify_tool_calls E types tools (tc # tcs) =
     (case call_problem E types tools tc of
        Some e \<Rightarrow> \<lparr>tv_is_valid = False, tv_invalid_tool_call = Some tc, tv_error_message = e\<rparr>
      | None \<Rightarrow> verify_tool_calls E types tools tcs)"

subsection \<open>Brackets\<close>

text \<open>A text whose brackets match, with those of the stack still to be closed.\<close>

fun balanced :: "char list \<Rightarrow> string \<Rightarrow> bool" where
  "balanced stack [] \<longleftrightarrow> stack = []"
| "balanced stack (c # s) \<longleftrightarrow>
     (if is_opening c then balanced (c # stack) s
      else if is_closing c then (case stack of [] \<Rightarrow> False | b # stack' \<Rightarrow> closing_of b = c \<and> balanced stack' s)
      else balanced stack s)"

lemma bracket_chars [simp]:
  "is_opening c \<Longrightarrow> \<not> is_closing c" "is_closing (closing_of c)" "\<not> is_opening (closing_of c)"
  by (auto simp: is_opening_def is_closing_def closing_of_def)

lemma balanced_closing: "balanced stack (map closing_of stack)"
  by (induction stack) auto

lemma fix_scan_balanced: "balanced stack (fst (fix_scan stack s) @ map closing_of (snd (fix_scan stack s)))"
  by (induction stack s rule: fix_scan.induct) (auto simp: balanced_closing split: list.split)

lemma fix_scan_id: "balanced stack s \<Longrightarrow> fix_scan stack s = (s, [])"
proof (induction s arbitrary: stack)
  case (Cons c s)
  then show ?case by (cases stack) (simp_all split: if_splits)
qed simp

text \<open>
  The repaired text always has matching brackets, and a text that already has is not changed; so
  repairing is idempotent.
\<close>

theorem brackets_repaired:
  "balanced [] (fix_brackets s) \<and> fix_brackets (fix_brackets s) = fix_brackets s \<and>
   (balanced [] s \<longrightarrow> fix_brackets s = s)"
proof -
  have b: "balanced [] (fix_brackets s)" for s
    using fix_scan_balanced [of "[]" s] by (simp add: fix_brackets_def case_prod_unfold)
  have id: "balanced [] s \<Longrightarrow> fix_brackets s = s" for s
    by (simp add: fix_brackets_def fix_scan_id)
  from b id show ?thesis by blast
qed

lemma fix_scan_plain:
  "\<forall>c \<in> set a. \<not> is_opening c \<and> \<not> is_closing c \<Longrightarrow>
   fix_scan stack (a @ s) = map_prod ((@) a) id (fix_scan stack s)"
  by (induction a) (simp_all add: map_prod_def case_prod_unfold)

text \<open>
  Brackets inside strings count too: a closing bracket without a partner is dropped from the text, and
  an opening one pushes the closing bracket of the object out of place.
\<close>

theorem brackets_in_strings:
  assumes "\<forall>c \<in> set (t @ u). \<not> is_opening c \<and> \<not> is_closing c"
  shows "fix_brackets (''{'' @ t @ '')'' @ u @ ''}'') = ''{'' @ t @ u @ ''}'' \<and>
    fix_brackets (''{'' @ t @ ''('' @ u @ ''}'') = ''{'' @ t @ ''('' @ u @ '')}''"
proof -
  have t: "\<forall>c \<in> set t. \<not> is_opening c \<and> \<not> is_closing c" and u: "\<forall>c \<in> set u. \<not> is_opening c \<and> \<not> is_closing c"
    using assms by auto
  show ?thesis
    by (simp add: fix_brackets_def fix_scan_plain [OF t] fix_scan_plain [OF u] is_opening_def is_closing_def
        closing_of_def)
qed

theorem brackets_in_strings_witness:
  "fix_brackets ''{:a)b}'' = ''{:ab}'' \<and> fix_brackets ''{:a(b}'' = ''{:a(b)}''"
  using brackets_in_strings [of "'':a''" "''b''"] by (simp add: is_opening_def is_closing_def)

subsection \<open>What verification means\<close>

lemma function_table_lookup:
  "map_of (function_table tools) =
     map_of (rev (map (\<lambda>t. (fn_name (t_function t), fn_parameters (t_function t))) tools))"
  by (induction tools rule: rev_induct) (simp_all add: function_table_def update_conv')

definition parameter_ok :: "verify_env \<Rightarrow> string list \<Rightarrow> (string \<times> json) list \<Rightarrow> string \<Rightarrow> json \<Rightarrow> bool" where
  "parameter_ok E types properties n v \<longleftrightarrow>
     (\<exists>schema. map_of properties n = Some schema \<and>
        (\<forall>ty. Option.bind (json_get schema ''type'') as_str = Some ty \<longrightarrow>
           ty \<in> set types \<and> validate_or_convert_parameter E v ty = Inr True))"

definition call_ok :: "verify_env \<Rightarrow> string list \<Rightarrow> tool list \<Rightarrow> tool_call \<Rightarrow> bool" where
  "call_ok E types tools tc \<longleftrightarrow>
     (\<exists>args params.
        json_parse (ve_codec E) (fc_arguments (tc_function tc)) = Inr (JObject args) \<and>
        map_of (function_table tools) (fc_name (tc_function tc)) = Some params \<and>
        (\<forall>required p. Option.bind (json_get params ''required'') as_array = Some required \<longrightarrow>
           JString p \<in> set required \<longrightarrow> map_of args p \<noteq> None) \<and>
        (\<forall>properties. Option.bind (json_get params ''properties'') as_object = Some properties \<longrightarrow>
           (\<forall>(n, v) \<in> set args. parameter_ok E types properties n v)))"

lemma first_problem_None: "first_problem f xs = None \<longleftrightarrow> (\<forall>x \<in> set xs. f x = None)"
  by (induction xs) (auto split: option.split)

lemma parameter_problem_None:
  "parameter_problem E types fn properties (n, v) = None \<longleftrightarrow> parameter_ok E types properties n v"
  by (auto simp: parameter_problem_def parameter_ok_def split: option.split)

lemma as_str_Some: "as_str j = Some s \<longleftrightarrow> j = JString s"
  by (cases j) auto

lemma required_problem_None:
  "required_problem fn params args = None \<longleftrightarrow>
     (\<forall>required p. Option.bind (json_get params ''required'') as_array = Some required \<longrightarrow>
        JString p \<in> set required \<longrightarrow> map_of args p \<noteq> None)"
  by (auto simp: required_problem_def find_None_iff List.map_filter_def as_str_Some split: option.split)

lemma call_problem_None:
  assumes "\<And>xs. set (ve_order E xs) = set xs"
  shows "call_problem E types tools tc = None \<longleftrightarrow> call_ok E types tools tc"
proof -
  have types: "types_problem E types fn params args = None \<longleftrightarrow>
      (\<forall>properties. Option.bind (json_get params ''properties'') as_object = Some properties \<longrightarrow>
         (\<forall>(n, v) \<in> set args. parameter_ok E types properties n v))" for fn params args
    using assms parameter_problem_None
    by (force simp: types_problem_def first_problem_None split: option.split)
  have "call_problem E types tools tc = None \<longleftrightarrow>
      (\<exists>args params. json_parse (ve_codec E) (fc_arguments (tc_function tc)) = Inr (JObject args) \<and>
         map_of (function_table tools) (fc_name (tc_function tc)) = Some params \<and>
         required_problem (fc_name (tc_function tc)) params args = None \<and>
         types_problem E types (fc_name (tc_function tc)) params args = None)"
    by (auto simp: call_problem_def Let_def split: sum.split json.split option.split)
  then show ?thesis by (simp only: types required_problem_None call_ok_def)
qed

lemma verification_spec:
  assumes "\<And>xs. set (ve_order E xs) = set xs"
  shows "tv_is_valid (verify_tool_calls E types tools tcs) \<longleftrightarrow> (\<forall>tc \<in> set tcs. call_ok E types tools tc)"
    and "tv_invalid_tool_call (verify_tool_calls E types tools tcs) = find (\<lambda>tc. \<not> call_ok E types tools tc) tcs"
proof (induction tcs)
  case (Cons tc tcs)
  have "call_ok E types tools tc \<longleftrightarrow> call_problem E types tools tc = None"
    using call_problem_None [OF assms] by simp
  with Cons show "tv_is_valid (verify_tool_calls E types tools (tc # tcs)) \<longleftrightarrow> (\<forall>x \<in> set (tc # tcs). call_ok E types tools x)"
    "tv_invalid_tool_call (verify_tool_calls E types tools (tc # tcs)) = find (\<lambda>x. \<not> call_ok E types tools x) (tc # tcs)"
    by (cases "call_problem E types tools tc"; simp)+
qed simp_all

text \<open>
  (C27) The verification accepts exactly the lists of well-formed calls: known functions, arguments that
  are an object, every required parameter present and, where the function lists its parameters, every
  argument declared and of its type or convertible to it. Otherwise it names the first bad call.
\<close>

theorem verified_iff_well_formed:
  assumes "\<And>xs. set (ve_order E xs) = set xs"
  shows "(tv_is_valid (verify_tool_calls E types tools tcs) \<longleftrightarrow> (\<forall>tc \<in> set tcs. call_ok E types tools tc)) \<and>
    tv_invalid_tool_call (verify_tool_calls E types tools tcs) = find (\<lambda>tc. \<not> call_ok E types tools tc) tcs"
  using verification_spec [OF assms] by blast

text \<open>No value is ever rejected for a string parameter: everything converts to its own text.\<close>

lemma string_parameters_accept_all: "validate_or_convert_parameter E v ''string'' = Inr True"
  by (cases v) (simp_all add: validate_or_convert_parameter_def check_value_type_def convert_data_type_def)

text \<open>The repaired text is parsed again, which succeeds by the law of the library.\<close>

lemma fixed_is_printed: "fix_json_string c s = Inr t \<Longrightarrow> \<exists>v. t = json_print c v"
  by (auto simp: fix_json_string_def Let_def split: sum.splits)

lemma parsed_valid_iff:
  assumes "json_codec_ok c"
  shows "pm_is_valid (parse_model_response c rnd s) \<longleftrightarrow> (\<exists>t. fix_json_string c (strip_markdown s) = Inr t)"
proof (cases "fix_json_string c (strip_markdown s)")
  case (Inr t)
  then obtain v where "t = json_print c v" using fixed_is_printed by blast
  then show ?thesis using Inr json_codec_okD [OF assms] by (simp add: parse_model_response_def Let_def)
qed (simp add: parse_model_response_def parsed_model_response_default_def)

subsection \<open>A concrete call\<close>

definition sample_verify :: verify_env where
  "sample_verify = \<lparr>ve_codec = escaped_json, ve_float_text = (\<lambda>_. ''0.0''), ve_shape_error = (\<lambda>_. ''no map''),
     ve_order = (\<lambda>xs. xs)\<rparr>"

definition add_tool :: tool where
  "add_tool = \<lparr>t_tool_type = ''function'', t_function = \<lparr>fn_name = ''add'', fn_description = None,
     fn_parameters = JObject [(''required'', JArray [JString ''x'']),
       (''properties'', JObject [(''x'', JObject [(''type'', JString ''integer'')])])], fn_strict = None\<rparr>\<rparr>"

definition add_call :: "(string \<times> json) list \<Rightarrow> tool_call" where
  "add_call args = \<lparr>tc_id = ''call_1000'', tc_call_type = ''function'',
     tc_function = \<lparr>fc_name = ''add'', fc_arguments = json_print escaped_json (JObject args)\<rparr>\<rparr>"

lemma add_call_ok:
  "call_ok sample_verify SUPPORT_DATA_TYPES [add_tool] (add_call args) \<longleftrightarrow>
     map_of args ''x'' \<noteq> None \<and> (\<forall>(n, v) \<in> set args. n = ''x'' \<and> (is_i64 v \<or> is_u64 v))"
proof -
  have p: "json_parse escaped_json (json_print escaped_json j) = Inr j" for j
    by (rule json_codec_okD [OF escaped_json_ok])
  have v: "validate_or_convert_parameter sample_verify v ''integer'' = Inr True \<longleftrightarrow> is_i64 v \<or> is_u64 v" for v
    by (simp add: validate_or_convert_parameter_def check_value_type_def convert_data_type_def)
  have "parameter_ok sample_verify SUPPORT_DATA_TYPES [(''x'', JObject [(''type'', JString ''integer'')])] n w \<longleftrightarrow>
      n = ''x'' \<and> (is_i64 w \<or> is_u64 w)" for n w
    by (simp add: parameter_ok_def v SUPPORT_DATA_TYPES_def)
  moreover have "ve_codec sample_verify = escaped_json" by (simp add: sample_verify_def)
  ultimately show ?thesis
    by (simp add: call_ok_def p add_call_def add_tool_def function_table_def case_prod_beta)
qed

theorem verified_iff_well_formed_witness:
  "tv_is_valid (verify_tool_calls sample_verify SUPPORT_DATA_TYPES [add_tool] [add_call [(''x'', JNumber ''5'')]]) \<and>
   tv_invalid_tool_call (verify_tool_calls sample_verify SUPPORT_DATA_TYPES [add_tool]
     [add_call [(''x'', JNumber ''5'')], add_call [(''x'', JNull)]]) = Some (add_call [(''x'', JNull)])"
proof -
  have set: "\<And>xs. set (ve_order sample_verify xs) = set xs" by (simp add: sample_verify_def)
  have "is_i64 (JNumber ''5'')" by (simp add: is_i64_def as_i64_def json_int_def number_int_def is_digit_def decimal_value_def)
  moreover have "\<not> is_i64 JNull" "\<not> is_u64 JNull" by (simp_all add: is_i64_def is_u64_def as_i64_def json_int_def)
  ultimately show ?thesis by (simp add: verified_iff_well_formed [OF set] add_call_ok del: verify_tool_calls.simps)
qed

end
