(* ===== verification/Function_Messages.thy ===== *)
theory Function_Messages
  imports Function_Calling
begin

section \<open>Function calling: the prompt\<close>

text \<open>
  The other direction of \<open>handlers/function_calling.rs\<close>: the system prompt with the tools, the
  messages as the function-calling model expects them, the cut to a token budget and the request.
\<close>

subsection \<open>The system prompt\<close>

definition convert_tools :: "json_codec \<Rightarrow> tool list \<Rightarrow> string" where
  "convert_tools c tools = join RN (map (\<lambda>t. json_print c (function_def_to_json (t_function t))) tools)"

text \<open>The variant of the agent handler, which leaves out an empty list of properties.\<close>

definition without_empty_properties :: "json \<Rightarrow> json" where
  "without_empty_properties params =
     (case params of
        JObject m \<Rightarrow> (if map_of m ''properties'' = Some (JObject []) then JObject (swap_remove ''properties'' m) else params)
      | _ \<Rightarrow> params)"

definition agent_convert_tools :: "json_codec \<Rightarrow> tool list \<Rightarrow> string" where
  "agent_convert_tools c tools =
     join NL (map (\<lambda>t. json_print c (function_def_to_json
       ((t_function t)\<lparr>fn_parameters := without_empty_properties (fn_parameters (t_function t))\<rparr>))) tools)"

definition format_system_prompt :: "json_codec \<Rightarrow> arch_function_config \<Rightarrow> tool list \<Rightarrow> string" where
  "format_system_prompt c cfg tools =
     replace_str ''{tools}'' (convert_tools c tools) (fcc_task_prompt cfg) @ fcc_format_prompt cfg"

subsection \<open>The messages\<close>

text \<open>The text of an assistant message that gives its calls as JSON, without the code fence.\<close>

definition unfenced :: "string \<Rightarrow> string" where
  "unfenced s =
     (if starts_with s FENCE \<and> ends_with s FENCE then
        (let t = trim (trim_end_str FENCE (trim_start_str FENCE s))
         in if starts_with t ''json'' then trim (trim_start_str ''json'' t) else t)
      else s)"

definition first_called_function :: "json_codec \<Rightarrow> string \<Rightarrow> string option" where
  "first_called_function c msg =
     (case json_parse c (unfenced msg) of
        Inl _ \<Rightarrow> None
      | Inr v \<Rightarrow>
          (case Option.bind (json_get v ''tool_calls'') as_array of
             Some (call # _) \<Rightarrow>
               Some (case Option.bind (json_get call ''name'') as_str of Some n \<Rightarrow> n | None \<Rightarrow> ''no_name'')
           | _ \<Rightarrow> None))"

definition tool_response_text :: "json_codec \<Rightarrow> message option \<Rightarrow> string \<Rightarrow> string" where
  "tool_response_text c prev content =
     (case Option.bind prev m_content of
        Some (MC_Text t) \<Rightarrow>
          (case first_called_function c t of
             Some f \<Rightarrow> ''<tool_response>'' @ NL
               @ json_print c (JObject [(''name'', JString f), (''result'', JString content)])
               @ NL @ ''</tool_response>''
           | None \<Rightarrow> content)
      | _ \<Rightarrow> content)"

definition optimize_context :: "(string \<times> json) list option \<Rightarrow> bool" where
  "optimize_context metadata =
     (case Option.bind (Option.bind metadata (\<lambda>m. map_of m ''optimize_context_window'')) as_str of
        Some s \<Rightarrow> to_lowercase s = ''true'' | None \<Rightarrow> False)"

definition plain_content :: "message_content option \<Rightarrow> string" where
  "plain_content mc = (case mc of Some (MC_Text t) \<Rightarrow> t | _ \<Rightarrow> [])"

text \<open>One message, with the message before it.\<close>

definition process_message ::
    "json_codec \<Rightarrow> (string \<times> json) list option \<Rightarrow> message option \<Rightarrow> message \<Rightarrow> message" where
  "process_message c metadata prev m =
     (let content = plain_content (m_content m);
          (role, content) =
            (case m_tool_calls m of
               Some (call # _) \<Rightarrow>
                 (R_Assistant, ''<tool_call>'' @ NL @ json_print c (function_call_to_json (tc_function call))
                    @ NL @ ''</tool_call>'')
             | Some [] \<Rightarrow> (m_role m, content)
             | None \<Rightarrow>
                 (if m_role m = R_Tool then
                    (R_User, if optimize_context metadata then ''<tool_response>'' @ NL @ NL @ ''</tool_response>''
                             else tool_response_text c prev content)
                  else (m_role m, content)))
      in \<lparr>m_role = role, m_content = Some (MC_Text content), m_name = m_name m, m_tool_calls = None,
          m_tool_call_id = None\<rparr>)"

fun process_all ::
    "json_codec \<Rightarrow> (string \<times> json) list option \<Rightarrow> message option \<Rightarrow> message list \<Rightarrow> message list" where
  "process_all c metadata prev [] = []"
| "process_all c metadata prev (m # ms) = process_message c metadata prev m # process_all c metadata (Some m) ms"

definition add_instruction :: "string option \<Rightarrow> message list \<Rightarrow> message list" where
  "add_instruction extra ms =
     (case extra of
        None \<Rightarrow> ms
      | Some i \<Rightarrow>
          (if ms = [] then []
           else (case m_content (last ms) of
                   Some (MC_Text t) \<Rightarrow> butlast ms @ [(last ms)\<lparr>m_content := Some (MC_Text (t @ NL @ i))\<rparr>]
                 | _ \<Rightarrow> ms)))"

subsection \<open>The token budget\<close>

definition message_tokens :: "message \<Rightarrow> nat" where
  "message_tokens m = (case m_content m of Some (MC_Text t) \<Rightarrow> length t div 4 | _ \<Rightarrow> 0)"

definition has_text :: "message \<Rightarrow> bool" where
  "has_text m \<longleftrightarrow> (case m_content m of Some (MC_Text _) \<Rightarrow> True | _ \<Rightarrow> False)"

text \<open>
  The loop from the last message backwards: \<open>i\<close> is the number of messages still to come, the
  messages are in reverse order.
\<close>

fun truncation_index :: "nat \<Rightarrow> nat \<Rightarrow> nat \<Rightarrow> nat \<Rightarrow> message list \<Rightarrow> nat" where
  "truncation_index max_tokens num_tokens start message_idx [] = message_idx"
| "truncation_index max_tokens num_tokens start message_idx (m # ms) =
     (let i = start + length ms; num_tokens' = num_tokens + message_tokens m
      in if has_text m \<and> max_tokens \<le> num_tokens' \<and> m_role m = R_User then i
         else truncation_index max_tokens num_tokens' start (if num_tokens' < max_tokens then i else message_idx) ms)"

definition is_system_message :: "message \<Rightarrow> bool" where
  "is_system_message m \<longleftrightarrow> m_role m = R_System \<or> m_role m = R_Developer"

definition truncate_messages :: "message list \<Rightarrow> nat \<Rightarrow> message list" where
  "truncate_messages ms max_tokens =
     (case ms of
        [] \<Rightarrow> []
      | first # rest \<Rightarrow>
          (if is_system_message first then
             first # drop (truncation_index max_tokens (message_tokens first) 1 (length ms) (rev rest)) ms
           else drop (truncation_index max_tokens 0 0 (length ms) (rev ms)) ms))"

definition process_messages ::
    "json_codec \<Rightarrow> arch_function_config \<Rightarrow> message list \<Rightarrow> tool list option \<Rightarrow> string option \<Rightarrow> nat \<Rightarrow>
     (string \<times> json) list option \<Rightarrow> function_calling_error + message list" where
  "process_messages c cfg messages tools extra max_tokens metadata =
     (let processed =
            (case tools of None \<Rightarrow> [] | Some ts \<Rightarrow> [text_message R_System (format_system_prompt c cfg ts)])
            @ process_all c metadata None messages
      in if processed \<noteq> [] \<and> m_role (last processed) \<noteq> R_User
         then Inl (FE_InvalidModelResponse ''Last message must be from user'')
         else Inr (truncate_messages (add_instruction extra processed) max_tokens))"

definition prefill_message :: "message list \<Rightarrow> string \<Rightarrow> message list" where
  "prefill_message messages prefill = messages @ [text_message R_Assistant prefill]"

definition create_request_with_extra_body :: "arch_function_handler \<Rightarrow> message list \<Rightarrow> bool \<Rightarrow> chat_request" where
  "create_request_with_extra_body h messages stream =
     (let p = fcc_generation_params (fh_config h)
      in chat_request_default
           \<lparr>cr_model := fh_model_name h, cr_messages := messages, cr_temperature := Some (gp_temperature p),
            cr_top_p := Some (gp_top_p p), cr_max_tokens := Some (gp_max_tokens p), cr_stream := Some stream,
            cr_logprobs := gp_logprobs p, cr_top_logprobs := gp_top_logprobs p,
            cr_continue_final_message := Some True, cr_add_generation_prompt := Some False,
            cr_top_k := Some (gp_top_k p),
            cr_stop_token_ids := (if gp_stop_token_ids p = [] then None else Some (gp_stop_token_ids p))\<rparr>)"

subsection \<open>What the budget keeps\<close>

text \<open>The tokens counted for a conversation from the message \<open>j\<close> on, with \<open>n\<close> for the system prompt.\<close>

definition tokens_from :: "nat \<Rightarrow> message list \<Rightarrow> nat \<Rightarrow> nat" where
  "tokens_from n conv j = n + sum_list (map message_tokens (drop j conv))"

definition user_text :: "message \<Rightarrow> bool" where
  "user_text m \<longleftrightarrow> m_role m = R_User \<and> has_text m"

lemma tokens_from_mono: "i \<le> j \<Longrightarrow> tokens_from n conv j \<le> tokens_from n conv i"
proof -
  assume "i \<le> j"
  then have "drop i conv = take (j - i) (drop i conv) @ drop j conv"
    by (metis append_take_drop_id drop_drop le_add_diff_inverse2)
  then have "map message_tokens (drop i conv) = map message_tokens (take (j - i) (drop i conv)) @ map message_tokens (drop j conv)"
    by (metis map_append)
  then show ?thesis by (simp add: tokens_from_def)
qed

definition cut_spec :: "nat \<Rightarrow> nat \<Rightarrow> message list \<Rightarrow> nat \<Rightarrow> bool" where
  "cut_spec max_tokens n conv k \<longleftrightarrow>
     (\<forall>j. k < j \<and> j < length conv \<and> user_text (conv ! j) \<longrightarrow> tokens_from n conv j < max_tokens) \<and>
     (k < length conv \<and> user_text (conv ! k) \<and> max_tokens \<le> tokens_from n conv k \<or>
      (\<forall>j. j < length conv \<and> user_text (conv ! j) \<longrightarrow> tokens_from n conv j < max_tokens) \<and>
      (k < length conv \<longrightarrow> tokens_from n conv k < max_tokens) \<and>
      (0 < k \<longrightarrow> max_tokens \<le> tokens_from n conv (k - 1)))"

lemma truncation_index_spec:
  assumes "conv = pre @ suf" "num = tokens_from n conv (length pre)"
    and "length pre \<le> k" "k \<le> length conv" "idx = start + k"
    and "\<forall>j. length pre \<le> j \<and> j < length conv \<and> user_text (conv ! j) \<longrightarrow> tokens_from n conv j < max_tokens"
    and "k < length conv \<longrightarrow> tokens_from n conv k < max_tokens"
    and "length pre < k \<longrightarrow> max_tokens \<le> tokens_from n conv (k - 1)"
  shows "\<exists>k' \<le> length conv. truncation_index max_tokens num start idx (rev pre) = start + k' \<and>
    cut_spec max_tokens n conv k'"
  using assms
proof (induction pre arbitrary: suf num k idx rule: rev_induct)
  case Nil
  then show ?case by (auto simp: cut_spec_def intro!: exI [where x = k])
next
  case (snoc m pre)
  have conv: "conv = pre @ (m # suf)" using snoc.prems(1) by simp
  have m: "conv ! length pre = m" by (simp add: conv)
  have num: "num + message_tokens m = tokens_from n conv (length pre)"
    using snoc.prems(2) by (simp add: conv tokens_from_def)
  have len: "length pre < length conv" by (simp add: conv)
  show ?case
  proof (cases "user_text m \<and> max_tokens \<le> tokens_from n conv (length pre)")
    case True
    then have "truncation_index max_tokens num start idx (rev (pre @ [m])) = start + length pre"
      using num by (simp add: user_text_def Let_def)
    moreover have "cut_spec max_tokens n conv (length pre)"
      using True snoc.prems(6) m len by (auto simp: cut_spec_def)
    ultimately show ?thesis using len less_imp_le by blast
  next
    case False
    let ?k = "if tokens_from n conv (length pre) < max_tokens then length pre else k"
    have "truncation_index max_tokens num start idx (rev (pre @ [m])) =
        truncation_index max_tokens (num + message_tokens m) start (start + ?k) (rev pre)"
      using False num snoc.prems(5) by (auto simp: user_text_def Let_def)
    moreover have "\<exists>k' \<le> length conv. truncation_index max_tokens (num + message_tokens m) start (start + ?k) (rev pre) = start + k' \<and>
        cut_spec max_tokens n conv k'"
    proof (rule snoc.IH [OF conv num])
      show "length pre \<le> ?k" "?k \<le> length conv" using snoc.prems(3,4) by auto
      show "\<forall>j. length pre \<le> j \<and> j < length conv \<and> user_text (conv ! j) \<longrightarrow> tokens_from n conv j < max_tokens"
      proof (intro allI impI)
        fix j assume j: "length pre \<le> j \<and> j < length conv \<and> user_text (conv ! j)"
        show "tokens_from n conv j < max_tokens"
        proof (cases "j = length pre")
          case True
          then show ?thesis using False j m by auto
        next
          case False
          then show ?thesis using snoc.prems(6) j by auto
        qed
      qed
      show "?k < length conv \<longrightarrow> tokens_from n conv ?k < max_tokens" using snoc.prems(7) by auto
      show "length pre < ?k \<longrightarrow> max_tokens \<le> tokens_from n conv (?k - 1)"
      proof
        assume k: "length pre < ?k"
        then have max: "max_tokens \<le> tokens_from n conv (length pre)" by (auto split: if_splits)
        show "max_tokens \<le> tokens_from n conv (?k - 1)"
        proof (cases "k = Suc (length pre)")
          case True
          then show ?thesis using max by auto
        next
          case False
          then have "length (pre @ [m]) < k" using k snoc.prems(3) by (auto split: if_splits)
          then show ?thesis using snoc.prems(8) max by auto
        qed
      qed
    qed simp
    ultimately show ?thesis by simp
  qed
qed

lemma truncation_index_cut:
  "\<exists>k \<le> length conv. truncation_index max_tokens n start (start + length conv) (rev conv) = start + k \<and>
     cut_spec max_tokens n conv k"
  by (rule truncation_index_spec [of conv conv "[]" _ _ "length conv"]) (simp_all add: tokens_from_def)

lemma truncate_messages_cut:
  assumes "sys = [] \<and> (conv = [] \<or> \<not> is_system_message (hd conv)) \<or> (\<exists>s. sys = [s] \<and> is_system_message s)"
  shows "\<exists>k \<le> length conv. truncate_messages (sys @ conv) max_tokens = sys @ drop k conv \<and>
    cut_spec max_tokens (sum_list (map message_tokens sys)) conv k"
proof (cases sys)
  case Nil
  then show ?thesis
    using assms truncation_index_cut [of conv max_tokens 0 0]
    by (cases conv) (auto simp: truncate_messages_def cut_spec_def)
next
  case (Cons s ss)
  then have s: "sys = [s]" "is_system_message s" using assms by auto
  obtain k where "k \<le> length conv" "cut_spec max_tokens (message_tokens s) conv k"
      "truncation_index max_tokens (message_tokens s) 1 (1 + length conv) (rev conv) = 1 + k"
    using truncation_index_cut [of conv max_tokens "message_tokens s" 1] by blast
  then show ?thesis using s by (auto simp: truncate_messages_def)
qed

text \<open>
  What truncation keeps of a conversation that ends with the user's question: the system prompt and a
  suffix with the question. It starts at the last user message with which the budget overflows, or, if
  there is none, is the longest suffix within the budget.
\<close>

theorem truncation_keeps_question:
  assumes "conv \<noteq> []" "user_text (last conv)"
    and "sys = [] \<and> \<not> is_system_message (hd conv) \<or> (\<exists>s. sys = [s] \<and> is_system_message s)"
  shows "\<exists>k < length conv. truncate_messages (sys @ conv) max_tokens = sys @ drop k conv \<and>
    last (truncate_messages (sys @ conv) max_tokens) = last conv \<and>
    cut_spec max_tokens (sum_list (map message_tokens sys)) conv k"
proof -
  obtain k where k: "k \<le> length conv" "truncate_messages (sys @ conv) max_tokens = sys @ drop k conv"
      "cut_spec max_tokens (sum_list (map message_tokens sys)) conv k"
    using truncate_messages_cut [of sys conv max_tokens] assms(3) by blast
  have "k < length conv"
  proof (rule ccontr)
    assume "\<not> k < length conv"
    with k(1) have "k = length conv" by simp
    moreover have "length conv - 1 < length conv" "user_text (conv ! (length conv - 1))"
      using assms(1,2) by (simp_all add: last_conv_nth)
    ultimately show False using k(3) assms(1) unfolding cut_spec_def
      by (metis length_greater_0_conv linorder_not_le order_less_irrefl)
  qed
  then show ?thesis using k by auto
qed

text \<open>Every processed message has a text, and its role is that of the source unless it is a call or a result.\<close>

lemma processed_text: "m \<in> set (process_all c md prev ms) \<Longrightarrow> has_text m \<and> m_tool_calls m = None"
  by (induction ms arbitrary: prev) (auto simp: process_message_def has_text_def Let_def case_prod_beta)

lemma process_all_Nil [simp]: "process_all c md prev ms = [] \<longleftrightarrow> ms = []"
  by (cases ms) auto

lemma length_process_all [simp]: "length (process_all c md prev ms) = length ms"
  by (induction ms arbitrary: prev) auto

text \<open>The two messages that are left if the system prompt alone uses the budget up.\<close>

lemma truncate_over_budget:
  assumes "conv \<noteq> []" "user_text (last conv)" "is_system_message s" "max_tokens \<le> message_tokens s"
  shows "truncate_messages (s # conv) max_tokens = [s, last conv]"
proof -
  obtain k where k: "k \<le> length conv" "truncate_messages ([s] @ conv) max_tokens = [s] @ drop k conv"
      "cut_spec max_tokens (sum_list (map message_tokens [s])) conv k"
    using truncate_messages_cut [of "[s]" conv max_tokens] assms(3) by blast
  let ?l = "length conv - 1"
  have l: "?l < length conv" "user_text (conv ! ?l)" using assms(1,2) by (simp_all add: last_conv_nth)
  have over: "\<not> tokens_from (sum_list (map message_tokens [s])) conv j < max_tokens" for j
    using assms(4) by (simp add: tokens_from_def)
  have "k = ?l"
    using k(3) l over unfolding cut_spec_def
    by (metis (no_types, lifting) One_nat_def Suc_pred length_greater_0_conv assms(1) less_Suc_eq linorder_neqE_nat)
  then have "drop k conv = [last conv]"
    using assms(1) by (metis append_butlast_last_id append_eq_conv_conj length_butlast)
  then show ?thesis using k(2) by simp
qed

text \<open>
  The budget is the generation limit of the model (1024 tokens), and the system prompt with the
  signatures of all tools counts too. If it is used up, the model sees nothing of the conversation
  but the last message.
\<close>

theorem long_tools_drop_history:
  assumes "process_messages c cfg messages (Some tools) None max_tokens md = Inr ms" "messages \<noteq> []"
    and "4 * max_tokens \<le> length (convert_tools c tools)"
    and "fcc_task_prompt cfg = before @ ''{tools}'' @ after" "CHR ''{'' \<notin> set before"
  shows "ms = [text_message R_System (format_system_prompt c cfg tools), last (process_all c md None messages)]"
proof -
  let ?p = "text_message R_System (format_system_prompt c cfg tools)" and ?conv = "process_all c md None messages"
  have "format_system_prompt c cfg tools =
      before @ convert_tools c tools @ replace_str ''{tools}'' (convert_tools c tools) after @ fcc_format_prompt cfg"
    using assms(4,5) replace_str_hit [of "''{tools}''" "convert_tools c tools" after]
    by (simp add: format_system_prompt_def replace_str_prefix)
  then have "max_tokens \<le> message_tokens ?p"
    using assms(3) by (simp add: message_tokens_def)
  moreover have "ms = truncate_messages (?p # ?conv) max_tokens" "m_role (last ?conv) = R_User"
    using assms(1,2) by (auto simp: process_messages_def add_instruction_def Let_def split: if_splits)
  moreover have "has_text (last ?conv)" using processed_text assms(2) by (metis last_in_set process_all_Nil)
  ultimately show ?thesis
    using truncate_over_budget [of ?conv ?p max_tokens] assms(2)
    by (simp add: user_text_def is_system_message_def)
qed

subsection \<open>Concrete conversations\<close>

definition three_turns :: "message list" where
  "three_turns = [text_message R_User ''Hi'', text_message R_Assistant (replicate 4000 CHR ''x''), text_message R_User ''Bye'']"

theorem truncation_keeps_question_witness:
  "\<exists>k < 3. truncate_messages (text_message R_System ''Be brief'' # three_turns) 100 =
     text_message R_System ''Be brief'' # drop k three_turns \<and>
   last (truncate_messages (text_message R_System ''Be brief'' # three_turns) 100) = text_message R_User ''Bye''"
proof -
  have "three_turns \<noteq> []" "user_text (last three_turns)" "last three_turns = text_message R_User ''Bye''" "length three_turns = 3"
    by (simp_all add: three_turns_def user_text_def has_text_def)
  then show ?thesis
    using truncation_keeps_question [of three_turns "[text_message R_System ''Be brief'']" 100]
    by (auto simp: is_system_message_def)
qed

text \<open>A JSON library that prints every value as the same long text.\<close>

definition long_codec :: json_codec where
  "long_codec = \<lparr>json_print = (\<lambda>_. replicate 5000 CHR ''x''), json_parse = (\<lambda>_. Inl ''EOF'')\<rparr>"

theorem long_tools_drop_history_witness:
  "process_messages long_codec arch_function_config_default three_turns (Some [add_tool]) None 1024 None =
     Inr [text_message R_System (format_system_prompt long_codec arch_function_config_default [add_tool]),
          text_message R_User ''Bye'']"
proof -
  have turns: "process_all long_codec None None three_turns = three_turns"
    by (simp add: three_turns_def process_message_def text_message_def plain_content_def Let_def)
  have last: "three_turns \<noteq> []" "last three_turns = text_message R_User ''Bye''" by (simp_all add: three_turns_def)
  obtain ms where ms: "process_messages long_codec arch_function_config_default three_turns (Some [add_tool]) None 1024 None = Inr ms"
    by (simp add: process_messages_def turns Let_def last)
  have task: "fcc_task_prompt arch_function_config_default =
      (''You are a helpful assistant designed to assist with the user query by making one or more function calls if needed.''
       @ RN @ RN @ ''You are provided with function signatures within <tools></tools> XML tags:'' @ RN @ ''<tools>'' @ RN)
       @ ''{tools}'' @ (RN @ ''</tools>'' @ RN @ RN
       @ ''Your task is to decide which functions are needed and collect missing parameters if necessary.'')"
    by (simp add: arch_function_config_default_def TASK_PROMPT_def)
  have tools: "4 * 1024 \<le> length (convert_tools long_codec [add_tool])"
    by (simp add: convert_tools_def long_codec_def)
  show ?thesis
    using long_tools_drop_history [OF ms _ tools task] ms
    by (simp add: turns last RN_def)
qed

end
