(* ===== verification/Hallucination.thy ===== *)
theory Hallucination
  imports Json_Value Rust_Text Model_Metrics Json_Instance
begin

section \<open>Hallucination detection\<close>

text \<open>
  The detector of \<open>handlers/function_calling.rs\<close> that follows the tokens of a streamed tool call and
  checks how certain the model was of the first token of a parameter value. Floating-point
  arithmetic is a parameter, comparison is that of IEEE.
\<close>

subsection \<open>Uncertainty\<close>

record float_ops =
  fl_add :: "f64 \<Rightarrow> f64 \<Rightarrow> f64"
  fl_sub :: "f64 \<Rightarrow> f64 \<Rightarrow> f64"
  fl_mul :: "f64 \<Rightarrow> f64 \<Rightarrow> f64"
  fl_div :: "f64 \<Rightarrow> f64 \<Rightarrow> f64"
  fl_exp :: "f64 \<Rightarrow> f64"
  fl_ln2 :: f64

record hallucination_thresholds =
  th_entropy :: f64
  th_varentropy :: f64
  th_probability :: f64

text \<open>The bit patterns of \<open>0.0001\<close> and \<open>0.8\<close>.\<close>

definition hallucination_thresholds_default :: hallucination_thresholds where
  "hallucination_thresholds_default = \<lparr>th_entropy = 0x3F1A36E2EB1C432D,
     th_varentropy = 0x3F1A36E2EB1C432D, th_probability = 0x3FE999999999999A\<rparr>"

record uncertainty_metrics =
  um_entropy :: f64
  um_varentropy :: f64
  um_probability :: f64

definition calculate_uncertainty :: "float_ops \<Rightarrow> f64 list \<Rightarrow> uncertainty_metrics" where
  "calculate_uncertainty F log_probs =
     (if log_probs = [] then \<lparr>um_entropy = 0, um_varentropy = 0, um_probability = 0\<rparr>
      else
        (let pairs = map (\<lambda>lp. (lp, fl_exp F lp)) log_probs;
             entropy = fl_div F (foldl (\<lambda>e (lp, p). fl_sub F e (fl_mul F lp p)) 0 pairs) (fl_ln2 F);
             varentropy = foldl (\<lambda>v (lp, p).
               (let diff = fl_add F (fl_div F lp (fl_ln2 F)) entropy
                in fl_add F v (fl_mul F (fl_mul F p diff) diff))) 0 pairs
         in \<lparr>um_entropy = entropy, um_varentropy = varentropy, um_probability = snd (hd pairs)\<rparr>))"

definition f64_gt :: "f64 \<Rightarrow> f64 \<Rightarrow> bool" where
  "f64_gt a b \<longleftrightarrow> f64_partial_cmp a b = Some Greater"

definition check_threshold :: "f64 \<Rightarrow> f64 \<Rightarrow> hallucination_thresholds \<Rightarrow> bool" where
  "check_threshold entropy varentropy th \<longleftrightarrow>
     f64_gt entropy (th_entropy th) \<and> f64_gt varentropy (th_varentropy th)"

definition is_parameter_required :: "json \<Rightarrow> string \<Rightarrow> bool" where
  "is_parameter_required desc p \<longleftrightarrow>
     (case Option.bind (json_get desc ''required'') as_array of
        Some vs \<Rightarrow> list_ex (\<lambda>v. as_str v = Some p) vs | None \<Rightarrow> False)"

definition is_parameter_property :: "json \<Rightarrow> string \<Rightarrow> string \<Rightarrow> bool" where
  "is_parameter_property desc p property \<longleftrightarrow>
     (case Option.bind (json_get desc ''properties'') (\<lambda>ps. json_get ps p) of
        Some info \<Rightarrow> json_get info property \<noteq> None | None \<Rightarrow> False)"

subsection \<open>The state\<close>

datatype mask_token = MT_FunctionName | MT_ParameterValue | MT_ParameterName | MT_NotUsed | MT_ToolCall

record hallucination_state =
  hs_tokens :: "string list"
  hs_logprobs :: "f64 list list"
  hs_state :: "string option"
  hs_mask :: "mask_token list"
  hs_parameter_name_done :: bool
  hs_hallucination :: bool
  hs_error_message :: string
  hs_parameter_name :: "string list"
  hs_token_probs_map :: "(string \<times> uncertainty_metrics) list"
  hs_function_properties :: "(string \<times> json) list"
  hs_open_bracket :: bool
  hs_bracket :: "char option"
  hs_function_name :: string
  hs_check_parameter_name :: "(string \<times> bool) list"
  hs_thresholds :: hallucination_thresholds

definition hallucination_state_new :: "tool list \<Rightarrow> hallucination_state" where
  "hallucination_state_new functions =
     \<lparr>hs_tokens = [], hs_logprobs = [], hs_state = None, hs_mask = [], hs_parameter_name_done = False,
      hs_hallucination = False, hs_error_message = [], hs_parameter_name = [], hs_token_probs_map = [],
      hs_function_properties =
        foldl (\<lambda>t x. AList.update (fn_name (t_function x)) (fn_parameters (t_function x)) t) [] functions,
      hs_open_bracket = False, hs_bracket = None, hs_function_name = [], hs_check_parameter_name = [],
      hs_thresholds = hallucination_thresholds_default\<rparr>"

text \<open>The patterns, with \<open>Q\<close> for the double and \<open>A\<close> for the single quote.\<close>

definition with_quotes :: "string \<Rightarrow> string" where
  "with_quotes s = map (\<lambda>c. if c = CHR ''Q'' then CHR 0x22 else if c = CHR ''A'' then CHR 0x27 else c) s"

definition FUNC_NAME_START_PATTERN :: "string list" where
  "FUNC_NAME_START_PATTERN = map with_quotes [''{QnameQ:Q'', ''{AnameA:A'']"
definition FUNC_NAME_END_TOKEN :: "string list" where
  "FUNC_NAME_END_TOKEN = map with_quotes [''Q,'', ''A,'']"
definition END_TOOL_CALL_TOKEN :: string where "END_TOOL_CALL_TOKEN = ''}}''"
definition FIRST_PARAM_NAME_START_PATTERN :: "string list" where
  "FIRST_PARAM_NAME_START_PATTERN = map with_quotes [''QargumentsQ:{'', ''AargumentsA:{A'']"
definition PARAMETER_NAME_END_TOKENS :: "string list" where
  "PARAMETER_NAME_END_TOKENS = map with_quotes [''Q:'', '':Q'', ''A:'', '':A'', ''Q:Q'', ''A:A'']"
definition PARAMETER_NAME_START_PATTERN :: "string list" where
  "PARAMETER_NAME_START_PATTERN = map with_quotes [''Q,Q'', ''A,A'']"
definition PARAMETER_VALUE_START_PATTERN :: "string list" where
  "PARAMETER_VALUE_START_PATTERN = map with_quotes [''Q:'', ''A:'']"
definition PARAMETER_VALUE_END_TOKEN :: "string list" where
  "PARAMETER_VALUE_END_TOKEN = map with_quotes [''Q,'', ''Q}'']"

definition ends_with_any :: "string \<Rightarrow> string list \<Rightarrow> bool" where
  "ends_with_any s ps \<longleftrightarrow> list_ex (ends_with s) ps"

definition reset_parameters :: "hallucination_state \<Rightarrow> hallucination_state" where
  "reset_parameters h = h\<lparr>hs_state := None, hs_parameter_name_done := False, hs_hallucination := False,
     hs_error_message := [], hs_open_bracket := False, hs_bracket := None, hs_check_parameter_name := []\<rparr>"

definition check_logprob :: "float_ops \<Rightarrow> hallucination_state \<Rightarrow> hallucination_state" where
  "check_logprob F h =
     (if hs_logprobs h = [] \<or> hs_tokens h = [] then h
      else
        (let metrics = calculate_uncertainty F (last (hs_logprobs h));
             token = last (hs_tokens h);
             h = h\<lparr>hs_token_probs_map := hs_token_probs_map h @ [(token, metrics)]\<rparr>
         in if check_threshold (um_entropy metrics) (um_varentropy metrics) (hs_thresholds h)
            then h\<lparr>hs_hallucination := True,
                   hs_error_message := ''token '' @ [CHR 0x27] @ token @ [CHR 0x27]
                     @ '' is uncertain. Generated response:'' @ NL @ concat (hs_tokens h)\<rparr>
            else h))"

definition count_consecutive_token :: "mask_token list \<Rightarrow> mask_token \<Rightarrow> nat" where
  "count_consecutive_token marks t = length (takeWhile (\<lambda>x. x = t) (rev marks))"

text \<open>
  The tokens that were marked, without the last one. The bounds of the slice are in order and within
  the list whatever the marks are.
\<close>

definition marked_text :: "hallucination_state \<Rightarrow> nat \<Rightarrow> string" where
  "marked_text h len =
     (let start_idx = length (hs_tokens h) - (len + 1); end_idx = length (hs_tokens h) - 1
      in concat (drop start_idx (take end_idx (hs_tokens h))))"

definition get_parameter_name :: "hallucination_state \<Rightarrow> hallucination_state" where
  "get_parameter_name h =
     (let p_len = count_consecutive_token (hs_mask h) MT_ParameterName
      in if 0 < p_len \<and> 1 < length (hs_tokens h)
         then h\<lparr>hs_parameter_name := hs_parameter_name h @ [marked_text h p_len]\<rparr> else h)"

definition get_function_name :: "hallucination_state \<Rightarrow> hallucination_state" where
  "get_function_name h =
     (let f_len = count_consecutive_token (hs_mask h) MT_FunctionName
      in if 0 < f_len \<and> 1 < length (hs_tokens h) then h\<lparr>hs_function_name := marked_text h f_len\<rparr> else h)"

definition push_mask :: "mask_token \<Rightarrow> hallucination_state \<Rightarrow> hallucination_state" where
  "push_mask t h = h\<lparr>hs_mask := hs_mask h @ [t]\<rparr>"

subsection \<open>One token\<close>

definition function_name_step :: "string \<Rightarrow> hallucination_state \<Rightarrow> hallucination_state" where
  "function_name_step content h =
     (let h = (if hs_state h = Some ''function_name'' then
                 (if \<not> (hs_tokens h \<noteq> [] \<and> last (hs_tokens h) \<in> set FUNC_NAME_END_TOKEN)
                  then push_mask MT_FunctionName h
                  else get_function_name (h\<lparr>hs_state := None\<rparr>))
               else h)
      in if ends_with_any content FUNC_NAME_START_PATTERN then h\<lparr>hs_state := Some ''function_name''\<rparr> else h)"

definition parameter_name_step :: "string \<Rightarrow> hallucination_state \<Rightarrow> hallucination_state" where
  "parameter_name_step content h =
     (let h = (if hs_state h = Some ''parameter_name'' then
                 (if \<not> ends_with_any content PARAMETER_NAME_END_TOKENS then push_mask MT_ParameterName h
                  else get_parameter_name (h\<lparr>hs_state := None, hs_parameter_name_done := True\<rparr>))
               else if hs_parameter_name_done h \<and> \<not> hs_open_bracket h
                    \<and> ends_with_any content PARAMETER_NAME_START_PATTERN
                    then h\<lparr>hs_state := Some ''parameter_name''\<rparr>
                    else h)
      in if ends_with_any content FIRST_PARAM_NAME_START_PATTERN then h\<lparr>hs_state := Some ''parameter_name''\<rparr> else h)"

definition open_brackets :: "string \<Rightarrow> string" where
  "open_brackets s = filter (\<lambda>c. c = CHR ''('' \<or> c = CHR ''{'' \<or> c = CHR ''['') s"

definition closing_bracket :: "char option \<Rightarrow> char" where
  "closing_bracket b =
     (if b = Some CHR ''('' then CHR '')'' else if b = Some CHR ''{'' then CHR ''}''
      else if b = Some CHR ''['' then CHR '']'' else CHR 0x00)"

text \<open>The trimmed token opens or closes the bracket that is followed.\<close>

definition bracket_step :: "string \<Rightarrow> hallucination_state \<Rightarrow> hallucination_state" where
  "bracket_step token h =
     (let h = (if open_brackets token \<noteq> [] then h\<lparr>hs_open_bracket := True, hs_bracket := Some (hd (open_brackets token))\<rparr>
               else h)
      in if hs_open_bracket h \<and> contains_char token (closing_bracket (hs_bracket h))
         then h\<lparr>hs_open_bracket := False, hs_bracket := None\<rparr> else h)"

definition is_ascii_punctuation :: "char \<Rightarrow> bool" where
  "is_ascii_punctuation c \<longleftrightarrow>
     (let n = byte c in 33 \<le> n \<and> n \<le> 47 \<or> 58 \<le> n \<and> n \<le> 64 \<or> 91 \<le> n \<and> n \<le> 96 \<or> 123 \<le> n \<and> n \<le> 126)"

definition value_check :: "float_ops \<Rightarrow> hallucination_state \<Rightarrow> hallucination_state" where
  "value_check F h =
     (case map_of (hs_function_properties h) (hs_function_name h) of
        Some props \<Rightarrow>
          (if 1 < length (hs_mask h) \<and> hs_mask h ! (length (hs_mask h) - 2) \<noteq> MT_ParameterValue
              \<and> hs_parameter_name h \<noteq> [] then
             (let p = last (hs_parameter_name h)
              in if is_parameter_required props p \<and> \<not> is_parameter_property props p ''enum''
                    \<and> map_of (hs_check_parameter_name h) p = None
                 then (let h = check_logprob F h
                       in h\<lparr>hs_check_parameter_name := AList.update p True (hs_check_parameter_name h)\<rparr>)
                 else h)
           else h)
      | None \<Rightarrow>
          (if hs_function_name h \<noteq> [] then
             (let h = check_logprob F h
              in h\<lparr>hs_error_message := ''Function name '' @ hs_function_name h
                     @ '' not found in function properties''\<rparr>)
           else h))"

definition value_token_step :: "float_ops \<Rightarrow> hallucination_state \<Rightarrow> hallucination_state" where
  "value_token_step F h =
     (if hs_tokens h = [] then h
      else
        (let token = trim (last (hs_tokens h)); h = bracket_step token h
         in if list_ex (\<lambda>c. \<not> is_ascii_punctuation c) token \<and> token \<noteq> []
            then value_check F (push_mask MT_ParameterValue h)
            else push_mask MT_NotUsed h))"

definition parameter_value_step :: "float_ops \<Rightarrow> string \<Rightarrow> hallucination_state \<Rightarrow> hallucination_state" where
  "parameter_value_step F content h =
     (if hs_state h = Some ''parameter_value'' \<and> \<not> ends_with_any content PARAMETER_VALUE_END_TOKEN
      then value_token_step F h
      else if hs_state h = Some ''parameter_value'' \<and> \<not> hs_open_bracket h
              \<and> ends_with_any content PARAMETER_VALUE_END_TOKEN
           then h\<lparr>hs_state := None\<rparr>
      else if hs_parameter_name_done h \<and> ends_with_any content PARAMETER_VALUE_START_PATTERN
           then h\<lparr>hs_state := Some ''parameter_value''\<rparr>
      else h)"

definition process_token :: "float_ops \<Rightarrow> hallucination_state \<Rightarrow> hallucination_state" where
  "process_token F h =
     (let content = replace_str '' '' [] (concat (hs_tokens h));
          h = (if ends_with content END_TOOL_CALL_TOKEN then reset_parameters h else h);
          h = parameter_value_step F content (parameter_name_step content (function_name_step content h))
      in if length (hs_mask h) \<noteq> length (hs_tokens h) then push_mask MT_NotUsed h else h)"

definition append_and_check_token_hallucination ::
    "float_ops \<Rightarrow> string \<Rightarrow> f64 list \<Rightarrow> hallucination_state \<Rightarrow> bool \<times> hallucination_state" where
  "append_and_check_token_hallucination F token logprob h =
     (let h = process_token F (h\<lparr>hs_tokens := hs_tokens h @ [token], hs_logprobs := hs_logprobs h @ [logprob]\<rparr>)
      in (hs_hallucination h, h))"

subsection \<open>The marks stay in step with the tokens\<close>

lemma step_tokens [simp]:
  "hs_tokens (reset_parameters h) = hs_tokens h" "hs_tokens (check_logprob F h) = hs_tokens h"
  "hs_tokens (get_parameter_name h) = hs_tokens h" "hs_tokens (get_function_name h) = hs_tokens h"
  "hs_tokens (push_mask t h) = hs_tokens h" "hs_tokens (bracket_step b h) = hs_tokens h"
  "hs_tokens (value_check F h) = hs_tokens h" "hs_tokens (function_name_step c h) = hs_tokens h"
  "hs_tokens (parameter_name_step c h) = hs_tokens h"
  by (simp_all add: reset_parameters_def check_logprob_def get_parameter_name_def get_function_name_def push_mask_def
      bracket_step_def value_check_def function_name_step_def parameter_name_step_def Let_def split: option.split)

lemma step_logprobs [simp]:
  "hs_logprobs (reset_parameters h) = hs_logprobs h" "hs_logprobs (check_logprob F h) = hs_logprobs h"
  "hs_logprobs (get_parameter_name h) = hs_logprobs h" "hs_logprobs (get_function_name h) = hs_logprobs h"
  "hs_logprobs (push_mask t h) = hs_logprobs h" "hs_logprobs (bracket_step b h) = hs_logprobs h"
  "hs_logprobs (value_check F h) = hs_logprobs h" "hs_logprobs (function_name_step c h) = hs_logprobs h"
  "hs_logprobs (parameter_name_step c h) = hs_logprobs h"
  by (simp_all add: reset_parameters_def check_logprob_def get_parameter_name_def get_function_name_def push_mask_def
      bracket_step_def value_check_def function_name_step_def parameter_name_step_def Let_def split: option.split)

lemma step_mask [simp]:
  "hs_mask (reset_parameters h) = hs_mask h" "hs_mask (check_logprob F h) = hs_mask h"
  "hs_mask (get_parameter_name h) = hs_mask h" "hs_mask (get_function_name h) = hs_mask h"
  "hs_mask (push_mask t h) = hs_mask h @ [t]" "hs_mask (bracket_step b h) = hs_mask h"
  "hs_mask (value_check F h) = hs_mask h"
  by (simp_all add: reset_parameters_def check_logprob_def get_parameter_name_def get_function_name_def push_mask_def
      bracket_step_def value_check_def Let_def split: option.split)

lemma step_state [simp]:
  "hs_state (check_logprob F h) = hs_state h" "hs_state (get_parameter_name h) = hs_state h"
  "hs_state (get_function_name h) = hs_state h" "hs_state (push_mask t h) = hs_state h"
  by (simp_all add: check_logprob_def get_parameter_name_def get_function_name_def push_mask_def Let_def)

text \<open>At most one mark is added, and then the state names what was marked.\<close>

lemma function_name_step_mask:
  "hs_mask (function_name_step c h) = hs_mask h \<or>
   (\<exists>t. hs_mask (function_name_step c h) = hs_mask h @ [t] \<and> hs_state (function_name_step c h) = Some ''function_name'')"
  by (simp add: function_name_step_def Let_def)

lemma parameter_name_step_mask:
  "hs_mask (parameter_name_step c h) = hs_mask h \<or>
   (\<exists>t. hs_mask (parameter_name_step c h) = hs_mask h @ [t] \<and> hs_state h = Some ''parameter_name'' \<and>
      hs_state (parameter_name_step c h) = Some ''parameter_name'')"
  by (simp add: parameter_name_step_def Let_def)

lemma parameter_name_step_state:
  "hs_state h \<noteq> Some ''parameter_value'' \<Longrightarrow> hs_state (parameter_name_step c h) \<noteq> Some ''parameter_value''"
  by (simp add: parameter_name_step_def Let_def)

lemma parameter_value_step_tokens [simp]:
  "hs_tokens (parameter_value_step F c h) = hs_tokens h" "hs_logprobs (parameter_value_step F c h) = hs_logprobs h"
  by (simp_all add: parameter_value_step_def value_token_step_def Let_def)

lemma parameter_value_step_mask:
  "hs_mask (parameter_value_step F c h) = hs_mask h \<or>
   (\<exists>t. hs_mask (parameter_value_step F c h) = hs_mask h @ [t] \<and> hs_state h = Some ''parameter_value'')"
  by (simp add: parameter_value_step_def value_token_step_def Let_def)

lemma steps_mask:
  "length (hs_mask (parameter_value_step F c (parameter_name_step c (function_name_step c h)))) \<le> Suc (length (hs_mask h))"
proof -
  let ?f = "function_name_step c h"
  let ?p = "parameter_name_step c ?f"
  consider "hs_mask ?f = hs_mask h" | t where "hs_mask ?f = hs_mask h @ [t]" "hs_state ?f = Some ''function_name''"
    using function_name_step_mask by blast
  then show ?thesis
  proof cases
    case 1
    consider "hs_mask ?p = hs_mask ?f"
      | t where "hs_mask ?p = hs_mask ?f @ [t]" "hs_state ?p = Some ''parameter_name''"
      using parameter_name_step_mask by blast
    then show ?thesis using 1 parameter_value_step_mask [of F c ?p] by cases auto
  next
    case 2
    then have "hs_mask ?p = hs_mask ?f" using parameter_name_step_mask [of c ?f] by auto
    moreover have "hs_state ?p \<noteq> Some ''parameter_value''" using 2(2) by (intro parameter_name_step_state) simp
    ultimately show ?thesis using 2 parameter_value_step_mask [of F c ?p] by auto
  qed
qed

lemma steps_mask_ge:
  "length (hs_mask h) \<le> length (hs_mask (parameter_value_step F c (parameter_name_step c (function_name_step c h))))"
  using function_name_step_mask [of c h] parameter_name_step_mask [of c "function_name_step c h"]
    parameter_value_step_mask [of F c "parameter_name_step c (function_name_step c h)"] by auto

definition in_step :: "hallucination_state \<Rightarrow> bool" where
  "in_step h \<longleftrightarrow> length (hs_mask h) = length (hs_tokens h) \<and> length (hs_logprobs h) = length (hs_tokens h)"

lemma append_in_step:
  assumes "in_step h"
  shows "in_step (snd (append_and_check_token_hallucination F token lp h))"
proof -
  let ?h = "h\<lparr>hs_tokens := hs_tokens h @ [token], hs_logprobs := hs_logprobs h @ [lp]\<rparr>"
  let ?c = "replace_str '' '' [] (concat (hs_tokens ?h))"
  let ?r = "if ends_with ?c END_TOOL_CALL_TOKEN then reset_parameters ?h else ?h"
  let ?s = "parameter_value_step F ?c (parameter_name_step ?c (function_name_step ?c ?r))"
  have r: "hs_mask ?r = hs_mask h" "hs_tokens ?r = hs_tokens h @ [token]" "hs_logprobs ?r = hs_logprobs h @ [lp]" by simp_all
  have "length (hs_mask ?s) = length (hs_mask h) \<or> length (hs_mask ?s) = Suc (length (hs_mask h))"
    using steps_mask [of F ?c ?r] steps_mask_ge [of ?r F ?c] r(1) by auto
  moreover have "hs_tokens ?s = hs_tokens h @ [token]" "hs_logprobs ?s = hs_logprobs h @ [lp]" using r by simp_all
  moreover have "snd (append_and_check_token_hallucination F token lp h) =
      (if length (hs_mask ?s) \<noteq> length (hs_tokens ?s) then push_mask MT_NotUsed ?s else ?s)"
    by (simp add: append_and_check_token_hallucination_def process_token_def Let_def)
  ultimately show ?thesis using assms by (auto simp: in_step_def)
qed

definition feed :: "float_ops \<Rightarrow> (string \<times> f64 list) list \<Rightarrow> hallucination_state \<Rightarrow> hallucination_state" where
  "feed F ts h = foldl (\<lambda>h (token, lp). snd (append_and_check_token_hallucination F token lp h)) h ts"

text \<open>
  Over any stream of tokens there is exactly one mark and one list of probabilities for every token, so
  the names that are read off the marks are those of the right tokens.
\<close>

theorem marks_in_step:
  "in_step (feed F ts (hallucination_state_new tools))"
proof -
  have "in_step h \<Longrightarrow> in_step (feed F ts h)" for h
    by (induction ts arbitrary: h) (auto simp: feed_def append_in_step)
  then show ?thesis by (simp add: in_step_def hallucination_state_new_def)
qed

subsection \<open>What is reported\<close>

definition reported_metrics :: "float_ops \<Rightarrow> hallucination_state \<Rightarrow> uncertainty_metrics" where
  "reported_metrics F h = calculate_uncertainty F (last (hs_logprobs h))"

text \<open>The value whose first token is checked: the parameter is required and not an enumeration.\<close>

definition checked_value :: "hallucination_state \<Rightarrow> bool" where
  "checked_value h \<longleftrightarrow>
     (case map_of (hs_function_properties h) (hs_function_name h) of
        Some props \<Rightarrow> hs_parameter_name h \<noteq> [] \<and> is_parameter_required props (last (hs_parameter_name h)) \<and>
          \<not> is_parameter_property props (last (hs_parameter_name h)) ''enum''
      | None \<Rightarrow> hs_function_name h \<noteq> [])"

lemma check_logprob_sel [simp]:
  "hs_function_properties (check_logprob F h) = hs_function_properties h"
  "hs_function_name (check_logprob F h) = hs_function_name h"
  "hs_parameter_name (check_logprob F h) = hs_parameter_name h"
  "hs_thresholds (check_logprob F h) = hs_thresholds h"
  "hs_check_parameter_name (check_logprob F h) = hs_check_parameter_name h"
  by (simp_all add: check_logprob_def Let_def)

lemma check_logprob_flags:
  "hs_hallucination (check_logprob F h) \<Longrightarrow> \<not> hs_hallucination h \<Longrightarrow>
   check_threshold (um_entropy (reported_metrics F h)) (um_varentropy (reported_metrics F h)) (hs_thresholds h)"
  by (simp add: check_logprob_def reported_metrics_def Let_def split: if_splits)

lemma value_check_sel [simp]:
  "hs_function_properties (value_check F h) = hs_function_properties h"
  "hs_function_name (value_check F h) = hs_function_name h"
  "hs_parameter_name (value_check F h) = hs_parameter_name h"
  "hs_thresholds (value_check F h) = hs_thresholds h"
  by (simp_all add: value_check_def Let_def split: option.split)

lemma value_check_flags:
  "hs_hallucination (value_check F h) \<Longrightarrow> \<not> hs_hallucination h \<Longrightarrow>
   checked_value h \<and>
   check_threshold (um_entropy (reported_metrics F h)) (um_varentropy (reported_metrics F h)) (hs_thresholds h) \<and>
   (map_of (hs_function_properties h) (hs_function_name h) \<noteq> None \<longrightarrow>
      1 < length (hs_mask h) \<and> hs_mask h ! (length (hs_mask h) - 2) \<noteq> MT_ParameterValue \<and>
      map_of (hs_check_parameter_name h) (last (hs_parameter_name h)) = None)"
  by (auto simp: value_check_def checked_value_def Let_def intro!: check_logprob_flags split: option.splits if_splits)

lemma other_sel [simp]:
  "hs_function_properties (push_mask t h) = hs_function_properties h"
  "hs_function_name (push_mask t h) = hs_function_name h"
  "hs_parameter_name (push_mask t h) = hs_parameter_name h"
  "hs_thresholds (push_mask t h) = hs_thresholds h"
  "hs_check_parameter_name (push_mask t h) = hs_check_parameter_name h"
  "hs_hallucination (push_mask t h) = hs_hallucination h"
  "hs_function_properties (bracket_step b h) = hs_function_properties h"
  "hs_function_name (bracket_step b h) = hs_function_name h"
  "hs_parameter_name (bracket_step b h) = hs_parameter_name h"
  "hs_thresholds (bracket_step b h) = hs_thresholds h"
  "hs_check_parameter_name (bracket_step b h) = hs_check_parameter_name h"
  "hs_hallucination (bracket_step b h) = hs_hallucination h"
  "hs_function_properties (function_name_step c h) = hs_function_properties h"
  "hs_thresholds (function_name_step c h) = hs_thresholds h"
  "hs_check_parameter_name (function_name_step c h) = hs_check_parameter_name h"
  "hs_hallucination (function_name_step c h) = hs_hallucination h"
  "hs_function_properties (parameter_name_step c h) = hs_function_properties h"
  "hs_thresholds (parameter_name_step c h) = hs_thresholds h"
  "hs_check_parameter_name (parameter_name_step c h) = hs_check_parameter_name h"
  "hs_hallucination (parameter_name_step c h) = hs_hallucination h"
  by (simp_all add: push_mask_def bracket_step_def function_name_step_def parameter_name_step_def
      get_function_name_def get_parameter_name_def Let_def)

lemma reported_metrics_cong: "hs_logprobs h = hs_logprobs h' \<Longrightarrow> reported_metrics F h = reported_metrics F h'"
  by (simp add: reported_metrics_def)

lemma checked_value_cong:
  "hs_function_properties h = hs_function_properties h' \<Longrightarrow> hs_function_name h = hs_function_name h' \<Longrightarrow>
   hs_parameter_name h = hs_parameter_name h' \<Longrightarrow> checked_value h = checked_value h'"
  by (simp add: checked_value_def split: option.split)

lemma parameter_value_step_flags:
  assumes "hs_hallucination (parameter_value_step F c h)" "\<not> hs_hallucination h"
  shows "hs_state h = Some ''parameter_value''" "checked_value (parameter_value_step F c h)"
    "check_threshold (um_entropy (reported_metrics F h)) (um_varentropy (reported_metrics F h)) (hs_thresholds h)"
    "hs_mask (parameter_value_step F c h) = hs_mask h @ [MT_ParameterValue]"
    "hs_function_properties (parameter_value_step F c h) = hs_function_properties h"
    "hs_function_name (parameter_value_step F c h) = hs_function_name h"
    "hs_parameter_name (parameter_value_step F c h) = hs_parameter_name h"
    "map_of (hs_function_properties h) (hs_function_name h) \<noteq> None \<Longrightarrow>
       hs_mask h \<noteq> [] \<and> last (hs_mask h) \<noteq> MT_ParameterValue \<and>
       map_of (hs_check_parameter_name h) (last (hs_parameter_name h)) = None"
proof -
  let ?b = "push_mask MT_ParameterValue (bracket_step (trim (last (hs_tokens h))) h)"
  have state: "hs_state h = Some ''parameter_value''" and step: "parameter_value_step F c h = value_check F ?b"
    using assms by (auto simp: parameter_value_step_def value_token_step_def Let_def split: if_splits)
  have "hs_hallucination (value_check F ?b)" "\<not> hs_hallucination ?b" using assms step by simp_all
  note flags = value_check_flags [OF this]
  have "checked_value (value_check F ?b) = checked_value ?b" by (rule checked_value_cong) simp_all
  moreover have "reported_metrics F ?b = reported_metrics F h" by (rule reported_metrics_cong) simp
  ultimately show "hs_state h = Some ''parameter_value''" "checked_value (parameter_value_step F c h)"
    "check_threshold (um_entropy (reported_metrics F h)) (um_varentropy (reported_metrics F h)) (hs_thresholds h)"
    "hs_mask (parameter_value_step F c h) = hs_mask h @ [MT_ParameterValue]"
    "hs_function_properties (parameter_value_step F c h) = hs_function_properties h"
    "hs_function_name (parameter_value_step F c h) = hs_function_name h"
    "hs_parameter_name (parameter_value_step F c h) = hs_parameter_name h"
    using state step flags by simp_all
  assume "map_of (hs_function_properties h) (hs_function_name h) \<noteq> None"
  then have "1 < length (hs_mask ?b)" "hs_mask ?b ! (length (hs_mask ?b) - 2) \<noteq> MT_ParameterValue"
    "map_of (hs_check_parameter_name h) (last (hs_parameter_name h)) = None"
    using flags by simp_all
  then show "hs_mask h \<noteq> [] \<and> last (hs_mask h) \<noteq> MT_ParameterValue \<and>
      map_of (hs_check_parameter_name h) (last (hs_parameter_name h)) = None"
    by (cases "hs_mask h" rule: rev_cases) (simp_all add: nth_append)
qed

text \<open>
  (C28) A hallucination is reported only on a token of a parameter value for which the model was less
  certain than the thresholds allow. If the function is known, it is the first token of the value:
  the token before it is none of a value, its parameter is required and no enumeration, and no value of
  this parameter was checked in the call so far; otherwise the name of the function is unknown.
\<close>

theorem reports_uncertain_values:
  assumes "append_and_check_token_hallucination F token lp h = (True, h')" "\<not> hs_hallucination h" "in_step h"
  shows "check_threshold (um_entropy (calculate_uncertainty F lp)) (um_varentropy (calculate_uncertainty F lp))
      (hs_thresholds h) \<and>
    last (hs_tokens h') = token \<and> hs_mask h' = hs_mask h @ [MT_ParameterValue] \<and>
    (case map_of (hs_function_properties h') (hs_function_name h') of
       None \<Rightarrow> hs_function_name h' \<noteq> []
     | Some props \<Rightarrow> hs_mask h \<noteq> [] \<and> last (hs_mask h) \<noteq> MT_ParameterValue \<and>
         hs_parameter_name h' \<noteq> [] \<and> is_parameter_required props (last (hs_parameter_name h')) \<and>
         \<not> is_parameter_property props (last (hs_parameter_name h')) ''enum'' \<and>
         (ends_with (replace_str '' '' [] (concat (hs_tokens h @ [token]))) END_TOOL_CALL_TOKEN \<or>
          map_of (hs_check_parameter_name h) (last (hs_parameter_name h')) = None))"
proof -
  let ?h = "h\<lparr>hs_tokens := hs_tokens h @ [token], hs_logprobs := hs_logprobs h @ [lp]\<rparr>"
  let ?c = "replace_str '' '' [] (concat (hs_tokens h @ [token]))"
  let ?r = "if ends_with ?c END_TOOL_CALL_TOKEN then reset_parameters ?h else ?h"
  let ?f = "function_name_step ?c ?r"
  let ?p = "parameter_name_step ?c ?f"
  let ?s = "parameter_value_step F ?c ?p"
  have h': "h' = (if length (hs_mask ?s) \<noteq> length (hs_tokens ?s) then push_mask MT_NotUsed ?s else ?s)" "hs_hallucination h'"
    using assms(1) by (auto simp: append_and_check_token_hallucination_def process_token_def Let_def)
  have r: "\<not> hs_hallucination ?r" "hs_thresholds ?r = hs_thresholds h" "hs_tokens ?r = hs_tokens h @ [token]"
      "hs_logprobs ?r = hs_logprobs h @ [lp]" "hs_mask ?r = hs_mask h"
      "\<not> ends_with ?c END_TOOL_CALL_TOKEN \<longrightarrow> hs_check_parameter_name ?r = hs_check_parameter_name h"
    using assms(2) by (auto simp: reset_parameters_def)
  have "hs_hallucination ?s" "\<not> hs_hallucination ?p" using h' r(1) by (auto split: if_splits)
  note flags = parameter_value_step_flags [OF this]
  have metrics: "reported_metrics F ?p = calculate_uncertainty F lp" "hs_thresholds ?p = hs_thresholds h"
    "hs_tokens ?s = hs_tokens h @ [token]" "hs_check_parameter_name ?p = hs_check_parameter_name ?r"
    using r by (simp_all add: reported_metrics_def)
  have "length (hs_mask ?s) \<le> Suc (length (hs_mask h))" using steps_mask [of F ?c ?r] r(5) by simp
  then have mask: "hs_mask ?p = hs_mask h"
    using flags(4) r(5) function_name_step_mask [of ?c ?r] parameter_name_step_mask [of ?c ?f] by auto
  then have s: "h' = ?s" using flags(4) h'(1) assms(3) metrics(3) by (simp add: in_step_def)
  have "case map_of (hs_function_properties h') (hs_function_name h') of
       None \<Rightarrow> hs_function_name h' \<noteq> []
     | Some props \<Rightarrow> hs_mask h \<noteq> [] \<and> last (hs_mask h) \<noteq> MT_ParameterValue \<and>
         hs_parameter_name h' \<noteq> [] \<and> is_parameter_required props (last (hs_parameter_name h')) \<and>
         \<not> is_parameter_property props (last (hs_parameter_name h')) ''enum'' \<and>
         (ends_with ?c END_TOOL_CALL_TOKEN \<or>
          map_of (hs_check_parameter_name h) (last (hs_parameter_name h')) = None)"
    using flags(2,5-8) mask metrics(4) r(6) unfolding s
    by (auto simp: checked_value_def split: option.splits)
  moreover have "check_threshold (um_entropy (calculate_uncertainty F lp))
      (um_varentropy (calculate_uncertainty F lp)) (hs_thresholds h)"
    using flags(3) unfolding metrics(1,2) .
  moreover have "last (hs_tokens h') = token" unfolding s metrics(3) by simp
  moreover have "hs_mask h' = hs_mask h @ [MT_ParameterValue]" unfolding s flags(4) mask ..
  ultimately show ?thesis by blast
qed

subsection \<open>Concrete streams\<close>

definition city_tool :: tool where
  "city_tool = \<lparr>t_tool_type = ''function'', t_function = \<lparr>fn_name = ''f'', fn_description = None,
     fn_parameters = JObject [(''required'', JArray [JString ''city''])], fn_strict = None\<rparr>\<rparr>"

definition constant_ops :: float_ops where
  "constant_ops = \<lparr>fl_add = (\<lambda>_ _. 0x3FF0000000000000), fl_sub = (\<lambda>_ _. 0x3FF0000000000000), fl_mul = (\<lambda>_ _. 0x3FF0000000000000),
     fl_div = (\<lambda>_ _. 0x3FF0000000000000), fl_exp = (\<lambda>_. 0x3FF0000000000000), fl_ln2 = 0x3FF0000000000000\<rparr>"



lemmas detector = append_and_check_token_hallucination_def process_token_def function_name_step_def
  parameter_name_step_def parameter_value_step_def value_token_step_def value_check_def bracket_step_def open_brackets_def
  push_mask_def get_function_name_def get_parameter_name_def marked_text_def count_consecutive_token_def
  reset_parameters_def ends_with_any_def ends_with_def with_quotes_def END_TOOL_CALL_TOKEN_def
  FUNC_NAME_START_PATTERN_def FUNC_NAME_END_TOKEN_def FIRST_PARAM_NAME_START_PATTERN_def
  PARAMETER_NAME_END_TOKENS_def PARAMETER_NAME_START_PATTERN_def PARAMETER_VALUE_START_PATTERN_def
  PARAMETER_VALUE_END_TOKEN_def trim_def is_ascii_punctuation_def closing_bracket_def contains_char_def
  is_parameter_required_def is_parameter_property_def ws1_def ws2_def ws3_def


definition after_tokens :: "tool list \<Rightarrow> string list \<Rightarrow> f64 list list \<Rightarrow> mask_token list \<Rightarrow> string option \<Rightarrow> string \<Rightarrow> bool \<Rightarrow> string list \<Rightarrow> hallucination_state" where
  "after_tokens tools ts lps marks state fname done params = (hallucination_state_new tools)
     \<lparr>hs_tokens := map with_quotes ts, hs_logprobs := lps, hs_mask := marks, hs_state := state, hs_function_name := fname,
      hs_parameter_name_done := done, hs_parameter_name := params\<rparr>"

lemma state_at_start: "hallucination_state_new tools = after_tokens tools [] [] [] None [] False []"
  by (simp add: after_tokens_def hallucination_state_new_def)

lemma detector_token_1:
  "snd (append_and_check_token_hallucination F (with_quotes ''{QnameQ:Q'') a1
     (after_tokens T [] [] [] None [] False [])) =
   after_tokens T [''{QnameQ:Q''] [a1] [MT_NotUsed] (Some ''function_name'') [] False []"
  by (simp add: after_tokens_def hallucination_state_new_def detector Let_def)

lemma detector_token_2:
  "snd (append_and_check_token_hallucination F (with_quotes ''f'') a2
     (after_tokens T [''{QnameQ:Q''] [a1] [MT_NotUsed] (Some ''function_name'') [] False [])) =
   after_tokens T [''{QnameQ:Q'', ''f''] [a1, a2] [MT_NotUsed, MT_FunctionName] (Some ''function_name'') [] False []"
  by (simp add: after_tokens_def hallucination_state_new_def detector Let_def)

lemma detector_token_3:
  "snd (append_and_check_token_hallucination F (with_quotes ''Q,'') a3
     (after_tokens T [''{QnameQ:Q'', ''f''] [a1, a2] [MT_NotUsed, MT_FunctionName] (Some ''function_name'') [] False [])) =
   after_tokens T [''{QnameQ:Q'', ''f'', ''Q,''] [a1, a2, a3] [MT_NotUsed, MT_FunctionName, MT_NotUsed] None ''f'' False []"
  by (simp add: after_tokens_def hallucination_state_new_def detector Let_def)

lemma detector_token_4:
  "snd (append_and_check_token_hallucination F (with_quotes ''QargumentsQ:{'') a4
     (after_tokens T [''{QnameQ:Q'', ''f'', ''Q,''] [a1, a2, a3] [MT_NotUsed, MT_FunctionName, MT_NotUsed] None ''f'' False [])) =
   after_tokens T [''{QnameQ:Q'', ''f'', ''Q,'', ''QargumentsQ:{''] [a1, a2, a3, a4] [MT_NotUsed, MT_FunctionName, MT_NotUsed, MT_NotUsed] (Some ''parameter_name'') ''f'' False []"
  by (simp add: after_tokens_def hallucination_state_new_def detector Let_def)

lemma detector_token_5:
  "snd (append_and_check_token_hallucination F (with_quotes ''Qcity'') a5
     (after_tokens T [''{QnameQ:Q'', ''f'', ''Q,'', ''QargumentsQ:{''] [a1, a2, a3, a4] [MT_NotUsed, MT_FunctionName, MT_NotUsed, MT_NotUsed] (Some ''parameter_name'') ''f'' False [])) =
   after_tokens T [''{QnameQ:Q'', ''f'', ''Q,'', ''QargumentsQ:{'', ''Qcity''] [a1, a2, a3, a4, a5] [MT_NotUsed, MT_FunctionName, MT_NotUsed, MT_NotUsed, MT_ParameterName] (Some ''parameter_name'') ''f'' False []"
  by (simp add: after_tokens_def hallucination_state_new_def detector Let_def)

lemma detector_token_6:
  "snd (append_and_check_token_hallucination F (with_quotes ''Q: '') a6
     (after_tokens T [''{QnameQ:Q'', ''f'', ''Q,'', ''QargumentsQ:{'', ''Qcity''] [a1, a2, a3, a4, a5] [MT_NotUsed, MT_FunctionName, MT_NotUsed, MT_NotUsed, MT_ParameterName] (Some ''parameter_name'') ''f'' False [])) =
   after_tokens T [''{QnameQ:Q'', ''f'', ''Q,'', ''QargumentsQ:{'', ''Qcity'', ''Q: ''] [a1, a2, a3, a4, a5, a6] [MT_NotUsed, MT_FunctionName, MT_NotUsed, MT_NotUsed, MT_ParameterName, MT_NotUsed] (Some ''parameter_value'') ''f'' True [with_quotes ''Qcity'']"
  by (simp add: after_tokens_def hallucination_state_new_def detector Let_def)

lemma detector_token_7:
  "snd (append_and_check_token_hallucination F (with_quotes ''QParis'') a7
     (after_tokens [city_tool] [''{QnameQ:Q'', ''f'', ''Q,'', ''QargumentsQ:{'', ''Qcity'', ''Q: ''] [a1, a2, a3, a4, a5, a6] [MT_NotUsed, MT_FunctionName, MT_NotUsed, MT_NotUsed, MT_ParameterName, MT_NotUsed] (Some ''parameter_value'') ''f'' True [with_quotes ''Qcity''])) =
   after_tokens [city_tool] [''{QnameQ:Q'', ''f'', ''Q,'', ''QargumentsQ:{'', ''Qcity'', ''Q: '', ''QParis''] [a1, a2, a3, a4, a5, a6, a7] [MT_NotUsed, MT_FunctionName, MT_NotUsed, MT_NotUsed, MT_ParameterName, MT_NotUsed, MT_ParameterValue] (Some ''parameter_value'') ''f'' True [with_quotes ''Qcity'']"
  by (simp add: after_tokens_def hallucination_state_new_def detector Let_def city_tool_def)

text \<open>
  The pattern for the first parameter ends before its opening double quote, so the recorded name of the
  parameter begins with the quote, and is required by no function: however uncertain the model is, the
  value of the first parameter is not checked.
\<close>

theorem first_parameter_unchecked:
  "\<not> hs_hallucination (feed F [(with_quotes ''{QnameQ:Q'', a1), (with_quotes ''f'', a2), (with_quotes ''Q,'', a3),
     (with_quotes ''QargumentsQ:{'', a4), (with_quotes ''Qcity'', a5), (with_quotes ''Q: '', a6), (with_quotes ''QParis'', a7)]
     (hallucination_state_new [city_tool]))"
  unfolding state_at_start feed_def
  by (simp only: foldl.simps case_prod_conv detector_token_1 detector_token_2 detector_token_3 detector_token_4
      detector_token_5 detector_token_6 detector_token_7)
    (simp add: after_tokens_def hallucination_state_new_def)

text \<open>A state in which the name was read without the quote, just before the value.\<close>

definition before_value :: hallucination_state where
  "before_value = (hallucination_state_new [city_tool])\<lparr>hs_tokens := [''x''], hs_logprobs := [[]], hs_mask := [MT_NotUsed],
     hs_state := Some ''parameter_value'', hs_function_name := ''f'', hs_parameter_name := [''city'']\<rparr>"

lemma one_exceeds: "check_threshold 0x3FF0000000000000 0x3FF0000000000000 hallucination_thresholds_default"
  by (simp add: check_threshold_def hallucination_thresholds_default_def f64_gt_def f64_partial_cmp_def f64_is_nan_def
      f64_magnitude_def f64_key_def int_cmp_def)

theorem reports_uncertain_values_witness:
  "\<exists>h'. append_and_check_token_hallucination constant_ops ''Paris'' [1, 1] before_value = (True, h') \<and>
     hs_mask h' = [MT_NotUsed, MT_ParameterValue]"
proof -
  have c: "calculate_uncertainty constant_ops [1, 1] = \<lparr>um_entropy = 0x3FF0000000000000,
      um_varentropy = 0x3FF0000000000000, um_probability = 0x3FF0000000000000\<rparr>"
    by (simp add: calculate_uncertainty_def constant_ops_def Let_def)
  have "fst (append_and_check_token_hallucination constant_ops ''Paris'' [1, 1] before_value)"
    by (simp add: before_value_def hallucination_state_new_def city_tool_def detector Let_def check_logprob_def c one_exceeds)
  then obtain h' where h': "append_and_check_token_hallucination constant_ops ''Paris'' [1, 1] before_value = (True, h')"
    by (metis (full_types) prod.collapse)
  have "\<not> hs_hallucination before_value" "in_step before_value"
    by (simp_all add: before_value_def in_step_def hallucination_state_new_def)
  from reports_uncertain_values [OF h' this] have "hs_mask h' = [MT_NotUsed, MT_ParameterValue]"
    by (simp add: before_value_def)
  then show ?thesis using h' by blast
qed

end
