(* ===== verification/Function_Chat.thy ===== *)
theory Function_Chat
  imports Function_Messages Hallucination Orchestrator_Service Brightstaff_Request
begin

section \<open>Function calling: the conversation with the model\<close>

text \<open>
  \<open>function_calling_chat\<close> and the HTTP handler of \<open>handlers/function_calling.rs\<close>: the streamed
  answer, the second question after an uncertain token, the verification and the response. HTTP,
  serde, floats, the clock, UUIDs and random numbers are parameters (record \<open>function_env\<close>).
\<close>

subsection \<open>Requests to the model\<close>

text \<open>
  What the server answers to a request for a stream: status, its text unless it cannot be read, and
  the data of the events, or the error of one.
\<close>

record stream_answer =
  sa_status :: nat
  sa_text :: "string option"
  sa_events :: "(string + string) list"

record function_env =
  fe_verify :: verify_env
  fe_floats :: float_ops
  fe_as_f64 :: "json \<Rightarrow> f64 option"
  fe_random :: "nat \<Rightarrow> u32"
  fe_uuid :: string
  fe_now :: u64
  fe_status_text :: "nat \<Rightarrow> string"
  fe_ser_request :: "chat_request \<Rightarrow> string + string"
  fe_post_stream :: "string \<Rightarrow> string + stream_answer"
  fe_post :: "string \<Rightarrow> string + nat \<times> (string + string)"
  fe_parse_completion :: "string \<Rightarrow> string + chat_response"
  fe_parse_request :: "json \<Rightarrow> string + chat_request"
  fe_ser_response :: "chat_response \<Rightarrow> string + string"

abbreviation fe_codec :: "function_env \<Rightarrow> json_codec" where
  "fe_codec E \<equiv> ve_codec (fe_verify E)"

definition http_error_text :: "function_env \<Rightarrow> nat \<Rightarrow> string option \<Rightarrow> function_calling_error" where
  "http_error_text E status body =
     FE_InvalidModelResponse (''HTTP error '' @ fe_status_text E status @ '': ''
       @ (case body of Some t \<Rightarrow> t | None \<Rightarrow> ''Unknown error''))"

text \<open>The events of the stream as JSON; the end marker is skipped.\<close>

fun parsed_events :: "json_codec \<Rightarrow> (string + string) list \<Rightarrow> (string + json) list" where
  "parsed_events c [] = []"
| "parsed_events c (Inl e # es) = Inl (''SSE stream error: '' @ e) # parsed_events c es"
| "parsed_events c (Inr d # es) =
     (if d = ''[DONE]'' then parsed_events c es
      else map_sum (\<lambda>e. ''JSON parse error: '' @ e) id (json_parse c d) # parsed_events c es)"

definition make_streaming_request ::
    "function_env \<Rightarrow> chat_request \<Rightarrow> function_calling_error + (string + json) list" where
  "make_streaming_request E r =
     (case fe_ser_request E r of
        Inl e \<Rightarrow> Inl (FE_InvalidModelResponse (''Failed to serialize request: '' @ e))
      | Inr body \<Rightarrow>
          (case fe_post_stream E body of
             Inl e \<Rightarrow> Inl (FE_Http e)
           | Inr a \<Rightarrow>
               (if \<not> is_success (sa_status a) then Inl (http_error_text E (sa_status a) (sa_text a))
                else Inr (parsed_events (fe_codec E) (sa_events a)))))"

definition make_non_streaming_request ::
    "function_env \<Rightarrow> chat_request \<Rightarrow> function_calling_error + chat_response" where
  "make_non_streaming_request E r =
     (case fe_ser_request E r of
        Inl e \<Rightarrow> Inl (FE_InvalidModelResponse (''Failed to serialize request: '' @ e))
      | Inr body \<Rightarrow>
          (case fe_post E body of
             Inl e \<Rightarrow> Inl (FE_Http e)
           | Inr (status, text) \<Rightarrow>
               (if \<not> is_success status
                then Inl (http_error_text E status (case text of Inr t \<Rightarrow> Some t | Inl _ \<Rightarrow> None))
                else (case text of
                        Inl e \<Rightarrow> Inl (FE_Http e)
                      | Inr t \<Rightarrow> map_sum FE_JsonParse id (fe_parse_completion E t)))))"

subsection \<open>The streamed answer\<close>

definition answer_choice :: "json \<Rightarrow> json option" where
  "answer_choice chunk =
     (case Option.bind (json_get chunk ''choices'') as_array of Some (ch # _) \<Rightarrow> Some ch | _ \<Rightarrow> None)"

definition chunk_content :: "json \<Rightarrow> string option" where
  "chunk_content chunk =
     Option.bind (Option.bind (Option.bind (answer_choice chunk) (\<lambda>ch. json_get ch ''delta''))
       (\<lambda>d. json_get d ''content'')) as_str"

definition chunk_logprobs :: "function_env \<Rightarrow> json \<Rightarrow> f64 list" where
  "chunk_logprobs E chunk =
     (case Option.bind (Option.bind (Option.bind (answer_choice chunk) (\<lambda>ch. json_get ch ''logprobs''))
         (\<lambda>lp. json_get lp ''content'')) as_array of
        Some (token # _) \<Rightarrow>
          (case Option.bind (json_get token ''top_logprobs'') as_array of
             Some vs \<Rightarrow> List.map_filter (\<lambda>v. Option.bind (json_get v ''logprob'') (fe_as_f64 E)) vs
           | None \<Rightarrow> [])
      | _ \<Rightarrow> [])"

text \<open>The text of all chunks; the first error of the stream ends it.\<close>

fun collect_content :: "string \<Rightarrow> (string + json) list \<Rightarrow> function_calling_error + string" where
  "collect_content acc [] = Inr acc"
| "collect_content acc (Inl e # cs) = Inl (FE_InvalidModelResponse e)"
| "collect_content acc (Inr chunk # cs) =
     collect_content (case chunk_content chunk of Some t \<Rightarrow> acc @ t | None \<Rightarrow> acc) cs"

text \<open>
  The loop with the detector. It ends at a hallucination; from the sixth token on it is known
  whether the answer is about tool calls.
\<close>

fun detector_loop ::
    "function_env \<Rightarrow> hallucination_state \<Rightarrow> bool option \<Rightarrow> (string + json) list \<Rightarrow>
     function_calling_error + hallucination_state \<times> bool option \<times> bool" where
  "detector_loop E h has_tool_calls [] = Inr (h, has_tool_calls, False)"
| "detector_loop E h has_tool_calls (Inl e # cs) = Inl (FE_InvalidModelResponse e)"
| "detector_loop E h has_tool_calls (Inr chunk # cs) =
     (case chunk_content chunk of
        None \<Rightarrow> detector_loop E h has_tool_calls cs
      | Some content \<Rightarrow>
          (case append_and_check_token_hallucination (fe_floats E) content (chunk_logprobs E chunk) h of
             (True, h) \<Rightarrow> Inr (h, has_tool_calls, True)
           | (False, h) \<Rightarrow>
               detector_loop E h
                 (if 5 < length (hs_tokens h) \<and> has_tool_calls = None
                  then Some (contains_str (concat (hs_tokens h)) ''tool_calls'') else has_tool_calls) cs))"

definition use_agent_orchestrator :: "chat_request \<Rightarrow> bool" where
  "use_agent_orchestrator r =
     (case Option.bind (Option.bind (cr_metadata r) (\<lambda>m. map_of m ''use_agent_orchestrator'')) as_bool of
        Some b \<Rightarrow> b | None \<Rightarrow> False)"

definition clarified_response ::
    "function_env \<Rightarrow> arch_function_handler \<Rightarrow> message list \<Rightarrow> function_calling_error + string" where
  "clarified_response E h messages =
     (case make_non_streaming_request E
             (create_request_with_extra_body h (prefill_message messages (fh_clarify_prefix h)) False) of
        Inl e \<Rightarrow> Inl e
      | Inr r \<Rightarrow>
          Inr (case cs_choices r of
                 ch # _ \<Rightarrow> (case rm_content (ch_message ch) of Some t \<Rightarrow> t | None \<Rightarrow> [])
               | [] \<Rightarrow> []))"

definition model_response ::
    "function_env \<Rightarrow> arch_function_handler \<Rightarrow> chat_request \<Rightarrow> message list \<Rightarrow> (string + json) list \<Rightarrow>
     function_calling_error + string" where
  "model_response E h request messages stream =
     (if use_agent_orchestrator request then collect_content [] stream
      else case cr_tools request of
             None \<Rightarrow> collect_content [] stream
           | Some tools \<Rightarrow>
               (case detector_loop E (hallucination_state_new tools) None stream of
                  Inl e \<Rightarrow> Inl e
                | Inr (st, has_tool_calls, has_hallucination) \<Rightarrow>
                    (if has_tool_calls = Some True \<and> has_hallucination then clarified_response E h messages
                     else Inr (concat (hs_tokens st)))))"

subsection \<open>The response\<close>

definition assistant_message :: "string \<Rightarrow> tool_call list option \<Rightarrow> response_message" where
  "assistant_message content tool_calls =
     \<lparr>rm_role = R_Assistant, rm_content = Some content, rm_refusal = None, rm_annotations = None,
      rm_audio = None, rm_function_call = None, rm_tool_calls = tool_calls\<rparr>"

definition answer_message ::
    "function_env \<Rightarrow> arch_function_handler \<Rightarrow> chat_request \<Rightarrow> parsed_model_response \<Rightarrow> response_message" where
  "answer_message E h request p =
     (if (case pm_response p of Some t \<Rightarrow> t \<noteq> [] | None \<Rightarrow> False) then assistant_message [] None
      else if pm_required_functions p \<noteq> [] then
        assistant_message (if use_agent_orchestrator request then [] else pm_clarification p) None
      else if pm_tool_calls p \<noteq> [] then
        (if pm_is_valid p then
           (if \<not> use_agent_orchestrator request then
              (case cr_tools request of
                 Some tools \<Rightarrow>
                   (if tv_is_valid (verify_tool_calls (fe_verify E) (fcc_support_data_types (fh_config h)) tools (pm_tool_calls p))
                    then assistant_message [] (Some (pm_tool_calls p)) else assistant_message [] None)
               | None \<Rightarrow> assistant_message [] None)
            else assistant_message [] (Some (pm_tool_calls p)))
         else assistant_message [] None)
      else assistant_message [] None)"

definition function_calling_response ::
    "function_env \<Rightarrow> arch_function_handler \<Rightarrow> chat_request \<Rightarrow> parsed_model_response \<Rightarrow> chat_response" where
  "function_calling_response E h request p =
     \<lparr>cs_id = ''chatcmpl-'' @ fe_uuid E, cs_object = Some ''chat.completion'', cs_created = fe_now E,
      cs_model = cr_model request,
      cs_choices = [\<lparr>ch_index = 0, ch_message = answer_message E h request p, ch_finish_reason = Some FR_Stop,
                     ch_logprobs = None\<rparr>],
      cs_usage = \<lparr>prompt_tokens = 0, completion_tokens = 0, total_tokens = 0, u_prompt_tokens_details = None,
                  u_completion_tokens_details = None\<rparr>,
      cs_system_fingerprint = None, cs_service_tier = None,
      cs_metadata = Some [(''x-arch-fc-model-response'', JString (pm_raw_response p))]\<rparr>"

definition function_calling_chat ::
    "function_env \<Rightarrow> arch_function_handler \<Rightarrow> chat_request \<Rightarrow> function_calling_error + chat_response" where
  "function_calling_chat E h request =
     (case process_messages (fe_codec E) (fh_config h) (cr_messages request) (cr_tools request) None
             (unat (gp_max_tokens (fcc_generation_params (fh_config h)))) (cr_metadata request) of
        Inl e \<Rightarrow> Inl e
      | Inr messages \<Rightarrow>
          (case make_streaming_request E
                  (create_request_with_extra_body h (prefill_message messages (fh_default_prefix h)) True) of
             Inl e \<Rightarrow> Inl e
           | Inr stream \<Rightarrow>
               map_sum id (\<lambda>t. function_calling_response E h request (parse_model_response (fe_codec E) (fe_random E) t))
                 (model_response E h request messages stream)))"

subsection \<open>The handler\<close>

definition ARCH_FUNCTION_MODEL_NAME :: string where "ARCH_FUNCTION_MODEL_NAME = ''Arch-Function''"

definition error_answer :: "json_codec \<Rightarrow> nat \<Rightarrow> string \<Rightarrow> http_answer" where
  "error_answer c status e = (status, json_print c (JObject [(''error'', JString e)]))"

definition with_model :: "json \<Rightarrow> json" where
  "with_model body =
     (case body of
        JObject m \<Rightarrow> JObject (object_insert ''model'' (JString ARCH_FUNCTION_MODEL_NAME) m)
      | _ \<Rightarrow> body)"

definition function_calling_chat_handler :: "function_env \<Rightarrow> string \<Rightarrow> http_answer" where
  "function_calling_chat_handler E whole_body =
     (let c = fe_codec E
      in case json_parse c whole_body of
           Inl e \<Rightarrow> error_answer c 400 (''Invalid request body: '' @ e)
         | Inr body \<Rightarrow>
             (case fe_parse_request E (with_model body) of
                Inl e \<Rightarrow> error_answer c 400 (''Invalid request body: '' @ e)
              | Inr request \<Rightarrow>
                  (let agent = use_agent_orchestrator request;
                       h = (if agent then arch_agent_handler_new ARCH_FUNCTION_MODEL_NAME
                            else arch_function_handler_new ARCH_FUNCTION_MODEL_NAME arch_function_config_default)
                   in case function_calling_chat E h request of
                        Inl e \<Rightarrow> error_answer c 500 (''['' @ (if agent then ''Arch-Agent'' else ''Arch-Function'')
                           @ ''] - Error in function calling: '' @ function_calling_error_display e)
                      | Inr r \<Rightarrow>
                          (200, case fe_ser_response E r of
                             Inr t \<Rightarrow> t
                           | Inl _ \<Rightarrow> json_print c (JObject [(''error'', JString ''Failed to serialize response'')])))))"

subsection \<open>Properties\<close>

lemma map_sum_Inr_iff: "map_sum f g x = Inr y \<longleftrightarrow> (\<exists>z. x = Inr z \<and> y = g z)"
  by (cases x) auto

lemma assistant_message_calls [simp]: "rm_tool_calls (assistant_message t cs) = cs"
  by (simp add: assistant_message_def)

text \<open>The calls of an answer are verified, unless the request is one of the agent orchestrator.\<close>

lemma answer_message_calls:
  assumes "rm_tool_calls (answer_message E h request p) = Some tcs" "\<And>xs. set (ve_order (fe_verify E) xs) = set xs"
  shows "tcs = pm_tool_calls p \<and> tcs \<noteq> [] \<and>
    (use_agent_orchestrator request \<or>
     (\<exists>tools. cr_tools request = Some tools \<and>
        (\<forall>tc \<in> set tcs. call_ok (fe_verify E) (fcc_support_data_types (fh_config h)) tools tc)))"
  using assms(1) verification_spec(1) [OF assms(2)]
  by (auto simp: answer_message_def split: if_splits option.splits)

text \<open>
  (C19) Whatever the function-calling model streams, the answer has one choice that ends with
  \<open>stop\<close>, and a tool call reaches the client only if it calls a function the request declares, with
  an object of arguments that has every required parameter and no parameter of a wrong type, unless
  the request is in the mode of the agent orchestrator. The client chooses that mode by the metadata
  of its request, and its calls are then returned unverified.
\<close>

theorem only_verified_calls_returned:
  assumes "function_calling_chat E h request = Inr r" "\<And>xs. set (ve_order (fe_verify E) xs) = set xs"
  shows "\<exists>m. cs_choices r = [\<lparr>ch_index = 0, ch_message = m, ch_finish_reason = Some FR_Stop, ch_logprobs = None\<rparr>] \<and>
    (\<forall>tcs. rm_tool_calls m = Some tcs \<longrightarrow> tcs \<noteq> [] \<and>
       (use_agent_orchestrator request \<or>
        (\<exists>tools. cr_tools request = Some tools \<and>
          (\<forall>tc \<in> set tcs. call_ok (fe_verify E) (fcc_support_data_types (fh_config h)) tools tc))))"
proof -
  obtain p where r: "r = function_calling_response E h request p"
    using assms(1) unfolding function_calling_chat_def
    by (force split: sum.splits simp: map_sum_Inr_iff)
  show ?thesis
    using answer_message_calls [of E h request p, OF _ assms(2)]
    by (auto simp: r function_calling_response_def)
qed

text \<open>The text of a stream without errors.\<close>

definition chunk_text :: "string + json \<Rightarrow> string" where
  "chunk_text x = (case x of Inr j \<Rightarrow> (case chunk_content j of Some t \<Rightarrow> t | None \<Rightarrow> []) | Inl _ \<Rightarrow> [])"

definition stream_text :: "(string + json) list \<Rightarrow> string" where
  "stream_text cs = concat (map chunk_text cs)"

lemma collect_content_text:
  "\<forall>x \<in> set cs. \<exists>j. x = Inr j \<Longrightarrow> collect_content acc cs = Inr (acc @ stream_text cs)"
  by (induction cs arbitrary: acc) (auto simp: stream_text_def chunk_text_def split: option.split)

lemma appended_tokens [simp]:
  "hs_tokens (snd (append_and_check_token_hallucination F token lp h)) = hs_tokens h @ [token]"
  by (simp add: append_and_check_token_hallucination_def process_token_def Let_def)

lemma detector_loop_text:
  assumes "\<forall>x \<in> set cs. \<exists>j. x = Inr j"
  shows "\<exists>st has rep. detector_loop E h tc cs = Inr (st, has, rep) \<and>
    (\<not> rep \<longrightarrow> concat (hs_tokens st) = concat (hs_tokens h) @ stream_text cs)"
  using assms
proof (induction cs arbitrary: h tc)
  case (Cons x cs)
  then obtain j where x: "x = Inr j" by auto
  show ?case
  proof (cases "chunk_content j")
    case None
    then show ?thesis using Cons x by (auto simp: stream_text_def chunk_text_def)
  next
    case (Some t)
    obtain b h' where a: "append_and_check_token_hallucination (fe_floats E) t (chunk_logprobs E j) h = (b, h')"
      by (cases "append_and_check_token_hallucination (fe_floats E) t (chunk_logprobs E j) h")
    then have "hs_tokens h' = hs_tokens h @ [t]"
      using appended_tokens [of "fe_floats E" t "chunk_logprobs E j" h] by simp
    then show ?thesis
      using Cons.IH [of h'] Cons.prems x Some a
      by (cases b) (auto simp: stream_text_def chunk_text_def)
  qed
qed (auto simp: stream_text_def)

definition reports_hallucination :: "function_env \<Rightarrow> tool list \<Rightarrow> (string + json) list \<Rightarrow> bool" where
  "reports_hallucination E tools cs \<longleftrightarrow>
     (\<exists>st has. detector_loop E (hallucination_state_new tools) None cs = Inr (st, has, True))"

text \<open>
  (C29) How the answer is cut into chunks does not matter: without a stream error and without a report of the
  detector, the text that is read is the whole of the streamed text.
\<close>

theorem streamed_answer_whole:
  assumes "\<forall>x \<in> set cs. \<exists>j. x = Inr j"
    and "use_agent_orchestrator r \<or> (\<forall>tools. cr_tools r = Some tools \<longrightarrow> \<not> reports_hallucination E tools cs)"
  shows "model_response E h r messages cs = Inr (stream_text cs)"
proof (cases "use_agent_orchestrator r \<or> cr_tools r = None")
  case True
  then show ?thesis using collect_content_text [OF assms(1), of "[]"] by (auto simp: model_response_def)
next
  case False
  then obtain tools where tools: "cr_tools r = Some tools" "\<not> use_agent_orchestrator r" by auto
  obtain st has rep where d: "detector_loop E (hallucination_state_new tools) None cs = Inr (st, has, rep)"
      "\<not> rep \<longrightarrow> concat (hs_tokens st) = concat (hs_tokens (hallucination_state_new tools)) @ stream_text cs"
    using detector_loop_text [OF assms(1)] by blast
  have "\<not> rep" using assms(2) tools d(1) by (auto simp: reports_hallucination_def)
  with d tools show ?thesis by (simp add: model_response_def hallucination_state_new_def)
qed

text \<open>The handler always answers.\<close>

lemma handler_status: "fst (function_calling_chat_handler E body) \<in> {200, 400, 500}"
  by (simp add: function_calling_chat_handler_def error_answer_def Let_def split: sum.split)

text \<open>In the mode of the agent orchestrator the calls are passed on as they are, whatever the tools.\<close>

lemma orchestrator_calls_unverified:
  assumes "use_agent_orchestrator r" "pm_is_valid p" "pm_tool_calls p \<noteq> []" "pm_required_functions p = []"
    and "pm_response p = None"
  shows "rm_tool_calls (answer_message E h r p) = Some (pm_tool_calls p)"
  using assms by (simp add: answer_message_def)

subsection \<open>A concrete exchange\<close>

text \<open>A JSON library that knows three texts.\<close>

definition add_arguments :: json where "add_arguments = JObject [(''x'', JNumber ''5'')]"

definition add_answer :: json where
  "add_answer = JObject [(''tool_calls'', JArray [JObject [(''name'', JString ''add''), (''arguments'', add_arguments)]])]"

definition add_chunk :: json where
  "add_chunk = JObject [(''choices'', JArray [JObject [(''delta'', JObject [(''content'', JString ''answer'')])]])]"

definition three_texts :: json_codec where
  "three_texts = \<lparr>json_print = (\<lambda>j. if j = add_answer then ''answer'' else if j = add_arguments then ''args'' else []),
     json_parse = (\<lambda>s. if s = ''answer'' then Inr add_answer else if s = ''args'' then Inr add_arguments
       else if s = ''chunk'' then Inr add_chunk else Inl ''EOF'')\<rparr>"

definition add_env :: function_env where
  "add_env = \<lparr>fe_verify = \<lparr>ve_codec = three_texts, ve_float_text = (\<lambda>_. ''0.0''), ve_shape_error = (\<lambda>_. ''no map''),
       ve_order = (\<lambda>xs. xs)\<rparr>,
     fe_floats = constant_ops, fe_as_f64 = (\<lambda>_. None), fe_random = (\<lambda>_. 7), fe_uuid = ''u'', fe_now = 0,
     fe_status_text = (\<lambda>_. ''200 OK''), fe_ser_request = (\<lambda>_. Inr []),
     fe_post_stream = (\<lambda>_. Inr \<lparr>sa_status = 200, sa_text = None, sa_events = [Inr ''chunk'', Inr ''[DONE]'']\<rparr>),
     fe_post = (\<lambda>_. Inl ''down''), fe_parse_completion = (\<lambda>_. Inl []), fe_parse_request = (\<lambda>_. Inl []),
     fe_ser_response = (\<lambda>_. Inr [])\<rparr>"

definition add_request :: chat_request where
  "add_request = chat_request_default\<lparr>cr_messages := [text_message R_User ''Hi''], cr_tools := Some [add_tool]\<rparr>"

definition function_handler :: arch_function_handler where
  "function_handler = arch_function_handler_new ''Arch-Function'' arch_function_config_default"

lemma add_stream:
  "make_streaming_request add_env q = Inr [Inr add_chunk]"
  by (simp add: make_streaming_request_def add_env_def is_success_def three_texts_def)

lemma add_text: "chunk_content add_chunk = Some ''answer''"
  by (simp add: chunk_content_def answer_choice_def add_chunk_def)

lemma add_not_reported: "\<not> reports_hallucination add_env tools [Inr add_chunk]"
proof -
  let ?a = "append_and_check_token_hallucination (fe_floats add_env) ''answer'' (chunk_logprobs add_env add_chunk)
    (hallucination_state_new tools)"
  have "\<not> fst ?a" by (simp add: hallucination_state_new_def detector Let_def)
  then obtain h where "?a = (False, h)" by (cases ?a) simp
  then show ?thesis by (simp add: reports_hallucination_def add_text)
qed

theorem streamed_answer_whole_witness:
  "model_response add_env function_handler add_request [] [Inr add_chunk] = Inr ''answer''"
  using streamed_answer_whole [of "[Inr add_chunk]" add_request add_env function_handler "[]"]
  by (simp add: add_not_reported stream_text_def chunk_text_def add_text)

lemma add_parsed:
  "parse_model_response three_texts rnd ''answer'' =
     \<lparr>pm_raw_response = FENCE @ ''json'' @ NL @ ''answer'' @ NL @ FENCE, pm_response = None, pm_required_functions = [],
      pm_clarification = [],
      pm_tool_calls = [\<lparr>tc_id = call_id (rnd 0), tc_call_type = ''function'',
        tc_function = \<lparr>fc_name = ''add'', fc_arguments = ''args''\<rparr>\<rparr>],
      pm_is_valid = True, pm_error_message = []\<rparr>"
proof -
  have t: "trim ''answer'' = ''answer''" by (simp add: trim_def ws1_def ws2_def ws3_def)
  have "fix_json_string three_texts (strip_markdown ''answer'') = Inr ''answer''"
    by (simp add: strip_markdown_def t FENCE_def starts_with_def fix_json_string_def fix_brackets_def is_opening_def
        is_closing_def three_texts_def)
  moreover have "add_arguments \<noteq> add_answer" by (simp add: add_arguments_def add_answer_def)
  ultimately show ?thesis
    by (simp add: parse_model_response_def Let_def three_texts_def tool_call_of_json_def add_answer_def [unfolded add_arguments_def [symmetric]])
qed

theorem only_verified_calls_returned_witness:
  "\<exists>r. function_calling_chat add_env function_handler add_request = Inr r \<and>
     rm_tool_calls (ch_message (hd (cs_choices r))) =
       Some [\<lparr>tc_id = ''call_1007'', tc_call_type = ''function'', tc_function = \<lparr>fc_name = ''add'', fc_arguments = ''args''\<rparr>\<rparr>] \<and>
     call_ok (fe_verify add_env) SUPPORT_DATA_TYPES [add_tool]
       \<lparr>tc_id = ''call_1007'', tc_call_type = ''function'', tc_function = \<lparr>fc_name = ''add'', fc_arguments = ''args''\<rparr>\<rparr>"
proof -
  let ?tc = "\<lparr>tc_id = ''call_1007'', tc_call_type = ''function'', tc_function = \<lparr>fc_name = ''add'', fc_arguments = ''args''\<rparr>\<rparr>"
  have sel: "fe_codec add_env = three_texts" "fe_random add_env = (\<lambda>_. 7)" "set (ve_order (fe_verify add_env) xs) = set xs" for xs
    by (simp_all add: add_env_def)
  have req: "\<not> use_agent_orchestrator add_request" "cr_tools add_request = Some [add_tool]"
      "cr_messages add_request = [text_message R_User ''Hi'']"
    by (simp_all add: use_agent_orchestrator_def add_request_def chat_request_default_def)
  have supported: "fcc_support_data_types (fh_config function_handler) = SUPPORT_DATA_TYPES"
    by (simp add: function_handler_def arch_function_handler_new_def arch_function_config_default_def)
  obtain ms where ms: "process_messages three_texts (fh_config function_handler) [text_message R_User ''Hi''] (Some [add_tool]) None
      (unat (gp_max_tokens (fcc_generation_params (fh_config function_handler)))) (cr_metadata add_request) = Inr ms"
    by (simp add: process_messages_def process_message_def text_message_def Let_def)
  have answer: "model_response add_env function_handler add_request ms [Inr add_chunk] = Inr ''answer''"
  proof -
    have ok: "\<forall>x \<in> set [Inr add_chunk :: string + json]. \<exists>j. x = Inr j" by simp
    obtain st has rep where d: "detector_loop add_env (hallucination_state_new [add_tool]) None [Inr add_chunk] = Inr (st, has, rep)"
        "\<not> rep \<longrightarrow> concat (hs_tokens st) = concat (hs_tokens (hallucination_state_new [add_tool])) @ stream_text [Inr add_chunk]"
      using detector_loop_text [OF ok, of add_env "hallucination_state_new [add_tool]" None] by blast
    then have "\<not> rep" using add_not_reported [of "[add_tool]"] by (auto simp: reports_hallucination_def)
    with d req show ?thesis
      by (simp add: model_response_def hallucination_state_new_def stream_text_def chunk_text_def add_text)
  qed
  have cid: "call_id 7 = ''call_1007''" 
  proof -
    have "char_of (49::nat) = CHR ''1''" "char_of (48::nat) = CHR ''0''" "char_of (55::nat) = CHR ''7''" by code_simp+
    then show ?thesis by (simp add: call_id_def digits.simps)
  qed
  define r where "r = function_calling_response add_env function_handler add_request (parse_model_response three_texts (\<lambda>_. 7) ''answer'')"
  have chat: "function_calling_chat add_env function_handler add_request = Inr r"
    by (simp add: function_calling_chat_def sel req ms add_stream answer r_def)
  have "call_problem (fe_verify add_env) SUPPORT_DATA_TYPES [add_tool] ?tc = None"
  proof -
    have p: "json_parse three_texts ''args'' = Inr add_arguments" by (simp add: three_texts_def)
    have n: "is_i64 (JNumber ''5'')" by (simp add: is_i64_def as_i64_def json_int_def number_int_def is_digit_def decimal_value_def)
    have ordr: "ve_order (fe_verify add_env) xs = xs" for xs by (simp add: add_env_def)
    have "validate_or_convert_parameter V (JNumber ''5'') ''integer'' = Inr True" for V
      by (simp add: validate_or_convert_parameter_def check_value_type_def n)
    then show ?thesis
      by (simp add: call_problem_def sel p Let_def add_arguments_def function_table_def add_tool_def types_problem_def
          required_problem_def parameter_problem_def ordr SUPPORT_DATA_TYPES_def List.map_filter_def)
  qed
  then have "rm_tool_calls (answer_message add_env function_handler add_request (parse_model_response three_texts (\<lambda>_. 7) ''answer'')) = Some [?tc]"
    by (simp add: answer_message_def add_parsed req supported cid)
  then have calls: "rm_tool_calls (ch_message (hd (cs_choices r))) = Some [?tc]"
    by (simp add: r_def function_calling_response_def)
  from only_verified_calls_returned [OF chat sel(3)] req(1) obtain m where
    "cs_choices r = [\<lparr>ch_index = 0, ch_message = m, ch_finish_reason = Some FR_Stop, ch_logprobs = None\<rparr>]"
    "\<forall>tcs. rm_tool_calls m = Some tcs \<longrightarrow> tcs \<noteq> [] \<and> (\<exists>tools. cr_tools add_request = Some tools \<and>
       (\<forall>tc \<in> set tcs. call_ok (fe_verify add_env) (fcc_support_data_types (fh_config function_handler)) tools tc))" by blast
  then have "call_ok (fe_verify add_env) SUPPORT_DATA_TYPES [add_tool] ?tc"
    using calls by (simp add: req supported)
  with chat calls show ?thesis by blast
qed

end
