(* ===== verification/Prompt_Props.thy ===== *)
theory Prompt_Props
  imports Prompt_Gateway Function_Chat
begin

section \<open>Prompt gateway: properties\<close>

text \<open>
  The runs of a request through the prompt gateway, what they end in, and how the gateway and the
  function-calling handler of Brightstaff work together.
\<close>

subsection \<open>Runs\<close>

text \<open>
  A run starts with the body of a request that is held back; then calls are answered. The proxy and
  the clock may behave differently at every event.
\<close>

inductive prompt_run :: "gw_config \<Rightarrow> prompt_context \<Rightarrow> host_action list \<Rightarrow> bool" for C where
  run_start: "pg_request_body E C n True body ctx0 = Some (ctx, acts, A_Pause) \<Longrightarrow> px_callouts ctx0 = [] \<Longrightarrow>
    prompt_run C ctx acts"
| run_answer: "prompt_run C ctx acts \<Longrightarrow> pg_call_response E C token status body ctx = Some (ctx', acts') \<Longrightarrow>
    prompt_run C ctx' (acts @ acts')"

text \<open>The request is answered by the gateway or sent on to the LLM.\<close>

fun settles :: "host_action \<Rightarrow> bool" where
  "settles (HA_Response _ _) = True"
| "settles HA_ResumeRequest = True"
| "settles _ = False"

fun calls_out :: "host_action \<Rightarrow> bool" where
  "calls_out (HA_Call _ _) = True"
| "calls_out _ = False"

text \<open>Settled without a call, or waiting for the one call that was made, whose kind is given.\<close>

definition settled_now :: "prompt_context \<Rightarrow> host_action list \<Rightarrow> bool" where
  "settled_now ctx acts \<longleftrightarrow> px_callouts ctx = [] \<and> length (filter settles acts) = 1 \<and> filter calls_out acts = []"

definition settled_once :: "bool \<Rightarrow> prompt_context \<Rightarrow> host_action list \<Rightarrow> bool" where
  "settled_once first ctx acts \<longleftrightarrow>
     settled_now ctx acts \<or>
     (\<exists>token cc. px_callouts ctx = [(token, cc)] \<and> (sc_handler cc = RH_ArchFC \<longleftrightarrow> first) \<and>
        filter settles acts = [] \<and> length (filter calls_out acts) = 1)"

lemma settled_now_once [simp, intro]: "settled_now ctx acts \<Longrightarrow> settled_once f ctx acts"
  by (simp add: settled_once_def)

lemma settled_error [simp]: "px_callouts ctx = [] \<Longrightarrow> settled_now ctx [send_server_error e s]"
  by (simp add: settled_now_def send_server_error_def)

lemma settled_response [simp]: "px_callouts ctx = [] \<Longrightarrow> settled_now ctx [HA_Response n b]"
  by (simp add: settled_now_def)

lemma settled_resume [simp]: "px_callouts ctx = [] \<Longrightarrow> settled_now ctx (resume_with E ctx' r)"
  by (simp add: settled_now_def resume_with_def)

lemma settled_call:
  assumes "px_callouts ctx = []" "sc_handler cc = RH_ArchFC \<longleftrightarrow> f" "call_or_error E args cc s ctx = (ctx', acts)"
  shows "settled_once f ctx' acts"
proof (cases "ge_dispatch E args")
  case (Inl st)
  then have "ctx' = ctx" "acts = [send_server_error (SE_HttpDispatch \<lparr>ce_upstream_name = ca_upstream args,
      ce_path = ca_path args, ce_internal_status = st\<rparr>) s]"
    using assms(3) by (simp_all add: call_or_error_def http_call_def)
  then show ?thesis using assms(1) by auto
next
  case (Inr token)
  then show ?thesis using assms by (auto simp: call_or_error_def http_call_def settled_once_def)
qed

lemma settled_later_call:
  assumes "call_or_error E args cc s ctx = (ctx', acts)" "px_callouts ctx = []" "sc_handler cc \<noteq> RH_ArchFC"
  shows "settled_once False ctx' acts"
  using assms settled_call by simp

lemma settled_no_intent:
  assumes "no_intent_matched E C cc ctx = Some (ctx', acts)" "px_callouts ctx = []"
  shows "settled_once False ctx' acts"
proof (cases "default_target C")
  case None
  then show ?thesis using assms by (auto simp: no_intent_matched_def split: option.splits)
next
  case (Some t)
  with assms(1) obtain ep where
    "call_or_error E (default_call_args E ctx ep (gq_messages (sc_request_body cc)))
       (cc\<lparr>sc_handler := RH_DefaultTarget, sc_prompt_target_name := Some (pt_name t)\<rparr>) (Some 400) ctx = (ctx', acts)"
    by (auto simp: no_intent_matched_def split: option.splits)
  then show ?thesis by (rule settled_later_call) (simp_all add: assms(2))
qed

lemma settled_clarification:
  assumes "clarification E body m ctx = Some (ctx', acts)" "px_callouts ctx = []"
  shows "settled_once False ctx' acts"
  using assms by (auto simp: clarification_def split: if_splits option.splits)

lemma schedule_api_call_requestE:
  assumes "schedule_api_call_request E C tc cc ctx = Some r"
  obtains target ep computed where "map_of (gc_prompt_targets C) (gf_name (gtc_function tc)) = Some target"
    "pt_endpoint target = Some ep"
    "Some r = Some (case computed of
       Inl e \<Rightarrow> (ctx, [send_server_error (SE_BadRequest (''error computing api request path or body: '' @ e)) (Some 400)])
     | Inr (path, body) \<Rightarrow>
         call_or_error E (api_call_args E ctx ep (case ed_method ep of Some m \<Rightarrow> m | None \<Rightarrow> EM_Get) path body)
           (cc\<lparr>sc_upstream_cluster := Some (ed_name ep), sc_upstream_cluster_path := Some path,
               sc_handler := RH_FunctionCall\<rparr>) (Some 400) ctx)"
proof -
  from assms obtain target ep computed where t: "map_of (gc_prompt_targets C) (gf_name (gtc_function tc)) = Some target"
    "pt_endpoint target = Some ep"
    and r: "Some (case computed of
       Inl e \<Rightarrow> (ctx, [send_server_error (SE_BadRequest (''error computing api request path or body: '' @ e)) (Some 400)])
     | Inr (path, body) \<Rightarrow>
         call_or_error E (api_call_args E ctx ep (case ed_method ep of Some m \<Rightarrow> m | None \<Rightarrow> EM_Get) path body)
           (cc\<lparr>sc_upstream_cluster := Some (ed_name ep), sc_upstream_cluster_path := Some path,
               sc_handler := RH_FunctionCall\<rparr>) (Some 400) ctx) = Some r"
    unfolding schedule_api_call_request_def Let_def bind_eq_Some_conv by blast
  show ?thesis by (rule that [OF t r [symmetric]])
qed

lemma settled_schedule:
  assumes "schedule_api_call_request E C tc cc ctx = Some (ctx', acts)" "px_callouts ctx = []"
  shows "settled_once False ctx' acts"
proof -
  from assms(1) obtain ep computed where
    "Some (ctx', acts) = Some (case computed of
       Inl e \<Rightarrow> (ctx, [send_server_error (SE_BadRequest (''error computing api request path or body: '' @ e)) (Some 400)])
     | Inr (path, body) \<Rightarrow>
         call_or_error E (api_call_args E ctx ep (case ed_method ep of Some m \<Rightarrow> m | None \<Rightarrow> EM_Get) path body)
           (cc\<lparr>sc_upstream_cluster := Some (ed_name ep), sc_upstream_cluster_path := Some path,
               sc_handler := RH_FunctionCall\<rparr>) (Some 400) ctx)"
    by (elim schedule_api_call_requestE)
  note answer = this
  show ?thesis
  proof (cases computed)
    case (Inl e)
    then show ?thesis using answer assms(2) by simp
  next
    case (Inr pb)
    obtain path body where pb: "pb = (path, body)" by (cases pb)
    from answer [symmetric] show ?thesis
      unfolding Inr pb sum.case prod.case option.inject
      by (rule settled_later_call) (simp_all add: assms(2))
  qed
qed

lemma settled_tool_calls:
  assumes "handle_tool_calls E C tc cc ctx = Some (ctx', acts)" "px_callouts ctx = []"
  shows "settled_once False ctx' acts"
  using assms by (auto simp: handle_tool_calls_def Let_def split: if_splits intro: settled_schedule settled_now_once)

lemma settled_arch_fc:
  assumes "arch_fc_response_handler E C body cc ctx = Some (ctx', acts)" "px_callouts ctx = []"
  shows "settled_once False ctx' acts"
proof (cases "read_body E gw_response_of_json body")
  case (Inl e)
  then show ?thesis using assms by (auto simp: arch_fc_response_handler_def split: if_splits)
next
  case (Inr r)
  define ctx1 where "ctx1 = ctx\<lparr>px_arch_fc_response := Option.bind (gres_metadata r) (\<lambda>m. map_of m X_ARCH_FC_MODEL_RESPONSE)\<rparr>"
  have e1: "px_callouts ctx1 = []" using assms(2) by (simp add: ctx1_def)
  show ?thesis
  proof (cases "check_intent_matched r")
    case False
    then show ?thesis using assms(1) Inr e1 settled_no_intent
      by (auto simp: arch_fc_response_handler_def ctx1_def [symmetric] split: if_splits)
  next
    case True
    with assms(1) Inr obtain m where m: "(case gm_tool_calls m of
        Some (tc # _) \<Rightarrow> handle_tool_calls E C tc cc (ctx1\<lparr>px_tool_calls := gm_tool_calls m\<rparr>)
      | _ \<Rightarrow> clarification E body m (ctx1\<lparr>px_tool_calls := gm_tool_calls m\<rparr>)) = Some (ctx', acts)"
      by (auto simp: arch_fc_response_handler_def ctx1_def [symmetric] Let_def bind_eq_Some_conv split: if_splits)
    show ?thesis
      by (rule list.exhaust [of "case gm_tool_calls m of Some cs \<Rightarrow> cs | None \<Rightarrow> []"])
        (use m e1 settled_clarification settled_tool_calls in \<open>auto split: option.splits list.splits\<close>)
  qed
qed

lemma settled_api_call:
  assumes "api_call_response_handler E C status body cc ctx = Some (ctx', acts)" "px_callouts ctx = []"
  shows "settled_now ctx' acts"
  using assms
  by (auto simp: api_call_response_handler_def Let_def bind_eq_Some_conv split: if_splits option.splits)

lemma settled_default:
  assumes "default_target_handler E C body cc ctx = Some (ctx', acts)" "px_callouts ctx = []"
  shows "settled_now ctx' acts"
  using assms
  by (auto simp: default_target_handler_def default_target_answer_def Let_def bind_eq_Some_conv
      split: if_splits option.splits sum.splits)


lemma settled_handler:
  assumes "handle_call_response E C status body cc ctx = Some (ctx', acts)" "px_callouts ctx = []"
  shows "if sc_handler cc = RH_ArchFC then settled_once False ctx' acts else settled_now ctx' acts"
  using assms settled_arch_fc settled_api_call settled_default
  by (auto simp: handle_call_response_def split: response_handler_type.splits)

lemma settled_answer:
  assumes "pg_call_response E C token status body ctx = Some (ctx', acts)" "px_callouts ctx = [(t, cc)]"
  shows "if sc_handler cc = RH_ArchFC then settled_once False ctx' acts else settled_now ctx' acts"
proof -
  let ?ctx = "ctx\<lparr>px_callouts := []\<rparr>"
  have [simp]: "token = t" using assms by (auto simp: pg_call_response_def bind_eq_Some_conv split: if_splits)
  show ?thesis
  proof (cases "status = None \<or> (\<exists>n. status_of (the status) = Some n \<and> status_is_success n)")
    case True
    with assms have "handle_call_response E C status body cc ?ctx = Some (ctx', acts)"
      by (cases status) (auto simp: pg_call_response_def Let_def)
    then show ?thesis using settled_handler by fastforce
  next
    case False
    with assms show ?thesis
      by (auto simp: pg_call_response_def Let_def bind_eq_Some_conv split: option.splits if_splits)
  qed
qed

lemma settled_start:
  assumes "pg_request_body E C n True body ctx = Some (ctx', acts, A_Pause)" "px_callouts ctx = []"
  shows "settled_once True ctx' acts"
proof -
  have ask: "settled_once True c a"
    if "ask_function_model E C r prompt ctx1 = (c, a)" "px_callouts ctx1 = []" for r prompt ctx1 c a
    using that settled_call [of ctx1 _ True] by (force simp: ask_function_model_def split: option.splits)
  show ?thesis
    using assms ask by (auto simp: pg_request_body_def Let_def split: if_splits option.splits sum.splits prod.splits)
qed

text \<open>
  (C20) Every request that the gateway holds back is settled exactly once: at every moment it either waits for
  exactly one call, or it was answered or sent on to the LLM once and waits for nothing. At most two
  calls are made for it.
\<close>

theorem settled_exactly_once:
  assumes "prompt_run C ctx acts"
  shows "length (filter settles acts) + length (px_callouts ctx) = 1 \<and> length (filter calls_out acts) \<le> 2"
proof -
  have "(px_callouts ctx = [] \<and> length (filter settles acts) = 1 \<and> length (filter calls_out acts) \<le> 2) \<or>
    (\<exists>token cc. px_callouts ctx = [(token, cc)] \<and> filter settles acts = [] \<and>
       length (filter calls_out acts) = (if sc_handler cc = RH_ArchFC then 1 else 2))"
    using assms
  proof induction
    case (run_start E n body ctx0 ctx acts)
    then show ?case using settled_start [OF run_start] by (auto simp: settled_once_def settled_now_def)
  next
    case (run_answer ctx acts E token status body ctx' acts')
    then obtain t cc where pending: "px_callouts ctx = [(t, cc)]" "filter settles acts = []"
        "length (filter calls_out acts) = (if sc_handler cc = RH_ArchFC then 1 else 2)"
      by (auto simp: pg_call_response_def)
    with settled_answer [OF run_answer.hyps(2) pending(1)] show ?case
      by (auto simp: settled_once_def settled_now_def split: if_splits)
  qed
  then show ?thesis by auto
qed


subsection \<open>The flags of the gateway\<close>

text \<open>The metadata of a request as Brightstaff reads them: the gateway writes every value as a string.\<close>

definition brightstaff_metadata :: "gw_request \<Rightarrow> (string \<times> json) list option" where
  "brightstaff_metadata r = map_option (map (map_prod id JString)) (gq_metadata r)"

lemma map_of_values: "map_of (map (map_prod id f) m) k = map_option f (map_of m k)"
  by (induction m) auto

lemma fc_metadata_lookup:
  "fc_metadata C m = Some md \<Longrightarrow> override_flag ov_use_agent_orchestrator C \<Longrightarrow>
     map_of md ''use_agent_orchestrator'' = Some ''true''"
  "fc_metadata C m = Some md \<Longrightarrow> override_flag ov_optimize_context_window C \<Longrightarrow>
     map_of md ''optimize_context_window'' = Some ''true''"
  by (auto simp: fc_metadata_def set_metadata_def Let_def update_conv' split: if_splits)

text \<open>
  (C39) Of the two flags that the gateway sends to the function-calling handler, the one for the context window
  arrives, but the one for the agent orchestrator never does: it is sent as a string and read as a
  boolean.
\<close>

theorem orchestrator_flag_never_arrives:
  assumes "cr_metadata req = brightstaff_metadata (fc_request C r)"
  shows "\<not> use_agent_orchestrator req \<and>
    (override_flag ov_optimize_context_window C \<longrightarrow> optimize_context (cr_metadata req))"
proof
  show "\<not> use_agent_orchestrator req"
    using assms by (auto simp: use_agent_orchestrator_def brightstaff_metadata_def map_of_values bind_eq_Some_conv
        split: option.splits)
  show "override_flag ov_optimize_context_window C \<longrightarrow> optimize_context (cr_metadata req)"
  proof
    assume flag: "override_flag ov_optimize_context_window C"
    then obtain md where md: "fc_metadata C (gq_metadata r) = Some md"
      by (cases "override_flag ov_use_agent_orchestrator C") (auto simp: fc_metadata_def set_metadata_def Let_def)
    from fc_metadata_lookup(2) [OF md flag] md show "optimize_context (cr_metadata req)"
      by (simp add: assms brightstaff_metadata_def fc_request_def map_of_values optimize_context_def ascii_lower_def)
  qed
qed

subsection \<open>The state that the client carries\<close>

lemma state_written:
  "map_of (response_metadata c ctx api_message md) X_ARCH_STATE_HEADER =
     Some (JString (arch_state_text c [generate_tool_call_message ctx, api_message]))"
  by (cases "px_arch_fc_response ctx")
    (simp_all add: response_metadata_def Let_def object_insert_def update_conv' X_ARCH_STATE_HEADER_def X_ARCH_FC_MODEL_RESPONSE_def)

text \<open>
  (C38) The state that a response carries cannot be read again: a client that sends it back, as the next
  request of the conversation, makes the filter panic. It is written as an object, but read as a list.
\<close>

theorem returned_state_panics:
  assumes "json_codec_ok (ge_codec E)" "0 < n"
    and "annotated_response (ge_codec E) ctx m = Some (JObject m')"
    and "map_of m' ''metadata'' = Some (JObject md)" "map_of md X_ARCH_STATE_HEADER = Some (JString s)"
    and "read_body E gw_request_of_json bytes = Inr r" "gq_metadata r = Some rmd"
    and "map_of rmd X_ARCH_STATE_HEADER = Some s"
  shows "pg_request_body E C n True (Some bytes) ctx' = None"
proof -
  from assms(3,4) obtain ms md0 where md: "md = response_metadata (ge_codec E) ctx ms md0"
    by (auto simp: annotated_response_def bind_eq_Some_conv object_insert_def update_conv' split: option.splits)
  have "s = arch_state_text (ge_codec E) [generate_tool_call_message ctx, ms]"
    using assms(5) unfolding md by (simp add: state_written)
  then have "read_arch_state (ge_codec E) (gq_metadata r) = None"
    using assms(7,8) by (simp add: read_arch_state_def arch_state_text_def json_codec_okD [OF assms(1)] de_list_def)
  then show ?thesis using assms(2,6) by (simp add: pg_request_body_def Let_def)
qed

text \<open>
  With the agent orchestrator, the JSON response of the agent panics the filter: there is no response of an
  API call to report.
\<close>

lemma orchestrated_response_panics:
  assumes "px_is_chat_completions_request ctx" "\<not> px_streaming_response ctx" "has_tool_calls ctx"
    and "px_tool_call_response ctx = None" "valid_utf8 bytes" "json_parse (ge_codec E) bytes = Inr (JObject m)" "0 < n"
  shows "pg_response_body E n True (Some bytes) ctx = None"
  using assms by (auto simp: pg_response_body_def Let_def annotated_response_def generate_api_response_message_def
      has_tool_calls_def bind_eq_None_conv split: option.splits)

text \<open>A successful answer of an endpoint other than 200, such as 201, is reported as an error of the upstream.\<close>

lemma created_is_an_error:
  assumes "sc_prompt_target_name cc = Some n" "map_of (gc_prompt_targets C) n = Some t" "valid_utf8 body"
    and "sc_upstream_cluster cc = Some h" "sc_upstream_cluster_path cc = Some p"
  shows "api_call_response_handler E C (Some ''201'') body cc ctx =
    Some (ctx, [HA_Response 201 (Some (server_error_display (SE_Upstream h p ''201'' body)))])"
  using assms by (simp add: api_call_response_handler_def Let_def status_of_def is_digit_def decimal_value_def
      send_server_error_def)

text \<open>Tools in the format of OpenAI are refused: \<open>string\<close> is no parameter type when a request is read.\<close>

lemma openai_tools_refused:
  assumes "map_of m ''type'' = Some (JString ''string'')" "(n, JObject m) \<in> set ps"
  shows "function_parameters_of_json (JObject [(''type'', JString ''object''), (''properties'', JObject ps)]) = None"
proof -
  have "function_parameter_of_json (JObject m) = None"
    using assms(1) by (simp add: function_parameter_of_json_def de_default_def parameter_type_of_json_def)
  then have "option_all (map (\<lambda>(k, v). map_option (Pair k) (function_parameter_of_json v)) ps) = None"
    using assms(2) by (induction ps) (auto split: option.split)
  then show ?thesis by (simp add: function_parameters_of_json_def de_field_def de_map_def)
qed


subsection \<open>Verified calls\<close>

text \<open>The tool that Brightstaff sees for a prompt target, and its calls as the gateway reads them.\<close>

definition function_tool :: "(string list \<Rightarrow> string list) \<Rightarrow> prompt_target \<Rightarrow> tool" where
  "function_tool ord t =
     \<lparr>t_tool_type = ''function'', t_function =
       \<lparr>fn_name = pt_name t, fn_description = Some (pt_description t),
        fn_parameters = function_parameters_to_json ord (fd_parameters (cct_function (tool_of_target t))),
        fn_strict = None\<rparr>\<rparr>"

definition gateway_call :: "tool_call \<Rightarrow> gw_tool_call" where
  "gateway_call tc =
     \<lparr>gtc_id = tc_id tc, gtc_tool_type = TT_Function,
      gtc_function = \<lparr>gf_name = fc_name (tc_function tc), gf_arguments = fc_arguments (tc_function tc)\<rparr>\<rparr>"

text \<open>The targets are kept under their names, as \<open>on_configure\<close> does.\<close>

definition targets_ok :: "gw_config \<Rightarrow> bool" where
  "targets_ok C \<longleftrightarrow> distinct (map fst (gc_prompt_targets C)) \<and> (\<forall>(k, t) \<in> set (gc_prompt_targets C). k = pt_name t)"

lemma on_configure_targets_ok:
  assumes "order_ok ord"
  shows "targets_ok (on_configure ord conf)"
proof -
  let ?m = "hash_of (map (\<lambda>t. (pt_name t, t)) (case gwc_prompt_targets conf of Some ts \<Rightarrow> ts | None \<Rightarrow> []))"
  have "pt_name (the (map_of ?m k)) = k" if "k \<in> fst ` set ?m" for k
  proof -
    from that obtain t where "map_of ?m k = Some t" using map_of_eq_None_iff [of ?m k] by auto
    then show ?thesis by (auto simp: map_of_hash_of dest!: map_of_SomeD)
  qed
  then show ?thesis using assms
    by (auto simp: targets_ok_def on_configure_def order_okD hash_entries_def comp_def)
qed

lemma function_table_targets:
  assumes "targets_ok C"
  shows "map_of (function_table (map (function_tool ord) (map snd (gc_prompt_targets C)))) n =
    map_option (\<lambda>t. fn_parameters (t_function (function_tool ord t))) (map_of (gc_prompt_targets C) n)"
proof -
  let ?f = "\<lambda>t. fn_parameters (t_function (function_tool ord t))"
  have keyed: "map (\<lambda>(k, t). (pt_name t, ?f t)) ts = map (map_prod id ?f) ts"
    if "\<forall>(k, t) \<in> set ts. k = pt_name t" for ts
    using that by (induction ts) auto
  have "function_table (map (function_tool ord) (map snd (gc_prompt_targets C))) =
      hash_of (map (\<lambda>(k, t). (pt_name t, ?f t)) (gc_prompt_targets C))"
    by (simp add: function_table_def hash_of_def foldl_map case_prod_beta function_tool_def)
  also have "\<dots> = map (map_prod id ?f) (gc_prompt_targets C)"
    using assms by (simp add: targets_ok_def keyed hash_of_distinct)
  finally show ?thesis by (simp add: map_of_values)
qed


text \<open>A variable of the path is a required parameter of a scalar type other than a string.\<close>

definition scalar_variable :: "prompt_target \<Rightarrow> string \<Rightarrow> bool" where
  "scalar_variable t n \<longleftrightarrow>
     (\<exists>p. map_of (fd_parameters (cct_function (tool_of_target t))) n = Some p \<and> fp_required p = Some True \<and>
        fp_parameter_type p \<in> {PT_Int, PT_Float, PT_Bool})"

lemma scalar_kinds:
  "is_i64 v \<or> is_u64 v \<or> is_f64 v \<Longrightarrow> \<exists>n. v = JNumber n" "is_boolean v \<Longrightarrow> \<exists>b. v = JBool b"
  using number_kinds [of v] by (auto simp: is_number_def split: json.splits)

lemma scalar_value:
  assumes "validate_or_convert_parameter V v (parameter_type_name ty) = Inr True" "ty \<in> {PT_Int, PT_Float, PT_Bool}"
  shows "tool_param_text P v \<noteq> None"
proof -
  have "(\<exists>n. v = JNumber n) \<or> (\<exists>b. v = JBool b)"
  proof (cases "check_value_type v (parameter_type_name ty)")
    case True
    then show ?thesis using assms(2) scalar_kinds by (auto simp: check_value_type_def)
  next
    case False
    then show ?thesis
    proof (cases "as_i64 v")
      case None
      then show ?thesis using False assms
        by (auto simp: validate_or_convert_parameter_def convert_data_type_def)
    next
      case (Some i)
      then have "is_i64 v" by (simp add: is_i64_def)
      then show ?thesis using scalar_kinds by blast
    qed
  qed
  then show ?thesis by (auto simp: tool_param_text_def)
qed

lemma filter_tool_params_keys:
  assumes "n \<in> fst ` set m" "\<And>v. (n, v) \<in> set m \<Longrightarrow> tool_param_text P v \<noteq> None"
  shows "map_of (filter_tool_params P (Some m)) n \<noteq> None"
proof -
  from assms obtain v t where "(n, v) \<in> set m" "tool_param_text P v = Some t" by fastforce
  then have "(n, t) \<in> set (List.map_filter (\<lambda>(k, v). map_option (Pair k) (tool_param_text P v)) m)"
    by (force simp: List.map_filter_def)
  then show ?thesis
    by (auto simp: filter_tool_params_def map_of_hash_of map_of_eq_None_iff intro: rev_image_eqI)
qed


lemma property_listed:
  assumes "order_ok ord"
  shows "\<exists>props. Option.bind (json_get (function_parameters_to_json ord ps) ''properties'') as_object = Some props \<and>
    (\<forall>n. map_of props n = map_option function_parameter_to_json (map_of ps n))"
  using assms by (auto simp: function_parameters_to_json_def Let_def map_of_values map_of_hash_entries)

lemma required_listed:
  assumes "order_ok ord" "map_of ps n = Some p" "fp_required p = Some True"
  shows "\<exists>rs. Option.bind (json_get (function_parameters_to_json ord ps) ''required'') as_array = Some rs \<and> JString n \<in> set rs"
proof -
  from assms have "map_of (hash_entries ord ps) n = Some p" by (simp add: map_of_hash_entries)
  then have n: "n \<in> set (map fst (filter (\<lambda>(k, p). fp_required p = Some True) (hash_entries ord ps)))"
    using assms(3) by (force dest: map_of_SomeD)
  then have "map fst (filter (\<lambda>(k, p). fp_required p = Some True) (hash_entries ord ps)) \<noteq> []" by force
  with n show ?thesis unfolding function_parameters_to_json_def Let_def by (simp only: if_False) force
qed

lemma parameter_type_written:
  "Option.bind (json_get (function_parameter_to_json p) ''type'') as_str = Some (parameter_type_name (fp_parameter_type p))"
  by (simp add: function_parameter_to_json_def)

lemma hash_of_subset: "set (hash_of kvs) \<subseteq> set kvs"
proof
  fix kv assume "kv \<in> set (hash_of kvs)"
  then have "map_of (hash_of kvs) (fst kv) = Some (snd kv)" by (simp add: map_of_eq_Some_iff)
  then have "map_of (rev kvs) (fst kv) = Some (snd kv)" by (simp only: map_of_hash_of)
  then show "kv \<in> set kvs" by (cases kv) (auto dest: map_of_SomeD)
qed

lemma hash_of_keys: "fst ` set (hash_of kvs) = fst ` set kvs"
  using map_of_hash_of [of kvs] by (metis dom_map_of_conv_image_fst set_rev)

text \<open>The values that a verified call gives to the variables of the path become parameters.\<close>

lemma verified_value:
  assumes "order_ok ord" "call_ok V types tools tc" "scalar_variable t n"
    and "map_of (function_table tools) (fc_name (tc_function tc)) = Some (fn_parameters (t_function (function_tool ord t)))"
  shows "map_of (filter_tool_params P (call_arguments (ve_codec V) (fc_arguments (tc_function tc)))) n \<noteq> None"
proof -
  let ?ps = "fd_parameters (cct_function (tool_of_target t))"
  from assms(2) obtain args params where args: "json_parse (ve_codec V) (fc_arguments (tc_function tc)) = Inr (JObject args)"
    and params: "map_of (function_table tools) (fc_name (tc_function tc)) = Some params"
    and req: "\<forall>required p. Option.bind (json_get params ''required'') as_array = Some required \<longrightarrow>
        JString p \<in> set required \<longrightarrow> map_of args p \<noteq> None"
    and declared: "\<forall>properties. Option.bind (json_get params ''properties'') as_object = Some properties \<longrightarrow>
        (\<forall>(n, v) \<in> set args. parameter_ok V types properties n v)"
    unfolding call_ok_def by blast
  have written: "params = function_parameters_to_json ord ?ps"
    using params assms(4) by (simp add: function_tool_def)
  note required = req [unfolded written, rule_format] and properties = declared [unfolded written, rule_format]
  from assms(3) obtain p where p: "map_of ?ps n = Some p" "fp_required p = Some True"
      "fp_parameter_type p \<in> {PT_Int, PT_Float, PT_Bool}"
    by (auto simp: scalar_variable_def)
  have "n \<in> fst ` set args"
    using required required_listed [OF assms(1) p(1,2)] map_of_eq_None_iff [of args n] by blast
  moreover have "tool_param_text P v \<noteq> None" if "(n, v) \<in> set args" for v
  proof -
    from property_listed [OF assms(1), of ?ps] obtain props where
      props: "Option.bind (json_get (function_parameters_to_json ord ?ps) ''properties'') as_object = Some props"
        "map_of props n = Some (function_parameter_to_json p)"
      using p(1) by auto
    from properties [OF props(1) that] have "parameter_ok V types props n v" by simp
    then have "validate_or_convert_parameter V v (parameter_type_name (fp_parameter_type p)) = Inr True"
      by (simp add: parameter_ok_def props(2) parameter_type_written)
    then show ?thesis by (rule scalar_value) (rule p(3))
  qed
  ultimately show ?thesis
    unfolding call_arguments_def args
    using filter_tool_params_keys [of n "hash_of args" P] hash_of_subset [of args] by (auto simp: hash_of_keys)
qed

text \<open>
  (C21) A call that Brightstaff verified against the prompt targets reaches its endpoint, provided that
  the endpoints of all targets are asked by GET and every variable of their paths is a required
  parameter of a numeric or boolean type: the gateway finds the target and its endpoint, every variable
  of the path has a value, nothing panics, and the call to that endpoint is dispatched with the filled
  path, with the query after it, as the URL library resolves it; only if the library rejects
  that URL, or the proxy the call, is the answer an error instead.
\<close>

theorem verified_call_reaches_endpoint:
  assumes "targets_ok C" "order_ok ord" "ve_codec V = ge_codec E"
    and "call_ok V types (map (function_tool ord) (map snd (gc_prompt_targets C))) tc"
    and "\<And>t. t \<in> snd ` set (gc_prompt_targets C) \<Longrightarrow>
      \<exists>ep ss. pt_endpoint t = Some ep \<and> ed_method ep \<noteq> Some EM_Post \<and> ed_path ep = Some (template ss) \<and>
        list_all plain_segment ss \<and> (\<forall>n \<in> set (variables ss). scalar_variable t n)"
  shows "\<exists>t ep path vars tail. map_of (gc_prompt_targets C) (fc_name (tc_function tc)) = Some t \<and> pt_endpoint t = Some ep \<and>
    fill_scan (ge_path E) (filter_tool_params (ge_path E) (call_arguments (ge_codec E) (fc_arguments (tc_function tc))))
      [] [] [] False (the (ed_path ep)) = Inr (path, vars) \<and>
    schedule_api_call_request E C (gateway_call tc) cc ctx = Some
      (case pe_join (ge_path E) (path @ tail) of
         Inl e \<Rightarrow> (ctx, [send_server_error (SE_BadRequest (''error computing api request path or body: '' @ e)) (Some 400)])
       | Inr (p, q) \<Rightarrow>
           let url = p @ ''?'' @ (case q of Some q \<Rightarrow> q | None \<Rightarrow> []);
               cc' = cc\<lparr>sc_upstream_cluster := Some (ed_name ep), sc_upstream_cluster_path := Some url,
                 sc_handler := RH_FunctionCall\<rparr>;
               args = api_call_args E ctx ep EM_Get url None
           in (case ge_dispatch E args of
                 Inr token \<Rightarrow> (ctx\<lparr>px_callouts := AList.update token cc' (px_callouts ctx)\<rparr>, [HA_Call token args])
               | Inl status \<Rightarrow> (ctx, [send_server_error (SE_HttpDispatch
                   \<lparr>ce_upstream_name = ca_upstream args, ce_path = ca_path args, ce_internal_status = status\<rparr>) (Some 400)])))"
proof -
  let ?name = "fc_name (tc_function tc)"
  from assms(4) obtain params where
    "map_of (function_table (map (function_tool ord) (map snd (gc_prompt_targets C)))) ?name = Some params"
    by (auto simp: call_ok_def)
  then obtain t where t: "map_of (gc_prompt_targets C) ?name = Some t"
    and table: "map_of (function_table (map (function_tool ord) (map snd (gc_prompt_targets C)))) ?name =
      Some (fn_parameters (t_function (function_tool ord t)))"
    unfolding function_table_targets [OF assms(1)] by auto
  from t have "t \<in> snd ` set (gc_prompt_targets C)" by (force dest: map_of_SomeD)
  from assms(5) [OF this] obtain ep ss where ep: "pt_endpoint t = Some ep" "ed_method ep \<noteq> Some EM_Post"
      "ed_path ep = Some (template ss)" "list_all plain_segment ss" "\<forall>n \<in> set (variables ss). scalar_variable t n"
    by blast
  let ?params = "filter_tool_params (ge_path E) (call_arguments (ge_codec E) (fc_arguments (tc_function tc)))"
  have "map_of ?params n \<noteq> None" if "n \<in> set (variables ss)" for n
    using verified_value [OF assms(2,4) _ table, of n] ep(5) that assms(3) by simp
  then have "find (\<lambda>n. map_of ?params n = None) (variables ss) = None"
    by (auto simp: find_None_iff)
  then have "fill_scan (ge_path E) ?params [] [] [] False (template ss) =
      Inr (filled (ge_path E) ?params ss, rev (variables ss))"
    by (simp add: template_filled [OF ep(4)])
  note fill = this
  let ?tps = "case pt_parameters t of Some ps \<Rightarrow> ps | None \<Rightarrow> []"
  obtain tail ps where url: "request_url (ge_path E) (template ss) ?params ?tps =
      Inr (filled (ge_path E) ?params ss @ tail, ps)"
    using request_url_extends [OF fill] by blast
  have get: "(case ed_method ep of Some m \<Rightarrow> m | None \<Rightarrow> EM_Get) = EM_Get"
    using ep(2) by (auto split: option.split intro: endpoint_method.exhaust)
  show ?thesis
    using t ep(1,3) fill
    by (intro exI [of _ t] exI [of _ ep] exI [of _ "filled (ge_path E) ?params ss"]
          exI [of _ "rev (variables ss)"] exI [of _ tail])
       (auto simp: schedule_api_call_request_def gateway_call_def compute_request_path_body_def get url
          replace_params_request_url call_or_error_def http_call_def Let_def split: sum.split)
qed


subsection \<open>Examples\<close>

definition hi_request :: gw_request where
  "hi_request = \<lparr>gq_model = ''m'', gq_messages = [gw_message_new USER_ROLE ''Hi''], gq_tools = None, gq_stream = False,
     gq_stream_options = None, gq_metadata = None\<rparr>"

definition math_env :: gateway_env where
  "math_env = \<lparr>ge_path = sample_path, ge_dispatch = (\<lambda>_. Inr 7), ge_shape_error = (\<lambda>_. ''shape''), ge_now_nanos = 0\<rparr>"

text \<open>An environment in which every text is the given JSON.\<close>

definition reading :: "json \<Rightarrow> gateway_env" where
  "reading j = math_env\<lparr>ge_path := sample_path\<lparr>pe_codec := \<lparr>json_print = (\<lambda>_. []), json_parse = (\<lambda>_. Inr j)\<rparr>\<rparr>\<rparr>"

lemma order_ok_id [simp]: "order_ok (\<lambda>ks. ks)" "order_ok id"
  by (simp_all add: order_ok_def)

lemma reading_request: "read_body (reading (gw_request_to_json id hi_request)) gw_request_of_json t = Inr hi_request"
  using gw_request_json [of hi_request id]
  by (simp add: read_body_def reading_def math_env_def sample_path_def hi_request_def)

lemma hi_run_start:
  "\<exists>ctx cc. prompt_run gw_config_new ctx [HA_Call 7 (fc_call_args ctx [])] \<and> px_callouts ctx = [(7, cc)] \<and>
     sc_handler cc = RH_ArchFC \<and> px_chat_completions_request ctx = Some hi_request"
proof -
  let ?E = "reading (gw_request_to_json id hi_request)"
  let ?m = "gw_message_new USER_ROLE ''Hi''"
  let ?ctx = "prompt_context_new\<lparr>px_request_body_size := 1, px_arch_state := None, px_streaming_response := False,
    px_user_prompt := Some ?m, px_chat_completions_request := Some hi_request\<rparr>"
  obtain cc where "ask_function_model ?E gw_config_new hi_request ?m ?ctx =
      (?ctx\<lparr>px_callouts := [(7, cc)]\<rparr>, [HA_Call 7 (fc_call_args ?ctx [])])" and cc: "sc_handler cc = RH_ArchFC"
    by (simp add: ask_function_model_def gw_message_new_def call_or_error_def http_call_def reading_def math_env_def
        sample_path_def prompt_context_new_def)
  then have "pg_request_body ?E gw_config_new 1 True (Some []) prompt_context_new =
      Some (?ctx\<lparr>px_callouts := [(7, cc)]\<rparr>, [HA_Call 7 (fc_call_args ?ctx [])], A_Pause)"
    using reading_request [of "[]"]
    by (simp add: pg_request_body_def hi_request_def gw_message_new_def read_arch_state_def prompt_context_new_def)
  from run_start [OF this] show ?thesis using cc
    by (intro exI [of _ "?ctx\<lparr>px_callouts := [(7, cc)]\<rparr>"] exI [of _ cc])
      (simp add: fc_call_args_def prompt_context_new_def)
qed

theorem settled_exactly_once_witness:
  "\<exists>ctx acts. prompt_run gw_config_new ctx acts \<and> HA_ResumeRequest \<in> set acts \<and>
     length (filter settles acts) + length (px_callouts ctx) = 1 \<and> length (filter calls_out acts) \<le> 2"
proof -
  obtain ctx cc where run: "prompt_run gw_config_new ctx [HA_Call 7 (fc_call_args ctx [])]" "px_callouts ctx = [(7, cc)]"
      "sc_handler cc = RH_ArchFC" "px_chat_completions_request ctx = Some hi_request"
    using hi_run_start by blast
  let ?E = "reading (JObject [(''choices'', JArray []), (''model'', JString [])])"
  have "read_body ?E gw_response_of_json [] = Inr \<lparr>gres_usage = None, gres_choices = [], gres_model = [], gres_metadata = None\<rparr>"
    by (simp add: read_body_def reading_def math_env_def sample_path_def gw_response_of_json_def de_field_def de_opt_def
        de_list_def)
  moreover have "valid_utf8 []" by (simp add: valid_utf8_def)
  ultimately obtain ctx' b where answer:
      "pg_call_response ?E gw_config_new 7 None [] ctx = Some (ctx', [HA_SetRequestBody b [], HA_ResumeRequest])"
    using run by (simp add: pg_call_response_def Let_def handle_call_response_def arch_fc_response_handler_def
        check_intent_matched_def first_message_def no_intent_matched_def default_target_def gw_config_new_def resume_with_def
        reading_def math_env_def sample_path_def)
  from run_answer [OF run(1) answer] settled_exactly_once [OF run_answer [OF run(1) answer]] show ?thesis
    by (intro exI conjI) (assumption, simp_all)
qed


definition both_flags :: gw_config where
  "both_flags = gw_config_new\<lparr>gc_overrides :=
     Some \<lparr>ov_optimize_context_window = Some True, ov_use_agent_orchestrator = Some True\<rparr>\<rparr>"

theorem orchestrator_flag_never_arrives_witness:
  "let req = add_request\<lparr>cr_metadata := brightstaff_metadata (fc_request both_flags hi_request)\<rparr>
   in override_flag ov_use_agent_orchestrator both_flags \<and> \<not> use_agent_orchestrator req \<and> optimize_context (cr_metadata req)"
  using orchestrator_flag_never_arrives [of "add_request\<lparr>cr_metadata := brightstaff_metadata (fc_request both_flags hi_request)\<rparr>"
      both_flags hi_request]
  by (simp add: Let_def override_flag_def both_flags_def)

definition called_context :: prompt_context where
  "called_context = prompt_context_new\<lparr>px_tool_calls := Some [gateway_call (add_call [])], px_tool_call_response := Some ''5''\<rparr>"

theorem returned_state_panics_witness:
  "\<exists>s. pg_request_body math_env gw_config_new 1 True (Some (json_print escaped_json (gw_request_to_json id
     (hi_request\<lparr>gq_metadata := Some [(X_ARCH_STATE_HEADER, s)]\<rparr>)))) prompt_context_new = None"
proof -
  let ?ctx = called_context
  obtain ms where ms: "generate_api_response_message ?ctx = Some ms"
    by (simp add: generate_api_response_message_def called_context_def)
  let ?md = "response_metadata escaped_json ?ctx ms []"
  have response: "annotated_response escaped_json ?ctx [] = Some (JObject [(''metadata'', JObject ?md)])"
    by (simp add: annotated_response_def ms object_insert_def)
  obtain s where s: "map_of ?md X_ARCH_STATE_HEADER = Some (JString s)" by (simp add: state_written)
  let ?r = "hi_request\<lparr>gq_metadata := Some [(X_ARCH_STATE_HEADER, s)]\<rparr>"
  have codec: "ge_codec math_env = escaped_json" by (simp add: math_env_def sample_path_def)
  have ok: "json_codec_ok (ge_codec math_env)" by (simp add: codec)
  have "gw_request_of_json (gw_request_to_json id ?r) = Some ?r"
    using gw_request_json [of ?r id] by (simp add: hi_request_def hash_entries_def)
  then have read: "read_body math_env gw_request_of_json (json_print escaped_json (gw_request_to_json id ?r)) = Inr ?r"
    by (simp add: read_body_def codec json_codec_okD [OF escaped_json_ok])
  have "pg_request_body math_env gw_config_new 1 True
      (Some (json_print escaped_json (gw_request_to_json id ?r))) prompt_context_new = None"
    by (rule returned_state_panics [OF ok _ response [folded codec] _ s [folded codec] read, where rmd = "[(X_ARCH_STATE_HEADER, s)]"])
      simp_all
  then show ?thesis by blast
qed

definition add_target :: prompt_target where
  "add_target = \<lparr>pt_name = ''add'', pt_default = None, pt_description = ''adds'',
     pt_endpoint = Some \<lparr>ed_name = ''math'', ed_path = Some (template [Lit ''/add/'', Var ''x'']), ed_method = None,
       ed_http_headers = None\<rparr>,
     pt_parameters = Some [\<lparr>tp_name = ''x'', tp_parameter_type = Some ''int'', tp_description = [], tp_required = Some True,
       tp_enum_values = None, tp_default = None, tp_in_path = None, tp_format = None\<rparr>],
     pt_system_prompt = None, pt_auto_llm_dispatch_on_response = None\<rparr>"

definition math_config :: gw_config where
  "math_config = gw_config_new\<lparr>gc_prompt_targets := [(''add'', add_target)]\<rparr>"

lemma int_five: "is_i64 (JNumber ''5'')"
  by (simp add: is_i64_def as_i64_def json_int_def number_int_def is_digit_def decimal_value_def)

lemma add_target_call_ok:
  "call_ok sample_verify SUPPORT_DATA_TYPES [function_tool id add_target] (add_call [(''x'', JNumber ''5'')])"
proof -
  have p: "json_parse escaped_json (json_print escaped_json j) = Inr j" for j
    by (rule json_codec_okD [OF escaped_json_ok])
  have "validate_or_convert_parameter sample_verify (JNumber ''5'') ''int'' = Inr True"
    by (simp add: validate_or_convert_parameter_def check_value_type_def int_five)
  then have "parameter_ok sample_verify SUPPORT_DATA_TYPES
      [(''x'', function_parameter_to_json (function_parameter_of (hd (the (pt_parameters add_target)))))] ''x'' (JNumber ''5'')"
    by (simp add: parameter_ok_def function_parameter_to_json_def function_parameter_of_def parameter_type_of_def
        add_target_def SUPPORT_DATA_TYPES_def)
  moreover have "ve_codec sample_verify = escaped_json" by (simp add: sample_verify_def)
  ultimately show ?thesis
    by (simp add: call_ok_def p add_call_def function_table_def function_tool_def tool_of_target_def add_target_def
        function_parameters_to_json_def hash_entries_def hash_of_def Let_def)
qed

definition hi_call :: call_context where
  "hi_call = \<lparr>sc_handler = RH_ArchFC, sc_user_message = None, sc_prompt_target_name = None, sc_request_body = hi_request,
     sc_upstream_cluster = None, sc_upstream_cluster_path = None\<rparr>"

theorem verified_call_reaches_endpoint_witness:
  "\<exists>path vars. fill_scan sample_path
       (filter_tool_params sample_path (call_arguments escaped_json (fc_arguments (tc_function (add_call [(''x'', JNumber ''5'')])))))
       [] [] [] False (template [Lit ''/add/'', Var ''x'']) = Inr (path, vars) \<and>
     schedule_api_call_request math_env math_config (gateway_call (add_call [(''x'', JNumber ''5'')])) hi_call prompt_context_new \<noteq> None"
proof -
  have "targets_ok math_config" by (simp add: targets_ok_def math_config_def add_target_def)
  moreover have "ve_codec sample_verify = ge_codec math_env" by (simp add: sample_verify_def math_env_def sample_path_def)
  moreover have "call_ok sample_verify SUPPORT_DATA_TYPES
      (map (function_tool id) (map snd (gc_prompt_targets math_config))) (add_call [(''x'', JNumber ''5'')])"
    using add_target_call_ok by (simp add: math_config_def)
  moreover have "\<exists>ep ss. pt_endpoint t = Some ep \<and> ed_method ep \<noteq> Some EM_Post \<and> ed_path ep = Some (template ss) \<and>
      list_all plain_segment ss \<and> (\<forall>n \<in> set (variables ss). scalar_variable t n)"
    if "t \<in> snd ` set (gc_prompt_targets math_config)" for t
    using that by (intro exI [of _ "the (pt_endpoint t)"] exI [of _ "[Lit ''/add/'', Var ''x'']"])
      (simp add: math_config_def add_target_def scalar_variable_def tool_of_target_def hash_of_def function_parameter_of_def
        parameter_type_of_def)
  ultimately show ?thesis
    using verified_call_reaches_endpoint [of math_config id sample_verify math_env SUPPORT_DATA_TYPES
        "add_call [(''x'', JNumber ''5'')]" hi_call prompt_context_new]
    by (auto simp: math_config_def add_target_def math_env_def sample_path_def add_call_def)
qed

end
