(* ===== verification/Spec2Isabelle.thy ===== *)
theory Spec2Isabelle
  imports Gateway_Props Brightstaff_Request Conversation_Props Response_Props Routing_Service Prompt_Props
begin

section \<open>Overview\<close>

text \<open>
  Verification library for the Plano data plane (the Rust crates \<open>hermesllm\<close>, \<open>common\<close>,
  \<open>llm_gateway\<close>, \<open>prompt_gateway\<close> and \<open>brightstaff\<close> under \<open>crates/\<close>).

  \<^bold>\<open>The program.\<close> Plano stands between LLM clients and LLM providers. A client speaks one of
  three APIs (Chat Completions, Responses, Anthropic Messages); a provider speaks one of these or
  Amazon Bedrock. \<open>brightstaff\<close> resolves the model alias of a request, chooses an order of
  backends and retries (\<open>handlers/llm\<close>). The proxy filter \<open>llm_gateway\<close> selects the provider
  entry, rewrites path and credentials, enforces token limits and translates the response on its
  way back. The filter \<open>prompt_gateway\<close> asks the function-calling model of \<open>brightstaff\<close> which
  endpoint of the user a prompt is for, calls it and adds its answer to the prompt. \<open>hermesllm\<close> holds the data types of the APIs and the translations between them;
  \<open>common\<close> the configuration, the provider table and the rate limits.

  \<^bold>\<open>Theories, in import order.\<close>
  \<^item> \<open>Prelude\<close>: collections of hints and generic lemmas. \<open>Rust_Str\<close>: the operations of Rust's \<open>str\<close>
    and \<open>String\<close> on byte strings, UTF-8 validity, decimal printing.
  \<^item> \<open>Endpoints\<close> (\<open>clients/endpoints.rs\<close>, \<open>providers/id.rs\<close>, the API enums): which upstream API
    and path serve a client request. Lemmas: round trip of provider names, absolute paths, the
    upstream API is compatible with the chosen path.
  \<^item> \<open>Stream_Types\<close>, \<open>Stream_Transforms\<close>, \<open>Stream_Props\<close> (\<open>apis/*.rs\<close>,
    \<open>transforms/response_streaming/\<close>): event types, the translation of single events, their round
    trips and type safety.
  \<^item> \<open>Sse\<close>, \<open>Sse_Chunks\<close> (\<open>apis/streaming_shapes/sse.rs\<close>, \<open>sse_chunk_processor.rs\<close>,
    \<open>providers/streaming_response.rs\<close>): parsing of server-sent events, dispatch on the pair of
    APIs, events cut by chunk boundaries.
  \<^item> \<open>Stream_Buffer\<close>: \<open>SseStreamBufferTrait\<close> as the locales \<open>sse_stream_buffer\<close> and its
    extensions, with the accumulating buffers. \<open>Anthropic_Buffer\<close>, \<open>Anthropic_Protocol\<close>: the
    Anthropic buffer, an abstract machine it refines, and the guarantees proved of the machine.
    \<open>Responses_Buffer\<close>, \<open>Responses_Protocol\<close>, \<open>Responses_Streams\<close>: the Responses buffer,
    numbering, life cycle and whole streams.
  \<^item> \<open>Gateway_Stream\<close>, \<open>Gateway_Props\<close> (\<open>llm_gateway/src/stream_context.rs\<close>, response half): how
    the filter drives processor and buffer for every body chunk, and the buffer guarantees carried
    to the bytes of a whole response.
  \<^item> \<open>Llm_Providers\<close> (\<open>common/src/{configuration,llm_providers,routing}.rs\<close>): provider entries,
    wildcard expansion, lookup, provider hints. The table is the list of the entries' writes, the
    last winning; what selection can return.
  \<^item> \<open>Ratelimit\<close> (\<open>common/src/ratelimit.rs\<close>): limits per model and header; isolation and bounds.
  \<^item> \<open>Model_Failover\<close> (\<open>brightstaff/src/handlers/llm/{mod,health}.rs\<close>): aliases, cooldowns, the
    attempt loop. What the client gets, in which order backends are asked, recovery.
  \<^item> \<open>Gateway_Request\<close> (\<open>stream_context.rs\<close>, request half): provider selection, path, credentials
    and the rate-limit check of a request.
  \<^item> \<open>Request_Types\<close>, \<open>Request_Messages\<close>, \<open>Request_OpenAI\<close> (\<open>apis/*.rs\<close>, \<open>transforms/lib.rs\<close>,
    \<open>transforms/request/\<close>): the requests of the four APIs and their translations.
    \<open>Provider_Request\<close> (\<open>providers/request.rs\<close>): the request enum, its trait operations, parsing,
    conversion to the upstream API, normalisation. \<open>Request_Interface\<close>: the trait
    \<open>ProviderRequest\<close> as a locale, interpreted on every request type and on the enum.
    \<open>Request_Props\<close>, \<open>Request_Tools\<close>, \<open>Request_Upstream\<close>: round trip of Anthropic requests, the
    content Bedrock asks for, tool calls and results across all translations, the chosen API,
    system prompts, idempotence of normalisation. \<open>Json_Instance\<close>: an executable JSON codec that
    meets the only law assumed of \<open>serde_json\<close>, for the witnesses.
  \<^item> \<open>Brightstaff_Request\<close> (\<open>handlers/llm/mod.rs\<close>, \<open>common/src/errors.rs\<close>): the error answers, the
    preparation of a request, the input filter chain and the body of every attempt.
  \<^item> \<open>Provider_Response\<close>, \<open>Response_Props\<close> (\<open>providers/response.rs\<close>, \<open>transforms/response/\<close>): whole
    responses, their translations and usage; completeness of the dispatch, tool calls and token
    counts, round trip.
  \<^item> \<open>Conversation_Items\<close>, \<open>Conversation_State\<close>, \<open>Conversation_Contract\<close>
    (\<open>transforms/response/output_to_input.rs\<close>, \<open>brightstaff/src/state/\<close>): conversation items and
    their JSON form, the storage backends, \<open>resolve_conversation_state\<close>; the trait \<open>StateStorage\<close> as
    a locale, interpreted on the memory store and on the PostgreSQL table, and the server whose
    spawned writes interleave with reads as a step relation. \<open>Response_State\<close>: the processor that
    captures responses. \<open>Conversation_Props\<close>: what a continuing request gets, many turns, losses.
  \<^item> \<open>Session_Cache\<close> (\<open>brightstaff/src/session_cache/\<close>): the trait \<open>SessionCache\<close> as a locale that the
    memory cache and the Redis cache meet, given the laws of the LRU map and of the server.
    \<open>Model_Metrics\<close> (\<open>router/model_metrics.rs\<close>): prices and latencies and the ranking by them.
    \<open>Rust_Text\<close>, \<open>Chat_Json\<close>, \<open>Orchestrator_Model\<close> (\<open>router/orchestrator_model_v1.rs\<close>): the prompt of
    the routing model, its budget, the reading of its answer. \<open>Orchestrator_Service\<close>
    (\<open>router/orchestrator.rs\<close>, \<open>router/http.rs\<close>, \<open>handlers/llm/model_selection.rs\<close>): routes and sessions.
    \<open>Routing_Service\<close> (\<open>handlers/routing_service.rs\<close>, \<open>main.rs\<close>): the routing endpoint, the session and
    routing phase of a chat request, the dispatch of requests.
  \<^item> \<open>Function_Calling\<close>, \<open>Function_Messages\<close>, \<open>Hallucination\<close>, \<open>Function_Chat\<close>
    (\<open>handlers/function_calling.rs\<close>): reading, repair and verification of the tool calls of the
    function model, its prompt within the token budget, the detector of uncertain parameter values,
    the handler. \<open>Json_Value\<close> holds the accessors of JSON values. Only verified calls are returned;
    verification is well-formedness; the detector reports only uncertain values.
  \<^item> \<open>Prompt_Types\<close> (\<open>common/src/api/open_ai.rs\<close>), \<open>Request_Path\<close> (\<open>common/src/path.rs\<close>,
    \<open>prompt_gateway/src/tools.rs\<close>), \<open>Prompt_Gateway\<close> (\<open>prompt_gateway/src/\<close>): the filter that asks the
    function-calling model, calls the endpoint of a prompt target and sends the request on to the LLM,
    as callbacks on a context that ask the proxy for actions. \<open>Prompt_Props\<close>: its runs as a step
    relation, every request is settled exactly once; verified calls reach their endpoint; where the
    gateway and Brightstaff disagree.

  \<^bold>\<open>Conventions.\<close> A struct is a record, an enum a datatype, \<open>Result<T, E>\<close> the sum \<open>E + T\<close>, a
  \<open>String\<close> the list of its UTF-8 bytes, \<open>u32\<close>/\<open>i32\<close> a \<open>32 word\<close> and \<open>u64\<close>/\<open>i64\<close> a \<open>64 word\<close>
  (arithmetic wraps as in a release build), \<open>f32\<close> its bit pattern. A panic (\<open>unwrap\<close>, \<open>expect\<close>, an
  index out of range) is an explicit value. Hash maps are association lists where their order can
  show; the order of iteration is then a parameter.

  \<^bold>\<open>Parameters.\<close> Code outside the repository is an argument: the JSON library (record \<open>codec\<close>), the
  clock, UUIDs, the order of hash maps, the Bedrock frame decoder, the parsed
  \<open>provider_models.yaml\<close>, the limiter of the \<open>governor\<close> crate, the shuffle, the HTTP client, the
  proxy's header map, the tokenizer, the agents of the filter chain, the parsers and printers of
  whole requests and responses (records \<open>request_codec\<close> and \<open>response_codec\<close>), JSON values as texts
  (record \<open>json_codec\<close>, with the law that what was printed is read back), gzip, the answers of
  the database, the LRU map, the Redis server, the pretty printer and floating-point arithmetic.

  \<^bold>\<open>Bounds.\<close> No definition uses fuel; every loop is a recursion with a termination proof. The
  sequence numbers of the Responses stream are \<open>i32\<close>, so the numbering lemmas are stated modulo
  the word.

  \<^bold>\<open>Not modelled.\<close> Start-up, HTTP plumbing, tracing and metrics, which only observe; the TLS
  connector of the database. Still to come: the agents pipeline and the signals.
\<close>

end
